(* ===== verification/Prelude.thy ===== *)
theory Prelude
  imports Main "HOL-Library.Char_ord" "HOL-Library.List_Lexorder"
begin

text \<open>
  The part of the ECMAScript standard library that the modelled modules use: strings, numbers
  printed and parsed, and the collation order of \<open>localeCompare\<close>.

  Conventions. A JavaScript string is a list of characters; on ASCII text a \<open>char\<close> is
  one UTF-16 code unit. The few literals of the source that are not ASCII (an ellipsis, an arrow, a
  non-breaking hyphen) are spelled by their UTF-8 bytes under a name of their own. Integral
  \<open>number\<close>s are \<open>int\<close> or \<open>nat\<close>; \<open>undefined\<close> and \<open>null\<close> are \<open>None\<close>.
\<close>

named_theorems js_eval \<open>definitions that evaluate a string operation on literals\<close>
named_theorems js_len \<open>length bounds used by termination proofs\<close>
named_theorems js_trims \<open>facts on trimmed strings\<close>

section \<open>Characters\<close>

definition code :: "char \<Rightarrow> nat" where
  "code c = of_char c"

definition is_digit :: "char \<Rightarrow> bool" where
  "is_digit c \<longleftrightarrow> 48 \<le> code c \<and> code c \<le> 57"

definition is_upper :: "char \<Rightarrow> bool" where
  "is_upper c \<longleftrightarrow> 65 \<le> code c \<and> code c \<le> 90"

definition is_lower :: "char \<Rightarrow> bool" where
  "is_lower c \<longleftrightarrow> 97 \<le> code c \<and> code c \<le> 122"

definition is_word :: "char \<Rightarrow> bool" where
  "is_word c \<longleftrightarrow> is_digit c \<or> is_upper c \<or> is_lower c \<or> c = CHR ''_''"

text \<open>White space: tab, line feed, vertical tab, form feed, carriage return, space.\<close>

definition is_space :: "char \<Rightarrow> bool" where
  "is_space c \<longleftrightarrow> (9 \<le> code c \<and> code c \<le> 13) \<or> code c = 32"

definition lower_char :: "char \<Rightarrow> char" where
  "lower_char c = (if is_upper c then char_of (code c + 32) else c)"

definition to_lower :: "string \<Rightarrow> string" where
  "to_lower = map lower_char"

definition newline :: string where
  "newline = [CHR 0x0A]"

definition ellipsis :: string where
  "ellipsis = [CHR 0xE2, CHR 0x80, CHR 0xA6]"

definition arrow :: string where
  "arrow = [CHR 0xE2, CHR 0x86, CHR 0x92]"

definition em_dash :: string where
  "em_dash = [CHR 0xE2, CHR 0x80, CHR 0x94]"

definition middle_dot :: string where
  "middle_dot = [CHR 0xC2, CHR 0xB7]"

definition nb_hyphen :: string where
  "nb_hyphen = [CHR 0xE2, CHR 0x80, CHR 0x91]"

section \<open>String operations\<close>

definition starts_with :: "string \<Rightarrow> string \<Rightarrow> bool" where
  "starts_with p s \<longleftrightarrow> take (length p) s = p"

definition ends_with :: "string \<Rightarrow> string \<Rightarrow> bool" where
  "ends_with p s \<longleftrightarrow> starts_with (rev p) (rev s)"

fun contains :: "string \<Rightarrow> string \<Rightarrow> bool" where
  "contains p [] \<longleftrightarrow> p = []"
| "contains p (c # s) \<longleftrightarrow> starts_with p (c # s) \<or> contains p s"

definition trim_start :: "string \<Rightarrow> string" where
  "trim_start = dropWhile is_space"

definition trim_end :: "string \<Rightarrow> string" where
  "trim_end s = rev (dropWhile is_space (rev s))"

definition trim :: "string \<Rightarrow> string" where
  "trim s = trim_end (trim_start s)"

text \<open>\<open>s.split(c)\<close> on a one-character separator; the result is never empty.\<close>

fun split_char :: "char \<Rightarrow> string \<Rightarrow> string list" where
  "split_char c [] = [[]]"
| "split_char c (x # xs) =
     (if x = c then [] # split_char c xs
      else (case split_char c xs of [] \<Rightarrow> [[x]] | w # ws \<Rightarrow> (x # w) # ws))"

fun join :: "string \<Rightarrow> string list \<Rightarrow> string" where
  "join sep [] = []"
| "join sep [x] = x"
| "join sep (x # y # ys) = x @ sep @ join sep (y # ys)"

text \<open>\<open>s.indexOf(c)\<close> of one character: \<open>None\<close> is the source's \<open>-1\<close>.\<close>

fun index_of :: "char \<Rightarrow> string \<Rightarrow> nat option" where
  "index_of c [] = None"
| "index_of c (x # xs) = (if x = c then Some 0 else map_option Suc (index_of c xs))"

text \<open>\<open>s.replace(/c/g, t)\<close> of one character.\<close>

definition replace_char :: "char \<Rightarrow> string \<Rightarrow> string \<Rightarrow> string" where
  "replace_char c t s = concat (map (\<lambda>x. if x = c then t else [x]) s)"

text \<open>\<open>s.replace(p, t)\<close> of the first occurrence of a text, for a replacement without dollar signs.\<close>

fun replace_text :: "string \<Rightarrow> string \<Rightarrow> string \<Rightarrow> string" where
  "replace_text p t [] = (if p = [] then t else [])"
| "replace_text p t (c # s) =
     (if starts_with p (c # s) then t @ drop (length p) (c # s) else c # replace_text p t s)"

text \<open>\<open>s.indexOf(p)\<close> of a text: the text before the first occurrence and the text behind it.\<close>

fun cut_at :: "string \<Rightarrow> string \<Rightarrow> (string \<times> string) option" where
  "cut_at p [] = (if p = [] then Some ([], []) else None)"
| "cut_at p (c # s) =
     (if starts_with p (c # s) then Some ([], drop (length p) (c # s))
      else map_option (\<lambda>(a, b). (c # a, b)) (cut_at p s))"

text \<open>\<open>xs.filter(Boolean)\<close> and \<open>xs.find\<close>.\<close>

definition nonempty :: "string list \<Rightarrow> string list" where
  "nonempty = filter (\<lambda>s. s \<noteq> [])"

text \<open>\<open>s || undefined\<close>: an empty string is falsy.\<close>

definition truthy :: "string option \<Rightarrow> string option" where
  "truthy s = (case s of Some [] \<Rightarrow> None | _ \<Rightarrow> s)"

definition or_else :: "'a option \<Rightarrow> 'a option \<Rightarrow> 'a option" where
  "or_else a b = (case a of None \<Rightarrow> b | Some _ \<Rightarrow> a)"

definition get_or :: "'a \<Rightarrow> 'a option \<Rightarrow> 'a" where
  "get_or d a = (case a of None \<Rightarrow> d | Some x \<Rightarrow> x)"

definition indexed :: "'a list \<Rightarrow> (nat \<times> 'a) list" where
  "indexed xs = zip [0..<length xs] xs"

section \<open>Numbers as text\<close>

definition digit_char :: "nat \<Rightarrow> char" where
  "digit_char d = (if d < 10 then char_of (48 + d) else char_of (87 + d))"

text \<open>\<open>n.toString(base)\<close> of a natural number.\<close>

fun num_str :: "nat \<Rightarrow> nat \<Rightarrow> string" where
  "num_str b n = (if n < b \<or> b < 2 then [digit_char n]
                  else num_str b (n div b) @ [digit_char (n mod b)])"

declare num_str.simps [simp del]

definition nat_str :: "nat \<Rightarrow> string" where
  "nat_str n = num_str 10 n"

definition int_str :: "int \<Rightarrow> string" where
  "int_str i = (if i < 0 then CHR ''-'' # nat_str (nat (- i)) else nat_str (nat i))"

definition digit_val :: "char \<Rightarrow> nat option" where
  "digit_val c =
     (if is_digit c then Some (code c - 48)
      else if is_lower c then Some (code c - 87)
      else if is_upper c then Some (code c - 55)
      else None)"

definition digit_in :: "nat \<Rightarrow> char \<Rightarrow> bool" where
  "digit_in b c \<longleftrightarrow> (case digit_val c of None \<Rightarrow> False | Some d \<Rightarrow> d < b)"

definition digits_val :: "nat \<Rightarrow> string \<Rightarrow> nat" where
  "digits_val b s = foldl (\<lambda>a c. a * b + the (digit_val c)) 0 s"

text \<open>
  \<open>Number.parseInt(s, base)\<close>: leading white space, a sign, for base 16 a \<open>0x\<close> prefix, then the
  longest run of digits; \<open>NaN\<close> is \<open>None\<close>.
\<close>

definition strip_0x :: "nat \<Rightarrow> string \<Rightarrow> string" where
  "strip_0x b s = (if b = 16 \<and> (starts_with ''0x'' s \<or> starts_with ''0X'' s) then drop 2 s else s)"

definition parse_nat :: "nat \<Rightarrow> string \<Rightarrow> nat option" where
  "parse_nat b s =
     (let ds = takeWhile (digit_in b) (strip_0x b s)
      in if ds = [] then None else Some (digits_val b ds))"

definition parse_int :: "nat \<Rightarrow> string \<Rightarrow> int option" where
  "parse_int b s =
     (let t = trim_start s
      in if starts_with ''-'' t then map_option (\<lambda>n. - int n) (parse_nat b (drop 1 t))
         else if starts_with ''+'' t then map_option int (parse_nat b (drop 1 t))
         else map_option int (parse_nat b t))"

text \<open>
  \<open>(n / 2^k).toFixed(d)\<close> for a natural number: the quotient is exact in a double, and
  \<open>toFixed\<close> takes the larger of two equally near decimals, so halves round up. The decimals are
  padded with zeros on the left.
\<close>

definition pad_zeros :: "nat \<Rightarrow> string \<Rightarrow> string" where
  "pad_zeros w s = replicate (w - length s) (CHR ''0'') @ s"

definition to_fixed :: "nat \<Rightarrow> nat \<Rightarrow> nat \<Rightarrow> string" where
  "to_fixed d n q =
     (let m = (2 * 10 ^ d * n + q) div (2 * q)
      in nat_str (m div 10 ^ d) @ ''.'' @ pad_zeros d (nat_str (m mod 10 ^ d)))"

section \<open>Collation\<close>

text \<open>
  \<open>a.localeCompare(b, undefined, \<open>sensitivity: base\<close>)\<close> compares primary weights only. For ASCII the
  root collation orders white space, punctuation, symbols, digits and letters as listed, and ignores
  the case of letters; any other character sorts with the hyphen of the UTF-8 spelled literals.
\<close>

definition collation_order :: string where
  "collation_order = '' _-,;:!?.'' @ [CHR 0x27, CHR 0x22] @ ''()[]{}@*/'' @ [CHR 0x5C] @ ''&#%'' @ [CHR 0x60]
     @ ''^+<=>|~$0123456789abcdefghijklmnopqrstuvwxyz''"

definition weight :: "char \<Rightarrow> nat" where
  "weight c = (case index_of (lower_char c) collation_order of Some i \<Rightarrow> i | None \<Rightarrow> 2)"

datatype collation_key = CollationKey (weights: "nat list")

instantiation collation_key :: linorder
begin
definition less_eq_collation_key :: "collation_key \<Rightarrow> collation_key \<Rightarrow> bool" where
  "less_eq_collation_key a b \<longleftrightarrow> weights a \<le> weights b"
definition less_collation_key :: "collation_key \<Rightarrow> collation_key \<Rightarrow> bool" where
  "less_collation_key a b \<longleftrightarrow> weights a < weights b"
instance
  by intro_classes
    (auto simp: less_eq_collation_key_def less_collation_key_def collation_key.expand)
end

definition collate :: "string \<Rightarrow> collation_key" where
  "collate s = CollationKey (map weight s)"

declare code_def [js_eval] is_digit_def [js_eval] is_upper_def [js_eval] is_lower_def [js_eval]
  is_word_def [js_eval] is_space_def [js_eval] lower_char_def [js_eval] to_lower_def [js_eval]
  char_of_def [js_eval] starts_with_def [js_eval] ends_with_def [js_eval] trim_start_def [js_eval]
  trim_end_def [js_eval] trim_def [js_eval] replace_char_def [js_eval] nonempty_def [js_eval]
  truthy_def [js_eval] or_else_def [js_eval] get_or_def [js_eval] indexed_def [js_eval]
  digit_char_def [js_eval] nat_str_def [js_eval] int_str_def [js_eval] digit_val_def [js_eval]
  digit_in_def [js_eval] digits_val_def [js_eval] strip_0x_def [js_eval] parse_nat_def [js_eval]
  parse_int_def [js_eval] pad_zeros_def [js_eval] to_fixed_def [js_eval] newline_def [js_eval]
  ellipsis_def [js_eval] arrow_def [js_eval] em_dash_def [js_eval] middle_dot_def [js_eval]
  nb_hyphen_def [js_eval]

section \<open>Lemmas on strings\<close>

lemma starts_with_iff: "starts_with p s \<longleftrightarrow> (\<exists>r. s = p @ r)"
  unfolding starts_with_def by (metis append_eq_conv_conj append_take_drop_id)

lemma starts_with_append [simp]: "starts_with p (p @ r)"
  by (auto simp: starts_with_iff)

lemma starts_with_drop: "starts_with p s \<Longrightarrow> s = p @ drop (length p) s"
  unfolding starts_with_def by (metis append_take_drop_id)

lemma trim_start_length [js_len]: "length (trim_start s) \<le> length s"
  by (simp add: trim_start_def length_dropWhile_le)

lemma trim_end_length [js_len]: "length (trim_end s) \<le> length s"
  by (metis trim_end_def length_dropWhile_le length_rev)

lemma trim_length [js_len]: "length (trim s) \<le> length s"
  unfolding trim_def using trim_start_length trim_end_length le_trans by blast

lemma dropWhile_less [termination_simp]: "length (dropWhile P s) < Suc (length s)"
  by (simp add: length_dropWhile_le less_Suc_eq_le)

lemma dropWhile_hd: "dropWhile P s = c # t \<Longrightarrow> \<not> P c"
  by (metis hd_dropWhile list.discI list.sel(1))

lemma trim_end_append: "\<not> is_space c \<Longrightarrow> trim_end (s @ [c]) = s @ [c]"
  by (simp add: trim_end_def)

lemma trim_end_Nil [simp]: "trim_end [] = []" and trim_start_Nil [simp]: "trim_start [] = []"
  by (simp_all add: trim_end_def trim_start_def)

lemma trim_Nil [simp]: "trim [] = []"
  by (simp add: trim_def)

text \<open>A string is trimmed when it is empty or both its ends are not white space.\<close>

definition trimmed :: "string \<Rightarrow> bool" where
  "trimmed s \<longleftrightarrow> s = [] \<or> (\<not> is_space (hd s) \<and> \<not> is_space (last s))"

lemma trim_end_last: "trim_end s \<noteq> [] \<Longrightarrow> \<not> is_space (last (trim_end s))"
  by (simp add: trim_end_def last_rev hd_dropWhile)

lemma trim_end_prefix: "\<exists>t. s = trim_end s @ t \<and> list_all is_space t"
proof -
  have "rev s = takeWhile is_space (rev s) @ dropWhile is_space (rev s)" by simp
  then have "s = trim_end s @ rev (takeWhile is_space (rev s))"
    unfolding trim_end_def by (metis rev_append rev_rev_ident)
  moreover have "list_all is_space (rev (takeWhile is_space (rev s)))"
    by (auto simp: list_all_iff dest: set_takeWhileD)
  ultimately show ?thesis by blast
qed

lemma trim_end_hd: "trim_end s \<noteq> [] \<Longrightarrow> hd (trim_end s) = hd s"
  using trim_end_prefix [of s] by (metis hd_append2)

lemma trimmed_trim [simp, js_trims]: "trimmed (trim s)"
proof (cases "trim s = []")
  case True
  then show ?thesis by (simp add: trimmed_def)
next
  case False
  then have "hd (trim s) = hd (trim_start s)" and "trim_start s \<noteq> []"
    unfolding trim_def by (auto simp: trim_end_hd)
  then have "\<not> is_space (hd (trim s))"
    by (simp add: trim_start_def hd_dropWhile)
  moreover have "\<not> is_space (last (trim s))"
    using False unfolding trim_def by (rule trim_end_last)
  ultimately show ?thesis by (simp add: trimmed_def)
qed

lemma trim_trimmed [js_trims]: "trimmed s \<Longrightarrow> trim s = s"
proof (cases s rule: rev_cases)
  case (snoc t c)
  assume a: "trimmed s"
  with snoc have "\<not> is_space (hd s)" and c: "\<not> is_space c" and "s \<noteq> []"
    by (auto simp: trimmed_def)
  then have "trim_start s = s" by (cases s) (simp_all add: trim_start_def)
  with snoc c show ?thesis by (simp add: trim_def trim_end_append)
qed simp

lemma trim_idem [simp]: "trim (trim s) = trim s"
  by (simp add: trim_trimmed)

lemma trimmed_Nil [simp]: "trimmed []"
  by (simp add: trimmed_def)

lemma trim_Cons:
  assumes "\<not> is_space c"
  shows "\<exists>t'. trim (c # t) = c # t'"
proof -
  have st: "trim (c # t) = trim_end (c # t)" using assms by (simp add: trim_def trim_start_def)
  obtain u where u: "c # t = trim_end (c # t) @ u" "list_all is_space u"
    using trim_end_prefix by blast
  with assms have "trim_end (c # t) \<noteq> []" by (cases u) auto
  with u(1) show ?thesis unfolding st by (cases "trim_end (c # t)") auto
qed

lemma trim_skip: "is_space c \<Longrightarrow> trim (c # t) = trim t"
  by (simp add: trim_def trim_start_def)

lemma space_is_space [simp]: "is_space (CHR '' '')"
  by (simp add: is_space_def code_def)

lemma trimmed_append:
  "trimmed a \<Longrightarrow> trimmed b \<Longrightarrow> a \<noteq> [] \<Longrightarrow> b \<noteq> [] \<Longrightarrow> trimmed (a @ c @ b)"
  by (auto simp: trimmed_def)

lemma set_trim: "set (trim s) \<subseteq> set s"
proof -
  have "set (trim_end t) \<subseteq> set t" for t
    by (auto simp: trim_end_def dest: set_dropWhileD)
  moreover have "set (trim_start s) \<subseteq> set s"
    by (auto simp: trim_start_def dest: set_dropWhileD)
  ultimately show ?thesis unfolding trim_def by blast
qed

lemma trim_decomp: "\<exists>l r. s = l @ trim s @ r \<and> list_all is_space l \<and> list_all is_space r"
proof -
  obtain r where r: "trim_start s = trim s @ r" "list_all is_space r"
    using trim_end_prefix [of "trim_start s"] unfolding trim_def by blast
  have "s = takeWhile is_space s @ trim_start s" by (simp add: trim_start_def)
  moreover have "list_all is_space (takeWhile is_space s)"
    by (auto simp: list_all_iff dest: set_takeWhileD)
  ultimately show ?thesis using r by metis
qed

lemma split_char_not_Nil [simp]: "split_char c s \<noteq> []"
  by (induction s) (auto split: list.splits)

lemma join_Cons: "ws \<noteq> [] \<Longrightarrow> join sep (w # ws) = w @ sep @ join sep ws"
  by (cases ws) auto

lemma join_split_char: "join [c] (split_char c s) = s"
proof (induction s)
  case (Cons x s)
  obtain w ws where sp: "split_char c s = w # ws"
    by (cases "split_char c s") auto
  show ?case
  proof (cases "x = c")
    case True
    with Cons show ?thesis by (simp add: sp)
  next
    case False
    with Cons show ?thesis by (cases ws) (simp_all add: sp)
  qed
qed simp

lemma split_char_no_sep: "c \<notin> set w \<Longrightarrow> split_char c w = [w]"
  by (induction w) auto

lemma split_char_append: "c \<notin> set w \<Longrightarrow> split_char c (w @ c # s) = w # split_char c s"
  by (induction w) auto

lemma split_char_join:
  "ws \<noteq> [] \<Longrightarrow> \<forall>w \<in> set ws. c \<notin> set w \<Longrightarrow> split_char c (join [c] ws) = ws"
proof (induction ws)
  case (Cons w ws)
  then show ?case
    by (cases ws) (simp_all add: split_char_no_sep split_char_append)
qed simp

lemma index_of_Some: "index_of c s = Some i \<Longrightarrow> i < length s \<and> s ! i = c \<and> c \<notin> set (take i s)"
proof (induction s arbitrary: i)
  case (Cons x s)
  then show ?case by (cases i) (auto split: if_splits)
qed simp

lemma index_of_None: "index_of c s = None \<longleftrightarrow> c \<notin> set s"
  by (induction s) auto

section \<open>Lemmas on printed numbers\<close>

lemma code_char_of: "n < 256 \<Longrightarrow> code (char_of n) = n"
  by (simp add: code_def)

lemma digit_val_char: "d < 16 \<Longrightarrow> digit_val (digit_char d) = Some d"
proof -
  assume d: "d < 16"
  then have "code (digit_char d) = (if d < 10 then 48 + d else 87 + d)"
    by (auto simp: digit_char_def code_char_of)
  with d show ?thesis
    by (auto simp: digit_val_def is_digit_def is_lower_def is_upper_def)
qed

lemma digits_val_snoc: "digits_val b (s @ [c]) = digits_val b s * b + the (digit_val c)"
  by (simp add: digits_val_def)

lemma num_str_digits: "2 \<le> b \<Longrightarrow> b \<le> 16 \<Longrightarrow> c \<in> set (num_str b n) \<Longrightarrow> digit_in b c"
proof (induction b n rule: num_str.induct)
  case (1 b n)
  show ?case
  proof (cases "n < b")
    case True
    with 1 show ?thesis
      by (simp add: num_str.simps [of b n] digit_in_def digit_val_char)
  next
    case False
    with 1 have "c \<in> set (num_str b (n div b)) \<or> c = digit_char (n mod b)"
      by (auto simp: num_str.simps [of b n])
    moreover have lt: "n mod b < b" using 1 by simp
    moreover have "digit_val (digit_char (n mod b)) = Some (n mod b)"
      using lt 1 by (intro digit_val_char) linarith
    ultimately show ?thesis
      using 1 False by (auto simp: digit_in_def)
  qed
qed

lemma num_str_not_Nil [simp]: "num_str b n \<noteq> []"
  by (subst num_str.simps) simp

lemma digits_val_num_str: "2 \<le> b \<Longrightarrow> b \<le> 16 \<Longrightarrow> digits_val b (num_str b n) = n"
proof (induction b n rule: num_str.induct)
  case (1 b n)
  show ?case
  proof (cases "n < b")
    case True
    with 1 show ?thesis
      by (simp add: num_str.simps [of b n] digits_val_def digit_val_char)
  next
    case False
    moreover have "n mod b < b" using 1 by simp
    then have "n mod b < 16" using 1 by linarith
    ultimately show ?thesis
      using 1 by (simp add: num_str.simps [of b n] digits_val_snoc digit_val_char)
  qed
qed

lemma nat_str_digits: "c \<in> set (nat_str n) \<Longrightarrow> is_digit c"
  using num_str_digits [of 10 c n]
  by (auto simp: nat_str_def digit_in_def digit_val_def is_digit_def is_lower_def is_upper_def
      split: if_splits)

lemma nat_str_not_Nil [simp]: "nat_str n \<noteq> []"
  by (simp add: nat_str_def)

lemma is_digit_not_space: "is_digit c \<Longrightarrow> \<not> is_space c"
  by (auto simp: is_digit_def is_space_def)

lemma nat_str_trimmed [simp]: "trimmed (nat_str n)"
proof -
  have "is_digit (hd (nat_str n))" and "is_digit (last (nat_str n))"
    using nat_str_digits [of _ n] by simp_all
  then show ?thesis by (auto simp: trimmed_def is_digit_not_space)
qed

text \<open>A printed number parses back, in every base up to 16.\<close>

definition hex_digits :: string where
  "hex_digits = ''0123456789abcdef''"

lemma digit_char_hex: "d < 16 \<Longrightarrow> digit_char d \<in> set hex_digits"
proof -
  assume "d < 16"
  moreover have "list_all (\<lambda>d. digit_char d \<in> set hex_digits) [0..<16]" by code_simp
  ultimately show ?thesis by (simp add: list_all_iff)
qed

lemma num_str_hex: "2 \<le> b \<Longrightarrow> b \<le> 16 \<Longrightarrow> set (num_str b n) \<subseteq> set hex_digits"
proof (induction b n rule: num_str.induct)
  case (1 b n)
  show ?case
  proof (cases "n < b")
    case True
    with 1 show ?thesis by (simp add: num_str.simps [of b n] digit_char_hex)
  next
    case False
    moreover have "n mod b < b" using 1 by simp
    then have "n mod b < 16" using 1 by linarith
    ultimately show ?thesis using 1 by (simp add: num_str.simps [of b n] digit_char_hex)
  qed
qed

lemma hex_digit_plain:
  assumes "c \<in> set hex_digits"
  shows "\<not> is_space c" "c \<noteq> CHR ''x''" "c \<noteq> CHR ''X''" "c \<noteq> CHR ''-''" "c \<noteq> CHR ''+''" "c \<noteq> CHR '':''"
    "c \<noteq> CHR ''.''" "c \<noteq> CHR ''%''" "lower_char c = c" "is_digit c \<or> c \<in> set ''abcdef''"
proof -
  have "list_all (\<lambda>c. \<not> is_space c \<and> c \<notin> set ''xX-+:.%'' \<and> lower_char c = c \<and> (is_digit c \<or> c \<in> set ''abcdef''))
      hex_digits" by code_simp
  then have "\<not> is_space c \<and> c \<notin> set ''xX-+:.%'' \<and> lower_char c = c \<and> (is_digit c \<or> c \<in> set ''abcdef'')"
    using assms unfolding list_all_iff by blast
  then show "\<not> is_space c" "c \<noteq> CHR ''x''" "c \<noteq> CHR ''X''" "c \<noteq> CHR ''-''" "c \<noteq> CHR ''+''" "c \<noteq> CHR '':''"
    "c \<noteq> CHR ''.''" "c \<noteq> CHR ''%''" "lower_char c = c" "is_digit c \<or> c \<in> set ''abcdef''" by auto
qed

lemma parse_int_num_str:
  assumes "2 \<le> b" and "b \<le> 16"
  shows "parse_int b (num_str b n) = Some (int n)"
proof -
  obtain c s where cs: "num_str b n = c # s" by (cases "num_str b n") auto
  then have c: "c \<in> set hex_digits" and s: "set s \<subseteq> set hex_digits" using num_str_hex [OF assms, of n] by auto
  have "s = [] \<or> hd s \<noteq> CHR ''x'' \<and> hd s \<noteq> CHR ''X''"
    using s hex_digit_plain(2,3) by (cases s) auto
  then have "strip_0x b (num_str b n) = num_str b n"
    by (cases s) (auto simp: strip_0x_def starts_with_def cs)
  moreover have "takeWhile (digit_in b) (num_str b n) = num_str b n"
    using num_str_digits [OF assms] by (simp add: takeWhile_eq_all_conv)
  ultimately have "parse_nat b (num_str b n) = Some n"
    by (simp add: parse_nat_def Let_def digits_val_num_str [OF assms] del: takeWhile_eq_all_conv)
  moreover have "trim_start (num_str b n) = num_str b n" "\<not> starts_with ''-'' (num_str b n)" "\<not> starts_with ''+'' (num_str b n)"
    using hex_digit_plain [OF c] unfolding cs by (auto simp: trim_start_def starts_with_def)
  ultimately show ?thesis by (simp add: parse_int_def)
qed

section \<open>Key-value stores\<close>

text \<open>What the clients of the browser's local storage rely on: an item reads back until it is changed or removed.\<close>

locale kv_store =
  fixes get :: "'s \<Rightarrow> 'k \<Rightarrow> 'v option" and put :: "'s \<Rightarrow> 'k \<Rightarrow> 'v \<Rightarrow> 's" and del :: "'s \<Rightarrow> 'k \<Rightarrow> 's"
  assumes get_put: "get (put s k v) k' = (if k' = k then Some v else get s k')"
    and get_del: "get (del s k) k' = (if k' = k then None else get s k')"
begin

lemma get_put_same [simp]: "get (put s k v) k = Some v"
  by (simp add: get_put)

lemma get_del_same [simp]: "get (del s k) k = None"
  by (simp add: get_del)

lemma del_put_other: "k \<noteq> j \<Longrightarrow> get (del (put s k v) j) k = Some v"
  by (simp add: get_put get_del)

lemma frame: "k' \<noteq> k \<Longrightarrow> k' \<noteq> j \<Longrightarrow> get (del (put s k v) j) k' = get s k'"
  by (simp add: get_put get_del)

end

end
