(* ===== verification/Regex.thy ===== *)
theory Regex
  imports Prelude
begin

text \<open>
  The part of ECMAScript regular expressions that the modelled modules use. A pattern of the source
  is transcribed as a value of type \<open>regex\<close>; the matcher explores the alternatives in the
  order of the standard's backtracking semantics (the left alternative first, greedy iteration), so
  that the head of its result list is the match JavaScript reports. An iteration of \<open>*\<close> that
  consumes nothing is refused, as the standard does. Capturing groups are recorded by number; the
  patterns of the source never capture inside an iteration.
\<close>

section \<open>Patterns and the matcher\<close>

datatype regex =
    Cls "char \<Rightarrow> bool"
  | Eps
  | Seq regex regex
  | Alt regex regex
  | Star regex
  | Bol
  | Eol
  | WordB
  | Grp nat regex

text \<open>A position in the subject: the text before it reversed, the text after it, the captures.\<close>

type_synonym cursor = "string \<times> string \<times> (nat \<times> string) list"

definition ahead :: "cursor \<Rightarrow> string" where
  "ahead st = fst (snd st)"

definition behind :: "cursor \<Rightarrow> string" where
  "behind st = fst st"

fun iterate :: "nat \<Rightarrow> (cursor \<Rightarrow> cursor list) \<Rightarrow> cursor \<Rightarrow> cursor list" where
  "iterate 0 f st = [st]"
| "iterate (Suc n) f st =
     concat (map (\<lambda>st'. if length (ahead st') < length (ahead st) then iterate n f st' else [])
       (f st)) @ [st]"

definition at_word :: "string \<Rightarrow> bool" where
  "at_word s = (case s of [] \<Rightarrow> False | c # _ \<Rightarrow> is_word c)"

primrec matches :: "regex \<Rightarrow> cursor \<Rightarrow> cursor list" where
  "matches (Cls P) st = (case st of (b, a, g) \<Rightarrow>
     (case a of [] \<Rightarrow> [] | c # a' \<Rightarrow> if P c then [(c # b, a', g)] else []))"
| "matches Eps st = [st]"
| "matches (Seq r s) st = concat (map (matches s) (matches r st))"
| "matches (Alt r s) st = matches r st @ matches s st"
| "matches (Star r) st = iterate (length (ahead st)) (matches r) st"
| "matches Bol st = (if behind st = [] then [st] else [])"
| "matches Eol st = (if ahead st = [] then [st] else [])"
| "matches WordB st = (if at_word (behind st) \<noteq> at_word (ahead st) then [st] else [])"
| "matches (Grp n r) st = (case st of (b, a, g) \<Rightarrow>
     map (\<lambda>(b', a', g'). (b', a', (n, rev (take (length b' - length b) b')) # g'))
       (matches r (b, a, g)))"

section \<open>Derived patterns\<close>

definition Chr :: "char \<Rightarrow> regex" where
  "Chr c = Cls (\<lambda>x. x = c)"

definition ChrI :: "char \<Rightarrow> regex" where
  "ChrI c = Cls (\<lambda>x. lower_char x = lower_char c)"

definition One_of :: "string \<Rightarrow> regex" where
  "One_of cs = Cls (\<lambda>x. x \<in> set cs)"

definition One_of_I :: "string \<Rightarrow> regex" where
  "One_of_I cs = Cls (\<lambda>x. lower_char x \<in> set cs)"

definition None_of :: "string \<Rightarrow> regex" where
  "None_of cs = Cls (\<lambda>x. x \<notin> set cs)"

definition Digit :: regex where
  "Digit = Cls is_digit"

definition Space :: regex where
  "Space = Cls is_space"

text \<open>The dot does not match a line terminator.\<close>

definition Dot :: regex where
  "Dot = Cls (\<lambda>x. x \<noteq> CHR 0x0A \<and> x \<noteq> CHR 0x0D)"

definition Plus :: "regex \<Rightarrow> regex" where
  "Plus r = Seq r (Star r)"

definition Opt :: "regex \<Rightarrow> regex" where
  "Opt r = Alt r Eps"

fun Lit :: "string \<Rightarrow> regex" where
  "Lit [] = Eps"
| "Lit (c # s) = Seq (Chr c) (Lit s)"

fun LitI :: "string \<Rightarrow> regex" where
  "LitI [] = Eps"
| "LitI (c # s) = Seq (ChrI c) (LitI s)"

fun Seqs :: "regex list \<Rightarrow> regex" where
  "Seqs [] = Eps"
| "Seqs (r # rs) = Seq r (Seqs rs)"

fun Alts :: "regex list \<Rightarrow> regex" where
  "Alts [] = Cls (\<lambda>_. False)"
| "Alts [r] = r"
| "Alts (r # s # rs) = Alt r (Alts (s # rs))"

text \<open>\<open>Times n r\<close> is \<open>r\<close> repeated \<open>n\<close> times; \<open>Upto n r\<close> at most \<open>n\<close> times, greedily.\<close>

fun Times :: "nat \<Rightarrow> regex \<Rightarrow> regex" where
  "Times 0 r = Eps"
| "Times (Suc n) r = Seq r (Times n r)"

fun Upto :: "nat \<Rightarrow> regex \<Rightarrow> regex" where
  "Upto 0 r = Eps"
| "Upto (Suc n) r = Opt (Seq r (Upto n r))"

section \<open>The operations of \<open>RegExp\<close> and \<open>String\<close>\<close>

record match =
  m_before :: string
  m_text :: string
  m_after :: string
  m_groups :: "(nat \<times> string) list"

definition match_at :: "regex \<Rightarrow> string \<Rightarrow> string \<Rightarrow> match option" where
  "match_at r b a =
     (case matches r (b, a, []) of
        [] \<Rightarrow> None
      | (b', a', g) # _ \<Rightarrow>
          Some \<lparr>m_before = rev b, m_text = rev (take (length b' - length b) b'),
                m_after = a', m_groups = g\<rparr>)"

text \<open>\<open>s.match(r)\<close> of a pattern without the \<open>g\<close> flag: the leftmost match.\<close>

fun exec_from :: "regex \<Rightarrow> string \<Rightarrow> string \<Rightarrow> match option" where
  "exec_from r b a =
     (case match_at r b a of
        Some m \<Rightarrow> Some m
      | None \<Rightarrow> (case a of [] \<Rightarrow> None | c # a' \<Rightarrow> exec_from r (c # b) a'))"

declare exec_from.simps [simp del]

definition exec :: "regex \<Rightarrow> string \<Rightarrow> match option" where
  "exec r s = exec_from r [] s"

definition test :: "regex \<Rightarrow> string \<Rightarrow> bool" where
  "test r s \<longleftrightarrow> exec r s \<noteq> None"

definition group :: "nat \<Rightarrow> match \<Rightarrow> string option" where
  "group n m = map_of (m_groups m) n"

text \<open>\<open>s.replace(r, t)\<close>: the leftmost match only.\<close>

definition replace_first :: "regex \<Rightarrow> string \<Rightarrow> string \<Rightarrow> string" where
  "replace_first r t s =
     (case exec r s of None \<Rightarrow> s | Some m \<Rightarrow> m_before m @ t @ m_after m)"

text \<open>
  \<open>s.replace(r, t)\<close> with the \<open>g\<close> flag, for a pattern that never matches the empty string: scan,
  replacing each match and going on behind it. The first argument is the text already passed,
  reversed, which \<open>^\<close> and \<open>\b\<close> look at.
\<close>

function replace_all_from :: "regex \<Rightarrow> string \<Rightarrow> string \<Rightarrow> string \<Rightarrow> string" where
  "replace_all_from r t b a =
     (case a of
        [] \<Rightarrow> []
      | c # a' \<Rightarrow>
          (case match_at r b a of
             Some m \<Rightarrow>
               if length (m_after m) < length a
               then t @ replace_all_from r t (rev (m_text m) @ b) (m_after m)
               else c # replace_all_from r t (c # b) a'
           | None \<Rightarrow> c # replace_all_from r t (c # b) a'))"
  by pat_completeness auto
termination
  by (relation "measure (\<lambda>(r, t, b, a). length a)") auto

declare replace_all_from.simps [simp del]

definition replace_all :: "regex \<Rightarrow> string \<Rightarrow> string \<Rightarrow> string" where
  "replace_all r t s = replace_all_from r t [] s"

declare ahead_def [js_eval] behind_def [js_eval] at_word_def [js_eval] Chr_def [js_eval]
  ChrI_def [js_eval] One_of_def [js_eval] One_of_I_def [js_eval] None_of_def [js_eval]
  Digit_def [js_eval] Space_def [js_eval] Dot_def [js_eval] Plus_def [js_eval] Opt_def [js_eval]
  match_at_def [js_eval] exec_def [js_eval] test_def [js_eval] group_def [js_eval]
  replace_first_def [js_eval] replace_all_def [js_eval] exec_from.simps [js_eval]
  replace_all_from.simps [js_eval]

section \<open>A match is a factor of the subject\<close>

text \<open>Matching moves the cursor forward over the same subject.\<close>

definition moved :: "cursor \<Rightarrow> cursor \<Rightarrow> bool" where
  "moved st st' \<longleftrightarrow> (\<exists>w. behind st' = rev w @ behind st \<and> ahead st = w @ ahead st')"

lemma moved_refl [simp]: "moved st st"
  by (simp add: moved_def)

lemma moved_trans: "moved a b \<Longrightarrow> moved b c \<Longrightarrow> moved a c"
  by (auto simp: moved_def)

lemma iterate_moved:
  assumes "\<And>st st'. st' \<in> set (f st) \<Longrightarrow> moved st st'"
  shows "st' \<in> set (iterate n f st) \<Longrightarrow> moved st st'"
proof (induction n arbitrary: st)
  case (Suc n)
  then show ?case by (auto split: if_splits intro: moved_trans assms)
qed simp

lemma matches_moved: "st' \<in> set (matches r st) \<Longrightarrow> moved st st'"
proof (induction r arbitrary: st st')
  case (Cls P)
  then show ?case by (auto simp: moved_def behind_def ahead_def split: prod.splits list.splits if_splits)
next
  case (Seq r s)
  from Seq.prems have "\<exists>u \<in> set (matches r st). st' \<in> set (matches s u)" by simp
  then show ?case using Seq.IH by (meson moved_trans)
next
  case (Star r)
  then show ?case by (auto intro: iterate_moved [of "matches r"])
next
  case (Grp n r)
  then obtain b a g b' a' g' where "st = (b, a, g)" "(b', a', g') \<in> set (matches r (b, a, g))"
      "st' = (b', a', (n, rev (take (length b' - length b) b')) # g')"
    by (cases st) auto
  then show ?case using Grp.IH by (force simp: moved_def behind_def ahead_def)
qed (auto split: if_splits)

lemma match_at_factor:
  assumes "match_at r b a = Some m"
  shows "m_before m = rev b" and "a = m_text m @ m_after m"
proof -
  from assms obtain b' a' g where st: "(b', a', g) \<in> set (matches r (b, a, []))"
    and m: "m = \<lparr>m_before = rev b, m_text = rev (take (length b' - length b) b'),
                m_after = a', m_groups = g\<rparr>"
    by (auto simp: match_at_def split: list.splits)
  from matches_moved [OF st] obtain w where "b' = rev w @ b" "a = w @ a'"
    by (auto simp: moved_def behind_def ahead_def)
  with m show "m_before m = rev b" and "a = m_text m @ m_after m" by simp_all
qed

lemma exec_from_factor:
  "exec_from r b a = Some m \<Longrightarrow> rev b @ a = m_before m @ m_text m @ m_after m"
proof (induction r b a rule: exec_from.induct)
  case (1 r b a)
  show ?case
  proof (cases "match_at r b a")
    case (Some m')
    with 1 have "m' = m" by (simp add: exec_from.simps)
    with Some show ?thesis using match_at_factor by fastforce
  next
    case None
    with 1 show ?thesis by (auto simp: exec_from.simps [of r b a] split: list.splits)
  qed
qed

lemma exec_factor: "exec r s = Some m \<Longrightarrow> s = m_before m @ m_text m @ m_after m"
  using exec_from_factor [of r "[]" s m] by (simp add: exec_def)

text \<open>A pattern whose alternatives all begin with \<open>^\<close> matches at the start or nowhere.\<close>

fun anchored :: "regex \<Rightarrow> bool" where
  "anchored (Seq Bol r) \<longleftrightarrow> True"
| "anchored (Alt r s) \<longleftrightarrow> anchored r \<and> anchored s"
| "anchored r \<longleftrightarrow> False"

lemma anchored_behind: "anchored r \<Longrightarrow> matches r (c # b, a, g) = []"
  by (induction r rule: anchored.induct) (simp_all add: behind_def)

lemma exec_anchored_eq:
  assumes "anchored r"
  shows "exec r s = match_at r [] s"
proof -
  have no: "match_at r (c # b) a = None" for c b a
    using assms by (simp add: match_at_def anchored_behind)
  have miss: "exec_from r (c # b) a = None" for c b a
    by (induction a arbitrary: c b) (simp_all add: exec_from.simps no)
  show ?thesis
    by (simp add: exec_def exec_from.simps [of _ "[]"] miss split: option.splits list.splits)
qed

lemma exec_anchored:
  assumes "anchored r" and "exec r s = Some m"
  shows "m_before m = []" and "s = m_text m @ m_after m"
  using assms match_at_factor [of r "[]" s m] by (simp_all add: exec_anchored_eq)

lemma replace_first_eps_length: "length (replace_first r [] s) \<le> length s"
  by (auto simp: replace_first_def dest: exec_factor split: option.splits)

lemma replace_first_shorter_or_same:
  "replace_first r [] s = s \<or> length (replace_first r [] s) < length s"
proof (cases "exec r s")
  case (Some m)
  then show ?thesis
    using exec_factor [OF Some] by (cases "m_text m") (auto simp: replace_first_def)
qed (simp add: replace_first_def)

section \<open>Patterns that consume, and what they consume\<close>

text \<open>A consuming pattern never matches the empty string.\<close>

primrec consuming :: "regex \<Rightarrow> bool" where
  "consuming (Cls P) \<longleftrightarrow> True"
| "consuming Eps \<longleftrightarrow> False"
| "consuming (Seq r s) \<longleftrightarrow> consuming r \<or> consuming s"
| "consuming (Alt r s) \<longleftrightarrow> consuming r \<and> consuming s"
| "consuming (Star r) \<longleftrightarrow> False"
| "consuming Bol \<longleftrightarrow> False"
| "consuming Eol \<longleftrightarrow> False"
| "consuming WordB \<longleftrightarrow> False"
| "consuming (Grp n r) \<longleftrightarrow> consuming r"

lemma moved_length: "moved st st' \<Longrightarrow> length (ahead st') \<le> length (ahead st)"
  by (auto simp: moved_def)

lemma matches_length: "st' \<in> set (matches r st) \<Longrightarrow> length (ahead st') \<le> length (ahead st)"
  by (rule moved_length) (rule matches_moved)

lemma matches_Seq_E:
  assumes "st' \<in> set (matches (Seq r s) st)"
  obtains u where "u \<in> set (matches r st)" "st' \<in> set (matches s u)"
proof -
  from assms have "\<exists>u \<in> set (matches r st). st' \<in> set (matches s u)" by simp
  with that show thesis by blast
qed

lemma consuming_shrinks:
  "consuming r \<Longrightarrow> st' \<in> set (matches r st) \<Longrightarrow> length (ahead st') < length (ahead st)"
proof (induction r arbitrary: st st')
  case (Cls P)
  then show ?case by (auto simp: ahead_def split: prod.splits list.splits if_splits)
next
  case (Seq r s)
  from Seq.prems(2) obtain u where u: "u \<in> set (matches r st)" "st' \<in> set (matches s u)"
    by (rule matches_Seq_E)
  then have "length (ahead u) \<le> length (ahead st)" "length (ahead st') \<le> length (ahead u)"
    by (auto intro: matches_length)
  moreover have "length (ahead u) < length (ahead st) \<or> length (ahead st') < length (ahead u)"
    using Seq.prems(1) Seq.IH u by (metis consuming.simps(3))
  ultimately show ?case by linarith
next
  case (Grp n r)
  then obtain b a g b' a' g' where "st = (b, a, g)" "(b', a', g') \<in> set (matches r (b, a, g))"
      "st' = (b', a', (n, rev (take (length b' - length b) b')) # g')"
    by (cases st) auto
  then show ?case using Grp by (force simp: ahead_def)
qed auto

lemma match_at_consuming:
  assumes "consuming r" and "match_at r b a = Some m"
  shows "m_text m \<noteq> []"
proof -
  from assms(2) obtain b' a' g xs where "matches r (b, a, []) = (b', a', g) # xs"
    and m: "m_after m = a'"
    by (auto simp: match_at_def split: list.splits)
  then have st: "(b', a', g) \<in> set (matches r (b, a, []))" by simp
  from consuming_shrinks [OF assms(1) st] match_at_factor(2) [OF assms(2)] m
  show ?thesis by (auto simp: ahead_def)
qed

lemma exec_from_consuming: "consuming r \<Longrightarrow> exec_from r b a = Some m \<Longrightarrow> m_text m \<noteq> []"
proof (induction r b a rule: exec_from.induct)
  case (1 r b a)
  then show ?case
    by (auto simp: exec_from.simps [of r b a] dest: match_at_consuming split: option.splits list.splits)
qed

lemma replace_first_fixed:
  assumes "consuming r" and "replace_first r [] s = s"
  shows "\<not> test r s"
proof
  assume "test r s"
  then obtain m where m: "exec r s = Some m" by (auto simp: test_def)
  with assms have "m_before m @ m_after m = s" by (simp add: replace_first_def)
  moreover have "m_text m \<noteq> []"
    using m assms(1) exec_from_consuming unfolding exec_def by blast
  moreover have "length s = length (m_before m) + length (m_text m) + length (m_after m)"
    using exec_factor [OF m] by (metis add.assoc length_append)
  ultimately show False by (metis add_cancel_right_right add_right_cancel length_0_conv length_append)
qed

text \<open>The leftmost match comes from a result of the matcher at some position.\<close>

lemma exec_from_result:
  "exec_from r b a = Some m \<Longrightarrow>
     \<exists>b0 a0 b' a' g. (b', a', g) \<in> set (matches r (b0, a0, [])) \<and> m_groups m = g"
proof (induction r b a rule: exec_from.induct)
  case (1 r b a)
  show ?case
  proof (cases "match_at r b a")
    case (Some m')
    with 1 have "match_at r b a = Some m" by (simp add: exec_from.simps)
    then obtain b' a' g where "matches r (b, a, []) \<noteq> []" "hd (matches r (b, a, [])) = (b', a', g)"
      "m_groups m = g" by (auto simp: match_at_def split: list.splits)
    then show ?thesis by (metis hd_in_set)
  next
    case None
    with 1 show ?thesis by (auto simp: exec_from.simps [of r b a] split: list.splits)
  qed
qed

text \<open>Patterns without groups keep the captures; a run of a class consumes members of the class.\<close>

primrec plain :: "regex \<Rightarrow> bool" where
  "plain (Cls P) \<longleftrightarrow> True"
| "plain Eps \<longleftrightarrow> True"
| "plain (Seq r s) \<longleftrightarrow> plain r \<and> plain s"
| "plain (Alt r s) \<longleftrightarrow> plain r \<and> plain s"
| "plain (Star r) \<longleftrightarrow> plain r"
| "plain Bol \<longleftrightarrow> True"
| "plain Eol \<longleftrightarrow> True"
| "plain WordB \<longleftrightarrow> True"
| "plain (Grp n r) \<longleftrightarrow> False"

definition captures :: "cursor \<Rightarrow> (nat \<times> string) list" where
  "captures st = snd (snd st)"

lemma iterate_captures:
  assumes "\<And>st st'. st' \<in> set (f st) \<Longrightarrow> captures st' = captures st"
  shows "st' \<in> set (iterate n f st) \<Longrightarrow> captures st' = captures st"
proof (induction n arbitrary: st)
  case (Suc n)
  show ?case
  proof (cases "st' = st")
    case False
    then have "\<exists>u \<in> set (f st). st' \<in> set (iterate n f u)"
      using Suc.prems by (auto split: if_splits)
    then obtain u where "u \<in> set (f st)" "st' \<in> set (iterate n f u)" by blast
    with Suc.IH assms show ?thesis by metis
  qed simp
qed simp

lemma plain_captures: "plain r \<Longrightarrow> st' \<in> set (matches r st) \<Longrightarrow> captures st' = captures st"
proof (induction r arbitrary: st st')
  case (Cls P)
  then show ?case by (auto simp: captures_def split: prod.splits list.splits if_splits)
next
  case (Seq r s)
  from Seq.prems(2) obtain u where "u \<in> set (matches r st)" "st' \<in> set (matches s u)"
    by (rule matches_Seq_E)
  with Seq.IH Seq.prems(1) have "captures u = captures st" "captures st' = captures u" by simp_all
  then show ?case by simp
next
  case (Star r)
  have "st' \<in> set (iterate (length (ahead st)) (matches r) st)" using Star.prems by simp
  moreover have "captures u' = captures u" if "u' \<in> set (matches r u)" for u u'
    using Star that by simp
  ultimately show ?case using iterate_captures [of "matches r"] by blast
qed (auto split: if_splits)

lemma matches_Cls:
  "st' \<in> set (matches (Cls P) (b, a, g)) \<longleftrightarrow> (\<exists>c t. a = c # t \<and> P c \<and> st' = (c # b, t, g))"
  by (auto split: list.splits if_splits)

lemma matches_Star_class:
  "(b', a', g') \<in> set (iterate n (matches (Cls P)) (b, a, g)) \<Longrightarrow>
     \<exists>w. b' = rev w @ b \<and> list_all P w"
proof (induction n arbitrary: b a)
  case (Suc n)
  show ?case
  proof (cases "(b', a', g') = (b, a, g)")
    case False
    then have "\<exists>u \<in> set (matches (Cls P) (b, a, g)). (b', a', g') \<in> set (iterate n (matches (Cls P)) u)"
      using Suc.prems by (auto simp del: matches.simps split: if_splits)
    then obtain c t where "a = c # t" "P c" "(b', a', g') \<in> set (iterate n (matches (Cls P)) (c # b, t, g))"
      by (metis matches_Cls)
    with Suc.IH obtain w where "b' = rev w @ c # b" "list_all P w" by blast
    then have "b' = rev (c # w) @ b" "list_all P (c # w)" using \<open>P c\<close> by simp_all
    then show ?thesis by blast
  qed auto
qed auto

text \<open>What a group over a run of a class captures is a nonempty run of members.\<close>

lemma group_run:
  assumes "st' \<in> set (matches (Grp n (Plus (Cls P))) st)"
  shows "\<exists>w. captures st' = (n, w) # captures st \<and> w \<noteq> [] \<and> list_all P w"
proof -
  obtain b a g where st: "st = (b, a, g)" by (cases st)
  with assms obtain b' a' g' where m: "(b', a', g') \<in> set (matches (Plus (Cls P)) (b, a, g))"
    and st': "st' = (b', a', (n, rev (take (length b' - length b) b')) # g')"
    by auto
  obtain u where u: "u \<in> set (matches (Cls P) (b, a, g))"
    and iu: "(b', a', g') \<in> set (matches (Star (Cls P)) u)"
    using m unfolding Plus_def by (rule matches_Seq_E)
  from u obtain c t where c: "a = c # t" "P c" and "u = (c # b, t, g)"
    unfolding matches_Cls by blast
  with iu have i: "(b', a', g') \<in> set (iterate (length t) (matches (Cls P)) (c # b, t, g))"
    by (simp only: matches.simps(5)) (simp add: ahead_def)
  from matches_Star_class [OF i] obtain w where w: "b' = rev w @ c # b" "list_all P w" by blast
  have "captures (b', a', g') = captures (b, a, g)"
    by (rule plain_captures [OF _ m]) (simp add: Plus_def)
  then have "g' = g" by (simp add: captures_def)
  then have "captures st' = (n, c # w) # captures st"
    using st st' w(1) by (simp add: captures_def)
  with w(2) c(2) show ?thesis by auto
qed

lemma plain_derived [simp]:
  "plain (Chr c)" "plain (ChrI c)" "plain (One_of cs)" "plain (One_of_I cs)" "plain (None_of cs)"
  "plain Digit" "plain Space" "plain Dot" "plain (Plus r) = plain r" "plain (Opt r) = plain r"
  by (simp_all add: Chr_def ChrI_def One_of_def One_of_I_def None_of_def Digit_def Space_def
      Dot_def Plus_def Opt_def)

lemma plain_Lit [simp]: "plain (Lit s)" and plain_LitI [simp]: "plain (LitI s)"
  by (induction s) simp_all

section \<open>Matching does not look past a character it rejects\<close>

text \<open>\<open>rejects c r\<close>: no class of \<open>r\<close> accepts \<open>c\<close> and \<open>r\<close> has no lookahead assertion.\<close>

primrec rejects :: "char \<Rightarrow> regex \<Rightarrow> bool" where
  "rejects c (Cls P) \<longleftrightarrow> \<not> P c"
| "rejects c Eps \<longleftrightarrow> True"
| "rejects c (Seq r s) \<longleftrightarrow> rejects c r \<and> rejects c s"
| "rejects c (Alt r s) \<longleftrightarrow> rejects c r \<and> rejects c s"
| "rejects c (Star r) \<longleftrightarrow> rejects c r"
| "rejects c Bol \<longleftrightarrow> True"
| "rejects c Eol \<longleftrightarrow> False"
| "rejects c WordB \<longleftrightarrow> False"
| "rejects c (Grp n r) \<longleftrightarrow> rejects c r"

lemma iterate_fuel:
  "length (ahead st) \<le> n \<Longrightarrow> length (ahead st) \<le> m \<Longrightarrow> iterate n f st = iterate m f st"
proof (induction n arbitrary: m st)
  case 0
  then show ?case by (cases m) (simp_all add: concat_eq_Nil_conv)
next
  case (Suc n)
  show ?case
  proof (cases m)
    case 0
    with Suc.prems show ?thesis by (simp add: concat_eq_Nil_conv)
  next
    case (Suc k)
    have "iterate n f st' = iterate k f st'" if "length (ahead st') < length (ahead st)" for st'
      using that Suc.prems Suc by (intro Suc.IH) auto
    then have eq: "map (\<lambda>st'. if length (ahead st') < length (ahead st) then iterate n f st' else []) (f st)
      = map (\<lambda>st'. if length (ahead st') < length (ahead st) then iterate k f st' else []) (f st)"
      by simp
    show ?thesis unfolding Suc iterate.simps eq by (rule refl)
  qed
qed

definition extend :: "string \<Rightarrow> cursor \<Rightarrow> cursor" where
  "extend a st = (case st of (b, w, g) \<Rightarrow> (b, w @ a, g))"

lemma ahead_extend [simp]: "ahead (extend a st) = ahead st @ a"
  and behind_extend [simp]: "behind (extend a st) = behind st"
  by (simp_all add: extend_def ahead_def behind_def split: prod.splits)

lemma iterate_extend:
  assumes "\<And>st. f (extend a st) = map (extend a) (f st)"
  shows "iterate n f (extend a st) = map (extend a) (iterate n f st)"
proof (induction n arbitrary: st)
  case (Suc n)
  let ?g = "\<lambda>st st'. if length (ahead st') < length (ahead st) then iterate n f st' else []"
  have eq: "map (?g (extend a st)) (map (extend a) (f st)) = map (map (extend a)) (map (?g st) (f st))"
    by (simp add: Suc.IH)
  show ?case unfolding iterate.simps assms eq by (simp only: map_append map_concat list.map)
qed simp

lemma matches_extend:
  "rejects c r \<Longrightarrow> matches r (extend (c # a) st) = map (extend (c # a)) (matches r st)"
proof (induction r arbitrary: st)
  case (Cls P)
  then show ?case by (auto simp: extend_def split: prod.splits list.splits)
next
  case (Seq r s)
  have eq: "map (matches s) (map (extend (c # a)) (matches r st))
      = map (map (extend (c # a))) (map (matches s) (matches r st))"
    using Seq by simp
  have r: "matches r (extend (c # a) st) = map (extend (c # a)) (matches r st)" using Seq by simp
  show ?case unfolding matches.simps r eq by (simp only: map_concat)
next
  case (Star r)
  then have "matches r (extend (c # a) u) = map (extend (c # a)) (matches r u)" for u by simp
  then have "iterate (length (ahead st @ c # a)) (matches r) (extend (c # a) st)
      = map (extend (c # a)) (iterate (length (ahead st @ c # a)) (matches r) st)"
    by (rule iterate_extend)
  also have "iterate (length (ahead st @ c # a)) (matches r) st
      = iterate (length (ahead st)) (matches r) st"
    by (rule iterate_fuel) simp_all
  finally show ?case by simp
next
  case (Grp n r)
  have "matches r (extend (c # a) st) = map (extend (c # a)) (matches r st)"
    using Grp by simp
  then show ?case by (cases st) (auto simp: extend_def)
qed auto

lemma match_at_extend:
  assumes "rejects c r"
  shows "match_at r b (w @ c # a) = map_option (\<lambda>m. m\<lparr>m_after := m_after m @ c # a\<rparr>) (match_at r b w)"
  using matches_extend [OF assms, of a "(b, w, [])"]
  by (cases "matches r (b, w, [])") (auto simp: match_at_def extend_def)

text \<open>A match followed by a rejected character is found again when other rejected text follows.\<close>

lemma match_at_replace_rest:
  assumes "rejects c r" and "rejects d r" and "match_at r b (w @ c # a) = Some m"
    and "m_after m = c # a"
  shows "match_at r b (w @ d # e) = Some (m\<lparr>m_after := d # e\<rparr>)"
proof -
  from assms(1,3) obtain m' where m': "match_at r b w = Some m'"
    and m: "m = m'\<lparr>m_after := m_after m' @ c # a\<rparr>"
    by (auto simp: match_at_extend)
  with assms(4) have "m_after m' = []" by simp
  with m' m assms(2) show ?thesis by (simp add: match_at_extend)
qed

text \<open>A class under \<open>+\<close> between the two anchors matches exactly the nonempty texts over the class.\<close>

lemma Star_class_all:
  "list_all P a \<Longrightarrow> (rev a @ b, [], g) \<in> set (matches (Star (Cls P)) (b, a, g))"
proof (induction a arbitrary: b)
  case (Cons c a)
  then show ?case by (auto simp: ahead_def)
qed (simp add: ahead_def)

lemma test_class_all:
  assumes "list_all P s" and "s \<noteq> []"
  shows "test (Seqs [Bol, Plus (Cls P), Eol]) s"
proof -
  obtain c t where s: "s = c # t" using assms(2) by (cases s) auto
  with assms(1) have "(rev t @ [c], [], []) \<in> set (matches (Star (Cls P)) ([c], t, []))"
    by (intro Star_class_all) simp
  then have "matches (Seqs [Bol, Plus (Cls P), Eol]) ([], s, []) \<noteq> []"
    using s assms(1) by (auto simp: Plus_def behind_def ahead_def simp del: matches.simps(5) intro!: bexI)
  then show ?thesis
    by (auto simp: test_def exec_anchored_eq match_at_def split: list.split)
qed

end
