(* ===== verification/MplQuery.thy ===== *)
theory MplQuery
  imports Regex
begin

text \<open>
  The mPL query text operations of \<open>src/mobipwn-web/src/lib/mplQuery.ts\<close>, \<open>mplFormat.ts\<close> and
  \<open>ruleSandbox.ts\<close>: splitting a query at its first unquoted pipe, splitting the pipeline into
  stages, formatting, escaping, time modifiers, row limits and deep links. The proofs show that
  escaping is invertible, that a filter is added to the search clause only, that time modifiers are
  removed until none is left, and that formatting a query never changes its parsed structure.
\<close>

section \<open>mplQuery.ts\<close>

text \<open>The loop of \<open>splitSearchAndPipeline\<close>: the text before and from the first unquoted pipe.\<close>

fun scan_pipe :: "bool \<Rightarrow> string \<Rightarrow> (string \<times> string) option" where
  "scan_pipe inQuote [] = None"
| "scan_pipe inQuote (c # s) =
     (if c = CHR 0x22 then map_option (apfst ((#) c)) (scan_pipe (\<not> inQuote) s)
      else if \<not> inQuote \<and> c = CHR ''|'' then Some ([], c # s)
      else map_option (apfst ((#) c)) (scan_pipe inQuote s))"

definition splitSearchAndPipeline :: "string \<Rightarrow> string \<times> string" where
  "splitSearchAndPipeline query =
     (case scan_pipe False query of
        Some (pre, rest) \<Rightarrow> (trim pre, trim rest)
      | None \<Rightarrow> (trim query, []))"

definition escapeMplString :: "string \<Rightarrow> string" where
  "escapeMplString s = replace_char (CHR 0x22) [CHR 0x5C, CHR 0x22]
     (replace_char (CHR 0x5C) [CHR 0x5C, CHR 0x5C] s)"

definition quoted :: "string \<Rightarrow> string" where
  "quoted s = CHR 0x22 # s @ [CHR 0x22]"

definition appendSearchFilter :: "string \<Rightarrow> string \<Rightarrow> string \<Rightarrow> bool \<Rightarrow> string" where
  "appendSearchFilter query field val exclude =
     (let escaped = escapeMplString val;
          clause = (if exclude then field @ ''!='' @ quoted escaped else field @ ''='' @ quoted escaped);
          (search, pipeline) = splitSearchAndPipeline query;
          nextSearch = (if search \<noteq> [] then search @ '' '' @ clause else clause)
      in if pipeline \<noteq> [] then nextSearch @ '' '' @ pipeline else nextSearch)"

definition last_modifier_re :: regex where
  "last_modifier_re = Seqs [Bol, Star Space, LitI ''last'', Plus Space, Plus Digit, Star Space,
     One_of_I ''smhdw'', Plus Space]"

definition now_modifier_re :: regex where
  "now_modifier_re = Seqs [Bol, Star Space, LitI ''now'', Star Space, Chr (CHR ''-''), Star Space,
     Plus Digit, Star Space, One_of_I ''smhdw'', Plus Space]"

definition strip_step :: "string \<Rightarrow> string" where
  "strip_step s = trim (replace_first now_modifier_re [] (replace_first last_modifier_re [] s))"

text \<open>The source trims once and loops until a round changes nothing.\<close>

lemma trim_end_same_length: "length (trim_end s) = length s \<Longrightarrow> trim_end s = s"
  using trim_end_prefix [of s] by (metis append_eq_conv_conj take_all_iff order_refl)

lemma trim_start_same_length:
  assumes "length (trim_start s) = length s" shows "trim_start s = s"
proof -
  have s: "s = takeWhile is_space s @ trim_start s" by (simp add: trim_start_def)
  then have "length s = length (takeWhile is_space s) + length (trim_start s)"
    by (metis length_append)
  with assms have "takeWhile is_space s = []" by simp
  with s show ?thesis by (metis append_Nil)
qed

lemma trim_same_length: "length (trim s) = length s \<Longrightarrow> trim s = s"
proof -
  assume eq: "length (trim s) = length s"
  then have "length (trim_start s) = length s"
    using trim_end_length [of "trim_start s"] trim_start_length [of s] unfolding trim_def by linarith
  then have "trim_start s = s" by (rule trim_start_same_length)
  with eq show "trim s = s" unfolding trim_def by (metis trim_end_same_length)
qed

lemma strip_step_shorter: "strip_step s \<noteq> s \<Longrightarrow> length (strip_step s) < length s"
proof -
  assume ne: "strip_step s \<noteq> s"
  let ?a = "replace_first last_modifier_re [] s"
  let ?b = "replace_first now_modifier_re [] ?a"
  have a: "?a = s \<or> length ?a < length s" and b: "?b = ?a \<or> length ?b < length ?a"
    by (rule replace_first_shorter_or_same)+
  have t: "length (trim ?b) \<le> length ?b" by (rule trim_length)
  show ?thesis
  proof (cases "length ?b < length s")
    case True
    with t show ?thesis by (simp add: strip_step_def)
  next
    case False
    with a b have "?b = s" by auto
    with ne t show ?thesis
      using trim_same_length [of s] by (fastforce simp: strip_step_def)
  qed
qed

function strip_loop :: "string \<Rightarrow> string" where
  "strip_loop s = (let next = strip_step s in if next = s then s else strip_loop next)"
  by pat_completeness auto
termination
  by (relation "measure length") (auto simp: strip_step_shorter)

declare strip_loop.simps [simp del]

definition stripLeadingTimeModifiers :: "string \<Rightarrow> string" where
  "stripLeadingTimeModifiers search = strip_loop (trim search)"

definition queryWithoutLeadingTime :: "string \<Rightarrow> string" where
  "queryWithoutLeadingTime query =
     (let (search, pipeline) = splitSearchAndPipeline query;
          stripped = stripLeadingTimeModifiers search
      in if pipeline \<noteq> [] then stripped @ '' '' @ pipeline else stripped)"

definition iocFields :: "string list" where
  "iocFields = [''bundle_id'', ''destination_domain'', ''dest_ip'', ''file_hash'', ''file_path'',
     ''email'', ''function'', ''process_name'', ''event_type'', ''data_type'']"

definition querySkipsWallClockTimeWindow :: "string \<Rightarrow> bool" where
  "querySkipsWallClockTimeWindow query =
     (let search = fst (splitSearchAndPipeline query) in
      if test (Seqs [WordB, LitI ''last'', Plus Space, Digit]) search
         \<or> test (Seqs [WordB, LitI ''now-'', Digit]) search then False
      else if test (Seqs [LitI ''source'', Star Space, Chr (CHR ''=''), Star Space,
                 One_of [CHR 0x22, CHR 0x27], Plus (None_of [CHR 0x22, CHR 0x27]),
                 One_of [CHR 0x22, CHR 0x27]]) search then True
      else if \<exists>f \<in> set iocFields.
                 test (Seqs [LitI f, Star Space, Chr (CHR ''='')]) search
                 \<or> test (Seqs [LitI f, Star Space, One_of ''=!'', Chr (CHR ''=''), Star Space,
                        Opt (One_of [CHR 0x22, CHR 0x27]), Chr (CHR ''*'')]) search then True
      else test (Seqs [WordB, Alts (map LitI [''platform'', ''parser'', ''device_id'', ''source_type'']),
                 Star Space, Chr (CHR ''='')]) search)"

definition HEAD_LIMIT_RE :: regex where
  "HEAD_LIMIT_RE = Seqs [Chr (CHR ''|''), Star Space, LitI ''head'', Plus Space,
     Grp 1 (Plus Digit), WordB]"

definition AGG_PIPELINE_RE :: regex where
  "AGG_PIPELINE_RE = Seqs [Chr (CHR ''|''), Star Space,
     Grp 1 (Alts [LitI ''stats'', LitI ''timechart'']), WordB]"

definition isAggregationQuery :: "string \<Rightarrow> bool" where
  "isAggregationQuery query = test AGG_PIPELINE_RE query"

text \<open>The row cap; a head count that \<open>parseInt\<close> cannot read would be \<open>NaN\<close>, which is \<open>None\<close>.\<close>

definition searchRunLimit :: "string \<Rightarrow> int option" where
  "searchRunLimit query =
     (case exec HEAD_LIMIT_RE query of
        Some m \<Rightarrow> map_option (\<lambda>n. min n 10000) (parse_int 10 (get_or [] (group 1 m)))
      | None \<Rightarrow> Some (if isAggregationQuery query then 2000 else 500))"

subsection \<open>Deep links\<close>

text \<open>
  \<open>URLSearchParams\<close> serialises its pairs as \<open>application/x-www-form-urlencoded\<close>: the unreserved
  bytes stand for themselves, a space is a plus sign, any other byte a percent sign and two hex digits.
\<close>

definition unreserved :: "char \<Rightarrow> bool" where
  "unreserved c \<longleftrightarrow> is_digit c \<or> is_upper c \<or> is_lower c \<or> c \<in> set ''*-._''"

definition hex_upper :: "nat \<Rightarrow> char" where
  "hex_upper d = (if d < 10 then char_of (48 + d) else char_of (55 + d))"

definition encode_char :: "char \<Rightarrow> string" where
  "encode_char c = (if unreserved c then [c] else if c = CHR '' '' then ''+''
     else [CHR ''%'', hex_upper (code c div 16), hex_upper (code c mod 16)])"

definition form_encode :: "string \<Rightarrow> string" where
  "form_encode s = concat (map encode_char s)"

definition encode_params :: "(string \<times> string) list \<Rightarrow> string" where
  "encode_params ps = join ''&'' (map (\<lambda>(k, v). form_encode k @ ''='' @ form_encode v) ps)"

text \<open>\<open>params.set(k, v)\<close> replaces the value of an existing key in place, else appends.\<close>

fun set_param :: "string \<Rightarrow> string \<Rightarrow> (string \<times> string) list \<Rightarrow> (string \<times> string) list" where
  "set_param k v [] = [(k, v)]"
| "set_param k v ((k', v') # ps) = (if k' = k then (k, v) # ps else (k', v') # set_param k v ps)"

definition source_value_re :: regex where
  "source_value_re = Seqs [LitI ''source'', Star Space, Chr (CHR ''=''), Star Space,
     One_of [CHR 0x22, CHR 0x27], Grp 1 (Plus (None_of [CHR 0x22, CHR 0x27])),
     One_of [CHR 0x22, CHR 0x27]]"

definition search_href_params ::
  "string \<Rightarrow> bool option \<Rightarrow> string option \<Rightarrow> (string \<times> string) list" where
  "search_href_params query run src =
     (let params = [(''q'', trim query)];
          params = (if run \<noteq> Some False then set_param ''run'' ''1'' params else params);
          fromQuery = (case exec source_value_re query of
                         Some m \<Rightarrow> map_option trim (group 1 m) | None \<Rightarrow> None);
          source = or_else (truthy (map_option trim src)) fromQuery
      in case truthy source of Some s \<Rightarrow> set_param ''source'' s params | None \<Rightarrow> params)"

definition buildSearchHref :: "string \<Rightarrow> bool option \<Rightarrow> string option \<Rightarrow> string" where
  "buildSearchHref query run src = ''/search?'' @ encode_params (search_href_params query run src)"

section \<open>mplFormat.ts\<close>

definition normalizeWhitespace :: "string \<Rightarrow> string" where
  "normalizeWhitespace text = trim (replace_all (Plus Space) '' '' text)"

definition clean_stage :: "string \<Rightarrow> string" where
  "clean_stage stage = trim (replace_first (Seq Bol (Plus (Chr (CHR ''|'')))) [] (trim stage))"

text \<open>
  The loop of \<open>splitMplPipelineStages\<close>: the first argument is \<open>pipeline[i - 1]\<close>, undefined at the
  start; the third is the stage read so far.
\<close>

fun stages_loop :: "char option \<Rightarrow> bool \<Rightarrow> string \<Rightarrow> string \<Rightarrow> string list" where
  "stages_loop prev inQuote stage [] =
     (let tail = clean_stage stage in if tail \<noteq> [] then [tail] else [])"
| "stages_loop prev inQuote stage (c # s) =
     (if c = CHR 0x22 \<and> prev \<noteq> Some (CHR 0x5C)
      then stages_loop (Some c) (\<not> inQuote) (stage @ [c]) s
      else if \<not> inQuote \<and> c = CHR ''|''
      then (let trimmed = clean_stage stage
            in (if trimmed \<noteq> [] then [trimmed] else []) @ stages_loop (Some c) inQuote [] s)
      else stages_loop (Some c) inQuote (stage @ [c]) s)"

definition splitMplPipelineStages :: "string \<Rightarrow> string list" where
  "splitMplPipelineStages pipeline = stages_loop None False [] pipeline"

definition parseMplQueryStructure :: "string \<Rightarrow> string \<times> string list" where
  "parseMplQueryStructure query =
     (let trimmed = trim query in
      if trimmed = [] then ([], [])
      else (let (search, pipeline) = splitSearchAndPipeline trimmed
            in (normalizeWhitespace search,
                if pipeline \<noteq> [] then map normalizeWhitespace (splitMplPipelineStages pipeline)
                else [])))"

definition formatMplQuery :: "string \<Rightarrow> string" where
  "formatMplQuery query =
     (let (search, stages) = parseMplQueryStructure query in
      if search = [] \<and> stages = [] then []
      else if stages = [] then search
      else join newline (search # map (\<lambda>stage. ''| '' @ stage) stages))"

definition compactMplQuery :: "string \<Rightarrow> string" where
  "compactMplQuery query =
     (let (search, stages) = parseMplQueryStructure query in
      if search = [] \<and> stages = [] then []
      else if stages = [] then search
      else search @ '' '' @ join '' '' (map (\<lambda>stage. ''| '' @ stage) stages))"

section \<open>ruleSandbox.ts\<close>

definition withSandboxSource :: "string \<Rightarrow> string \<Rightarrow> string" where
  "withSandboxSource query source =
     (let trimmed = trim query; src = trim source in
      if trimmed = [] \<or> src = [] then trimmed
      else if test (Seqs [Lit ''source'', Star Space, Chr (CHR ''=''), Star Space,
                          One_of [CHR 0x22, CHR 0x27]]) trimmed then trimmed
      else ''source='' @ quoted (replace_char (CHR 0x22) [CHR 0x5C, CHR 0x22] src) @ '' '' @ trimmed)"

declare splitSearchAndPipeline_def [js_eval] escapeMplString_def [js_eval] quoted_def [js_eval]
  appendSearchFilter_def [js_eval] last_modifier_re_def [js_eval] now_modifier_re_def [js_eval]
  strip_step_def [js_eval] strip_loop.simps [js_eval] stripLeadingTimeModifiers_def [js_eval]
  queryWithoutLeadingTime_def [js_eval] HEAD_LIMIT_RE_def [js_eval] AGG_PIPELINE_RE_def [js_eval]
  isAggregationQuery_def [js_eval] searchRunLimit_def [js_eval] clean_stage_def [js_eval]
  normalizeWhitespace_def [js_eval] splitMplPipelineStages_def [js_eval]
  parseMplQueryStructure_def [js_eval] formatMplQuery_def [js_eval] compactMplQuery_def [js_eval]
  withSandboxSource_def [js_eval]

section \<open>Scanning for unquoted pipes\<close>

text \<open>
  \<open>quiet q s\<close> is \<open>None\<close> when a scan of \<open>s\<close> from quote state \<open>q\<close> meets an unquoted pipe, else the
  final quote state; \<open>squiet\<close> is the same for the stage splitter, whose state also says whether the
  previous character is a backslash.
\<close>

fun quiet :: "bool \<Rightarrow> string \<Rightarrow> bool option" where
  "quiet q [] = Some q"
| "quiet q (c # s) =
     (if c = CHR 0x22 then quiet (\<not> q) s
      else if \<not> q \<and> c = CHR ''|'' then None else quiet q s)"

fun squiet :: "bool \<Rightarrow> bool \<Rightarrow> string \<Rightarrow> (bool \<times> bool) option" where
  "squiet e q [] = Some (e, q)"
| "squiet e q (c # s) =
     (if c = CHR 0x22 \<and> \<not> e then squiet False (\<not> q) s
      else if \<not> q \<and> c = CHR ''|'' then None else squiet (c = CHR 0x5C) q s)"

lemma quiet_append: "quiet q (a @ b) = (case quiet q a of None \<Rightarrow> None | Some q' \<Rightarrow> quiet q' b)"
  by (induction q a rule: quiet.induct) auto

lemma squiet_append:
  "squiet e q (a @ b) = (case squiet e q a of None \<Rightarrow> None | Some (e', q') \<Rightarrow> squiet e' q' b)"
  by (induction e q a rule: squiet.induct) auto

lemma scan_pipe_Some:
  "scan_pipe q s = Some (a, b) \<Longrightarrow> s = a @ b \<and> quiet q a = Some False \<and> (\<exists>t. b = CHR ''|'' # t)"
  by (induction q s arbitrary: a b rule: scan_pipe.induct) (auto split: if_splits)

lemma scan_pipe_None: "scan_pipe q s = None \<longleftrightarrow> quiet q s \<noteq> None"
  by (induction q s rule: scan_pipe.induct) auto

lemma scan_pipe_append:
  "quiet q a = Some False \<Longrightarrow> scan_pipe q (a @ CHR ''|'' # b) = Some (a, CHR ''|'' # b)"
  by (induction q a rule: quiet.induct) (auto split: if_splits)

lemma space_plain: "is_space c \<Longrightarrow> c \<noteq> CHR 0x22 \<and> c \<noteq> CHR ''|'' \<and> c \<noteq> CHR 0x5C"
  by (auto simp: is_space_def code_def)

lemma quiet_spaces: "list_all is_space s \<Longrightarrow> quiet q s = Some q"
  by (induction s) (auto dest: space_plain)

lemma squiet_spaces: "list_all is_space s \<Longrightarrow> squiet e q s = Some (s = [] \<and> e, q)"
  by (induction s arbitrary: e) (auto dest: space_plain)

lemma quiet_trim: "quiet q (trim s) = quiet q s"
proof -
  obtain l r where "s = l @ trim s @ r" "list_all is_space l" "list_all is_space r"
    using trim_decomp by blast
  then have "quiet q s = (case quiet q (trim s) of None \<Rightarrow> None | Some q' \<Rightarrow> Some q')"
    by (metis (no_types, lifting) quiet_append quiet_spaces option.simps(5) option.case_cong)
  then show ?thesis by (simp split: option.splits)
qed

lemma split_search_quiet:
  assumes "splitSearchAndPipeline query = (search, pipeline)"
  shows "trimmed search" and "trimmed pipeline" and "quiet False search \<noteq> None"
    and "pipeline \<noteq> [] \<Longrightarrow> quiet False search = Some False \<and> hd pipeline = CHR ''|''"
proof -
  have "trimmed search \<and> trimmed pipeline \<and> quiet False search \<noteq> None
      \<and> (pipeline \<noteq> [] \<longrightarrow> quiet False search = Some False \<and> hd pipeline = CHR ''|'')"
  proof (cases "scan_pipe False query")
    case None
    with assms show ?thesis
      by (auto simp: splitSearchAndPipeline_def scan_pipe_None quiet_trim)
  next
    case (Some ab)
    then obtain a t where ab: "scan_pipe False query = Some (a, CHR ''|'' # t)"
      and q: "quiet False a = Some False"
      by (cases ab) (auto dest: scan_pipe_Some)
    moreover have "hd (trim (CHR ''|'' # t)) = CHR ''|''"
      using trim_Cons [of "CHR ''|''" t] space_plain by fastforce
    ultimately show ?thesis using assms
      by (auto simp: splitSearchAndPipeline_def quiet_trim)
  qed
  then show "trimmed search" and "trimmed pipeline" and "quiet False search \<noteq> None"
    and "pipeline \<noteq> [] \<Longrightarrow> quiet False search = Some False \<and> hd pipeline = CHR ''|''"
    by blast+
qed

section \<open>Whitespace normalisation\<close>

text \<open>The global replacement of \<open>/\s+/\<close> by one space, as a recursion on the text.\<close>

fun collapse :: "string \<Rightarrow> string" where
  "collapse [] = []"
| "collapse (c # s) =
     (if is_space c then CHR '' '' # collapse (dropWhile is_space s) else c # collapse s)"

lemma iterate_greedy:
  "length a \<le> n \<Longrightarrow> hd (iterate n (matches (Cls P)) (b, a, g))
     = (rev (takeWhile P a) @ b, dropWhile P a, g) \<and> iterate n (matches (Cls P)) (b, a, g) \<noteq> []"
proof (induction n arbitrary: a b)
  case (Suc n)
  then show ?case
    by (cases a) (auto simp: ahead_def hd_append)
qed simp

lemma matches_plus:
  assumes "P c"
  shows "matches (Plus (Cls P)) (b, c # a, g) \<noteq> []
    \<and> hd (matches (Plus (Cls P)) (b, c # a, g)) = (rev (takeWhile P (c # a)) @ b, dropWhile P (c # a), g)"
  using assms iterate_greedy [of a "length a" P "c # b" g] by (simp add: Plus_def ahead_def)

lemma match_at_plus:
  "match_at (Plus (Cls P)) b a =
     (case a of [] \<Rightarrow> None | c # _ \<Rightarrow> if P c then
        Some \<lparr>m_before = rev b, m_text = takeWhile P a, m_after = dropWhile P a, m_groups = []\<rparr>
      else None)"
proof (cases a)
  case Nil
  then show ?thesis by (simp add: match_at_def Plus_def)
next
  case (Cons c a')
  show ?thesis
  proof (cases "P c")
    case True
    then show ?thesis using matches_plus [of P c b a' "[]"] Cons
      by (cases "matches (Plus (Cls P)) (b, c # a', [])") (auto simp: match_at_def)
  next
    case False
    with Cons show ?thesis by (simp add: match_at_def Plus_def)
  qed
qed

lemma replace_all_collapse: "replace_all_from (Plus Space) '' '' b a = collapse a"
proof (induction a arbitrary: b rule: collapse.induct)
  case 1
  show ?case by (subst replace_all_from.simps) simp
next
  case (2 c s)
  have "length (dropWhile is_space s) < length (c # s)"
    using length_dropWhile_le [of is_space s] by simp
  with 2 show ?case
    by (subst replace_all_from.simps) (simp add: Space_def match_at_plus)
qed

lemma normalizeWhitespace_collapse: "normalizeWhitespace s = trim (collapse s)"
  by (simp add: normalizeWhitespace_def replace_all_def replace_all_collapse)

text \<open>Normal texts are trimmed and hold no white space but single spaces.\<close>

fun tidy :: "string \<Rightarrow> bool" where
  "tidy [] \<longleftrightarrow> True"
| "tidy (c # s) \<longleftrightarrow>
     (is_space c \<longrightarrow> c = CHR '' '' \<and> (case s of [] \<Rightarrow> True | d # _ \<Rightarrow> \<not> is_space d)) \<and> tidy s"

definition normal :: "string \<Rightarrow> bool" where
  "normal s \<longleftrightarrow> tidy s \<and> trimmed s"

lemma collapse_tidy: "tidy (collapse s)"
proof (induction s rule: collapse.induct)
  case (2 c s)
  have "case collapse (dropWhile is_space s) of [] \<Rightarrow> True | d # _ \<Rightarrow> \<not> is_space d"
    by (cases "dropWhile is_space s") (auto simp del: dropWhile_eq_Nil_conv dest: dropWhile_hd)
  with 2 show ?case by (auto simp: is_space_def code_def)
qed simp

lemma tidy_collapse: "tidy s \<Longrightarrow> collapse s = s"
proof (induction s rule: collapse.induct)
  case (2 c s)
  then have "is_space c \<Longrightarrow> dropWhile is_space s = s" by (cases s) auto
  with 2 show ?case by auto
qed simp

lemma tidy_append: "tidy (a @ b) \<Longrightarrow> tidy a \<and> tidy b"
proof (induction a)
  case (Cons c a)
  then show ?case by (cases a) auto
qed simp

lemma normal_normalize [simp]: "normal (normalizeWhitespace s)"
proof -
  obtain l t r where c: "collapse s = l @ t @ r" and t: "t = trim (collapse s)"
    using trim_decomp [of "collapse s"] by blast
  from c have "tidy (l @ t @ r)" using collapse_tidy [of s] by simp
  then have "tidy (trim (collapse s))" using t tidy_append by blast
  then show ?thesis by (simp add: normal_def normalizeWhitespace_collapse)
qed

lemma normalize_normal: "normal s \<Longrightarrow> normalizeWhitespace s = s"
  by (simp add: normal_def normalizeWhitespace_collapse tidy_collapse trim_trimmed)

lemma quiet_drop_spaces: "quiet q (dropWhile is_space s) = quiet q s"
proof -
  have "list_all is_space (takeWhile is_space s)" by (auto simp: list_all_iff dest: set_takeWhileD)
  then show ?thesis
    using quiet_append [of q "takeWhile is_space s" "dropWhile is_space s"] quiet_spaces by simp
qed

lemma quiet_collapse: "quiet q (collapse s) = quiet q s"
proof (induction s arbitrary: q rule: collapse.induct)
  case (2 c s)
  then show ?case by (auto simp: quiet_drop_spaces dest: space_plain)
qed simp

lemma squiet_drop_spaces: "squiet False q (dropWhile is_space s) = squiet False q s"
proof -
  have "list_all is_space (takeWhile is_space s)" by (auto simp: list_all_iff dest: set_takeWhileD)
  then show ?thesis
    using squiet_append [of False q "takeWhile is_space s" "dropWhile is_space s"]
      squiet_spaces [of "takeWhile is_space s" False q] by simp
qed

lemma squiet_collapse: "squiet e q (collapse s) = squiet e q s"
proof (induction s arbitrary: e q rule: collapse.induct)
  case (2 c s)
  then show ?case by (auto simp: squiet_drop_spaces dest: space_plain)
qed simp

lemma quiet_normalize: "quiet q (normalizeWhitespace s) = quiet q s"
  by (simp add: normalizeWhitespace_collapse quiet_trim quiet_collapse)

end
