(* ===== verification/MplFacts.thy ===== *)
theory MplFacts
  imports MplQuery
begin

text \<open>
  The properties of the mPL text operations of theory \<open>MplQuery\<close>: formatting keeps the parsed
  structure of a query, escaping is invertible (stated once for every escaper of the code in the
  locale \<open>mpl_escaper\<close>), filters go to the search clause, time modifiers are removed, row limits
  are bounded and deep links carry the query.
\<close>

section \<open>The stages that the splitter yields\<close>

definition stage_ok :: "string \<Rightarrow> bool" where
  "stage_ok w \<longleftrightarrow> w \<noteq> [] \<and> trimmed w \<and> squiet False False w \<noteq> None"

definition stage_closed :: "string \<Rightarrow> bool" where
  "stage_closed w \<longleftrightarrow> (\<exists>e. squiet False False w = Some (e, False))"

lemma squiet_trim:
  assumes "squiet False False s = Some (e, q)"
  shows "\<exists>e'. squiet False False (trim s) = Some (e', q)"
proof -
  obtain l t r where s: "s = l @ t @ r" "t = trim s" "list_all is_space l" "list_all is_space r"
    using trim_decomp [of s] by blast
  have "squiet False False (l @ t @ r) = Some (e, q)" using assms s(1) by simp
  then obtain e' q' where t: "squiet False False t = Some (e', q')"
    and r: "squiet e' q' r = Some (e, q)"
    using s(3) by (auto simp: squiet_append squiet_spaces split: option.splits)
  from r s(4) have "q' = q" by (simp add: squiet_spaces)
  with t s(2) show ?thesis by auto
qed

lemma no_leading_pipe: "squiet False False w \<noteq> None \<Longrightarrow> w = [] \<or> hd w \<noteq> CHR ''|''"
  by (cases w) auto

lemma strip_no_pipe:
  assumes "w = [] \<or> hd w \<noteq> CHR ''|''"
  shows "replace_first (Seq Bol (Plus (Chr (CHR ''|'')))) [] w = w"
proof -
  have "match_at (Seq Bol (Plus (Chr (CHR ''|'')))) [] w = None"
    using assms by (cases w) (simp_all add: match_at_def behind_def Plus_def Chr_def)
  then show ?thesis by (simp add: replace_first_def exec_anchored_eq)
qed

lemma clean_stage_trim:
  assumes "squiet False False s \<noteq> None"
  shows "clean_stage s = trim s"
proof -
  obtain e q where "squiet False False (trim s) = Some (e, q)"
    using assms squiet_trim by fastforce
  then have "trim s = [] \<or> hd (trim s) \<noteq> CHR ''|''" using no_leading_pipe by fastforce
  then show ?thesis unfolding clean_stage_def by (simp only: strip_no_pipe trim_idem)
qed

lemma clean_stage_ok:
  assumes "squiet False False s = Some (e, q)" and "clean_stage s \<noteq> []"
  shows "stage_ok (clean_stage s)" and "\<not> q \<Longrightarrow> stage_closed (clean_stage s)"
  using squiet_trim [OF assms(1)] assms
  by (auto simp: clean_stage_trim stage_ok_def stage_closed_def)

text \<open>Every stage of a split is trimmed and nonempty, and all but the last close their quotes.\<close>

definition stages_ok :: "string list \<Rightarrow> bool" where
  "stages_ok ws \<longleftrightarrow> (\<forall>w \<in> set ws. stage_ok w) \<and> (\<forall>w \<in> set (butlast ws). stage_closed w)"

lemma stages_ok_Cons:
  "stage_ok w \<Longrightarrow> stage_closed w \<Longrightarrow> stages_ok ws \<Longrightarrow> stages_ok (w # ws)"
  by (auto simp: stages_ok_def)

lemma stages_ok_simps [simp]: "stages_ok []" "stages_ok [w] \<longleftrightarrow> stage_ok w"
  by (auto simp: stages_ok_def)

lemma stages_loop_ok:
  "squiet False False stage = Some (prev = Some (CHR 0x5C), inQuote) \<Longrightarrow>
     stages_ok (stages_loop prev inQuote stage s)"
proof (induction prev inQuote stage s rule: stages_loop.induct)
  case (1 prev inQuote stage)
  then show ?case using clean_stage_ok(1) by (auto simp: Let_def)
next
  case (2 prev inQuote stage c s)
  show ?case
  proof (cases "c = CHR 0x22 \<and> prev \<noteq> Some (CHR 0x5C)")
    case True
    with 2 show ?thesis by (simp add: squiet_append)
  next
    case quote: False
    show ?thesis
    proof (cases "\<not> inQuote \<and> c = CHR ''|''")
      case True
      then have rest: "stages_ok (stages_loop (Some c) inQuote [] s)"
        using 2 quote by simp
      show ?thesis
      proof (cases "clean_stage stage = []")
        case True
        with rest quote \<open>\<not> inQuote \<and> c = CHR ''|''\<close> show ?thesis by (auto simp: Let_def)
      next
        case False
        then have "stage_ok (clean_stage stage)" "stage_closed (clean_stage stage)"
          using clean_stage_ok 2(4) True by blast+
        with rest quote True False show ?thesis by (auto simp: Let_def intro: stages_ok_Cons)
      qed
    next
      case False
      have "squiet False False (stage @ [c]) = Some (c = CHR 0x5C, inQuote)"
        using 2(4) False quote by (auto simp: squiet_append)
      with 2(3) False quote show ?thesis by auto
    qed
  qed
qed

lemma stages_loop_run:
  "squiet (prev = Some (CHR 0x5C)) inQuote w = Some (e, q) \<Longrightarrow>
     \<exists>p. stages_loop prev inQuote stage (w @ s) = stages_loop p q (stage @ w) s
         \<and> (p = Some (CHR 0x5C)) = e"
proof (induction w arbitrary: prev inQuote stage)
  case (Cons c w)
  let ?q = "if c = CHR 0x22 \<and> prev \<noteq> Some (CHR 0x5C) then \<not> inQuote else inQuote"
  have "squiet (Some c = Some (CHR 0x5C)) ?q w = Some (e, q)"
    using Cons.prems by (auto split: if_splits)
  then have "\<exists>p. stages_loop (Some c) ?q (stage @ [c]) (w @ s) = stages_loop p q ((stage @ [c]) @ w) s
      \<and> (p = Some (CHR 0x5C)) = e" by (rule Cons.IH)
  moreover have "stages_loop prev inQuote stage ((c # w) @ s)
      = stages_loop (Some c) ?q (stage @ [c]) (w @ s)"
    using Cons.prems by (auto split: if_splits)
  ultimately show ?case by simp
qed auto

lemma clean_stage_padded:
  assumes "stage_ok w" and "list_all is_space l" and "list_all is_space r"
  shows "clean_stage (l @ w @ r) = w"
proof -
  obtain e q where "squiet False False w = Some (e, q)" using assms(1) by (auto simp: stage_ok_def)
  then have "squiet False False (l @ w @ r) \<noteq> None"
    using assms by (simp add: squiet_append squiet_spaces)
  then have "clean_stage (l @ w @ r) = trim (l @ w @ r)" by (rule clean_stage_trim)
  also have "\<dots> = w"
  proof -
    have "trim_start (l @ w @ r) = w @ r"
      using assms by (cases w) (auto simp: trim_start_def dropWhile_append list_all_iff stage_ok_def
          trimmed_def)
    moreover have "trim_end (w @ r) = w"
      using assms by (cases w rule: rev_cases) (auto simp: trim_end_def dropWhile_append list_all_iff
          stage_ok_def trimmed_def)
    ultimately show ?thesis by (simp add: trim_def)
  qed
  finally show ?thesis .
qed

text \<open>Splitting the rendered stages gives them back.\<close>

definition render_stages :: "string \<Rightarrow> string list \<Rightarrow> string" where
  "render_stages sep ws = join sep (map ((@) ''| '') ws)"

lemma stages_loop_render:
  assumes "list_all is_space sep" and "sep \<noteq> []"
  shows "ws \<noteq> [] \<Longrightarrow> stages_ok ws \<Longrightarrow>
    stages_loop prev False stage (render_stages sep ws)
      = (if clean_stage stage \<noteq> [] then [clean_stage stage] else []) @ ws"
proof (induction ws arbitrary: prev stage)
  case (Cons w ws)
  have w: "stage_ok w" and "stages_ok ws"
    using Cons.prems by (cases ws; auto simp: stages_ok_def)+
  obtain e q where sq: "squiet False False ('' '' @ w) = Some (e, q)"
    and q: "ws \<noteq> [] \<Longrightarrow> \<not> q"
    using w Cons.prems by (cases ws) (auto simp: stage_ok_def stages_ok_def stage_closed_def)
  let ?here = "if clean_stage stage \<noteq> [] then [clean_stage stage] else []"
  show ?case
  proof (cases ws)
    case Nil
    obtain p where "stages_loop (Some (CHR ''|'')) False [] (('' '' @ w) @ [])
        = stages_loop p q ([] @ '' '' @ w) []"
      using stages_loop_run [of "Some (CHR ''|'')" False "'' '' @ w" e q "[]" "[]"] sq by auto
    moreover have "clean_stage ('' '' @ w) = w"
      using clean_stage_padded [OF w, of "'' ''" "[]"] by (simp add: is_space_def code_def)
    moreover have "w \<noteq> []" using w by (simp add: stage_ok_def)
    ultimately show ?thesis using Nil by (simp add: render_stages_def Let_def)
  next
    case (Cons w' ws')
    have r: "render_stages sep (w # ws) = ''| '' @ w @ sep @ render_stages sep ws"
      using Cons by (simp add: render_stages_def)
    have "squiet False False (('' '' @ w) @ sep) = Some (False, False)"
      using sq q Cons assms by (simp add: squiet_append squiet_spaces)
    then obtain p where "stages_loop (Some (CHR ''|'')) False [] ((('' '' @ w) @ sep) @ render_stages sep ws)
        = stages_loop p False ([] @ ('' '' @ w) @ sep) (render_stages sep ws)"
      using stages_loop_run [of "Some (CHR ''|'')" False "('' '' @ w) @ sep" False False "[]"
          "render_stages sep ws"] by auto
    moreover have "clean_stage (('' '' @ w) @ sep) = w"
      using clean_stage_padded [OF w, of "'' ''" sep] assms by (simp add: is_space_def code_def)
    moreover have "w \<noteq> []" using w by (simp add: stage_ok_def)
    ultimately show ?thesis
      using r Cons Cons.IH \<open>stages_ok ws\<close> by (simp add: Let_def)
  qed
qed simp

section \<open>Formatting keeps the structure\<close>

lemma normalize_stage:
  assumes "stage_ok w"
  shows "stage_ok (normalizeWhitespace w)"
    and "stage_closed w \<Longrightarrow> stage_closed (normalizeWhitespace w)"
proof -
  obtain e q where "squiet False False (collapse w) = Some (e, q)"
    using assms by (auto simp: stage_ok_def squiet_collapse)
  then obtain e' where sq: "squiet False False (normalizeWhitespace w) = Some (e', q)"
    using squiet_trim by (metis normalizeWhitespace_collapse)
  obtain c t where w: "w = c # t" "\<not> is_space c"
    using assms by (cases w) (auto simp: stage_ok_def trimmed_def)
  then have "normalizeWhitespace w \<noteq> []"
    using trim_Cons [of c "collapse t"] by (auto simp: normalizeWhitespace_collapse)
  then show "stage_ok (normalizeWhitespace w)"
    using sq by (simp add: stage_ok_def normalizeWhitespace_collapse)
  show "stage_closed w \<Longrightarrow> stage_closed (normalizeWhitespace w)"
    using sq \<open>squiet False False (collapse w) = Some (e, q)\<close>
    by (auto simp: stage_closed_def squiet_collapse)
qed

definition structure_ok :: "string \<times> string list \<Rightarrow> bool" where
  "structure_ok p \<longleftrightarrow> (case p of (search, stages) \<Rightarrow>
     normal search \<and> quiet False search \<noteq> None \<and> (\<forall>w \<in> set stages. normal w) \<and> stages_ok stages
     \<and> (stages \<noteq> [] \<longrightarrow> quiet False search = Some False))"

lemma stages_ok_map_normalize: "stages_ok ws \<Longrightarrow> stages_ok (map normalizeWhitespace ws)"
  by (auto simp: stages_ok_def map_butlast [symmetric] normalize_stage)
    (meson in_set_butlastD normalize_stage(2))

lemma parse_structure_ok: "structure_ok (parseMplQueryStructure query)"
proof (cases "trim query = []")
  case True
  then show ?thesis by (auto simp: parseMplQueryStructure_def structure_ok_def normal_def)
next
  case False
  obtain search pipeline where sp: "splitSearchAndPipeline (trim query) = (search, pipeline)"
    by (cases "splitSearchAndPipeline (trim query)")
  note q = split_search_quiet [OF sp]
  have "stages_ok (splitMplPipelineStages pipeline)"
    unfolding splitMplPipelineStages_def by (rule stages_loop_ok) simp
  then show ?thesis using q False sp
    by (auto simp: parseMplQueryStructure_def structure_ok_def quiet_normalize Let_def
        intro: stages_ok_map_normalize)
qed

definition render :: "string \<Rightarrow> string \<times> string list \<Rightarrow> string" where
  "render sep p = (case p of (search, stages) \<Rightarrow>
     if stages = [] then search else search @ sep @ render_stages sep stages)"

lemma render_stages_ends:
  assumes "ws \<noteq> []" and "\<forall>w \<in> set ws. stage_ok w"
  shows "render_stages sep ws \<noteq> [] \<and> hd (render_stages sep ws) = CHR ''|''
    \<and> trimmed (render_stages sep ws)"
  using assms
proof (induction ws rule: induct_list012)
  case (2 w)
  then show ?case
    by (auto simp: render_stages_def stage_ok_def trimmed_def is_space_def code_def)
next
  case (3 w w' ws)
  then have "trimmed (render_stages sep (w' # ws))" "render_stages sep (w' # ws) \<noteq> []" by simp_all
  then show ?case
    by (auto simp: render_stages_def trimmed_def is_space_def code_def)
qed simp

lemma parse_render:
  assumes "structure_ok p" and sep: "list_all is_space sep" "sep \<noteq> []"
  shows "parseMplQueryStructure (render sep p) = p"
proof -
  obtain search stages where p: "p = (search, stages)" by (cases p)
  have s: "normal search" "quiet False search \<noteq> None" and ws: "stages_ok stages"
    and n: "\<forall>w \<in> set stages. normal w"
    using assms(1) p by (auto simp: structure_ok_def)
  have ts: "trim search = search" using s(1) by (simp add: normal_def trim_trimmed)
  show ?thesis
  proof (cases "stages = []")
    case True
    then have "splitSearchAndPipeline search = (search, [])"
      using s(2) ts scan_pipe_None [of False search] by (simp add: splitSearchAndPipeline_def)
    then show ?thesis using True p s(1) ts
      by (simp add: render_def parseMplQueryStructure_def normalize_normal)
  next
    case False
    let ?r = "render_stages sep stages"
    have q: "quiet False search = Some False" using False assms(1) p by (simp add: structure_ok_def)
    have r: "?r \<noteq> []" "trimmed ?r" "hd ?r = CHR ''|''"
      using render_stages_ends [OF False] ws by (auto simp: stages_ok_def)
    then obtain t where t: "?r = CHR ''|'' # t" by (cases ?r) auto
    define pre where "pre = (if search = [] then [] else search @ sep)"
    have "trim (search @ sep @ ?r) = pre @ ?r"
    proof (cases "search = []")
      case True
      then have "trim_start (search @ sep @ ?r) = ?r"
        using sep(1) t by (simp add: trim_start_def dropWhile_append list_all_iff is_space_def code_def)
      moreover have "trim_end ?r = ?r"
        using r(1,2) trim_trimmed [of ?r] by (cases ?r rule: rev_cases)
          (auto simp: trimmed_def intro: trim_end_append)
      ultimately show ?thesis using True by (simp add: trim_def pre_def)
    next
      case False
      then have "trimmed (search @ sep @ ?r)"
        using s(1) r by (intro trimmed_append) (simp_all add: normal_def)
      then show ?thesis using False by (simp add: trim_trimmed pre_def)
    qed
    moreover have "quiet False pre = Some False"
      using q sep by (simp add: pre_def quiet_append quiet_spaces)
    moreover have "trim pre = search"
    proof (cases "search = []")
      case False
      then have "trim_start (search @ sep) = search @ sep"
        using s(1) by (cases search) (auto simp: trim_start_def normal_def trimmed_def)
      moreover have "trim_end (search @ sep) = search"
        using s(1) False sep by (cases search rule: rev_cases)
          (auto simp: trim_end_def dropWhile_append list_all_iff normal_def trimmed_def)
      ultimately show ?thesis using False by (simp add: trim_def pre_def)
    qed (simp add: pre_def)
    ultimately have "trim (search @ sep @ ?r) = pre @ ?r"
      and sp: "splitSearchAndPipeline (pre @ ?r) = (search, ?r)"
      using t r(2) scan_pipe_append [of False pre t]
      by (simp_all add: splitSearchAndPipeline_def trim_trimmed)
    moreover have "splitMplPipelineStages ?r = stages"
      using stages_loop_render [OF sep False ws, of None "[]"]
      by (simp add: splitMplPipelineStages_def clean_stage_def strip_no_pipe)
    moreover have "map normalizeWhitespace stages = stages"
      using n by (simp add: map_idI normalize_normal)
    ultimately show ?thesis using p False r(1) s(1)
      by (simp add: render_def parseMplQueryStructure_def normalize_normal)
  qed
qed

lemma format_render: "formatMplQuery query = render newline (parseMplQueryStructure query)"
  by (auto simp: formatMplQuery_def render_def render_stages_def join_Cons split: prod.splits)

lemma compact_render: "compactMplQuery query = render '' '' (parseMplQueryStructure query)"
  by (auto simp: compactMplQuery_def render_def render_stages_def split: prod.splits)

text \<open>
  C1: Pretty-printing an mPL query never changes what it says: the formatted text parses to the same
  search clause and the same pipeline stages as the original, whatever the query (unbalanced quotes,
  empty stages and repeated pipes included), and so does the text compacted back to one line.
\<close>

theorem format_keeps_structure:
  "parseMplQueryStructure (formatMplQuery query) = parseMplQueryStructure query
   \<and> parseMplQueryStructure (compactMplQuery query) = parseMplQueryStructure query"
proof -
  have "list_all is_space newline" "newline \<noteq> []" "list_all is_space '' ''"
    by (simp_all add: newline_def is_space_def code_def)
  then show ?thesis
    by (simp add: format_render compact_render parse_render parse_structure_ok)
qed

text \<open>
  Formatting and compacting are projections that commute as the editor's two buttons promise:
  formatting twice changes nothing, and formatting after compacting (or the reverse) gives the same
  text as formatting (compacting) the original.
\<close>

theorem format_compact_idempotent:
  "formatMplQuery (formatMplQuery query) = formatMplQuery query
   \<and> formatMplQuery (compactMplQuery query) = formatMplQuery query
   \<and> compactMplQuery (formatMplQuery query) = compactMplQuery query"
proof -
  have "list_all is_space newline" "newline \<noteq> []" "list_all is_space '' ''"
    by (simp_all add: newline_def is_space_def code_def)
  then show ?thesis
    by (simp add: format_render compact_render parse_render parse_structure_ok)
qed

section \<open>Escaping\<close>

text \<open>
  How a double-quoted mPL string is read, from behind the opening quote: up to the first quote that
  no backslash escapes, a backslash standing for the character after it.
\<close>

fun read_literal :: "string \<Rightarrow> (string \<times> string) option" where
  "read_literal [] = None"
| "read_literal (c # s) =
     (if c = CHR 0x22 then Some ([], s)
      else if c = CHR 0x5C then
        (case s of [] \<Rightarrow> None | d # s' \<Rightarrow> map_option (apfst ((#) d)) (read_literal s'))
      else map_option (apfst ((#) c)) (read_literal s))"

text \<open>
  The contract of an escaping function: behind an opening quote, the escaped value and a closing
  quote read back as the value, and reading stops exactly there.
\<close>

locale mpl_escaper =
  fixes esc :: "string \<Rightarrow> string"
  assumes read_esc: "read_literal (esc v @ CHR 0x22 # r) = Some (v, r)"
begin

lemma esc_inject: "esc v = esc w \<Longrightarrow> v = w"
  by (metis read_esc fst_conv option.sel)

lemma esc_no_injection:
  "esc v @ CHR 0x22 # r = esc w @ CHR 0x22 # t \<Longrightarrow> v = w \<and> r = t"
  by (metis read_esc fst_conv snd_conv option.sel)

end

definition escape_char :: "char \<Rightarrow> string" where
  "escape_char c = (if c = CHR 0x22 \<or> c = CHR 0x5C then [CHR 0x5C, c] else [c])"

lemma escapeMplString_map: "escapeMplString v = concat (map escape_char v)"
  by (induction v) (simp_all add: escapeMplString_def replace_char_def escape_char_def)

lemma read_escaped: "read_literal (concat (map escape_char v) @ CHR 0x22 # r) = Some (v, r)"
  by (induction v) (simp_all add: escape_char_def)

interpretation esc: mpl_escaper escapeMplString
  by unfold_locales (simp add: escapeMplString_map read_escaped)


text \<open>The sandbox escapes quotes only: a source that ends in a backslash swallows its closing quote.\<close>

lemma sandbox_source_escapes_its_quotes:
  "withSandboxSource ''*'' [CHR ''a'', CHR 0x5C]
     = ''source='' @ [CHR 0x22, CHR ''a'', CHR 0x5C, CHR 0x22] @ '' *''
   \<and> read_literal ([CHR ''a'', CHR 0x5C, CHR 0x22] @ '' *'') = None"
  by code_simp

section \<open>Adding a filter\<close>

lemma quiet_parity: "quiet q s = Some q' \<Longrightarrow> q' = (q \<noteq> odd (count_list s (CHR 0x22)))"
  by (induction q s rule: quiet.induct) (auto split: if_splits)

lemma quiet_no_quote: "CHR 0x22 \<notin> set s \<Longrightarrow> q \<or> CHR ''|'' \<notin> set s \<Longrightarrow> quiet q s = Some q"
  by (induction s) auto

lemma is_word_plain: "is_word c \<Longrightarrow> c \<noteq> CHR 0x22 \<and> c \<noteq> CHR ''|'' \<and> \<not> is_space c"
  by (auto simp: is_word_def is_digit_def is_upper_def is_lower_def is_space_def code_def)

lemma set_escape: "set (escapeMplString v) \<subseteq> set v \<union> {CHR 0x5C}"
  by (auto simp: escapeMplString_map escape_char_def)

definition filter_clause :: "string \<Rightarrow> string \<Rightarrow> bool \<Rightarrow> string" where
  "filter_clause field val exclude =
     field @ (if exclude then ''!='' else ''='') @ quoted (escapeMplString val)"

lemma filter_clause_shape:
  assumes "field \<noteq> []" and "\<forall>c \<in> set field. is_word c" and "CHR 0x22 \<notin> set val"
  shows "quiet False (filter_clause field val ex) = Some False" and "trimmed (filter_clause field val ex)"
    and "filter_clause field val ex \<noteq> []"
proof -
  have "CHR 0x22 \<notin> set (escapeMplString val)" using set_escape assms(3) by blast
  moreover have "CHR 0x22 \<notin> set field" "CHR ''|'' \<notin> set field"
    using assms(2) is_word_plain by blast+
  ultimately show "quiet False (filter_clause field val ex) = Some False"
    by (auto simp: filter_clause_def quoted_def quiet_append quiet_no_quote)
  show "trimmed (filter_clause field val ex)" "filter_clause field val ex \<noteq> []"
    using assms is_word_plain by (auto simp: filter_clause_def trimmed_def quoted_def is_space_def code_def)
qed

lemma split_of_parts:
  assumes "quiet False s = Some False" and "trimmed s" and "trimmed p"
    and "p = [] \<or> hd p = CHR ''|''"
  shows "splitSearchAndPipeline (if p \<noteq> [] then s @ '' '' @ p else s) = (s, p)"
proof (cases p)
  case Nil
  then show ?thesis using assms scan_pipe_None [of False s]
    by (simp add: splitSearchAndPipeline_def trim_trimmed)
next
  case (Cons c t)
  have "quiet False (s @ '' '') = Some False" using assms(1) by (simp add: quiet_append)
  from scan_pipe_append [OF this, of t] have "scan_pipe False (s @ '' '' @ p) = Some (s @ '' '', p)"
    using Cons assms(4) by simp
  moreover have "trim (s @ '' '') = s"
  proof (cases "s = []")
    case False
    then have "trim_start (s @ '' '') = s @ '' ''"
      using assms(2) by (cases s) (auto simp: trim_start_def trimmed_def)
    moreover have "trim_end (s @ '' '') = s"
      using assms(2) False by (cases s rule: rev_cases)
        (auto simp: trim_end_def trimmed_def is_space_def code_def)
    ultimately show ?thesis by (simp add: trim_def)
  qed (simp add: trim_def trim_start_def is_space_def code_def)
  ultimately show ?thesis using Cons assms(3) by (simp add: splitSearchAndPipeline_def trim_trimmed)
qed

text \<open>
  A click-to-filter on a field adds its predicate to the search clause and to nothing else: the
  resulting query splits into the old clause followed by the new predicate, and into the very same
  pipeline. The value may hold pipes, spaces and backslashes; it must not hold a double quote, and
  the old search clause must close its quotes.
\<close>

theorem filter_goes_to_search:
  assumes "field \<noteq> []" and "\<forall>c \<in> set field. is_word c" and "CHR 0x22 \<notin> set val"
    and "even (count_list (fst (splitSearchAndPipeline query)) (CHR 0x22))"
  shows "splitSearchAndPipeline (appendSearchFilter query field val ex) =
     (let (search, pipeline) = splitSearchAndPipeline query
      in ((if search \<noteq> [] then search @ '' '' else []) @ filter_clause field val ex, pipeline))"
proof -
  obtain s p where sp: "splitSearchAndPipeline query = (s, p)" by fastforce
  note q = split_search_quiet [OF sp]
  note c = filter_clause_shape [OF assms(1-3), of ex]
  from q(3) obtain b where "quiet False s = Some b" by blast
  then have s: "quiet False s = Some False" using quiet_parity assms(4) sp by fastforce
  let ?n = "(if s \<noteq> [] then s @ '' '' else []) @ filter_clause field val ex"
  have "quiet False ?n = Some False" using s c(1) by (simp add: quiet_append)
  moreover have "trimmed ?n"
    using trimmed_append [OF q(1) c(2), of "'' ''"] c by simp
  ultimately have "splitSearchAndPipeline (if p \<noteq> [] then ?n @ '' '' @ p else ?n) = (?n, p)"
    using q by (intro split_of_parts) auto
  moreover have "appendSearchFilter query field val ex = (if p \<noteq> [] then ?n @ '' '' @ p else ?n)"
    using sp by (auto simp: appendSearchFilter_def filter_clause_def Let_def)
  ultimately show ?thesis using sp by simp
qed

lemma filter_goes_to_search_witness:
  "splitSearchAndPipeline (appendSearchFilter ''a=1 | head 5'' ''message'' ''x|y'' False)
     = (''a=1 message='' @ quoted ''x|y'', ''| head 5'')"
proof -
  have sp: "splitSearchAndPipeline ''a=1 | head 5'' = (''a=1'', ''| head 5'')" by code_simp
  have "\<forall>c \<in> set ''message''. is_word c" by code_simp
  moreover have "escapeMplString ''x|y'' = ''x|y''" by code_simp
  ultimately show ?thesis
    using filter_goes_to_search [of "''message''" "''x|y''" "''a=1 | head 5''" False] sp
    by (simp add: filter_clause_def)
qed

text \<open>With a quote in the value, the splitter (which ignores escapes) cuts the filter at the pipe.\<close>

lemma filter_with_quote_is_cut:
  "splitSearchAndPipeline (appendSearchFilter ''a=1'' ''message'' [CHR ''x'', CHR 0x22, CHR ''|'', CHR ''y''] False)
     = (''a=1 message='' @ [CHR 0x22, CHR ''x'', CHR 0x5C, CHR 0x22], ''|y'' @ [CHR 0x22])"
  by code_simp

section \<open>Time modifiers\<close>

lemma strip_loop_fixed: "strip_step (strip_loop s) = strip_loop s"
proof (induction s rule: strip_loop.induct)
  case (1 s)
  then show ?case by (cases "strip_step s = s") (simp_all add: strip_loop.simps [of s])
qed

lemma strip_loop_length: "length (strip_loop s) \<le> length s"
proof (induction s rule: strip_loop.induct)
  case (1 s)
  then show ?case
    by (cases "strip_step s = s") (auto simp: strip_loop.simps [of s] dest: strip_step_shorter)
qed

lemma strip_step_eq:
  assumes "strip_step s = s"
  shows "\<not> test last_modifier_re s" and "\<not> test now_modifier_re s"
proof -
  let ?a = "replace_first last_modifier_re [] s"
  let ?b = "replace_first now_modifier_re [] ?a"
  have "length (trim ?b) \<le> length ?b" by (rule trim_length)
  with assms have len: "length s \<le> length ?b" by (simp add: strip_step_def)
  with replace_first_eps_length [of now_modifier_re ?a] have "\<not> length ?a < length s" by linarith
  then have a: "?a = s" using replace_first_shorter_or_same [of last_modifier_re s] by blast
  then have b: "replace_first now_modifier_re [] s = s"
    using len replace_first_shorter_or_same [of now_modifier_re s] by auto
  have "consuming last_modifier_re" "consuming now_modifier_re"
    by (simp_all add: last_modifier_re_def now_modifier_re_def One_of_I_def)
  with a b show "\<not> test last_modifier_re s" and "\<not> test now_modifier_re s"
    by (simp_all add: replace_first_fixed)
qed

text \<open>
  Removing the leading time modifiers terminates with a clause that starts with no modifier the
  patterns recognise, is never longer than the clause given, and is left alone by a second removal.
\<close>

theorem strip_removes_all:
  "\<not> test last_modifier_re (stripLeadingTimeModifiers s)
   \<and> \<not> test now_modifier_re (stripLeadingTimeModifiers s)
   \<and> length (stripLeadingTimeModifiers s) \<le> length s
   \<and> stripLeadingTimeModifiers (stripLeadingTimeModifiers s) = stripLeadingTimeModifiers s"
proof -
  let ?r = "stripLeadingTimeModifiers s"
  have fixed: "strip_step ?r = ?r" by (simp add: stripLeadingTimeModifiers_def strip_loop_fixed)
  have "trimmed (strip_step ?r)" by (simp add: strip_step_def)
  then have "trim ?r = ?r" using fixed by (simp add: trim_trimmed)
  then have "stripLeadingTimeModifiers ?r = ?r"
    using fixed strip_loop.simps [of ?r] by (simp add: stripLeadingTimeModifiers_def Let_def)
  moreover have "length ?r \<le> length s"
    using strip_loop_length [of "trim s"] trim_length [of s] by (simp add: stripLeadingTimeModifiers_def)
  ultimately show ?thesis using strip_step_eq [OF fixed] by blast
qed

text \<open>A modifier that is the whole clause has no white space behind it and stays.\<close>

lemma lone_modifier_stays:
  "queryWithoutLeadingTime ''last 24h | stats count'' = ''last 24h | stats count''"
  by code_simp

section \<open>Row limits\<close>

lemma head_limit_group:
  assumes "exec HEAD_LIMIT_RE query = Some m"
  shows "\<exists>w. group 1 m = Some w \<and> w \<noteq> [] \<and> list_all is_digit w"
proof -
  obtain b0 a0 b' a' g where st: "(b', a', g) \<in> set (matches HEAD_LIMIT_RE (b0, a0, []))"
    and g: "m_groups m = g"
    using assms exec_from_result unfolding exec_def by blast
  let ?pre = "Seq (Chr (CHR ''|'')) (Seq (Star Space) (Seq (LitI ''head'') (Plus Space)))"
  have "set (matches HEAD_LIMIT_RE st0)
      = set (matches (Seq ?pre (Seq (Grp 1 (Plus Digit)) (Seq WordB Eps))) st0)" for st0
    by (simp add: HEAD_LIMIT_RE_def image_image UN_UN_flatten)
  with st have "(b', a', g) \<in> set (matches (Seq ?pre (Seq (Grp 1 (Plus Digit)) (Seq WordB Eps))) (b0, a0, []))"
    by blast
  then obtain u where u: "u \<in> set (matches ?pre (b0, a0, []))"
    and "(b', a', g) \<in> set (matches (Seq (Grp 1 (Plus Digit)) (Seq WordB Eps)) u)"
    by (rule matches_Seq_E)
  then obtain v where v: "v \<in> set (matches (Grp 1 (Plus (Cls is_digit))) u)"
    and e: "(b', a', g) \<in> set (matches (Seq WordB Eps) v)"
    unfolding Digit_def using matches_Seq_E by blast
  have "captures u = []" using plain_captures [OF _ u] by (simp add: captures_def)
  with group_run [OF v] obtain w where w: "captures v = [(1, w)]" "w \<noteq> []" "list_all is_digit w"
    by auto
  have "g = captures v" using plain_captures [OF _ e] by (simp add: captures_def)
  with w g show ?thesis by (simp add: group_def)
qed

lemma parse_int_digits:
  assumes "w \<noteq> []" and "list_all is_digit w"
  shows "parse_int 10 w = Some (int (digits_val 10 w))"
proof -
  have d: "\<forall>c \<in> set w. digit_in 10 c"
    using assms(2) by (auto simp: list_all_iff digit_in_def digit_val_def is_digit_def)
  then have "takeWhile (digit_in 10) w = w" by (simp add: takeWhile_eq_all_conv)
  with assms(1) have "parse_nat 10 w = Some (digits_val 10 w)"
    by (simp add: parse_nat_def strip_0x_def Let_def del: takeWhile_eq_all_conv)
  moreover obtain c t where "w = c # t" "is_digit c" using assms by (cases w) auto
  then have "trim_start w = w" "\<not> starts_with ''-'' w" "\<not> starts_with ''+'' w"
    by (auto simp: trim_start_def is_digit_not_space starts_with_def is_digit_def code_def)
  ultimately show ?thesis by (simp add: parse_int_def)
qed

text \<open>
  The row limit sent to the search endpoint is always a number (never \<open>NaN\<close>), never negative and
  never above 10000, and it is one of the two defaults when the query has no head command.
\<close>

theorem search_limit_bounds:
  "\<exists>n. searchRunLimit query = Some n \<and> 0 \<le> n \<and> n \<le> 10000
     \<and> (exec HEAD_LIMIT_RE query = None \<longrightarrow> n = 2000 \<or> n = 500)"
proof (cases "exec HEAD_LIMIT_RE query")
  case None
  then show ?thesis by (simp add: searchRunLimit_def)
next
  case (Some m)
  from head_limit_group [OF this] obtain w where "group 1 m = Some w" "w \<noteq> []" "list_all is_digit w"
    by blast
  with Some have "searchRunLimit query = Some (min (int (digits_val 10 w)) 10000)"
    by (simp add: searchRunLimit_def get_or_def parse_int_digits)
  with Some show ?thesis by simp
qed

lemma search_limit_bounds_witness:
  "searchRunLimit ''x'' = Some 500 \<and> (\<exists>n. searchRunLimit ''x'' = Some n \<and> 0 \<le> n \<and> n \<le> 10000)"
proof -
  have "exec HEAD_LIMIT_RE ''x'' = None" by code_simp
  moreover have "searchRunLimit ''x'' = Some 500" by code_simp
  ultimately show ?thesis using search_limit_bounds [of "''x''"] by simp
qed

section \<open>Deep links\<close>

text \<open>Reading \<open>application/x-www-form-urlencoded\<close> text.\<close>

fun form_decode :: "string \<Rightarrow> string" where
  "form_decode [] = []"
| "form_decode [c] = [if c = CHR ''+'' then CHR '' '' else c]"
| "form_decode [c, d] = (if c = CHR ''+'' then CHR '' '' else c) # form_decode [d]"
| "form_decode (c # h # l # s) =
     (if c = CHR ''%'' then char_of (16 * the (digit_val h) + the (digit_val l)) # form_decode s
      else (if c = CHR ''+'' then CHR '' '' else c) # form_decode (h # l # s))"

definition split_pair :: "string \<Rightarrow> string \<times> string" where
  "split_pair s = (form_decode (takeWhile (\<lambda>c. c \<noteq> CHR ''='') s),
                   form_decode (drop 1 (dropWhile (\<lambda>c. c \<noteq> CHR ''='') s)))"

definition parse_params :: "string \<Rightarrow> (string \<times> string) list" where
  "parse_params s = map split_pair (split_char (CHR ''&'') s)"

lemma hex_upper_val: "d < 16 \<Longrightarrow> digit_val (hex_upper d) = Some d"
proof -
  assume d: "d < 16"
  then have "code (hex_upper d) = (if d < 10 then 48 + d else 55 + d)"
    by (auto simp: hex_upper_def code_char_of)
  with d show ?thesis by (auto simp: digit_val_def is_digit_def is_lower_def is_upper_def)
qed

lemma unreserved_plain: "unreserved c \<Longrightarrow> c \<noteq> CHR ''%'' \<and> c \<noteq> CHR ''+'' \<and> c \<noteq> CHR ''&'' \<and> c \<noteq> CHR ''=''"
  by (auto simp: unreserved_def is_digit_def is_upper_def is_lower_def code_def)

lemma form_decode_plain:
  "c \<noteq> CHR ''%'' \<Longrightarrow> form_decode (c # s) = (if c = CHR ''+'' then CHR '' '' else c) # form_decode s"
  by (cases s rule: form_decode.cases) auto

lemma code_less: "code c < 256"
  using range_nat_of_char by (metis UNIV_I atLeastLessThan_iff code_def imageI)

lemma form_decode_encode_char: "form_decode (encode_char c @ s) = c # form_decode s"
proof -
  consider "unreserved c" | "\<not> unreserved c" "c = CHR '' ''" | "\<not> unreserved c" "c \<noteq> CHR '' ''"
    by blast
  then show ?thesis
  proof cases
    case 1
    then show ?thesis using unreserved_plain by (simp add: encode_char_def form_decode_plain)
  next
    case 2
    then show ?thesis by (simp add: encode_char_def form_decode_plain)
  next
    case 3
    have "code c div 16 < 16" using code_less [of c] by auto
    then have "char_of (16 * the (digit_val (hex_upper (code c div 16)))
        + the (digit_val (hex_upper (code c mod 16)))) = c"
      by (simp add: hex_upper_val) (simp add: code_def)
    with 3 show ?thesis by (simp add: encode_char_def)
  qed
qed

lemma form_decode_encode: "form_decode (form_encode s) = s"
  by (induction s) (simp_all add: form_encode_def form_decode_encode_char)

lemma hex_upper_plain: "d < 16 \<Longrightarrow> hex_upper d \<noteq> CHR ''&'' \<and> hex_upper d \<noteq> CHR ''=''"
proof -
  assume "d < 16"
  then have "d \<in> set [0..<16]" by simp
  moreover have "\<forall>d \<in> set [0..<16]. hex_upper d \<noteq> CHR ''&'' \<and> hex_upper d \<noteq> CHR ''=''"
    by code_simp
  ultimately show ?thesis by blast
qed

lemma encode_char_plain: "x \<in> set (encode_char c) \<Longrightarrow> x \<noteq> CHR ''&'' \<and> x \<noteq> CHR ''=''"
proof -
  have "code c div 16 < 16" using code_less [of c] by auto
  then show "x \<in> set (encode_char c) \<Longrightarrow> x \<noteq> CHR ''&'' \<and> x \<noteq> CHR ''=''"
    using unreserved_plain hex_upper_plain by (auto simp: encode_char_def split: if_splits)
qed

lemma form_encode_plain: "CHR ''&'' \<notin> set (form_encode s) \<and> CHR ''='' \<notin> set (form_encode s)"
  using encode_char_plain by (fastforce simp: form_encode_def)

lemma split_pair_encode: "split_pair (form_encode k @ ''='' @ form_encode v) = (k, v)"
proof -
  have "\<forall>x \<in> set (form_encode k). x \<noteq> CHR ''=''" using form_encode_plain by metis
  then show ?thesis
    by (simp add: split_pair_def takeWhile_append2 dropWhile_append2 form_decode_encode)
qed

lemma parse_encode_params:
  assumes "ps \<noteq> []"
  shows "parse_params (encode_params ps) = ps"
proof -
  let ?f = "\<lambda>(k, v). form_encode k @ ''='' @ form_encode v"
  have "\<forall>w \<in> set (map ?f ps). CHR ''&'' \<notin> set w" using form_encode_plain by auto
  then have "split_char (CHR ''&'') (encode_params ps) = map ?f ps"
    using assms unfolding encode_params_def by (intro split_char_join) auto
  moreover have "split_pair (?f p) = p" for p
    using split_pair_encode by (cases p) auto
  ultimately show ?thesis by (simp add: parse_params_def comp_def del: append.simps)
qed

lemma set_param_not_Nil [simp]: "set_param k v ps \<noteq> []"
  by (cases "(k, v, ps)" rule: set_param.cases) auto

lemma hd_set_param: "ps \<noteq> [] \<Longrightarrow> fst (hd ps) \<noteq> k \<Longrightarrow> hd (set_param k v ps) = hd ps"
  by (cases ps) (auto split: prod.splits)

text \<open>
  A deep link to the search page carries the query whatever characters it holds: the link is the
  search path followed by parameters that read back as the parameters that were put in, the first of
  which is the trimmed query under the key \<open>q\<close>.
\<close>

theorem search_href_roundtrip:
  "\<exists>ps. buildSearchHref query run src = ''/search?'' @ ps
      \<and> parse_params ps = search_href_params query run src
      \<and> hd (parse_params ps) = (''q'', trim query)"
proof -
  have ne: "search_href_params query run src \<noteq> []"
    by (auto simp: search_href_params_def Let_def split: option.splits)
  have "hd (search_href_params query run src) = (''q'', trim query)"
    by (auto simp: search_href_params_def Let_def hd_set_param split: option.splits)
  then show ?thesis
    unfolding buildSearchHref_def using parse_encode_params [OF ne] by simp
qed

end
