(* ===== verification/MplHighlight.thy ===== *)
theory MplHighlight
  imports Regex
begin

text \<open>
  The syntax highlighter of \<open>src/mobipwn-web/src/lib/mplQueryHighlight.ts\<close>: one scanning step
  per iteration of \<open>tokenizeMplQuery\<close>, the loop over it, and the contract of a scanner (locale
  \<open>lexer\<close>), under which the tokens spell the input.
\<close>

section \<open>Tokens\<close>

datatype MplTokenKind =
  K_time | K_pipe | K_command | K_keyword | K_field | K_string | K_operator | K_wildcard | K_text

record MplToken =
  t_kind :: MplTokenKind
  t_value :: string

definition COMMANDS :: "string list" where
  "COMMANDS = [''where'', ''stats'', ''head'', ''sort'', ''eval'', ''dedup'', ''rex'', ''join'',
     ''fields'', ''timechart'', ''rename'', ''lookup'', ''count'', ''by'', ''span'', ''limit'',
     ''type'', ''inner'', ''left'', ''useother'', ''field'', ''IN'', ''NOT'', ''AND'', ''OR'', ''AS'']"

definition TIME_RE :: regex where
  "TIME_RE = Seq Bol (Seq (Opt (Seq (LitI ''@timestamp'') (Plus Space)))
     (Alt (LitI ''last'')
        (Seqs [LitI ''now-'', Plus Digit, One_of_I ''mhdw'', Alt (Plus Space) Eol])))"

definition SPACE_RE :: regex where
  "SPACE_RE = Seq Bol (Plus Space)"

definition STRING_RE :: regex where
  "STRING_RE = Alt
     (Seq Bol (Seqs [Chr (CHR 0x22), Star (None_of [CHR 0x22]), Chr (CHR 0x22)]))
     (Seq Bol (Seqs [Chr (CHR 0x27), Star (None_of [CHR 0x27]), Chr (CHR 0x27)]))"

definition WORD_RE :: regex where
  "WORD_RE = Seq Bol (Seq (Cls (\<lambda>c. is_upper c \<or> is_lower c \<or> c = CHR ''_''))
     (Star (Cls (\<lambda>c. is_word c \<or> c = CHR ''.''))))"

definition OP_RE :: regex where
  "OP_RE = Alt (Seq Bol (Lit ''!=''))
     (Alt (Seq Bol (Seq (One_of ''<>'') (Opt (Chr (CHR ''='')))))
          (Seq Bol (Chr (CHR ''=''))))"

definition AFTER_FIELD_RE :: regex where
  "AFTER_FIELD_RE = Seq Bol (One_of ''=!<>'')"

definition word_kind :: "string \<Rightarrow> string \<Rightarrow> MplTokenKind" where
  "word_kind word after =
     (let lower = to_lower word;
          isField = test AFTER_FIELD_RE after \<or> CHR ''.'' \<in> set word
      in if word \<in> set COMMANDS \<or> lower \<in> set COMMANDS
         then (if word = ''IN'' \<or> lower = ''in'' then K_keyword else K_command)
         else if isField then K_field else K_text)"

definition tok :: "MplTokenKind \<Rightarrow> match \<Rightarrow> MplToken \<times> string" where
  "tok k m = (\<lparr>t_kind = k, t_value = m_text m\<rparr>, m_after m)"

text \<open>
  One iteration of the loop on \<open>rest = query.slice(i)\<close>, nonempty: the token pushed, the new value of
  \<open>atStart\<close> and the text behind the token.
\<close>

definition lex_step :: "bool \<Rightarrow> string \<Rightarrow> MplToken \<times> bool \<times> string" where
  "lex_step atStart rest =
     (let one = (\<lambda>k. \<lparr>t_kind = k, t_value = take 1 rest\<rparr>); behind_one = drop 1 rest in
      case exec SPACE_RE rest of
        Some m \<Rightarrow> (fst (tok K_text m), atStart, m_after m)
      | None \<Rightarrow>
      (case (if atStart then exec TIME_RE rest else None) of
        Some m \<Rightarrow> (fst (tok K_time m), False, m_after m)
      | None \<Rightarrow>
      if take 1 rest = ''|'' then (one K_pipe, False, behind_one)
      else
      (case exec STRING_RE rest of
        Some m \<Rightarrow> (fst (tok K_string m), False, m_after m)
      | None \<Rightarrow>
      (case exec WORD_RE rest of
        Some m \<Rightarrow> (fst (tok (word_kind (m_text m) (m_after m)) m), False, m_after m)
      | None \<Rightarrow>
      (case exec OP_RE rest of
        Some m \<Rightarrow> (fst (tok K_operator m), atStart, m_after m)
      | None \<Rightarrow>
      if take 1 rest = ''*'' \<or> take 1 rest = ''?'' then (one K_wildcard, atStart, behind_one)
      else if take 1 rest = ''!'' \<and> take 1 (drop 1 rest) \<noteq> ''='' then (one K_operator, atStart, behind_one)
      else if take 1 rest \<in> set [''('', '')'', ''['', '']'', '','']
           then (one K_text, atStart, behind_one)
      else (one K_text, False, behind_one))))))"

section \<open>The contract of a scanner\<close>

text \<open>
  \<open>lex\<close> reads one token off a nonempty text; \<open>run\<close> repeats it. Each step must spell the text it
  removes, and must remove some.
\<close>

locale lexer =
  fixes lex :: "'s \<Rightarrow> string \<Rightarrow> 't \<times> 's \<times> string"
    and spell :: "'t \<Rightarrow> string"
    and run :: "'s \<Rightarrow> string \<Rightarrow> 't list"
  assumes lex_spells: "w \<noteq> [] \<Longrightarrow> lex s w = (t, s', r) \<Longrightarrow> w = spell t @ r \<and> spell t \<noteq> []"
    and run_Nil: "run s [] = []"
    and run_step: "w \<noteq> [] \<Longrightarrow> lex s w = (t, s', r) \<Longrightarrow> run s w = t # run s' r"
begin

lemma run_lossless: "concat (map spell (run s w)) = w \<and> (\<forall>t \<in> set (run s w). spell t \<noteq> [])"
proof (induction w arbitrary: s rule: length_induct)
  case (1 w)
  show ?case
  proof (cases "w = []")
    case True
    then show ?thesis by (simp add: run_Nil)
  next
    case False
    obtain t s' r where lex: "lex s w = (t, s', r)" by (cases "lex s w")
    note sp = lex_spells [OF False lex]
    then have "length r < length w" by (cases "spell t") auto
    then have "concat (map spell (run s' r)) = r" "\<forall>t \<in> set (run s' r). spell t \<noteq> []"
      using 1 by blast+
    with sp show ?thesis unfolding run_step [OF False lex] by simp
  qed
qed

lemma run_length: "length (run s w) \<le> length w"
proof -
  have "length ts \<le> length (concat (map spell ts))" if "\<forall>t \<in> set ts. spell t \<noteq> []" for ts
    using that
  proof (induction ts)
    case (Cons t ts)
    then show ?case by (cases "spell t") auto
  qed simp
  with run_lossless [of s w] show ?thesis by metis
qed

lemma run_tokens:
  assumes "\<And>s w t s' r. w \<noteq> [] \<Longrightarrow> lex s w = (t, s', r) \<Longrightarrow> P t"
  shows "t \<in> set (run s w) \<Longrightarrow> P t"
proof (induction w arbitrary: s rule: length_induct)
  case (1 w)
  show ?case
  proof (cases "w = []")
    case False
    obtain u s' r where lex: "lex s w = (u, s', r)" by (cases "lex s w")
    have "length r < length w" using lex_spells [OF False lex] by (cases "spell u") auto
    with 1 assms [OF False lex] show ?thesis by (auto simp: run_step [OF False lex])
  qed (use 1 in \<open>simp add: run_Nil\<close>)
qed

end

section \<open>The tokenizer\<close>

lemma re_facts [simp]:
  "anchored SPACE_RE" "anchored TIME_RE" "anchored STRING_RE" "anchored WORD_RE" "anchored OP_RE"
  "consuming SPACE_RE" "consuming TIME_RE" "consuming STRING_RE" "consuming WORD_RE" "consuming OP_RE"
  by (simp_all add: SPACE_RE_def TIME_RE_def STRING_RE_def WORD_RE_def OP_RE_def Plus_def Opt_def
      Space_def Chr_def ChrI_def One_of_def One_of_I_def Digit_def None_of_def)

lemma exec_spells:
  "anchored r \<Longrightarrow> consuming r \<Longrightarrow> exec r w = Some m \<Longrightarrow> m_text m @ m_after m = w \<and> m_text m \<noteq> []"
  using exec_anchored [of r w m] match_at_consuming [of r "[]" w m]
  by (simp add: exec_anchored_eq)

definition spelled :: "string \<Rightarrow> MplToken \<times> bool \<times> string \<Rightarrow> bool" where
  "spelled w x \<longleftrightarrow> (case x of (t, _, r) \<Rightarrow> t_value t @ r = w \<and> t_value t \<noteq> [])"

lemma spelled_one:
  "w \<noteq> [] \<Longrightarrow> take 1 w = x \<Longrightarrow> spelled w (\<lparr>t_kind = k, t_value = x\<rparr>, s, drop 1 w)"
  unfolding spelled_def by (cases w) auto

lemma spelled_match:
  "exec r w = Some m \<Longrightarrow> anchored r \<Longrightarrow> consuming r \<Longrightarrow> spelled w (fst (tok k m), s, m_after m)"
  using exec_spells by (simp add: spelled_def tok_def)

lemma spelled_lex_step: "w \<noteq> [] \<Longrightarrow> spelled w (lex_step s w)"
  unfolding lex_step_def Let_def
  by (simp add: spelled_one spelled_match split: option.split del: One_nat_def)

lemma lex_step_spells:
  "w \<noteq> [] \<Longrightarrow> lex_step s w = (t, s', r) \<Longrightarrow> t_value t @ r = w \<and> t_value t \<noteq> []"
  using spelled_lex_step [of w s] by (simp add: spelled_def)

lemma lex_step_shorter:
  assumes "w \<noteq> []" and "(t, s', r) = lex_step s w"
  shows "length r < length w"
  using lex_step_spells [OF assms(1) assms(2) [symmetric]] by (cases "t_value t") auto

function tokenize_loop :: "bool \<Rightarrow> string \<Rightarrow> MplToken list" where
  "tokenize_loop atStart rest =
     (if rest = [] then []
      else (case lex_step atStart rest of (t, atStart', rest') \<Rightarrow> t # tokenize_loop atStart' rest'))"
  by pat_completeness auto
termination
  by (relation "measure (\<lambda>(_, rest). length rest)") (auto intro: lex_step_shorter)

declare tokenize_loop.simps [simp del]

definition tokenizeMplQuery :: "string \<Rightarrow> MplToken list" where
  "tokenizeMplQuery query = tokenize_loop True query"

interpretation hl: lexer lex_step t_value tokenize_loop
  by unfold_locales (auto simp: tokenize_loop.simps dest: lex_step_spells)

text \<open>
  C3: Highlighting never loses, adds or reorders a character: the token values concatenated are the
  query, no token is empty, and there are at most as many tokens as characters.
\<close>

theorem tokens_spell_query:
  "concat (map t_value (tokenizeMplQuery query)) = query
   \<and> list_all (\<lambda>t. t_value t \<noteq> []) (tokenizeMplQuery query)
   \<and> length (tokenizeMplQuery query) \<le> length query"
  unfolding tokenizeMplQuery_def list_all_iff using hl.run_lossless hl.run_length by blast

definition token_ok :: "MplToken \<Rightarrow> bool" where
  "token_ok t \<longleftrightarrow>
     (t_kind t = K_command \<longrightarrow> t_value t \<in> set COMMANDS \<or> to_lower (t_value t) \<in> set COMMANDS)
     \<and> (t_kind t = K_keyword \<longrightarrow> to_lower (t_value t) = ''in'')
     \<and> (t_kind t = K_pipe \<longrightarrow> t_value t = ''|'')
     \<and> (t_kind t = K_wildcard \<longrightarrow> t_value t \<in> {''*'', ''?''})"

lemma to_lower_IN: "to_lower ''IN'' = ''in''"
  by code_simp

lemma lex_step_ok:
  assumes "w \<noteq> []" and "lex_step s w = (t, s', r)"
  shows "token_ok t"
  using assms(2) unfolding lex_step_def Let_def tok_def token_ok_def word_kind_def
  by (auto simp: to_lower_IN split: option.splits if_splits)


end
