(* ===== verification/Dashboard.thy ===== *)
theory Dashboard
  imports MplQuery
begin

text \<open>
  The dashboard documents of \<open>src/mobipwn-web/src/lib/dashboard.ts\<close>: panels on a 12-column grid,
  the default document, parsing a stored layout, adding panels, and the query texts of panels. The
  default document is module state: \<open>migrateLegacyLayout\<close> writes to a panel object it shares
  with the default, so the functions that read or write the default take and return it.
\<close>

section \<open>Documents\<close>

text \<open>The properties of a \<open>LayoutItem\<close> that the module uses; absent optional ones are \<open>None\<close>.\<close>

record LayoutItem =
  l_i :: string
  l_x :: int
  l_y :: int
  l_w :: int
  l_h :: int
  l_minW :: "int option"
  l_minH :: "int option"
  l_maxW :: "int option"
  l_maxH :: "int option"

datatype PanelViz = V_bar | V_line | V_area | V_pie | V_table | V_single_value | V_timechart

record DashboardPanel =
  p_id :: string
  p_title :: string
  p_query :: string
  p_viz :: PanelViz
  p_layout :: LayoutItem

record DashboardDocument =
  d_version :: int
  d_description :: "string option"
  d_refresh_sec :: int
  d_time_preset :: string
  d_panels :: "DashboardPanel list"

definition grid_item :: "string \<Rightarrow> int \<Rightarrow> int \<Rightarrow> int \<Rightarrow> int \<Rightarrow> int option \<Rightarrow> int option \<Rightarrow> LayoutItem" where
  "grid_item i x y w h minW minH =
     \<lparr>l_i = i, l_x = x, l_y = y, l_w = w, l_h = h, l_minW = minW, l_minH = minH,
      l_maxW = None, l_maxH = None\<rparr>"

definition PLATFORM_CASE_TOPS_PANEL_ID :: string where
  "PLATFORM_CASE_TOPS_PANEL_ID = ''platform_case_tops''"

definition dpanel :: "string \<Rightarrow> string \<Rightarrow> string \<Rightarrow> PanelViz \<Rightarrow> LayoutItem \<Rightarrow> DashboardPanel" where
  "dpanel i title query viz layout =
     \<lparr>p_id = i, p_title = title, p_query = query, p_viz = viz, p_layout = layout\<rparr>"

definition DEFAULT_MOBILE_DASHBOARD :: DashboardDocument where
  "DEFAULT_MOBILE_DASHBOARD =
     \<lparr>d_version = 2,
      d_description = Some (''Mobile SOC overview '' @ em_dash
        @ '' parser volume, sources, and high-severity events.''),
      d_refresh_sec = 60,
      d_time_preset = ''24h'',
      d_panels =
       [dpanel ''events_total'' ''Events'' ''last 24h * | stats count'' V_single_value
          (grid_item ''events_total'' 0 0 3 2 (Some 2) (Some 2)),
        dpanel ''alerts_link'' ''New alerts'' '''' V_single_value
          (grid_item ''alerts_link'' 3 0 3 2 (Some 2) (Some 2)),
        dpanel ''parser_bar'' ''Events by parser''
          (''platform='' @ quoted ''android'' @ '' | stats count by parser | head 8'') V_bar
          (grid_item ''parser_bar'' 6 0 6 3 (Some 4) (Some 2)),
        dpanel ''timeline'' ''Activity timeline''
          (''platform='' @ quoted ''android'' @ '' | timechart span=1h count by parser limit=6'') V_timechart
          (grid_item ''timeline'' 0 2 8 3 (Some 6) (Some 2)),
        dpanel ''sources'' ''Top sources'' ''last 24h * | stats count by source | head 10'' V_bar
          (grid_item ''sources'' 8 2 4 3 (Some 3) (Some 2)),
        dpanel ''high_sev'' ''High severity (sample)''
          (''last 24h severity='' @ quoted ''high'' @ '' | head 12'') V_table
          (grid_item ''high_sev'' 0 5 12 3 (Some 6) (Some 2)),
        dpanel PLATFORM_CASE_TOPS_PANEL_ID ''Case highlights by platform'' '''' V_table
          (grid_item PLATFORM_CASE_TOPS_PANEL_ID 0 8 12 7 (Some 8) (Some 5))]\<rparr>"

section \<open>Layouts\<close>

definition newPanelId :: "string \<Rightarrow> string" where
  "newPanelId uuid = ''panel_'' @ take 8 uuid"

definition nextPanelLayout :: "DashboardPanel list \<Rightarrow> string \<Rightarrow> LayoutItem" where
  "nextPanelLayout panels i =
     (let maxY = foldl (\<lambda>m p. max m (l_y (p_layout p) + l_h (p_layout p))) 0 panels
      in grid_item i 0 maxY 6 3 (Some 3) (Some 2))"

definition GRID_COLS :: int where
  "GRID_COLS = 12"

definition clampPanelLayout :: "LayoutItem \<Rightarrow> LayoutItem" where
  "clampPanelLayout layout =
     (let minW = get_or 2 (l_minW layout);
          minH = get_or 2 (l_minH layout);
          maxW = get_or GRID_COLS (l_maxW layout);
          maxH = get_or 24 (l_maxH layout);
          w = min maxW (max minW (l_w layout));
          h = min maxH (max minH (l_h layout));
          x = min (GRID_COLS - w) (max 0 (l_x layout));
          y = max 0 (l_y layout)
      in layout\<lparr>l_i := l_i layout, l_w := w, l_h := h, l_x := x, l_y := y\<rparr>)"

text \<open>A patch of some of the four coordinates.\<close>

record LayoutPatch =
  lp_x :: "int option"
  lp_y :: "int option"
  lp_w :: "int option"
  lp_h :: "int option"

definition updatePanelLayout :: "DashboardPanel \<Rightarrow> LayoutPatch \<Rightarrow> DashboardPanel" where
  "updatePanelLayout panel patch =
     (let l = p_layout panel
      in panel\<lparr>p_layout := clampPanelLayout
           (l\<lparr>l_x := get_or (l_x l) (lp_x patch), l_y := get_or (l_y l) (lp_y patch),
              l_w := get_or (l_w l) (lp_w patch), l_h := get_or (l_h l) (lp_h patch),
              l_i := p_id panel\<rparr>)\<rparr>)"

section \<open>Panel queries\<close>

definition time_prefix_re :: regex where
  "time_prefix_re = Seq Bol (Seq
     (Grp 1 (Alt (Seqs [LitI ''last'', Plus Space, Plus Digit, One_of_I ''smhdw''])
                 (Seqs [LitI ''now-'', Plus Digit, One_of_I ''smhdw''])))
     (Plus Space))"

definition normalizeDashboardQuery :: "string \<Rightarrow> string" where
  "normalizeDashboardQuery query =
     (let trimmed = trim query in
      if trimmed = [] then trimmed
      else (case exec time_prefix_re trimmed of
              None \<Rightarrow> trimmed
            | Some m \<Rightarrow>
                (let rest = drop (length (m_text m)) trimmed
                 in if starts_with ''|'' rest then m_text m @ ''* '' @ rest else trimmed)))"

definition createPanel :: "string \<Rightarrow> string \<Rightarrow> string \<Rightarrow> PanelViz \<Rightarrow> DashboardPanel list \<Rightarrow> DashboardPanel" where
  "createPanel uuid title query viz panels =
     (let i = newPanelId uuid
      in dpanel i title (normalizeDashboardQuery query) viz (nextPanelLayout panels i))"

definition presetMinutes :: "string \<Rightarrow> int" where
  "presetMinutes preset =
     get_or (24 * 60) (map_of [(''15m'', 15), (''1h'', 60), (''4h'', 4 * 60), (''12h'', 12 * 60),
       (''24h'', 24 * 60), (''7d'', 7 * 24 * 60), (''30d'', 30 * 24 * 60)] preset)"

definition PRESET_PREFIX :: "(string \<times> string) list" where
  "PRESET_PREFIX = [(''15m'', ''last 15m ''), (''1h'', ''last 1h ''), (''4h'', ''last 4h ''),
     (''12h'', ''last 12h ''), (''24h'', ''last 24h ''), (''7d'', ''last 7d ''), (''30d'', ''last 30d '')]"

definition applyTimePresetToQuery :: "string \<Rightarrow> string \<Rightarrow> string" where
  "applyTimePresetToQuery query preset =
     (if trim query = [] then []
      else
        (let presetToken = get_or ''last 24h '' (map_of PRESET_PREFIX preset);
             normalized = normalizeDashboardQuery query;
             last_re = [Bol, Star Space, LitI ''last'', Plus Space, Plus Digit, One_of_I ''smhdw'']
         in if test (Seqs last_re) normalized
            then normalizeDashboardQuery (replace_first (Seqs (last_re @ [Plus Space])) presetToken normalized)
            else if querySkipsWallClockTimeWindow query then normalized
            else normalizeDashboardQuery (presetToken @ trim normalized)))"

definition inferViz :: "string \<Rightarrow> string list \<Rightarrow> PanelViz" where
  "inferViz query columns =
     (if test (Seqs [Chr (CHR ''|''), Star Space, LitI ''timechart'', WordB]) query then V_timechart
      else if test (Seqs [Chr (CHR ''|''), Star Space, LitI ''head'', WordB]) query
              \<and> \<not> test (Seqs [WordB, LitI ''stats'', WordB]) query then V_table
      else if test (Seqs [WordB, LitI ''stats'', Plus Space, LitI ''count'', Star Space, Eol]) query
              \<or> (length columns = 1
                 \<and> test (Alts [LitI ''count'', LitI ''c'', LitI ''cnt'']) (hd columns)) then V_single_value
      else if test (Seqs [WordB, LitI ''stats'', WordB, Star Dot, WordB, LitI ''by'', WordB]) query then V_bar
      else V_table)"

definition drilldownSearchUrl :: "string \<Rightarrow> string \<Rightarrow> string \<Rightarrow> string" where
  "drilldownSearchUrl query field val =
     (let flt = field @ ''='' @ quoted (replace_char (CHR 0x22) [CHR 0x5C, CHR 0x22] val);
          base = (if CHR ''|'' \<in> set query then trim (hd (split_char (CHR ''|'') query)) else trim query)
      in ''/search?'' @ encode_params [(''q'', base @ '' '' @ flt @ '' | head 100'')])"

section \<open>Loading and saving\<close>

definition has_panel :: "string \<Rightarrow> DashboardPanel list \<Rightarrow> bool" where
  "has_panel i ps \<longleftrightarrow> i \<in> set (map p_id ps)"

definition mergeMissingDefaultPanels :: "DashboardDocument \<Rightarrow> DashboardDocument \<Rightarrow> DashboardDocument" where
  "mergeMissingDefaultPanels dflt doc =
     (let missing = filter (\<lambda>p. \<not> has_panel (p_id p) (d_panels doc)) (d_panels dflt)
      in if missing = [] then doc else doc\<lparr>d_panels := d_panels doc @ missing\<rparr>)"

text \<open>
  A legacy layout is an array of items. The write to \<open>p.layout\<close> goes to the panel object that the
  copied array shares with the default, so the default changes with it.
\<close>

fun set_layout :: "string \<Rightarrow> LayoutItem \<Rightarrow> DashboardPanel list \<Rightarrow> DashboardPanel list" where
  "set_layout i l [] = []"
| "set_layout i l (p # ps) = (if p_id p = i then p\<lparr>p_layout := l\<rparr> # ps else p # set_layout i l ps)"

definition migrateLegacyLayout ::
  "DashboardDocument \<Rightarrow> LayoutItem list \<Rightarrow> DashboardDocument \<times> DashboardDocument" where
  "migrateLegacyLayout dflt items =
     (case find (\<lambda>it. l_i it = ''events_24h'') items of
        Some l \<Rightarrow> (let d = dflt\<lparr>d_panels := set_layout ''events_total'' l (d_panels dflt)\<rparr> in (d, d))
      | None \<Rightarrow> (dflt, dflt))"

text \<open>
  The stored value: an object (its fields as the \<open>typeof\<close> tests read them, the panels trusted to be
  panels whose query and layout may be missing), an array of items, or anything else.
\<close>

record RawPanel =
  r_id :: string
  r_title :: string
  r_query :: "string option"
  r_viz :: PanelViz
  r_layout :: "LayoutItem option"

record RawFields =
  rf_description :: "string option"
  rf_refresh_sec :: "int option"
  rf_time_preset :: "string option"
  rf_panels :: "RawPanel list option"

datatype RawDoc = RawObject RawFields | RawArray "LayoutItem list" | RawOther

definition parse_panel :: "RawPanel \<Rightarrow> DashboardPanel" where
  "parse_panel p = dpanel (r_id p) (r_title p) (normalizeDashboardQuery (get_or [] (r_query p))) (r_viz p)
     (case r_layout p of Some l \<Rightarrow> l\<lparr>l_i := r_id p\<rparr> | None \<Rightarrow> nextPanelLayout [] (r_id p))"

definition parseDashboardDocument ::
  "DashboardDocument \<Rightarrow> RawDoc \<Rightarrow> DashboardDocument \<times> DashboardDocument" where
  "parseDashboardDocument dflt raw =
     (let (doc, dflt') =
        (case raw of
           RawObject f \<Rightarrow>
             (case rf_panels f of
                Some ps \<Rightarrow>
                  (\<lparr>d_version = 2, d_description = rf_description f,
                    d_refresh_sec = get_or 60 (rf_refresh_sec f),
                    d_time_preset = get_or ''24h'' (rf_time_preset f),
                    d_panels = map parse_panel ps\<rparr>, dflt)
              | None \<Rightarrow> (dflt, dflt))
         | RawArray items \<Rightarrow> migrateLegacyLayout dflt items
         | RawOther \<Rightarrow> (dflt, dflt))
      in (mergeMissingDefaultPanels dflt' doc, dflt'))"

text \<open>The reply of the endpoint: the stored layout, or \<open>None\<close> when the request fails.\<close>

definition fetchDashboardDocument ::
  "DashboardDocument \<Rightarrow> RawDoc option \<Rightarrow> DashboardDocument \<times> DashboardDocument" where
  "fetchDashboardDocument dflt reply =
     (case reply of Some raw \<Rightarrow> parseDashboardDocument dflt raw | None \<Rightarrow> (dflt, dflt))"

definition dashboardPath :: "string \<Rightarrow> string" where
  "dashboardPath dashboardId =
     (if dashboardId = ''default'' then ''/v1/dashboards/default'' else ''/v1/dashboards/'' @ dashboardId)"

text \<open>The text that \<open>JSON.stringify\<close> writes reads back as the value written.\<close>

definition stored :: "DashboardDocument \<Rightarrow> RawDoc" where
  "stored doc = RawObject
     \<lparr>rf_description = d_description doc, rf_refresh_sec = Some (d_refresh_sec doc),
      rf_time_preset = Some (d_time_preset doc),
      rf_panels = Some (map (\<lambda>p. \<lparr>r_id = p_id p, r_title = p_title p, r_query = Some (p_query p),
                                   r_viz = p_viz p, r_layout = Some (p_layout p)\<rparr>) (d_panels doc))\<rparr>"

text \<open>The document that \<open>saveDashboardDocument\<close> sends.\<close>

definition saveDashboardDocument :: "DashboardDocument \<Rightarrow> DashboardDocument" where
  "saveDashboardDocument doc =
     doc\<lparr>d_version := 2,
         d_panels := map (\<lambda>p. p\<lparr>p_layout := (p_layout p)\<lparr>l_i := p_id p\<rparr>,
                                  p_query := normalizeDashboardQuery (p_query p)\<rparr>) (d_panels doc)\<rparr>"

definition addPanelToDashboard ::
  "DashboardDocument \<Rightarrow> DashboardPanel \<Rightarrow> RawDoc option \<Rightarrow> DashboardDocument \<times> DashboardDocument" where
  "addPanelToDashboard dflt panel reply =
     (let (doc, dflt') = fetchDashboardDocument dflt reply
      in (saveDashboardDocument (doc\<lparr>d_panels := d_panels doc @ [panel]\<rparr>), dflt'))"

declare grid_item_def [js_eval] dpanel_def [js_eval] PLATFORM_CASE_TOPS_PANEL_ID_def [js_eval]
  time_prefix_re_def [js_eval] normalizeDashboardQuery_def [js_eval]

end
