(* ===== verification/DashboardFacts.thy ===== *)
theory DashboardFacts
  imports Dashboard
begin

text \<open>
  Properties of the dashboard documents: panels never overlap, layouts stay on the grid, panel
  queries have a normal form, saving and loading keep every panel, and the one place where loading
  a legacy layout changes what later loads fall back to.
\<close>

section \<open>The grid\<close>

definition overlap :: "LayoutItem \<Rightarrow> LayoutItem \<Rightarrow> bool" where
  "overlap a b \<longleftrightarrow> l_x a < l_x b + l_w b \<and> l_x b < l_x a + l_w a
     \<and> l_y a < l_y b + l_h b \<and> l_y b < l_y a + l_h a"

definition in_grid :: "LayoutItem \<Rightarrow> bool" where
  "in_grid l \<longleftrightarrow> 0 \<le> l_x l \<and> 0 < l_w l \<and> l_x l + l_w l \<le> GRID_COLS \<and> 0 \<le> l_y l \<and> 0 < l_h l"

fun no_overlap :: "DashboardPanel list \<Rightarrow> bool" where
  "no_overlap [] \<longleftrightarrow> True"
| "no_overlap (p # ps) \<longleftrightarrow> list_all (\<lambda>q. \<not> overlap (p_layout p) (p_layout q)) ps \<and> no_overlap ps"

text \<open>A well laid dashboard: distinct ids, each layout keyed by its panel, on the grid, disjoint.\<close>

definition well_laid :: "DashboardPanel list \<Rightarrow> bool" where
  "well_laid ps \<longleftrightarrow> distinct (map p_id ps) \<and> list_all (\<lambda>p. l_i (p_layout p) = p_id p) ps
     \<and> list_all (\<lambda>p. in_grid (p_layout p)) ps \<and> no_overlap ps"

lemmas grid_defs = overlap_def in_grid_def well_laid_def GRID_COLS_def

lemma no_overlap_snoc:
  "no_overlap (ps @ [q]) \<longleftrightarrow> no_overlap ps \<and> list_all (\<lambda>p. \<not> overlap (p_layout p) (p_layout q)) ps"
  by (induction ps) auto

lemma foldl_max_ge:
  fixes f :: "'a \<Rightarrow> int"
  shows "m \<le> foldl (\<lambda>m p. max m (f p)) m ps"
    and "p \<in> set ps \<Longrightarrow> f p \<le> foldl (\<lambda>m p. max m (f p)) m ps"
proof -
  have ge: "m \<le> foldl (\<lambda>m p. max m (f p)) m ps" for m ps
  proof (induction ps arbitrary: m)
    case (Cons q ps)
    from Cons [of "max m (f q)"] show ?case by simp
  qed simp
  show "m \<le> foldl (\<lambda>m p. max m (f p)) m ps" by (rule ge)
  show "p \<in> set ps \<Longrightarrow> f p \<le> foldl (\<lambda>m p. max m (f p)) m ps"
  proof (induction ps arbitrary: m)
    case (Cons q ps)
    then show ?case using ge [of "max m (f q)" ps] by auto
  qed simp
qed

lemma next_layout_simps [simp]:
  "l_i (nextPanelLayout ps i) = i" "l_x (nextPanelLayout ps i) = 0"
  "l_w (nextPanelLayout ps i) = 6" "l_h (nextPanelLayout ps i) = 3"
  by (simp_all add: nextPanelLayout_def grid_item_def Let_def)

lemma next_layout_below:
  "0 \<le> l_y (nextPanelLayout ps i)"
  "p \<in> set ps \<Longrightarrow> l_y (p_layout p) + l_h (p_layout p) \<le> l_y (nextPanelLayout ps i)"
  using foldl_max_ge [where f = "\<lambda>p. l_y (p_layout p) + l_h (p_layout p)"]
  by (simp_all add: nextPanelLayout_def grid_item_def Let_def)

lemma create_panel_simps [simp]:
  "p_id (createPanel u t q v ps) = newPanelId u"
  "p_layout (createPanel u t q v ps) = nextPanelLayout ps (newPanelId u)"
  "p_query (createPanel u t q v ps) = normalizeDashboardQuery q"
  by (simp_all add: createPanel_def dpanel_def Let_def)

text \<open>
  C5: Creating a panel keeps a dashboard well laid: put behind the existing panels, the new panel is
  on the grid, below every other panel and overlaps none of them.
\<close>

theorem create_panel_well_laid:
  assumes "well_laid ps" and "newPanelId uuid \<notin> set (map p_id ps)"
  shows "well_laid (ps @ [createPanel uuid title query viz ps])"
  using assms next_layout_below [where ps = ps and i = "newPanelId uuid"]
  by (force simp: grid_defs no_overlap_snoc list_all_iff)

definition sample_document :: DashboardDocument where
  "sample_document = \<lparr>d_version = 2, d_description = None, d_refresh_sec = 60, d_time_preset = ''24h'',
     d_panels = [dpanel ''mine'' ''Mine'' ''x'' V_bar (grid_item ''mine'' 0 0 6 3 None None)]\<rparr>"

lemma create_panel_well_laid_witness:
  "well_laid (d_panels sample_document
     @ [createPanel ''0123456789'' ''New'' ''x'' V_bar (d_panels sample_document)])"
proof (rule create_panel_well_laid)
  show "well_laid (d_panels sample_document)" by code_simp
  show "newPanelId ''0123456789'' \<notin> set (map p_id (d_panels sample_document))" by code_simp
qed

text \<open>
  The default dashboard itself is not well laid: the parser bar (columns 6 to 11, rows 0 to 2)
  overlaps both the timeline (columns 0 to 7) and the sources (columns 8 to 11), which start in row 2.
\<close>

lemma default_dashboard_overlaps:
  "map p_id (filter (\<lambda>p. overlap (p_layout p) (grid_item ''parser_bar'' 6 0 6 3 (Some 4) (Some 2)))
     (d_panels DEFAULT_MOBILE_DASHBOARD)) = [''parser_bar'', ''timeline'', ''sources'']"
  by code_simp

text \<open>
  A clamped layout fits the 12-column grid and respects the panel's minimum size whenever its
  size limits are consistent (minimum at most maximum, maximum width at most 12), and clamping a
  second time changes nothing, whatever the limits.
\<close>

theorem clamp_on_grid:
  assumes "0 < get_or 2 (l_minW l)" and "get_or 2 (l_minW l) \<le> get_or GRID_COLS (l_maxW l)"
    and "get_or GRID_COLS (l_maxW l) \<le> GRID_COLS"
    and "0 < get_or 2 (l_minH l)" and "get_or 2 (l_minH l) \<le> get_or 24 (l_maxH l)"
  shows "in_grid (clampPanelLayout l) \<and> get_or 2 (l_minW l) \<le> l_w (clampPanelLayout l)
    \<and> get_or 2 (l_minH l) \<le> l_h (clampPanelLayout l)
    \<and> clampPanelLayout (clampPanelLayout l) = clampPanelLayout l"
  using assms by (auto simp: clampPanelLayout_def Let_def in_grid_def GRID_COLS_def)

lemma clamp_on_grid_witness:
  "in_grid (clampPanelLayout (grid_item ''p'' 11 (- 3) 40 0 (Some 3) None))"
  using clamp_on_grid [of "grid_item ''p'' 11 (- 3) 40 0 (Some 3) None"]
  by (simp add: grid_item_def get_or_def GRID_COLS_def)

section \<open>Normal panel queries\<close>

lemma time_prefix_facts [simp]:
  "anchored time_prefix_re" "consuming time_prefix_re"
  "rejects (CHR ''|'') time_prefix_re" "rejects (CHR ''*'') time_prefix_re"
  by (simp_all add: time_prefix_re_def Plus_def ChrI_def Space_def Digit_def One_of_I_def
      is_space_def is_digit_def code_def lower_char_def is_upper_def char_of_def)

lemma time_prefix_split:
  assumes "exec time_prefix_re t = Some m"
  shows "t = m_text m @ m_after m" and "m_text m \<noteq> []" and "drop (length (m_text m)) t = m_after m"
proof -
  show t: "t = m_text m @ m_after m" using assms by (rule exec_anchored(2) [rotated]) simp
  show "m_text m \<noteq> []"
    using assms match_at_consuming [of time_prefix_re "[]" t m] by (simp add: exec_anchored_eq)
  show "drop (length (m_text m)) t = m_after m" by (subst t) simp
qed

lemma normalize_query_cases:
  obtains (same) "normalizeDashboardQuery q = trim q"
  | (star) m u where "exec time_prefix_re (trim q) = Some m" "m_after m = CHR ''|'' # u"
      "normalizeDashboardQuery q = m_text m @ ''* '' @ CHR ''|'' # u"
proof (cases "trim q = [] \<or> exec time_prefix_re (trim q) = None")
  case True
  then show ?thesis by (intro same) (auto simp: normalizeDashboardQuery_def Let_def)
next
  case False
  then obtain m where m: "exec time_prefix_re (trim q) = Some m" by auto
  note sp = time_prefix_split [OF m]
  show ?thesis
  proof (cases "starts_with ''|'' (m_after m)")
    case True
    then obtain u where u: "m_after m = CHR ''|'' # u" by (auto simp: starts_with_iff)
    with True m sp False show ?thesis
      by (intro star [OF m u]) (simp add: normalizeDashboardQuery_def Let_def)
  next
    case False
    with m sp show ?thesis by (intro same) (simp add: normalizeDashboardQuery_def Let_def)
  qed
qed

lemma normalize_query_trimmed: "trimmed (normalizeDashboardQuery q)"
proof (cases q rule: normalize_query_cases)
  case same
  then show ?thesis by simp
next
  case (star m u)
  note sp = time_prefix_split [OF star(1)]
  have "trimmed (m_text m @ CHR ''|'' # u)" using sp(1) star(2) trimmed_trim [of q] by simp
  then show ?thesis using star(3) sp(2) by (auto simp: trimmed_def)
qed

lemma normalize_idem [simp]:
  "normalizeDashboardQuery (normalizeDashboardQuery q) = normalizeDashboardQuery q"
proof (cases q rule: normalize_query_cases)
  case same
  then show ?thesis by (simp add: normalizeDashboardQuery_def)
next
  case (star m u)
  let ?n = "m_text m @ ''* '' @ CHR ''|'' # u"
  note sp = time_prefix_split [OF star(1)]
  have "match_at time_prefix_re [] (m_text m @ CHR ''|'' # u) = Some m"
    using star(1,2) sp(1) by (simp add: exec_anchored_eq)
  from match_at_replace_rest [OF _ _ this star(2), of "CHR ''*''" "'' |'' @ u"]
  have "exec time_prefix_re ?n = Some (m\<lparr>m_after := ''* |'' @ u\<rparr>)"
    by (simp add: exec_anchored_eq)
  moreover have "trim ?n = ?n"
    using normalize_query_trimmed [of q] star(3) by (simp add: trim_trimmed)
  moreover have "?n \<noteq> []" by simp
  ultimately have "normalizeDashboardQuery ?n = ?n"
    by (simp add: normalizeDashboardQuery_def Let_def starts_with_def del: append.simps)
  with star(3) show ?thesis by simp
qed

text \<open>
  Normalising a panel query is idempotent, so a query that has been saved once is stored
  unchanged by every later save and load.
\<close>

theorem normalize_query_idempotent:
  "normalizeDashboardQuery (normalizeDashboardQuery q) = normalizeDashboardQuery q
   \<and> trimmed (normalizeDashboardQuery q)"
  by (simp add: normalize_query_trimmed)

text \<open>A modifier with no white space behind it is recognised but not replaced: the preset is ignored.\<close>

lemma preset_ignored_without_space:
  "applyTimePresetToQuery ''last 24h| stats count'' ''7d'' = ''last 24h| stats count''"
  by code_simp

section \<open>Loading and saving\<close>

lemma merge_panels:
  "d_panels (mergeMissingDefaultPanels dflt doc)
     = d_panels doc @ filter (\<lambda>p. \<not> has_panel (p_id p) (d_panels doc)) (d_panels dflt)"
  by (simp add: mergeMissingDefaultPanels_def Let_def)

text \<open>
  Merging in the default panels loses no saved panel, keeps their order and adds exactly the
  default panels whose id is missing: afterwards every default id is there, no id has become
  duplicated, and merging again changes nothing.
\<close>

theorem merge_complete:
  assumes "distinct (map p_id (d_panels doc))" and "distinct (map p_id (d_panels dflt))"
  shows "take (length (d_panels doc)) (d_panels (mergeMissingDefaultPanels dflt doc)) = d_panels doc
    \<and> set (map p_id (d_panels (mergeMissingDefaultPanels dflt doc)))
        = set (map p_id (d_panels doc)) \<union> set (map p_id (d_panels dflt))
    \<and> distinct (map p_id (d_panels (mergeMissingDefaultPanels dflt doc)))
    \<and> mergeMissingDefaultPanels dflt (mergeMissingDefaultPanels dflt doc) = mergeMissingDefaultPanels dflt doc"
proof -
  let ?m = "mergeMissingDefaultPanels dflt doc"
  have ids: "set (map p_id (d_panels ?m)) = set (map p_id (d_panels doc)) \<union> set (map p_id (d_panels dflt))"
    by (auto simp: merge_panels has_panel_def)
  then have "filter (\<lambda>p. \<not> has_panel (p_id p) (d_panels ?m)) (d_panels dflt) = []"
    by (auto simp: filter_empty_conv has_panel_def)
  then have "mergeMissingDefaultPanels dflt ?m = ?m"
    by (subst mergeMissingDefaultPanels_def) (simp add: Let_def)
  moreover have "distinct (map p_id (d_panels ?m))"
    unfolding merge_panels map_append distinct_append
    using assms by (intro conjI distinct_map_filter) (auto simp: has_panel_def image_iff)
  moreover have "take (length (d_panels doc)) (d_panels ?m) = d_panels doc"
    by (simp add: merge_panels)
  ultimately show ?thesis using ids by blast
qed

lemma merge_complete_witness:
  "distinct (map p_id (d_panels (mergeMissingDefaultPanels DEFAULT_MOBILE_DASHBOARD sample_document)))"
proof -
  have "distinct (map p_id (d_panels sample_document))" by code_simp
  moreover have "distinct (map p_id (d_panels DEFAULT_MOBILE_DASHBOARD))" by code_simp
  ultimately show ?thesis
    using merge_complete [of sample_document DEFAULT_MOBILE_DASHBOARD] by blast
qed

lemma parse_saved_panel:
  "parse_panel \<lparr>r_id = p_id p, r_title = p_title p, r_query = Some (p_query p), r_viz = p_viz p,
     r_layout = Some (p_layout p)\<rparr>
   = p\<lparr>p_layout := (p_layout p)\<lparr>l_i := p_id p\<rparr>, p_query := normalizeDashboardQuery (p_query p)\<rparr>"
  by (simp add: parse_panel_def dpanel_def get_or_def)

lemma parse_stored:
  "fst (parseDashboardDocument dflt (stored doc)) = mergeMissingDefaultPanels dflt (saveDashboardDocument doc)"
  by (cases doc) (simp add: parseDashboardDocument_def stored_def saveDashboardDocument_def
      parse_saved_panel get_or_def comp_def)

lemma save_idempotent: "saveDashboardDocument (saveDashboardDocument doc) = saveDashboardDocument doc"
  by (simp add: saveDashboardDocument_def comp_def)

lemma save_panels:
  "map p_id (d_panels (saveDashboardDocument doc)) = map p_id (d_panels doc)"
  by (simp add: saveDashboardDocument_def comp_def)

lemma merge_no_missing:
  "set (map p_id (d_panels dflt)) \<subseteq> set (map p_id (d_panels doc)) \<Longrightarrow> mergeMissingDefaultPanels dflt doc = doc"
  by (auto simp: mergeMissingDefaultPanels_def Let_def has_panel_def filter_empty_conv)

text \<open>
  C6: Loading what was saved gives back the saved document with the missing default panels behind
  its own, and loading leaves the default alone; saving and loading the result again gives the very
  same document, so a layout is stable from the first load on.
\<close>

theorem save_load_roundtrip:
  "fst (parseDashboardDocument dflt (stored doc)) = mergeMissingDefaultPanels dflt (saveDashboardDocument doc)
   \<and> snd (parseDashboardDocument dflt (stored doc)) = dflt
   \<and> (let loaded = fst (parseDashboardDocument dflt (stored (saveDashboardDocument doc)))
      in saveDashboardDocument (fst (parseDashboardDocument dflt (stored loaded))) = saveDashboardDocument loaded)"
proof -
  have snd: "snd (parseDashboardDocument dflt (stored doc)) = dflt" for doc
    by (simp add: parseDashboardDocument_def stored_def)
  define loaded where "loaded = fst (parseDashboardDocument dflt (stored (saveDashboardDocument doc)))"
  have "set (map p_id (d_panels dflt)) \<subseteq> set (map p_id (d_panels loaded))"
    by (auto simp: loaded_def parse_stored merge_panels has_panel_def)
  then have "mergeMissingDefaultPanels dflt (saveDashboardDocument loaded) = saveDashboardDocument loaded"
    by (intro merge_no_missing) (simp only: save_panels)
  then have "saveDashboardDocument (fst (parseDashboardDocument dflt (stored loaded))) = saveDashboardDocument loaded"
    by (simp add: parse_stored save_idempotent)
  then show ?thesis using parse_stored snd unfolding loaded_def Let_def by blast
qed

section \<open>The shared default\<close>

text \<open>
  Loading a legacy array layout that has an \<open>events_24h\<close> tile changes the module's default
  document for everyone: from then on a failing request falls back to a default whose event counter
  sits where the legacy tile was, keyed by the legacy id instead of its own.
\<close>

theorem legacy_load_changes_default:
  assumes "find (\<lambda>it. l_i it = ''events_24h'') items = Some l"
    and "find (\<lambda>p. p_id p = ''events_total'') (d_panels dflt) = Some p"
  shows "(let dflt' = snd (parseDashboardDocument dflt (RawArray items));
              fallback = fst (fetchDashboardDocument dflt' None)
          in find (\<lambda>p. p_id p = ''events_total'') (d_panels fallback) = Some (p\<lparr>p_layout := l\<rparr>)
             \<and> l_i l \<noteq> ''events_total'')"
proof -
  have "find (\<lambda>p. p_id p = i) ps = Some p \<Longrightarrow>
    find (\<lambda>p. p_id p = i) (set_layout i l ps) = Some (p\<lparr>p_layout := l\<rparr>)" for i ps
    by (induction ps) (auto split: if_splits)
  moreover have "l_i l = ''events_24h''" using assms(1) by (auto simp: find_Some_iff)
  ultimately show ?thesis using assms
    by (simp add: parseDashboardDocument_def migrateLegacyLayout_def fetchDashboardDocument_def Let_def)
qed

lemma legacy_load_changes_default_witness:
  "let dflt' = snd (parseDashboardDocument DEFAULT_MOBILE_DASHBOARD
         (RawArray [grid_item ''events_24h'' 0 40 12 4 None None]))
   in fst (fetchDashboardDocument dflt' None) \<noteq> fst (fetchDashboardDocument DEFAULT_MOBILE_DASHBOARD None)"
proof -
  let ?items = "[grid_item ''events_24h'' 0 40 12 4 None None]"
  have i: "find (\<lambda>it. l_i it = ''events_24h'') ?items = Some (grid_item ''events_24h'' 0 40 12 4 None None)"
    by code_simp
  have p: "find (\<lambda>p. p_id p = ''events_total'') (d_panels DEFAULT_MOBILE_DASHBOARD)
      = Some (dpanel ''events_total'' ''Events'' ''last 24h * | stats count'' V_single_value
          (grid_item ''events_total'' 0 0 3 2 (Some 2) (Some 2)))"
    by code_simp
  have "fst (fetchDashboardDocument DEFAULT_MOBILE_DASHBOARD None) = DEFAULT_MOBILE_DASHBOARD"
    by (simp add: fetchDashboardDocument_def)
  with legacy_load_changes_default [OF i p] p show ?thesis
    by (auto simp: Let_def dpanel_def grid_item_def)
qed

end
