(* ===== verification/CaseDashboard.thy ===== *)
theory CaseDashboard
  imports Dashboard
begin

text \<open>
  The case dashboards of \<open>src/mobipwn-web/src/lib/caseDashboard.ts\<close>: the built-in panels and the
  default dashboard of every section and platform, scoping panel queries to a case and back, and the
  layouts kept in the browser's \<open>localStorage\<close>. The browser state is the storage and the module's
  default document, which loading a legacy layout can change (theory \<open>Dashboard\<close>).
\<close>

section \<open>Identifiers and versions\<close>

datatype CasePlatform = Android | Ios | Endpoint

datatype CaseDashboardSectionId =
    S_overview | S_crashes | S_packages | S_processes | S_process_events | S_battery
  | S_external_devices | S_network | S_authentication | S_entities

abbreviation (input) CASE_DEVICE_HEADER_PANEL_ID :: string where
  "CASE_DEVICE_HEADER_PANEL_ID \<equiv> ''case_device_header''"

abbreviation (input) CASE_CRASH_TRACES_PANEL_ID :: string where
  "CASE_CRASH_TRACES_PANEL_ID \<equiv> ''case_crash_traces''"

abbreviation (input) CASE_POWER_HISTORY_PANEL_ID :: string where
  "CASE_POWER_HISTORY_PANEL_ID \<equiv> ''case_power_history''"

abbreviation (input) CASE_BATTERY_PANEL_ID :: string where
  "CASE_BATTERY_PANEL_ID \<equiv> ''case_battery''"

abbreviation (input) CASE_NETWORK_USAGE_PANEL_ID :: string where
  "CASE_NETWORK_USAGE_PANEL_ID \<equiv> ''case_network_usage''"

abbreviation (input) CASE_NETWORK_SOCKETS_PANEL_ID :: string where
  "CASE_NETWORK_SOCKETS_PANEL_ID \<equiv> ''case_network''"

abbreviation (input) CASE_NETWORK_LISTEN_PORTS_PANEL_ID :: string where
  "CASE_NETWORK_LISTEN_PORTS_PANEL_ID \<equiv> ''case_network_listen''"

abbreviation (input) CASE_NETWORK_FLOW_PANEL_ID :: string where
  "CASE_NETWORK_FLOW_PANEL_ID \<equiv> ''case_network_flow''"

abbreviation (input) CASE_BLUETOOTH_PANEL_ID :: string where
  "CASE_BLUETOOTH_PANEL_ID \<equiv> ''case_bluetooth''"

abbreviation (input) CASE_ANDROID_USB_PANEL_ID :: string where
  "CASE_ANDROID_USB_PANEL_ID \<equiv> ''case_usb''"

abbreviation (input) CASE_MEMORY_PANEL_ID :: string where
  "CASE_MEMORY_PANEL_ID \<equiv> ''case_memory''"

abbreviation (input) CASE_PRIVACY_PANEL_ID :: string where
  "CASE_PRIVACY_PANEL_ID \<equiv> ''case_privacy''"

abbreviation (input) CASE_AUTHENTICATION_PANEL_ID :: string where
  "CASE_AUTHENTICATION_PANEL_ID \<equiv> ''case_authentication''"

abbreviation (input) CASE_VPN_PANEL_ID :: string where
  "CASE_VPN_PANEL_ID \<equiv> ''case_vpn''"

abbreviation (input) CASE_ACCOUNTS_PANEL_ID :: string where
  "CASE_ACCOUNTS_PANEL_ID \<equiv> ''case_accounts''"

abbreviation (input) CASE_PACKAGES_PANEL_ID :: string where
  "CASE_PACKAGES_PANEL_ID \<equiv> ''case_packages''"

abbreviation (input) CASE_IOS_MOBILE_INSTALL_PANEL_ID :: string where
  "CASE_IOS_MOBILE_INSTALL_PANEL_ID \<equiv> ''case_ios_mobile_install''"

abbreviation (input) CASE_ANDROID_DANGEROUS_PERMS_PANEL_ID :: string where
  "CASE_ANDROID_DANGEROUS_PERMS_PANEL_ID \<equiv> ''case_android_dangerous_perms''"

abbreviation (input) CASE_PROCESSES_PANEL_ID :: string where
  "CASE_PROCESSES_PANEL_ID \<equiv> ''case_processes''"

abbreviation (input) CASE_IOS_RUNNING_SERVICES_PANEL_ID :: string where
  "CASE_IOS_RUNNING_SERVICES_PANEL_ID \<equiv> ''case_ios_running_services''"

abbreviation (input) CASE_IOS_PROCESS_EVENTS_PANEL_ID :: string where
  "CASE_IOS_PROCESS_EVENTS_PANEL_ID \<equiv> ''case_ios_process_events''"

abbreviation (input) CASE_ADB_PANEL_ID :: string where
  "CASE_ADB_PANEL_ID \<equiv> ''case_adb''"

abbreviation (input) CASE_DEVICE_POLICY_PANEL_ID :: string where
  "CASE_DEVICE_POLICY_PANEL_ID \<equiv> ''case_device_policy''"

abbreviation (input) CASE_DELETED_PACKAGES_PANEL_ID :: string where
  "CASE_DELETED_PACKAGES_PANEL_ID \<equiv> ''case_deleted_packages''"

abbreviation (input) CASE_APK_DOWNGRADE_PANEL_ID :: string where
  "CASE_APK_DOWNGRADE_PANEL_ID \<equiv> ''case_apk_downgrade''"

abbreviation (input) CASE_TIMELINE_PANEL_ID :: string where
  "CASE_TIMELINE_PANEL_ID \<equiv> ''case_timeline''"

abbreviation (input) CASE_IOS_BATTERY_PANEL_ID :: string where
  "CASE_IOS_BATTERY_PANEL_ID \<equiv> ''case_ios_battery''"

abbreviation (input) CASE_IOS_STORAGE_PANEL_ID :: string where
  "CASE_IOS_STORAGE_PANEL_ID \<equiv> ''case_ios_storage''"

abbreviation (input) CASE_IOS_SECURITY_PANEL_ID :: string where
  "CASE_IOS_SECURITY_PANEL_ID \<equiv> ''case_ios_security''"

abbreviation (input) CASE_IOS_LOCK_STATE_PANEL_ID :: string where
  "CASE_IOS_LOCK_STATE_PANEL_ID \<equiv> ''case_ios_lock_state''"

abbreviation (input) CASE_IOS_TCC_PANEL_ID :: string where
  "CASE_IOS_TCC_PANEL_ID \<equiv> ''case_ios_tcc''"

abbreviation (input) CASE_IOS_SENSITIVE_PERMS_PANEL_ID :: string where
  "CASE_IOS_SENSITIVE_PERMS_PANEL_ID \<equiv> ''case_ios_sensitive_perms''"

abbreviation (input) CASE_IOS_WIFI_PANEL_ID :: string where
  "CASE_IOS_WIFI_PANEL_ID \<equiv> ''case_ios_wifi''"

abbreviation (input) CASE_IOS_WIFI_NETWORKS_PANEL_ID :: string where
  "CASE_IOS_WIFI_NETWORKS_PANEL_ID \<equiv> ''case_ios_wifi_networks''"

abbreviation (input) CASE_IOS_WIFI_KNOWN_PANEL_ID :: string where
  "CASE_IOS_WIFI_KNOWN_PANEL_ID \<equiv> ''case_ios_wifi_known''"

abbreviation (input) CASE_IOS_WIFI_SECURITY_PANEL_ID :: string where
  "CASE_IOS_WIFI_SECURITY_PANEL_ID \<equiv> ''case_ios_wifi_security''"

abbreviation (input) CASE_IOS_SWCUTIL_DOMAINS_PANEL_ID :: string where
  "CASE_IOS_SWCUTIL_DOMAINS_PANEL_ID \<equiv> ''case_ios_swcutil_domains''"

abbreviation (input) CASE_IOS_POWERLOG_PUSH_PANEL_ID :: string where
  "CASE_IOS_POWERLOG_PUSH_PANEL_ID \<equiv> ''case_ios_powerlog_push''"

abbreviation (input) CASE_IOS_POWERLOG_USAGE_PANEL_ID :: string where
  "CASE_IOS_POWERLOG_USAGE_PANEL_ID \<equiv> ''case_ios_powerlog_usage''"

abbreviation (input) CASE_IOS_NETWORK_EXTENSION_PANEL_ID :: string where
  "CASE_IOS_NETWORK_EXTENSION_PANEL_ID \<equiv> ''case_ios_network_extension''"

abbreviation (input) CASE_IOS_PLIST_URLS_PANEL_ID :: string where
  "CASE_IOS_PLIST_URLS_PANEL_ID \<equiv> ''case_ios_plist_urls''"

abbreviation (input) CASE_IOS_TRANSPARENCY_CONTACTS_PANEL_ID :: string where
  "CASE_IOS_TRANSPARENCY_CONTACTS_PANEL_ID \<equiv> ''case_ios_transparency_contacts''"

abbreviation (input) CASE_IOS_NETWORK_IOCS_PANEL_ID :: string where
  "CASE_IOS_NETWORK_IOCS_PANEL_ID \<equiv> ''case_ios_network_iocs''"

abbreviation (input) CASE_IOS_NETUSAGE_PANEL_ID :: string where
  "CASE_IOS_NETUSAGE_PANEL_ID \<equiv> ''case_ios_netusage''"

abbreviation (input) CASE_IOS_SAFARI_HISTORY_PANEL_ID :: string where
  "CASE_IOS_SAFARI_HISTORY_PANEL_ID \<equiv> ''case_ios_safari_history''"

abbreviation (input) CASE_IOS_KNOWLEDGE_WEB_PANEL_ID :: string where
  "CASE_IOS_KNOWLEDGE_WEB_PANEL_ID \<equiv> ''case_ios_knowledge_web''"

abbreviation (input) CASE_IOS_CONNECTED_DOMAINS_PANEL_ID :: string where
  "CASE_IOS_CONNECTED_DOMAINS_PANEL_ID \<equiv> ''case_ios_connected_domains''"

abbreviation (input) CASE_IOS_QUARANTINE_URLS_PANEL_ID :: string where
  "CASE_IOS_QUARANTINE_URLS_PANEL_ID \<equiv> ''case_ios_quarantine_urls''"

abbreviation (input) CASE_IOS_SCREENTIME_DOMAINS_PANEL_ID :: string where
  "CASE_IOS_SCREENTIME_DOMAINS_PANEL_ID \<equiv> ''case_ios_screentime_domains''"

abbreviation (input) CASE_IOS_INTERACTION_URLS_PANEL_ID :: string where
  "CASE_IOS_INTERACTION_URLS_PANEL_ID \<equiv> ''case_ios_interaction_urls''"

abbreviation (input) CASE_IOS_LOG_IPS_PANEL_ID :: string where
  "CASE_IOS_LOG_IPS_PANEL_ID \<equiv> ''case_ios_log_ips''"

abbreviation (input) CASE_IOS_LOGARCHIVE_PANEL_ID :: string where
  "CASE_IOS_LOGARCHIVE_PANEL_ID \<equiv> ''case_ios_logarchive''"

abbreviation (input) CASE_IOS_IOSERVICE_PANEL_ID :: string where
  "CASE_IOS_IOSERVICE_PANEL_ID \<equiv> ''case_ios_ioservice''"

abbreviation (input) CASE_IOS_ACTIVATION_PANEL_ID :: string where
  "CASE_IOS_ACTIVATION_PANEL_ID \<equiv> ''case_ios_activation''"

abbreviation (input) CASE_IOS_USB_PANEL_ID :: string where
  "CASE_IOS_USB_PANEL_ID \<equiv> ''case_ios_usb''"

abbreviation (input) ANDROID_CASE_DASHBOARD_VERSION :: int where
  "ANDROID_CASE_DASHBOARD_VERSION \<equiv> 29"

abbreviation (input) IOS_CASE_DASHBOARD_VERSION :: int where
  "IOS_CASE_DASHBOARD_VERSION \<equiv> 28"

abbreviation (input) ANDROID_CASE_NETWORK_DASHBOARD_VERSION :: int where
  "ANDROID_CASE_NETWORK_DASHBOARD_VERSION \<equiv> 11"

abbreviation (input) IOS_CASE_NETWORK_DASHBOARD_VERSION :: int where
  "IOS_CASE_NETWORK_DASHBOARD_VERSION \<equiv> 14"

abbreviation (input) ANDROID_CASE_PACKAGES_DASHBOARD_VERSION :: int where
  "ANDROID_CASE_PACKAGES_DASHBOARD_VERSION \<equiv> 7"

abbreviation (input) IOS_CASE_PACKAGES_DASHBOARD_VERSION :: int where
  "IOS_CASE_PACKAGES_DASHBOARD_VERSION \<equiv> 7"

abbreviation (input) ANDROID_CASE_PROCESSES_DASHBOARD_VERSION :: int where
  "ANDROID_CASE_PROCESSES_DASHBOARD_VERSION \<equiv> 4"

abbreviation (input) IOS_CASE_PROCESSES_DASHBOARD_VERSION :: int where
  "IOS_CASE_PROCESSES_DASHBOARD_VERSION \<equiv> 11"

abbreviation (input) ANDROID_CASE_CRASHES_DASHBOARD_VERSION :: int where
  "ANDROID_CASE_CRASHES_DASHBOARD_VERSION \<equiv> 3"

abbreviation (input) IOS_CASE_CRASHES_DASHBOARD_VERSION :: int where
  "IOS_CASE_CRASHES_DASHBOARD_VERSION \<equiv> 3"

abbreviation (input) ANDROID_CASE_EXTERNAL_DEVICES_DASHBOARD_VERSION :: int where
  "ANDROID_CASE_EXTERNAL_DEVICES_DASHBOARD_VERSION \<equiv> 2"

abbreviation (input) IOS_CASE_EXTERNAL_DEVICES_DASHBOARD_VERSION :: int where
  "IOS_CASE_EXTERNAL_DEVICES_DASHBOARD_VERSION \<equiv> 7"

abbreviation (input) ANDROID_CASE_BATTERY_DASHBOARD_VERSION :: int where
  "ANDROID_CASE_BATTERY_DASHBOARD_VERSION \<equiv> 2"

abbreviation (input) IOS_CASE_BATTERY_DASHBOARD_VERSION :: int where
  "IOS_CASE_BATTERY_DASHBOARD_VERSION \<equiv> 1"

abbreviation (input) IOS_CASE_PROCESS_EVENTS_DASHBOARD_VERSION :: int where
  "IOS_CASE_PROCESS_EVENTS_DASHBOARD_VERSION \<equiv> 1"

abbreviation (input) ANDROID_CASE_AUTHENTICATION_DASHBOARD_VERSION :: int where
  "ANDROID_CASE_AUTHENTICATION_DASHBOARD_VERSION \<equiv> 3"

abbreviation (input) IOS_CASE_AUTHENTICATION_DASHBOARD_VERSION :: int where
  "IOS_CASE_AUTHENTICATION_DASHBOARD_VERSION \<equiv> 3"

definition CASE_BUILTIN_PANEL_IDS :: "string list" where
  "CASE_BUILTIN_PANEL_IDS = [
     CASE_DEVICE_HEADER_PANEL_ID, CASE_CRASH_TRACES_PANEL_ID, CASE_POWER_HISTORY_PANEL_ID,
     CASE_BATTERY_PANEL_ID, CASE_NETWORK_USAGE_PANEL_ID, CASE_NETWORK_SOCKETS_PANEL_ID,
     CASE_NETWORK_LISTEN_PORTS_PANEL_ID, CASE_NETWORK_FLOW_PANEL_ID, CASE_BLUETOOTH_PANEL_ID,
     CASE_ANDROID_USB_PANEL_ID, CASE_MEMORY_PANEL_ID, CASE_PRIVACY_PANEL_ID,
     CASE_AUTHENTICATION_PANEL_ID, CASE_VPN_PANEL_ID, CASE_ACCOUNTS_PANEL_ID,
     CASE_PACKAGES_PANEL_ID, CASE_IOS_MOBILE_INSTALL_PANEL_ID,
     CASE_ANDROID_DANGEROUS_PERMS_PANEL_ID, CASE_PROCESSES_PANEL_ID,
     CASE_IOS_RUNNING_SERVICES_PANEL_ID, CASE_IOS_PROCESS_EVENTS_PANEL_ID, CASE_ADB_PANEL_ID,
     CASE_DEVICE_POLICY_PANEL_ID, CASE_DELETED_PACKAGES_PANEL_ID, CASE_APK_DOWNGRADE_PANEL_ID,
     CASE_TIMELINE_PANEL_ID, CASE_IOS_BATTERY_PANEL_ID, CASE_IOS_STORAGE_PANEL_ID,
     CASE_IOS_SECURITY_PANEL_ID, CASE_IOS_LOCK_STATE_PANEL_ID, CASE_IOS_TCC_PANEL_ID,
     CASE_IOS_SENSITIVE_PERMS_PANEL_ID, CASE_IOS_WIFI_PANEL_ID,
     CASE_IOS_WIFI_NETWORKS_PANEL_ID, CASE_IOS_WIFI_KNOWN_PANEL_ID,
     CASE_IOS_WIFI_SECURITY_PANEL_ID, CASE_IOS_SWCUTIL_DOMAINS_PANEL_ID,
     CASE_IOS_POWERLOG_PUSH_PANEL_ID, CASE_IOS_POWERLOG_USAGE_PANEL_ID,
     CASE_IOS_NETWORK_EXTENSION_PANEL_ID, CASE_IOS_PLIST_URLS_PANEL_ID,
     CASE_IOS_TRANSPARENCY_CONTACTS_PANEL_ID, CASE_IOS_NETWORK_IOCS_PANEL_ID,
     CASE_IOS_NETUSAGE_PANEL_ID, CASE_IOS_SAFARI_HISTORY_PANEL_ID,
     CASE_IOS_KNOWLEDGE_WEB_PANEL_ID, CASE_IOS_CONNECTED_DOMAINS_PANEL_ID,
     CASE_IOS_QUARANTINE_URLS_PANEL_ID, CASE_IOS_SCREENTIME_DOMAINS_PANEL_ID,
     CASE_IOS_INTERACTION_URLS_PANEL_ID, CASE_IOS_LOG_IPS_PANEL_ID,
     CASE_IOS_LOGARCHIVE_PANEL_ID, CASE_IOS_IOSERVICE_PANEL_ID, CASE_IOS_ACTIVATION_PANEL_ID,
     CASE_IOS_USB_PANEL_ID]"

definition isCaseBuiltinPanel :: "string \<Rightarrow> bool" where
  "isCaseBuiltinPanel i \<longleftrightarrow> i \<in> set CASE_BUILTIN_PANEL_IDS"

definition CASE_PANEL_BODY_CUSTOM_CLASS :: "(string \<times> string) list" where
  "CASE_PANEL_BODY_CUSTOM_CLASS =
     [(CASE_TIMELINE_PANEL_ID, ''case-panel-body--timeline''),
      (CASE_NETWORK_FLOW_PANEL_ID, ''case-panel-body--network-flow''),
      (CASE_DEVICE_HEADER_PANEL_ID, ''case-panel-body--device'')]"

definition caseBuiltinPanelBodyClass :: "string \<Rightarrow> string option" where
  "caseBuiltinPanelBodyClass panelId =
     (if \<not> isCaseBuiltinPanel panelId then None
      else Some (get_or ''case-panel-body--list-scroll'' (map_of CASE_PANEL_BODY_CUSTOM_CLASS panelId)))"

section \<open>Panels\<close>

text \<open>The layout argument of the panel constructors.\<close>

record PanelBox =
  b_x :: int
  b_y :: int
  b_w :: int
  b_h :: int
  b_minH :: "int option"
  b_minW :: "int option"

definition box :: "int \<Rightarrow> int \<Rightarrow> int \<Rightarrow> int \<Rightarrow> PanelBox" where
  "box x y w h = \<lparr>b_x = x, b_y = y, b_w = w, b_h = h, b_minH = None, b_minW = None\<rparr>"

definition panel :: "string \<Rightarrow> string \<Rightarrow> string \<Rightarrow> PanelViz \<Rightarrow> PanelBox \<Rightarrow> DashboardPanel" where
  "panel i title query viz layout =
     dpanel i title query viz
       (grid_item i (b_x layout) (b_y layout) (b_w layout) (b_h layout)
          (or_else (b_minW layout) (Some 3)) (or_else (b_minH layout) (Some 2)))"

definition deviceHeaderPanel :: DashboardPanel where
  "deviceHeaderPanel = panel CASE_DEVICE_HEADER_PANEL_ID ''Device'' '''' V_table
     ((box 0 0 12 7)\<lparr>b_minH := Some 5\<rparr>)"

definition iosBatteryPanel :: "PanelBox \<Rightarrow> DashboardPanel" where
  "iosBatteryPanel b = panel CASE_IOS_BATTERY_PANEL_ID ''Battery'' '''' V_table
     (b\<lparr>b_minH := or_else (b_minH b) (Some 4)\<rparr>)"

definition iosStoragePanel :: "PanelBox \<Rightarrow> DashboardPanel" where
  "iosStoragePanel b = panel CASE_IOS_STORAGE_PANEL_ID ''Storage'' '''' V_table
     (b\<lparr>b_minH := Some 4\<rparr>)"

definition iosIoservicePanel :: "PanelBox \<Rightarrow> DashboardPanel" where
  "iosIoservicePanel b = panel CASE_IOS_IOSERVICE_PANEL_ID ''IOService hardware'' '''' V_table
     (b\<lparr>b_minH := Some 4\<rparr>)"

definition iosLogarchivePanel :: "PanelBox \<Rightarrow> DashboardPanel" where
  "iosLogarchivePanel b = panel CASE_IOS_LOGARCHIVE_PANEL_ID ''Unified logs'' '''' V_table
     (b\<lparr>b_minH := or_else (b_minH b) (Some 3)\<rparr>)"

definition iosLogIpsPanel :: "PanelBox \<Rightarrow> DashboardPanel" where
  "iosLogIpsPanel b = panel CASE_IOS_LOG_IPS_PANEL_ID ''IPs in log text'' '''' V_table
     (b\<lparr>b_minH := or_else (b_minH b) (Some 3)\<rparr>)"

definition iosActivationPanel :: "PanelBox \<Rightarrow> DashboardPanel" where
  "iosActivationPanel b = panel CASE_IOS_ACTIVATION_PANEL_ID ''Activation'' '''' V_table
     (b\<lparr>b_minH := Some 4\<rparr>)"

definition iosSecurityPanel :: "PanelBox \<Rightarrow> DashboardPanel" where
  "iosSecurityPanel b = panel CASE_IOS_SECURITY_PANEL_ID ''Paired devices'' '''' V_table
     (b\<lparr>b_minH := Some 4\<rparr>)"

definition iosLockStatePanel :: "PanelBox \<Rightarrow> DashboardPanel" where
  "iosLockStatePanel b = panel CASE_IOS_LOCK_STATE_PANEL_ID ''Lock / unlock'' '''' V_table
     (b\<lparr>b_minH := Some 8\<rparr>)"

definition iosTccPanel :: "PanelBox \<Rightarrow> DashboardPanel" where
  "iosTccPanel b = panel CASE_IOS_TCC_PANEL_ID ''App permissions'' '''' V_table
     (b\<lparr>b_minH := Some 4\<rparr>)"

definition iosSensitivePermissionsPanel :: "PanelBox \<Rightarrow> DashboardPanel" where
  "iosSensitivePermissionsPanel b = panel CASE_IOS_SENSITIVE_PERMS_PANEL_ID ''Sensitive permissions'' '''' V_table
     (b\<lparr>b_minH := Some 5\<rparr>)"

definition iosWifiPanel :: "PanelBox \<Rightarrow> DashboardPanel" where
  "iosWifiPanel b = panel CASE_IOS_WIFI_PANEL_ID (''Wi'' @ nb_hyphen @ ''Fi scan'') '''' V_table
     (b\<lparr>b_minH := or_else (b_minH b) (Some 3)\<rparr>)"

definition iosUsbPanel :: "PanelBox \<Rightarrow> DashboardPanel" where
  "iosUsbPanel b = panel CASE_IOS_USB_PANEL_ID ''USB / cable'' '''' V_table
     (b\<lparr>b_minH := or_else (b_minH b) (Some 6), b_minW := or_else (b_minW b) (Some 6)\<rparr>)"

definition iosWifiNetworksPanel :: "PanelBox \<Rightarrow> DashboardPanel" where
  "iosWifiNetworksPanel b = panel CASE_IOS_WIFI_NETWORKS_PANEL_ID (''Saved Wi'' @ nb_hyphen @ ''Fi networks'') '''' V_table
     (b\<lparr>b_minH := or_else (b_minH b) (Some 3)\<rparr>)"

definition iosWifiKnownPanel :: "PanelBox \<Rightarrow> DashboardPanel" where
  "iosWifiKnownPanel b = panel CASE_IOS_WIFI_KNOWN_PANEL_ID (''Wi'' @ nb_hyphen @ ''Fi geolocation'') '''' V_table
     (b\<lparr>b_minH := or_else (b_minH b) (Some 3)\<rparr>)"

definition iosWifiSecurityPanel :: "PanelBox \<Rightarrow> DashboardPanel" where
  "iosWifiSecurityPanel b = panel CASE_IOS_WIFI_SECURITY_PANEL_ID (''Wi'' @ nb_hyphen @ ''Fi security'') '''' V_table
     (b\<lparr>b_minH := or_else (b_minH b) (Some 3)\<rparr>)"

definition iosSwcutilDomainsPanel :: "PanelBox \<Rightarrow> DashboardPanel" where
  "iosSwcutilDomainsPanel b = panel CASE_IOS_SWCUTIL_DOMAINS_PANEL_ID ''Associated domains'' '''' V_table
     (b\<lparr>b_minH := or_else (b_minH b) (Some 3)\<rparr>)"

definition iosPowerlogPushPanel :: "PanelBox \<Rightarrow> DashboardPanel" where
  "iosPowerlogPushPanel b = panel CASE_IOS_POWERLOG_PUSH_PANEL_ID ''Push server endpoints'' '''' V_table
     (b\<lparr>b_minH := or_else (b_minH b) (Some 3)\<rparr>)"

definition iosPowerlogUsagePanel :: "PanelBox \<Rightarrow> DashboardPanel" where
  "iosPowerlogUsagePanel b = panel CASE_IOS_POWERLOG_USAGE_PANEL_ID ''Process network bytes'' '''' V_table
     (b\<lparr>b_minH := or_else (b_minH b) (Some 3)\<rparr>)"

definition iosNetworkExtensionPanel :: "PanelBox \<Rightarrow> DashboardPanel" where
  "iosNetworkExtensionPanel b = panel CASE_IOS_NETWORK_EXTENSION_PANEL_ID ''VPN / proxy config'' '''' V_table
     (b\<lparr>b_minH := or_else (b_minH b) (Some 3)\<rparr>)"

definition iosPlistUrlsPanel :: "PanelBox \<Rightarrow> DashboardPanel" where
  "iosPlistUrlsPanel b = panel CASE_IOS_PLIST_URLS_PANEL_ID ''URLs in plists'' '''' V_table
     (b\<lparr>b_minH := or_else (b_minH b) (Some 3)\<rparr>)"

definition iosTransparencyContactsPanel :: "PanelBox \<Rightarrow> DashboardPanel" where
  "iosTransparencyContactsPanel b = panel CASE_IOS_TRANSPARENCY_CONTACTS_PANEL_ID ''Contact URIs'' '''' V_table
     (b\<lparr>b_minH := or_else (b_minH b) (Some 3)\<rparr>)"

definition iosNetworkIocsPanel :: "PanelBox \<Rightarrow> DashboardPanel" where
  "iosNetworkIocsPanel b = panel CASE_IOS_NETWORK_IOCS_PANEL_ID ''Network IOCs'' '''' V_table
     (b\<lparr>b_minH := or_else (b_minH b) (Some 4)\<rparr>)"

definition iosNetusagePanel :: "PanelBox \<Rightarrow> DashboardPanel" where
  "iosNetusagePanel b = panel CASE_IOS_NETUSAGE_PANEL_ID ''Netusage routes'' '''' V_table
     (b\<lparr>b_minH := or_else (b_minH b) (Some 3)\<rparr>)"

definition iosSafariHistoryPanel :: "PanelBox \<Rightarrow> DashboardPanel" where
  "iosSafariHistoryPanel b = panel CASE_IOS_SAFARI_HISTORY_PANEL_ID ''Safari history'' '''' V_table
     (b\<lparr>b_minH := or_else (b_minH b) (Some 3)\<rparr>)"

definition iosKnowledgeWebPanel :: "PanelBox \<Rightarrow> DashboardPanel" where
  "iosKnowledgeWebPanel b = panel CASE_IOS_KNOWLEDGE_WEB_PANEL_ID ''App web usage'' '''' V_table
     (b\<lparr>b_minH := or_else (b_minH b) (Some 3)\<rparr>)"

definition iosConnectedDomainsPanel :: "PanelBox \<Rightarrow> DashboardPanel" where
  "iosConnectedDomainsPanel b = panel CASE_IOS_CONNECTED_DOMAINS_PANEL_ID ''Connected domains'' '''' V_table
     (b\<lparr>b_minH := or_else (b_minH b) (Some 4)\<rparr>)"

definition iosQuarantineUrlsPanel :: "PanelBox \<Rightarrow> DashboardPanel" where
  "iosQuarantineUrlsPanel b = panel CASE_IOS_QUARANTINE_URLS_PANEL_ID ''Quarantine download URLs'' '''' V_table
     (b\<lparr>b_minH := or_else (b_minH b) (Some 3)\<rparr>)"

definition iosScreentimeDomainsPanel :: "PanelBox \<Rightarrow> DashboardPanel" where
  "iosScreentimeDomainsPanel b = panel CASE_IOS_SCREENTIME_DOMAINS_PANEL_ID ''Screen Time domains'' '''' V_table
     (b\<lparr>b_minH := or_else (b_minH b) (Some 3)\<rparr>)"

definition iosInteractionUrlsPanel :: "PanelBox \<Rightarrow> DashboardPanel" where
  "iosInteractionUrlsPanel b = panel CASE_IOS_INTERACTION_URLS_PANEL_ID ''Shared / interaction URLs'' '''' V_table
     (b\<lparr>b_minH := or_else (b_minH b) (Some 3)\<rparr>)"

definition crashTracesPanel :: "PanelBox \<Rightarrow> DashboardPanel" where
  "crashTracesPanel b = panel CASE_CRASH_TRACES_PANEL_ID ''Crashes & backtraces'' '''' V_table
     (b\<lparr>b_minH := Some 10\<rparr>)"

definition powerHistoryPanel :: "PanelBox \<Rightarrow> DashboardPanel" where
  "powerHistoryPanel b = panel CASE_POWER_HISTORY_PANEL_ID ''Power history'' '''' V_table
     (b\<lparr>b_minH := Some 4\<rparr>)"

definition androidBatteryPanel :: "PanelBox \<Rightarrow> DashboardPanel" where
  "androidBatteryPanel b = panel CASE_BATTERY_PANEL_ID ''Battery'' '''' V_table
     (b\<lparr>b_minH := or_else (b_minH b) (Some 4)\<rparr>)"

definition networkFlowPanel :: "PanelBox \<Rightarrow> DashboardPanel" where
  "networkFlowPanel b = panel CASE_NETWORK_FLOW_PANEL_ID ''Network flows'' '''' V_table
     (b\<lparr>b_minH := or_else (b_minH b) (Some 8), b_minW := or_else (b_minW b) (Some 6)\<rparr>)"

definition networkSocketsPanel :: "PanelBox \<Rightarrow> DashboardPanel" where
  "networkSocketsPanel b = panel CASE_NETWORK_SOCKETS_PANEL_ID ''Network sockets'' '''' V_table
     (b\<lparr>b_minH := Some 3\<rparr>)"

definition networkListenPortsPanel :: "PanelBox \<Rightarrow> DashboardPanel" where
  "networkListenPortsPanel b = panel CASE_NETWORK_LISTEN_PORTS_PANEL_ID ''Listening ports'' '''' V_table
     (b\<lparr>b_minH := Some 3\<rparr>)"

definition networkUsagePanel :: "PanelBox \<Rightarrow> DashboardPanel" where
  "networkUsagePanel b = panel CASE_NETWORK_USAGE_PANEL_ID ''Network usage'' '''' V_table
     (b\<lparr>b_minH := Some 7\<rparr>)"

definition androidUsbPanel :: "PanelBox \<Rightarrow> DashboardPanel" where
  "androidUsbPanel b = panel CASE_ANDROID_USB_PANEL_ID ''USB'' '''' V_table
     (b\<lparr>b_minH := or_else (b_minH b) (Some 5)\<rparr>)"

definition bluetoothPanel :: "PanelBox \<Rightarrow> DashboardPanel" where
  "bluetoothPanel b = panel CASE_BLUETOOTH_PANEL_ID ''Bluetooth'' '''' V_table
     (b\<lparr>b_minH := Some 4\<rparr>)"

definition memoryPanel :: "PanelBox \<Rightarrow> DashboardPanel" where
  "memoryPanel b = panel CASE_MEMORY_PANEL_ID ''Memory'' '''' V_table
     (b\<lparr>b_minH := Some 4\<rparr>)"

definition privacyPanel :: "PanelBox \<Rightarrow> DashboardPanel" where
  "privacyPanel b = panel CASE_PRIVACY_PANEL_ID ''Privacy'' '''' V_table
     (b\<lparr>b_minH := Some 4\<rparr>)"

definition authenticationPanel :: "PanelBox \<Rightarrow> DashboardPanel" where
  "authenticationPanel b = panel CASE_AUTHENTICATION_PANEL_ID ''Authentication'' '''' V_table
     (b\<lparr>b_minH := Some 8\<rparr>)"

definition vpnPanel :: "PanelBox \<Rightarrow> DashboardPanel" where
  "vpnPanel b = panel CASE_VPN_PANEL_ID ''VPN'' '''' V_table
     (b\<lparr>b_minH := Some 4\<rparr>)"

definition accountsPanel :: "PanelBox \<Rightarrow> DashboardPanel" where
  "accountsPanel b = panel CASE_ACCOUNTS_PANEL_ID ''Accounts'' '''' V_table
     (b\<lparr>b_minH := Some 4\<rparr>)"

definition packagesPanel :: "PanelBox \<Rightarrow> DashboardPanel" where
  "packagesPanel b = panel CASE_PACKAGES_PANEL_ID ''Packages & permissions'' '''' V_table
     (b\<lparr>b_minH := Some 6\<rparr>)"

definition iosMobileInstallPanel :: "PanelBox \<Rightarrow> DashboardPanel" where
  "iosMobileInstallPanel b = panel CASE_IOS_MOBILE_INSTALL_PANEL_ID ''Installed / deleted apps'' '''' V_table
     (b\<lparr>b_minH := Some 5\<rparr>)"

definition androidDangerousPermissionsPanel :: "PanelBox \<Rightarrow> DashboardPanel" where
  "androidDangerousPermissionsPanel b = panel CASE_ANDROID_DANGEROUS_PERMS_PANEL_ID ''Dangerous permissions'' '''' V_table
     (b\<lparr>b_minH := Some 5\<rparr>)"

definition deletedPackagesPanel :: "PanelBox \<Rightarrow> DashboardPanel" where
  "deletedPackagesPanel b = panel CASE_DELETED_PACKAGES_PANEL_ID ''Deleted packages'' '''' V_table
     (b\<lparr>b_minH := Some 4\<rparr>)"

definition apkDowngradePanel :: "PanelBox \<Rightarrow> DashboardPanel" where
  "apkDowngradePanel b = panel CASE_APK_DOWNGRADE_PANEL_ID ''APK downgrades (battery daily)'' '''' V_table
     (b\<lparr>b_minH := Some 4\<rparr>)"

definition iosProcessEventsPanel :: "PanelBox \<Rightarrow> DashboardPanel" where
  "iosProcessEventsPanel b = panel CASE_IOS_PROCESS_EVENTS_PANEL_ID ''Process events'' '''' V_table
     (b\<lparr>b_minH := or_else (b_minH b) (Some 5), b_minW := or_else (b_minW b) (Some 6)\<rparr>)"

definition processesPanel :: "PanelBox \<Rightarrow> DashboardPanel" where
  "processesPanel b = panel CASE_PROCESSES_PANEL_ID ''Running processes'' '''' V_table
     (b\<lparr>b_minH := or_else (b_minH b) (Some 4)\<rparr>)"

definition iosRunningServicesPanel :: "PanelBox \<Rightarrow> DashboardPanel" where
  "iosRunningServicesPanel b = panel CASE_IOS_RUNNING_SERVICES_PANEL_ID ''Running services'' '''' V_table
     (b\<lparr>b_minH := or_else (b_minH b) (Some 4)\<rparr>)"

definition adbPanel :: "PanelBox \<Rightarrow> DashboardPanel" where
  "adbPanel b = panel CASE_ADB_PANEL_ID ''ADB'' '''' V_table
     (b\<lparr>b_minH := Some 4\<rparr>)"

definition devicePolicyPanel :: "PanelBox \<Rightarrow> DashboardPanel" where
  "devicePolicyPanel b = panel CASE_DEVICE_POLICY_PANEL_ID ''Device policy'' '''' V_table
     (b\<lparr>b_minH := Some 4\<rparr>)"

definition timelinePanel :: "PanelBox \<Rightarrow> DashboardPanel" where
  "timelinePanel b = panel CASE_TIMELINE_PANEL_ID ''Event timeline'' '''' V_timechart
     (b\<lparr>b_minH := Some 4\<rparr>)"

definition CASE_EVENTS_PER_PARSER_QUERY :: string where
  "CASE_EVENTS_PER_PARSER_QUERY = ''| stats count by parser | sort -count | head 200''"

definition eventsPerParserPanel :: "PanelBox \<Rightarrow> DashboardPanel" where
  "eventsPerParserPanel b = panel ''case_parsers'' ''Events per parser'' CASE_EVENTS_PER_PARSER_QUERY V_table
     (b\<lparr>b_minH := Some (get_or 3 (b_minH b))\<rparr>)"

definition caseTimelineQuery :: "string \<Rightarrow> string \<Rightarrow> string" where
  "caseTimelineQuery source span =
     ''source='' @ quoted (escapeMplString source) @ '' | timechart span='' @ span
       @ '' count by parser limit=10 useother=true''"

text \<open>Stacking: each panel takes the full width, below the one before it.\<close>

fun stack_from :: "int \<Rightarrow> DashboardPanel list \<Rightarrow> DashboardPanel list" where
  "stack_from y [] = []"
| "stack_from y (p # ps) =
     p\<lparr>p_layout := (p_layout p)\<lparr>l_y := y, l_x := 0, l_w := 12\<rparr>\<rparr>
       # stack_from (y + l_h (p_layout p)) ps"

definition stackPanelsByTitle :: "DashboardPanel list \<Rightarrow> DashboardPanel list" where
  "stackPanelsByTitle panels = stack_from 0 (sort_key (\<lambda>p. collate (p_title p)) panels)"

definition stackAndroidNetworkPanels :: "DashboardPanel list \<Rightarrow> DashboardPanel list" where
  "stackAndroidNetworkPanels panels =
     (let order = [CASE_NETWORK_FLOW_PANEL_ID, CASE_NETWORK_LISTEN_PORTS_PANEL_ID,
                   CASE_NETWORK_USAGE_PANEL_ID];
          byId = (\<lambda>i. find (\<lambda>p. p_id p = i) (rev panels))
      in stack_from 0 (List.map_filter byId order))"

section \<open>The default dashboards\<close>

definition DEFAULT_ANDROID_CASE_DASHBOARD :: DashboardDocument where
  "DEFAULT_ANDROID_CASE_DASHBOARD =
     \<lparr>d_version = ANDROID_CASE_DASHBOARD_VERSION,
      d_description = Some (''Android case overview '' @ em_dash @ '' device, apps, network, power, and security.''),
      d_refresh_sec = 60, d_time_preset = ''24h'',
      d_panels = [
        deviceHeaderPanel,
        accountsPanel (box 0 7 12 5),
        eventsPerParserPanel ((box 0 12 12 5)\<lparr>b_minH := Some 3\<rparr>),
        memoryPanel (box 0 17 12 5),
        privacyPanel (box 0 22 6 5),
        vpnPanel (box 6 22 6 5),
        devicePolicyPanel (box 0 27 12 5)]\<rparr>"

definition DEFAULT_IOS_CASE_DASHBOARD :: DashboardDocument where
  "DEFAULT_IOS_CASE_DASHBOARD =
     \<lparr>d_version = IOS_CASE_DASHBOARD_VERSION,
      d_description = Some (''iOS case overview '' @ em_dash @ '' device, accounts, parsers, IOService, storage, security.''),
      d_refresh_sec = 60, d_time_preset = ''24h'',
      d_panels = [
        deviceHeaderPanel,
        accountsPanel (box 0 7 12 5),
        eventsPerParserPanel ((box 0 12 12 6)\<lparr>b_minH := Some 3\<rparr>),
        iosStoragePanel (box 0 18 6 7),
        iosActivationPanel (box 6 18 6 7),
        iosSecurityPanel (box 0 25 6 6),
        iosIoservicePanel (box 6 25 6 6),
        iosTccPanel (box 0 31 12 5),
        panel ''case_high_sev'' ''High severity (sample)'' (''severity='' @ quoted ''high'' @ '' | head 12'') V_table (box 0 36 12 3)]\<rparr>"

definition DEFAULT_ANDROID_CASE_AUTHENTICATION_DASHBOARD :: DashboardDocument where
  "DEFAULT_ANDROID_CASE_AUTHENTICATION_DASHBOARD =
     \<lparr>d_version = ANDROID_CASE_AUTHENTICATION_DASHBOARD_VERSION,
      d_description = Some ''Android unlock/authentication events and power history from the bugreport.'',
      d_refresh_sec = 60, d_time_preset = ''24h'',
      d_panels = [
        authenticationPanel (box 0 0 12 14),
        powerHistoryPanel (box 0 14 12 8)]\<rparr>"

definition DEFAULT_IOS_CASE_AUTHENTICATION_DASHBOARD :: DashboardDocument where
  "DEFAULT_IOS_CASE_AUTHENTICATION_DASHBOARD =
     \<lparr>d_version = IOS_CASE_AUTHENTICATION_DASHBOARD_VERSION,
      d_description = Some ''iOS lock and unlock timeline from powerlogs and KnowledgeC.'',
      d_refresh_sec = 60, d_time_preset = ''24h'',
      d_panels = [
        iosLockStatePanel (box 0 0 12 18)]\<rparr>"

definition DEFAULT_ANDROID_CASE_CRASHES_DASHBOARD :: DashboardDocument where
  "DEFAULT_ANDROID_CASE_CRASHES_DASHBOARD =
     \<lparr>d_version = ANDROID_CASE_CRASHES_DASHBOARD_VERSION,
      d_description = Some ''Android crash, ANR, tombstone, and backtrace signals.'',
      d_refresh_sec = 60, d_time_preset = ''24h'',
      d_panels = [
        crashTracesPanel (box 0 0 12 18)]\<rparr>"

definition DEFAULT_IOS_CASE_CRASHES_DASHBOARD :: DashboardDocument where
  "DEFAULT_IOS_CASE_CRASHES_DASHBOARD =
     \<lparr>d_version = IOS_CASE_CRASHES_DASHBOARD_VERSION,
      d_description = Some ''iOS crash reports, faulting threads, and binary images.'',
      d_refresh_sec = 60, d_time_preset = ''24h'',
      d_panels = [
        crashTracesPanel (box 0 0 12 18)]\<rparr>"

definition DEFAULT_ANDROID_CASE_PACKAGES_DASHBOARD :: DashboardDocument where
  "DEFAULT_ANDROID_CASE_PACKAGES_DASHBOARD =
     \<lparr>d_version = ANDROID_CASE_PACKAGES_DASHBOARD_VERSION,
      d_description = Some ''Android packages, installs, and sideloading.'',
      d_refresh_sec = 60, d_time_preset = ''24h'',
      d_panels = [
        packagesPanel (box 0 0 12 14),
        androidDangerousPermissionsPanel (box 0 14 12 8),
        apkDowngradePanel (box 0 22 12 6),
        deletedPackagesPanel (box 0 28 12 5),
        panel ''case_last_install'' ''Latest installs'' (''parser='' @ quoted ''Package'' @ '' data_type=*package_install* bundle_id=* | fields timestamp, bundle_id, action, message | sort -timestamp | head 8'') V_table ((box 0 33 6 4)\<lparr>b_minH := Some 4\<rparr>),
        panel ''case_sideload'' ''Non-Play installs'' (''parser='' @ quoted ''Package'' @ '' data_type=*package_metadata* installer=* installer NOT IN ('' @ quoted ''com.android.vending'' @ '', '' @ quoted ''com.google.android.packageinstaller'' @ '', '' @ quoted ''com.android.packageinstaller'' @ '', '' @ quoted ''null'' @ '') | stats count by bundle_id, installer | head 10'') V_table ((box 6 33 6 4)\<lparr>b_minH := Some 3\<rparr>)]\<rparr>"

definition DEFAULT_IOS_CASE_PACKAGES_DASHBOARD :: DashboardDocument where
  "DEFAULT_IOS_CASE_PACKAGES_DASHBOARD =
     \<lparr>d_version = IOS_CASE_PACKAGES_DASHBOARD_VERSION,
      d_description = Some ''iOS bundles and recent app activity.'',
      d_refresh_sec = 60, d_time_preset = ''24h'',
      d_panels = [
        packagesPanel (box 0 0 12 14),
        iosMobileInstallPanel (box 0 14 12 10),
        iosSensitivePermissionsPanel (box 0 24 12 8),
        panel ''case_last_install'' ''Recent app activity'' ''bundle_id=* | fields timestamp, bundle_id, app_name, parser, action, message | sort -timestamp | head 10'' V_table ((box 0 32 12 5)\<lparr>b_minH := Some 3\<rparr>)]\<rparr>"

definition DEFAULT_ANDROID_CASE_PROCESSES_DASHBOARD :: DashboardDocument where
  "DEFAULT_ANDROID_CASE_PROCESSES_DASHBOARD =
     \<lparr>d_version = ANDROID_CASE_PROCESSES_DASHBOARD_VERSION,
      d_description = Some ''Android process list from the bugreport.'',
      d_refresh_sec = 60, d_time_preset = ''24h'',
      d_panels = [
        processesPanel ((box 0 0 12 12)\<lparr>b_minH := Some 8\<rparr>),
        panel ''case_process_users'' ''Processes by user'' (''parser='' @ quoted ''Process'' @ '' process_name=* | stats count by user | head 20'') V_table ((box 0 12 6 5)\<lparr>b_minH := Some 3\<rparr>),
        panel ''case_process_sample'' ''Process events (sample)'' (''parser='' @ quoted ''Process'' @ '' | fields timestamp, process_name, process_id, user, message | sort -timestamp | head 20'') V_table ((box 6 12 6 5)\<lparr>b_minH := Some 3\<rparr>)]\<rparr>"

definition DEFAULT_IOS_CASE_PROCESSES_DASHBOARD :: DashboardDocument where
  "DEFAULT_IOS_CASE_PROCESSES_DASHBOARD =
     \<lparr>d_version = IOS_CASE_PROCESSES_DASHBOARD_VERSION,
      d_description = Some ''iOS running processes and remotectl registered services.'',
      d_refresh_sec = 60, d_time_preset = ''24h'',
      d_panels = [
        processesPanel ((box 0 0 12 12)\<lparr>b_minH := Some 8\<rparr>),
        iosRunningServicesPanel ((box 0 12 12 10)\<lparr>b_minH := Some 6\<rparr>)]\<rparr>"

definition DEFAULT_IOS_CASE_PROCESS_EVENTS_DASHBOARD :: DashboardDocument where
  "DEFAULT_IOS_CASE_PROCESS_EVENTS_DASHBOARD =
     \<lparr>d_version = IOS_CASE_PROCESS_EVENTS_DASHBOARD_VERSION,
      d_description = Some (''iOS process lifecycle events '' @ em_dash @ '' starts, spindump, ps snapshots, shutdown clients.''),
      d_refresh_sec = 60, d_time_preset = ''24h'',
      d_panels = [
        iosProcessEventsPanel ((box 0 0 12 18)\<lparr>b_minH := Some 12\<rparr>)]\<rparr>"

definition DEFAULT_ANDROID_CASE_BATTERY_DASHBOARD :: DashboardDocument where
  "DEFAULT_ANDROID_CASE_BATTERY_DASHBOARD =
     \<lparr>d_version = ANDROID_CASE_BATTERY_DASHBOARD_VERSION,
      d_description = Some ''Android battery history, hardware samples, and top consumers.'',
      d_refresh_sec = 60, d_time_preset = ''24h'',
      d_panels = [
        androidBatteryPanel ((box 0 0 12 18)\<lparr>b_minH := Some 12\<rparr>)]\<rparr>"

definition DEFAULT_IOS_CASE_BATTERY_DASHBOARD :: DashboardDocument where
  "DEFAULT_IOS_CASE_BATTERY_DASHBOARD =
     \<lparr>d_version = IOS_CASE_BATTERY_DASHBOARD_VERSION,
      d_description = Some ''iOS battery_bdc status and powerlogs Battery Level history.'',
      d_refresh_sec = 60, d_time_preset = ''24h'',
      d_panels = [
        iosBatteryPanel ((box 0 0 12 16)\<lparr>b_minH := Some 10\<rparr>)]\<rparr>"

definition DEFAULT_ANDROID_CASE_EXTERNAL_DEVICES_DASHBOARD :: DashboardDocument where
  "DEFAULT_ANDROID_CASE_EXTERNAL_DEVICES_DASHBOARD =
     \<lparr>d_version = ANDROID_CASE_EXTERNAL_DEVICES_DASHBOARD_VERSION,
      d_description = Some ''Android USB, Bluetooth, and ADB attachment history.'',
      d_refresh_sec = 60, d_time_preset = ''24h'',
      d_panels = [
        androidUsbPanel ((box 0 0 6 10)\<lparr>b_minH := Some 6\<rparr>),
        bluetoothPanel (box 6 0 6 5),
        adbPanel (box 6 5 6 5),
        panel ''case_bluetooth_events'' ''Bluetooth events'' (''parser='' @ quoted ''Bluetooth'' @ '' | fields timestamp, action, message | sort -timestamp | head 8'') V_table ((box 0 10 12 3)\<lparr>b_minH := Some 3\<rparr>)]\<rparr>"

definition DEFAULT_IOS_CASE_EXTERNAL_DEVICES_DASHBOARD :: DashboardDocument where
  "DEFAULT_IOS_CASE_EXTERNAL_DEVICES_DASHBOARD =
     \<lparr>d_version = IOS_CASE_EXTERNAL_DEVICES_DASHBOARD_VERSION,
      d_description = Some (''iOS Wi'' @ nb_hyphen @ ''Fi (scan, saved, geolocation, security) plus USB plane, lockdownd attach, and cable/power traces.''),
      d_refresh_sec = 60, d_time_preset = ''24h'',
      d_panels = stackPanelsByTitle [
        iosWifiPanel ((box 0 0 12 7)\<lparr>b_minH := Some 5\<rparr>),
        iosWifiNetworksPanel ((box 0 0 6 5)\<lparr>b_minH := Some 4\<rparr>),
        iosWifiKnownPanel ((box 0 0 6 5)\<lparr>b_minH := Some 4\<rparr>),
        iosWifiSecurityPanel ((box 0 0 6 4)\<lparr>b_minH := Some 3\<rparr>),
        iosUsbPanel ((box 0 0 12 18)\<lparr>b_minH := Some 12\<rparr>)]\<rparr>"

definition DEFAULT_ANDROID_CASE_NETWORK_DASHBOARD :: DashboardDocument where
  "DEFAULT_ANDROID_CASE_NETWORK_DASHBOARD =
     \<lparr>d_version = ANDROID_CASE_NETWORK_DASHBOARD_VERSION,
      d_description = Some ''Android network flows, listening ports, and interface usage.'',
      d_refresh_sec = 60, d_time_preset = ''24h'',
      d_panels = stackAndroidNetworkPanels [
        networkFlowPanel ((box 0 0 12 11)\<lparr>b_minH := Some 8\<rparr>),
        networkListenPortsPanel (box 0 0 6 4),
        networkUsagePanel (box 0 0 12 10)]\<rparr>"

definition DEFAULT_IOS_CASE_NETWORK_DASHBOARD :: DashboardDocument where
  "DEFAULT_IOS_CASE_NETWORK_DASHBOARD =
     \<lparr>d_version = IOS_CASE_NETWORK_DASHBOARD_VERSION,
      d_description = Some (''iOS URL/domain telemetry '' @ em_dash @ '' connected domains, Safari, KnowledgeC, Screen Time, quarantine, IOCs, VPN/proxy.''),
      d_refresh_sec = 60, d_time_preset = ''24h'',
      d_panels = stackPanelsByTitle [
        iosConnectedDomainsPanel ((box 0 0 12 7)\<lparr>b_minH := Some 5\<rparr>),
        iosNetworkIocsPanel ((box 0 0 12 6)\<lparr>b_minH := Some 4\<rparr>),
        iosSafariHistoryPanel ((box 0 0 6 6)\<lparr>b_minH := Some 4\<rparr>),
        iosKnowledgeWebPanel ((box 0 0 6 6)\<lparr>b_minH := Some 4\<rparr>),
        iosScreentimeDomainsPanel ((box 0 0 6 5)\<lparr>b_minH := Some 4\<rparr>),
        iosQuarantineUrlsPanel ((box 0 0 6 5)\<lparr>b_minH := Some 4\<rparr>),
        iosInteractionUrlsPanel ((box 0 0 6 5)\<lparr>b_minH := Some 4\<rparr>),
        iosSwcutilDomainsPanel ((box 0 0 6 4)\<lparr>b_minH := Some 3\<rparr>),
        iosPlistUrlsPanel ((box 0 0 6 5)\<lparr>b_minH := Some 4\<rparr>),
        iosNetworkExtensionPanel ((box 0 0 6 5)\<lparr>b_minH := Some 4\<rparr>),
        iosPowerlogPushPanel ((box 0 0 6 4)\<lparr>b_minH := Some 3\<rparr>),
        iosNetusagePanel ((box 0 0 6 5)\<lparr>b_minH := Some 3\<rparr>),
        iosPowerlogUsagePanel ((box 0 0 12 5)\<lparr>b_minH := Some 4\<rparr>),
        iosLogarchivePanel ((box 0 0 6 4)\<lparr>b_minH := Some 3\<rparr>),
        iosLogIpsPanel ((box 0 0 6 4)\<lparr>b_minH := Some 3\<rparr>),
        iosTransparencyContactsPanel ((box 0 0 6 4)\<lparr>b_minH := Some 3\<rparr>)]\<rparr>"

definition DEFAULT_ENDPOINT_CASE_DASHBOARD :: DashboardDocument where
  "DEFAULT_ENDPOINT_CASE_DASHBOARD =
     \<lparr>d_version = 3,
      d_description = Some (''Endpoint fleet overview '' @ em_dash @ '' hosts, processes, and network telemetry.''),
      d_refresh_sec = 60, d_time_preset = ''24h'',
      d_panels = [
        panel ''case_events'' ''Total events'' ''| stats count'' V_single_value (box 0 0 3 2),
        panel ''case_devices'' ''Hosts in scope'' ''device_id=* | stats count by device_id | head 12'' V_table ((box 3 0 9 3)\<lparr>b_minH := Some 3\<rparr>),
        eventsPerParserPanel ((box 0 3 12 5)\<lparr>b_minH := Some 3\<rparr>),
        panel ''case_timeline'' ''Parser activity'' ''| timechart span=1d count by parser limit=8'' V_timechart (box 0 8 12 3),
        panel ''case_processes'' ''Top processes'' (''parser='' @ quoted ''process'' @ '' process_name=* | stats count by process_name | head 10'') V_bar (box 0 11 6 3),
        panel ''case_network'' ''Network'' (''parser='' @ quoted ''network'' @ '' dest_ip=* | fields timestamp, device_id, dest_ip, src_ip, action, message | sort -timestamp | head 10'') V_table ((box 6 11 6 3)\<lparr>b_minH := Some 3\<rparr>)]\<rparr>"

definition PLATFORM_TEMPLATES :: "CasePlatform \<Rightarrow> DashboardDocument" where
  "PLATFORM_TEMPLATES platform =
     (case platform of
        Android \<Rightarrow> DEFAULT_ANDROID_CASE_DASHBOARD
      | Ios \<Rightarrow> DEFAULT_IOS_CASE_DASHBOARD
      | Endpoint \<Rightarrow> DEFAULT_ENDPOINT_CASE_DASHBOARD)"

fun SECTION_TEMPLATES :: "CaseDashboardSectionId \<Rightarrow> CasePlatform \<Rightarrow> DashboardDocument option" where
  "SECTION_TEMPLATES S_crashes Android = Some DEFAULT_ANDROID_CASE_CRASHES_DASHBOARD"
| "SECTION_TEMPLATES S_crashes Ios = Some DEFAULT_IOS_CASE_CRASHES_DASHBOARD"
| "SECTION_TEMPLATES S_packages Android = Some DEFAULT_ANDROID_CASE_PACKAGES_DASHBOARD"
| "SECTION_TEMPLATES S_packages Ios = Some DEFAULT_IOS_CASE_PACKAGES_DASHBOARD"
| "SECTION_TEMPLATES S_processes Android = Some DEFAULT_ANDROID_CASE_PROCESSES_DASHBOARD"
| "SECTION_TEMPLATES S_processes Ios = Some DEFAULT_IOS_CASE_PROCESSES_DASHBOARD"
| "SECTION_TEMPLATES S_process_events Ios = Some DEFAULT_IOS_CASE_PROCESS_EVENTS_DASHBOARD"
| "SECTION_TEMPLATES S_battery Android = Some DEFAULT_ANDROID_CASE_BATTERY_DASHBOARD"
| "SECTION_TEMPLATES S_battery Ios = Some DEFAULT_IOS_CASE_BATTERY_DASHBOARD"
| "SECTION_TEMPLATES S_external_devices Android = Some DEFAULT_ANDROID_CASE_EXTERNAL_DEVICES_DASHBOARD"
| "SECTION_TEMPLATES S_external_devices Ios = Some DEFAULT_IOS_CASE_EXTERNAL_DEVICES_DASHBOARD"
| "SECTION_TEMPLATES S_network Android = Some DEFAULT_ANDROID_CASE_NETWORK_DASHBOARD"
| "SECTION_TEMPLATES S_network Ios = Some DEFAULT_IOS_CASE_NETWORK_DASHBOARD"
| "SECTION_TEMPLATES S_authentication Android = Some DEFAULT_ANDROID_CASE_AUTHENTICATION_DASHBOARD"
| "SECTION_TEMPLATES S_authentication Ios = Some DEFAULT_IOS_CASE_AUTHENTICATION_DASHBOARD"
| "SECTION_TEMPLATES section platform = None"

definition sectionVersion :: "CasePlatform \<Rightarrow> CaseDashboardSectionId \<Rightarrow> int" where
  "sectionVersion platform section =
     (let by_platform = (\<lambda>a i. case platform of Android \<Rightarrow> a | Ios \<Rightarrow> i | Endpoint \<Rightarrow> 1) in
      case section of
        S_entities \<Rightarrow> 1
      | S_packages \<Rightarrow> by_platform ANDROID_CASE_PACKAGES_DASHBOARD_VERSION IOS_CASE_PACKAGES_DASHBOARD_VERSION
      | S_crashes \<Rightarrow> by_platform ANDROID_CASE_CRASHES_DASHBOARD_VERSION IOS_CASE_CRASHES_DASHBOARD_VERSION
      | S_processes \<Rightarrow> by_platform ANDROID_CASE_PROCESSES_DASHBOARD_VERSION IOS_CASE_PROCESSES_DASHBOARD_VERSION
      | S_process_events \<Rightarrow> (if platform = Ios then IOS_CASE_PROCESS_EVENTS_DASHBOARD_VERSION else 1)
      | S_battery \<Rightarrow> by_platform ANDROID_CASE_BATTERY_DASHBOARD_VERSION IOS_CASE_BATTERY_DASHBOARD_VERSION
      | S_external_devices \<Rightarrow> by_platform ANDROID_CASE_EXTERNAL_DEVICES_DASHBOARD_VERSION
            IOS_CASE_EXTERNAL_DEVICES_DASHBOARD_VERSION
      | S_network \<Rightarrow> by_platform ANDROID_CASE_NETWORK_DASHBOARD_VERSION IOS_CASE_NETWORK_DASHBOARD_VERSION
      | S_authentication \<Rightarrow> by_platform ANDROID_CASE_AUTHENTICATION_DASHBOARD_VERSION
            IOS_CASE_AUTHENTICATION_DASHBOARD_VERSION
      | S_overview \<Rightarrow>
          (case platform of
             Android \<Rightarrow> ANDROID_CASE_DASHBOARD_VERSION
           | Ios \<Rightarrow> IOS_CASE_DASHBOARD_VERSION
           | Endpoint \<Rightarrow> d_version (PLATFORM_TEMPLATES platform)))"

definition CASE_DASHBOARD_TAB_ORDER :: "CaseDashboardSectionId list" where
  "CASE_DASHBOARD_TAB_ORDER = [S_overview, S_crashes, S_packages, S_processes, S_process_events,
     S_battery, S_external_devices, S_network, S_authentication, S_entities]"

definition caseDashboardSections :: "CasePlatform \<Rightarrow> CaseDashboardSectionId list" where
  "caseDashboardSections platform =
     (case platform of
        Endpoint \<Rightarrow> [S_overview, S_entities]
      | Ios \<Rightarrow> CASE_DASHBOARD_TAB_ORDER
      | Android \<Rightarrow> filter (\<lambda>i. i \<noteq> S_process_events) CASE_DASHBOARD_TAB_ORDER)"

definition caseDashboardHasNetworkSection :: "CasePlatform \<Rightarrow> bool" where
  "caseDashboardHasNetworkSection platform \<longleftrightarrow> S_network \<in> set (caseDashboardSections platform)"

definition key_layout :: "DashboardPanel \<Rightarrow> DashboardPanel" where
  "key_layout p = p\<lparr>p_layout := (p_layout p)\<lparr>l_i := p_id p\<rparr>\<rparr>"

definition defaultCaseDashboard :: "CasePlatform \<Rightarrow> CaseDashboardSectionId \<Rightarrow> DashboardDocument" where
  "defaultCaseDashboard platform section =
     (if section = S_entities then
        \<lparr>d_version = 1, d_description = Some ''Case entities'', d_refresh_sec = 0,
         d_time_preset = ''24h'', d_panels = []\<rparr>
      else
        (let template = (if section = S_overview then PLATFORM_TEMPLATES platform
                         else get_or (PLATFORM_TEMPLATES platform) (SECTION_TEMPLATES section platform))
         in template\<lparr>d_panels := map key_layout (d_panels template)\<rparr>))"

section \<open>Platforms\<close>

definition normalizeCasePlatform :: "string \<Rightarrow> CasePlatform option" where
  "normalizeCasePlatform val =
     (let v = to_lower (trim val) in
      if v = ''android'' \<or> v = ''bugreport'' \<or> v = ''apk'' then Some Android
      else if v = ''ios'' \<or> v = ''sysdiagnose'' \<or> v = ''iphone'' \<or> v = ''ipad'' then Some Ios
      else if v = ''endpoint'' \<or> v = ''vector'' \<or> v = ''linux'' then Some Endpoint
      else None)"

fun first_platform :: "string list \<Rightarrow> CasePlatform option" where
  "first_platform [] = None"
| "first_platform (t # ts) = (case normalizeCasePlatform t of Some p \<Rightarrow> Some p | None \<Rightarrow> first_platform ts)"

definition inferCasePlatform :: "string list \<Rightarrow> string option list \<Rightarrow> CasePlatform option" where
  "inferCasePlatform tags job_platforms =
     (case first_platform tags of
        Some p \<Rightarrow> Some p
      | None \<Rightarrow> first_platform (map (get_or []) job_platforms))"

definition casePlatformLabel :: "CasePlatform \<Rightarrow> string" where
  "casePlatformLabel platform =
     (case platform of Android \<Rightarrow> ''Android'' | Ios \<Rightarrow> ''iOS'' | Endpoint \<Rightarrow> ''Endpoint'')"

section \<open>Scoping queries to a case\<close>

definition source_prefix_re :: regex where
  "source_prefix_re = Seqs [Bol, LitI ''source'', Star Space, Chr (CHR ''='')]"

definition scopeQueryToCase :: "string \<Rightarrow> string \<Rightarrow> string" where
  "scopeQueryToCase query ingestSource =
     (let q = trim query in
      if q = [] then q
      else if test source_prefix_re q then q
      else
        (let src = ''source='' @ quoted (escapeMplString ingestSource)
         in if starts_with ''|'' q then src @ '' '' @ q else src @ '' '' @ q))"

definition unscopeQueryFromCase :: "string \<Rightarrow> string \<Rightarrow> string" where
  "unscopeQueryFromCase query ingestSource =
     (let q = trim query in
      if q = [] then q
      else
        (let escaped = escapeMplString ingestSource;
             double = ''source='' @ quoted escaped;
             single = ''source='' @ [CHR 0x27] @ replace_char (CHR 0x27) [CHR 0x5C, CHR 0x27] escaped @ [CHR 0x27];
             cut = (\<lambda>pre. let rest = trim (drop (length pre) q)
                          in if starts_with ''|'' rest then rest
                             else if rest \<noteq> [] then ''| '' @ rest else [])
         in if starts_with double q then cut double
            else if starts_with single q then cut single
            else q))"

definition scopeDashboardToCase :: "DashboardDocument \<Rightarrow> string \<Rightarrow> DashboardDocument" where
  "scopeDashboardToCase doc ingestSource =
     doc\<lparr>d_panels := map (\<lambda>p. (key_layout p)\<lparr>p_query :=
             (if isCaseBuiltinPanel (p_id p) \<or> trim (p_query p) = [] then p_query p
              else scopeQueryToCase (p_query p) ingestSource)\<rparr>) (d_panels doc)\<rparr>"

definition unscopeDashboardFromCase :: "DashboardDocument \<Rightarrow> string \<Rightarrow> DashboardDocument" where
  "unscopeDashboardFromCase doc ingestSource =
     doc\<lparr>d_version := 2,
         d_panels := map (\<lambda>p. (key_layout p)\<lparr>p_query :=
             (if isCaseBuiltinPanel (p_id p) then [] else unscopeQueryFromCase (p_query p) ingestSource)\<rparr>)
           (d_panels doc)\<rparr>"

section \<open>Saved layouts\<close>

text \<open>
  A stored text is one that \<open>JSON.parse\<close> reads as a dashboard value with its platform, or one that
  parsing rejects. No empty text is ever stored.
\<close>

datatype StoredText = JsonText RawDoc "CasePlatform option" | BadText

type_synonym Storage = "string \<Rightarrow> StoredText option"

definition getItem :: "Storage \<Rightarrow> string \<Rightarrow> StoredText option" where
  "getItem s k = s k"

definition setItem :: "Storage \<Rightarrow> string \<Rightarrow> StoredText \<Rightarrow> Storage" where
  "setItem s k v = s(k := Some v)"

definition removeItem :: "Storage \<Rightarrow> string \<Rightarrow> Storage" where
  "removeItem s k = s(k := None)"

record Browser =
  local_storage :: Storage
  default_doc :: DashboardDocument

definition platform_name :: "CasePlatform \<Rightarrow> string" where
  "platform_name platform =
     (case platform of Android \<Rightarrow> ''android'' | Ios \<Rightarrow> ''ios'' | Endpoint \<Rightarrow> ''endpoint'')"

definition section_name :: "CaseDashboardSectionId \<Rightarrow> string" where
  "section_name section =
     (case section of S_overview \<Rightarrow> ''overview'' | S_crashes \<Rightarrow> ''crashes'' | S_packages \<Rightarrow> ''packages''
      | S_processes \<Rightarrow> ''processes'' | S_process_events \<Rightarrow> ''process_events'' | S_battery \<Rightarrow> ''battery''
      | S_external_devices \<Rightarrow> ''external_devices'' | S_network \<Rightarrow> ''network''
      | S_authentication \<Rightarrow> ''authentication'' | S_entities \<Rightarrow> ''entities'')"

definition STORAGE_PREFIX :: string where
  "STORAGE_PREFIX = ''mobipwn-case-dashboard:''"

definition storageKey :: "string \<Rightarrow> CasePlatform \<Rightarrow> CaseDashboardSectionId \<Rightarrow> string" where
  "storageKey caseId platform section =
     (let base = STORAGE_PREFIX @ caseId @ '':'' @ platform_name platform
      in if section = S_overview then base else base @ '':'' @ section_name section)"

definition legacyStorageKey :: "string \<Rightarrow> string" where
  "legacyStorageKey caseId = STORAGE_PREFIX @ caseId"

text \<open>Results: the document with its saved platform, and the default document afterwards.\<close>

fun parseSavedCaseDashboard ::
  "DashboardDocument \<Rightarrow> StoredText \<Rightarrow> (DashboardDocument \<times> CasePlatform option) option \<times> DashboardDocument" where
  "parseSavedCaseDashboard dflt BadText = (None, dflt)"
| "parseSavedCaseDashboard dflt (JsonText raw platform) =
     (let (doc, dflt') = parseDashboardDocument dflt raw in (Some (doc, platform), dflt'))"

definition loadSavedCaseDashboard ::
  "Browser \<Rightarrow> string \<Rightarrow> CasePlatform \<Rightarrow> CaseDashboardSectionId \<Rightarrow> DashboardDocument option \<times> Browser" where
  "loadSavedCaseDashboard br caseId platform section =
     (let (scoped, d1) =
        (case getItem (local_storage br) (storageKey caseId platform section) of
           Some t \<Rightarrow> parseSavedCaseDashboard (default_doc br) t
         | None \<Rightarrow> (None, default_doc br));
          br1 = br\<lparr>default_doc := d1\<rparr>
      in case scoped of
           Some (doc, _) \<Rightarrow> (Some doc, br1)
         | None \<Rightarrow>
             if section \<noteq> S_overview then (None, br1)
             else
               (case getItem (local_storage br1) (legacyStorageKey caseId) of
                  None \<Rightarrow> (None, br1)
                | Some t \<Rightarrow>
                    (let (legacy, d2) = parseSavedCaseDashboard d1 t; br2 = br1\<lparr>default_doc := d2\<rparr>
                     in case legacy of
                          None \<Rightarrow> (None, br2)
                        | Some (doc, p) \<Rightarrow>
                            if p \<noteq> None \<and> p \<noteq> Some platform then (None, br2) else (Some doc, br2))))"

definition hasSavedCaseDashboard ::
  "Browser \<Rightarrow> string \<Rightarrow> CasePlatform \<Rightarrow> CaseDashboardSectionId \<Rightarrow> bool" where
  "hasSavedCaseDashboard br caseId platform section \<longleftrightarrow>
     getItem (local_storage br) (storageKey caseId platform section) \<noteq> None
     \<or> (section = S_overview \<and> fst (loadSavedCaseDashboard br caseId platform section) \<noteq> None)"

definition saveCaseDashboard ::
  "Browser \<Rightarrow> string \<Rightarrow> CasePlatform \<Rightarrow> DashboardDocument \<Rightarrow> string \<Rightarrow> CaseDashboardSectionId \<Rightarrow> Browser" where
  "saveCaseDashboard br caseId platform doc ingestSource section =
     (let payload = JsonText (stored (unscopeDashboardFromCase doc ingestSource)) (Some platform);
          ls = setItem (local_storage br) (storageKey caseId platform section) payload
      in br\<lparr>local_storage :=
              (if section = S_overview then removeItem ls (legacyStorageKey caseId) else ls)\<rparr>)"

definition clearSavedCaseDashboard ::
  "Browser \<Rightarrow> string \<Rightarrow> CasePlatform \<Rightarrow> CaseDashboardSectionId \<Rightarrow> Browser" where
  "clearSavedCaseDashboard br caseId platform section =
     (let ls = removeItem (local_storage br) (storageKey caseId platform section);
          br1 = br\<lparr>local_storage := ls\<rparr>
      in if section \<noteq> S_overview then br1
         else
           (case getItem ls (legacyStorageKey caseId) of
              None \<Rightarrow> br1
            | Some t \<Rightarrow>
                (let (doc, d) = parseSavedCaseDashboard (default_doc br1) t;
                     br2 = br1\<lparr>default_doc := d\<rparr>;
                     ours = (case doc of None \<Rightarrow> True
                             | Some (_, p) \<Rightarrow> p = None \<or> p = Some platform)
                 in if ours then br2\<lparr>local_storage := removeItem ls (legacyStorageKey caseId)\<rparr> else br2)))"

definition has_panel_id :: "string \<Rightarrow> DashboardDocument \<Rightarrow> bool" where
  "has_panel_id i doc \<longleftrightarrow> i \<in> set (map p_id (d_panels doc))"

definition resolveCaseDashboard ::
  "Browser \<Rightarrow> string \<Rightarrow> CasePlatform \<Rightarrow> string \<Rightarrow> CaseDashboardSectionId \<Rightarrow> DashboardDocument \<times> Browser" where
  "resolveCaseDashboard br caseId platform ingestSource section =
     (let (saved, br') = loadSavedCaseDashboard br caseId platform section;
          dflt = defaultCaseDashboard platform section;
          currentVersion = sectionVersion platform section;
          base = (case saved of
                    None \<Rightarrow> dflt
                  | Some s \<Rightarrow> if d_version s < currentVersion then dflt else s);
          overviewAuthIds = [CASE_AUTHENTICATION_PANEL_ID, CASE_POWER_HISTORY_PANEL_ID];
          base = (if section = S_overview \<and> (\<exists>p \<in> set (d_panels base). p_id p \<in> set overviewAuthIds)
                  then base\<lparr>d_version := currentVersion,
                            d_panels := filter (\<lambda>p. p_id p \<notin> set overviewAuthIds) (d_panels base)\<rparr>
                  else base);
          base = (if platform = Ios \<and> section = S_authentication
                     \<and> (has_panel_id CASE_AUTHENTICATION_PANEL_ID base
                        \<or> \<not> has_panel_id CASE_IOS_LOCK_STATE_PANEL_ID base)
                  then dflt else base);
          base = (if platform = Android \<and> section = S_authentication
                     \<and> \<not> has_panel_id CASE_AUTHENTICATION_PANEL_ID base
                  then dflt else base)
      in (scopeDashboardToCase base ingestSource, br'))"

definition buildCaseDashboard :: "CasePlatform \<Rightarrow> string \<Rightarrow> CaseDashboardSectionId \<Rightarrow> DashboardDocument" where
  "buildCaseDashboard platform ingestSource section =
     scopeDashboardToCase (defaultCaseDashboard platform section) ingestSource"

definition createCaseDashboardPanel :: "string \<Rightarrow> DashboardPanel list \<Rightarrow> DashboardPanel" where
  "createCaseDashboardPanel uuid existing =
     createPanel uuid ''New panel'' ''| stats count by parser | head 8'' V_table existing"

end
