(* ===== verification/CaseDashboardFacts.thy ===== *)
theory CaseDashboardFacts
  imports CaseDashboard DashboardFacts MplFacts "HOL-Library.Multiset"
begin

text \<open>
  Properties of the case dashboards: every default is well laid and carries the version of its
  section, stacking keeps all panels in title order, panel queries are tied to the ingest source of
  the case and freed of it again, and what becomes of a saved layout: local storage is a key-value
  store (locale \<open>kv_store\<close>), saving and clearing are seen by the next look-up, but the version
  that a saved layout carries makes most sections fall back to their default.
\<close>

section \<open>Defaults and stacking\<close>

lemma key_layout_simps [simp]:
  "p_id (key_layout p) = p_id p" "p_query (key_layout p) = p_query p"
  "p_layout (key_layout p) = (p_layout p)\<lparr>l_i := p_id p\<rparr>"
  by (simp_all add: key_layout_def)

definition shape :: "DashboardPanel \<Rightarrow> string \<times> LayoutItem" where
  "shape p = (p_id p, p_layout p)"

lemma well_laid_shape:
  assumes "map shape ps = map shape qs"
  shows "well_laid ps = well_laid qs"
proof -
  have l: "length ps = length qs" using assms map_eq_imp_length_eq by blast
  have "no_overlap ps = no_overlap qs" using l assms
  proof (induction ps qs rule: list_induct2)
    case (Cons p ps q qs)
    have e: "map shape ps = map shape qs" using Cons.prems by simp
    have "map snd (map shape ps) = map snd (map shape qs)" by (simp only: e)
    then have "map p_layout ps = map p_layout qs" by (simp add: shape_def comp_def)
    then have "list_all (\<lambda>l. \<not> overlap (p_layout p) l) (map p_layout ps)
        = list_all (\<lambda>l. \<not> overlap (p_layout p) l) (map p_layout qs)" by (simp only:)
    moreover have "p_layout p = p_layout q" using Cons.prems by (simp add: shape_def)
    ultimately show ?case using Cons.IH [OF e] by (simp add: list.pred_map comp_def)
  qed simp
  moreover have "map p_id ps = map p_id qs"
    using arg_cong [OF assms, of "map fst"] by (simp add: shape_def comp_def)
  moreover have "list_all (\<lambda>p. l_i (p_layout p) = p_id p) ps = list_all (\<lambda>p. l_i (p_layout p) = p_id p) qs"
      "list_all (\<lambda>p. in_grid (p_layout p)) ps = list_all (\<lambda>p. in_grid (p_layout p)) qs"
    using l assms by (induction ps qs rule: list_induct2) (auto simp: shape_def)
  ultimately show ?thesis by (simp add: well_laid_def)
qed

lemma scope_panels:
  "d_panels (scopeDashboardToCase doc src) = map (\<lambda>p. (key_layout p)\<lparr>p_query :=
     (if isCaseBuiltinPanel (p_id p) \<or> trim (p_query p) = [] then p_query p
      else scopeQueryToCase (p_query p) src)\<rparr>) (d_panels doc)"
  by (simp add: scopeDashboardToCase_def)

lemma well_laid_scope: "well_laid (d_panels doc) \<Longrightarrow> well_laid (d_panels (scopeDashboardToCase doc src))"
  by (rule iffD1 [OF well_laid_shape [of "d_panels doc"]])
    (auto simp: scope_panels shape_def well_laid_def list_all_iff intro!: map_cong)

lemma stack_from_simps [simp]:
  "map p_id (stack_from y ps) = map p_id ps"
  "map p_title (stack_from y ps) = map p_title ps"
  "map p_query (stack_from y ps) = map p_query ps"
  "map (\<lambda>p. l_h (p_layout p)) (stack_from y ps) = map (\<lambda>p. l_h (p_layout p)) ps"
  "map (\<lambda>p. l_i (p_layout p)) (stack_from y ps) = map (\<lambda>p. l_i (p_layout p)) ps"
  by (induction ps arbitrary: y) simp_all

lemma stack_from_below:
  assumes "list_all (\<lambda>p. 0 < l_h (p_layout p)) ps"
  shows "list_all (\<lambda>q. y \<le> l_y (p_layout q)) (stack_from y ps)"
  using assms
proof (induction ps arbitrary: y)
  case (Cons p ps)
  from Cons.prems Cons.IH [of "y + l_h (p_layout p)"] show ?case
    by (fastforce simp: list_all_iff)
qed simp

lemma stack_from_laid:
  assumes "list_all (\<lambda>p. 0 < l_h (p_layout p)) ps" and "0 \<le> y"
  shows "no_overlap (stack_from y ps) \<and> list_all (\<lambda>p. in_grid (p_layout p)) (stack_from y ps)"
  using assms
proof (induction ps arbitrary: y)
  case (Cons p ps)
  then have h: "0 < l_h (p_layout p)" "list_all (\<lambda>p. 0 < l_h (p_layout p)) ps" by simp_all
  have "no_overlap (stack_from (y + l_h (p_layout p)) ps)
      \<and> list_all (\<lambda>p. in_grid (p_layout p)) (stack_from (y + l_h (p_layout p)) ps)"
    using Cons.IH [OF h(2)] Cons.prems(2) h(1) by simp
  moreover have "list_all (\<lambda>q. \<not> overlap ((p_layout p)\<lparr>l_y := y, l_x := 0, l_w := 12\<rparr>) (p_layout q))
      (stack_from (y + l_h (p_layout p)) ps)"
    using stack_from_below [OF h(2), of "y + l_h (p_layout p)"] by (auto simp: list_all_iff overlap_def)
  ultimately show ?case using h(1) Cons.prems(2) by (simp add: in_grid_def GRID_COLS_def)
qed simp

lemma stack_well_laid:
  assumes "distinct (map p_id ps)" "list_all (\<lambda>p. l_i (p_layout p) = p_id p) ps"
    and "list_all (\<lambda>p. 0 < l_h (p_layout p)) ps"
  shows "well_laid (stack_from 0 ps)"
proof -
  have "map (\<lambda>p. l_i (p_layout p)) (stack_from 0 ps) = map p_id (stack_from 0 ps)"
    using assms(2) by (auto simp: list_all_iff)
  then have "list_all (\<lambda>p. l_i (p_layout p) = p_id p) (stack_from 0 ps)"
    by (simp only: list_all_iff map_eq_conv)
  then show ?thesis using assms stack_from_laid [of ps 0] by (simp add: well_laid_def)
qed

lemma stack_panel_keep:
  "map (\<lambda>p. (p_id p, p_title p, p_query p)) (stack_from y ps) = map (\<lambda>p. (p_id p, p_title p, p_query p)) ps"
  by (induction ps arbitrary: y) simp_all

lemma stack_title_laid:
  assumes "distinct (map p_id ps)" "list_all (\<lambda>p. l_i (p_layout p) = p_id p) ps"
    and "list_all (\<lambda>p. 0 < l_h (p_layout p)) ps"
  shows "well_laid (stackPanelsByTitle ps)"
proof -
  have "distinct (map p_id (sort_key (\<lambda>p. collate (p_title p)) ps))"
    using assms(1) by (metis mset_map mset_sort mset_eq_imp_distinct_iff)
  then show ?thesis unfolding stackPanelsByTitle_def
    using assms by (intro stack_well_laid) (simp_all add: list_all_iff)
qed

lemma stack_titles: "map (\<lambda>p. f (p_title p)) (stack_from y ps) = map (\<lambda>p. f (p_title p)) ps"
  by (induction ps arbitrary: y) simp_all

lemma template_versions:
  "d_version DEFAULT_ANDROID_CASE_DASHBOARD = ANDROID_CASE_DASHBOARD_VERSION"
  "d_version DEFAULT_IOS_CASE_DASHBOARD = IOS_CASE_DASHBOARD_VERSION"
  "d_version DEFAULT_ANDROID_CASE_AUTHENTICATION_DASHBOARD = ANDROID_CASE_AUTHENTICATION_DASHBOARD_VERSION"
  "d_version DEFAULT_IOS_CASE_AUTHENTICATION_DASHBOARD = IOS_CASE_AUTHENTICATION_DASHBOARD_VERSION"
  "d_version DEFAULT_ANDROID_CASE_CRASHES_DASHBOARD = ANDROID_CASE_CRASHES_DASHBOARD_VERSION"
  "d_version DEFAULT_IOS_CASE_CRASHES_DASHBOARD = IOS_CASE_CRASHES_DASHBOARD_VERSION"
  "d_version DEFAULT_ANDROID_CASE_PACKAGES_DASHBOARD = ANDROID_CASE_PACKAGES_DASHBOARD_VERSION"
  "d_version DEFAULT_IOS_CASE_PACKAGES_DASHBOARD = IOS_CASE_PACKAGES_DASHBOARD_VERSION"
  "d_version DEFAULT_ANDROID_CASE_PROCESSES_DASHBOARD = ANDROID_CASE_PROCESSES_DASHBOARD_VERSION"
  "d_version DEFAULT_IOS_CASE_PROCESSES_DASHBOARD = IOS_CASE_PROCESSES_DASHBOARD_VERSION"
  "d_version DEFAULT_IOS_CASE_PROCESS_EVENTS_DASHBOARD = IOS_CASE_PROCESS_EVENTS_DASHBOARD_VERSION"
  "d_version DEFAULT_ANDROID_CASE_BATTERY_DASHBOARD = ANDROID_CASE_BATTERY_DASHBOARD_VERSION"
  "d_version DEFAULT_IOS_CASE_BATTERY_DASHBOARD = IOS_CASE_BATTERY_DASHBOARD_VERSION"
  "d_version DEFAULT_ANDROID_CASE_EXTERNAL_DEVICES_DASHBOARD = ANDROID_CASE_EXTERNAL_DEVICES_DASHBOARD_VERSION"
  "d_version DEFAULT_IOS_CASE_EXTERNAL_DEVICES_DASHBOARD = IOS_CASE_EXTERNAL_DEVICES_DASHBOARD_VERSION"
  "d_version DEFAULT_ANDROID_CASE_NETWORK_DASHBOARD = ANDROID_CASE_NETWORK_DASHBOARD_VERSION"
  "d_version DEFAULT_IOS_CASE_NETWORK_DASHBOARD = IOS_CASE_NETWORK_DASHBOARD_VERSION"
  "d_version DEFAULT_ENDPOINT_CASE_DASHBOARD = 3"
  by (simp_all add: DEFAULT_ANDROID_CASE_DASHBOARD_def DEFAULT_IOS_CASE_DASHBOARD_def
    DEFAULT_ANDROID_CASE_AUTHENTICATION_DASHBOARD_def
    DEFAULT_IOS_CASE_AUTHENTICATION_DASHBOARD_def DEFAULT_ANDROID_CASE_CRASHES_DASHBOARD_def
    DEFAULT_IOS_CASE_CRASHES_DASHBOARD_def DEFAULT_ANDROID_CASE_PACKAGES_DASHBOARD_def
    DEFAULT_IOS_CASE_PACKAGES_DASHBOARD_def DEFAULT_ANDROID_CASE_PROCESSES_DASHBOARD_def
    DEFAULT_IOS_CASE_PROCESSES_DASHBOARD_def DEFAULT_IOS_CASE_PROCESS_EVENTS_DASHBOARD_def
    DEFAULT_ANDROID_CASE_BATTERY_DASHBOARD_def DEFAULT_IOS_CASE_BATTERY_DASHBOARD_def
    DEFAULT_ANDROID_CASE_EXTERNAL_DEVICES_DASHBOARD_def
    DEFAULT_IOS_CASE_EXTERNAL_DEVICES_DASHBOARD_def DEFAULT_ANDROID_CASE_NETWORK_DASHBOARD_def
    DEFAULT_IOS_CASE_NETWORK_DASHBOARD_def DEFAULT_ENDPOINT_CASE_DASHBOARD_def)

lemma well_laid_keyed: "well_laid ps \<Longrightarrow> well_laid (map key_layout ps)"
  by (rule iffD1 [OF well_laid_shape [of ps]])
    (auto simp: shape_def well_laid_def list_all_iff)

lemma default_laid_eval:
  "list_all (\<lambda>s. well_laid (d_panels (defaultCaseDashboard Android s))) CASE_DASHBOARD_TAB_ORDER"
  "list_all (\<lambda>s. well_laid (d_panels (defaultCaseDashboard Ios s)))
     [S_overview, S_crashes, S_packages, S_processes, S_process_events, S_battery, S_authentication,
      S_entities]"
  "well_laid (d_panels DEFAULT_ENDPOINT_CASE_DASHBOARD)"
  by code_simp+

lemma ios_stacked_laid:
  "well_laid (d_panels DEFAULT_IOS_CASE_NETWORK_DASHBOARD)"
  "well_laid (d_panels DEFAULT_IOS_CASE_EXTERNAL_DEVICES_DASHBOARD)"
  unfolding DEFAULT_IOS_CASE_NETWORK_DASHBOARD_def DEFAULT_IOS_CASE_EXTERNAL_DEVICES_DASHBOARD_def
    DashboardDocument.simps
  by (rule stack_title_laid; code_simp)+

lemma default_endpoint: "sect \<noteq> S_entities \<Longrightarrow> d_panels (defaultCaseDashboard Endpoint sect)
    = map key_layout (d_panels DEFAULT_ENDPOINT_CASE_DASHBOARD)"
  by (cases sect) (simp_all add: defaultCaseDashboard_def PLATFORM_TEMPLATES_def get_or_def)

lemma default_ios_stacked:
  "d_panels (defaultCaseDashboard Ios S_network) = map key_layout (d_panels DEFAULT_IOS_CASE_NETWORK_DASHBOARD)"
  "d_panels (defaultCaseDashboard Ios S_external_devices)
     = map key_layout (d_panels DEFAULT_IOS_CASE_EXTERNAL_DEVICES_DASHBOARD)"
  by (simp_all add: defaultCaseDashboard_def get_or_def)

lemma default_well_laid: "well_laid (d_panels (defaultCaseDashboard platform sect))"
proof (cases platform)
  case Android
  have "sect \<in> set CASE_DASHBOARD_TAB_ORDER"
    by (cases sect) (simp_all add: CASE_DASHBOARD_TAB_ORDER_def)
  with Android default_laid_eval(1) show ?thesis by (auto simp: list_all_iff)
next
  case Ios
  have "well_laid (d_panels (defaultCaseDashboard Ios S_network))"
    "well_laid (d_panels (defaultCaseDashboard Ios S_external_devices))"
    by (simp_all add: default_ios_stacked well_laid_keyed ios_stacked_laid)
  with Ios default_laid_eval(2) show ?thesis by (cases sect) auto
next
  case Endpoint
  have "well_laid (d_panels (defaultCaseDashboard Endpoint S_entities))"
    by (simp add: defaultCaseDashboard_def well_laid_def)
  with Endpoint well_laid_keyed [OF default_laid_eval(3)] show ?thesis
    by (cases "sect = S_entities") (simp_all add: default_endpoint)
qed

lemma default_version:
  "list_all (\<lambda>s. d_version (defaultCaseDashboard platform s) = sectionVersion platform s)
     (caseDashboardSections platform)"
  by (cases platform)
    (simp_all add: caseDashboardSections_def CASE_DASHBOARD_TAB_ORDER_def defaultCaseDashboard_def
      sectionVersion_def get_or_def PLATFORM_TEMPLATES_def template_versions)


text \<open>
  Stacking panels by title keeps every panel (id, title and query, as a multiset), puts the
  titles in collation order and lays the panels in one full-width column without overlap, provided
  the panels have distinct ids, keyed layouts and positive heights.
\<close>

theorem stack_by_title:
  assumes "distinct (map p_id ps)" and "list_all (\<lambda>p. l_i (p_layout p) = p_id p) ps"
    and "list_all (\<lambda>p. 0 < l_h (p_layout p)) ps"
  shows "well_laid (stackPanelsByTitle ps)
    \<and> mset (map (\<lambda>p. (p_id p, p_title p, p_query p)) (stackPanelsByTitle ps))
        = mset (map (\<lambda>p. (p_id p, p_title p, p_query p)) ps)
    \<and> sorted (map (\<lambda>p. collate (p_title p)) (stackPanelsByTitle ps))"
  using stack_title_laid [OF assms]
  unfolding stackPanelsByTitle_def by (simp add: stack_panel_keep stack_titles)

lemma stack_by_title_witness:
  "well_laid (stackPanelsByTitle [timelinePanel (box 0 0 6 4), accountsPanel (box 0 0 6 4)])"
proof -
  let ?ps = "[timelinePanel (box 0 0 6 4), accountsPanel (box 0 0 6 4)]"
  have "distinct (map p_id ?ps)" "list_all (\<lambda>p. l_i (p_layout p) = p_id p) ?ps"
    "list_all (\<lambda>p. 0 < l_h (p_layout p)) ?ps" by code_simp+
  then show ?thesis using stack_by_title by blast
qed

section \<open>Scoping\<close>

text \<open>The clause that ties a query to an ingest source, and reading it back.\<close>

definition source_clause :: "string \<Rightarrow> string" where
  "source_clause src = ''source='' @ quoted (escapeMplString src)"

definition scope_of :: "string \<Rightarrow> (string \<times> string) option" where
  "scope_of q = (if take 8 q = ''source='' @ [CHR 0x22] then read_literal (drop 8 q) else None)"

lemma scope_of_clause [simp]: "scope_of (source_clause src @ r) = Some (src, r)"
  using esc.read_esc [of src r] by (simp add: scope_of_def source_clause_def quoted_def)

lemma source_prefix [simp]: "test source_prefix_re (source_clause src @ r)"
  by (simp add: source_clause_def source_prefix_re_def js_eval)

lemma trim_clause [simp]: "trimmed r \<Longrightarrow> r \<noteq> [] \<Longrightarrow> trim (source_clause src @ '' '' @ r) = source_clause src @ '' '' @ r"
  by (rule trim_trimmed)
    (simp add: trimmed_def source_clause_def quoted_def is_space_def code_def)

lemma scope_query:
  "scopeQueryToCase q src =
     (if trim q = [] \<or> test source_prefix_re (trim q) then trim q else source_clause src @ '' '' @ trim q)"
  by (simp add: scopeQueryToCase_def Let_def source_clause_def)

lemma trimmed_trim_ne: "trim q \<noteq> [] \<Longrightarrow> trim (source_clause src @ '' '' @ trim q) = source_clause src @ '' '' @ trim q"
  by (rule trim_clause) (simp_all add: trimmed_trim)

text \<open>
  Scoping a query to a case is idempotent, even towards another source; an empty query stays
  empty and one that names a source is kept; every other query starts with a source clause that
  reads back as exactly the ingest source, with the query behind it.
\<close>

theorem scope_reads_back:
  "scopeQueryToCase (scopeQueryToCase q src) src' = scopeQueryToCase q src
   \<and> (if trim q = [] \<or> test source_prefix_re (trim q) then scopeQueryToCase q src = trim q
      else scope_of (scopeQueryToCase q src) = Some (src, '' '' @ trim q))"
  by (simp add: scope_query trimmed_trim_ne del: append_Cons)

lemma starts_with_clause [simp]: "starts_with (source_clause src) (source_clause src @ r)"
  by (simp add: starts_with_append)

lemma unscope_clause:
  assumes "trim q \<noteq> []"
  shows "unscopeQueryFromCase (source_clause src @ '' '' @ trim q) src
    = (if starts_with ''|'' (trim q) then trim q else ''| '' @ trim q)"
proof -
  have t: "trim (source_clause src @ '' '' @ trim q) = source_clause src @ '' '' @ trim q"
    by (rule trimmed_trim_ne) (rule assms)
  have s: "trim ('' '' @ trim q) = trim q" using trim_skip [of "CHR '' ''" "trim q"] by simp
  show ?thesis unfolding unscopeQueryFromCase_def t source_clause_def [symmetric] Let_def
    using assms s by (simp del: append_Cons)
qed

text \<open>
  Freeing a query from its case undoes the scoping up to a leading pipe: a query that starts
  with a pipe, or is empty, comes back as it was (trimmed); every other one comes back as a pipeline
  stage, behind a pipe it did not have.
\<close>

theorem unscope_scope:
  "unscopeQueryFromCase (scopeQueryToCase q src) src =
     (if trim q = [] then []
      else if test source_prefix_re (trim q) then unscopeQueryFromCase q src
      else if starts_with ''|'' (trim q) then trim q
      else ''| '' @ trim q)"
proof -
  have "unscopeQueryFromCase (trim q) src = unscopeQueryFromCase q src"
    by (simp add: unscopeQueryFromCase_def)
  moreover have "unscopeQueryFromCase [] src = []" by (simp add: unscopeQueryFromCase_def)
  ultimately show ?thesis using unscope_clause [of q src] by (simp add: scope_query del: append_Cons)
qed

definition case_scoped :: "string \<Rightarrow> DashboardPanel \<Rightarrow> bool" where
  "case_scoped src p \<longleftrightarrow> (isCaseBuiltinPanel (p_id p) \<and> p_query p = [])
     \<or> map_option fst (scope_of (p_query p)) = Some src"

definition scopable :: "DashboardPanel \<Rightarrow> bool" where
  "scopable p \<longleftrightarrow> (if isCaseBuiltinPanel (p_id p) then p_query p = []
     else trim (p_query p) \<noteq> [] \<and> \<not> test source_prefix_re (trim (p_query p)))"

lemma scopable_scoped:
  "list_all scopable (d_panels doc) \<Longrightarrow> list_all (case_scoped src) (d_panels (scopeDashboardToCase doc src))"
  by (auto simp: list_all_iff scope_panels scopable_def case_scoped_def scope_query
      simp del: append_Cons split: if_splits)

lemma scopable_android_eval:
  "list_all (\<lambda>s. list_all scopable (d_panels (defaultCaseDashboard Android s)))
     [S_overview, S_crashes, S_packages, S_processes]"
  "list_all (\<lambda>s. list_all scopable (d_panels (defaultCaseDashboard Android s)))
     [S_process_events, S_battery, S_external_devices, S_network, S_authentication, S_entities]"
  by code_simp+

lemma scopable_ios_eval:
  "list_all (\<lambda>s. list_all scopable (d_panels (defaultCaseDashboard Ios s)))
     [S_overview, S_crashes, S_packages]"
  "list_all (\<lambda>s. list_all scopable (d_panels (defaultCaseDashboard Ios s)))
     [S_processes, S_process_events, S_battery, S_authentication, S_entities]"
  by code_simp+

lemma stack_title_set:
  "set (map (\<lambda>p. (p_id p, p_query p)) (stackPanelsByTitle ps)) = set (map (\<lambda>p. (p_id p, p_query p)) ps)"
proof -
  have "map (\<lambda>p. (p_id p, p_query p)) (stack_from y qs) = map (\<lambda>p. (p_id p, p_query p)) qs" for y qs
    by (induction qs arbitrary: y) simp_all
  then show ?thesis unfolding stackPanelsByTitle_def by (simp only: set_map set_sort)
qed

lemma scopable_stack:
  assumes "list_all scopable ps"
  shows "list_all scopable (map key_layout (stackPanelsByTitle ps))"
proof -
  have "list_all scopable (map key_layout qs) \<longleftrightarrow>
      (\<forall>x \<in> set (map (\<lambda>p. (p_id p, p_query p)) qs). scopable \<lparr>p_id = fst x, p_title = [], p_query = snd x, p_viz = V_bar, p_layout = grid_item [] 0 0 0 0 None None\<rparr>)" for qs
    by (auto simp: list_all_iff scopable_def)
  moreover have "list_all scopable (map key_layout ps)" using assms by (simp add: list_all_iff scopable_def)
  ultimately show ?thesis by (simp only: stack_title_set)
qed

lemma scopable_ios_stacked:
  "list_all scopable (d_panels (defaultCaseDashboard Ios S_network))"
  "list_all scopable (d_panels (defaultCaseDashboard Ios S_external_devices))"
  unfolding default_ios_stacked DEFAULT_IOS_CASE_NETWORK_DASHBOARD_def
    DEFAULT_IOS_CASE_EXTERNAL_DEVICES_DASHBOARD_def DashboardDocument.simps
  by (rule scopable_stack; code_simp)+

text \<open>
  On the Android and iOS dashboards every panel is tied to the case: it is a built-in panel
  without query, or its query starts with a source clause that reads back as the ingest source.
\<close>

theorem mobile_panels_scoped:
  "list_all (case_scoped src) (d_panels (buildCaseDashboard Android src sect))
   \<and> list_all (case_scoped src) (d_panels (buildCaseDashboard Ios src sect))"
proof -
  have "list_all scopable (d_panels (defaultCaseDashboard Android sect))"
    using scopable_android_eval by (cases sect) auto
  moreover have "list_all scopable (d_panels (defaultCaseDashboard Ios sect))"
    using scopable_ios_eval scopable_ios_stacked by (cases sect) auto
  ultimately show ?thesis unfolding buildCaseDashboard_def by (simp add: scopable_scoped)
qed

text \<open>The endpoint panels that reuse a built-in id keep a query over all sources.\<close>

lemma endpoint_panels_not_scoped:
  "map (\<lambda>p. (p_id p, p_query p)) (filter (\<lambda>p. isCaseBuiltinPanel (p_id p))
       (d_panels (buildCaseDashboard Endpoint ''host-1'' S_overview)))
   = [(''case_timeline'', ''| timechart span=1d count by parser limit=8''),
      (''case_processes'', ''parser='' @ quoted ''process'' @ '' process_name=* | stats count by process_name | head 10''),
      (''case_network'', ''parser='' @ quoted ''network'' @ '' dest_ip=* | fields timestamp, device_id, dest_ip, src_ip, action, message | sort -timestamp | head 10'')]"
  by code_simp

lemma high_severity_query_gets_a_pipe:
  "unscopeQueryFromCase (scopeQueryToCase (''severity='' @ quoted ''high'' @ '' | head 12'') ''s'') ''s''
   = ''| severity='' @ quoted ''high'' @ '' | head 12''"
  by code_simp
section \<open>Saved layouts\<close>

interpretation kv: kv_store getItem setItem removeItem
  by unfold_locales (simp_all add: getItem_def setItem_def removeItem_def)

lemma split_char_last: "c \<notin> set w \<Longrightarrow> split_char c (v @ c # w) = split_char c v @ [w]"
  by (induction v) (auto simp: split_char_no_sep split: list.splits)

lemma names_plain: "CHR '':'' \<notin> set (platform_name p)" "CHR '':'' \<notin> set (section_name s)"
  by (cases p; simp add: platform_name_def) (cases s; simp add: section_name_def)

lemma split_storage_key:
  "split_char (CHR '':'') (storageKey c p s) = split_char (CHR '':'') (STORAGE_PREFIX @ c)
     @ platform_name p # (if s = S_overview then [] else [section_name s])"
proof -
  have 1: "split_char (CHR '':'') ((STORAGE_PREFIX @ c) @ CHR '':'' # platform_name p)
      = split_char (CHR '':'') (STORAGE_PREFIX @ c) @ [platform_name p]"
    by (rule split_char_last) (rule names_plain)
  have 2: "split_char (CHR '':'') (((STORAGE_PREFIX @ c) @ CHR '':'' # platform_name p) @ CHR '':'' # section_name s)
      = split_char (CHR '':'') (STORAGE_PREFIX @ c) @ [platform_name p, section_name s]"
    using split_char_last [OF names_plain(2) [of s], of "(STORAGE_PREFIX @ c) @ CHR '':'' # platform_name p"]
    by (simp add: 1 del: append_assoc)
  show ?thesis using 1 2 by (simp add: storageKey_def)
qed

lemma names_inject:
  "platform_name p = platform_name p' \<longleftrightarrow> p = p'" "section_name s = section_name s' \<longleftrightarrow> s = s'"
  "platform_name p \<noteq> section_name s" "section_name s \<noteq> platform_name p"
proof -
  have "inj platform_name" by (rule injI) (simp add: platform_name_def split: CasePlatform.splits)
  then show "platform_name p = platform_name p' \<longleftrightarrow> p = p'" by (simp add: inj_eq)
  have "map_of (map (\<lambda>s. (section_name s, s)) CASE_DASHBOARD_TAB_ORDER) (section_name s) = Some s" for s
    by (cases s) (simp_all add: CASE_DASHBOARD_TAB_ORDER_def section_name_def)
  then show "section_name s = section_name s' \<longleftrightarrow> s = s'" by (metis option.inject)
  show *: "platform_name p \<noteq> section_name s"
    by (cases p; cases s) (simp_all add: platform_name_def section_name_def)
  show "section_name s \<noteq> platform_name p" using * by metis
qed

text \<open>
  Every case, platform and section has a storage key of its own, whatever the case id.
\<close>

theorem storage_key_injective:
  "storageKey c p s = storageKey c' p' s' \<longleftrightarrow> c = c' \<and> p = p' \<and> s = s'"
proof
  assume "storageKey c p s = storageKey c' p' s'"
  then have e: "split_char (CHR '':'') (STORAGE_PREFIX @ c) @ platform_name p # (if s = S_overview then [] else [section_name s])
     = split_char (CHR '':'') (STORAGE_PREFIX @ c') @ platform_name p' # (if s' = S_overview then [] else [section_name s'])"
    by (simp only: split_storage_key [symmetric])
  then have sp: "p = p' \<and> s = s'"
    using arg_cong [OF e, of last] arg_cong [OF e, of "\<lambda>l. last (butlast l)"]
    by (auto simp: names_inject butlast_append split: if_splits)
  with e have "split_char (CHR '':'') (STORAGE_PREFIX @ c) = split_char (CHR '':'') (STORAGE_PREFIX @ c')"
    by simp
  then have "STORAGE_PREFIX @ c = STORAGE_PREFIX @ c'" by (metis join_split_char)
  with sp show "c = c' \<and> p = p' \<and> s = s'" by simp
qed simp

lemma legacy_key_differs [simp]: "storageKey c p s \<noteq> legacyStorageKey c" "legacyStorageKey c \<noteq> storageKey c p s"
proof -
  have "length (legacyStorageKey c) < length (storageKey c p s)"
    by (simp add: storageKey_def legacyStorageKey_def Let_def)
  then show "storageKey c p s \<noteq> legacyStorageKey c" "legacyStorageKey c \<noteq> storageKey c p s" by auto
qed

lemma get_after_save:
  "getItem (local_storage (saveCaseDashboard br c p doc src s)) (storageKey c p s)
    = Some (JsonText (stored (unscopeDashboardFromCase doc src)) (Some p))"
  by (simp add: saveCaseDashboard_def Let_def kv.del_put_other)

lemma default_after_save [simp]: "default_doc (saveCaseDashboard br c p doc src s) = default_doc br"
  by (simp add: saveCaseDashboard_def Let_def)

lemma load_after_save:
  "loadSavedCaseDashboard (saveCaseDashboard br c p doc src s) c p s =
     (Some (mergeMissingDefaultPanels (default_doc br) (saveDashboardDocument (unscopeDashboardFromCase doc src))),
      saveCaseDashboard br c p doc src s)"
proof -
  have "parseDashboardDocument d (stored x) = (mergeMissingDefaultPanels d (saveDashboardDocument x), d)" for d x
    using parse_stored [of d x] by (simp add: parseDashboardDocument_def stored_def)
  then show ?thesis
    by (simp add: loadSavedCaseDashboard_def get_after_save Let_def)
qed

lemma clear_storage:
  "local_storage (clearSavedCaseDashboard br c p s) = removeItem (local_storage br) (storageKey c p s)
   \<or> local_storage (clearSavedCaseDashboard br c p s)
       = removeItem (removeItem (local_storage br) (storageKey c p s)) (legacyStorageKey c)"
  by (simp add: clearSavedCaseDashboard_def Let_def split: prod.split option.split)

lemma clear_no_item: "getItem (local_storage (clearSavedCaseDashboard br c p s)) (storageKey c p s) = None"
  using clear_storage [of br c p s] by (auto simp: kv.get_del)

lemma parse_saved_platform:
  "map_option snd (fst (parseSavedCaseDashboard d t)) = (case t of JsonText raw p \<Rightarrow> Some p | BadText \<Rightarrow> None)"
  by (cases t) (simp_all split: prod.split)

lemma load_legacy:
  assumes "getItem (local_storage br) (storageKey c p s) = None"
  shows "fst (loadSavedCaseDashboard br c p s) \<noteq> None \<longleftrightarrow> s = S_overview \<and>
    (case getItem (local_storage br) (legacyStorageKey c) of
       Some (JsonText raw q) \<Rightarrow> q = None \<or> q = Some p | _ \<Rightarrow> False)"
  using assms
  by (simp add: loadSavedCaseDashboard_def Let_def split: prod.split option.split StoredText.split)

lemma clear_legacy:
  assumes "getItem (local_storage (clearSavedCaseDashboard br c p S_overview)) (legacyStorageKey c) = Some t"
  shows "\<exists>raw q. t = JsonText raw (Some q) \<and> q \<noteq> p"
proof (cases "getItem (removeItem (local_storage br) (storageKey c p S_overview)) (legacyStorageKey c)")
  case None
  with assms show ?thesis by (simp add: clearSavedCaseDashboard_def Let_def)
next
  case (Some u)
  with assms show ?thesis
    by (cases u) (auto simp: clearSavedCaseDashboard_def Let_def kv.get_del split: prod.splits if_splits)
qed

text \<open>
  Saving a layout is seen as a customisation until it is cleared: after a save the section has a
  saved dashboard, after a clear it has none, legacy layout included, and neither touches an item of
  another case, platform or section.
\<close>

theorem save_and_clear:
  "hasSavedCaseDashboard (saveCaseDashboard br c p doc src s) c p s
   \<and> \<not> hasSavedCaseDashboard (clearSavedCaseDashboard br c p s) c p s
   \<and> (k = storageKey c p s \<or> k = legacyStorageKey c
      \<or> getItem (local_storage (saveCaseDashboard br c p doc src s)) k = getItem (local_storage br) k
        \<and> getItem (local_storage (clearSavedCaseDashboard br c p s)) k = getItem (local_storage br) k)"
proof (intro conjI)
  show "hasSavedCaseDashboard (saveCaseDashboard br c p doc src s) c p s"
    by (simp add: hasSavedCaseDashboard_def get_after_save)
  show "\<not> hasSavedCaseDashboard (clearSavedCaseDashboard br c p s) c p s"
    using clear_legacy [of br c p] load_legacy [OF clear_no_item, of br c p s]
    by (fastforce simp: hasSavedCaseDashboard_def clear_no_item split: option.splits StoredText.splits)
  show "k = storageKey c p s \<or> k = legacyStorageKey c
      \<or> getItem (local_storage (saveCaseDashboard br c p doc src s)) k = getItem (local_storage br) k
        \<and> getItem (local_storage (clearSavedCaseDashboard br c p s)) k = getItem (local_storage br) k"
    using clear_storage [of br c p s]
    by (auto simp: saveCaseDashboard_def Let_def kv.get_del kv.get_put)
qed

lemma saved_version: "d_version (mergeMissingDefaultPanels dflt (saveDashboardDocument doc)) = 2"
  by (simp add: mergeMissingDefaultPanels_def saveDashboardDocument_def Let_def)

lemma overview_default_auth:
  "list_all (\<lambda>p. p_id p \<notin> {CASE_AUTHENTICATION_PANEL_ID, CASE_POWER_HISTORY_PANEL_ID})
     (d_panels (defaultCaseDashboard platform S_overview))"
  by (cases platform; simp only:; code_simp)

lemma authentication_defaults:
  "has_panel_id CASE_AUTHENTICATION_PANEL_ID (defaultCaseDashboard Android S_authentication)"
  "\<not> has_panel_id CASE_AUTHENTICATION_PANEL_ID (defaultCaseDashboard Ios S_authentication)"
  "has_panel_id CASE_IOS_LOCK_STATE_PANEL_ID (defaultCaseDashboard Ios S_authentication)"
  by code_simp+

text \<open>
  In every section whose version is above 2, saving a layout has no effect on what is shown: the
  saved document carries version 2, so the next look-up takes it for outdated and returns the default
  of the section. An edit is lost as soon as the client resolves the dashboard after the save.
\<close>

theorem saved_layout_discarded:
  assumes "2 < sectionVersion platform sect"
  shows "fst (resolveCaseDashboard (saveCaseDashboard br c platform doc src sect) c platform src sect)
    = buildCaseDashboard platform src sect"
proof -
  have "\<not> (\<exists>p \<in> set (d_panels (defaultCaseDashboard platform S_overview)).
      p_id p \<in> set [CASE_AUTHENTICATION_PANEL_ID, CASE_POWER_HISTORY_PANEL_ID])"
    using overview_default_auth [of platform] by (auto simp: list_all_iff)
  then show ?thesis
    using assms authentication_defaults
    unfolding resolveCaseDashboard_def load_after_save Let_def buildCaseDashboard_def
    by (auto simp: saved_version)
qed

lemma saved_layout_discarded_witness:
  "fst (resolveCaseDashboard (saveCaseDashboard \<lparr>local_storage = \<lambda>k. None, default_doc = DEFAULT_MOBILE_DASHBOARD\<rparr>
       ''c1'' Android sample_document ''s1'' S_overview) ''c1'' Android ''s1'' S_overview)
   = buildCaseDashboard Android ''s1'' S_overview"
  by (rule saved_layout_discarded) code_simp

lemma missing_ids:
  "map p_id (filter (\<lambda>p. \<not> has_panel (p_id p) ps) qs) = filter (\<lambda>i. i \<notin> set (map p_id ps)) (map p_id qs)"
  by (induction qs) (auto simp: has_panel_def)

text \<open>
  In the sections whose version is at most 2, a saved layout does come back, with all its panels
  in their order, but not alone: every panel of the platform-wide default dashboard that the case
  layout lacks is appended to it.
\<close>

theorem saved_layout_gains_panels:
  assumes "sectionVersion platform sect \<le> 2" and "sect \<noteq> S_overview" and "sect \<noteq> S_authentication"
  shows "map p_id (d_panels (fst (resolveCaseDashboard (saveCaseDashboard br c platform doc src sect) c platform src sect)))
    = map p_id (d_panels doc) @ filter (\<lambda>i. i \<notin> set (map p_id (d_panels doc))) (map p_id (d_panels (default_doc br)))"
proof -
  let ?u = "saveDashboardDocument (unscopeDashboardFromCase doc src)"
  have u: "map p_id (d_panels ?u) = map p_id (d_panels doc)"
    by (simp add: save_panels unscopeDashboardFromCase_def comp_def)
  have "map p_id (d_panels (scopeDashboardToCase x src)) = map p_id (d_panels x)" for x
    by (simp add: scope_panels comp_def)
  moreover have "map p_id (d_panels (mergeMissingDefaultPanels (default_doc br) ?u))
      = map p_id (d_panels doc) @ filter (\<lambda>i. i \<notin> set (map p_id (d_panels doc))) (map p_id (d_panels (default_doc br)))"
    unfolding merge_panels map_append u missing_ids by simp
  ultimately show ?thesis using assms
    unfolding resolveCaseDashboard_def load_after_save Let_def by (simp add: saved_version)
qed

lemma saved_layout_gains_panels_witness:
  "map p_id (d_panels (fst (resolveCaseDashboard
       (saveCaseDashboard \<lparr>local_storage = \<lambda>k. None, default_doc = DEFAULT_MOBILE_DASHBOARD\<rparr>
          ''c1'' Android sample_document ''s1'' S_battery) ''c1'' Android ''s1'' S_battery)))
   = [''mine'', ''events_total'', ''alerts_link'', ''parser_bar'', ''timeline'', ''sources'', ''high_sev'', ''platform_case_tops'']"
proof -
  have v: "sectionVersion Android S_battery \<le> 2" by code_simp
  have ids: "map p_id (d_panels sample_document) = [''mine'']"
    "map p_id (d_panels DEFAULT_MOBILE_DASHBOARD) = [''events_total'', ''alerts_link'', ''parser_bar'',
       ''timeline'', ''sources'', ''high_sev'', ''platform_case_tops'']" by code_simp+
  show ?thesis by (subst saved_layout_gains_panels [OF v]) (simp_all add: ids)
qed
end
