(* ===== verification/IngestProgress.thy ===== *)
theory IngestProgress
  imports Prelude
begin

text \<open>
  Progress of an ingest job as the client shows it: \<open>src/mobipwn-web/src/lib/ingestProgress.ts\<close>
  (byte counts, step lists), and the two functions that turn a job of the server into a progress
  value, \<open>ingestJobToProgress\<close> of \<open>ingestJobClient.ts\<close> and \<open>jobProgressUpdate\<close> of
  \<open>ingestUpload.ts\<close>.
\<close>

section \<open>Progress values\<close>

datatype IngestProgressPhase = P_hash | P_upload | P_processing | P_read | P_post | P_analysis | P_refresh

record IngestParserProgress =
  pp_name :: string
  pp_ok :: bool
  pp_events :: nat
  pp_duration_ms :: nat
  pp_error :: "string option"
  pp_status :: "string option"

record LogarchiveDecodeProgress =
  la_phase :: string
  la_detail :: "string option"
  la_max_lines :: "nat option"
  la_events_decoded :: "nat option"
  la_files_materialized :: "nat option"
  la_tracev3_files :: "nat option"
  la_current_file :: "string option"
  la_elapsed_ms :: "nat option"
  la_uncapped :: "bool option"

record IngestProgress =
  percent :: int
  phase :: IngestProgressPhase
  detail :: "string option"
  stage :: "string option"
  parsers :: "IngestParserProgress list option"
  parsersCompleted :: "nat option"
  parsersTotal :: "nat option"
  parsersActive :: "string list option"
  logarchive :: "LogarchiveDecodeProgress option"

text \<open>A progress value with the first three properties only.\<close>

definition progress :: "int \<Rightarrow> IngestProgressPhase \<Rightarrow> string option \<Rightarrow> IngestProgress" where
  "progress pct ph det = \<lparr>percent = pct, phase = ph, detail = det, stage = None, parsers = None,
     parsersCompleted = None, parsersTotal = None, parsersActive = None, logarchive = None\<rparr>"

definition formatBytes :: "nat \<Rightarrow> string" where
  "formatBytes n =
     (if n < 1024 then nat_str n @ '' B''
      else if n < 1024 * 1024 then to_fixed 1 n 1024 @ '' KB''
      else if n < 1024 * 1024 * 1024 then to_fixed 1 n (1024 * 1024) @ '' MB''
      else to_fixed 2 n (1024 * 1024 * 1024) @ '' GB'')"

definition countJsonlLines :: "string \<Rightarrow> nat" where
  "countJsonlLines text = length (filter (\<lambda>line. 0 < length (trim line)) (split_char (CHR 0x0A) text))"

section \<open>Step lists\<close>

datatype StepStatus = Pending | Active | Done

record IngestProgressStep =
  st_id :: string
  st_label :: string
  st_status :: StepStatus

text \<open>\<open>order.indexOf(x)\<close>, -1 when absent, and the status of step \<open>i\<close> when \<open>idx\<close> is the active one.\<close>

fun indexOf :: "'a list \<Rightarrow> 'a \<Rightarrow> int" where
  "indexOf [] x = - 1"
| "indexOf (y # ys) x = (if y = x then 0 else let i = indexOf ys x in if i < 0 then i else i + 1)"

definition step_status :: "int \<Rightarrow> int \<Rightarrow> StepStatus" where
  "step_status idx i = (if idx < 0 then Pending else if i < idx then Done else if i = idx then Active else Pending)"

definition phase_name :: "IngestProgressPhase \<Rightarrow> string" where
  "phase_name p = (case p of P_hash \<Rightarrow> ''hash'' | P_upload \<Rightarrow> ''upload'' | P_processing \<Rightarrow> ''processing''
     | P_read \<Rightarrow> ''read'' | P_post \<Rightarrow> ''post'' | P_analysis \<Rightarrow> ''analysis'' | P_refresh \<Rightarrow> ''refresh'')"

record MobileLabels =
  ml_hash :: string
  ml_upload :: string
  ml_processing :: string

definition mobileIngestSteps :: "MobileLabels \<Rightarrow> IngestProgressPhase option \<Rightarrow> IngestProgressStep list" where
  "mobileIngestSteps labels ph =
     (let order = [P_hash, P_upload, P_processing];
          stepLabels = [ml_hash labels, ml_upload labels, ml_processing labels];
          idx = (case ph of Some p \<Rightarrow> indexOf order p | None \<Rightarrow> - 1)
      in map (\<lambda>(i, label). \<lparr>st_id = phase_name (order ! i), st_label = label,
                             st_status = step_status idx (int i)\<rparr>) (indexed stepLabels))"

record EndpointLabels =
  el_read :: string
  el_post :: string
  el_indexed :: string

definition endpointIngestSteps :: "EndpointLabels \<Rightarrow> IngestProgressPhase option \<Rightarrow> IngestProgressStep list" where
  "endpointIngestSteps labels ph =
     (let phases = [P_read, P_post, P_processing];
          stepLabels = [el_read labels, el_post labels, el_indexed labels];
          idx = (case ph of Some p \<Rightarrow> indexOf phases p | None \<Rightarrow> - 1)
      in map (\<lambda>(i, label). \<lparr>st_id = phase_name (phases ! i), st_label = label,
                             st_status = step_status idx (int i)\<rparr>) (indexed stepLabels))"

record ReingestLabels =
  rl_clear :: string
  rl_parse :: string
  rl_index :: string
  rl_done :: string

definition reingestSteps :: "ReingestLabels \<Rightarrow> string option \<Rightarrow> IngestProgressStep list" where
  "reingestSteps labels stg =
     (let order = [''clear'', ''parse'', ''index'', ''done''];
          stepLabels = [rl_clear labels, rl_parse labels, rl_index labels, rl_done labels];
          activeIdx = (if stg = Some ''waiting'' \<or> stg = Some ''starting'' then 0
             else if stg = Some ''opening'' then 0
             else if stg = Some ''parsing'' \<or> stg = Some ''logarchive'' \<or> stg = Some ''parsed'' then 1
             else if stg = Some ''inserting'' then 2
             else if stg = Some ''done'' then 3
             else 0)
      in map (\<lambda>(i, label). \<lparr>st_id = order ! i, st_label = label,
           st_status = (if stg = Some ''done'' then Done else if i < activeIdx then Done
                        else if i = activeIdx then Active else Pending)\<rparr>) (indexed stepLabels))"

section \<open>Jobs of the server\<close>

record JobProgress =
  jp_parsers :: "IngestParserProgress list option"
  jp_parsers_total :: "nat option"
  jp_parsers_completed :: "nat option"
  jp_parsers_active :: "string list option"
  jp_logarchive :: "LogarchiveDecodeProgress option"

text \<open>The job as \<open>ingestUpload.ts\<close> types it, and as \<open>ingestJobClient.ts\<close> does: there, the byte counts may be missing.\<close>

record IngestJobResponse =
  jr_id :: string
  jr_status :: string
  jr_events_count :: nat
  jr_progress_percent :: int
  jr_bytes_received :: nat
  jr_file_size :: nat
  jr_stage :: "string option"
  jr_stage_detail :: "string option"
  jr_progress :: "JobProgress option"
  jr_error :: "string option"

record IngestJobDto =
  jd_id :: string
  jd_source :: string
  jd_status :: string
  jd_events_count :: nat
  jd_progress_percent :: int
  jd_stage :: "string option"
  jd_stage_detail :: "string option"
  jd_error :: "string option"
  jd_progress :: "JobProgress option"
  jd_bytes_received :: "nat option"
  jd_file_size :: "nat option"

definition uploaded :: "nat \<Rightarrow> nat \<Rightarrow> string" where
  "uploaded received sz = formatBytes received @ '' / '' @ formatBytes sz @ '' uploaded''"

definition WAITING :: string where
  "WAITING = ''Waiting for an ingest worker'' @ ellipsis"

text \<open>\<open>job.progress?.f\<close>, and \<open>parsers?.length ? parsers : undefined\<close>.\<close>

definition chain :: "JobProgress option \<Rightarrow> (JobProgress \<Rightarrow> 'a option) \<Rightarrow> 'a option" where
  "chain p f = Option.bind p f"

definition some_parsers :: "'a list option \<Rightarrow> 'a list option" where
  "some_parsers ps = (case ps of Some (x # xs) \<Rightarrow> Some (x # xs) | _ \<Rightarrow> None)"

definition jobProgressUpdate :: "IngestJobResponse \<Rightarrow> IngestProgress" where
  "jobProgressUpdate job =
     (if jr_status job = ''uploading'' then
        progress (5 + (jr_progress_percent job * 85) div 100) P_upload
          (Some (uploaded (jr_bytes_received job) (jr_file_size job)))
      else
        \<lparr>percent = max (if jr_status job = ''pending'' then 88 else 90) (jr_progress_percent job),
         phase = P_processing,
         detail = or_else (truthy (jr_stage_detail job))
                    (if jr_status job = ''pending'' then Some WAITING else None),
         stage = or_else (truthy (jr_stage job))
                    (if jr_status job = ''pending'' then Some ''queued''
                     else if jr_status job = ''running'' then Some ''opening'' else None),
         parsers = some_parsers (chain (jr_progress job) jp_parsers),
         parsersCompleted = chain (jr_progress job) jp_parsers_completed,
         parsersTotal = chain (jr_progress job) jp_parsers_total,
         parsersActive = chain (jr_progress job) jp_parsers_active,
         logarchive = chain (jr_progress job) jp_logarchive\<rparr>)"

definition ingestJobToProgress :: "IngestJobDto \<Rightarrow> IngestProgress" where
  "ingestJobToProgress job =
     (if jd_status job = ''uploading'' then
        (let received = get_or 0 (jd_bytes_received job); sz = get_or 0 (jd_file_size job)
         in progress (5 + (jd_progress_percent job * 85) div 100) P_upload
              (if 0 < sz then Some (uploaded received sz) else truthy (jd_stage_detail job)))
      else
        \<lparr>percent = max (if jd_status job = ''pending'' then 88 else 10) (jd_progress_percent job),
         phase = P_processing,
         detail = or_else (truthy (jd_stage_detail job))
                    (if jd_status job = ''pending'' then Some WAITING else None),
         stage = or_else (truthy (jd_stage job))
                    (if jd_status job = ''pending'' then Some ''queued''
                     else if jd_status job = ''running'' then Some ''opening'' else None),
         parsers = some_parsers (chain (jd_progress job) jp_parsers),
         parsersCompleted = chain (jd_progress job) jp_parsers_completed,
         parsersTotal = chain (jd_progress job) jp_parsers_total,
         parsersActive = chain (jd_progress job) jp_parsers_active,
         logarchive = chain (jd_progress job) jp_logarchive\<rparr>)"

text \<open>The choice that \<open>findActiveIngestJob\<close> makes among the jobs of a source.\<close>

definition findActiveIngestJob :: "IngestJobDto list \<Rightarrow> IngestJobDto option" where
  "findActiveIngestJob jobs =
     find (\<lambda>j. jd_status j = ''running'' \<or> jd_status j = ''pending'' \<or> jd_status j = ''uploading'') jobs"

section \<open>Step lists have one active step\<close>

text \<open>
  What the progress bar relies on: the finished steps come first, then at most one active step, then
  the steps to come.
\<close>

definition in_sequence :: "StepStatus list \<Rightarrow> bool" where
  "in_sequence ss \<longleftrightarrow> (let rest = dropWhile (\<lambda>s. s = Done) ss in
     rest = [] \<or> list_all (\<lambda>s. s = Pending) (tl rest) \<and> hd rest \<noteq> Done)"

locale stepper =
  fixes steps :: "'p \<Rightarrow> IngestProgressStep list" and n :: nat
  assumes sequence: "in_sequence (map st_status (steps p))"
    and fixed_length: "length (steps p) = n"
begin

lemma one_active: "length (filter (\<lambda>s. st_status s = Active) (steps p)) \<le> 1"
proof -
  have "length (filter (\<lambda>s. s = Active) ss) \<le> 1" if "in_sequence ss" for ss
    using that
  proof (induction ss)
    case (Cons s ss)
    show ?case
    proof (cases s)
      case Done
      with Cons show ?thesis by (simp add: in_sequence_def)
    next
      case Active
      with Cons.prems have "list_all (\<lambda>s. s = Pending) ss" by (simp add: in_sequence_def)
      then have "filter (\<lambda>s. s = StepStatus.Active) ss = []" by (induction ss) auto
      with Active show ?thesis by simp
    next
      case Pending
      with Cons.prems have "list_all (\<lambda>s. s = Pending) ss" by (simp add: in_sequence_def)
      then have "filter (\<lambda>s. s = StepStatus.Active) ss = []" by (induction ss) auto
      with Pending show ?thesis by simp
    qed
  qed simp
  from this [OF sequence [of p]] show ?thesis by (simp add: filter_map comp_def)
qed

end

lemma three_steps: "in_sequence [step_status idx 0, step_status idx 1, step_status idx 2]"
  by (auto simp: in_sequence_def step_status_def)

interpretation mobile: stepper "mobileIngestSteps labels" 3 for labels
  using three_steps by unfold_locales (simp_all add: mobileIngestSteps_def indexed_def Let_def upt_rec)

interpretation endpoint: stepper "endpointIngestSteps labels" 3 for labels
  using three_steps by unfold_locales (simp_all add: endpointIngestSteps_def indexed_def Let_def upt_rec)

interpretation reingest: stepper "reingestSteps labels" 4 for labels
  by unfold_locales (simp_all add: reingestSteps_def indexed_def Let_def upt_rec in_sequence_def)

text \<open>
  Whatever phase or stage the server reports, known or not, each of the three progress bars keeps
  its number of steps and shows the finished steps first and at most one active step.
\<close>

theorem steps_in_sequence:
  "in_sequence (map st_status (mobileIngestSteps ml ph))
   \<and> in_sequence (map st_status (endpointIngestSteps el ph))
   \<and> in_sequence (map st_status (reingestSteps rl stg))
   \<and> length (mobileIngestSteps ml ph) = 3 \<and> length (endpointIngestSteps el ph) = 3
   \<and> length (reingestSteps rl stg) = 4
   \<and> length (filter (\<lambda>s. st_status s = Active) (reingestSteps rl stg)) \<le> 1"
  using mobile.sequence mobile.fixed_length endpoint.sequence endpoint.fixed_length
    reingest.sequence reingest.fixed_length reingest.one_active by blast

section \<open>Percentages\<close>

definition dto_of :: "string \<Rightarrow> IngestJobResponse \<Rightarrow> IngestJobDto" where
  "dto_of src job = \<lparr>jd_id = jr_id job, jd_source = src, jd_status = jr_status job,
     jd_events_count = jr_events_count job, jd_progress_percent = jr_progress_percent job,
     jd_stage = jr_stage job, jd_stage_detail = jr_stage_detail job, jd_error = jr_error job,
     jd_progress = jr_progress job, jd_bytes_received = Some (jr_bytes_received job),
     jd_file_size = Some (jr_file_size job)\<rparr>"

text \<open>
  The two translations of a server job agree except in one number: a job that is neither
  uploading nor pending shows at least 90 percent in the upload flow and at least 10 in the
  re-ingest flow. (For an empty file they also differ in the text of the upload phase.)
\<close>

theorem job_translations_agree:
  "ingestJobToProgress (dto_of src job) =
     (if jr_status job = ''uploading'' \<and> jr_file_size job = 0
      then (jobProgressUpdate job)\<lparr>detail := truthy (jr_stage_detail job)\<rparr>
      else if jr_status job = ''uploading'' \<or> jr_status job = ''pending'' then jobProgressUpdate job
      else (jobProgressUpdate job)\<lparr>percent := max 10 (jr_progress_percent job)\<rparr>)"
  by (simp add: ingestJobToProgress_def jobProgressUpdate_def dto_of_def get_or_def progress_def Let_def)

text \<open>
  For a server percentage between 0 and 100 the shown percentage stays between 5 and 100; the
  upload phase ends at 90, although a job that is then queued shows 88 again.
\<close>

theorem progress_percent_bounds:
  assumes "0 \<le> jd_progress_percent job" and "jd_progress_percent job \<le> 100"
  shows "5 \<le> percent (ingestJobToProgress job) \<and> percent (ingestJobToProgress job) \<le> 100
    \<and> percent (ingestJobToProgress (job\<lparr>jd_status := ''uploading''\<rparr>)) \<le> 90
    \<and> percent (ingestJobToProgress (job\<lparr>jd_status := ''uploading'', jd_progress_percent := 100\<rparr>)) = 90
    \<and> percent (ingestJobToProgress (job\<lparr>jd_status := ''pending'', jd_progress_percent := 0\<rparr>)) = 88"
  using assms by (auto simp: ingestJobToProgress_def progress_def Let_def max_def)

definition sample_job :: IngestJobDto where
  "sample_job = \<lparr>jd_id = ''j'', jd_source = ''s'', jd_status = ''running'', jd_events_count = 0,
     jd_progress_percent = 42, jd_stage = None, jd_stage_detail = None, jd_error = None,
     jd_progress = None, jd_bytes_received = None, jd_file_size = None\<rparr>"

lemma progress_percent_bounds_witness:
  "5 \<le> percent (ingestJobToProgress sample_job) \<and> percent (ingestJobToProgress sample_job) \<le> 100"
  using progress_percent_bounds [of sample_job] by (simp add: sample_job_def)

section \<open>Byte counts\<close>

text \<open>The decimal that \<open>toFixed\<close> prints is the nearest one.\<close>

lemma to_fixed_near:
  assumes "0 < q"
  shows "\<exists>m. to_fixed d n q = nat_str (m div 10 ^ d) @ ''.'' @ pad_zeros d (nat_str (m mod 10 ^ d))
     \<and> \<bar>2 * (int m * int q - 10 ^ d * int n)\<bar> \<le> int q"
proof -
  let ?m = "(2 * 10 ^ d * n + q) div (2 * q)"
  have "2 * q * ?m \<le> 2 * 10 ^ d * n + q" by simp
  moreover have "2 * 10 ^ d * n + q < 2 * q * ?m + 2 * q"
    using assms by (metis dividend_less_times_div mult_pos_pos zero_less_numeral add.commute)
  ultimately have "int (2 * q * ?m) \<le> int (2 * 10 ^ d * n + q)" "int (2 * 10 ^ d * n + q) < int (2 * q * ?m + 2 * q)"
    by (simp_all only: of_nat_le_iff of_nat_less_iff)
  then have "\<bar>2 * (int ?m * int q - 10 ^ d * int n)\<bar> \<le> int q" by (simp add: algebra_simps)
  then show ?thesis unfolding to_fixed_def Let_def by blast
qed

text \<open>
  A byte count below 1024 is printed exactly; a larger one in the largest unit that it reaches,
  rounded to the nearest tenth of a KB or MB or the nearest hundredth of a GB.
\<close>

theorem format_bytes_near:
  "n < 1024 \<and> formatBytes n = nat_str n @ '' B''
   \<or> (\<exists>m q d u. (q, d, u) \<in> {(2 ^ 10, 1, '' KB''), (2 ^ 20, 1, '' MB''), (2 ^ 30, 2, '' GB'')}
       \<and> formatBytes n = nat_str (m div 10 ^ d) @ ''.'' @ pad_zeros d (nat_str (m mod 10 ^ d)) @ u
       \<and> q \<le> n \<and> (u = '' GB'' \<or> n < 1024 * q)
       \<and> \<bar>2 * (int m * int q - 10 ^ d * int n)\<bar> \<le> int q)"
proof -
  have near: "\<exists>m. to_fixed d n q @ u = nat_str (m div 10 ^ d) @ ''.'' @ pad_zeros d (nat_str (m mod 10 ^ d)) @ u
      \<and> \<bar>2 * (int m * int q - 10 ^ d * int n)\<bar> \<le> int q" if "0 < q" for d q u
    using to_fixed_near [OF that, of d n] by auto
  consider "n < 1024" | "1024 \<le> n" "n < 1024 * 1024" | "1024 * 1024 \<le> n" "n < 1024 * 1024 * 1024"
    | "1024 * 1024 * 1024 \<le> n" by linarith
  then show ?thesis
  proof cases
    case 1
    then show ?thesis by (simp add: formatBytes_def)
  next
    case 2
    with near [of "2 ^ 10" 1 "'' KB''"] show ?thesis by (fastforce simp: formatBytes_def)
  next
    case 3
    with near [of "2 ^ 20" 1 "'' MB''"] show ?thesis by (fastforce simp: formatBytes_def)
  next
    case 4
    with near [of "2 ^ 30" 2 "'' GB''"] show ?thesis by (fastforce simp: formatBytes_def)
  qed
qed

end
