(* ===== verification/ActivityLog.thy ===== *)
theory ActivityLog
  imports Regex
begin

text \<open>
  The activity log of \<open>src/mobipwn-web/src/lib/activity-log.ts\<close>: a list of the latest entries with
  its listeners, the wrapper around \<open>fetch\<close> that fills it, and the entries that the ingest flow
  writes (\<open>ingestActivity.ts\<close>). The log is a state that the operations take and return; the clock,
  the random ids, the URL parser, \<open>JSON.parse\<close> and the locale's number format are arguments.
\<close>

section \<open>The log\<close>

datatype LogLevel = L_debug | L_info | L_warn | L_error

datatype LogSource = From_api | From_app | From_server

record ActivityEntry =
  e_id :: string
  e_ts :: nat
  e_level :: LogLevel
  e_source :: LogSource
  e_message :: string
  e_detail :: "string option"
  e_method :: "string option"
  e_url :: "string option"
  e_status :: "nat option"
  e_durationMs :: "nat option"

text \<open>The module's variables: the entries, the set of listeners in insertion order, the microtasks
  queued by \<open>emit\<close>; \<open>calls\<close> lists the listener calls made so far.\<close>

record ActivityLog =
  entries :: "ActivityEntry list"
  listeners :: "nat list"
  queued :: nat
  calls :: "nat list"

definition initial_log :: ActivityLog where
  "initial_log = \<lparr>entries = [], listeners = [], queued = 0, calls = []\<rparr>"

definition MAX_ENTRIES :: nat where
  "MAX_ENTRIES = 300"

definition emit :: "ActivityLog \<Rightarrow> ActivityLog" where
  "emit lg = lg\<lparr>queued := queued lg + 1\<rparr>"

text \<open>One queued microtask: every listener registered by then is called.\<close>

definition run_microtask :: "ActivityLog \<Rightarrow> ActivityLog" where
  "run_microtask lg = (if queued lg = 0 then lg
     else lg\<lparr>queued := queued lg - 1, calls := calls lg @ listeners lg\<rparr>)"

definition subscribeActivityLog :: "nat \<Rightarrow> ActivityLog \<Rightarrow> ActivityLog" where
  "subscribeActivityLog fn lg = (if fn \<in> set (listeners lg) then lg else lg\<lparr>listeners := listeners lg @ [fn]\<rparr>)"

definition unsubscribe :: "nat \<Rightarrow> ActivityLog \<Rightarrow> ActivityLog" where
  "unsubscribe fn lg = lg\<lparr>listeners := removeAll fn (listeners lg)\<rparr>"

definition clearActivityLog :: "ActivityLog \<Rightarrow> ActivityLog" where
  "clearActivityLog lg = emit (lg\<lparr>entries := []\<rparr>)"

text \<open>The id and the time that an entry gets.\<close>

record Stamp =
  s_uuid :: string
  s_now :: nat

record Extra =
  x_detail :: "string option"
  x_method :: "string option"
  x_url :: "string option"
  x_status :: "nat option"
  x_durationMs :: "nat option"

definition just_detail :: "string option \<Rightarrow> Extra" where
  "just_detail d = \<lparr>x_detail = d, x_method = None, x_url = None, x_status = None, x_durationMs = None\<rparr>"

definition new_entry :: "Stamp \<Rightarrow> LogLevel \<Rightarrow> LogSource \<Rightarrow> string \<Rightarrow> Extra \<Rightarrow> ActivityEntry" where
  "new_entry st level src msg x =
     \<lparr>e_id = s_uuid st, e_ts = s_now st, e_level = level, e_source = src, e_message = msg,
      e_detail = x_detail x, e_method = x_method x, e_url = x_url x, e_status = x_status x,
      e_durationMs = x_durationMs x\<rparr>"

definition pushActivity ::
  "Stamp \<Rightarrow> LogLevel \<Rightarrow> LogSource \<Rightarrow> string \<Rightarrow> Extra \<Rightarrow> ActivityLog \<Rightarrow> ActivityLog" where
  "pushActivity st level src msg x lg =
     emit (lg\<lparr>entries := take MAX_ENTRIES (new_entry st level src msg x # entries lg)\<rparr>)"

definition countErrors :: "ActivityLog \<Rightarrow> nat" where
  "countErrors lg = length (filter (\<lambda>e. e_level e = L_error) (entries lg))"

section \<open>JSON values\<close>

datatype Json = JNull | JBool bool | JNum int | JStr string | JArr "Json list" | JObj "(string \<times> Json) list"

text \<open>\<open>String(v)\<close>; in an array, null prints as the empty text.\<close>

fun js_text :: "Json \<Rightarrow> string" and js_elem :: "Json \<Rightarrow> string" where
  "js_text JNull = ''null''"
| "js_text (JBool b) = (if b then ''true'' else ''false'')"
| "js_text (JNum n) = int_str n"
| "js_text (JStr s) = s"
| "js_text (JArr xs) = join '','' (map js_elem xs)"
| "js_text (JObj kvs) = ''[object Object]''"
| "js_elem v = (if v = JNull then [] else js_text v)"

fun js_truthy :: "Json \<Rightarrow> bool" where
  "js_truthy JNull \<longleftrightarrow> False"
| "js_truthy (JBool b) \<longleftrightarrow> b"
| "js_truthy (JNum n) \<longleftrightarrow> n \<noteq> 0"
| "js_truthy (JStr s) \<longleftrightarrow> s \<noteq> []"
| "js_truthy v \<longleftrightarrow> True"

text \<open>\<open>data[key]\<close> of a value that is not null; \<open>None\<close> is undefined. \<open>present\<close> drops null as well.\<close>

fun field :: "Json \<Rightarrow> string \<Rightarrow> Json option" where
  "field (JObj kvs) k = map_of kvs k"
| "field v k = None"

definition present :: "Json option \<Rightarrow> Json option" where
  "present v = (case v of Some JNull \<Rightarrow> None | _ \<Rightarrow> v)"

section \<open>Which requests are logged, and how\<close>

text \<open>A path pattern: literals with \<open>[^/]+\<close> between them, behind \<open>^\<close>, and \<open>$\<close> when it is closed.\<close>

fun pieces_re :: "string list \<Rightarrow> regex list" where
  "pieces_re [] = []"
| "pieces_re [p] = [Lit p]"
| "pieces_re (p # q # ps) = Lit p # Plus (None_of ''/'') # pieces_re (q # ps)"

definition api_re :: "string list \<Rightarrow> bool \<Rightarrow> regex" where
  "api_re ps closed = Seq Bol (Seqs (pieces_re ps @ (if closed then [Eol] else [])))"

definition MUTATING_METHODS :: "string list" where
  "MUTATING_METHODS = [''POST'', ''PUT'', ''PATCH'', ''DELETE'']"

definition isStreamingApiPath :: "string \<Rightarrow> bool" where
  "isStreamingApiPath path = test (api_re [''/v1/marketplace/sync/stream''] True) path"

text \<open>A response: status, status text, content type (empty when absent) and the text of its body
  (empty when it cannot be read).\<close>

record Response =
  rs_status :: nat
  rs_statusText :: string
  rs_contentType :: string
  rs_body :: string

definition res_ok :: "Response \<Rightarrow> bool" where
  "res_ok res \<longleftrightarrow> 200 \<le> rs_status res \<and> rs_status res \<le> 299"

definition isStreamingResponse :: "string \<Rightarrow> Response \<Rightarrow> bool" where
  "isStreamingResponse path res \<longleftrightarrow> isStreamingApiPath path
     \<or> contains ''application/x-ndjson'' (rs_contentType res)
     \<or> contains ''text/event-stream'' (rs_contentType res)"

definition is_uuid_char :: "char \<Rightarrow> bool" where
  "is_uuid_char c \<longleftrightarrow> is_digit c \<or> c \<in> set ''abcdef-''"

definition uuid_path_re :: "string \<Rightarrow> regex" where
  "uuid_path_re pre = Seqs [Bol, LitI pre, Times 36 (Cls (\<lambda>c. is_uuid_char (lower_char c))), Eol]"

definition isIngestNoiseLog :: "string \<Rightarrow> string \<Rightarrow> bool" where
  "isIngestNoiseLog method path \<longleftrightarrow>
     method = ''PUT'' \<and> test (uuid_path_re ''/v1/ingest/upload/'') path
     \<or> method = ''GET'' \<and> test (uuid_path_re ''/v1/ingest/jobs/'') path"

definition complete_re :: regex where
  "complete_re = Seqs [Bol, Lit ''/v1/ingest/upload/'', Times 36 (Cls is_uuid_char), Lit ''/complete'', Eol]"

definition isIngestRichAppLog :: "string \<Rightarrow> bool" where
  "isIngestRichAppLog path \<longleftrightarrow>
     test (api_re [''/v1/ingest/upload/init''] True) path
     \<or> test complete_re path
     \<or> test (Seqs [Bol, Lit ''/v1/ingest/'', Alts [Lit ''bugreport'', Lit ''sysdiagnose'', Lit ''jsonl'']]) path"

definition isSettingsActivityPath :: "string \<Rightarrow> bool" where
  "isSettingsActivityPath path \<longleftrightarrow>
     test (api_re [''/v1/settings/''] False) path
     \<or> test (api_re [''/v1/suppressions''] False) path
     \<or> test (api_re [''/v1/notifications/''] False) path
     \<or> test (api_re [''/v1/mcp/''] False) path
     \<or> test (Seqs [Bol, Lit ''/v1/auth/'', Alts [Lit ''users'', Lit ''api-keys'', Lit ''totp'',
           Lit ''webauthn'', Lit ''me'', Lit ''login'', Lit ''logout'', Lit ''mfa'']]) path"

text \<open>
  The message of an ingest request. Inside the \<open>try\<close> block each branch returns; reading a field of
  null throws, and like a body that is not JSON leads to the code behind the block (\<open>None\<close>).
\<close>

definition ingest_branch :: "string \<Rightarrow> string \<Rightarrow> Json \<Rightarrow> string option option" where
  "ingest_branch method path data =
     (if data = JNull then None
      else
       (let short = (\<lambda>k. take 8 (js_text (get_or (JStr ''?'') (present (field data k))))) in
        if path = ''/v1/ingest/upload/init'' \<and> method = ''POST'' then
          (if field data ''deduplicated'' = Some (JBool True)
           then Some (Some (''Ingest init (dedup) '' @ em_dash @ '' ''
                  @ js_text (get_or (JNum 0) (present (field data ''ingested''))) @ '' events, job ''
                  @ short ''job_id'' @ ellipsis))
           else Some (Some (''Ingest init '' @ em_dash @ '' job '' @ short ''job_id'' @ ellipsis @ '' (''
                  @ js_text (get_or (JStr ''uploading'') (present (field data ''status''))) @ '')'')))
        else if test complete_re path \<and> method = ''POST'' then
          Some (Some (''Ingest upload complete '' @ em_dash @ '' job '' @ short ''job_id'' @ ellipsis @ '' queued''))
        else if test (api_re [''/v1/ingest/jobs/''] False) path then
          (let st = js_text (get_or (JStr ''?'') (present (field data ''status'')));
               ev = or_else (present (field data ''events_count''))
                      (Option.bind (present (field data ''job'')) (\<lambda>j. present (field j ''events_count'')))
           in Some (Some (''Ingest job '' @ st @
                (case ev of Some n \<Rightarrow> '' '' @ em_dash @ '' '' @ js_text n @ '' events'' | None \<Rightarrow> []))))
        else if test (Seqs [Bol, Lit ''/v1/ingest/'', Alts [Lit ''bugreport'', Lit ''sysdiagnose'']]) path then
          Some (map_option (\<lambda>n. ''Ingest legacy '' @ em_dash @ '' '' @ js_text n @ '' events'')
                 (present (field data ''ingested'')))
        else None))"

definition ingestDetailMessage ::
  "(string \<Rightarrow> Json option) \<Rightarrow> string \<Rightarrow> string \<Rightarrow> nat \<Rightarrow> string \<Rightarrow> string option" where
  "ingestDetailMessage parse method path status bodyText =
     (if trim bodyText = [] then None
      else case Option.bind (parse bodyText) (ingest_branch method path) of
        Some r \<Rightarrow> r
      | None \<Rightarrow> if 400 \<le> status \<and> test (Lit ''/v1/ingest/'') path
                then Some (''Ingest error: '' @ method @ '' '' @ path) else None)"

definition pick :: "Json \<Rightarrow> string \<Rightarrow> string \<Rightarrow> string list" where
  "pick data key label =
     (case present (field data key) of
        Some v \<Rightarrow> if v = JStr [] then [] else [label @ '': '' @ js_text v]
      | None \<Rightarrow> [])"

definition is_object :: "Json \<Rightarrow> bool" where
  "is_object v \<longleftrightarrow> (case v of JArr _ \<Rightarrow> True | JObj _ \<Rightarrow> True | _ \<Rightarrow> False)"

definition job_lines :: "Json \<Rightarrow> string list" where
  "job_lines job =
     (let line = (\<lambda>k label t. case field job k of Some v \<Rightarrow> if t v then [label @ '': '' @ js_text v] else []
                              | None \<Rightarrow> []);
          given = (\<lambda>v. v \<noteq> JNull)
      in line ''source'' ''source'' js_truthy @ line ''platform'' ''platform'' js_truthy
         @ line ''events_count'' ''events'' given @ line ''status'' ''status'' js_truthy
         @ (case (present (field job ''bytes_received''), present (field job ''file_size'')) of
              (Some b, Some f) \<Rightarrow> [''upload: '' @ js_text b @ '' / '' @ js_text f @ '' bytes'']
            | _ \<Rightarrow> []))"

definition detail_lines :: "Json \<Rightarrow> string list" where
  "detail_lines data =
     pick data ''source'' ''source'' @ pick data ''platform'' ''platform'' @ pick data ''job_id'' ''job''
     @ pick data ''status'' ''status'' @ pick data ''ingested'' ''events''
     @ pick data ''events_count'' ''events'' @ pick data ''deduplicated'' ''dedup''
     @ pick data ''progress_percent'' ''progress %'' @ pick data ''bytes_received'' ''bytes received''
     @ pick data ''file_size'' ''file size'' @ pick data ''error'' ''error''
     @ (case field data ''job'' of Some job \<Rightarrow> if is_object job then job_lines job else [] | None \<Rightarrow> [])"

definition formatIngestApiDetail :: "(string \<Rightarrow> Json option) \<Rightarrow> string \<Rightarrow> string \<Rightarrow> string option" where
  "formatIngestApiDetail parse path bodyText =
     (if \<not> test (Lit ''/v1/ingest/'') path then None
      else case parse bodyText of
        Some data \<Rightarrow>
          (let ls = (if data = JNull then [] else detail_lines data)
           in if ls \<noteq> [] then Some (join newline ls) else Some (take 800 bodyText))
      | None \<Rightarrow> Some (take 800 bodyText))"

text \<open>\<open>new URL(url, origin)\<close> gives the path with the query, or throws.\<close>

definition stripApi :: "(string \<Rightarrow> string option) \<Rightarrow> string \<Rightarrow> string" where
  "stripApi resolve url = get_or url (resolve url)"

definition api_path :: "(string \<Rightarrow> string option) \<Rightarrow> string \<Rightarrow> string" where
  "api_path resolve url = replace_first (Seq Bol (Lit ''/api'')) [] (stripApi resolve url)"

definition ACTION_LABELS :: "string \<Rightarrow> (regex \<times> string) list" where
  "ACTION_LABELS method = [
      (api_re [''/v1/search/run''] False, ''Run search''),
      (api_re [''/v1/search/field-stats''] False, ''Field statistics''),
      (api_re [''/v1/search/histogram''] False, ''Search histogram''),
      (api_re [''/v1/ingest/bugreport''] False, ''Ingest bugreport''),
      (api_re [''/v1/ingest/sysdiagnose''] False, ''Ingest sysdiagnose''),
      (api_re [''/v1/ingest/upload/init''] False, ''Start chunked ingest upload''),
      (api_re [''/v1/ingest/upload/'', ''/complete''] False, ''Complete ingest upload''),
      (api_re [''/v1/ingest/upload/''] False, ''Ingest upload chunk''),
      (api_re [''/v1/ingest/jobs/''] False, ''Poll ingest job''),
      (api_re [''/v1/data/sources/delete''] False, ''Delete ingest source''),
      (api_re [''/v1/data/sources/archive''] False, ''Archive ingest source''),
      (api_re [''/v1/rules/'', ''/run''] False, ''Run detection rule''),
      (api_re [''/v1/rules/'', ''/validate''] False, ''Validate detection rule''),
      (api_re [''/v1/rules/import-sigma''] False, ''Import Sigma rule''),
      (api_re [''/v1/rules/'', ''/enabled''] False, ''Toggle rule enabled''),
      (api_re [''/v1/rules/'', ''/mute''] False, ''Mute detection rule''),
      (api_re [''/v1/rules''] False, ''Save detection rule''),
      (api_re [''/v1/alerts/'', ''/status''] False, ''Update alert status''),
      (api_re [''/v1/alerts''] False, ''Delete alert(s)''),
      (api_re [''/v1/cases/'', ''''] True, ''Update case''),
      (api_re [''/v1/cases''] False, ''Create case''),
      (api_re [''/v1/auth/api-keys/'', ''/reveal''] True, ''Reveal API key''),
      (api_re [''/v1/auth/api-keys/'', ''/suspend''] True, ''Suspend API key''),
      (api_re [''/v1/auth/api-keys/'', ''/unsuspend''] True, ''Unsuspend API key''),
      (api_re [''/v1/auth/api-keys/suspend-user/''] False, ''Suspend user API keys''),
      (api_re [''/v1/auth/api-keys/mine''] True, ''Load my API keys''),
      (api_re [''/v1/auth/api-keys/usage-by-user''] True, ''Load API key usage''),
      (api_re [''/v1/auth/api-keys/'', ''''] True, if method = ''DELETE'' then ''Revoke API key'' else ''API key action''),
      (api_re [''/v1/auth/api-keys''] True, if method = ''GET'' then ''Load API keys'' else ''Create API key''),
      (api_re [''/v1/auth/users/directory''] True, ''Load user directory''),
      (api_re [''/v1/auth/users/'', ''''] True, if method = ''DELETE'' then ''Delete user'' else ''Update user''),
      (api_re [''/v1/auth/users''] True, if method = ''GET'' then ''Load users'' else ''Create user''),
      (api_re [''/v1/auth/totp/setup''] True, ''Start MFA setup''),
      (api_re [''/v1/auth/totp/enable''] True, ''Enable MFA''),
      (api_re [''/v1/auth/totp/disable''] True, ''Disable MFA''),
      (api_re [''/v1/auth/webauthn/register/start''] True, ''Start security key registration''),
      (api_re [''/v1/auth/webauthn/register/finish''] True, ''Register security key''),
      (api_re [''/v1/auth/webauthn/credentials/'', ''''] True, ''Remove security key''),
      (api_re [''/v1/auth/webauthn/credentials''] True, ''Load security keys''),
      (api_re [''/v1/auth/mfa/webauthn/start''] True, ''Start MFA security key''),
      (api_re [''/v1/auth/mfa/webauthn/finish''] True, ''Verify MFA security key''),
      (api_re [''/v1/auth/mfa''] True, ''Verify MFA authenticator code''),
      (api_re [''/v1/auth/login''] True, ''Sign in''),
      (api_re [''/v1/auth/logout''] True, ''Sign out''),
      (api_re [''/v1/auth/me''] True, ''Load account profile''),
      (api_re [''/v1/settings/webauthn_config''] True, if method = ''GET'' then ''Load security key site settings'' else ''Save security key site settings''),
      (api_re [''/v1/settings/ingest_pool_config''] True, if method = ''GET'' then ''Load ingest worker settings'' else ''Save ingest worker settings''),
      (api_re [''/v1/mcp/status''] True, ''Load MCP status''),
      (api_re [''/v1/mcp/start''] True, ''Start MCP server''),
      (api_re [''/v1/mcp/stop''] True, ''Stop MCP server''),
      (api_re [''/v1/mcp/restart''] True, ''Restart MCP server''),
      (api_re [''/v1/suppressions/'', ''''] True, ''Delete maintenance window''),
      (api_re [''/v1/suppressions''] True, if method = ''GET'' then ''Load maintenance windows'' else ''Create maintenance window''),
      (api_re [''/v1/settings/llm_config''] True, if method = ''GET'' then ''Load LLM settings'' else ''Save LLM settings''),
      (api_re [''/v1/settings/mcp_config''] True, if method = ''GET'' then ''Load MCP settings'' else ''Save MCP settings''),
      (api_re [''/v1/settings/retention_by_source_type''] True, if method = ''GET'' then ''Load retention settings'' else ''Save retention settings''),
      (api_re [''/v1/settings/search_limits''] True, if method = ''GET'' then ''Load search limits'' else ''Save search limits''),
      (api_re [''/v1/settings/sysdiagnose_ingest''] True, if method = ''GET'' then ''Load iOS sysdiagnose ingest settings'' else ''Save iOS sysdiagnose ingest settings''),
      (api_re [''/v1/settings/''] False, if method = ''GET'' then ''Load settings'' else ''Save settings''),
      (api_re [''/v1/dashboards/default''] False, ''Save dashboard layout''),
      (api_re [''/v1/marketplace/sync''] False, ''Sync marketplace enrichments''),
      (api_re [''/v1/marketplace/providers/''] False, ''Toggle enrichment provider''),
      (api_re [''/v1/llm/chat''] False, ''LLM chat''),
      (api_re [''/v1/saved-queries''] False, ''Save search query'')]"

definition describeApiAction :: "(string \<Rightarrow> string option) \<Rightarrow> string \<Rightarrow> string \<Rightarrow> string" where
  "describeApiAction resolve method url =
     (let path = api_path resolve url
      in case find (\<lambda>(re, label). test re path) (ACTION_LABELS method) of
           Some (re, label) \<Rightarrow> label
         | None \<Rightarrow> method @ '' '' @ path)"

section \<open>The fetch wrapper\<close>

text \<open>What a call of \<open>fetch\<close> gave: a response, or the text of the error it threw.\<close>

datatype Outcome = Answered Response | Threw string

text \<open>The environment: the URL parser and \<open>JSON.parse\<close>.\<close>

record Env =
  resolve_url :: "string \<Rightarrow> string option"
  parse_json :: "string \<Rightarrow> Json option"

definition is_api :: "string \<Rightarrow> bool" where
  "is_api url \<longleftrightarrow> contains ''/api/'' url \<or> starts_with ''/api'' url"

text \<open>The level and the detail of the entry for a response.\<close>

definition response_level :: "string \<Rightarrow> bool \<Rightarrow> Response \<Rightarrow> LogLevel" where
  "response_level method streaming res =
     (if \<not> res_ok res then L_error
      else if \<not> streaming \<and> trim (rs_body res) = [] \<and> method \<in> set [''POST'', ''PUT'', ''PATCH''] then L_warn
      else L_info)"

definition response_detail :: "Env \<Rightarrow> string \<Rightarrow> string \<Rightarrow> bool \<Rightarrow> Response \<Rightarrow> string option" where
  "response_detail env method path streaming res =
     (let bodyText = (if streaming then [] else rs_body res); trimmed = trim bodyText in
      if streaming \<and> res_ok res then
        Some (''Streaming response '' @ em_dash @ '' live progress shown in Marketplace sync panel'')
      else if \<not> res_ok res then
        Some (if trimmed \<noteq> [] then take 2000 bodyText
              else (if rs_statusText res \<noteq> [] then rs_statusText res else ''HTTP error'')
                   @ '' (empty body, status '' @ nat_str (rs_status res) @ '')'')
      else if trimmed = [] \<and> method \<in> set [''POST'', ''PUT'', ''PATCH''] then
        Some (''HTTP '' @ nat_str (rs_status res) @ '': empty response body'')
      else if trimmed \<noteq> [] then truthy (formatIngestApiDetail (parse_json env) path bodyText)
      else None)"

definition response_message :: "Env \<Rightarrow> string \<Rightarrow> string \<Rightarrow> string \<Rightarrow> bool \<Rightarrow> Response \<Rightarrow> string" where
  "response_message env method url path streaming res =
     (let bodyText = (if streaming then [] else rs_body res);
          base = method @ '' '' @ stripApi (resolve_url env) url @ '' '' @ arrow @ '' '' @ nat_str (rs_status res)
      in if streaming \<and> res_ok res then base @ '' (streaming)''
         else get_or base (ingestDetailMessage (parse_json env) method path (rs_status res) bodyText))"

definition log_response ::
  "Env \<Rightarrow> Stamp \<times> nat \<Rightarrow> Stamp \<times> nat \<Rightarrow> string \<Rightarrow> string \<Rightarrow> Response \<Rightarrow> ActivityLog \<Rightarrow> ActivityLog" where
  "log_response env t1 t2 method url res lg =
     (let path = api_path (resolve_url env) url;
          ingestNoise = isIngestNoiseLog method path;
          streaming = isStreamingResponse path res;
          bodyText = (if streaming then [] else rs_body res);
          trimmed = trim bodyText;
          lg1 = (if ingestNoise then lg
                 else pushActivity (fst t1) (response_level method streaming res) From_api
                   (response_message env method url path streaming res)
                   \<lparr>x_detail = response_detail env method path streaming res, x_method = Some method,
                    x_url = Some url, x_status = Some (rs_status res), x_durationMs = Some (snd t1)\<rparr> lg)
      in if res_ok res \<and> method \<in> set MUTATING_METHODS \<and> \<not> ingestNoise \<and> \<not> streaming
            \<and> \<not> isIngestRichAppLog path
         then pushActivity (fst t2) L_info From_app (describeApiAction (resolve_url env) method url)
                \<lparr>x_detail = (if trimmed \<noteq> [] then Some (take 500 bodyText) else None), x_method = Some method,
                 x_url = Some url, x_status = Some (rs_status res), x_durationMs = Some (snd t2)\<rparr> lg1
         else if res_ok res \<and> method = ''GET'' \<and> isSettingsActivityPath path \<and> \<not> ingestNoise
         then pushActivity (fst t2) L_info From_app (describeApiAction (resolve_url env) method url)
                \<lparr>x_detail = None, x_method = Some method, x_url = Some url,
                 x_status = Some (rs_status res), x_durationMs = Some (snd t2)\<rparr> lg1
         else lg1)"

text \<open>The wrapped \<open>fetch\<close>: the log afterwards; the outcome itself is passed on unchanged.\<close>

definition logged_fetch ::
  "Env \<Rightarrow> Stamp \<times> nat \<Rightarrow> Stamp \<times> nat \<Rightarrow> string \<Rightarrow> string \<Rightarrow> Outcome \<Rightarrow> ActivityLog \<Rightarrow> ActivityLog" where
  "logged_fetch env t1 t2 method url outcome lg =
     (if \<not> is_api url then lg
      else case outcome of
        Answered res \<Rightarrow> log_response env t1 t2 method url res lg
      | Threw err \<Rightarrow>
          pushActivity (fst t1) L_error From_api (method @ '' '' @ stripApi (resolve_url env) url @ '' failed'')
            \<lparr>x_detail = Some err, x_method = Some method, x_url = Some url, x_status = None,
             x_durationMs = Some (snd t1)\<rparr> lg)"

end
