(* ===== verification/IngestActivity.thy ===== *)
theory IngestActivity
  imports ActivityLog
begin

text \<open>
  The entries of the ingest flow, \<open>src/mobipwn-web/src/lib/ingestActivity.ts\<close>. Every function takes
  the stamp of its entry and the log; \<open>loc\<close> is the locale's number format (\<open>toLocaleString\<close>).
\<close>

definition mb :: "nat \<Rightarrow> string" where
  "mb bytes = to_fixed 1 bytes (1024 * 1024) @ '' MB''"

definition hashShort :: "string \<Rightarrow> string" where
  "hashShort hex = (if 12 \<le> length hex then take 12 hex @ ellipsis else hex)"

text \<open>
  The double nearest to \<open>n / d\<close>, as a fraction with a power of two below: scale until the quotient
  has 53 bits, then round to the nearest integer, ties to the even one.
\<close>

function scale :: "nat \<Rightarrow> nat \<Rightarrow> nat \<Rightarrow> nat" where
  "scale n d k = (if n = 0 \<or> 2 ^ 52 * d \<le> n * 2 ^ k then k else scale n d (k + 1))"
  by pat_completeness auto
termination
  by (relation "measure (\<lambda>(n, d, k). 2 ^ 52 * d - n * 2 ^ k)") (auto simp: diff_less_mono2)

declare scale.simps [simp del]

definition double_quot :: "nat \<Rightarrow> nat \<Rightarrow> nat \<times> nat" where
  "double_quot n d =
     (let k = scale n d 0; a = n * 2 ^ k; q = a div d; r = a mod d
      in (if 2 * r < d \<or> (2 * r = d \<and> even q) then q else q + 1, 2 ^ k))"

text \<open>\<open>(ms / 1000).toFixed(1)\<close>.\<close>

definition seconds :: "nat \<Rightarrow> string" where
  "seconds ms = (let (a, b) = double_quot ms 1000 in to_fixed 1 a b)"

text \<open>\<open>[...].filter(Boolean).join\<close> over texts of which some may be null.\<close>

definition detail_of :: "string option list \<Rightarrow> string option" where
  "detail_of ls = Some (join newline (nonempty (map (get_or []) ls)))"

definition app_entry :: "Stamp \<Rightarrow> LogLevel \<Rightarrow> string \<Rightarrow> string option \<Rightarrow> ActivityLog \<Rightarrow> ActivityLog" where
  "app_entry st level msg det lg = pushActivity st level From_app msg (just_detail det) lg"

definition logIngestStarted ::
  "string \<Rightarrow> string \<Rightarrow> string \<Rightarrow> nat \<Rightarrow> string option \<Rightarrow> Stamp \<Rightarrow> ActivityLog \<Rightarrow> ActivityLog" where
  "logIngestStarted source platform fileName fileSize user st lg =
     (let owner = map_option trim user in
      app_entry st L_info (''Ingest started: '' @ source @ '' ('' @ platform @ '')'')
        (detail_of [Some (''source: '' @ source), Some (''platform: '' @ platform),
           Some (''file: '' @ fileName), Some (''size: '' @ mb fileSize),
           map_option (\<lambda>o'. ''owner: '' @ o') (truthy owner)]) lg)"

definition logIngestHash :: "string \<Rightarrow> Stamp \<Rightarrow> ActivityLog \<Rightarrow> ActivityLog" where
  "logIngestHash fileHash st lg =
     app_entry st L_info ''Ingest: file hash computed'' (Some (''sha256: '' @ fileHash)) lg"

definition logIngestInit ::
  "string \<Rightarrow> string \<Rightarrow> string \<Rightarrow> bool \<Rightarrow> nat option \<Rightarrow> Stamp \<Rightarrow> ActivityLog \<Rightarrow> ActivityLog" where
  "logIngestInit jobId source platform deduplicated ingested st lg =
     (if deduplicated then
        app_entry st L_info (''Ingest deduplicated: '' @ source @ '' ('' @ nat_str (get_or 0 ingested) @ '' events)'')
          (Some (''job: '' @ jobId @ newline @ ''platform: '' @ platform @ newline
             @ ''same file hash already ingested'')) lg
      else
        app_entry st L_info (''Ingest upload job created: '' @ source)
          (Some (''job: '' @ jobId @ newline @ ''platform: '' @ platform)) lg)"

definition logIngestUploadProgress ::
  "string \<Rightarrow> int \<Rightarrow> nat \<Rightarrow> nat \<Rightarrow> Stamp \<Rightarrow> ActivityLog \<Rightarrow> ActivityLog" where
  "logIngestUploadProgress jobId pct bytesReceived fileSize st lg =
     app_entry st L_info (''Ingest upload '' @ int_str pct @ ''%: '' @ mb bytesReceived @ '' / '' @ mb fileSize)
       (Some (''job: '' @ jobId)) lg"

definition logIngestParsing :: "string \<Rightarrow> string \<Rightarrow> Stamp \<Rightarrow> ActivityLog \<Rightarrow> ActivityLog" where
  "logIngestParsing jobId source st lg =
     app_entry st L_info (''Ingest parsing: '' @ source)
       (Some (''job: '' @ jobId @ newline @ ''background parse + ClickHouse insert'')) lg"

record Completed =
  c_source :: string
  c_platform :: string
  c_jobId :: string
  c_events :: nat
  c_deduplicated :: bool
  c_fileName :: "string option"
  c_fileSize :: "nat option"
  c_fileHash :: "string option"
  c_durationMs :: "nat option"

definition logIngestComplete :: "(nat \<Rightarrow> string) \<Rightarrow> Completed \<Rightarrow> Stamp \<Rightarrow> ActivityLog \<Rightarrow> ActivityLog" where
  "logIngestComplete loc c st lg =
     (let headline = (if c_deduplicated c then ''Ingest skipped (duplicate): '' @ c_source c
                      else ''Ingest complete: '' @ loc (c_events c) @ '' events '' @ arrow @ '' '' @ c_source c)
      in app_entry st L_info headline
           (detail_of [Some (''source: '' @ c_source c), Some (''platform: '' @ c_platform c),
              Some (''events: '' @ nat_str (c_events c)), Some (''job: '' @ c_jobId c),
              map_option (\<lambda>f. ''file: '' @ f) (truthy (c_fileName c)),
              map_option (\<lambda>n. ''size: '' @ mb n) (c_fileSize c),
              map_option (\<lambda>h. ''hash: '' @ hashShort h) (truthy (c_fileHash c)),
              map_option (\<lambda>ms. ''duration: '' @ seconds ms @ ''s'') (c_durationMs c)]) lg)"

definition logIngestFailed ::
  "string \<Rightarrow> string option \<Rightarrow> string \<Rightarrow> string option \<Rightarrow> Stamp \<Rightarrow> ActivityLog \<Rightarrow> ActivityLog" where
  "logIngestFailed source platform message jobId st lg =
     app_entry st L_error (''Ingest failed: '' @ source)
       (detail_of [map_option (\<lambda>p. ''platform: '' @ p) (truthy platform),
          map_option (\<lambda>j. ''job: '' @ j) (truthy jobId), Some message]) lg"

lemma entry_simps:
  "entries (pushActivity st lv src msg x lg) = take MAX_ENTRIES (new_entry st lv src msg x # entries lg)"
  "listeners (pushActivity st lv src msg x lg) = listeners lg"
  "queued (pushActivity st lv src msg x lg) = queued lg + 1"
  "calls (pushActivity st lv src msg x lg) = calls lg"
  by (simp_all add: pushActivity_def emit_def)

section \<open>The log holds the latest entries\<close>

text \<open>What a session does to the log: pushes, clears, microtasks, and listeners that come and go.\<close>

datatype LogOp = Push ActivityEntry | Clear | Tick | Subscribe nat | Unsubscribe nat

fun extra_of :: "ActivityEntry \<Rightarrow> Extra" where
  "extra_of e = \<lparr>x_detail = e_detail e, x_method = e_method e, x_url = e_url e, x_status = e_status e,
     x_durationMs = e_durationMs e\<rparr>"

fun run_op :: "LogOp \<Rightarrow> ActivityLog \<Rightarrow> ActivityLog" where
  "run_op (Push e) lg = pushActivity \<lparr>s_uuid = e_id e, s_now = e_ts e\<rparr> (e_level e) (e_source e) (e_message e) (extra_of e) lg"
| "run_op Clear lg = clearActivityLog lg"
| "run_op Tick lg = run_microtask lg"
| "run_op (Subscribe f) lg = subscribeActivityLog f lg"
| "run_op (Unsubscribe f) lg = unsubscribe f lg"

text \<open>The abstract log: every entry pushed since the last clear, newest first.\<close>

fun abstract_op :: "LogOp \<Rightarrow> ActivityEntry list \<Rightarrow> ActivityEntry list" where
  "abstract_op (Push e) es = e # es"
| "abstract_op Clear es = []"
| "abstract_op op es = es"

lemma new_entry_of [simp]: "new_entry \<lparr>s_uuid = e_id e, s_now = e_ts e\<rparr> (e_level e) (e_source e) (e_message e)
    \<lparr>x_detail = e_detail e, x_method = e_method e, x_url = e_url e, x_status = e_status e,
     x_durationMs = e_durationMs e\<rparr> = e"
  by (simp add: new_entry_def)

lemma run_op_abstract:
  assumes "entries lg = take MAX_ENTRIES es"
  shows "entries (run_op op lg) = take MAX_ENTRIES (abstract_op op es)"
  using assms
  by (cases op) (simp_all add: entry_simps clearActivityLog_def emit_def run_microtask_def
      subscribeActivityLog_def unsubscribe_def take_Cons' MAX_ENTRIES_def min_def)

text \<open>
  C13: After any sequence of operations on a fresh log, it holds the latest 300 of the entries pushed
  since the last clear, newest first (the bounded list refines the unbounded one), so its length
  never exceeds 300 and the error count counts exactly the errors among them.
\<close>

theorem log_holds_latest:
  "entries (fold run_op ops initial_log) = take 300 (fold abstract_op ops [])
   \<and> length (entries (fold run_op ops initial_log)) \<le> 300
   \<and> countErrors (fold run_op ops initial_log)
       = length (filter (\<lambda>e. e_level e = L_error) (take 300 (fold abstract_op ops [])))"
proof -
  have "entries (fold run_op ops lg) = take MAX_ENTRIES (fold abstract_op ops es)"
    if "entries lg = take MAX_ENTRIES es" for lg es
    using that
  proof (induction ops arbitrary: lg es)
    case (Cons op ops)
    from run_op_abstract [OF Cons.prems] Cons.IH show ?case by simp
  qed simp
  from this [of initial_log "[]"] show ?thesis
    by (simp add: initial_log_def MAX_ENTRIES_def countErrors_def)
qed

section \<open>Listeners\<close>

lemma run_all_microtasks:
  "calls ((run_microtask ^^ n) lg) = calls lg @ concat (replicate (min n (queued lg)) (listeners lg))
   \<and> listeners ((run_microtask ^^ n) lg) = listeners lg
   \<and> queued ((run_microtask ^^ n) lg) = queued lg - n
   \<and> entries ((run_microtask ^^ n) lg) = entries lg"
proof (induction n arbitrary: lg)
  case (Suc n)
  have q: "queued (run_microtask lg) = queued lg - 1" "listeners (run_microtask lg) = listeners lg"
    "entries (run_microtask lg) = entries lg"
    "calls (run_microtask lg) = calls lg @ (if queued lg = 0 then [] else listeners lg)"
    by (simp_all add: run_microtask_def)
  show ?case using Suc.IH [of "run_microtask lg"]
    by (cases "queued lg") (simp_all add: funpow_swap1 [symmetric] q min_def split: if_splits)
qed simp

text \<open>
  Pushing an entry calls no listener at once; when the queued microtasks have run, every
  listener subscribed by then has been called once per push or clear, and one that unsubscribed
  before is not called at all.
\<close>

theorem listeners_called_later:
  "calls (pushActivity st lv src msg x lg) = calls lg
   \<and> calls ((run_microtask ^^ (queued lg + 1)) (pushActivity st lv src msg x lg))
       = calls lg @ concat (replicate (queued lg + 1) (listeners lg))
   \<and> count_list (calls ((run_microtask ^^ (queued lg + 1))
         (unsubscribe f (pushActivity st lv src msg x lg)))) f = count_list (calls lg) f"
proof -
  have zero: "count_list (concat (replicate n (removeAll f xs))) f = 0" for n and xs :: "nat list"
    by (simp add: count_list_0_iff)
  show ?thesis
    by (simp only: run_all_microtasks) (simp add: entry_simps unsubscribe_def zero min_def)
qed

section \<open>What a request leaves in the log\<close>

definition noise :: "Env \<Rightarrow> string \<Rightarrow> string \<Rightarrow> bool" where
  "noise env method url = isIngestNoiseLog method (api_path (resolve_url env) url)"

text \<open>The requests that get a second, readable entry.\<close>

definition labelled :: "Env \<Rightarrow> string \<Rightarrow> string \<Rightarrow> Response \<Rightarrow> bool" where
  "labelled env method url res \<longleftrightarrow>
     (let path = api_path (resolve_url env) url in
      res_ok res \<and> (method \<in> set MUTATING_METHODS \<and> \<not> isStreamingResponse path res \<and> \<not> isIngestRichAppLog path
        \<or> method = ''GET'' \<and> isSettingsActivityPath path))"

lemma take_Cons_take: "take n (x # take n xs) = take n (x # xs)"
  by (cases n) (simp_all add: take_Cons' min_def)

text \<open>
  A request outside the API and an answered chunk upload or job poll leave the log as it was. Any
  other answered API request adds one entry of level error exactly when the response is not ok, and a
  second one, of level info and with the label of the action, for successful mutations that are
  neither streamed nor logged by the ingest flow and for successful reads of settings.
\<close>

theorem fetch_entries:
  "if is_api url \<and> \<not> noise env method url
   then \<exists>e. e_source e = From_api \<and> (e_level e = L_error \<longleftrightarrow> \<not> res_ok res) \<and> e_status e = Some (rs_status res)
     \<and> (if labelled env method url res
        then \<exists>f. e_level f = L_info \<and> e_message f = describeApiAction (resolve_url env) method url
          \<and> entries (logged_fetch env t1 t2 method url (Answered res) lg) = take 300 (f # e # entries lg)
        else entries (logged_fetch env t1 t2 method url (Answered res) lg) = take 300 (e # entries lg))
   else logged_fetch env t1 t2 method url (Answered res) lg = lg"
proof (cases "\<not> is_api url \<or> noise env method url")
  case True
  then show ?thesis by (auto simp: logged_fetch_def log_response_def noise_def Let_def)
next
  case False
  define path where "path = api_path (resolve_url env) url"
  define b where "b = isStreamingResponse path res"
  define x where "x = \<lparr>x_detail = response_detail env method path b res, x_method = Some method,
       x_url = Some url, x_status = Some (rs_status res), x_durationMs = Some (snd t1)\<rparr>"
  define e where "e = new_entry (fst t1) (response_level method b res) From_api (response_message env method url path b res) x"
  define lg1 where "lg1 = pushActivity (fst t1) (response_level method b res) From_api
      (response_message env method url path b res) x lg"
  let ?push = "pushActivity (fst t2) L_info From_app (describeApiAction (resolve_url env) method url)"
  have e: "e_source e = From_api" "e_status e = Some (rs_status res)" "e_level e = L_error \<longleftrightarrow> \<not> res_ok res"
    by (simp_all add: e_def x_def new_entry_def response_level_def)
  have lg1: "entries lg1 = take 300 (e # entries lg)" by (simp add: lg1_def e_def entry_simps MAX_ENTRIES_def)
  have ne: "\<not> isIngestNoiseLog method path" "is_api url" using False by (simp_all add: noise_def path_def)
  let ?body = "if b then [] else rs_body res"
  define x1 where "x1 = \<lparr>x_detail = (if trim ?body \<noteq> [] then Some (take 500 ?body) else None), x_method = Some method,
       x_url = Some url, x_status = Some (rs_status res), x_durationMs = Some (snd t2)\<rparr>"
  define x2 where "x2 = \<lparr>x_detail = None, x_method = Some method, x_url = Some url,
       x_status = Some (rs_status res), x_durationMs = Some (snd t2)\<rparr>"
  have eq: "logged_fetch env t1 t2 method url (Answered res) lg =
      (if res_ok res \<and> method \<in> set MUTATING_METHODS \<and> \<not> b \<and> \<not> isIngestRichAppLog path then ?push x1 lg1
       else if res_ok res \<and> method = ''GET'' \<and> isSettingsActivityPath path then ?push x2 lg1 else lg1)"
    using ne unfolding logged_fetch_def log_response_def Let_def path_def [symmetric] lg1_def x_def
      x1_def x2_def b_def
    by (simp only: simp_thms if_True if_False Outcome.case not_False_eq_True)
  have l: "labelled env method url res \<longleftrightarrow> res_ok res \<and> (method \<in> set MUTATING_METHODS \<and> \<not> b
      \<and> \<not> isIngestRichAppLog path \<or> method = ''GET'' \<and> isSettingsActivityPath path)"
    by (simp add: labelled_def Let_def path_def b_def)
  have push: "entries (?push y lg1) = take 300 (new_entry (fst t2) L_info From_app
      (describeApiAction (resolve_url env) method url) y # e # entries lg)" for y
    by (simp add: entry_simps lg1 take_Cons_take MAX_ENTRIES_def)
  have "if labelled env method url res
     then \<exists>f. e_level f = L_info \<and> e_message f = describeApiAction (resolve_url env) method url
       \<and> entries (logged_fetch env t1 t2 method url (Answered res) lg) = take 300 (f # e # entries lg)
     else entries (logged_fetch env t1 t2 method url (Answered res) lg) = take 300 (e # entries lg)"
    unfolding eq l using push [of x1] push [of x2] lg1
    by (auto simp: new_entry_def intro!: exI)
  with False e show ?thesis by auto
qed

text \<open>Deleting a case is labelled as an update, and taking an alert out of a case as a creation.\<close>

lemma delete_case_mislabelled:
  "describeApiAction Some ''DELETE'' ''/api/v1/cases/c1'' = ''Update case''
   \<and> describeApiAction Some ''DELETE'' ''/api/v1/cases/c1/alerts/a1'' = ''Create case''"
  by code_simp

end
