(* ===== verification/IngestUpload.thy ===== *)
theory IngestUpload
  imports IngestProgress IngestActivity "HOL-Library.Word"
begin

text \<open>
  The chunked upload of a mobile archive, \<open>src/mobipwn-web/src/lib/ingestUpload.ts\<close>: hash the file,
  announce it, send it in chunks, and poll the job of the server until it is done, has failed or two
  hours have passed. The server, the clock and the digest are an environment; a reply is a value or
  the text of the error that the client sees (\<open>String(e)\<close>). The run keeps the activity log, the
  progress values reported so far and the chunks sent so far.
\<close>

section \<open>Requests\<close>

type_synonym byte = "8 word"

definition CHUNK_SIZE :: nat where
  "CHUNK_SIZE = 4 * 1024 * 1024"

datatype Platform = Android | Ios

definition platform_text :: "Platform \<Rightarrow> string" where
  "platform_text p = (case p of Android \<Rightarrow> ''android'' | Ios \<Rightarrow> ''ios'')"

record Sysdiagnose =
  sd_logarchive_uncapped :: "bool option"
  sd_logarchive_decode_max_lines :: "nat option"
  sd_max_entry_mb :: "nat option"
  sd_ioservice_full_tree :: "bool option"
  sd_parser_threads :: "nat option"

record Anonymize =
  an_enabled :: bool
  an_profile :: "string option"
  an_logarchive :: "string option"
  an_ordinal :: "bool option"
  an_keep_location :: "bool option"
  an_keep_cell_ids :: "bool option"
  an_generalize_carrier :: "bool option"
  an_drop_carrier :: "bool option"
  an_pseudo_third_party_packages :: "bool option"
  an_time_shift :: "string option"
  an_only :: "string option"
  an_entities :: "string list option"
  an_drop_text_from_packages :: "string list option"

record File =
  f_name :: string
  f_bytes :: "byte list"

record IngestUploadOptions =
  o_source :: string
  o_platform :: Platform
  o_user :: "string option"
  o_tags :: "string list option"
  o_file :: File
  o_sysdiagnose :: "Sysdiagnose option"
  o_anonymize :: "Anonymize option"

text \<open>The body of the init request; properties that are left out are \<open>None\<close>.\<close>

record InitRequest =
  q_source :: string
  q_platform :: Platform
  q_user :: "string option"
  q_tags :: "string list option"
  q_file_name :: string
  q_file_size :: nat
  q_file_hash :: string
  q_sysdiagnose :: "Sysdiagnose option"
  q_anonymize :: "Anonymize option"

text \<open>\<open>xs?.length ? xs : undefined\<close>.\<close>

definition some_items :: "'a list option \<Rightarrow> 'a list option" where
  "some_items xs = (case xs of Some [] \<Rightarrow> None | _ \<Rightarrow> xs)"

definition anonymize_request :: "Anonymize \<Rightarrow> Anonymize" where
  "anonymize_request a =
     \<lparr>an_enabled = True,
      an_profile = Some (get_or ''balanced'' (an_profile a)),
      an_logarchive = Some (get_or ''drop'' (an_logarchive a)),
      an_ordinal = Some (get_or False (an_ordinal a)),
      an_keep_location = Some (get_or False (an_keep_location a)),
      an_keep_cell_ids = Some (get_or False (an_keep_cell_ids a)),
      an_generalize_carrier = Some (get_or False (an_generalize_carrier a)),
      an_drop_carrier = Some (get_or False (an_drop_carrier a)),
      an_pseudo_third_party_packages = Some (get_or False (an_pseudo_third_party_packages a)),
      an_time_shift = truthy (an_time_shift a),
      an_only = truthy (an_only a),
      an_entities = some_items (an_entities a),
      an_drop_text_from_packages = some_items (an_drop_text_from_packages a)\<rparr>"

definition init_request :: "IngestUploadOptions \<Rightarrow> string \<Rightarrow> InitRequest" where
  "init_request opts fileHash =
     \<lparr>q_source = o_source opts, q_platform = o_platform opts,
      q_user = truthy (map_option trim (o_user opts)),
      q_tags = some_items (o_tags opts),
      q_file_name = f_name (o_file opts), q_file_size = length (f_bytes (o_file opts)),
      q_file_hash = fileHash,
      q_sysdiagnose = (if o_platform opts = Ios then o_sysdiagnose opts else None),
      q_anonymize = (case o_anonymize opts of
         Some a \<Rightarrow> if an_enabled a then Some (anonymize_request a) else None
       | None \<Rightarrow> None)\<rparr>"

section \<open>The environment and the run\<close>

record UploadInitResponse =
  ir_job_id :: string
  ir_deduplicated :: bool
  ir_ingested :: "nat option"
  ir_status :: string

text \<open>
  \<open>sha256\<close> reads and digests the file; \<open>put_reply\<close> answers a chunk upload, given all chunks sent so
  far; the \<open>k\<close>th poll is answered by \<open>poll_reply k\<close>, the fetch takes \<open>fetch_ms k\<close> and the timer
  that follows fires \<open>late_ms k\<close> after its delay. \<open>stamp n\<close> is the stamp of the \<open>n\<close>th log entry.
\<close>

record Server =
  sha256 :: "byte list \<Rightarrow> string + byte list"
  init_reply :: "InitRequest \<Rightarrow> string + UploadInitResponse"
  put_reply :: "(nat \<times> byte list) list \<Rightarrow> string + IngestJobResponse"
  complete_reply :: "string + unit"
  poll_reply :: "nat \<Rightarrow> string + IngestJobResponse"
  fetch_ms :: "nat \<Rightarrow> nat"
  late_ms :: "nat \<Rightarrow> nat"
  poll_start :: nat
  elapsed_ms :: nat
  stamp :: "nat \<Rightarrow> Stamp"
  locale_number :: "nat \<Rightarrow> string"

record Run =
  r_log :: ActivityLog
  r_pushes :: nat
  r_progress :: "IngestProgress list"
  r_sent :: "(nat \<times> byte list) list"

definition log_entry :: "Server \<Rightarrow> (Stamp \<Rightarrow> ActivityLog \<Rightarrow> ActivityLog) \<Rightarrow> Run \<Rightarrow> Run" where
  "log_entry srv f w = w\<lparr>r_log := f (stamp srv (r_pushes w)) (r_log w), r_pushes := r_pushes w + 1\<rparr>"

definition onProgress :: "IngestProgress \<Rightarrow> Run \<Rightarrow> Run" where
  "onProgress p w = w\<lparr>r_progress := r_progress w @ [p]\<rparr>"

definition hex_byte :: "byte \<Rightarrow> string" where
  "hex_byte b = pad_zeros 2 (num_str 16 (unat b))"

definition sha256Hex :: "Server \<Rightarrow> File \<Rightarrow> string + string" where
  "sha256Hex srv file =
     (case sha256 srv (f_bytes file) of Inl e \<Rightarrow> Inl e | Inr hash \<Rightarrow> Inr (concat (map hex_byte hash)))"

section \<open>Sending the chunks\<close>

definition milestone :: "int \<Rightarrow> int \<Rightarrow> int option" where
  "milestone pct lastLoggedPct = find (\<lambda>m. m \<le> pct \<and> lastLoggedPct < m) [25, 50, 75, 100]"

definition chunk_done :: "Server \<Rightarrow> string \<Rightarrow> IngestJobResponse \<Rightarrow> int \<Rightarrow> Run \<Rightarrow> int \<times> Run" where
  "chunk_done srv jobId job lastLoggedPct w =
     (let uploadPct = 5 + (jr_progress_percent job * 90) div 100;
          w1 = onProgress (progress uploadPct P_upload
                 (Some (uploaded (jr_bytes_received job) (jr_file_size job)))) w
      in case milestone (jr_progress_percent job) lastLoggedPct of
           Some m \<Rightarrow> (m, log_entry srv (logIngestUploadProgress jobId (jr_progress_percent job)
                          (jr_bytes_received job) (jr_file_size job)) w1)
         | None \<Rightarrow> (lastLoggedPct, w1))"

function upload_chunks ::
  "Server \<Rightarrow> string \<Rightarrow> byte list \<Rightarrow> nat \<Rightarrow> int \<Rightarrow> Run \<Rightarrow> (string + unit) \<times> Run" where
  "upload_chunks srv jobId bytes offset lastLoggedPct w =
     (if offset < length bytes then
        (let body = take CHUNK_SIZE (drop offset bytes);
             w1 = w\<lparr>r_sent := r_sent w @ [(offset, body)]\<rparr>
         in case put_reply srv (r_sent w1) of
              Inl e \<Rightarrow> (Inl e, w1)
            | Inr job \<Rightarrow>
                (let (lst, w2) = chunk_done srv jobId job lastLoggedPct w1
                 in upload_chunks srv jobId bytes (offset + length body) lst w2))
      else (Inr (), w))"
  by pat_completeness auto
termination
  by (relation "measure (\<lambda>(srv, jobId, bytes, offset, l, w). length bytes - offset)")
    (auto simp: CHUNK_SIZE_def)

declare upload_chunks.simps [simp del]

section \<open>Polling the job\<close>

definition POLL_LIMIT_MS :: nat where
  "POLL_LIMIT_MS = 2 * 60 * 60 * 1000"

definition poll_ms :: "IngestJobResponse \<Rightarrow> nat" where
  "poll_ms job = (if jr_stage job = Some ''logarchive'' then 500 else 800)"

definition poll_seen :: "Server \<Rightarrow> string \<Rightarrow> string \<Rightarrow> string \<Rightarrow> IngestJobResponse \<Rightarrow> Run \<Rightarrow> Run" where
  "poll_seen srv jobId source lastStatus job w =
     (let w1 = (if jr_status job \<noteq> lastStatus \<and> jr_status job = ''running''
                then log_entry srv (logIngestParsing jobId source) w else w)
      in if jr_status job \<in> set [''uploading'', ''pending'', ''running'']
         then onProgress (jobProgressUpdate job) w1 else w1)"

function pollJob ::
  "Server \<Rightarrow> string \<Rightarrow> string \<Rightarrow> nat \<Rightarrow> nat \<Rightarrow> nat \<Rightarrow> string \<Rightarrow> Run \<Rightarrow> (string + nat) \<times> Run" where
  "pollJob srv jobId source deadline k now lastStatus w =
     (if now < deadline then
        (case poll_reply srv k of
           Inl e \<Rightarrow> (Inl e, w)
         | Inr job \<Rightarrow>
             (let w1 = poll_seen srv jobId source lastStatus job w
              in if jr_status job = ''done'' then (Inr (jr_events_count job), w1)
                 else if jr_status job = ''failed''
                 then (Inl (''Error: '' @ get_or ''ingest job failed'' (jr_error job)), w1)
                 else pollJob srv jobId source deadline (k + 1)
                        (now + fetch_ms srv k + poll_ms job + late_ms srv k) (jr_status job) w1))
      else (Inl ''Error: ingest timed out waiting for background job'', w))"
  by pat_completeness auto
termination
  by (relation "measure (\<lambda>(srv, jobId, source, deadline, k, now, l, w). deadline - now)")
    (auto simp: poll_ms_def)

declare pollJob.simps [simp del]

section \<open>The upload\<close>

record UploadResult =
  ur_ingested :: nat
  ur_jobId :: string
  ur_deduplicated :: bool

definition completed ::
  "Server \<Rightarrow> IngestUploadOptions \<Rightarrow> string \<Rightarrow> nat \<Rightarrow> bool \<Rightarrow> string \<Rightarrow> Completed" where
  "completed srv opts jobId events dedup fileHash =
     \<lparr>c_source = o_source opts, c_platform = platform_text (o_platform opts), c_jobId = jobId,
      c_events = events, c_deduplicated = dedup, c_fileName = Some (f_name (o_file opts)),
      c_fileSize = Some (length (f_bytes (o_file opts))), c_fileHash = Some fileHash,
      c_durationMs = Some (elapsed_ms srv)\<rparr>"

text \<open>From the init reply to the end of the upload of a file that the server does not know.\<close>

definition send_and_poll ::
  "Server \<Rightarrow> IngestUploadOptions \<Rightarrow> string \<Rightarrow> string \<Rightarrow> Run \<Rightarrow> (string + UploadResult) \<times> Run" where
  "send_and_poll srv opts jobId fileHash w =
     (case upload_chunks srv jobId (f_bytes (o_file opts)) 0 (- 1) w of
        (Inl e, w1) \<Rightarrow> (Inl e, w1)
      | (Inr _, w1) \<Rightarrow>
          (case complete_reply srv of
             Inl e \<Rightarrow> (Inl e, w1)
           | Inr _ \<Rightarrow>
               (let w2 = log_entry srv (logIngestParsing jobId (o_source opts)) w1;
                    w3 = onProgress (progress 92 P_processing
                           (Some (''Parsing '' @ platform_text (o_platform opts) @ '' archive on server'' @ ellipsis))) w2
                in case pollJob srv jobId (o_source opts) (poll_start srv + POLL_LIMIT_MS) 0 (poll_start srv) [] w3 of
                     (Inl e, w4) \<Rightarrow> (Inl e, w4)
                   | (Inr ingested, w4) \<Rightarrow>
                       (let w5 = onProgress (progress 100 P_processing
                              (Some (nat_str ingested @ '' events indexed in ClickHouse''))) w4;
                            w6 = log_entry srv (logIngestComplete (locale_number srv)
                                   (completed srv opts jobId ingested False fileHash)) w5
                        in (Inr \<lparr>ur_ingested = ingested, ur_jobId = jobId, ur_deduplicated = False\<rparr>, w6)))))"

text \<open>The body of the \<open>try\<close> block.\<close>

definition try_upload :: "Server \<Rightarrow> IngestUploadOptions \<Rightarrow> Run \<Rightarrow> (string + UploadResult) \<times> Run" where
  "try_upload srv opts w =
     (let file = o_file opts; platform = platform_text (o_platform opts);
          w1 = onProgress (progress 0 P_hash
                 (Some (f_name file @ '' '' @ middle_dot @ '' '' @ formatBytes (length (f_bytes file))))) w
      in case sha256Hex srv file of
           Inl e \<Rightarrow> (Inl e, w1)
         | Inr fileHash \<Rightarrow>
             (let w2 = log_entry srv (logIngestHash fileHash) w1;
                  w3 = onProgress (progress 5 P_hash (Some (''SHA-256 '' @ take 12 fileHash @ ellipsis))) w2
              in case init_reply srv (init_request opts fileHash) of
                   Inl e \<Rightarrow> (Inl e, w3)
                 | Inr ini \<Rightarrow>
                     (let w4 = log_entry srv (logIngestInit (ir_job_id ini) (o_source opts) platform
                                 (ir_deduplicated ini) (ir_ingested ini)) w3
                      in if ir_deduplicated ini then
                           (let n = get_or 0 (ir_ingested ini);
                                w5 = onProgress (progress 100 P_processing
                                       (Some (nat_str n @ '' events (duplicate file hash)''))) w4;
                                w6 = log_entry srv (logIngestComplete (locale_number srv)
                                       (completed srv opts (ir_job_id ini) n True fileHash)) w5
                            in (Inr \<lparr>ur_ingested = n, ur_jobId = ir_job_id ini, ur_deduplicated = True\<rparr>, w6))
                         else send_and_poll srv opts (ir_job_id ini) fileHash w4)))"

definition uploadIngestArchive ::
  "Server \<Rightarrow> IngestUploadOptions \<Rightarrow> Run \<Rightarrow> (string + UploadResult) \<times> Run" where
  "uploadIngestArchive srv opts w =
     (let w1 = log_entry srv (logIngestStarted (o_source opts) (platform_text (o_platform opts))
                 (f_name (o_file opts)) (length (f_bytes (o_file opts))) (o_user opts)) w
      in case try_upload srv opts w1 of
           (Inl msg, w2) \<Rightarrow>
             (Inl msg, log_entry srv (logIngestFailed (o_source opts)
                (Some (platform_text (o_platform opts))) msg None) w2)
         | (Inr result, w2) \<Rightarrow> (Inr result, w2))"

end
