(* ===== verification/IngestUploadFacts.thy ===== *)
theory IngestUploadFacts
  imports IngestUpload
begin

text \<open>
  Properties of the chunked upload: the chunks are the file, polling ends within two hours, success
  and failure are what the server and the log say, and the digest is written faithfully.
\<close>

section \<open>The chunks\<close>

fun chunks_from :: "nat \<Rightarrow> (nat \<times> byte list) list \<Rightarrow> bool" where
  "chunks_from off [] \<longleftrightarrow> True"
| "chunks_from off ((pos, body) # cs) \<longleftrightarrow>
     pos = off \<and> body \<noteq> [] \<and> length body \<le> CHUNK_SIZE \<and> chunks_from (off + length body) cs"

lemma chunk_size_pos [simp]: "0 < CHUNK_SIZE"
  by (simp add: CHUNK_SIZE_def)

lemma chunk_done_sent [simp]: "r_sent (snd (chunk_done srv jobId job l w)) = r_sent w"
  by (simp add: chunk_done_def log_entry_def onProgress_def Let_def split: option.split)

lemma upload_chunks_sent:
  "\<exists>cs rest. r_sent (snd (upload_chunks srv jobId bytes off l w)) = r_sent w @ cs \<and> chunks_from off cs
     \<and> list_all (\<lambda>c. length (snd c) = CHUNK_SIZE) (butlast cs)
     \<and> drop off bytes = concat (map snd cs) @ rest
     \<and> (isl (fst (upload_chunks srv jobId bytes off l w)) \<or> rest = [])"
proof (induction srv jobId bytes off l w rule: upload_chunks.induct)
  case (1 srv jobId bytes off l w)
  show ?case
  proof (cases "off < length bytes")
    case False
    then show ?thesis by (simp add: upload_chunks.simps [of srv jobId bytes off l w])
  next
    case True
    define body where "body = take CHUNK_SIZE (drop off bytes)"
    define w1 where "w1 = w\<lparr>r_sent := r_sent w @ [(off, body)]\<rparr>"
    have "drop (off + length body) bytes = drop CHUNK_SIZE (drop off bytes)"
    proof (cases "length (drop off bytes) \<le> CHUNK_SIZE")
      case True
      then show ?thesis by (simp add: body_def)
    next
      case False
      then have "length body = CHUNK_SIZE" by (simp add: body_def)
      then show ?thesis by (simp add: add.commute)
    qed
    then have split: "drop off bytes = body @ drop (off + length body) bytes"
      by (simp only: body_def append_take_drop_id)
    have body: "body \<noteq> []" "length body \<le> CHUNK_SIZE" using True by (simp_all add: body_def)
    show ?thesis
    proof (cases "put_reply srv (r_sent w1)")
      case (Inl e)
      then have "upload_chunks srv jobId bytes off l w = (Inl e, w1)"
        using True by (simp add: upload_chunks.simps [of srv jobId bytes off l w] Let_def body_def w1_def)
      then show ?thesis using body split
        by (intro exI [of _ "[(off, body)]"] exI [of _ "drop (off + length body) bytes"]) (simp add: w1_def)
    next
      case (Inr job)
      obtain lst w2 where cd: "chunk_done srv jobId job l w1 = (lst, w2)" by (metis surj_pair)
      have r: "upload_chunks srv jobId bytes off l w = upload_chunks srv jobId bytes (off + length body) lst w2"
        using True Inr cd by (simp add: upload_chunks.simps [of srv jobId bytes off l w] Let_def body_def w1_def)
      have s: "r_sent w2 = r_sent w @ [(off, body)]" using chunk_done_sent [of srv jobId job l w1] unfolding cd by (simp add: w1_def)
      obtain cs rest where ih: "r_sent (snd (upload_chunks srv jobId bytes (off + length body) lst w2)) = r_sent w2 @ cs"
        "chunks_from (off + length body) cs" "list_all (\<lambda>c. length (snd c) = CHUNK_SIZE) (butlast cs)"
        "drop (off + length body) bytes = concat (map snd cs) @ rest"
        "isl (fst (upload_chunks srv jobId bytes (off + length body) lst w2)) \<or> rest = []"
        using "1.IH" [OF True body_def w1_def Inr cd [symmetric] refl] by blast
      have full: "cs = [] \<or> length body = CHUNK_SIZE"
      proof (cases cs)
        case (Cons c cs')
        with ih(2) have "snd c \<noteq> []" by (cases c) auto
        with ih(4) Cons have "off + length body < length bytes" by (metis append_is_Nil_conv concat.simps(2) drop_eq_Nil list.simps(9) not_le)
        then show ?thesis by (auto simp: body_def min_def split: if_splits)
      qed simp
      show ?thesis unfolding r
        using ih body split s full
        by (intro exI [of _ "(off, body) # cs"] exI [of _ rest]) auto
    qed
  qed
qed

lemma milestone_grows: "milestone p l = Some m \<Longrightarrow> l < m \<and> m \<le> p \<and> m \<in> {25, 50, 75, 100}"
  by (auto simp: milestone_def split: if_splits)

text \<open>How many log entries the upload can still write, given the last milestone logged.\<close>

definition milestones_left :: "int \<Rightarrow> nat" where
  "milestones_left l = length (filter (\<lambda>m. l < m) [25, 50, 75, 100])"

lemma chunk_done_pushes:
  "r_pushes (snd (chunk_done srv jobId job l w)) + milestones_left (fst (chunk_done srv jobId job l w))
     \<le> r_pushes w + milestones_left l"
proof (cases "milestone (jr_progress_percent job) l")
  case None
  then show ?thesis by (simp add: chunk_done_def onProgress_def)
next
  case (Some m)
  with milestone_grows [OF Some] show ?thesis
    by (auto simp: chunk_done_def onProgress_def log_entry_def milestones_left_def)
qed

lemma upload_chunks_pushes:
  "r_pushes (snd (upload_chunks srv jobId bytes off l w)) \<le> r_pushes w + milestones_left l"
proof (induction srv jobId bytes off l w rule: upload_chunks.induct)
  case (1 srv jobId bytes off l w)
  let ?body = "take CHUNK_SIZE (drop off bytes)"
  let ?w1 = "w\<lparr>r_sent := r_sent w @ [(off, ?body)]\<rparr>"
  show ?case
  proof (cases "off < length bytes")
    case True
    show ?thesis
    proof (cases "put_reply srv (r_sent ?w1)")
      case (Inr job)
      obtain lst w2 where cd: "chunk_done srv jobId job l ?w1 = (lst, w2)" by (metis surj_pair)
      from "1.IH" [OF True refl refl Inr cd [symmetric] refl] chunk_done_pushes [of srv jobId job l ?w1] cd
      have "r_pushes (snd (upload_chunks srv jobId bytes (off + length ?body) lst w2)) \<le> r_pushes w + milestones_left l"
        by simp
      with True Inr cd show ?thesis by (simp add: upload_chunks.simps [of srv jobId bytes off l w] Let_def)
    qed (simp add: True upload_chunks.simps [of srv jobId bytes off l w] Let_def)
  qed (simp add: upload_chunks.simps [of srv jobId bytes off l w])
qed

lemma chunks_sent_in_order:
  "\<exists>cs rest. r_sent (snd (upload_chunks srv jobId bytes 0 (- 1) w)) = r_sent w @ cs \<and> chunks_from 0 cs
     \<and> bytes = concat (map snd cs) @ rest
     \<and> (isl (fst (upload_chunks srv jobId bytes 0 (- 1) w)) \<or> rest = [])"
  using upload_chunks_sent [of srv jobId bytes 0 "- 1" w] by auto

text \<open>
  C9: The chunks sent are a prefix of the file, in order and without a gap: each starts where the one
  before ended, none is empty or above 4 MiB and all but the last are full. When no request fails they
  are the whole file, and however many there are, they add at most four entries to the log.
\<close>

theorem chunks_cover_file:
  "\<exists>cs rest. r_sent (snd (upload_chunks srv jobId bytes 0 (- 1) w)) = r_sent w @ cs \<and> chunks_from 0 cs
     \<and> list_all (\<lambda>c. length (snd c) = CHUNK_SIZE) (butlast cs)
     \<and> bytes = concat (map snd cs) @ rest
     \<and> (isl (fst (upload_chunks srv jobId bytes 0 (- 1) w)) \<or> rest = [])
     \<and> r_pushes (snd (upload_chunks srv jobId bytes 0 (- 1) w)) \<le> r_pushes w + 4"
  using upload_chunks_sent [of srv jobId bytes 0 "- 1" w] upload_chunks_pushes [of srv jobId bytes 0 "- 1" w]
  by (auto simp: milestones_left_def)

section \<open>Polling\<close>

text \<open>A reply that keeps the loop going.\<close>

definition unfinished :: "string + IngestJobResponse \<Rightarrow> bool" where
  "unfinished r = (case r of Inl e \<Rightarrow> False | Inr job \<Rightarrow> jr_status job \<noteq> ''done'' \<and> jr_status job \<noteq> ''failed'')"

text \<open>What the poll that ends the loop makes of its reply.\<close>

definition verdict :: "string + IngestJobResponse \<Rightarrow> string + nat" where
  "verdict r = (case r of Inl e \<Rightarrow> Inl e
     | Inr job \<Rightarrow> if jr_status job = ''done'' then Inr (jr_events_count job)
                  else Inl (''Error: '' @ get_or ''ingest job failed'' (jr_error job)))"

lemma poll_outcome_from:
  "\<exists>n. list_all (\<lambda>i. unfinished (poll_reply srv i)) [k..<k + n] \<and>
     (500 * n < deadline - now \<and> \<not> unfinished (poll_reply srv (k + n))
        \<and> fst (pollJob srv j s deadline k now l w) = verdict (poll_reply srv (k + n))
      \<or> (n = 0 \<or> 500 * (n - 1) < deadline - now)
        \<and> fst (pollJob srv j s deadline k now l w) = Inl ''Error: ingest timed out waiting for background job'')"
proof (induction srv j s deadline k now l w rule: pollJob.induct)
  case (1 srv j s deadline k now l w)
  note unf = pollJob.simps [of srv j s deadline k now l w]
  show ?case
  proof (cases "now < deadline")
    case False
    then show ?thesis by (intro exI [of _ 0]) (simp add: unf)
  next
    case True
    show ?thesis
    proof (cases "unfinished (poll_reply srv k)")
      case False
      with True show ?thesis
        by (intro exI [of _ 0]) (auto simp: unf unfinished_def verdict_def Let_def split: sum.splits)
    next
      case un: True
      then obtain job where job: "poll_reply srv k = Inr job" "jr_status job \<noteq> ''done''" "jr_status job \<noteq> ''failed''"
        by (auto simp: unfinished_def split: sum.splits)
      let ?now = "now + fetch_ms srv k + poll_ms job + late_ms srv k"
      let ?w = "poll_seen srv j s l job w"
      have r: "pollJob srv j s deadline k now l w = pollJob srv j s deadline (k + 1) ?now (jr_status job) ?w"
        using True job by (simp add: unf Let_def)
      have later: "deadline - ?now + 500 \<le> deadline - now \<or> deadline - ?now = 0"
        by (auto simp: poll_ms_def)
      obtain n where n: "list_all (\<lambda>i. unfinished (poll_reply srv i)) [k + 1..<k + 1 + n]"
        "500 * n < deadline - ?now \<and> \<not> unfinished (poll_reply srv (k + 1 + n))
            \<and> fst (pollJob srv j s deadline (k + 1) ?now (jr_status job) ?w) = verdict (poll_reply srv (k + 1 + n))
         \<or> (n = 0 \<or> 500 * (n - 1) < deadline - ?now)
            \<and> fst (pollJob srv j s deadline (k + 1) ?now (jr_status job) ?w) = Inl ''Error: ingest timed out waiting for background job''"
        using "1.IH" [OF True job(1) refl job(2,3)] by blast
      have "[k..<k + Suc n] = k # [k + 1..<k + 1 + n]" by (simp add: upt_conv_Cons)
      with n(1) un have "list_all (\<lambda>i. unfinished (poll_reply srv i)) [k..<k + Suc n]" by simp
      moreover have "500 * n < deadline - ?now \<Longrightarrow> 500 * Suc n < deadline - now" using later by auto
      moreover have "n = 0 \<or> 500 * (n - 1) < deadline - ?now \<Longrightarrow> 500 * n < deadline - now"
        using later True by (cases n) auto
      ultimately show ?thesis using n(2) unfolding r by (intro exI [of _ "Suc n"]) auto
    qed
  qed
qed

lemma poll_outcome_within:
  "\<exists>n. list_all (\<lambda>i. unfinished (poll_reply srv i)) [0..<n] \<and> n \<le> 14400
     \<and> (\<not> unfinished (poll_reply srv n)
          \<and> fst (pollJob srv jobId source (t + POLL_LIMIT_MS) 0 t [] w) = verdict (poll_reply srv n)
        \<or> fst (pollJob srv jobId source (t + POLL_LIMIT_MS) 0 t [] w)
            = Inl ''Error: ingest timed out waiting for background job'')"
proof -
  have lim: "t + POLL_LIMIT_MS - t = 7200000" by (simp add: POLL_LIMIT_MS_def)
  have "500 * n < (7200000::nat) \<Longrightarrow> n \<le> 14400" and "n = 0 \<or> 500 * (n - 1) < (7200000::nat) \<Longrightarrow> n \<le> 14400" for n
    by auto
  then show ?thesis
    using poll_outcome_from [of srv 0 "t + POLL_LIMIT_MS" t jobId source "[]" w] unfolding lim by auto
qed


section \<open>The whole upload\<close>

lemma head_entry:
  "e_level (hd (entries (app_entry st lv msg d lg))) = lv \<and> e_message (hd (entries (app_entry st lv msg d lg))) = msg"
  by (simp add: app_entry_def entry_simps MAX_ENTRIES_def take_Cons' new_entry_def)

lemma run_simps [simp]:
  "r_sent (log_entry srv f w) = r_sent w" "r_sent (onProgress p w) = r_sent w"
  "r_progress (log_entry srv f w) = r_progress w" "r_progress (onProgress p w) = r_progress w @ [p]"
  "r_log (onProgress p w) = r_log w" "r_log (log_entry srv f w) = f (stamp srv (r_pushes w)) (r_log w)"
  "percent (progress pct ph d) = pct"
  by (simp_all add: log_entry_def onProgress_def progress_def)

lemma poll_seen_sent [simp]: "r_sent (poll_seen srv j s l job w) = r_sent w"
  by (simp add: poll_seen_def Let_def)

lemma pollJob_sent [simp]: "r_sent (snd (pollJob srv j s d k now l w)) = r_sent w"
proof (induction srv j s d k now l w rule: pollJob.induct)
  case (1 srv j s d k now l w)
  then show ?case
    by (simp add: pollJob.simps [of srv j s d k now l w] Let_def split: sum.split)
qed

text \<open>What a successful run leaves behind.\<close>

definition upload_done :: "Server \<Rightarrow> IngestUploadOptions \<Rightarrow> Run \<Rightarrow> UploadResult \<Rightarrow> Run \<Rightarrow> bool" where
  "upload_done srv opts w r w' \<longleftrightarrow>
     e_level (hd (entries (r_log w'))) = L_info \<and> percent (last (r_progress w')) = 100
     \<and> (if ur_deduplicated r then r_sent w' = r_sent w
        else \<exists>cs k job. r_sent w' = r_sent w @ cs \<and> chunks_from 0 cs
          \<and> concat (map snd cs) = f_bytes (o_file opts)
          \<and> poll_reply srv k = Inr job \<and> jr_status job = ''done'' \<and> ur_ingested r = jr_events_count job)"

lemma complete_level: "e_level (hd (entries (logIngestComplete loc c st lg))) = L_info"
  by (simp add: logIngestComplete_def head_entry Let_def)

lemma send_and_poll_done:
  assumes "send_and_poll srv opts jobId hash w = (Inr r, w')"
  shows "upload_done srv opts w r w' \<and> \<not> ur_deduplicated r"
proof -
  from assms obtain u w1 where up: "upload_chunks srv jobId (f_bytes (o_file opts)) 0 (- 1) w = (Inr u, w1)"
    and compl: "\<exists>v. complete_reply srv = Inr v"
    by (auto simp: send_and_poll_def split: prod.splits sum.splits)
  define w3 where "w3 = onProgress (progress 92 P_processing (Some (''Parsing '' @ platform_text (o_platform opts)
      @ '' archive on server'' @ ellipsis))) (log_entry srv (logIngestParsing jobId (o_source opts)) w1)"
  from assms up compl obtain n w4 where
    poll: "pollJob srv jobId (o_source opts) (poll_start srv + POLL_LIMIT_MS) 0 (poll_start srv) [] w3 = (Inr n, w4)"
    and r: "r = \<lparr>ur_ingested = n, ur_jobId = jobId, ur_deduplicated = False\<rparr>"
    and w': "w' = log_entry srv (logIngestComplete (locale_number srv) (completed srv opts jobId n False hash))
      (onProgress (progress 100 P_processing (Some (nat_str n @ '' events indexed in ClickHouse''))) w4)"
    by (auto simp: send_and_poll_def Let_def w3_def split: prod.splits sum.splits)
  obtain m where "\<not> unfinished (poll_reply srv m) \<and> Inr n = verdict (poll_reply srv m)"
    using poll_outcome_within [of srv jobId "o_source opts" "poll_start srv" w3] unfolding poll by auto
  then obtain job where job: "poll_reply srv m = Inr job" "jr_status job = ''done''" "n = jr_events_count job"
    by (auto simp: verdict_def split: sum.splits if_splits)
  obtain cs where cs: "r_sent w1 = r_sent w @ cs" "chunks_from 0 cs" "concat (map snd cs) = f_bytes (o_file opts)"
    using chunks_sent_in_order [of srv jobId "f_bytes (o_file opts)" w] unfolding up by auto
  have "r_sent w4 = r_sent w1" using pollJob_sent [of srv jobId "o_source opts" _ 0 _ "[]" w3] poll
    by (metis run_simps(1,2) snd_conv w3_def)
  with cs job show ?thesis unfolding upload_done_def r w' by (auto simp: complete_level)
qed

lemma try_upload_done:
  assumes "try_upload srv opts w = (Inr r, w')"
  shows "upload_done srv opts w r w'"
proof -
  from assms obtain hash where hash: "sha256Hex srv (o_file opts) = Inr hash"
    by (auto simp: try_upload_def Let_def split: sum.splits)
  with assms obtain ini where ini: "init_reply srv (init_request opts hash) = Inr ini"
    by (auto simp: try_upload_def Let_def split: sum.splits)
  show ?thesis
  proof (cases "ir_deduplicated ini")
    case True
    with assms hash ini show ?thesis
      by (auto simp: try_upload_def Let_def upload_done_def complete_level)
  next
    case False
    with assms hash ini obtain w4 where "send_and_poll srv opts (ir_job_id ini) hash w4 = (Inr r, w')" "r_sent w4 = r_sent w"
      by (auto simp: try_upload_def Let_def)
    then show ?thesis using send_and_poll_done by (fastforce simp: upload_done_def)
  qed
qed


section \<open>Digests\<close>

text \<open>Reading pairs of hexadecimal digits.\<close>

fun read_hex :: "string \<Rightarrow> byte list" where
  "read_hex (a # b # s) = of_nat (digits_val 16 [a, b]) # read_hex s"
| "read_hex s = []"

lemma hex_byte_two:
  obtains a b where "hex_byte x = [a, b]" "digits_val 16 [a, b] = unat x"
proof -
  have x: "unat x < 256" using unsigned_less [of x, where ?'a = nat] by simp
  have d: "digit_val (digit_char d) = Some d" if "d < 16" for d
    using digit_val_char that by simp
  show thesis
  proof (cases "unat x < 16")
    case True
    then have "hex_byte x = [CHR ''0'', digit_char (unat x)]"
      by (simp add: hex_byte_def num_str.simps [of 16 "unat x"] pad_zeros_def)
    moreover have "digit_val (CHR ''0'') = Some 0" by (simp add: js_eval)
    ultimately show thesis using that d True by (simp add: digits_val_def)
  next
    case False
    have lt: "unat x div 16 < 16" using x by (simp add: div_less_iff_less_mult)
    then have "hex_byte x = [digit_char (unat x div 16), digit_char (unat x mod 16)]"
      using False by (simp add: hex_byte_def num_str.simps [of 16 "unat x"] num_str.simps [of 16 "unat x div 16"] pad_zeros_def)
    then show thesis using that d lt by (simp add: digits_val_def)
  qed
qed

text \<open>
  The hexadecimal digest has two digits for each byte and reads back as the bytes, so two files
  are taken for the same only when their digests agree.
\<close>

theorem hex_digest_roundtrip:
  "read_hex (concat (map hex_byte bs)) = bs \<and> length (concat (map hex_byte bs)) = 2 * length bs"
proof (induction bs)
  case (Cons x bs)
  obtain a b where "hex_byte x = [a, b]" "digits_val 16 [a, b] = unat x" by (rule hex_byte_two)
  with Cons show ?case by simp
qed simp

text \<open>
  The percentages of the upload flow fall back: the last chunk shows 95, the start of parsing 92, and
  a job that then waits in the queue 88.
\<close>

lemma upload_progress_falls:
  assumes "jr_progress_percent job = 100" and "jr_status waiting = ''pending''" and "jr_progress_percent waiting = 0"
  shows "map percent (r_progress (snd (chunk_done srv jobId job l w))) = map percent (r_progress w) @ [95]"
    and "percent (jobProgressUpdate waiting) = 88"
  using assms by (simp_all add: chunk_done_def jobProgressUpdate_def Let_def split: option.split)

end
