(* ===== verification/Reingest.thy ===== *)
theory Reingest
  imports IngestProgress
begin

text \<open>
  Re-ingest with live progress: \<open>runReingestWithProgress\<close> of
  \<open>src/mobipwn-web/src/lib/reingestWithProgress.ts\<close> runs a blocking request, a waiting hint on a timer
  and the poll loop \<open>pollIngestJobWhile\<close> of \<open>ingestJobClient.ts\<close> next to each other. They are one
  state machine: each step is what the event loop runs in one turn, from one \<open>await\<close> to the next,
  and the steps of the three interleave freely.
\<close>

section \<open>States\<close>

record ReingestProgressLabels =
  lb_starting :: string
  lb_waiting :: string
  lb_complete :: string

text \<open>
  The poll loop awaits a reply, sleeps on its timer, or has ended; the caller awaits the action, then
  the poll loop, and has then returned the result or thrown; the hint's timer is set, has fired or is
  cleared.
\<close>

datatype Poll = Fetching | Sleeping | Ended

datatype Main = In_action | Joining | Returned | Rejected

datatype Timer = Timer_set | Timer_fired | Timer_cleared

record State =
  stop :: bool
  job_id :: "string option"
  poll :: Poll
  main :: Main
  timer :: Timer
  reported :: "IngestProgress list"

definition stage_progress :: "int \<Rightarrow> string \<Rightarrow> string \<Rightarrow> IngestProgress" where
  "stage_progress pct stg det = (progress pct P_processing (Some det))\<lparr>stage := Some stg\<rparr>"

definition report :: "IngestProgress \<Rightarrow> State \<Rightarrow> State" where
  "report p s = s\<lparr>reported := reported s @ [p]\<rparr>"

text \<open>The head of the loop: ask for a job again unless the signal says stop.\<close>

definition poll_head :: "State \<Rightarrow> State" where
  "poll_head s = s\<lparr>poll := (if stop s then Ended else Fetching)\<rparr>"

text \<open>The synchronous part of the call, up to the first \<open>await\<close>.\<close>

definition start :: "ReingestProgressLabels \<Rightarrow> State" where
  "start lb = poll_head (report (stage_progress 5 ''starting'' (lb_starting lb))
     \<lparr>stop = False, job_id = None, poll = Ended, main = In_action, timer = Timer_set, reported = []\<rparr>)"

section \<open>Steps\<close>

datatype Event =
    Jobs_reply "string + IngestJobDto list"
  | Job_reply "string + IngestJobDto"
  | Wake
  | Hint
  | Action_done
  | Action_failed
  | Join

text \<open>The body of the loop on each reply; an error is caught and the loop sleeps.\<close>

fun on_jobs :: "string + IngestJobDto list \<Rightarrow> State \<Rightarrow> State" where
  "on_jobs (Inl e) s = s\<lparr>poll := Sleeping\<rparr>"
| "on_jobs (Inr jobs) s =
     (case findActiveIngestJob jobs of
        None \<Rightarrow> s\<lparr>poll := Sleeping\<rparr>
      | Some active \<Rightarrow> report (ingestJobToProgress active) (s\<lparr>job_id := Some (jd_id active), poll := Sleeping\<rparr>))"

fun on_job :: "string + IngestJobDto \<Rightarrow> State \<Rightarrow> State" where
  "on_job (Inl e) s = s\<lparr>poll := Sleeping\<rparr>"
| "on_job (Inr job) s = report (ingestJobToProgress job)
     (s\<lparr>poll := (if jd_status job = ''done'' \<or> jd_status job = ''failed'' then Ended else Sleeping)\<rparr>)"

inductive step :: "ReingestProgressLabels \<Rightarrow> Event \<Rightarrow> State \<Rightarrow> State \<Rightarrow> bool" for lb where
  jobs: "poll s = Fetching \<Longrightarrow> truthy (job_id s) = None \<Longrightarrow> step lb (Jobs_reply r) s (on_jobs r s)"
| job: "poll s = Fetching \<Longrightarrow> truthy (job_id s) \<noteq> None \<Longrightarrow> step lb (Job_reply r) s (on_job r s)"
| wake: "poll s = Sleeping \<Longrightarrow> step lb Wake s (poll_head s)"
| hint: "timer s = Timer_set \<Longrightarrow> step lb Hint s
    ((if stop s then s else report (stage_progress 8 ''waiting'' (lb_waiting lb)) s)\<lparr>timer := Timer_fired\<rparr>)"
| action_done: "main s = In_action \<Longrightarrow> step lb Action_done s (s\<lparr>stop := True, main := Joining\<rparr>)"
| action_failed: "main s = In_action \<Longrightarrow>
    step lb Action_failed s (s\<lparr>stop := True, main := Rejected, timer := Timer_cleared\<rparr>)"
| join: "main s = Joining \<Longrightarrow> poll s = Ended \<Longrightarrow> step lb Join s
    ((report (stage_progress 100 ''done'' (lb_complete lb)) s)\<lparr>main := Returned, timer := Timer_cleared, stop := True\<rparr>)"

code_pred (modes: i \<Rightarrow> i \<Rightarrow> i \<Rightarrow> o \<Rightarrow> bool) step .

inductive_cases step_E: "step lb e s s'"

inductive_simps step_events:
  "step lb (Jobs_reply r) s s'" "step lb (Job_reply r) s s'" "step lb Wake s s'" "step lb Hint s s'"
  "step lb Action_done s s'" "step lb Action_failed s s'" "step lb Join s s'"

text \<open>Runs, with the events in order.\<close>

inductive run :: "ReingestProgressLabels \<Rightarrow> State \<Rightarrow> Event list \<Rightarrow> State \<Rightarrow> bool" for lb s where
  run_Nil: "run lb s [] s"
| run_snoc: "run lb s es t \<Longrightarrow> step lb e t u \<Longrightarrow> run lb s (es @ [e]) u"

section \<open>Invariants\<close>

definition hint_progress :: "ReingestProgressLabels \<Rightarrow> IngestProgress" where
  "hint_progress lb = stage_progress 8 ''waiting'' (lb_waiting lb)"

definition inv :: "ReingestProgressLabels \<Rightarrow> State \<Rightarrow> bool" where
  "inv lb s \<longleftrightarrow> (stop s \<longleftrightarrow> main s \<noteq> In_action)
     \<and> hd (reported s) = stage_progress 5 ''starting'' (lb_starting lb) \<and> reported s \<noteq> []
     \<and> (main s = Returned \<longrightarrow> poll s = Ended \<and> timer s = Timer_cleared
          \<and> last (reported s) = stage_progress 100 ''done'' (lb_complete lb))
     \<and> (main s = Rejected \<longrightarrow> timer s = Timer_cleared)"

lemma report_simps [simp]:
  "stop (report p s) = stop s" "job_id (report p s) = job_id s" "poll (report p s) = poll s"
  "main (report p s) = main s" "timer (report p s) = timer s" "reported (report p s) = reported s @ [p]"
  by (simp_all add: report_def)

lemma on_jobs_simps [simp]:
  "stop (on_jobs r s) = stop s" "main (on_jobs r s) = main s" "timer (on_jobs r s) = timer s"
  "poll (on_jobs r s) = Sleeping"
  by (cases r; simp split: option.split)+

lemma on_jobs_reported: "\<exists>ps. reported (on_jobs r s) = reported s @ ps \<and> length ps \<le> 1"
  by (cases r) (auto split: option.split)

lemma on_job_simps [simp]:
  "stop (on_job r s) = stop s" "main (on_job r s) = main s" "timer (on_job r s) = timer s"
  by (cases r; simp)+

lemma on_job_poll: "poll (on_job r s) \<noteq> Fetching"
  by (cases r) simp_all

lemma on_job_reported: "\<exists>ps. reported (on_job r s) = reported s @ ps \<and> length ps \<le> 1"
  by (cases r) auto

lemma poll_head_simps [simp]:
  "stop (poll_head s) = stop s" "main (poll_head s) = main s" "timer (poll_head s) = timer s"
  "reported (poll_head s) = reported s" "poll (poll_head s) = (if stop s then Ended else Fetching)"
  by (simp_all add: poll_head_def)

lemma inv_start: "inv lb (start lb)"
  by (simp add: inv_def start_def)

lemma inv_step: "step lb e s s' \<Longrightarrow> inv lb s \<Longrightarrow> inv lb s'"
proof (induction rule: step.induct)
  case (jobs s r)
  with on_jobs_reported [of r s] show ?case by (auto simp: inv_def)
next
  case (job s r)
  with on_job_reported [of r s] show ?case by (auto simp: inv_def)
qed (auto simp: inv_def)

lemma inv_run: "run lb s es t \<Longrightarrow> inv lb s \<Longrightarrow> inv lb t"
  by (induction rule: run.induct) (auto intro: inv_step)

text \<open>Once the caller has returned, nothing can happen any more.\<close>

lemma returned_is_final:
  assumes "inv lb s" and "main s = Returned"
  shows "\<not> step lb e s s'"
  using assms by (auto simp: inv_def elim: step_E)

text \<open>
  C11: In every run, whatever the order in which replies, timers and the action come: when the call
  has returned its result, the poll loop has ended, the last progress value is the final one and no
  further event can happen, so no late value overwrites it. Progress starts with the starting value.
\<close>

theorem reingest_returns_last:
  assumes "run lb (start lb) es s" and "main s = Returned"
  shows "last (reported s) = stage_progress 100 ''done'' (lb_complete lb)
    \<and> hd (reported s) = stage_progress 5 ''starting'' (lb_starting lb)
    \<and> poll s = Ended \<and> \<not> step lb e s s'"
  using inv_run [OF assms(1) inv_start] assms(2) returned_is_final [of lb s e s'] by (auto simp: inv_def)

lemma run_snoc_iff: "run lb s (es @ [e]) u \<longleftrightarrow> (\<exists>t. run lb s es t \<and> step lb e t u)"
  by (auto intro: run_snoc elim: run.cases)

definition sample_labels :: ReingestProgressLabels where
  "sample_labels = \<lparr>lb_starting = ''Starting'', lb_waiting = ''Waiting'', lb_complete = ''Complete''\<rparr>"

definition job_in :: "string \<Rightarrow> int \<Rightarrow> IngestJobDto" where
  "job_in status pct = \<lparr>jd_id = ''j1'', jd_source = ''s'', jd_status = status, jd_events_count = 0,
     jd_progress_percent = pct, jd_stage = None, jd_stage_detail = None, jd_error = None,
     jd_progress = None, jd_bytes_received = None, jd_file_size = None\<rparr>"

text \<open>The same steps as a function, and running a list of events with it.\<close>

fun react :: "ReingestProgressLabels \<Rightarrow> Event \<Rightarrow> State \<Rightarrow> State option" where
  "react lb (Jobs_reply r) s = (if poll s = Fetching \<and> truthy (job_id s) = None then Some (on_jobs r s) else None)"
| "react lb (Job_reply r) s = (if poll s = Fetching \<and> truthy (job_id s) \<noteq> None then Some (on_job r s) else None)"
| "react lb Wake s = (if poll s = Sleeping then Some (poll_head s) else None)"
| "react lb Hint s = (if timer s = Timer_set
     then Some ((if stop s then s else report (stage_progress 8 ''waiting'' (lb_waiting lb)) s)\<lparr>timer := Timer_fired\<rparr>)
     else None)"
| "react lb Action_done s = (if main s = In_action then Some (s\<lparr>stop := True, main := Joining\<rparr>) else None)"
| "react lb Action_failed s = (if main s = In_action
     then Some (s\<lparr>stop := True, main := Rejected, timer := Timer_cleared\<rparr>) else None)"
| "react lb Join s = (if main s = Joining \<and> poll s = Ended
     then Some ((report (stage_progress 100 ''done'' (lb_complete lb)) s)\<lparr>main := Returned, timer := Timer_cleared, stop := True\<rparr>)
     else None)"

lemma step_react: "step lb e s s' \<longleftrightarrow> react lb e s = Some s'"
  by (cases e) (auto simp: step_events)

fun exec_events :: "ReingestProgressLabels \<Rightarrow> Event list \<Rightarrow> State \<Rightarrow> State option" where
  "exec_events lb [] s = Some s"
| "exec_events lb (e # es) s = Option.bind (react lb e s) (exec_events lb es)"

lemma exec_events_run: "exec_events lb es s = Some t \<Longrightarrow> run lb r fs s \<Longrightarrow> run lb r (fs @ es) t"
proof (induction es arbitrary: s fs)
  case (Cons e es)
  then obtain u where "step lb e s u" "exec_events lb es u = Some t"
    by (auto simp: step_react split: bind_splits)
  with Cons.prems(2) Cons.IH [of u "fs @ [e]"] show ?case by (simp add: run_snoc)
qed simp

lemma exec_start: "exec_events lb es (start lb) = Some t \<Longrightarrow> run lb (start lb) es t"
  using exec_events_run [of lb es "start lb" t "start lb" "[]"] by (simp add: run_Nil)

lemma reingest_returns_last_witness:
  "\<exists>s. run sample_labels (start sample_labels)
        [Jobs_reply (Inr [job_in ''running'' 40]), Action_done, Wake, Join] s
     \<and> last (reported s) = stage_progress 100 ''done'' ''Complete''"
proof -
  have "map_option main (exec_events sample_labels
      [Jobs_reply (Inr [job_in ''running'' 40]), Action_done, Wake, Join] (start sample_labels)) = Some Returned"
    by code_simp
  then obtain s where s: "exec_events sample_labels
      [Jobs_reply (Inr [job_in ''running'' 40]), Action_done, Wake, Join] (start sample_labels) = Some s"
    and m: "main s = Returned" by blast
  from reingest_returns_last [OF exec_start [OF s] m] exec_start [OF s] show ?thesis
    by (auto simp: sample_labels_def)
qed

section \<open>What happens after the stop signal\<close>

text \<open>How many more steps there can be once the signal is set.\<close>

definition steps_left :: "State \<Rightarrow> nat" where
  "steps_left s = (case poll s of Fetching \<Rightarrow> 2 | Sleeping \<Rightarrow> 1 | Ended \<Rightarrow> 0)
     + (if timer s = Timer_set then 1 else 0) + (if main s = Joining then 1 else 0)"

definition values_left :: "State \<Rightarrow> nat" where
  "values_left s = (if poll s = Fetching then 1 else 0) + (if main s = Joining then 1 else 0)"

lemma stopped_step:
  assumes "step lb e s s'" and "stop s" and "main s \<noteq> In_action"
  shows "stop s' \<and> main s' \<noteq> In_action \<and> steps_left s' < steps_left s
    \<and> length (reported s') + values_left s' \<le> length (reported s) + values_left s
    \<and> (\<exists>ps. reported s' = reported s @ ps)"
  using assms
proof (induction rule: step.induct)
  case (jobs s r)
  with on_jobs_reported [of r s] show ?case by (auto simp: steps_left_def values_left_def)
next
  case (job s r)
  with on_job_reported [of r s] on_job_poll [of r s] show ?case
    by (auto simp: steps_left_def values_left_def split: Poll.splits)
qed (auto simp: steps_left_def values_left_def)

text \<open>
  C12: Once the action has finished, every run ends after at most four more steps, with at most two
  more progress values: the reply on its way and the final value. After a failure at most one more
  value, that of the reply on its way, can still be reported.
\<close>

theorem reingest_ends:
  assumes "run lb s es t" and "inv lb s" and "main s \<noteq> In_action"
  shows "length es + steps_left t \<le> steps_left s \<and> steps_left s \<le> 4
    \<and> (\<exists>ps. reported t = reported s @ ps \<and> length ps \<le> (if main s = Rejected then 1 else 2))"
proof -
  have "stop t \<and> main t \<noteq> In_action \<and> length es + steps_left t \<le> steps_left s
      \<and> length (reported t) + values_left t \<le> length (reported s) + values_left s
      \<and> (\<exists>ps. reported t = reported s @ ps)"
    using assms(1)
  proof (induction rule: run.induct)
    case run_Nil
    then show ?case using assms(2,3) by (simp add: inv_def)
  next
    case (run_snoc es t e u)
    with stopped_step [OF run_snoc.hyps(2)] show ?case by auto
  qed
  moreover have "values_left s \<le> (if main s = Rejected then 1 else 2)" "steps_left s \<le> 4"
    by (auto simp: values_left_def steps_left_def split: Poll.split)
  ultimately show ?thesis by auto
qed

text \<open>A late reply after the call has thrown: the progress of the job is reported once more.\<close>

definition failed_state :: State where
  "failed_state = \<lparr>stop = True, job_id = None, poll = Fetching, main = Rejected, timer = Timer_cleared,
     reported = [stage_progress 5 ''starting'' ''Starting'']\<rparr>"

lemma failed_reachable: "run sample_labels (start sample_labels) [Action_failed] failed_state"
  by (rule exec_start) (simp add: start_def failed_state_def report_def poll_head_def sample_labels_def)

lemma late_value_after_failure:
  "run sample_labels failed_state [Jobs_reply (Inr [job_in ''running'' 40])]
     (on_jobs (Inr [job_in ''running'' 40]) failed_state)
   \<and> map percent (reported (on_jobs (Inr [job_in ''running'' 40]) failed_state)) = [5, 40]"
proof -
  have "step sample_labels (Jobs_reply (Inr [job_in ''running'' 40])) failed_state
      (on_jobs (Inr [job_in ''running'' 40]) failed_state)"
    by (rule step.jobs) (simp_all add: failed_state_def truthy_def)
  from run_snoc [OF run_Nil this] show ?thesis
    by (simp add: failed_state_def findActiveIngestJob_def job_in_def ingestJobToProgress_def
        stage_progress_def progress_def)
qed

lemma reingest_ends_witness:
  "length [Jobs_reply (Inr [job_in ''running'' 40])]
     + steps_left (on_jobs (Inr [job_in ''running'' 40]) failed_state) \<le> steps_left failed_state"
proof -
  have "inv sample_labels failed_state"
    using inv_run [OF failed_reachable inv_start] .
  moreover have "main failed_state \<noteq> In_action" by (simp add: failed_state_def)
  ultimately show ?thesis using reingest_ends late_value_after_failure by blast
qed

text \<open>The waiting hint appears although the job is already known and at 40 percent.\<close>

lemma hint_after_progress:
  "\<exists>s. run sample_labels (start sample_labels) [Jobs_reply (Inr [job_in ''running'' 40]), Hint] s
     \<and> map percent (reported s) = [5, 40, 8]"
proof -
  have "map_option (\<lambda>s. map percent (reported s)) (exec_events sample_labels
      [Jobs_reply (Inr [job_in ''running'' 40]), Hint] (start sample_labels)) = Some [5, 40, 8]"
    by code_simp
  then obtain s where "exec_events sample_labels [Jobs_reply (Inr [job_in ''running'' 40]), Hint] (start sample_labels) = Some s"
    "map percent (reported s) = [5, 40, 8]" by auto
  then show ?thesis by (intro exI conjI exec_start)
qed

end
