(* ===== verification/AccessControl.thy ===== *)
theory AccessControl
  imports Prelude
begin

text \<open>
  Who may do what: \<open>src/mobipwn-web/src/lib/permissions.ts\<close>. A permission is a member of a union of
  string literals, so a string here; the table of routes is an association list. Paths are location
  paths and roles are names from the server, so the look-ups never meet a property that JavaScript
  objects inherit.
\<close>

section \<open>Users and permissions\<close>

type_synonym Permission = string

definition permission_names :: "Permission list" where
  "permission_names =
     [''search_run'', ''search_export'', ''alerts_read'', ''alerts_write'', ''rules_read'', ''rules_write'',
      ''cases_read'', ''cases_write'', ''ingest_write'', ''dashboards_read'', ''dashboards_write'',
      ''saved_queries_write'', ''marketplace_read'', ''marketplace_write'', ''settings_read'',
      ''settings_write'', ''users_admin'', ''data_admin'', ''health_read'', ''notifications_write'', ''llm_use'']"

record AuthUser =
  au_id :: string
  au_username :: string
  au_role :: string
  au_totp_enabled :: bool
  au_webauthn_enabled :: "bool option"
  au_created_at :: "string option"
  au_permissions :: "Permission list option"

definition ANALYST :: "Permission list" where
  "ANALYST =
     [''search_run'', ''search_export'', ''alerts_read'', ''alerts_write'', ''rules_read'', ''rules_write'',
      ''cases_read'', ''cases_write'', ''ingest_write'', ''dashboards_read'', ''dashboards_write'',
      ''saved_queries_write'', ''marketplace_read'', ''marketplace_write'', ''health_read'', ''llm_use'']"

definition VIEWER :: "Permission list" where
  "VIEWER =
     [''search_run'', ''search_export'', ''alerts_read'', ''rules_read'', ''cases_read'',
      ''dashboards_read'', ''marketplace_read'', ''health_read'']"

definition ROLE_FALLBACK :: "string \<rightharpoonup> Permission list" where
  "ROLE_FALLBACK = map_of [(''analyst'', ANALYST), (''viewer'', VIEWER)]"

definition permissionsForUser :: "AuthUser option \<Rightarrow> Permission list" where
  "permissionsForUser user =
     (case user of None \<Rightarrow> []
      | Some u \<Rightarrow>
          if au_role u = ''admin''
          then ANALYST @ [''settings_read'', ''settings_write'', ''users_admin'', ''data_admin'', ''notifications_write'']
          else (case au_permissions u of
              Some (p # ps) \<Rightarrow> p # ps
            | _ \<Rightarrow> get_or [] (ROLE_FALLBACK (au_role u))))"

definition hasPermission :: "AuthUser option \<Rightarrow> Permission \<Rightarrow> bool" where
  "hasPermission user perm =
     (case user of None \<Rightarrow> False
      | Some u \<Rightarrow> au_role u = ''admin'' \<or> perm \<in> set (permissionsForUser user))"

section \<open>Routes\<close>

definition ROUTE_PERMISSIONS :: "(string \<times> Permission option) list" where
  "ROUTE_PERMISSIONS =
     [(''/'', None),
      (''/search'', Some ''search_run''),
      (''/search/guide'', Some ''search_run''),
      (''/search/mpl'', Some ''search_run''),
      (''/guide/architecture'', None),
      (''/guide/agents'', None),
      (''/guide/agents/search'', None),
      (''/dashboards'', Some ''dashboards_read''),
      (''/alerts'', Some ''alerts_read''),
      (''/inbox'', Some ''cases_read''),
      (''/cases/search'', Some ''cases_read''),
      (''/cases'', Some ''cases_read''),
      (''/rules'', Some ''rules_read''),
      (''/r'', Some ''rules_read''),
      (''/a'', Some ''alerts_read''),
      (''/ingest'', Some ''ingest_write''),
      (''/data'', Some ''search_run''),
      (''/mudm'', Some ''search_run''),
      (''/marketplace'', Some ''marketplace_read''),
      (''/collector'', Some ''ingest_write''),
      (''/case-comparison'', Some ''cases_read''),
      (''/bugreport-comparison'', Some ''cases_read''),
      (''/health'', Some ''health_read''),
      (''/settings'', None),
      (''/logs'', None)]"

definition route_permission :: "string \<Rightarrow> Permission option" where
  "route_permission path = get_or None (map_of ROUTE_PERMISSIONS path)"

definition path_segments :: "string \<Rightarrow> string list" where
  "path_segments path = nonempty (split_char (CHR ''/'') path)"

definition canAccessRoute :: "AuthUser option \<Rightarrow> string \<Rightarrow> bool" where
  "canAccessRoute user path =
     (case user of None \<Rightarrow> False
      | Some u \<Rightarrow>
          let segments = path_segments path;
              first = ''/'' @ (case segments of s # _ \<Rightarrow> s | [] \<Rightarrow> []);
              base = (case segments of s # t # _ \<Rightarrow> ''/'' @ s @ ''/'' @ t | _ \<Rightarrow> first);
              perm = or_else (route_permission path) (or_else (route_permission base) (route_permission first))
          in case perm of None \<Rightarrow> True | Some p \<Rightarrow> hasPermission user p)"

section \<open>Facts\<close>

text \<open>Every entry of the table is what the entry of its first segment says.\<close>

definition segment_path :: "string \<Rightarrow> string" where
  "segment_path path = ''/'' @ (case path_segments path of s # _ \<Rightarrow> s | [] \<Rightarrow> [])"

lemma table_by_segment:
  "list_all (\<lambda>(path, perm). perm = route_permission (segment_path path)) ROUTE_PERMISSIONS"
  by code_simp

lemma route_permission_segment:
  "route_permission path = None \<or> route_permission path = route_permission (segment_path path)"
proof (cases "map_of ROUTE_PERMISSIONS path")
  case (Some perm)
  then have "(path, perm) \<in> set ROUTE_PERMISSIONS" by (rule map_of_SomeD)
  with table_by_segment have "perm = route_permission (segment_path path)" by (auto simp: list_all_iff)
  with Some show ?thesis by (simp add: route_permission_def [of path] get_or_def)
qed (simp add: route_permission_def get_or_def)

lemma split_char_no_slash: "w \<in> set (split_char c s) \<Longrightarrow> c \<notin> set w"
  by (induction s arbitrary: w) (auto split: if_splits list.splits)

lemma segments_plain: "path_segments path = s # ss \<Longrightarrow> s \<noteq> [] \<and> CHR ''/'' \<notin> set s \<and> list_all (\<lambda>t. t \<noteq> [] \<and> CHR ''/'' \<notin> set t) ss"
  using split_char_no_slash [of _ "CHR ''/''" path] Cons_eq_filterD [of s ss "\<lambda>s. s \<noteq> []" "split_char (CHR ''/'') path"]
  by (auto simp: path_segments_def nonempty_def list_all_iff eq_commute [of "filter _ _"])

lemma path_segments_slash: "CHR ''/'' \<notin> set s \<Longrightarrow> s \<noteq> [] \<Longrightarrow> path_segments (CHR ''/'' # s) = [s]"
  by (simp add: path_segments_def nonempty_def split_char_no_sep)

lemma path_segments_slash2:
  "CHR ''/'' \<notin> set s \<Longrightarrow> s \<noteq> [] \<Longrightarrow> CHR ''/'' \<notin> set t \<Longrightarrow> t \<noteq> []
   \<Longrightarrow> path_segments (CHR ''/'' # s @ CHR ''/'' # t) = [s, t]"
  by (simp add: path_segments_def nonempty_def split_char_append split_char_no_sep)

lemma segment_path_idem: "segment_path (segment_path path) = segment_path path"
proof (cases "path_segments path")
  case Nil
  then show ?thesis by (simp add: segment_path_def path_segments_def nonempty_def)
next
  case (Cons s ss)
  with segments_plain [OF this] show ?thesis by (simp add: segment_path_def path_segments_slash)
qed

lemma segment_path_base:
  "path_segments path = s # t # ss \<Longrightarrow> segment_path (''/'' @ s @ ''/'' @ t) = segment_path path"
  using segments_plain [of path s "t # ss"] by (simp add: segment_path_def path_segments_slash2)

lemma or_else_same: "a = None \<or> a = c \<Longrightarrow> b = None \<or> b = c \<Longrightarrow> or_else a (or_else b c) = c"
  by (cases c) (auto simp: or_else_def)

lemma table_permissions:
  "list_all (\<lambda>(path, perm). case perm of None \<Rightarrow> True | Some p \<Rightarrow> p \<in> set permission_names) ROUTE_PERMISSIONS"
  by code_simp

lemma route_permission_name: "route_permission path = Some p \<Longrightarrow> p \<in> set permission_names"
  using table_permissions map_of_SomeD [of ROUTE_PERMISSIONS path "Some p"]
  by (cases "map_of ROUTE_PERMISSIONS path") (auto simp: route_permission_def get_or_def list_all_iff)

definition sublist_of :: "'a list \<Rightarrow> 'a list \<Rightarrow> bool" where
  "sublist_of xs ys \<longleftrightarrow> list_all (\<lambda>x. x \<in> set ys) xs"

definition ADMIN_EXTRA :: "Permission list" where
  "ADMIN_EXTRA = [''settings_read'', ''settings_write'', ''users_admin'', ''data_admin'', ''notifications_write'']"

lemma role_lists_eval:
  "sublist_of (ANALYST @ ADMIN_EXTRA) permission_names \<and> sublist_of permission_names (ANALYST @ ADMIN_EXTRA)
   \<and> sublist_of VIEWER ANALYST"
  by code_simp

lemma role_lists:
  "set (ANALYST @ ADMIN_EXTRA) = set permission_names" "set VIEWER \<subseteq> set ANALYST"
  using role_lists_eval unfolding sublist_of_def list_all_iff by blast+

lemma admin_permissions: "au_role u = ''admin'' \<Longrightarrow> set (permissionsForUser (Some u)) = set permission_names"
  using role_lists(1) by (simp add: permissionsForUser_def ADMIN_EXTRA_def)

lemma has_permission_member:
  "p \<in> set permission_names \<Longrightarrow> hasPermission user p \<longleftrightarrow> p \<in> set (permissionsForUser user)"
  using admin_permissions by (auto simp: hasPermission_def permissionsForUser_def split: option.splits)

lemma access_first:
  "canAccessRoute user path =
     (case user of None \<Rightarrow> False
      | Some u \<Rightarrow> (case route_permission (segment_path path) of None \<Rightarrow> True | Some p \<Rightarrow> hasPermission user p))"
proof (cases "path_segments path")
  case Nil
  then show ?thesis
    using route_permission_segment [of path]
    by (auto simp: canAccessRoute_def segment_path_def or_else_def Let_def split: option.splits)
next
  case (Cons s ss)
  show ?thesis
  proof (cases ss)
    case Nil
    with Cons route_permission_segment [of path] show ?thesis
      by (auto simp: canAccessRoute_def segment_path_def or_else_def Let_def split: option.splits)
  next
    case (Cons t ts)
    with \<open>path_segments path = s # ss\<close> have p: "path_segments path = s # t # ts" by simp
    have "route_permission (''/'' @ s @ ''/'' @ t) = None
        \<or> route_permission (''/'' @ s @ ''/'' @ t) = route_permission (segment_path path)"
      using route_permission_segment [of "''/'' @ s @ ''/'' @ t"] segment_path_base [OF p] by simp
    from or_else_same [OF route_permission_segment [of path] this] p show ?thesis
      by (cases user) (auto simp: canAccessRoute_def segment_path_def Let_def)
  qed
qed

text \<open>
  C14: Whether a user may open a page depends on the first segment of its path alone: nobody
  signed in opens nothing, a segment that is not in the table (or has no permission there) is open to
  every user, and any other segment to those whose permission list names its permission. The list
  that the menus show and the check that guards a single action agree on every permission, so the
  short cut for administrators changes nothing.
\<close>

theorem access_by_segment:
  "canAccessRoute user path =
     (case user of None \<Rightarrow> False
      | Some u \<Rightarrow> (case route_permission (segment_path path) of None \<Rightarrow> True
                  | Some p \<Rightarrow> p \<in> set (permissionsForUser user)))
   \<and> list_all (\<lambda>p. hasPermission user p = (p \<in> set (permissionsForUser user))) permission_names"
proof
  show "canAccessRoute user path =
     (case user of None \<Rightarrow> False
      | Some u \<Rightarrow> (case route_permission (segment_path path) of None \<Rightarrow> True
                  | Some p \<Rightarrow> p \<in> set (permissionsForUser user)))"
    unfolding access_first using route_permission_name has_permission_member
    by (auto split: option.splits)
qed (simp add: list_all_iff has_permission_member)

definition in_role :: "string \<Rightarrow> AuthUser \<Rightarrow> AuthUser option" where
  "in_role r u = Some (u\<lparr>au_role := r, au_permissions := None\<rparr>)"

lemma role_permissions:
  "permissionsForUser (in_role ''viewer'' u) = VIEWER" "permissionsForUser (in_role ''analyst'' u) = ANALYST"
  "hasPermission (in_role ''admin'' u) p"
  "r \<noteq> ''admin'' \<Longrightarrow> hasPermission (in_role r u) p = (p \<in> set (permissionsForUser (in_role r u)))"
  by (simp_all add: in_role_def permissionsForUser_def hasPermission_def ROLE_FALLBACK_def get_or_def)

lemma access_in_role:
  "canAccessRoute (in_role r u) path =
     (case route_permission (segment_path path) of None \<Rightarrow> True | Some p \<Rightarrow> hasPermission (in_role r u) p)"
  by (simp add: access_first) (simp add: in_role_def)

text \<open>
  The built-in roles are nested: what a viewer may open an analyst may open, and what an analyst may
  open an administrator may.
\<close>

theorem roles_nested:
  "canAccessRoute (in_role ''viewer'' u) path \<le> canAccessRoute (in_role ''analyst'' u) path
   \<and> canAccessRoute (in_role ''analyst'' u) path \<le> canAccessRoute (in_role ''admin'' u) path"
  unfolding access_in_role
  using role_lists(2) by (auto simp: role_permissions split: option.splits)

end
