(* ===== verification/ApiClient.thy ===== *)
theory ApiClient
  imports ActivityLog MplQuery
begin

text \<open>
  Requests to the server and what becomes of the replies: \<open>response.ts\<close>, \<open>api.ts\<close>, the session
  and the calls of \<open>auth.ts\<close>, \<open>apiKeys.ts\<close>, \<open>alerts.ts\<close>, \<open>shortUrl.ts\<close> and \<open>ruleRun.ts\<close>
  (all under \<open>src/mobipwn-web/src/lib\<close>). A call is the request it sends and the way it reads the
  reply; an exception is the left summand, with its message. \<open>JSON.parse\<close> is an argument, named
  \<open>parse\<close>; the response body is the text that \<open>res.text()\<close> resolves to.
\<close>

section \<open>Replies\<close>

type_synonym parser = "string \<Rightarrow> Json option"
type_synonym reply = "string + Json option"

datatype Thrown = ErrorObject string | ThrownText string | ThrownOther Json

definition REQUEST_FAILED :: string where
  "REQUEST_FAILED = ''Request failed''"

definition or_text :: "string \<Rightarrow> string \<Rightarrow> string" where
  "or_text s t = (if s \<noteq> [] then s else t)"

definition truthy_field :: "Json \<Rightarrow> string \<Rightarrow> Json option" where
  "truthy_field v k = (case field v k of Some x \<Rightarrow> if js_truthy x then Some x else None | None \<Rightarrow> None)"

fun parseApiError :: "parser \<Rightarrow> Thrown \<Rightarrow> Json" where
  "parseApiError parse (ErrorObject m) =
     (let msg = trim m;
          parsed = (if starts_with ''{'' msg then parse msg else None);
          named = (case parsed of
              Some v \<Rightarrow> or_else (truthy_field v ''error'') (truthy_field v ''message'')
            | None \<Rightarrow> None)
      in case named of Some x \<Rightarrow> x | None \<Rightarrow> JStr (or_text msg REQUEST_FAILED))"
| "parseApiError parse (ThrownText s) = JStr (or_text (trim s) REQUEST_FAILED)"
| "parseApiError parse (ThrownOther v) = JStr (js_text v)"

definition http_status :: "Response \<Rightarrow> string" where
  "http_status res = ''HTTP '' @ nat_str (rs_status res)"

definition failure_text :: "Response \<Rightarrow> Json option \<Rightarrow> string" where
  "failure_text res data =
     (case (case data of Some (JObj kvs) \<Rightarrow> map_of kvs ''error'' | _ \<Rightarrow> None) of
        Some (JStr msg) \<Rightarrow> msg
      | _ \<Rightarrow> or_text (rs_body res) (or_text (rs_statusText res) (http_status res)))"

definition parseApiResponse :: "parser \<Rightarrow> Response \<Rightarrow> reply" where
  "parseApiResponse parse res =
     (let text = rs_body res in
      if trim text \<noteq> [] \<and> parse text = None
      then (if \<not> res_ok res
            then Inl (or_text (take 2000 text) (or_text (rs_statusText res) (http_status res)))
            else Inl (''Invalid JSON response ('' @ http_status res @ ''): '' @ or_text (take 200 text) ''(empty)''))
      else let data = (if trim text \<noteq> [] then parse text else None) in
        if \<not> res_ok res then Inl (failure_text res data)
        else if data = None
        then (if rs_status res = 204 \<or> rs_status res = 205 then Inr None
              else Inl (http_status res @ '': empty response body''))
        else Inr data)"

section \<open>The session\<close>

type_synonym Session = "string \<rightharpoonup> string"
type_synonym headers = "(string \<times> string) list"

definition TOKEN_KEY :: string where
  "TOKEN_KEY = ''mobipwn_session''"

definition read_item :: "Session \<Rightarrow> string \<Rightarrow> string option" where
  "read_item st k = st k"

definition write_item :: "Session \<Rightarrow> string \<Rightarrow> string \<Rightarrow> Session" where
  "write_item st k v = st(k := Some v)"

definition drop_item :: "Session \<Rightarrow> string \<Rightarrow> Session" where
  "drop_item st k = st(k := None)"

definition getSessionToken :: "Session \<Rightarrow> string option" where
  "getSessionToken st = read_item st TOKEN_KEY"

definition setSessionToken :: "string option \<Rightarrow> Session \<Rightarrow> Session" where
  "setSessionToken token st =
     (case truthy token of Some t \<Rightarrow> write_item st TOKEN_KEY t | None \<Rightarrow> drop_item st TOKEN_KEY)"

definition authHeaders :: "Session \<Rightarrow> headers" where
  "authHeaders st =
     (case truthy (getSessionToken st) of Some t \<Rightarrow> [(''Authorization'', ''Bearer '' @ t)] | None \<Rightarrow> [])"

text \<open>The object literal \<open>{...xs, ...ys}\<close>: a later value of a key replaces the earlier one in its
  place.\<close>

definition spread :: "headers \<Rightarrow> headers \<Rightarrow> headers" where
  "spread xs ys = foldl (\<lambda>acc (k, v). set_param k v acc) xs ys"

section \<open>Requests\<close>

record Request =
  rq_method :: string
  rq_url :: string
  rq_headers :: headers
  rq_body :: "Json option"

record Call =
  c_request :: Request
  c_reply :: "Response \<Rightarrow> reply"

definition CONTENT_JSON :: "string \<times> string" where
  "CONTENT_JSON = (''Content-Type'', ''application/json'')"

definition bare_request :: "string \<Rightarrow> string \<Rightarrow> headers \<Rightarrow> Request" where
  "bare_request method url hs = \<lparr>rq_method = method, rq_url = url, rq_headers = hs, rq_body = None\<rparr>"

definition json_request :: "string \<Rightarrow> string \<Rightarrow> headers \<Rightarrow> Json \<Rightarrow> Request" where
  "json_request method url hs body =
     \<lparr>rq_method = method, rq_url = url, rq_headers = hs, rq_body = Some body\<rparr>"

text \<open>Awaiting the call: a request that fails on the way rejects with its own message.\<close>

definition answer :: "Call \<Rightarrow> Outcome \<Rightarrow> reply" where
  "answer c outcome = (case outcome of Answered res \<Rightarrow> c_reply c res | Threw err \<Rightarrow> Inl err)"

text \<open>An object member whose value may be undefined is left out of the text.\<close>

definition members :: "(string \<times> Json option) list \<Rightarrow> Json" where
  "members kvs = JObj (List.map_filter (\<lambda>(k, v). map_option (Pair k) v) kvs)"

text \<open>What the caller passes as \<open>init.headers\<close>: nothing, an object, or an instance of \<open>Headers\<close>
  (whose entries have lower-case names and which has no members to spread).\<close>

datatype HeadersInit = NoHeaders | HeadersLiteral headers | HeadersInstance headers

fun spreadable :: "HeadersInit \<Rightarrow> headers" where
  "spreadable NoHeaders = []"
| "spreadable (HeadersLiteral hs) = hs"
| "spreadable (HeadersInstance hs) = []"

definition mergeHeaders :: "Session \<Rightarrow> HeadersInit \<Rightarrow> headers" where
  "mergeHeaders st hinit = spread (spread [CONTENT_JSON] (authHeaders st)) (spreadable hinit)"

definition apiPost :: "parser \<Rightarrow> Session \<Rightarrow> string \<Rightarrow> Json \<Rightarrow> Call" where
  "apiPost parse st path body =
     \<lparr>c_request = json_request ''POST'' (''/api'' @ path) (mergeHeaders st NoHeaders) body,
      c_reply = parseApiResponse parse\<rparr>"

definition apiFetch :: "parser \<Rightarrow> Session \<Rightarrow> string \<Rightarrow> string \<Rightarrow> HeadersInit \<Rightarrow> Json option \<Rightarrow> Call" where
  "apiFetch parse st path method hinit body =
     \<lparr>c_request = \<lparr>rq_method = method, rq_url = ''/api'' @ path, rq_headers = mergeHeaders st hinit, rq_body = body\<rparr>,
      c_reply = (\<lambda>res. if rs_status res = 204 then Inr None else parseApiResponse parse res)\<rparr>"

subsection \<open>The fetch interceptor\<close>

text \<open>The first argument of \<open>fetch\<close>: a text, a URL object (origin and path), or a request object.\<close>

datatype FetchInput = TextInput string | UrlInput string string | RequestInput string

fun input_url :: "FetchInput \<Rightarrow> string" where
  "input_url (TextInput s) = s"
| "input_url (UrlInput origin pathname) = pathname"
| "input_url (RequestInput url) = url"

fun listed :: "HeadersInit \<Rightarrow> headers" where
  "listed NoHeaders = []"
| "listed (HeadersLiteral hs) = hs"
| "listed (HeadersInstance hs) = hs"

definition installAuthFetchInterceptor :: "Session \<Rightarrow> FetchInput \<Rightarrow> HeadersInit \<Rightarrow> HeadersInit" where
  "installAuthFetchInterceptor st input hinit =
     (if starts_with ''/api/'' (input_url input)
      then HeadersLiteral (spread (authHeaders st) (listed hinit))
      else hinit)"

text \<open>The value that the browser sends for a header: names are compared without case and the values
  of one name are joined.\<close>

definition header_value :: "string \<Rightarrow> HeadersInit \<Rightarrow> string option" where
  "header_value name hinit =
     (case filter (\<lambda>(k, v). to_lower k = to_lower name) (listed hinit) of
        [] \<Rightarrow> None | kvs \<Rightarrow> Some (join '', '' (map snd kvs)))"

section \<open>The calls of auth.ts\<close>

definition json_headers :: "Session \<Rightarrow> headers" where
  "json_headers st = spread (authHeaders st) [CONTENT_JSON]"

definition fetchAuthStatus :: "parser \<Rightarrow> Call" where
  "fetchAuthStatus parse = \<lparr>c_request = bare_request ''GET'' ''/api/v1/auth/status'' [], c_reply = parseApiResponse parse\<rparr>"

definition login :: "parser \<Rightarrow> string \<Rightarrow> string \<Rightarrow> Call" where
  "login parse username password =
     \<lparr>c_request = json_request ''POST'' ''/api/v1/auth/login'' [CONTENT_JSON]
        (JObj [(''username'', JStr username), (''password'', JStr password)]),
      c_reply = parseApiResponse parse\<rparr>"

definition verifyMfa :: "parser \<Rightarrow> string \<Rightarrow> string \<Rightarrow> Call" where
  "verifyMfa parse challengeId pin =
     \<lparr>c_request = json_request ''POST'' ''/api/v1/auth/mfa'' [CONTENT_JSON]
        (JObj [(''challenge_id'', JStr challengeId), (''code'', JStr pin)]),
      c_reply = parseApiResponse parse\<rparr>"

text \<open>\<open>fetchMe\<close> and \<open>logout\<close> also change the session. Without a token no request is sent;
  an error of the logout request is swallowed.\<close>

definition me_request :: "Session \<Rightarrow> Request option" where
  "me_request st =
     (case truthy (getSessionToken st) of None \<Rightarrow> None
      | Some t \<Rightarrow> Some (bare_request ''GET'' ''/api/v1/auth/me'' (authHeaders st)))"

definition fetchMe :: "parser \<Rightarrow> Outcome \<Rightarrow> Session \<Rightarrow> reply \<times> Session" where
  "fetchMe parse outcome st =
     (case me_request st of
        None \<Rightarrow> (Inr None, st)
      | Some rq \<Rightarrow>
          (case outcome of
             Threw err \<Rightarrow> (Inl err, st)
           | Answered res \<Rightarrow>
               if rs_status res = 401 then (Inr None, setSessionToken None st)
               else if \<not> res_ok res then (Inr None, st)
               else (parseApiResponse parse res, st)))"

definition logout_request :: "Session \<Rightarrow> Request" where
  "logout_request st = bare_request ''POST'' ''/api/v1/auth/logout'' (authHeaders st)"

definition logout :: "Outcome \<Rightarrow> Session \<Rightarrow> Session" where
  "logout outcome st = setSessionToken None st"

definition setupTotp :: "parser \<Rightarrow> Session \<Rightarrow> Call" where
  "setupTotp parse st =
     \<lparr>c_request = bare_request ''POST'' ''/api/v1/auth/totp/setup'' (authHeaders st), c_reply = parseApiResponse parse\<rparr>"

definition INVALID_CODE :: string where
  "INVALID_CODE = ''Invalid authenticator code '' @ em_dash @ '' try the current 6-digit code''"

definition enableTotp :: "Session \<Rightarrow> string \<Rightarrow> Call" where
  "enableTotp st pin =
     \<lparr>c_request = json_request ''POST'' ''/api/v1/auth/totp/enable'' (json_headers st)
        (JObj [(''code'', JStr (trim pin))]),
      c_reply = (\<lambda>res. if rs_status res = 400 then Inl INVALID_CODE
                       else if \<not> res_ok res then Inl (or_text (rs_body res) (http_status res))
                       else Inr None)\<rparr>"

definition disableTotp :: "Session \<Rightarrow> Call" where
  "disableTotp st =
     \<lparr>c_request = bare_request ''POST'' ''/api/v1/auth/totp/disable'' (authHeaders st),
      c_reply = (\<lambda>res. if \<not> res_ok res then Inl (rs_body res) else Inr None)\<rparr>"

record WebauthnSite =
  ws_origin :: string
  ws_rp_id :: "string option"

definition pageWebauthnSite :: "string \<Rightarrow> string option \<Rightarrow> string option \<Rightarrow> WebauthnSite" where
  "pageWebauthnSite page_origin origin rp_id =
     \<lparr>ws_origin = trim (get_or page_origin origin), ws_rp_id = truthy (map_option trim rp_id)\<rparr>"

definition site_members :: "WebauthnSite \<Rightarrow> (string \<times> Json option) list" where
  "site_members site = [(''origin'', Some (JStr (ws_origin site))), (''rp_id'', map_option JStr (ws_rp_id site))]"

definition startWebauthnRegister :: "parser \<Rightarrow> Session \<Rightarrow> WebauthnSite \<Rightarrow> Call" where
  "startWebauthnRegister parse st site =
     \<lparr>c_request = json_request ''POST'' ''/api/v1/auth/webauthn/register/start'' (json_headers st)
        (members (site_members site)),
      c_reply = parseApiResponse parse\<rparr>"

definition finishWebauthnRegister ::
  "parser \<Rightarrow> Session \<Rightarrow> string \<Rightarrow> Json \<Rightarrow> WebauthnSite \<Rightarrow> string option \<Rightarrow> Call" where
  "finishWebauthnRegister parse st challengeId credential site name =
     \<lparr>c_request = json_request ''POST'' ''/api/v1/auth/webauthn/register/finish'' (json_headers st)
        (members ([(''challenge_id'', Some (JStr challengeId)), (''credential'', Some credential),
                   (''name'', map_option JStr name)] @ site_members site)),
      c_reply = parseApiResponse parse\<rparr>"

definition listWebauthnCredentials :: "parser \<Rightarrow> Session \<Rightarrow> Call" where
  "listWebauthnCredentials parse st =
     \<lparr>c_request = bare_request ''GET'' ''/api/v1/auth/webauthn/credentials'' (authHeaders st),
      c_reply = parseApiResponse parse\<rparr>"

text \<open>A deletion: 204 is success, anything else goes through \<open>parseApiResponse\<close>, whose value is dropped.\<close>

definition no_content :: "parser \<Rightarrow> Response \<Rightarrow> reply" where
  "no_content parse res =
     (if rs_status res = 204 then Inr None
      else (case parseApiResponse parse res of Inl e \<Rightarrow> Inl e | Inr v \<Rightarrow> Inr None))"

definition deleteWebauthnCredential :: "parser \<Rightarrow> Session \<Rightarrow> string \<Rightarrow> Call" where
  "deleteWebauthnCredential parse st i =
     \<lparr>c_request = bare_request ''DELETE'' (''/api/v1/auth/webauthn/credentials/'' @ i) (authHeaders st),
      c_reply = no_content parse\<rparr>"

definition startMfaWebauthn :: "parser \<Rightarrow> string \<Rightarrow> WebauthnSite \<Rightarrow> Call" where
  "startMfaWebauthn parse challengeId site =
     \<lparr>c_request = json_request ''POST'' ''/api/v1/auth/mfa/webauthn/start'' [CONTENT_JSON]
        (members ((''challenge_id'', Some (JStr challengeId)) # site_members site)),
      c_reply = parseApiResponse parse\<rparr>"

definition finishMfaWebauthn :: "parser \<Rightarrow> string \<Rightarrow> Json \<Rightarrow> WebauthnSite \<Rightarrow> Call" where
  "finishMfaWebauthn parse challengeId credential site =
     \<lparr>c_request = json_request ''POST'' ''/api/v1/auth/mfa/webauthn/finish'' [CONTENT_JSON]
        (members ([(''challenge_id'', Some (JStr challengeId)), (''credential'', Some credential)] @ site_members site)),
      c_reply = parseApiResponse parse\<rparr>"

definition listUsers :: "parser \<Rightarrow> Session \<Rightarrow> Call" where
  "listUsers parse st =
     \<lparr>c_request = bare_request ''GET'' ''/api/v1/auth/users'' (authHeaders st), c_reply = parseApiResponse parse\<rparr>"

definition listUserDirectory :: "parser \<Rightarrow> Session \<Rightarrow> Call" where
  "listUserDirectory parse st =
     \<lparr>c_request = bare_request ''GET'' ''/api/v1/auth/users/directory'' (authHeaders st), c_reply = parseApiResponse parse\<rparr>"

definition createUser :: "parser \<Rightarrow> Session \<Rightarrow> string \<Rightarrow> string \<Rightarrow> string \<Rightarrow> Call" where
  "createUser parse st username password role =
     \<lparr>c_request = json_request ''POST'' ''/api/v1/auth/users'' (json_headers st)
        (JObj [(''username'', JStr username), (''password'', JStr password), (''role'', JStr role)]),
      c_reply = parseApiResponse parse\<rparr>"

definition updateUser :: "parser \<Rightarrow> Session \<Rightarrow> string \<Rightarrow> string option \<Rightarrow> string option \<Rightarrow> Call" where
  "updateUser parse st i role password =
     \<lparr>c_request = json_request ''POST'' (''/api/v1/auth/users/'' @ i) (json_headers st)
        (members [(''role'', map_option JStr role), (''password'', map_option JStr password)]),
      c_reply = parseApiResponse parse\<rparr>"

definition deleteUser :: "parser \<Rightarrow> Session \<Rightarrow> string \<Rightarrow> Call" where
  "deleteUser parse st i =
     \<lparr>c_request = bare_request ''DELETE'' (''/api/v1/auth/users/'' @ i) (authHeaders st), c_reply = no_content parse\<rparr>"

section \<open>API keys, alerts, short links and rule runs\<close>

definition listApiKeys :: "parser \<Rightarrow> Session \<Rightarrow> Call" where
  "listApiKeys parse st =
     \<lparr>c_request = bare_request ''GET'' ''/api/v1/auth/api-keys'' (authHeaders st), c_reply = parseApiResponse parse\<rparr>"

definition listMyApiKeys :: "parser \<Rightarrow> Session \<Rightarrow> Call" where
  "listMyApiKeys parse st =
     \<lparr>c_request = bare_request ''GET'' ''/api/v1/auth/api-keys/mine'' (authHeaders st), c_reply = parseApiResponse parse\<rparr>"

definition revealApiKey :: "parser \<Rightarrow> Session \<Rightarrow> string \<Rightarrow> Call" where
  "revealApiKey parse st i =
     \<lparr>c_request = bare_request ''GET'' (''/api/v1/auth/api-keys/'' @ i @ ''/reveal'') (authHeaders st),
      c_reply = parseApiResponse parse\<rparr>"

definition listApiKeyUsageByUser :: "parser \<Rightarrow> Session \<Rightarrow> Call" where
  "listApiKeyUsageByUser parse st =
     \<lparr>c_request = bare_request ''GET'' ''/api/v1/auth/api-keys/usage-by-user'' (authHeaders st),
      c_reply = parseApiResponse parse\<rparr>"

definition createApiKey ::
  "parser \<Rightarrow> Session \<Rightarrow> string \<Rightarrow> string \<Rightarrow> string option \<Rightarrow> Json option \<Rightarrow> Call" where
  "createApiKey parse st name role description user_id =
     \<lparr>c_request = json_request ''POST'' ''/api/v1/auth/api-keys'' (json_headers st)
        (members [(''name'', Some (JStr name)), (''role'', Some (JStr role)),
                  (''description'', map_option JStr description), (''user_id'', user_id)]),
      c_reply = parseApiResponse parse\<rparr>"

definition revokeApiKey :: "parser \<Rightarrow> Session \<Rightarrow> string \<Rightarrow> Call" where
  "revokeApiKey parse st i =
     \<lparr>c_request = bare_request ''DELETE'' (''/api/v1/auth/api-keys/'' @ i) (authHeaders st), c_reply = no_content parse\<rparr>"

definition suspendApiKey :: "parser \<Rightarrow> Session \<Rightarrow> string \<Rightarrow> Call" where
  "suspendApiKey parse st i =
     \<lparr>c_request = bare_request ''POST'' (''/api/v1/auth/api-keys/'' @ i @ ''/suspend'') (authHeaders st),
      c_reply = no_content parse\<rparr>"

definition unsuspendApiKey :: "parser \<Rightarrow> Session \<Rightarrow> string \<Rightarrow> Call" where
  "unsuspendApiKey parse st i =
     \<lparr>c_request = bare_request ''POST'' (''/api/v1/auth/api-keys/'' @ i @ ''/unsuspend'') (authHeaders st),
      c_reply = no_content parse\<rparr>"

definition suspendApiKeysForUser :: "parser \<Rightarrow> Session \<Rightarrow> string \<Rightarrow> Call" where
  "suspendApiKeysForUser parse st userId =
     \<lparr>c_request = bare_request ''POST'' (''/api/v1/auth/api-keys/suspend-user/'' @ userId) (authHeaders st),
      c_reply = parseApiResponse parse\<rparr>"

text \<open>\<open>encodeURIComponent\<close> on ASCII text.\<close>

definition uri_char :: "char \<Rightarrow> string" where
  "uri_char c =
     (if is_digit c \<or> is_upper c \<or> is_lower c \<or> c \<in> set (''-_.!~*()'' @ [CHR 0x27]) then [c]
      else [CHR ''%'', hex_upper (code c div 16), hex_upper (code c mod 16)])"

definition encodeURIComponent :: "string \<Rightarrow> string" where
  "encodeURIComponent s = concat (map uri_char s)"

definition shortIdToken :: "string \<Rightarrow> string" where
  "shortIdToken i = to_lower (take 8 (replace_char (CHR ''-'') [] i))"

definition ruleShortPath :: "string \<Rightarrow> string" where
  "ruleShortPath i = ''/r/'' @ shortIdToken i"

definition alertShortPath :: "string \<Rightarrow> string" where
  "alertShortPath i = ''/a/'' @ shortIdToken i"

definition ruleShortUrl :: "string \<Rightarrow> string \<Rightarrow> string" where
  "ruleShortUrl origin i = origin @ ruleShortPath i"

definition alertShortUrl :: "string \<Rightarrow> string \<Rightarrow> string" where
  "alertShortUrl origin i = origin @ alertShortPath i"

text \<open>\<open>res.json()\<close> rejects with the parser's message, an argument here; a body that is null has no
  member to read, which is a TypeError.\<close>

definition resolveEntityId :: "parser \<Rightarrow> string \<Rightarrow> string \<Rightarrow> string \<Rightarrow> string \<Rightarrow> Call" where
  "resolveEntityId parse syntax_error path token label =
     \<lparr>c_request = bare_request ''GET'' (path @ ''/'' @ encodeURIComponent token) [],
      c_reply = (\<lambda>res.
        if \<not> res_ok res then Inl (or_text (trim (rs_body res)) (rs_statusText res))
        else (case parse (rs_body res) of
                None \<Rightarrow> Inl syntax_error
              | Some JNull \<Rightarrow> Inl (''Cannot read properties of null (reading '' @ [CHR 0x27] @ ''id'' @ [CHR 0x27] @ '')'')
              | Some data \<Rightarrow>
                  (case truthy_field data ''id'' of None \<Rightarrow> Inl (label @ '' not found'') | Some i \<Rightarrow> Inr (Some i))))\<rparr>"

definition resolveRuleId :: "parser \<Rightarrow> string \<Rightarrow> string \<Rightarrow> Call" where
  "resolveRuleId parse syntax_error token = resolveEntityId parse syntax_error ''/api/v1/rules/resolve'' token ''rule''"

definition resolveAlertId :: "parser \<Rightarrow> string \<Rightarrow> string \<Rightarrow> Call" where
  "resolveAlertId parse syntax_error token = resolveEntityId parse syntax_error ''/api/v1/alerts/resolve'' token ''alert''"

definition executeRuleRun :: "parser \<Rightarrow> string \<Rightarrow> string \<Rightarrow> bool \<Rightarrow> string option \<Rightarrow> Call" where
  "executeRuleRun parse syntax_error ruleId createAlerts queryOverride =
     \<lparr>c_request = json_request ''POST'' (''/api/v1/rules/'' @ ruleId @ ''/run'') [CONTENT_JSON]
        (members [(''create_alerts'', Some (JBool createAlerts)), (''query_override'', map_option JStr queryOverride)]),
      c_reply = (\<lambda>res.
        if \<not> res_ok res then Inl (or_text (rs_body res) (''Run failed (HTTP '' @ nat_str (rs_status res) @ '')''))
        else (case parse (rs_body res) of None \<Rightarrow> Inl syntax_error | Some v \<Rightarrow> Inr (Some v)))\<rparr>"

record RuleRunResult =
  rr_hit_count :: nat
  rr_alerts_created :: nat
  rr_duration_ms :: nat
  rr_skipped_min_hits :: "bool option"
  rr_suppressed :: "bool option"

definition formatRuleRunMessage :: "RuleRunResult \<Rightarrow> bool \<Rightarrow> string" where
  "formatRuleRunMessage data createAlerts =
     (if createAlerts
      then ''Run complete: '' @ nat_str (rr_hit_count data) @ '' hit(s), '' @ nat_str (rr_alerts_created data)
        @ '' alert(s) created ('' @ nat_str (rr_duration_ms data) @ '' ms).''
      else ''Dry run complete: '' @ nat_str (rr_hit_count data) @ '' hit(s), no alerts created (''
        @ nat_str (rr_duration_ms data) @ '' ms).'')"

definition opt_params :: "(string \<times> string option) list \<Rightarrow> string" where
  "opt_params kvs =
     (let q = encode_params (List.map_filter (\<lambda>(k, v). map_option (Pair k) (truthy v)) kvs)
      in if q \<noteq> [] then ''?'' @ q else [])"

definition deleteAlert :: "string \<Rightarrow> string option \<Rightarrow> string option \<Rightarrow> Call" where
  "deleteAlert i author reason =
     \<lparr>c_request = bare_request ''DELETE'' (''/api/v1/alerts/'' @ i @ opt_params [(''author'', author), (''reason'', reason)]) [],
      c_reply = (\<lambda>res. if \<not> res_ok res \<and> rs_status res \<noteq> 204 then Inl (rs_body res) else Inr None)\<rparr>"

text \<open>The bulk deletions: an unreadable body counts as the empty object; the error is the body's text.\<close>

definition bulk_reply :: "parser \<Rightarrow> (Json \<Rightarrow> string) \<Rightarrow> Response \<Rightarrow> reply" where
  "bulk_reply parse stringify res =
     (let data = get_or (JObj []) (parse (rs_body res))
      in if \<not> res_ok res then Inl (stringify data) else Inr (Some data))"

definition deleteAlerts ::
  "parser \<Rightarrow> (Json \<Rightarrow> string) \<Rightarrow> string list \<Rightarrow> string option \<Rightarrow> string option \<Rightarrow> Call" where
  "deleteAlerts parse stringify ids author reason =
     \<lparr>c_request = json_request ''POST'' ''/api/v1/alerts/bulk-delete'' [CONTENT_JSON]
        (members [(''ids'', Some (JArr (map JStr ids))), (''author'', map_option JStr author), (''reason'', map_option JStr reason)]),
      c_reply = bulk_reply parse stringify\<rparr>"

definition deleteAlertsByFilter ::
  "parser \<Rightarrow> (Json \<Rightarrow> string) \<Rightarrow> string option \<Rightarrow> string option \<Rightarrow> string option \<Rightarrow> string option \<Rightarrow> Call" where
  "deleteAlertsByFilter parse stringify status rule_id author reason =
     \<lparr>c_request = json_request ''POST'' ''/api/v1/alerts/bulk-delete'' [CONTENT_JSON]
        (members [(''status'', map_option JStr status), (''rule_id'', map_option JStr rule_id),
                  (''author'', map_option JStr author), (''reason'', map_option JStr reason)]),
      c_reply = bulk_reply parse stringify\<rparr>"

definition listAlertDeletionAudit :: "parser \<Rightarrow> Session \<Rightarrow> nat \<Rightarrow> Call" where
  "listAlertDeletionAudit parse st limit =
     apiFetch parse st (''/v1/alerts/deletion-audit?limit='' @ nat_str limit) ''GET'' NoHeaders None"

definition listAlertActivity ::
  "parser \<Rightarrow> Session \<Rightarrow> nat option \<Rightarrow> string option \<Rightarrow> string option \<Rightarrow> Call" where
  "listAlertActivity parse st limit alert_id kind =
     apiFetch parse st
       (''/v1/alerts/activity'' @ opt_params
          [(''limit'', case limit of Some n \<Rightarrow> if n = 0 then None else Some (nat_str n) | None \<Rightarrow> None),
           (''alert_id'', alert_id), (''kind'', kind)])
       ''GET'' NoHeaders None"

definition KIND_LABELS :: "(string \<times> string) list" where
  "KIND_LABELS =
     [(''status'', ''Status change''), (''comment'', ''Comment''), (''assignee'', ''Assignee''), (''tags'', ''Tags''),
      (''dismissed'', ''Dismissed''), (''restored'', ''Restored''), (''deleted'', ''Deleted'')]"

definition alertActivityKindLabel :: "string \<Rightarrow> string" where
  "alertActivityKindLabel kind = get_or kind (map_of KIND_LABELS kind)"

definition dismissAlert :: "parser \<Rightarrow> Session \<Rightarrow> string \<Rightarrow> Call" where
  "dismissAlert parse st i = apiPost parse st (''/v1/alerts/'' @ i) (JObj [(''dismissed'', JBool True)])"

definition restoreAlert :: "parser \<Rightarrow> Session \<Rightarrow> string \<Rightarrow> Call" where
  "restoreAlert parse st i = apiPost parse st (''/v1/alerts/'' @ i) (JObj [(''dismissed'', JBool False)])"

definition patchAlertStatus :: "parser \<Rightarrow> Session \<Rightarrow> string \<Rightarrow> string \<Rightarrow> string option \<Rightarrow> Call" where
  "patchAlertStatus parse st i status comment =
     apiPost parse st (''/v1/alerts/'' @ i)
       (members [(''status'', Some (JStr status)), (''comment'', map_option JStr (truthy (map_option trim comment)))])"

end
