(* ===== verification/ApiClientFacts.thy ===== *)
theory ApiClientFacts
  imports ApiClient
begin

text \<open>
  What the API client guarantees: which replies are errors and what their messages are, that an error
  is never shown as an empty text, the life of the session token (a client of \<open>kv_store\<close>), and
  which requests carry it.
\<close>

section \<open>Replies and errors\<close>

text \<open>The value that a body and a status stand for: a body of white space is \<open>undefined\<close>, for
  the two statuses that announce it.\<close>

fun readable :: "parser \<Rightarrow> Response \<Rightarrow> Json option \<Rightarrow> bool" where
  "readable parse res None \<longleftrightarrow> trim (rs_body res) = [] \<and> rs_status res \<in> {204, 205}"
| "readable parse res (Some d) \<longleftrightarrow> trim (rs_body res) \<noteq> [] \<and> parse (rs_body res) = Some d"

text \<open>The message that the server put into the body of its reply.\<close>

definition server_message :: "parser \<Rightarrow> Response \<Rightarrow> string option" where
  "server_message parse res =
     (if trim (rs_body res) = [] then None
      else (case parse (rs_body res) of
              Some (JObj kvs) \<Rightarrow> (case map_of kvs ''error'' of Some (JStr m) \<Rightarrow> Some m | _ \<Rightarrow> None)
            | _ \<Rightarrow> None))"

definition plain_message :: "parser \<Rightarrow> Response \<Rightarrow> string" where
  "plain_message parse res =
     (let body = (if trim (rs_body res) \<noteq> [] \<and> parse (rs_body res) = None then take 2000 (rs_body res) else rs_body res)
      in or_text body (or_text (rs_statusText res) (http_status res)))"

lemma failure_text_server:
  "trim (rs_body res) = [] \<or> parse (rs_body res) \<noteq> None
   \<Longrightarrow> failure_text res (if trim (rs_body res) \<noteq> [] then parse (rs_body res) else None)
     = get_or (plain_message parse res) (server_message parse res)"
  by (auto simp: failure_text_def server_message_def plain_message_def get_or_def Let_def
      split: option.splits Json.splits)

lemma response_failed:
  "\<not> res_ok res \<Longrightarrow> parseApiResponse parse res = Inl (get_or (plain_message parse res) (server_message parse res))"
  using failure_text_server [of res parse]
  by (auto simp: parseApiResponse_def Let_def plain_message_def server_message_def get_or_def)

lemma response_ok:
  "res_ok res \<Longrightarrow>
     (case parseApiResponse parse res of Inr v \<Rightarrow> readable parse res v | Inl msg \<Rightarrow> \<nexists>v. readable parse res v)"
  by (auto simp: parseApiResponse_def Let_def elim: readable.elims)

text \<open>
  C15: A call succeeds exactly for an ok response that stands for a value, which is then the value
  returned: a body that is JSON, or an empty body with status 204 or 205. Any other ok response is an
  error; a response that is not ok always is one, with the message that the server sent in the member
  \<open>error\<close>, and without it with the first non-empty one of body, status text and status code.
\<close>

theorem response_verdict:
  "case parseApiResponse parse res of
     Inr v \<Rightarrow> res_ok res \<and> readable parse res v
   | Inl msg \<Rightarrow> (if res_ok res then \<nexists>v. readable parse res v
                else msg = get_or (plain_message parse res) (server_message parse res))"
  using response_ok [of res parse] response_failed [of res parse]
  by (cases "res_ok res") (auto split: sum.splits)

lemma shown_truthy: "js_truthy (parseApiError parse (ErrorObject m))" "js_truthy (parseApiError parse (ThrownText m))"
  by (auto simp: Let_def or_text_def REQUEST_FAILED_def or_else_def truthy_field_def split: option.splits if_splits)

text \<open>
  What a page shows for a failed call is never empty: the member \<open>error\<close> or
  \<open>message\<close> when the message is a JSON object that has one, else the trimmed message itself, else
  a fixed text; so a server message that is not itself JSON is shown as the server wrote it.
\<close>

theorem errors_are_shown:
  "(case parseApiResponse parse res of
      Inl msg \<Rightarrow> js_truthy (parseApiError parse (ErrorObject msg))
        \<and> (if trim msg \<noteq> [] \<and> \<not> starts_with ''{'' (trim msg) then parseApiError parse (ErrorObject msg) = JStr (trim msg) else True)
    | Inr v \<Rightarrow> res_ok res)
   \<and> js_truthy (parseApiError parse (ThrownText m))"
proof -
  have "res_ok res" if "parseApiResponse parse res = Inr v" for v
    using response_failed [of res parse] that by (cases "res_ok res") auto
  then show ?thesis using shown_truthy by (auto simp: or_text_def split: sum.splits)
qed

section \<open>The session\<close>

interpretation session: kv_store read_item write_item drop_item
  by unfold_locales (simp_all add: read_item_def write_item_def drop_item_def)

datatype SessionOp = SetToken "string option" | Me Outcome | LogOut Outcome

fun session_op :: "parser \<Rightarrow> SessionOp \<Rightarrow> Session \<Rightarrow> Session" where
  "session_op parse (SetToken t) st = setSessionToken t st"
| "session_op parse (Me outcome) st = snd (fetchMe parse outcome st)"
| "session_op parse (LogOut outcome) st = logout outcome st"

text \<open>The specification: somebody is signed in with a token or nobody is.\<close>

definition signed_in :: "Session \<Rightarrow> string option" where
  "signed_in st = truthy (getSessionToken st)"

fun spec_op :: "SessionOp \<Rightarrow> string option \<Rightarrow> string option" where
  "spec_op (SetToken t) s = truthy t"
| "spec_op (Me (Answered res)) s = (if rs_status res = 401 then None else s)"
| "spec_op (Me (Threw err)) s = s"
| "spec_op (LogOut outcome) s = None"

lemma truthy_idem [simp]: "truthy (truthy t) = truthy t"
  by (auto simp: truthy_def split: option.splits list.splits)

lemma truthy_cases: "truthy t = None \<or> (\<exists>s. truthy t = Some s \<and> t = Some s \<and> s \<noteq> [])"
  by (auto simp: truthy_def split: option.splits list.splits)

lemma token_after_set [simp]: "getSessionToken (setSessionToken t st) = truthy t"
  using truthy_cases [of t] by (auto simp: getSessionToken_def setSessionToken_def)

lemma other_items [simp]: "k \<noteq> TOKEN_KEY \<Longrightarrow> read_item (setSessionToken t st) k = read_item st k"
  by (simp add: setSessionToken_def session.get_put session.get_del split: option.splits)

lemma signed_in_op: "signed_in (session_op parse x st) = spec_op x (signed_in st)"
proof (cases x)
  case (Me outcome)
  then show ?thesis
    by (cases outcome) (auto simp: fetchMe_def signed_in_def me_request_def truthy_def split: option.splits list.splits)
qed (simp_all add: signed_in_def logout_def, simp add: truthy_def)

lemma op_frame: "k \<noteq> TOKEN_KEY \<Longrightarrow> read_item (session_op parse x st) k = read_item st k"
proof (cases x)
  case (Me outcome)
  assume "k \<noteq> TOKEN_KEY"
  with Me show ?thesis by (cases outcome) (auto simp: fetchMe_def split: option.splits)
qed (simp_all add: logout_def)

definition run_session :: "parser \<Rightarrow> SessionOp list \<Rightarrow> Session \<Rightarrow> Session" where
  "run_session parse xs st = fold (session_op parse) xs st"

lemma run_session_signed_in: "signed_in (run_session parse xs st) = fold spec_op xs (signed_in st)"
  by (induction xs arbitrary: st) (simp_all add: run_session_def signed_in_op)

lemma run_session_frame: "k \<noteq> TOKEN_KEY \<Longrightarrow> read_item (run_session parse xs st) k = read_item st k"
  by (induction xs arbitrary: st) (simp_all add: run_session_def op_frame)

text \<open>
  C16: After any sequence of sign-ins, sign-outs and user look-ups, who is signed in is what the
  specification says: the last token that was set and not empty, until a sign-out (whatever becomes of its
  request) or a look-up that the server answers with 401. The headers of a request and the look-up request
  itself exist exactly while somebody is signed in, and no other item of the storage changes.
\<close>

theorem session_refines:
  "signed_in (run_session parse xs st) = fold spec_op xs (signed_in st)
   \<and> authHeaders (run_session parse xs st)
       = (case fold spec_op xs (signed_in st) of None \<Rightarrow> [] | Some t \<Rightarrow> [(''Authorization'', ''Bearer '' @ t)])
   \<and> (me_request (run_session parse xs st) = None) = (fold spec_op xs (signed_in st) = None)
   \<and> (if k = TOKEN_KEY then True else read_item (run_session parse xs st) k = read_item st k)"
proof -
  note s = run_session_signed_in [of parse xs st]
  have "authHeaders st = (case signed_in st of None \<Rightarrow> [] | Some t \<Rightarrow> [(''Authorization'', ''Bearer '' @ t)])"
    "(me_request st = None) = (signed_in st = None)" for st
    by (simp_all add: authHeaders_def me_request_def signed_in_def split: option.splits)
  then show ?thesis using s run_session_frame by simp
qed

section \<open>Headers\<close>

text \<open>Spreading one object into another: a key of the first keeps its place and takes the later
  value, the other keys follow.\<close>

lemma set_param_new: "k \<notin> fst ` set acc \<Longrightarrow> set_param k v acc = acc @ [(k, v)]"
  by (induction acc) auto

lemma spread_Cons:
  "distinct (map fst hs) \<Longrightarrow> k \<notin> fst ` set rest \<Longrightarrow> fst ` set rest \<inter> fst ` set hs = {}
   \<Longrightarrow> spread ((k, v) # rest) hs = (k, get_or v (map_of hs k)) # rest @ filter (\<lambda>h. fst h \<noteq> k) hs"
proof (induction hs arbitrary: v rest)
  case (Cons x hs)
  obtain k' v' where x: "x = (k', v')" by (cases x)
  show ?case
  proof (cases "k' = k")
    case True
    with Cons.prems x have "map_of hs k = None" "filter (\<lambda>h. fst h \<noteq> k) hs = hs"
      by (auto simp: map_of_eq_None_iff filter_id_conv)
    with Cons.IH [of rest v'] Cons.prems x True show ?thesis by (simp add: spread_def get_or_def)
  next
    case False
    with Cons.prems x have "spread ((k, v) # rest @ [(k', v')]) hs
        = (k, get_or v (map_of hs k)) # (rest @ [(k', v')]) @ filter (\<lambda>h. fst h \<noteq> k) hs"
      by (intro Cons.IH) auto
    with Cons.prems x False show ?thesis by (auto simp: spread_def set_param_new)
  qed
qed (simp add: spread_def get_or_def)

lemma spread_nil: "distinct (map fst hs) \<Longrightarrow> spread [] hs = hs"
  using spread_Cons [of "tl hs" "fst (hd hs)" "[]" "snd (hd hs)"]
  by (cases hs) (auto simp: spread_def get_or_def map_of_eq_None_iff filter_id_conv image_iff split: option.splits)

lemma spread_auth:
  "distinct (map fst hs) \<Longrightarrow>
   spread (authHeaders st) hs = (case signed_in st of None \<Rightarrow> hs
     | Some t \<Rightarrow> (''Authorization'', get_or (''Bearer '' @ t) (map_of hs ''Authorization'')) # filter (\<lambda>h. fst h \<noteq> ''Authorization'') hs)"
  using spread_Cons [of hs "''Authorization''" "[]"]
  by (auto simp: authHeaders_def signed_in_def spread_nil split: option.splits)

lemma authorization_lower: "to_lower ''Authorization'' = ''authorization''"
  by code_simp

definition bearer :: "Session \<Rightarrow> string option" where
  "bearer st = map_option (\<lambda>t. ''Bearer '' @ t) (signed_in st)"

definition to_api :: "FetchInput \<Rightarrow> bool" where
  "to_api input \<longleftrightarrow> starts_with ''/api/'' (input_url input)"

definition names_in :: "string \<Rightarrow> headers \<Rightarrow> headers" where
  "names_in name hs = filter (\<lambda>(k, v). to_lower k = to_lower name) hs"

lemma names_in_simps:
  "names_in name [] = []"
  "names_in name ((k, v) # hs) = (if to_lower k = to_lower name then (k, v) # names_in name hs else names_in name hs)"
  by (simp_all add: names_in_def)

lemma header_value_names:
  "header_value name h = (case names_in name (listed h) of [] \<Rightarrow> None | kvs \<Rightarrow> Some (join '', '' (map snd kvs)))"
  by (simp add: header_value_def names_in_def)

lemma listed_install:
  "distinct (map fst (listed h)) \<Longrightarrow> listed (installAuthFetchInterceptor st input h) =
     (if to_api input
      then (case signed_in st of None \<Rightarrow> listed h
            | Some t \<Rightarrow> (''Authorization'', get_or (''Bearer '' @ t) (map_of (listed h) ''Authorization''))
                # filter (\<lambda>h. fst h \<noteq> ''Authorization'') (listed h))
      else listed h)"
  by (simp add: installAuthFetchInterceptor_def spread_auth to_api_def)

lemma names_in_other:
  "to_lower name \<noteq> ''authorization'' \<Longrightarrow> names_in name (filter (\<lambda>h. fst h \<noteq> ''Authorization'') hs) = names_in name hs"
  by (induction hs) (auto simp: names_in_def authorization_lower)

lemma names_in_none:
  "names_in ''Authorization'' hs = [] \<Longrightarrow> map_of hs ''Authorization'' = None \<and> names_in ''Authorization'' (filter (\<lambda>h. fst h \<noteq> ''Authorization'') hs) = []"
  by (induction hs) (auto simp: names_in_def split: if_splits)

lemma names_in_own:
  "distinct (map fst hs) \<Longrightarrow> names_in ''Authorization'' hs = [(''Authorization'', w)]
   \<Longrightarrow> map_of hs ''Authorization'' = Some w \<and> names_in ''Authorization'' (filter (\<lambda>h. fst h \<noteq> ''Authorization'') hs) = []"
proof -
  assume d: "distinct (map fst hs)" and n: "names_in ''Authorization'' hs = [(''Authorization'', w)]"
  from n have "(''Authorization'', w) \<in> set (names_in ''Authorization'' hs)" by simp
  then have "(''Authorization'', w) \<in> set hs" by (auto simp: names_in_def)
  moreover have "names_in ''Authorization'' (filter (\<lambda>h. fst h \<noteq> ''Authorization'') hs)
      = filter (\<lambda>h. fst h \<noteq> ''Authorization'') (names_in ''Authorization'' hs)"
    by (simp add: names_in_def conj_commute)
  ultimately show ?thesis using d n by simp
qed

lemma install_names:
  assumes "distinct (map fst (listed h))"
  shows "names_in name (listed (installAuthFetchInterceptor st input h)) =
    (case signed_in st of None \<Rightarrow> names_in name (listed h)
     | Some t \<Rightarrow>
        if to_api input \<and> to_lower name = ''authorization''
        then (''Authorization'', get_or (''Bearer '' @ t) (map_of (listed h) ''Authorization''))
          # names_in name (filter (\<lambda>h. fst h \<noteq> ''Authorization'') (listed h))
        else names_in name (listed h))"
  using names_in_other [of name "listed h"]
  by (auto simp: listed_install [OF assms] names_in_simps authorization_lower split: option.splits)

lemma same_names: "to_lower name = ''authorization'' \<Longrightarrow> names_in name = names_in ''Authorization''"
  by (simp add: names_in_def fun_eq_iff authorization_lower)

lemma canonical_names:
  assumes "distinct (map fst hs)" and "list_all (\<lambda>(k, v). k = ''Authorization'') (names_in ''Authorization'' hs)"
  shows "names_in ''Authorization'' hs = [] \<or> (\<exists>w. names_in ''Authorization'' hs = [(''Authorization'', w)])"
proof -
  have "distinct (map fst (names_in ''Authorization'' hs))"
    using assms(1) by (simp add: names_in_def distinct_map_filter)
  with assms(2) show ?thesis
    by (cases "names_in ''Authorization'' hs"; cases "tl (names_in ''Authorization'' hs)") auto
qed

lemma install_header_value:
  assumes "distinct (map fst (listed h))"
    and "list_all (\<lambda>(k, v). k = ''Authorization'') (names_in ''Authorization'' (listed h))"
  shows "header_value name (installAuthFetchInterceptor st input h) =
     (if to_api input \<and> to_lower name = ''authorization'' \<and> header_value ''Authorization'' h = None
      then bearer st else header_value name h)"
proof (cases "signed_in st")
  case None
  then show ?thesis
    by (auto simp: header_value_names install_names [OF assms(1)] bearer_def same_names split: list.splits)
next
  case (Some t)
  from canonical_names [OF assms] show ?thesis
  proof
    assume "names_in ''Authorization'' (listed h) = []"
    with Some names_in_none [of "listed h"] show ?thesis
      by (auto simp: header_value_names install_names [OF assms(1)] bearer_def same_names get_or_def)
  next
    assume "\<exists>w. names_in ''Authorization'' (listed h) = [(''Authorization'', w)]"
    then obtain w where "names_in ''Authorization'' (listed h) = [(''Authorization'', w)]" by blast
    with Some names_in_own [OF assms(1) this] show ?thesis
      by (auto simp: header_value_names install_names [OF assms(1)] same_names get_or_def)
  qed
qed



lemma foreign_url_gets_token:
  "header_value ''authorization'' (installAuthFetchInterceptor [TOKEN_KEY \<mapsto> ''t''] (UrlInput ''https://other.example'' ''/api/x'') NoHeaders)
     = Some ''Bearer t''
   \<and> header_value ''authorization'' (installAuthFetchInterceptor [TOKEN_KEY \<mapsto> ''t''] (RequestInput ''https://self.example/api/x'') NoHeaders)
     = None"
  by code_simp

lemma headers_instance_lost:
  "mergeHeaders st (HeadersInstance [(''x-case'', ''1'')]) = mergeHeaders st NoHeaders
   \<and> header_value ''authorization'' (installAuthFetchInterceptor [TOKEN_KEY \<mapsto> ''t''] (TextInput ''/api/x'')
       (HeadersInstance [(''authorization'', ''Bearer k'')])) = Some ''Bearer t, Bearer k''"
  by (simp add: mergeHeaders_def) code_simp

section \<open>The requests of the client modules\<close>

definition client_requests ::
  "parser \<Rightarrow> (Json \<Rightarrow> string) \<Rightarrow> Session \<Rightarrow> string \<Rightarrow> string \<Rightarrow> string option \<Rightarrow> Json \<Rightarrow> WebauthnSite \<Rightarrow> Request list" where
  "client_requests parse stringify st i s opt v site =
     logout_request st # map c_request
      [fetchAuthStatus parse, login parse i s, verifyMfa parse i s, setupTotp parse st, enableTotp st s, disableTotp st,
       startWebauthnRegister parse st site, finishWebauthnRegister parse st i v site opt, listWebauthnCredentials parse st,
       deleteWebauthnCredential parse st i, startMfaWebauthn parse i site, finishMfaWebauthn parse i v site,
       listUsers parse st, listUserDirectory parse st, createUser parse st i s s, updateUser parse st i opt opt,
       deleteUser parse st i, listApiKeys parse st, listMyApiKeys parse st, revealApiKey parse st i,
       listApiKeyUsageByUser parse st, createApiKey parse st i s opt (Some v), revokeApiKey parse st i,
       suspendApiKey parse st i, unsuspendApiKey parse st i, suspendApiKeysForUser parse st i,
       resolveRuleId parse s i, resolveAlertId parse s i, executeRuleRun parse s i True opt,
       deleteAlert i opt opt, deleteAlerts parse stringify [i] opt opt, deleteAlertsByFilter parse stringify opt opt opt opt,
       listAlertDeletionAudit parse st 50, listAlertActivity parse st None opt opt,
       dismissAlert parse st i, restoreAlert parse st i, patchAlertStatus parse st i s opt]"

definition sends_token :: "Session \<Rightarrow> Request \<Rightarrow> bool" where
  "sends_token st rq \<longleftrightarrow> starts_with ''/api/'' (rq_url rq)
     \<and> header_value ''Authorization'' (installAuthFetchInterceptor st (TextInput (rq_url rq)) (HeadersLiteral (rq_headers rq))) = bearer st"

lemma sends_token_by_shape:
  assumes "hs = [] \<or> hs = [CONTENT_JSON] \<or> hs = authHeaders st \<or> hs = json_headers st \<or> hs = mergeHeaders st NoHeaders"
    and "rq_headers rq = hs" and "starts_with ''/api/'' (rq_url rq)"
  shows "sends_token st rq"
proof -
  have a: "authHeaders st = (case signed_in st of None \<Rightarrow> [] | Some t \<Rightarrow> [(''Authorization'', ''Bearer '' @ t)])"
    by (simp add: authHeaders_def signed_in_def)
  have l: "to_lower ''Content-Type'' \<noteq> ''authorization''" by code_simp
  have "distinct (map fst hs) \<and> (names_in ''Authorization'' hs = [] \<or>
      signed_in st \<noteq> None \<and> names_in ''Authorization'' hs = [(''Authorization'', ''Bearer '' @ the (signed_in st))])"
    using assms(1) l
    by (auto simp: a names_in_simps CONTENT_JSON_def json_headers_def mergeHeaders_def spread_def authorization_lower
        split: option.splits)
  then show ?thesis
    using assms(2,3) install_header_value [of "HeadersLiteral hs" "''Authorization''" st "TextInput (rq_url rq)"]
    by (auto simp: sends_token_def to_api_def authorization_lower header_value_names bearer_def)
qed

lemmas call_defs = bare_request_def json_request_def apiFetch_def apiPost_def logout_request_def
  fetchAuthStatus_def login_def verifyMfa_def setupTotp_def enableTotp_def disableTotp_def
  startWebauthnRegister_def finishWebauthnRegister_def listWebauthnCredentials_def deleteWebauthnCredential_def
  startMfaWebauthn_def finishMfaWebauthn_def listUsers_def listUserDirectory_def createUser_def updateUser_def
  deleteUser_def listApiKeys_def listMyApiKeys_def revealApiKey_def listApiKeyUsageByUser_def createApiKey_def
  revokeApiKey_def suspendApiKey_def unsuspendApiKey_def suspendApiKeysForUser_def resolveEntityId_def
  resolveRuleId_def resolveAlertId_def executeRuleRun_def deleteAlert_def deleteAlerts_def deleteAlertsByFilter_def
  listAlertDeletionAudit_def listAlertActivity_def dismissAlert_def restoreAlert_def patchAlertStatus_def

lemma api_prefix: "starts_with ''/api/'' (''/api/'' @ s)"
  by (simp add: starts_with_def)

lemma client_requests_urls:
  "list_all (\<lambda>rq. starts_with ''/api/'' (rq_url rq)) (client_requests parse stringify st i s opt v site)"
  by (simp add: client_requests_def call_defs starts_with_def)

lemma client_requests_headers:
  "list_all (\<lambda>rq. rq_headers rq \<in> {[], [CONTENT_JSON], authHeaders st, json_headers st, mergeHeaders st NoHeaders})
     (client_requests parse stringify st i s opt v site)"
  by (simp add: client_requests_def call_defs)

text \<open>
  Every request of the client modules goes to the API of the page's own origin and is sent with
  the token of the session as its only authorization, whether the module writes the header itself,
  merges it, or leaves it to the wrapper; without a session it is sent without one.
\<close>

theorem client_requests_authorized:
  "list_all (sends_token st) (client_requests parse stringify st i s opt v site)"
  using client_requests_urls [of parse stringify st i s opt v site]
    client_requests_headers [of st parse stringify i s opt v site]
  unfolding list_all_iff by (auto intro: sends_token_by_shape [OF _ refl])

end
