(* ===== verification/TextDiff.thy ===== *)
theory TextDiff
  imports Prelude
begin

text \<open>
  The inline comparison of two query texts, \<open>src/mobipwn-web/src/lib/textDiff.ts\<close>. The word and the
  character differ come from the package \<open>diff\<close>, which is not part of the repository: they are
  arguments, and what is used of them is the documented law \<open>differ\<close>: the parts that are not
  added spell the old text and those that are not removed the new one.
\<close>

section \<open>The model\<close>

datatype DiffSpanKind = Unchanged | Removed | Added

record DiffSpan =
  ds_kind :: DiffSpanKind
  ds_text :: string

record InlineQueryDiff =
  iq_before :: "DiffSpan list"
  iq_after :: "DiffSpan list"

record Change =
  ch_value :: string
  ch_added :: bool
  ch_removed :: bool

type_synonym differ = "string \<Rightarrow> string \<Rightarrow> Change list"

definition CR :: char where
  "CR = CHR 0x0D"

definition LF :: char where
  "LF = CHR 0x0A"

fun replace_crlf :: "string \<Rightarrow> string" where
  "replace_crlf (c # d # s) = (if c = CR \<and> d = LF then LF # replace_crlf s else c # replace_crlf (d # s))"
| "replace_crlf s = s"

definition normalizeDiffText :: "string \<Rightarrow> string" where
  "normalizeDiffText v = replace_char CR [LF] (replace_crlf v)"

fun refineAdjacentChanges :: "differ \<Rightarrow> Change list \<Rightarrow> Change list" where
  "refineAdjacentChanges diffChars (cur # next # parts) =
     (if ch_removed cur \<and> ch_added next
      then diffChars (ch_value cur) (ch_value next) @ refineAdjacentChanges diffChars parts
      else cur # refineAdjacentChanges diffChars (next # parts))"
| "refineAdjacentChanges diffChars parts = parts"

definition span :: "DiffSpanKind \<Rightarrow> string \<Rightarrow> DiffSpan" where
  "span k t = \<lparr>ds_kind = k, ds_text = t\<rparr>"

definition push_part :: "Change \<Rightarrow> InlineQueryDiff \<Rightarrow> InlineQueryDiff" where
  "push_part part d =
     (if ch_removed part then d\<lparr>iq_before := iq_before d @ [span Removed (ch_value part)]\<rparr>
      else if ch_added part then d\<lparr>iq_after := iq_after d @ [span Added (ch_value part)]\<rparr>
      else \<lparr>iq_before = iq_before d @ [span Unchanged (ch_value part)],
            iq_after = iq_after d @ [span Unchanged (ch_value part)]\<rparr>)"

definition partsToBeforeAfter :: "Change list \<Rightarrow> InlineQueryDiff" where
  "partsToBeforeAfter parts = fold push_part parts \<lparr>iq_before = [], iq_after = []\<rparr>"

definition buildQueryInlineDiff :: "differ \<Rightarrow> differ \<Rightarrow> string \<Rightarrow> string \<Rightarrow> InlineQueryDiff" where
  "buildQueryInlineDiff diffWordsWithSpace diffChars old new =
     partsToBeforeAfter (refineAdjacentChanges diffChars
       (diffWordsWithSpace (normalizeDiffText old) (normalizeDiffText new)))"

definition changed :: "DiffSpan \<Rightarrow> bool" where
  "changed s \<longleftrightarrow> ds_kind s \<noteq> Unchanged"

definition diffHasChanges :: "InlineQueryDiff \<Rightarrow> bool" where
  "diffHasChanges d \<longleftrightarrow> list_ex changed (iq_before d) \<or> list_ex changed (iq_after d)"

text \<open>\<open>spans.findIndex(...)\<close> and the backward search; \<open>-1\<close> when nothing is found.\<close>

fun find_changed :: "int \<Rightarrow> DiffSpan list \<Rightarrow> int" where
  "find_changed i [] = -1"
| "find_changed i (s # ss) = (if changed s then i else find_changed (i + 1) ss)"

fun findLastChangedIndex :: "int \<Rightarrow> int \<Rightarrow> DiffSpan list \<Rightarrow> int" where
  "findLastChangedIndex i final [] = final"
| "findLastChangedIndex i final (s # ss) = findLastChangedIndex (i + 1) (if changed s then i else final) ss"

definition tailChars :: "string \<Rightarrow> nat \<Rightarrow> string" where
  "tailChars v n = (if length v \<le> n then v else if n = 0 then v else drop (length v - n) v)"

definition headChars :: "string \<Rightarrow> nat \<Rightarrow> string" where
  "headChars v n = (if length v \<le> n then v else take n v)"

text \<open>The loop of \<open>trimSide\<close>: the unchanged text before \<open>first\<close>, that behind \<open>last\<close>,
  and the spans that are kept.\<close>

fun trim_scan :: "int \<Rightarrow> int \<Rightarrow> int \<Rightarrow> DiffSpan list \<Rightarrow> string \<times> string \<times> DiffSpan list" where
  "trim_scan first final i [] = ([], [], [])"
| "trim_scan first final i (s # ss) =
     (let (prefix, suffix, out) = trim_scan first final (i + 1) ss in
      if i < first then (if changed s then (prefix, suffix, s # out) else (ds_text s @ prefix, suffix, out))
      else if final < i then (if changed s then (prefix, suffix, s # out) else (prefix, ds_text s @ suffix, out))
      else (prefix, suffix, s # out))"

definition opt_span :: "bool \<Rightarrow> string \<Rightarrow> DiffSpan list" where
  "opt_span b t = (if b then [span Unchanged t] else [])"

definition trimSide :: "DiffSpan list \<Rightarrow> int \<Rightarrow> int \<Rightarrow> nat \<Rightarrow> DiffSpan list" where
  "trimSide spans first final contextChars =
     (let (prefix, suffix, out) = trim_scan first final 0 spans;
          prefixTail = tailChars prefix contextChars;
          suffixHead = headChars suffix contextChars
      in opt_span (length prefix > length prefixTail) ellipsis @ opt_span (prefixTail \<noteq> []) prefixTail @ out
         @ opt_span (suffixHead \<noteq> []) suffixHead @ opt_span (length suffix > length suffixHead) ellipsis)"

definition trimDiffSpans :: "DiffSpan list \<Rightarrow> DiffSpan list \<Rightarrow> nat \<Rightarrow> InlineQueryDiff" where
  "trimDiffSpans old new contextChars =
     (if \<not> list_ex changed old \<and> \<not> list_ex changed new then \<lparr>iq_before = old, iq_after = new\<rparr>
      else let first = min (find_changed 0 old) (find_changed 0 new);
               final = max (findLastChangedIndex 0 (-1) old) (findLastChangedIndex 0 (-1) new)
        in if first < 0 \<or> final < 0 then \<lparr>iq_before = old, iq_after = new\<rparr>
           else \<lparr>iq_before = trimSide old first final contextChars, iq_after = trimSide new first final contextChars\<rparr>)"

section \<open>The two sides\<close>

definition old_text :: "Change list \<Rightarrow> string" where
  "old_text parts = concat (map ch_value (filter (\<lambda>p. \<not> ch_added p) parts))"

definition new_text :: "Change list \<Rightarrow> string" where
  "new_text parts = concat (map ch_value (filter (\<lambda>p. \<not> ch_removed p) parts))"

definition exclusive :: "Change list \<Rightarrow> bool" where
  "exclusive parts \<longleftrightarrow> list_all (\<lambda>p. \<not> (ch_added p \<and> ch_removed p)) parts"

definition differ :: "differ \<Rightarrow> bool" where
  "differ d \<longleftrightarrow> (\<forall>a b. old_text (d a b) = a \<and> new_text (d a b) = b \<and> exclusive (d a b))"

definition spans_text :: "DiffSpan list \<Rightarrow> string" where
  "spans_text ss = concat (map ds_text ss)"

definition unchanged_spans :: "DiffSpan list \<Rightarrow> DiffSpan list" where
  "unchanged_spans = filter (\<lambda>s. \<not> changed s)"

lemma text_simps [simp]:
  "old_text [] = []" "new_text [] = []" "exclusive []"
  "old_text (p # ps) = (if ch_added p then [] else ch_value p) @ old_text ps"
  "new_text (p # ps) = (if ch_removed p then [] else ch_value p) @ new_text ps"
  "exclusive (p # ps) \<longleftrightarrow> \<not> (ch_added p \<and> ch_removed p) \<and> exclusive ps"
  "old_text (ps @ qs) = old_text ps @ old_text qs" "new_text (ps @ qs) = new_text ps @ new_text qs"
  "exclusive (ps @ qs) \<longleftrightarrow> exclusive ps \<and> exclusive qs"
  by (simp_all add: old_text_def new_text_def exclusive_def)

lemma refine_spells:
  "differ d \<Longrightarrow> exclusive parts \<Longrightarrow> old_text (refineAdjacentChanges d parts) = old_text parts
     \<and> new_text (refineAdjacentChanges d parts) = new_text parts \<and> exclusive (refineAdjacentChanges d parts)"
  by (induction d parts rule: refineAdjacentChanges.induct) (auto simp: differ_def)

definition sides :: "Change list \<Rightarrow> InlineQueryDiff \<Rightarrow> bool" where
  "sides parts d \<longleftrightarrow> spans_text (iq_before d) = old_text parts \<and> spans_text (iq_after d) = new_text parts
     \<and> unchanged_spans (iq_before d) = unchanged_spans (iq_after d)
     \<and> list_all (\<lambda>s. ds_kind s \<noteq> Added) (iq_before d) \<and> list_all (\<lambda>s. ds_kind s \<noteq> Removed) (iq_after d)"

lemma push_sides:
  "exclusive parts \<Longrightarrow> sides ps d \<Longrightarrow> sides (ps @ parts) (fold push_part parts d)"
proof (induction parts arbitrary: ps d)
  case (Cons p parts)
  have "sides (ps @ [p]) (push_part p d)"
    using Cons.prems by (auto simp: sides_def push_part_def spans_text_def unchanged_spans_def changed_def span_def)
  with Cons.IH [of "ps @ [p]"] Cons.prems show ?case by simp
qed simp

lemma build_sides:
  assumes "differ words" and "differ chars"
  shows "spans_text (iq_before (buildQueryInlineDiff words chars old new)) = normalizeDiffText old
    \<and> spans_text (iq_after (buildQueryInlineDiff words chars old new)) = normalizeDiffText new
    \<and> sides (refineAdjacentChanges chars (words (normalizeDiffText old) (normalizeDiffText new)))
        (buildQueryInlineDiff words chars old new)"
proof -
  let ?parts = "words (normalizeDiffText old) (normalizeDiffText new)"
  have r: "old_text (refineAdjacentChanges chars ?parts) = normalizeDiffText old"
    "new_text (refineAdjacentChanges chars ?parts) = normalizeDiffText new"
    "exclusive (refineAdjacentChanges chars ?parts)"
    using refine_spells [OF assms(2)] assms(1) by (simp_all add: differ_def)
  have "sides [] \<lparr>iq_before = [], iq_after = []\<rparr>" by (simp add: sides_def spans_text_def)
  from push_sides [OF r(3) this] r show ?thesis
    by (simp add: buildQueryInlineDiff_def partsToBeforeAfter_def) (simp add: sides_def)
qed

lemma no_changes_same: "\<not> list_ex changed ss \<Longrightarrow> unchanged_spans ss = ss"
  by (induction ss) (auto simp: unchanged_spans_def)

lemma sides_no_changes:
  assumes "sides parts d" and "\<not> diffHasChanges d"
  shows "spans_text (iq_before d) = spans_text (iq_after d)"
proof -
  from assms(2) have "unchanged_spans (iq_before d) = iq_before d" "unchanged_spans (iq_after d) = iq_after d"
    by (simp_all add: diffHasChanges_def no_changes_same)
  with assms(1) show ?thesis by (simp add: sides_def)
qed

text \<open>
  C18: With differs that keep their law, the left side of an inline comparison spells the old query and
  the right side the new one (with line ends normalised), nothing is marked added on the left or
  removed on the right, both sides show the same unchanged spans in the same order, and when
  nothing is marked changed the two queries are the same text.
\<close>

theorem inline_diff_spells:
  assumes "differ words" and "differ chars"
  shows "spans_text (iq_before (buildQueryInlineDiff words chars old new)) = normalizeDiffText old
    \<and> spans_text (iq_after (buildQueryInlineDiff words chars old new)) = normalizeDiffText new
    \<and> list_all (\<lambda>s. ds_kind s \<noteq> Added) (iq_before (buildQueryInlineDiff words chars old new))
    \<and> list_all (\<lambda>s. ds_kind s \<noteq> Removed) (iq_after (buildQueryInlineDiff words chars old new))
    \<and> unchanged_spans (iq_before (buildQueryInlineDiff words chars old new))
      = unchanged_spans (iq_after (buildQueryInlineDiff words chars old new))
    \<and> (if diffHasChanges (buildQueryInlineDiff words chars old new) then True
       else normalizeDiffText old = normalizeDiffText new)"
proof -
  let ?d = "buildQueryInlineDiff words chars old new"
  note b = build_sides [OF assms, of old new]
  then have "\<not> diffHasChanges ?d \<Longrightarrow> normalizeDiffText old = normalizeDiffText new"
    using sides_no_changes [of _ ?d] by metis
  with b show ?thesis by (simp add: sides_def)
qed

text \<open>The coarsest differ: everything removed, everything added.\<close>

definition coarse_diff :: differ where
  "coarse_diff a b = (if a = b then [\<lparr>ch_value = a, ch_added = False, ch_removed = False\<rparr>]
     else [\<lparr>ch_value = a, ch_added = False, ch_removed = True\<rparr>, \<lparr>ch_value = b, ch_added = True, ch_removed = False\<rparr>])"

theorem inline_diff_spells_witness:
  "spans_text (iq_after (buildQueryInlineDiff coarse_diff coarse_diff ''a'' ''b'')) = ''b''"
proof -
  have d: "differ coarse_diff" by (simp add: differ_def coarse_diff_def)
  have "normalizeDiffText ''b'' = ''b''" by code_simp
  with inline_diff_spells [OF d d, of "''a''" "''b''"] show ?thesis by simp
qed

section \<open>Trimming\<close>

definition changed_spans :: "DiffSpan list \<Rightarrow> DiffSpan list" where
  "changed_spans = filter changed"

lemma changed_opt_span [simp]: "filter changed (opt_span b t) = []"
  by (simp add: opt_span_def span_def changed_def)

lemma scan_changed: "trim_scan first final i ss = (p, q, out) \<Longrightarrow> filter changed out = filter changed ss"
  by (induction first final i ss arbitrary: p q out rule: trim_scan.induct)
    (auto simp: Let_def split: prod.splits if_splits)

lemma trim_side_changed: "changed_spans (trimSide ss first final n) = changed_spans ss"
proof -
  obtain p q out where s: "trim_scan first final 0 ss = (p, q, out)" by (metis prod_cases3)
  from scan_changed [OF this] show ?thesis by (simp add: trimSide_def s changed_spans_def Let_def)
qed

text \<open>When every changed span lies in the window, the text splits at its ends.\<close>

fun within :: "int \<Rightarrow> int \<Rightarrow> int \<Rightarrow> DiffSpan list \<Rightarrow> bool" where
  "within first final i [] \<longleftrightarrow> True"
| "within first final i (s # ss) \<longleftrightarrow> (if changed s then first \<le> i \<and> i \<le> final else True) \<and> within first final (i + 1) ss"

lemma scan_split:
  "trim_scan first final i ss = (p, q, out) \<Longrightarrow> within first final i ss \<Longrightarrow> first \<le> final
   \<Longrightarrow> spans_text ss = p @ spans_text out @ q \<and> (final < i \<longrightarrow> p = [] \<and> out = []) \<and> (first \<le> i \<longrightarrow> p = [])"
proof (induction first final i ss arbitrary: p q out rule: trim_scan.induct)
  case (2 first final i s ss)
  obtain p' q' out' where s: "trim_scan first final (i + 1) ss = (p', q', out')" by (metis prod_cases3)
  have "within first final (i + 1) ss" using "2.prems"(2) by simp
  from "2.IH" [OF s this "2.prems"(3)] "2.prems" show ?case
    by (auto simp: s Let_def spans_text_def split: if_splits)
qed (simp add: spans_text_def)

lemma find_last_ge: "l \<le> i \<Longrightarrow> l \<le> findLastChangedIndex i l ss"
proof (induction i l ss rule: findLastChangedIndex.induct)
  case (2 i l s ss)
  then show ?case by (cases "changed s") auto
qed simp

lemma within_after: "first \<le> i \<Longrightarrow> findLastChangedIndex i l ss \<le> final \<Longrightarrow> l \<le> i \<Longrightarrow> within first final i ss"
proof (induction i l ss rule: findLastChangedIndex.induct)
  case (2 i l s ss)
  then show ?case using find_last_ge [of i "i + 1" ss] by (auto split: if_splits)
qed simp

lemma within_found:
  "\<not> list_ex changed ss \<or> first \<le> find_changed i ss \<Longrightarrow> findLastChangedIndex i l ss \<le> final \<Longrightarrow> l \<le> i
   \<Longrightarrow> within first final i ss"
proof (induction i l ss rule: findLastChangedIndex.induct)
  case (2 i l s ss)
  then show ?case using within_after [of first i l "s # ss" final] by (auto split: if_splits)
qed simp

lemma find_le_last: "list_ex changed ss \<Longrightarrow> i \<le> find_changed i ss \<and> find_changed i ss \<le> findLastChangedIndex i l ss"
proof (induction i l ss rule: findLastChangedIndex.induct)
  case (2 i l s ss)
  then show ?case using find_last_ge [of i "i + 1" ss] by (cases "changed s") force+
qed simp

lemma find_changed_none: "\<not> list_ex changed ss \<Longrightarrow> find_changed i ss = -1"
  by (induction ss arbitrary: i) auto

lemma one_sided_not_trimmed:
  assumes "list_ex changed old \<noteq> list_ex changed new"
  shows "trimDiffSpans old new n = \<lparr>iq_before = old, iq_after = new\<rparr>"
proof -
  have "find_changed 0 old = -1 \<or> find_changed 0 new = -1" using assms find_changed_none by blast
  then show ?thesis by (auto simp: trimDiffSpans_def Let_def)
qed

text \<open>A side that is a piece of the original side, with an ellipsis where unchanged text was cut.\<close>

definition piece_of :: "DiffSpan list \<Rightarrow> DiffSpan list \<Rightarrow> bool" where
  "piece_of ss ss' \<longleftrightarrow> (\<exists>p w q. spans_text ss = p @ spans_text w @ q
     \<and> ss' = opt_span (p \<noteq> []) ellipsis @ w @ opt_span (q \<noteq> []) ellipsis)"

lemma piece_of_refl: "piece_of ss ss"
  unfolding piece_of_def by (rule exI [of _ "[]"], rule exI [of _ ss], rule exI [of _ "[]"]) (simp add: opt_span_def)

lemma tail_split: "\<exists>p. v = p @ tailChars v n \<and> (length v > length (tailChars v n) \<longleftrightarrow> p \<noteq> [])"
  by (rule exI [of _ "take (length v - length (tailChars v n)) v"]) (auto simp: tailChars_def)

lemma head_split: "\<exists>q. v = headChars v n @ q \<and> (length v > length (headChars v n) \<longleftrightarrow> q \<noteq> [])"
  by (rule exI [of _ "drop n v"]) (auto simp: headChars_def)

lemma spans_text_opt: "spans_text (opt_span (t \<noteq> []) t) = t" "spans_text (xs @ ys) = spans_text xs @ spans_text ys"
  by (auto simp: spans_text_def opt_span_def span_def)

lemma trim_side_piece:
  assumes "within first final 0 ss" and "first \<le> final"
  shows "piece_of ss (trimSide ss first final n)"
proof -
  obtain p q out where s: "trim_scan first final 0 ss = (p, q, out)" by (metis prod_cases3)
  obtain p' where p: "p = p' @ tailChars p n" "length p > length (tailChars p n) \<longleftrightarrow> p' \<noteq> []"
    using tail_split [of p n] by blast
  obtain q' where q: "q = headChars q n @ q'" "length q > length (headChars q n) \<longleftrightarrow> q' \<noteq> []"
    using head_split [of q n] by blast
  define w where "w = opt_span (tailChars p n \<noteq> []) (tailChars p n) @ out @ opt_span (headChars q n \<noteq> []) (headChars q n)"
  have "spans_text ss = p @ spans_text out @ q" using scan_split [OF s assms] by simp
  with p(1) q(1) have "spans_text ss = p' @ spans_text w @ q'"
    by (metis append.assoc spans_text_opt w_def)
  moreover have "trimSide ss first final n = opt_span (p' \<noteq> []) ellipsis @ w @ opt_span (q' \<noteq> []) ellipsis"
    using p(2) q(2) by (simp add: trimSide_def s w_def Let_def)
  ultimately show ?thesis unfolding piece_of_def by blast
qed

text \<open>
  Trimming a comparison loses no change: each side keeps its changed spans, all and in order, and
  what it shows is one contiguous piece of its text, with an ellipsis at exactly the ends where
  (unchanged) text was cut off.
\<close>

theorem trim_keeps_changes:
  "changed_spans (iq_before (trimDiffSpans old new n)) = changed_spans old
   \<and> changed_spans (iq_after (trimDiffSpans old new n)) = changed_spans new
   \<and> piece_of old (iq_before (trimDiffSpans old new n)) \<and> piece_of new (iq_after (trimDiffSpans old new n))"
proof (cases "list_ex changed old \<and> list_ex changed new")
  case True
  let ?first = "min (find_changed 0 old) (find_changed 0 new)"
  let ?final = "max (findLastChangedIndex 0 (-1) old) (findLastChangedIndex 0 (-1) new)"
  have w: "within ?first ?final 0 old" "within ?first ?final 0 new" "?first \<le> ?final"
    using True find_le_last [of old 0 "-1"] find_le_last [of new 0 "-1"]
      within_found [of old ?first 0 "-1" ?final] within_found [of new ?first 0 "-1" ?final] by auto
  then show ?thesis
    by (simp add: trimDiffSpans_def Let_def piece_of_refl trim_side_changed trim_side_piece)
next
  case False
  then have "trimDiffSpans old new n = \<lparr>iq_before = old, iq_after = new\<rparr>"
    using one_sided_not_trimmed [of old new n] by (auto simp: trimDiffSpans_def)
  then show ?thesis by (simp add: piece_of_refl)
qed

end
