(* ===== verification/RowExt.thy ===== *)
theory RowExt
  imports ActivityLog "HOL-Library.Multiset"
begin

text \<open>
  Search result rows, \<open>src/mobipwn-web/src/lib/rowExt.ts\<close>: a row is an object whose member
  \<open>ext\<close> holds further fields, as an object or as its JSON text. \<open>JSON.parse\<close> is the argument
  \<open>parse\<close>. The numbers of the rows (identifiers, ports, byte counts, signal levels) are integers: a
  numeral with a fraction or an exponent is outside the model.
\<close>

section \<open>Numbers and orders\<close>

text \<open>\<open>Number(text)\<close> on texts of integers: white space around it is ignored, the empty text is 0,
  anything that is not a numeral is NaN (\<open>None\<close>).\<close>

definition digits_only :: "string \<Rightarrow> bool" where
  "digits_only s \<longleftrightarrow> s \<noteq> [] \<and> list_all is_digit s"

definition js_number :: "string \<Rightarrow> int option" where
  "js_number text =
     (let s = trim text in
      if s = [] then Some 0
      else if digits_only s then Some (int (digits_val 10 s))
      else if starts_with ''-'' s \<and> digits_only (drop 1 s) then Some (- int (digits_val 10 (drop 1 s)))
      else if starts_with ''+'' s \<and> digits_only (drop 1 s) then Some (int (digits_val 10 (drop 1 s)))
      else if (starts_with ''0x'' s \<or> starts_with ''0X'' s) \<and> drop 2 s \<noteq> [] \<and> list_all (digit_in 16) (drop 2 s)
      then Some (int (digits_val 16 (drop 2 s)))
      else None)"

definition upper_char :: "char \<Rightarrow> char" where
  "upper_char c = (if is_lower c then char_of (code c - 32) else c)"

definition to_upper :: "string \<Rightarrow> string" where
  "to_upper = map upper_char"

text \<open>\<open>xs.sort(cmp)\<close>, which is stable.\<close>

fun insert_by :: "('a \<Rightarrow> 'a \<Rightarrow> int) \<Rightarrow> 'a \<Rightarrow> 'a list \<Rightarrow> 'a list" where
  "insert_by cmp x [] = [x]"
| "insert_by cmp x (y # ys) = (if cmp x y \<le> 0 then x # y # ys else y # insert_by cmp x ys)"

definition js_sort :: "('a \<Rightarrow> 'a \<Rightarrow> int) \<Rightarrow> 'a list \<Rightarrow> 'a list" where
  "js_sort cmp xs = foldr (insert_by cmp) xs []"

text \<open>\<open>a || b\<close> of two comparison results.\<close>

definition then_by :: "int \<Rightarrow> int \<Rightarrow> int" where
  "then_by a b = (if a \<noteq> 0 then a else b)"

definition or_str :: "string \<Rightarrow> string \<Rightarrow> string" where
  "or_str s t = (if s \<noteq> [] then s else t)"

text \<open>\<open>a || b || ...\<close> of texts.\<close>

fun or_texts :: "string list \<Rightarrow> string" where
  "or_texts [] = []"
| "or_texts (s # ss) = or_str s (or_texts ss)"

section \<open>The fields of a row\<close>

type_synonym Row = "(string \<times> Json) list"
type_synonym JsonParse = "string \<Rightarrow> Json option"

definition parseExt :: "JsonParse \<Rightarrow> Row \<Rightarrow> Row" where
  "parseExt parse row =
     (case map_of row ''ext'' of
        Some (JStr raw) \<Rightarrow>
          (if trim raw \<noteq> [] then (case parse raw of Some (JObj kvs) \<Rightarrow> kvs | _ \<Rightarrow> []) else [])
      | Some (JObj kvs) \<Rightarrow> kvs
      | _ \<Rightarrow> [])"

definition strField :: "Row \<Rightarrow> string \<Rightarrow> string" where
  "strField row key = (case present (map_of row key) of None \<Rightarrow> [] | Some v \<Rightarrow> trim (js_text v))"

definition extField :: "JsonParse \<Rightarrow> Row \<Rightarrow> string \<Rightarrow> string" where
  "extField parse row key =
     (case present (map_of (parseExt parse row) key) of
        None \<Rightarrow> []
      | Some (JBool b) \<Rightarrow> (if b then ''true'' else ''false'')
      | Some v \<Rightarrow> trim (js_text v))"

text \<open>\<open>Number\<close> of a value that is not a number goes through its text; that of an object is NaN.\<close>

definition numFromValue :: "Json option \<Rightarrow> int option" where
  "numFromValue v =
     (case present v of
        None \<Rightarrow> None
      | Some (JNum n) \<Rightarrow> Some n
      | Some (JBool b) \<Rightarrow> Some (if b then 1 else 0)
      | Some (JObj kvs) \<Rightarrow> None
      | Some w \<Rightarrow> js_number (js_text w))"

definition numField :: "JsonParse \<Rightarrow> Row \<Rightarrow> string \<Rightarrow> int option" where
  "numField parse row key =
     numFromValue (or_else (present (map_of row key)) (map_of (parseExt parse row) key))"

section \<open>Facts\<close>

lemma mset_insert_by [simp]: "mset (insert_by cmp x ys) = add_mset x (mset ys)"
  by (induction ys) auto

lemma mset_js_sort [simp]: "mset (js_sort cmp xs) = mset xs"
  by (induction xs) (simp_all add: js_sort_def)

lemma set_js_sort [simp]: "set (js_sort cmp xs) = set xs"
  by (metis mset_js_sort set_mset_mset)

lemma length_js_sort [simp]: "length (js_sort cmp xs) = length xs"
  by (metis mset_js_sort size_mset)

lemma js_number_nat_str [simp]: "js_number (nat_str n) = Some (int n)"
proof -
  have "digits_only (nat_str n)" by (auto simp: digits_only_def list_all_iff intro: nat_str_digits)
  moreover have "trim (nat_str n) = nat_str n" using nat_str_trimmed by (simp add: trim_trimmed)
  ultimately show ?thesis by (simp add: js_number_def digits_val_num_str nat_str_def [symmetric]) (simp add: nat_str_def digits_val_num_str)
qed

lemma nat_str_inj: "nat_str m = nat_str n \<longleftrightarrow> m = n"
  by (metis js_number_nat_str of_nat_eq_iff option.inject)

lemma int_str_chars: "c \<in> set (int_str i) \<Longrightarrow> is_digit c \<or> c = CHR ''-''"
  using nat_str_digits by (auto simp: int_str_def split: if_splits)

lemma cut_first_colon: "CHR '':'' \<notin> set x \<Longrightarrow> takeWhile (\<lambda>c. c \<noteq> CHR '':'') (x @ CHR '':'' # s) = x"
  by (induction x) auto

lemma int_str_cut: "int_str a @ '':'' @ s = int_str b @ '':'' @ t \<longleftrightarrow> int_str a = int_str b \<and> s = t"
proof
  have no: "CHR '':'' \<notin> set (int_str i)" for i
    using int_str_chars [of "CHR '':''" i] by (auto simp: is_digit_def code_def)
  assume e: "int_str a @ '':'' @ s = int_str b @ '':'' @ t"
  then have "int_str a = int_str b"
    using cut_first_colon [OF no, of a s] cut_first_colon [OF no, of b t] by simp
  with e show "int_str a = int_str b \<and> s = t" by simp
qed simp

lemma int_str_inj: "int_str a = int_str b \<longleftrightarrow> a = b"
proof
  assume e: "int_str a = int_str b"
  have "CHR ''-'' \<notin> set (nat_str n)" for n
    using nat_str_digits [of "CHR ''-''" n] by (auto simp: is_digit_def code_def)
  then have no: "nat_str n \<noteq> CHR ''-'' # s" for s n by (metis list.set_intros(1))
  show "a = b"
    using e no [of "nat a"] no [of "nat b"]
    by (cases "a < 0"; cases "b < 0"; simp add: int_str_def nat_str_inj; metis)
qed simp

lemma strField_trimmed: "trim (strField row key) = strField row key"
  by (simp add: strField_def trim_idem split: option.splits)

end
