(* ===== verification/IpResolve.thy ===== *)
theory IpResolve
  imports Regex "HOL-Library.Word"
begin

text \<open>
  IP addresses as the client reads and shows them, \<open>src/mobipwn-web/src/lib/ipResolve.ts\<close>: IPv4 and
  IPv6 literals as octets, private ranges, addresses with an embedded IPv4 address, host and port.
  Octets and groups are the source's numbers, as integers; its shifts and masks by 8 bits are division
  and remainder by 256, on values that it has checked to be at most \<open>0xffff\<close>.
\<close>

section \<open>Literals\<close>

datatype IpResolveKind = K_ipv4 | K_nat64 | K_ipv4_mapped | K_ipv6 | K_invalid

record IpResolveResult =
  ip_input :: string
  ip_kind :: IpResolveKind
  ip_resolved :: "string option"
  ip_enrichable :: bool
  ip_note :: "string option"

definition NAT64_WKP_PREFIX :: "int list" where
  "NAT64_WKP_PREFIX = [0x00, 0x64, 0xff, 0x9b, 0, 0, 0, 0, 0, 0, 0, 0]"

definition stripZone :: "string \<Rightarrow> string" where
  "stripZone raw = trim (case index_of (CHR ''%'') raw of Some i \<Rightarrow> take i raw | None \<Rightarrow> raw)"

text \<open>The results of a list of parses, when all succeed.\<close>

fun all_some :: "'a option list \<Rightarrow> 'a list option" where
  "all_some [] = Some []"
| "all_some (x # xs) = (case (x, all_some xs) of (Some y, Some ys) \<Rightarrow> Some (y # ys) | _ \<Rightarrow> None)"

definition in_range :: "int \<Rightarrow> int option \<Rightarrow> int option" where
  "in_range m n = (case n of Some v \<Rightarrow> if v < 0 \<or> m < v then None else Some v | None \<Rightarrow> None)"

definition parseIpv4Dotted :: "string \<Rightarrow> int list option" where
  "parseIpv4Dotted s =
     (let parts = split_char (CHR ''.'') s in
      if length parts \<noteq> 4 then None
      else all_some (map (\<lambda>p. in_range 255 (parse_int 10 p)) parts))"

definition isPrivateIpv4 :: "int list \<Rightarrow> bool" where
  "isPrivateIpv4 octets =
     (let a = octets ! 0; b = octets ! 1 in
      a = 10 \<or> a = 127 \<or> a = 0 \<or> (a = 169 \<and> b = 254) \<or> (a = 192 \<and> b = 168)
      \<or> (a = 172 \<and> 16 \<le> b \<and> b \<le> 31) \<or> (a = 100 \<and> 64 \<le> b \<and> b \<le> 127))"

text \<open>\<open>s.split("::")\<close>.\<close>

fun split_colons :: "string \<Rightarrow> string list" where
  "split_colons [] = [[]]"
| "split_colons [c] = [[c]]"
| "split_colons (c # d # s) =
     (if c = CHR '':'' \<and> d = CHR '':'' then [] # split_colons s
      else (case split_colons (d # s) of w # ws \<Rightarrow> (c # w) # ws | [] \<Rightarrow> [[c]]))"

definition ipv6_chars_re :: regex where
  "ipv6_chars_re = Seqs [Bol, Plus (Cls (\<lambda>c. is_digit c \<or> lower_char c \<in> set ''abcdef'' \<or> c \<in> set '':.'')), Eol]"

definition group_octets :: "int \<Rightarrow> int list" where
  "group_octets n = [(n div 256) mod 256, n mod 256]"

text \<open>The eight groups of a literal, \<open>::\<close> filled up with zeros.\<close>

definition ipv6_groups :: "string \<Rightarrow> string list option" where
  "ipv6_groups lower =
     (let parts = split_colons lower; head = parts ! 0;
          tl' = (if length parts < 2 then None else Some (parts ! 1));
          headParts = (if head \<noteq> [] then nonempty (split_char (CHR '':'') head) else []);
          tailParts = (case tl' of Some t \<Rightarrow> nonempty (split_char (CHR '':'') t) | None \<Rightarrow> [])
      in if tl' = None \<and> length headParts \<noteq> 8 then None
         else if tl' \<noteq> None \<and> 8 < length headParts + length tailParts then None
         else
          (let missing = 8 - length headParts - length tailParts;
               groups = headParts @ (if tl' \<noteq> None then replicate missing ''0'' else []) @ tailParts
           in if length groups \<noteq> 8 then None else Some groups))"

definition expandIpv6Groups :: "string \<Rightarrow> int list option" where
  "expandIpv6Groups host =
     (let lower = to_lower host in
      if \<not> test ipv6_chars_re lower then None
      else case ipv6_groups lower of
        None \<Rightarrow> None
      | Some groups \<Rightarrow> map_option (\<lambda>ns. concat (map group_octets ns))
          (all_some (map (\<lambda>g. in_range 0xffff (parse_int 16 g)) groups)))"

definition nat64PrefixMatch :: "int list \<Rightarrow> bool" where
  "nat64PrefixMatch octets \<longleftrightarrow> list_all (\<lambda>(i, b). octets ! i = b) (indexed NAT64_WKP_PREFIX)"

definition ipv4MappedMatch :: "int list \<Rightarrow> bool" where
  "ipv4MappedMatch octets \<longleftrightarrow>
     list_all (\<lambda>b. b = 0) (take 10 octets) \<and> octets ! 10 = 0xff \<and> octets ! 11 = 0xff"

definition octetsToIpv4 :: "int list \<Rightarrow> string" where
  "octetsToIpv4 octets = int_str (octets ! 0) @ ''.'' @ int_str (octets ! 1) @ ''.''
     @ int_str (octets ! 2) @ ''.'' @ int_str (octets ! 3)"

section \<open>Host and port\<close>

definition isLikelyPort :: "string \<Rightarrow> bool" where
  "isLikelyPort s \<longleftrightarrow>
     test (Seqs [Bol, Digit, Upto 4 Digit, Eol]) s
     \<and> (case parse_int 10 s of Some n \<Rightarrow> 0 \<le> n \<and> n \<le> 65535 | None \<Rightarrow> False)"

definition port_re :: regex where
  "port_re = Seqs [Bol, Grp 1 (Plus Dot), Chr (CHR '':''), Grp 2 (Seqs [Digit, Upto 4 Digit]), Eol]"

definition before_colon :: "string \<Rightarrow> string \<times> string" where
  "before_colon s = (takeWhile (\<lambda>c. c \<noteq> CHR '':'') s, drop 1 (dropWhile (\<lambda>c. c \<noteq> CHR '':'') s))"

text \<open>The bracketed form \<open>[host]:port\<close>, when the value has it.\<close>

definition bracketed :: "string \<Rightarrow> (string \<times> string) option" where
  "bracketed val =
     (if \<not> starts_with ''['' val then None
      else case index_of (CHR '']'') val of
        Some end' \<Rightarrow>
          (let host = drop 1 (take end' val); rest = drop (end' + 1) val;
               port = (if starts_with '':'' rest
                       then takeWhile (\<lambda>c. \<not> is_space c \<and> c \<noteq> CHR ''/'') (drop 1 rest) else [])
           in Some (if host = [] then ''*'' else host, port))
      | None \<Rightarrow> None)"

text \<open>The form \<open>ipv6:port\<close>, when the value has it.\<close>

definition ipv6_with_port :: "string \<Rightarrow> (string \<times> string) option" where
  "ipv6_with_port val =
     (case exec port_re val of
        None \<Rightarrow> None
      | Some m \<Rightarrow>
          (let host = get_or [] (group 1 m); port = get_or [] (group 2 m) in
           if \<not> isLikelyPort port then None
           else
             (let host' = (if expandIpv6Groups host = None \<and> ends_with '':'' host \<and> contains ''::'' val
                           then host @ '':'' else host)
              in if expandIpv6Groups host' \<noteq> None \<or> host' = ''::'' then Some (host', port) else None)))"

definition splitHostPort :: "string \<Rightarrow> string \<times> string" where
  "splitHostPort addr =
     (let val = trim addr; colonCount = count_list val (CHR '':'') in
      if val = [] then ([], [])
      else case bracketed val of
        Some r \<Rightarrow> r
      | None \<Rightarrow>
          if colonCount = 1 then before_colon val
          else if 1 < colonCount
          then (case ipv6_with_port val of Some r \<Rightarrow> r | None \<Rightarrow> (val, []))
          else (val, []))"

section \<open>Display and resolution\<close>

text \<open>\<open>((octets[i] << 8) | octets[i + 1]).toString(16)\<close> for each pair.\<close>

fun print_groups :: "int list \<Rightarrow> string list" where
  "print_groups (a # b # os) = num_str 16 (nat (a * 256 + b)) # print_groups os"
| "print_groups os = []"

definition expandIpv6Literal :: "string \<Rightarrow> string option" where
  "expandIpv6Literal host =
     map_option (\<lambda>octets. join '':'' (print_groups octets)) (expandIpv6Groups (stripZone (trim host)))"

definition formatIpv6ForDisplay :: "string \<Rightarrow> string" where
  "formatIpv6ForDisplay host =
     (let val = trim host in
      if CHR '':'' \<notin> set val \<or> starts_with ''::ffff:'' val then val
      else if \<not> contains ''::'' val then val
      else get_or val (expandIpv6Literal val))"

definition NOT_ROUTABLE :: string where
  "NOT_ROUTABLE = ''private or non-routable IPv4''"

text \<open>The result for a host that is not a mapped dotted address, with the kind found so far.\<close>

definition resolve_host :: "string \<Rightarrow> string \<Rightarrow> IpResolveKind \<Rightarrow> IpResolveResult" where
  "resolve_host inp host kind =
     (case parseIpv4Dotted host of
        Some dotted \<Rightarrow>
          \<lparr>ip_input = inp, ip_kind = K_ipv4, ip_resolved = Some (octetsToIpv4 dotted),
           ip_enrichable = \<not> isPrivateIpv4 dotted,
           ip_note = (if isPrivateIpv4 dotted then Some NOT_ROUTABLE else None)\<rparr>
      | None \<Rightarrow>
         (case expandIpv6Groups host of
            None \<Rightarrow> \<lparr>ip_input = inp, ip_kind = K_invalid, ip_resolved = None, ip_enrichable = False,
                      ip_note = Some ''unparseable address''\<rparr>
          | Some v6 \<Rightarrow>
              (let embedded = take 4 (drop 12 v6) in
               if nat64PrefixMatch v6 then
                 \<lparr>ip_input = inp, ip_kind = K_nat64, ip_resolved = Some (octetsToIpv4 embedded),
                  ip_enrichable = \<not> isPrivateIpv4 embedded,
                  ip_note = Some (if isPrivateIpv4 embedded then ''embedded IPv4 is private''
                                  else ''NAT64 well-known prefix (64:ff9b::/96)'')\<rparr>
               else if ipv4MappedMatch v6 then
                 \<lparr>ip_input = inp, ip_kind = K_ipv4_mapped, ip_resolved = Some (octetsToIpv4 embedded),
                  ip_enrichable = \<not> isPrivateIpv4 embedded,
                  ip_note = (if isPrivateIpv4 embedded then Some ''embedded IPv4 is private'' else None)\<rparr>
               else if starts_with ''fe80:'' host \<or> host = ''::1'' then
                 \<lparr>ip_input = inp, ip_kind = K_ipv6, ip_resolved = None, ip_enrichable = False,
                  ip_note = Some ''link-local or loopback''\<rparr>
               else
                 \<lparr>ip_input = inp, ip_kind = kind, ip_resolved = None, ip_enrichable = False,
                  ip_note = Some (''native IPv6 '' @ em_dash @ '' GeoIP/VT use IPv4 only'')\<rparr>)))"

definition resolveIpAddress :: "string \<Rightarrow> IpResolveResult" where
  "resolveIpAddress raw =
     (let inp = trim raw; host = stripZone inp in
      if inp = [] \<or> inp = ''::'' then
        \<lparr>ip_input = inp, ip_kind = K_invalid, ip_resolved = None, ip_enrichable = False, ip_note = None\<rparr>
      else if starts_with ''::ffff:'' host then
        (let rest = drop 7 host in
         case parseIpv4Dotted rest of
           Some dotted \<Rightarrow>
             \<lparr>ip_input = inp, ip_kind = K_ipv4_mapped, ip_resolved = Some (octetsToIpv4 dotted),
              ip_enrichable = \<not> isPrivateIpv4 dotted,
              ip_note = (if isPrivateIpv4 dotted then Some NOT_ROUTABLE else None)\<rparr>
         | None \<Rightarrow> resolve_host inp rest K_ipv4_mapped)
      else resolve_host inp host K_ipv6)"

definition resolveDisplayHost :: "string \<Rightarrow> string" where
  "resolveDisplayHost raw =
     (let val = trim raw in
      if val = [] then []
      else (let host = fst (splitHostPort val) in get_or host (ip_resolved (resolveIpAddress host))))"

text \<open>\<open>text.split(/[\n,;]+/)\<close>: runs of separators count as one, which the filter makes irrelevant.\<close>

definition splitIpInputs :: "string \<Rightarrow> string list" where
  "splitIpInputs text =
     nonempty (map trim (split_char (CHR '','')
       (map (\<lambda>c. if c = CHR 0x0A \<or> c = CHR '';'' then CHR '','' else c) text)))"

section \<open>IPv4 literals\<close>

definition ipv4_text :: "8 word list \<Rightarrow> string" where
  "ipv4_text bs = join ''.'' (map (\<lambda>b. nat_str (unat b)) bs)"

lemma octets_text: "octetsToIpv4 (map uint [a, b, c, d :: 8 word]) = ipv4_text [a, b, c, d]"
  by (simp add: octetsToIpv4_def ipv4_text_def int_str_def)

lemma all_some_map: "(\<And>x. x \<in> set xs \<Longrightarrow> f x = Some (g x)) \<Longrightarrow> all_some (map f xs) = Some (map g xs)"
  by (induction xs) auto

lemma all_some_length: "all_some xs = Some ys \<Longrightarrow> length ys = length xs"
  by (induction xs arbitrary: ys) (auto split: option.splits)

lemma all_some_range: "all_some (map (\<lambda>p. in_range m (f p)) xs) = Some ys \<Longrightarrow> y \<in> set ys \<Longrightarrow> 0 \<le> y \<and> y \<le> m"
  by (induction xs arbitrary: ys) (auto simp: in_range_def split: option.splits if_splits)

lemma nat_str_plain: "c \<in> set (nat_str n) \<Longrightarrow> c \<in> set hex_digits"
  using num_str_hex [of 10 n] by (auto simp: nat_str_def)

lemma byte_bound: "uint (b :: 8 word) < 256" "unat b < 256"
  using unsigned_less [of b, where ?'a = int] unsigned_less [of b, where ?'a = nat] by simp_all

lemma bytes_of_ints: "(\<And>x. x \<in> set os \<Longrightarrow> 0 \<le> x \<and> x \<le> 255) \<Longrightarrow> map uint (map word_of_int os :: 8 word list) = os"
proof -
  assume r: "\<And>x. x \<in> set os \<Longrightarrow> 0 \<le> x \<and> x \<le> 255"
  have "uint (word_of_int x :: 8 word) = x" if "0 \<le> x" "x \<le> 255" for x
    using that by (simp add: uint_word_of_int)
  with r show ?thesis unfolding map_map by (intro map_idI) auto
qed

lemma parse_ipv4_text: "length bs = 4 \<Longrightarrow> parseIpv4Dotted (ipv4_text bs) = Some (map uint bs)"
proof -
  assume l: "length bs = 4"
  have "split_char (CHR ''.'') (ipv4_text bs) = map (\<lambda>b. nat_str (unat b)) bs"
    unfolding ipv4_text_def using l hex_digit_plain(7) [OF nat_str_plain] by (intro split_char_join) auto
  moreover have "in_range 255 (parse_int 10 (nat_str (unat b))) = Some (uint b)" for b :: "8 word"
    using byte_bound [of b] by (simp add: nat_str_def parse_int_num_str in_range_def)
  ultimately show ?thesis using l by (simp add: parseIpv4Dotted_def all_some_map comp_def)
qed

lemma parsed_octets:
  assumes "parseIpv4Dotted s = Some os"
  obtains bs :: "8 word list" where "os = map uint bs" "length bs = 4"
proof -
  from assms have l: "length os = 4" and r: "\<And>x. x \<in> set os \<Longrightarrow> 0 \<le> x \<and> x \<le> 255"
    by (auto simp: parseIpv4Dotted_def Let_def dest: all_some_length all_some_range split: if_splits)
  from bytes_of_ints [OF r] l show thesis
    by (intro that [of "map word_of_int os"]) (simp_all only: length_map)
qed

lemma ipv4_text_plain: "length bs = 4 \<Longrightarrow> c \<in> set (ipv4_text bs) \<Longrightarrow> c \<in> set hex_digits \<or> c = CHR ''.''"
  by (auto simp: ipv4_text_def length_Suc_conv numeral_eq_Suc dest: nat_str_plain)

lemma plain_trimmed:
  assumes "s \<noteq> []" and "\<And>c. c \<in> set s \<Longrightarrow> \<not> is_space c"
  shows "trim s = s"
  using assms by (intro trim_trimmed) (auto simp: trimmed_def)

lemma strip_zone_plain: "CHR ''%'' \<notin> set s \<Longrightarrow> stripZone s = trim s"
  using index_of_None [of "CHR ''%''" s] by (simp add: stripZone_def)

lemma ipv4_text_facts:
  assumes "length bs = 4"
  shows "trim (ipv4_text bs) = ipv4_text bs" "stripZone (ipv4_text bs) = ipv4_text bs"
    "\<not> starts_with '':'' (ipv4_text bs)"
proof -
  have ne: "ipv4_text bs \<noteq> []" using assms by (cases bs; cases "tl bs") (auto simp: ipv4_text_def)
  have sp: "\<not> is_space c \<and> c \<noteq> CHR ''%'' \<and> c \<noteq> CHR '':''" if "c \<in> set (ipv4_text bs)" for c
    using ipv4_text_plain [OF assms that] hex_digit_plain [of c] by (auto simp: is_space_def code_def)
  then show t: "trim (ipv4_text bs) = ipv4_text bs" using ne by (intro plain_trimmed) auto
  show "stripZone (ipv4_text bs) = ipv4_text bs" using t sp by (subst strip_zone_plain) auto
  show "\<not> starts_with '':'' (ipv4_text bs)" using ne sp by (cases "ipv4_text bs") (auto simp: starts_with_def)
qed

lemma resolve_ipv4_text:
  assumes "length bs = 4"
  shows "resolveIpAddress (ipv4_text bs) = \<lparr>ip_input = ipv4_text bs, ip_kind = K_ipv4,
    ip_resolved = Some (octetsToIpv4 (map uint bs)), ip_enrichable = \<not> isPrivateIpv4 (map uint bs),
    ip_note = (if isPrivateIpv4 (map uint bs) then Some NOT_ROUTABLE else None)\<rparr>"
proof -
  have "\<not> starts_with (CHR '':'' # s) (ipv4_text bs)" for s
    using ipv4_text_facts(3) [OF assms] by (cases "ipv4_text bs") (auto simp: starts_with_def)
  moreover have "ipv4_text bs \<noteq> []" "ipv4_text bs \<noteq> ''::''"
    using ipv4_text_facts(3) [OF assms] parse_ipv4_text [OF assms]
    by (auto simp: starts_with_def parseIpv4Dotted_def)
  ultimately show ?thesis
    by (simp add: resolveIpAddress_def ipv4_text_facts [OF assms] resolve_host_def parse_ipv4_text [OF assms])
qed

section \<open>IPv6 literals\<close>

lemma group_octets_range: "x \<in> set (group_octets n) \<Longrightarrow> 0 \<le> x \<and> x \<le> 255"
proof -
  assume "x \<in> set (group_octets n)"
  moreover have "0 \<le> m mod 256 \<and> m mod 256 \<le> 255" for m :: int
    using pos_mod_bound [of 256 m] by simp
  ultimately show ?thesis by (auto simp: group_octets_def)
qed

lemma expand_shape:
  assumes "expandIpv6Groups host = Some os"
  obtains ns where "os = concat (map group_octets ns)" "length ns = 8" "\<And>n. n \<in> set ns \<Longrightarrow> 0 \<le> n \<and> n \<le> 0xffff"
proof -
  have "length groups = 8" if "ipv6_groups l = Some groups" for l groups
    using that by (auto simp: ipv6_groups_def Let_def split: if_split_asm option.split_asm)
  with assms obtain groups ns where g: "length groups = 8"
    and ns: "all_some (map (\<lambda>g. in_range 0xffff (parse_int 16 g)) groups) = Some ns"
    and os: "os = concat (map group_octets ns)"
    by (auto simp: expandIpv6Groups_def Let_def split: if_splits option.splits)
  with all_some_length [OF ns] all_some_range [OF ns] show thesis by (intro that) auto
qed

lemma eight: "length ns = 8 \<Longrightarrow> \<exists>a b c d e f g h. ns = [a, b, c, d, e, f, g, h]"
  by (auto simp: length_Suc_conv numeral_eq_Suc)

lemma embedded_octets:
  assumes "expandIpv6Groups host = Some os"
  obtains bs :: "8 word list" where "take 4 (drop 12 os) = map uint bs" "length bs = 4"
proof -
  obtain ns where os: "os = concat (map group_octets ns)" and l: "length ns = 8"
    using expand_shape [OF assms] by metis
  have r: "0 \<le> x \<and> x \<le> 255" if "x \<in> set (take 4 (drop 12 os))" for x
    using that group_octets_range by (auto simp: os dest!: in_set_takeD in_set_dropD)
  have "length (take 4 (drop 12 os)) = 4" using eight [OF l] by (auto simp: os group_octets_def)
  with bytes_of_ints [OF r] show thesis
    by (intro that [of "map word_of_int (take 4 (drop 12 os))"]) (simp_all only: length_map)
qed

lemma four_bytes:
  assumes "length bs = 4"
  shows "octetsToIpv4 (map uint bs) = ipv4_text bs"
proof -
  obtain a b c d where "bs = [a, b, c, d]" using assms by (auto simp: length_Suc_conv numeral_eq_Suc)
  then show ?thesis using octets_text [of a b c d] by simp
qed

text \<open>What a resolution may give: nothing that is enrichable, or the literal of four bytes.\<close>

definition sound_resolution :: "IpResolveResult \<Rightarrow> bool" where
  "sound_resolution r = (case ip_resolved r of
        None \<Rightarrow> \<not> ip_enrichable r
      | Some s \<Rightarrow> \<exists>bs :: 8 word list. length bs = 4 \<and> s = octetsToIpv4 (map uint bs)
          \<and> parseIpv4Dotted s = Some (map uint bs)
          \<and> (ip_enrichable r \<longleftrightarrow> \<not> isPrivateIpv4 (map uint bs)))"

lemma sound_four_bytes:
  fixes bs :: "8 word list"
  shows "length bs = 4 \<Longrightarrow> sound_resolution \<lparr>ip_input = i, ip_kind = k, ip_resolved = Some (octetsToIpv4 (map uint bs)),
     ip_enrichable = \<not> isPrivateIpv4 (map uint bs), ip_note = n\<rparr>"
proof -
  assume "length bs = 4"
  moreover from this have "parseIpv4Dotted (octetsToIpv4 (map uint bs)) = Some (map uint bs)"
    by (simp only: four_bytes parse_ipv4_text)
  ultimately show ?thesis by (auto simp: sound_resolution_def intro!: exI [of _ bs])
qed

lemma sound_resolve_host: "sound_resolution (resolve_host inp host kind)"
proof (cases "parseIpv4Dotted host")
  case (Some os)
  then obtain bs :: "8 word list" where "os = map uint bs" "length bs = 4" by (rule parsed_octets)
  with Some show ?thesis by (simp add: resolve_host_def sound_four_bytes)
next
  case None
  show ?thesis
  proof (cases "expandIpv6Groups host")
    case (Some os)
    then obtain bs :: "8 word list" where "take 4 (drop 12 os) = map uint bs" "length bs = 4"
      by (rule embedded_octets)
    with None Some show ?thesis by (simp add: resolve_host_def Let_def sound_four_bytes) (simp add: sound_resolution_def)
  qed (simp add: None resolve_host_def sound_resolution_def)
qed

lemma sound_resolve: "sound_resolution (resolveIpAddress raw)"
proof -
  have "sound_resolution (case parseIpv4Dotted rest of
      Some dotted \<Rightarrow> \<lparr>ip_input = i, ip_kind = K_ipv4_mapped, ip_resolved = Some (octetsToIpv4 dotted),
          ip_enrichable = \<not> isPrivateIpv4 dotted, ip_note = (if isPrivateIpv4 dotted then Some NOT_ROUTABLE else None)\<rparr>
    | None \<Rightarrow> resolve_host i rest K_ipv4_mapped)" for i rest
  proof (cases "parseIpv4Dotted rest")
    case (Some os)
    then obtain bs :: "8 word list" where "os = map uint bs" "length bs = 4" by (rule parsed_octets)
    with Some show ?thesis by (simp add: sound_four_bytes)
  qed (simp add: sound_resolve_host)
  then show ?thesis
    by (simp add: resolveIpAddress_def Let_def sound_resolve_host) (simp add: sound_resolution_def)
qed

text \<open>
  An IPv4 literal of four bytes parses back to its bytes and resolves to itself, enrichable exactly
  when it is not private; and whatever text is resolved, what comes out is either nothing, never
  enrichable, or the canonical literal of four bytes, enrichable exactly when they are not private.
\<close>

theorem ip_resolution:
  "parseIpv4Dotted (octetsToIpv4 (map uint [a, b, c, d :: 8 word])) = Some (map uint [a, b, c, d])
   \<and> ip_resolved (resolveIpAddress (octetsToIpv4 (map uint [a, b, c, d]))) = Some (octetsToIpv4 (map uint [a, b, c, d]))
   \<and> sound_resolution (resolveIpAddress raw)"
proof -
  have l: "length [a, b, c, d] = 4" by simp
  show ?thesis using sound_resolve parse_ipv4_text [OF l] resolve_ipv4_text [OF l]
    unfolding four_bytes [OF l] by simp
qed

text \<open>Eight groups, printed in full.\<close>

definition ipv6_text :: "int list \<Rightarrow> string" where
  "ipv6_text ns = join '':'' (map (\<lambda>n. num_str 16 (nat n)) ns)"

lemma print_group_octets:
  "(\<And>n. n \<in> set ns \<Longrightarrow> 0 \<le> n \<and> n \<le> 0xffff) \<Longrightarrow>
     print_groups (concat (map group_octets ns)) = map (\<lambda>n. num_str 16 (nat n)) ns"
proof (induction ns)
  case (Cons n ns)
  have "(n div 256) mod 256 = n div 256" using Cons.prems [of n] by (intro mod_pos_pos_trivial) auto
  then have "(n div 256) mod 256 * 256 + n mod 256 = n" by simp
  with Cons show ?case by (simp add: group_octets_def)
qed simp

lemma split_colons_plain: "CHR '':'' \<notin> set w \<Longrightarrow> split_colons w = [w]"
  by (induction w rule: split_colons.induct) auto

lemma split_colons_step:
  "CHR '':'' \<notin> set w \<Longrightarrow> w \<noteq> [] \<Longrightarrow> s \<noteq> [] \<Longrightarrow> hd s \<noteq> CHR '':'' \<Longrightarrow> split_colons s = [s] \<Longrightarrow>
     split_colons (w @ CHR '':'' # s) = [w @ CHR '':'' # s]"
proof (induction w)
  case (Cons c w)
  show ?case
  proof (cases w)
    case Nil
    obtain d t where "s = d # t" using Cons.prems(3) by (cases s) auto
    with Cons.prems Nil show ?thesis by auto
  next
    case (Cons d t)
    with Cons.IH Cons.prems show ?thesis by auto
  qed
qed simp

lemma split_colons_join:
  "ws \<noteq> [] \<Longrightarrow> (\<And>w. w \<in> set ws \<Longrightarrow> w \<noteq> [] \<and> CHR '':'' \<notin> set w) \<Longrightarrow> split_colons (join '':'' ws) = [join '':'' ws]"
proof (induction ws)
  case (Cons w ws)
  show ?case
  proof (cases ws)
    case Nil
    with Cons.prems show ?thesis by (simp add: split_colons_plain)
  next
    case (Cons v vs)
    have v: "v \<noteq> []" "CHR '':'' \<notin> set v" using Cons.prems(2) [of v] Cons by auto
    have "join '':'' ws \<noteq> [] \<and> hd (join '':'' ws) \<noteq> CHR '':''"
      using v Cons by (cases vs; cases v) auto
    moreover have "split_colons (join '':'' ws) = [join '':'' ws]" using Cons.IH Cons.prems(2) Cons by simp
    ultimately have "split_colons (w @ CHR '':'' # join '':'' ws) = [w @ CHR '':'' # join '':'' ws]"
      using Cons.prems(2) [of w] by (intro split_colons_step) auto
    with Cons show ?thesis by simp
  qed
qed simp

lemma ipv6_text_chars: "c \<in> set (ipv6_text ns) \<Longrightarrow> c \<in> set hex_digits \<or> c = CHR '':''"
proof -
  have "c \<in> set (join '':'' ws) \<Longrightarrow> (\<exists>w \<in> set ws. c \<in> set w) \<or> c = CHR '':''" for ws
    by (induction ws rule: induct_list012) auto
  then show "c \<in> set (ipv6_text ns) \<Longrightarrow> c \<in> set hex_digits \<or> c = CHR '':''"
    using num_str_hex [of 16] by (fastforce simp: ipv6_text_def)
qed

lemma ipv6_text_facts:
  assumes "length ns = 8"
  shows "ipv6_text ns \<noteq> []" "to_lower (ipv6_text ns) = ipv6_text ns"
    "trim (ipv6_text ns) = ipv6_text ns" "stripZone (ipv6_text ns) = ipv6_text ns"
    "test ipv6_chars_re (ipv6_text ns)"
proof -
  show ne: "ipv6_text ns \<noteq> []" using assms by (cases ns; cases "tl ns") (auto simp: ipv6_text_def)
  have ch: "\<not> is_space c \<and> c \<noteq> CHR ''%'' \<and> lower_char c = c
      \<and> (is_digit c \<or> lower_char c \<in> set ''abcdef'' \<or> c \<in> set '':.'')" if "c \<in> set (ipv6_text ns)" for c
    using ipv6_text_chars [OF that]
  proof
    assume "c \<in> set hex_digits"
    from hex_digit_plain [OF this] show ?thesis by simp
  next
    assume "c = CHR '':''"
    moreover have "\<not> is_space (CHR '':'')" "lower_char (CHR '':'') = CHR '':''" by code_simp+
    ultimately show ?thesis by simp
  qed
  then show "to_lower (ipv6_text ns) = ipv6_text ns" by (simp add: to_lower_def map_idI)
  show t: "trim (ipv6_text ns) = ipv6_text ns" using ch ne by (intro plain_trimmed) auto
  show "stripZone (ipv6_text ns) = ipv6_text ns" using t ch by (subst strip_zone_plain) auto
  show "test ipv6_chars_re (ipv6_text ns)"
    unfolding ipv6_chars_re_def by (intro test_class_all) (use ch in \<open>unfold list_all_iff; blast\<close>, rule ne)
qed

lemma expand_ipv6_text:
  assumes "length ns = 8" and r: "\<And>n. n \<in> set ns \<Longrightarrow> 0 \<le> n \<and> n \<le> 0xffff"
  shows "expandIpv6Groups (ipv6_text ns) = Some (concat (map group_octets ns))"
proof -
  let ?ws = "map (\<lambda>n. num_str 16 (nat n)) ns"
  have ws: "?ws \<noteq> []" "w \<in> set ?ws \<Longrightarrow> w \<noteq> [] \<and> CHR '':'' \<notin> set w" for w
    using assms(1) num_str_hex [of 16] hex_digit_plain(6) by auto
  then have sc: "split_colons (ipv6_text ns) = [ipv6_text ns]"
    unfolding ipv6_text_def by (intro split_colons_join) auto
  have "split_char (CHR '':'') (ipv6_text ns) = ?ws"
    unfolding ipv6_text_def using ws by (intro split_char_join) auto
  moreover have "nonempty ?ws = ?ws" using ws(2) by (simp add: nonempty_def filter_id_conv)
  ultimately have "ipv6_groups (ipv6_text ns) = Some ?ws"
    using assms(1) ipv6_text_facts(1) [OF assms(1)] by (simp add: ipv6_groups_def sc)
  moreover have "in_range 0xffff (parse_int 16 (num_str 16 (nat n))) = Some n" if "n \<in> set ns" for n
    using r [OF that] by (simp add: parse_int_num_str in_range_def)
  then have "all_some (map (\<lambda>g. in_range 0xffff (parse_int 16 g)) ?ws) = Some ns"
    unfolding map_map comp_def by (subst all_some_map [where g = "\<lambda>n. n"]) auto
  ultimately show ?thesis using ipv6_text_facts [OF assms(1)] by (simp add: expandIpv6Groups_def)
qed

text \<open>
  The expanded form of an IPv6 literal denotes the same 16 octets as the literal, and expanding it
  again changes nothing, so the displayed form is canonical.
\<close>

theorem expanded_ipv6_canonical:
  "case expandIpv6Literal host of
     None \<Rightarrow> expandIpv6Groups (stripZone (trim host)) = None
   | Some t \<Rightarrow> expandIpv6Groups t = expandIpv6Groups (stripZone (trim host)) \<and> expandIpv6Literal t = Some t"
proof (cases "expandIpv6Groups (stripZone (trim host))")
  case None
  then show ?thesis by (simp add: expandIpv6Literal_def)
next
  case (Some os)
  from expand_shape [OF this] obtain ns where ns: "os = concat (map group_octets ns)" "length ns = 8"
    "\<And>n. n \<in> set ns \<Longrightarrow> 0 \<le> n \<and> n \<le> 0xffff" by blast
  then have t: "join '':'' (print_groups os) = ipv6_text ns" by (simp add: print_group_octets ipv6_text_def)
  have "expandIpv6Groups (ipv6_text ns) = Some os" using expand_ipv6_text [OF ns(2,3)] ns(1) by simp
  moreover from this have "expandIpv6Literal (ipv6_text ns) = Some (ipv6_text ns)"
    using ipv6_text_facts [OF ns(2)] t by (simp add: expandIpv6Literal_def)
  ultimately show ?thesis using Some t by (simp add: expandIpv6Literal_def)
qed

section \<open>Addresses that are misread\<close>

text \<open>The last group of a bare address is taken for a port.\<close>

lemma loopback_read_as_port: "splitHostPort ''::1'' = (''::'', ''1'') \<and> splitHostPort ''a:b::1'' = (''a:b::'', ''1'')"
  by code_simp

text \<open>An IPv4-mapped address whose last 32 bits are written in hexadecimal is not recognised.\<close>

lemma mapped_hex_rejected:
  "ip_kind (resolveIpAddress ''::ffff:808:808'') = K_invalid
   \<and> ip_resolved (resolveIpAddress ''::ffff:8.8.8.8'') = Some ''8.8.8.8''"
  by code_simp

text \<open>Trailing text in an octet and a second \<open>::\<close> are ignored.\<close>

lemma malformed_accepted:
  "parseIpv4Dotted ''1.2.3.4abc'' = Some [1, 2, 3, 4]
   \<and> expandIpv6Groups ''1::2::3'' = expandIpv6Groups ''1::2''"
  by code_simp

end
