(* ===== verification/NetworkOwner.thy ===== *)
theory NetworkOwner
  imports RowExt IpResolve
begin

text \<open>
  Who owns a network row and with whom it talks: \<open>networkOwner.ts\<close>, the hints of
  \<open>networkUidHints.ts\<close> that name the owner of a numeric user id, and the parser of socket rows in
  \<open>networkSockets.ts\<close> (under \<open>src/mobipwn-web/src/lib\<close>). \<open>compare\<close> stands for
  \<open>localeCompare\<close>.
\<close>

section \<open>Owners\<close>

definition either_field :: "JsonParse \<Rightarrow> Row \<Rightarrow> string \<Rightarrow> string" where
  "either_field parse row key = or_str (strField row key) (extField parse row key)"

definition isStaleNetworkRow :: "JsonParse \<Rightarrow> Row \<Rightarrow> bool" where
  "isStaleNetworkRow parse row \<longleftrightarrow>
     either_field parse row ''attribution_status'' = ''stale_socket'' \<or> either_field parse row ''owner_type'' = ''stale''"

definition isListenerNetworkRow :: "JsonParse \<Rightarrow> Row \<Rightarrow> bool" where
  "isListenerNetworkRow parse row \<longleftrightarrow>
     either_field parse row ''socket_direction'' = ''listen''
     \<or> to_upper (or_str (extField parse row ''state'') (strField row ''action'')) = ''LISTEN''"

definition isWildcardIp :: "string \<Rightarrow> bool" where
  "isWildcardIp host \<longleftrightarrow> host = ''*'' \<or> host = ''::'' \<or> host = ''0.0.0.0'' \<or> host = ''0:0:0:0:0:0:0:0''"

definition resolvePeerIp :: "JsonParse \<Rightarrow> Row \<Rightarrow> string" where
  "resolvePeerIp parse row =
     (let peer = either_field parse row ''peer_ip'' in if peer \<noteq> [] \<and> \<not> isWildcardIp peer then peer else [])"

definition package_like :: "string \<Rightarrow> bool" where
  "package_like s \<longleftrightarrow> CHR ''.'' \<in> set s \<and> CHR '' '' \<notin> set s \<and> \<not> starts_with ''binder:'' s"

definition process_owner :: "string \<Rightarrow> string" where
  "process_owner s = (if package_like s then s else ''proc:'' @ s)"

definition owner_enriched :: "JsonParse \<Rightarrow> Row \<Rightarrow> bool" where
  "owner_enriched parse row \<longleftrightarrow>
     (let owner = either_field parse row ''owner''; ownerType = either_field parse row ''owner_type''
      in owner \<noteq> [] \<and> ownerType \<noteq> ''stale'' \<and> ownerType \<noteq> ''unknown'' \<and> owner \<noteq> ''unattributed''
         \<and> \<not> starts_with ''unattributed'' owner)"

fun first_text :: "string list \<Rightarrow> string" where
  "first_text [] = []"
| "first_text (s # ss) = or_str s (first_text ss)"

definition resolveNetworkOwner :: "JsonParse \<Rightarrow> Row \<Rightarrow> string" where
  "resolveNetworkOwner parse row =
     (if isStaleNetworkRow parse row then []
      else
        let owner = either_field parse row ''owner'';
            ownerType = either_field parse row ''owner_type'';
            bundle = first_text [strField row ''bundle_id'', strField row ''package_name'', extField parse row ''package_name'',
              extField parse row ''package'', extField parse row ''bundle_id''];
            programName = extField parse row ''program_name'';
            processName = first_text [strField row ''process_name'', extField parse row ''process_cmd'', extField parse row ''process_name''];
            appName = either_field parse row ''app_name'';
            uid = or_str (strField row ''process_id'') (extField parse row ''uid'')
        in
          if owner_enriched parse row
          then (if ownerType = ''package'' \<or> ownerType \<noteq> ''process'' \<and> package_like owner then owner else ''proc:'' @ owner)
          else if bundle \<noteq> [] then bundle
          else if programName \<noteq> [] then process_owner programName
          else if processName \<noteq> [] then process_owner processName
          else if appName \<noteq> [] then appName
          else if uid \<noteq> [] \<and> uid \<noteq> ''0'' then ''uid:'' @ uid
          else [])"

definition package_re :: regex where
  "package_re = Seqs [Bol, Alts (map LitI [''com'', ''org'', ''io'', ''android'', ''edu'', ''gov'', ''de'', ''fr'', ''uk'', ''jp'', ''co'']),
     Chr (CHR ''.''), Plus (Cls is_word), Plus (Seq (Chr (CHR ''.'')) (Plus (Cls is_word))), Eol]"

definition looksLikeAndroidPackage :: "string \<Rightarrow> bool" where
  "looksLikeAndroidPackage s = test package_re s"

definition last_two :: "'a list \<Rightarrow> 'a list" where
  "last_two xs = drop (length xs - 2) xs"

definition networkOwnerLabel :: "string \<Rightarrow> string" where
  "networkOwnerLabel owner =
     (if owner = [] \<or> owner = ''unknown'' then ''unknown''
      else if owner = ''stale'' then ''stale''
      else if owner = ''unattributed'' then ''unattributed''
      else if starts_with ''uid:'' owner then owner
      else if starts_with ''proc:'' owner then drop 5 owner
      else let parts = split_char (CHR ''.'') owner in
        if looksLikeAndroidPackage owner \<and> length parts \<ge> 2 then join ''.'' (last_two parts) else owner)"

definition networkOwnerDisplay :: "JsonParse \<Rightarrow> Row \<Rightarrow> string" where
  "networkOwnerDisplay parse row =
     (if isStaleNetworkRow parse row then ''stale''
      else networkOwnerLabel (or_str (resolveNetworkOwner parse row) ''unattributed''))"

definition isMeaningfulFlowDestination :: "JsonParse \<Rightarrow> Row \<Rightarrow> string \<Rightarrow> bool" where
  "isMeaningfulFlowDestination parse row target \<longleftrightarrow>
     target \<noteq> [] \<and> \<not> isWildcardIp target \<and> \<not> isListenerNetworkRow parse row"

text \<open>The code units U+FFFF and U+FFFE, spelled by their UTF-8 bytes.\<close>

definition UFFFF :: string where
  "UFFFF = [CHR 0xEF, CHR 0xBF, CHR 0xBF]"

definition UFFFE :: string where
  "UFFFE = [CHR 0xEF, CHR 0xBF, CHR 0xBE]"

definition networkOwnerSortKey :: "string \<Rightarrow> string" where
  "networkOwnerSortKey label =
     (let normalized = to_lower label in
      if normalized = ''stale'' then UFFFF @ '' stale''
      else if normalized = ''unattributed'' \<or> normalized = ''unknown'' then UFFFE @ '' unattributed''
      else normalized)"

type_synonym compare = "string \<Rightarrow> string \<Rightarrow> int"

definition compareNetworkOwnerLabels :: "compare \<Rightarrow> string \<Rightarrow> string \<Rightarrow> int" where
  "compareNetworkOwnerLabels compare a b =
     then_by (compare (networkOwnerSortKey a) (networkOwnerSortKey b)) (compare a b)"

definition compareFlowSources :: "compare \<Rightarrow> string \<Rightarrow> string \<Rightarrow> int" where
  "compareFlowSources compare a b = compareNetworkOwnerLabels compare (networkOwnerLabel a) (networkOwnerLabel b)"

definition flowSourceFromRow :: "JsonParse \<Rightarrow> Row \<Rightarrow> string \<Rightarrow> string" where
  "flowSourceFromRow parse row unknownLabel =
     (if isStaleNetworkRow parse row then ''stale'' else or_str (resolveNetworkOwner parse row) unknownLabel)"

section \<open>User ids\<close>

definition AID_APP_START :: int where
  "AID_APP_START = 10000"

definition PER_USER_RANGE :: int where
  "PER_USER_RANGE = 100000"

record UidOwnerHint =
  h_package :: "string option"
  h_process :: "string option"
  h_user :: "string option"

definition no_hint :: UidOwnerHint where
  "no_hint = \<lparr>h_package = None, h_process = None, h_user = None\<rparr>"

definition KNOWN_ANDROID_UID_INFO :: "(string \<times> (string \<times> string)) list" where
  "KNOWN_ANDROID_UID_INFO =
     [(''1073'', (''com.android.networkstack.process'',
       ''UID 1073 is the network stack shared UID; the listen socket has no program name in netstat, but process rows identify com.android.networkstack.process.''))]"

definition named_uids :: "(string \<times> int) list" where
  "named_uids =
     [(''root'', 0), (''system'', 1000), (''radio'', 1001), (''phone'', 1001), (''bluetooth'', 1002), (''graphics'', 1003),
      (''input'', 1004), (''audio'', 1005), (''camera'', 1006), (''log'', 1007), (''compass'', 1008), (''mount'', 1009),
      (''wifi'', 1010), (''adb'', 1011), (''install'', 1012), (''media'', 1013), (''dhcp'', 1014), (''sdcard_rw'', 1015),
      (''vpn'', 1016), (''keystore'', 1017), (''drm'', 1019), (''media_rw'', 1023), (''nfc'', 1027), (''clat'', 1029),
      (''shell'', 2000), (''network_stack'', 1073), (''nobody'', 9999)]"

definition namedAndroidUid :: "string \<Rightarrow> int option" where
  "namedAndroidUid name = map_of named_uids name"

definition parseAndroidLinuxUid :: "string \<Rightarrow> string option" where
  "parseAndroidLinuxUid user =
     (let trimmed = trim user in
      if trimmed = [] then None
      else if starts_with ''u'' trimmed then
        (let rest = drop 1 trimmed in
         case index_of (CHR ''_'') rest of
           None \<Rightarrow> None
         | Some underscore \<Rightarrow>
             (case js_number (take underscore rest) of
                None \<Rightarrow> None
              | Some userId \<Rightarrow>
                  let suffix = drop (underscore + 1) rest; base = userId * PER_USER_RANGE in
                  if starts_with ''a'' suffix
                  then map_option (\<lambda>offset. int_str (base + AID_APP_START + offset)) (js_number (drop 1 suffix))
                  else if starts_with ''i'' suffix
                  then map_option (\<lambda>offset. int_str (base + 99000 + offset)) (js_number (drop 1 suffix))
                  else map_option (\<lambda>named. int_str (base + named)) (namedAndroidUid suffix)))
      else map_option int_str (namedAndroidUid trimmed))"

definition patch_field :: "string option \<Rightarrow> string option \<Rightarrow> string option" where
  "patch_field new prev = or_else (truthy new) prev"

type_synonym UidHints = "string \<rightharpoonup> UidOwnerHint"

definition mergeUidHint :: "string \<Rightarrow> UidOwnerHint \<Rightarrow> UidHints \<Rightarrow> UidHints" where
  "mergeUidHint uid patch m =
     (if uid = [] \<or> uid = ''0'' then m
      else let prev = get_or no_hint (m uid) in
        m(uid \<mapsto> \<lparr>h_package = patch_field (h_package patch) (h_package prev),
          h_process = patch_field (h_process patch) (h_process prev), h_user = patch_field (h_user patch) (h_user prev)\<rparr>))"

definition set_if :: "string \<Rightarrow> string option \<Rightarrow> string option" where
  "set_if s prev = (if s \<noteq> [] then Some s else prev)"

definition hintFromNetworkRow :: "JsonParse \<Rightarrow> Row \<Rightarrow> (string \<times> UidOwnerHint) option" where
  "hintFromNetworkRow parse row =
     (let uid = first_text [strField row ''process_id'', extField parse row ''uid'', extField parse row ''program_pid''] in
      if uid = [] \<or> uid = ''0'' then None
      else
        let owner = either_field parse row ''owner'';
            ownerType = either_field parse row ''owner_type'';
            is_package = (ownerType = ''package'' \<or> ownerType \<noteq> ''process'' \<and> looksLikeAndroidPackage owner);
            bundle = first_text [strField row ''bundle_id'', strField row ''package_name'', extField parse row ''package_name''];
            program = extField parse row ''program_name'';
            processName = or_str (strField row ''process_name'') (extField parse row ''process_cmd'');
            user = or_str (strField row ''user'') (extField parse row ''process_user'');
            package = set_if bundle (if owner \<noteq> [] \<and> is_package then Some owner else None);
            process = set_if processName (set_if program (if owner \<noteq> [] \<and> \<not> is_package then Some owner else None));
            hint = \<lparr>h_package = package, h_process = process, h_user = set_if user None\<rparr>
        in if package = None \<and> process = None \<and> h_user hint = None then None else Some (uid, hint))"

definition package_hint :: "string \<Rightarrow> UidOwnerHint" where
  "package_hint name = no_hint\<lparr>h_package := Some name\<rparr>"

definition user_entries :: "Json option \<Rightarrow> int \<Rightarrow> string \<Rightarrow> (string \<times> UidOwnerHint) list" where
  "user_entries users appId packageName =
     (case users of
        Some (JArr es) \<Rightarrow> List.map_filter (\<lambda>e. map_option
            (\<lambda>userId. (int_str (userId * PER_USER_RANGE + appId), package_hint packageName))
            (numFromValue (field e ''user_id''))) es
      | _ \<Rightarrow> [])"

definition hintFromPackageRow :: "JsonParse \<Rightarrow> Row \<Rightarrow> (string \<times> UidOwnerHint) list" where
  "hintFromPackageRow parse row =
     (let ext = parseExt parse row;
          packageName = or_str (strField row ''bundle_id'') (extField parse row ''package_name'');
          appId = or_else (numField parse row ''appId'') (numFromValue (map_of ext ''appId''));
          directUid = or_else (numField parse row ''uid'') (numFromValue (map_of ext ''uid''))
      in if packageName = [] then []
         else (case directUid of Some u \<Rightarrow> [(int_str u, package_hint packageName)] | None \<Rightarrow> [])
           @ (case appId of
                Some a \<Rightarrow> (int_str a, package_hint packageName) # user_entries (map_of ext ''users'') a packageName
              | None \<Rightarrow> []))"

definition hintFromProcessRow :: "JsonParse \<Rightarrow> Row \<Rightarrow> (string \<times> UidOwnerHint) option" where
  "hintFromProcessRow parse row =
     (let user = either_field parse row ''user'';
          process = first_text [strField row ''process_name'', extField parse row ''cmd'', extField parse row ''command'', extField parse row ''name'']
      in case (if user \<noteq> [] then parseAndroidLinuxUid user else None) of
           None \<Rightarrow> None
         | Some uid \<Rightarrow>
             if process = [] \<and> user = [] then None
             else Some (uid, \<lparr>h_package = None, h_process = truthy (Some process), h_user = truthy (Some user)\<rparr>))"

definition collect_step :: "JsonParse \<Rightarrow> Row \<Rightarrow> UidHints \<Rightarrow> UidHints" where
  "collect_step parse row m =
     (let parser = to_lower (strField row ''parser''); dataType = to_lower (strField row ''data_type'') in
      if parser = ''package'' \<or> contains ''package_metadata'' dataType
      then fold (\<lambda>(uid, hint). mergeUidHint uid hint) (hintFromPackageRow parse row) m
      else if parser = ''process'' \<or> contains ''process'' dataType
      then (case hintFromProcessRow parse row of Some (uid, hint) \<Rightarrow> mergeUidHint uid hint m | None \<Rightarrow> m)
      else if parser = ''network'' \<or> contains ''network'' dataType
      then (case hintFromNetworkRow parse row of Some (uid, hint) \<Rightarrow> mergeUidHint uid hint m | None \<Rightarrow> m)
      else m)"

definition collectUidOwnerHints :: "JsonParse \<Rightarrow> Row list \<Rightarrow> UidHints" where
  "collectUidOwnerHints parse rows = fold (collect_step parse) rows Map.empty"

definition formatUidHint :: "UidOwnerHint \<Rightarrow> string option" where
  "formatUidHint hint =
     (case (truthy (h_package hint), truthy (h_process hint)) of
        (Some package, Some process) \<Rightarrow> if package \<noteq> process then Some (process @ '' '' @ middle_dot @ '' '' @ package) else Some package
      | (Some package, None) \<Rightarrow> Some package
      | (None, Some process) \<Rightarrow> Some process
      | (None, None) \<Rightarrow> truthy (h_user hint))"

definition uidOwnerDetail :: "string \<Rightarrow> UidHints \<Rightarrow> string option" where
  "uidOwnerDetail uidKey hints =
     (if \<not> starts_with ''uid:'' uidKey then None
      else let uid = drop 4 uidKey in
        case (case hints uid of Some hint \<Rightarrow> formatUidHint hint | None \<Rightarrow> None) of
          Some formatted \<Rightarrow> Some formatted
        | None \<Rightarrow> map_option fst (map_of KNOWN_ANDROID_UID_INFO uid))"

definition uidOwnerPresentation :: "string \<Rightarrow> UidHints \<Rightarrow> string option \<times> string option" where
  "uidOwnerPresentation uidKey hints =
     (if \<not> starts_with ''uid:'' uidKey then (None, None)
      else (uidOwnerDetail uidKey hints, map_option snd (map_of KNOWN_ANDROID_UID_INFO (drop 4 uidKey))))"

end
