(* ===== verification/Grouping.thy ===== *)
theory Grouping
  imports Main
begin

text \<open>
  Rows collected into a \<open>Map\<close>, as the aggregations of the network pages do: a row without a key
  is skipped, the first row of a key makes a group, every later one is merged into it. A \<open>Map\<close>
  is an association list in insertion order. The locale \<open>additive_group\<close> is the contract of a
  quantity that groups add up.
\<close>

fun map_upsert :: "'k \<Rightarrow> ('b \<Rightarrow> 'b) \<Rightarrow> 'b \<Rightarrow> ('k \<times> 'b) list \<Rightarrow> ('k \<times> 'b) list" where
  "map_upsert k f v [] = [(k, v)]"
| "map_upsert k f v ((k', b) # m) = (if k' = k then (k', f b) # m else (k', b) # map_upsert k f v m)"

definition group_step ::
  "('r \<Rightarrow> 'k option) \<Rightarrow> ('r \<Rightarrow> 'b) \<Rightarrow> ('b \<Rightarrow> 'r \<Rightarrow> 'b) \<Rightarrow> ('k \<times> 'b) list \<Rightarrow> 'r \<Rightarrow> ('k \<times> 'b) list" where
  "group_step key fresh merge m r =
     (case key r of None \<Rightarrow> m | Some k \<Rightarrow> map_upsert k (\<lambda>b. merge b r) (fresh r) m)"

definition group_rows ::
  "('r \<Rightarrow> 'k option) \<Rightarrow> ('r \<Rightarrow> 'b) \<Rightarrow> ('b \<Rightarrow> 'r \<Rightarrow> 'b) \<Rightarrow> 'r list \<Rightarrow> ('k \<times> 'b) list" where
  "group_rows key fresh merge rows = foldl (group_step key fresh merge) [] rows"

text \<open>What a group is: the rows of its key, merged in order.\<close>

definition group_of ::
  "('r \<Rightarrow> 'k option) \<Rightarrow> ('r \<Rightarrow> 'b) \<Rightarrow> ('b \<Rightarrow> 'r \<Rightarrow> 'b) \<Rightarrow> 'r list \<Rightarrow> 'k \<Rightarrow> 'b option" where
  "group_of key fresh merge rows k =
     (case filter (\<lambda>r. key r = Some k) rows of [] \<Rightarrow> None | r # rs \<Rightarrow> Some (foldl merge (fresh r) rs))"

lemma keys_upsert: "fst ` set (map_upsert k f v m) = insert k (fst ` set m)"
proof (induction m)
  case (Cons x m)
  then show ?case by (cases x) (simp add: insert_commute)
qed simp

lemma distinct_upsert: "distinct (map fst m) \<Longrightarrow> distinct (map fst (map_upsert k f v m))"
proof (induction m)
  case (Cons x m)
  then show ?case by (cases x) (simp add: keys_upsert, blast)
qed simp

lemma map_of_upsert:
  "map_of (map_upsert k f v m) k' = (if k' = k then Some (case map_of m k of None \<Rightarrow> v | Some b \<Rightarrow> f b) else map_of m k')"
  by (induction m) auto

lemma group_rows_snoc:
  "group_rows key fresh merge (rows @ [r]) = group_step key fresh merge (group_rows key fresh merge rows) r"
  by (simp add: group_rows_def)

lemma group_rows_distinct: "distinct (map fst (group_rows key fresh merge rows))"
proof (induction rows rule: rev_induct)
  case (snoc r rows)
  then show ?case
    by (auto simp: group_rows_snoc group_step_def distinct_upsert split: option.splits)
qed (simp add: group_rows_def)

lemma group_rows_lookup: "map_of (group_rows key fresh merge rows) k = group_of key fresh merge rows k"
proof (induction rows rule: rev_induct)
  case Nil
  then show ?case by (simp add: group_rows_def group_of_def)
next
  case (snoc r rows)
  then show ?case
    by (auto simp: group_rows_snoc group_step_def map_of_upsert group_of_def split: option.splits list.splits)
qed

lemma group_rows_member:
  "(k, b) \<in> set (group_rows key fresh merge rows) \<longleftrightarrow> group_of key fresh merge rows k = Some b"
  using group_rows_distinct group_rows_lookup by (metis map_of_eq_Some_iff)

lemma length_upsert: "length (map_upsert k f v m) \<le> Suc (length m)"
  by (induction m) auto

lemma group_rows_few: "length (group_rows key fresh merge rows) \<le> length rows"
proof (induction rows rule: rev_induct)
  case (snoc r rows)
  then show ?case
    by (simp add: group_rows_snoc group_step_def length_upsert [THEN le_trans] split: option.splits)
qed (simp add: group_rows_def)

text \<open>A property of the group of a row that merging keeps holds of every group.\<close>

lemma group_of_invariant:
  assumes "group_of key fresh merge rows k = Some b"
    and "\<And>r. r \<in> set rows \<Longrightarrow> key r = Some k \<Longrightarrow> P (fresh r)"
    and "\<And>r b. r \<in> set rows \<Longrightarrow> key r = Some k \<Longrightarrow> P b \<Longrightarrow> P (merge b r)"
  shows "P b"
proof -
  obtain r rs where f: "filter (\<lambda>r. key r = Some k) rows = r # rs" and b: "b = foldl merge (fresh r) rs"
    using assms(1) by (auto simp: group_of_def split: list.splits)
  have rs: "set (r # rs) \<subseteq> {r \<in> set rows. key r = Some k}" using arg_cong [OF f, of set] by auto
  have "P c \<Longrightarrow> P (foldl merge c rs')" if "set rs' \<subseteq> {r \<in> set rows. key r = Some k}" for c rs'
    using that by (induction rs' arbitrary: c) (auto simp: assms(3))
  with rs assms(2) b show ?thesis by simp
qed

lemma group_rows_keys: "fst ` set (group_rows key fresh merge rows) = {k. Some k \<in> key ` set rows}"
proof -
  have "k \<in> fst ` set (group_rows key fresh merge rows) \<longleftrightarrow> filter (\<lambda>r. key r = Some k) rows \<noteq> []" for k
    using map_of_eq_None_iff [of "group_rows key fresh merge rows" k]
    unfolding group_rows_lookup by (auto simp: group_of_def split: list.splits)
  then show ?thesis by (force simp: filter_empty_conv)
qed

locale additive_group =
  fixes fresh :: "'r \<Rightarrow> 'b" and merge :: "'b \<Rightarrow> 'r \<Rightarrow> 'b" and weight :: "'b \<Rightarrow> int" and part :: "'r \<Rightarrow> int"
  assumes weight_fresh: "weight (fresh r) = part r"
    and weight_merge: "weight (merge b r) = weight b + part r"
begin

lemma weight_upsert:
  "distinct (map fst m) \<Longrightarrow> (\<Sum>g\<leftarrow>map_upsert k (\<lambda>b. merge b r) (fresh r) m. weight (snd g)) = (\<Sum>g\<leftarrow>m. weight (snd g)) + part r"
  by (induction m) (auto simp: weight_fresh weight_merge)

text \<open>Nothing is lost and nothing counted twice.\<close>

lemma total:
  "(\<Sum>g\<leftarrow>group_rows key fresh merge rows. weight (snd g)) = (\<Sum>r\<leftarrow>filter (\<lambda>r. key r \<noteq> None) rows. part r)"
proof (induction rows rule: rev_induct)
  case (snoc r rows)
  then show ?case
    by (auto simp: group_rows_snoc group_step_def weight_upsert group_rows_distinct split: option.splits)
qed (simp add: group_rows_def)

lemma group_weight:
  "group_of key fresh merge rows k = Some b \<Longrightarrow> weight b = (\<Sum>r\<leftarrow>filter (\<lambda>r. key r = Some k) rows. part r)"
proof -
  have "weight (foldl merge b rs) = weight b + (\<Sum>r\<leftarrow>rs. part r)" for b rs
    by (induction rs arbitrary: b) (simp_all add: weight_merge)
  then show "group_of key fresh merge rows k = Some b \<Longrightarrow> weight b = (\<Sum>r\<leftarrow>filter (\<lambda>r. key r = Some k) rows. part r)"
    by (auto simp: group_of_def weight_fresh split: list.splits)
qed

end

end
