(* ===== verification/NetworkFlow.thy ===== *)
theory NetworkFlow
  imports NetworkOwner Grouping MplQuery
begin

text \<open>
  The network page: sockets (\<open>networkSockets.ts\<close>) and flows from an owner to a destination
  (\<open>networkFlow.ts\<close>, both under \<open>src/mobipwn-web/src/lib\<close>), read from rows and collected into
  groups. \<open>parse\<close> stands for \<open>JSON.parse\<close> and \<open>compare\<close> for \<open>localeCompare\<close>.
\<close>

section \<open>Endpoints\<close>

definition hostFromAddress :: "string \<Rightarrow> string" where
  "hostFromAddress raw = resolveDisplayHost raw"

datatype Side = Local | Remote

definition side_name :: "Side \<Rightarrow> string" where
  "side_name side = (case side of Local \<Rightarrow> ''local'' | Remote \<Rightarrow> ''remote'')"

definition resolveEndpointIp :: "JsonParse \<Rightarrow> Row \<Rightarrow> Side \<Rightarrow> string" where
  "resolveEndpointIp parse row side =
     (let embedded = extField parse row (side_name side @ ''_ipv4'');
          peer = (if side = Remote then resolvePeerIp parse row else []);
          top = (if side = Local then strField row ''src_ip'' else strField row ''dest_ip'')
      in if embedded \<noteq> [] then embedded
         else if peer \<noteq> [] then resolveDisplayHost peer
         else if top \<noteq> [] then hostFromAddress top
         else hostFromAddress (or_str (extField parse row (side_name side @ ''_ip'')) (extField parse row (side_name side @ ''_address''))))"

definition endpointAddress :: "JsonParse \<Rightarrow> Row \<Rightarrow> Side \<Rightarrow> string" where
  "endpointAddress parse row side =
     (let combined = extField parse row (side_name side @ ''_address'');
          port = extField parse row (side_name side @ ''_port'');
          ip = resolveEndpointIp parse row side
      in if combined \<noteq> [] then
           (if port \<noteq> [] \<and> CHR '':'' \<notin> set combined \<and> hostFromAddress combined \<noteq> []
            then hostFromAddress combined @ '':'' @ port else combined)
         else if ip \<noteq> [] \<and> port \<noteq> [] then ip @ '':'' @ port else ip)"

text \<open>
  The pattern \<open>/Socket\s+(\S+)\s+(.+?)\s*->\s*(.+)$/i\<close>. Its second group is lazy: for every way to
  match what is before it, in the order of the matcher, it grows from one character until the rest matches.
\<close>

definition socket_prefix :: regex where
  "socket_prefix = Seqs [LitI ''Socket'', Plus Space, Grp 1 (Plus (Cls (\<lambda>c. \<not> is_space c))), Plus Space]"

definition socket_rest :: regex where
  "socket_rest = Seqs [Star Space, Lit ''->'', Star Space, Grp 3 (Plus Dot), Eol]"

fun lazy_until :: "string \<Rightarrow> string \<Rightarrow> (string \<times> string) option" where
  "lazy_until acc [] = None"
| "lazy_until acc (c # s) =
     (if c = CHR 0x0A \<or> c = CHR 0x0D then None
      else case match_at socket_rest [] s of
        Some m \<Rightarrow> Some (rev (c # acc), get_or [] (group 3 m))
      | None \<Rightarrow> lazy_until (c # acc) s)"

fun first_some :: "('a \<Rightarrow> 'b option) \<Rightarrow> 'a list \<Rightarrow> 'b option" where
  "first_some f [] = None"
| "first_some f (x # xs) = (case f x of Some y \<Rightarrow> Some y | None \<Rightarrow> first_some f xs)"

definition socket_at :: "string \<Rightarrow> (string \<times> string \<times> string) option" where
  "socket_at s = first_some
     (\<lambda>(b, a, g). map_option (\<lambda>(l, r). (get_or [] (map_of g 1), l, r)) (lazy_until [] a))
     (matches socket_prefix ([], s, []))"

fun socket_match :: "string \<Rightarrow> (string \<times> string \<times> string) option" where
  "socket_match [] = socket_at []"
| "socket_match (c # s) = (case socket_at (c # s) of Some m \<Rightarrow> Some m | None \<Rightarrow> socket_match s)"

definition parseSocketMessage :: "string \<Rightarrow> (string \<times> string \<times> string) option" where
  "parseSocketMessage message = map_option (\<lambda>(p, l, r). (p, trim l, trim r)) (socket_match message)"

definition JUNK_REMOTE :: "string list" where
  "JUNK_REMOTE = [[], ''*'', '':'', ''::'', ''[::]'', ''[::]:*'']"

definition isMeaningfulRemote :: "string \<Rightarrow> bool" where
  "isMeaningfulRemote remote \<longleftrightarrow>
     (let r = trim remote in r \<noteq> [] \<and> r \<notin> set JUNK_REMOTE \<and> \<not> ends_with '':*'' r \<and> r \<noteq> ''[::]:*'')"

section \<open>Sockets\<close>

record NetworkSocketRow =
  ns_protocol :: string
  ns_local :: string
  ns_remote :: string
  ns_destIp :: string
  ns_srcIp :: string
  ns_state :: string
  ns_uid :: string
  ns_owner :: string
  ns_ownerLabel :: string
  ns_ownerDetail :: "string option"
  ns_ownerExplanation :: "string option"
  ns_isStale :: bool

definition parseNetworkSocket :: "JsonParse \<Rightarrow> bool \<Rightarrow> Row \<Rightarrow> NetworkSocketRow option" where
  "parseNetworkSocket parse iosRelaxed row =
     (let ext = extField parse row;
          dt = to_lower (strField row ''data_type'');
          rejected = (if \<not> iosRelaxed then dt \<noteq> [] \<and> \<not> contains ''network_socket'' dt
            else strField row ''dest_ip'' = [] \<and> ext ''remote_ip'' = [] \<and> ext ''destination_domain'' = []);
          fromMsg = parseSocketMessage (strField row ''message'');
          protocol = first_text [case fromMsg of Some (p, l, r) \<Rightarrow> p | None \<Rightarrow> [], ext ''protocol'', strField row ''action'', ''tcp''];
          loc = or_str (case fromMsg of Some (p, l, r) \<Rightarrow> l | None \<Rightarrow> []) (endpointAddress parse row Local);
          remote0 = or_str (case fromMsg of Some (p, l, r) \<Rightarrow> r | None \<Rightarrow> []) (endpointAddress parse row Remote);
          rip = resolveEndpointIp parse row Remote;
          rport = ext ''remote_port'';
          remote1 = (if \<not> isMeaningfulRemote remote0 \<and> rip \<noteq> [] \<and> rport \<noteq> [] \<and> rip \<noteq> '':'' then rip @ '':'' @ rport else remote0);
          domain = ext ''destination_domain'';
          remote = (if \<not> isMeaningfulRemote remote1 \<and> iosRelaxed \<and> domain \<noteq> [] then domain else remote1);
          stale = isStaleNetworkRow parse row;
          destIp = or_str rip (hostFromAddress remote);
          uid = first_text [strField row ''process_id'', ext ''uid'',
            case numField parse row ''process_id'' of Some n \<Rightarrow> int_str n | None \<Rightarrow> []];
          listen = (ext ''socket_direction'' = ''listen'' \<or> to_upper (ext ''state'') = ''LISTEN'');
          display0 = (if listen then or_str (ext ''peer_ip_display'') ''(listen)''
            else if isMeaningfulRemote remote then remote else []);
          displayRemote = (if display0 = [] \<and> stale \<and> destIp \<noteq> []
            then (if rport \<noteq> [] then destIp @ '':'' @ rport else destIp) else display0)
      in if rejected then None
         else if loc = [] \<and> \<not> isMeaningfulRemote remote \<and> \<not> stale then None
         else Some \<lparr>ns_protocol = protocol, ns_local = loc, ns_remote = displayRemote,
           ns_destIp = (if listen then [] else destIp),
           ns_srcIp = or_str (resolveEndpointIp parse row Local) (strField row ''src_ip''),
           ns_state = ext ''state'', ns_uid = uid, ns_owner = resolveNetworkOwner parse row,
           ns_ownerLabel = networkOwnerDisplay parse row, ns_ownerDetail = None, ns_ownerExplanation = None,
           ns_isStale = stale\<rparr>)"

definition enrichSocketOwners :: "NetworkSocketRow list \<Rightarrow> UidHints \<Rightarrow> NetworkSocketRow list" where
  "enrichSocketOwners rows uidHints =
     map (\<lambda>row. if \<not> starts_with ''uid:'' (ns_owner row) then row
       else let (secondary, explanation) = uidOwnerPresentation (ns_owner row) uidHints
         in row\<lparr>ns_ownerDetail := secondary, ns_ownerExplanation := explanation\<rparr>) rows"

definition js_bool :: "bool \<Rightarrow> string" where
  "js_bool b = (if b then ''true'' else ''false'')"

definition socket_key :: "NetworkSocketRow \<Rightarrow> string" where
  "socket_key s = ns_protocol s @ ''|'' @ ns_local s @ ''|'' @ ns_remote s @ ''|'' @ ns_uid s @ ''|'' @ js_bool (ns_isStale s)"

fun new_sockets :: "JsonParse \<Rightarrow> bool \<Rightarrow> string list \<Rightarrow> Row list \<Rightarrow> NetworkSocketRow list" where
  "new_sockets parse iosRelaxed seen [] = []"
| "new_sockets parse iosRelaxed seen (row # rows) =
     (case parseNetworkSocket parse iosRelaxed row of
        None \<Rightarrow> new_sockets parse iosRelaxed seen rows
      | Some s \<Rightarrow>
          if ns_remote s = [] \<and> ns_local s = [] \<and> \<not> ns_isStale s then new_sockets parse iosRelaxed seen rows
          else if socket_key s \<in> set seen then new_sockets parse iosRelaxed seen rows
          else s # new_sockets parse iosRelaxed (socket_key s # seen) rows)"

definition compare_sockets :: "compare \<Rightarrow> NetworkSocketRow \<Rightarrow> NetworkSocketRow \<Rightarrow> int" where
  "compare_sockets compare a b =
     then_by (compareNetworkOwnerLabels compare (ns_ownerLabel a) (ns_ownerLabel b))
       (then_by (compare (or_str (ns_remote a) (ns_destIp a)) (or_str (ns_remote b) (ns_destIp b)))
         (compare (ns_protocol a) (ns_protocol b)))"

definition networkSocketRows ::
  "JsonParse \<Rightarrow> compare \<Rightarrow> Row list \<Rightarrow> nat \<Rightarrow> bool \<Rightarrow> UidHints option \<Rightarrow> NetworkSocketRow list" where
  "networkSocketRows parse compare rows limit iosRelaxed uidHints =
     (let sorted = take limit (js_sort (compare_sockets compare) (new_sockets parse iosRelaxed [] rows))
      in case uidHints of Some hints \<Rightarrow> enrichSocketOwners sorted hints | None \<Rightarrow> sorted)"

definition socket_dest :: "NetworkSocketRow \<Rightarrow> string option" where
  "socket_dest row =
     (let dest = first_text [ns_destIp row, hostFromAddress (ns_remote row), ns_remote row]
      in if dest = [] \<or> dest = ''0.0.0.0'' \<or> \<not> isMeaningfulRemote dest then None else Some dest)"

definition count_one :: "'r \<Rightarrow> int" where
  "count_one r = 1"

definition count_more :: "int \<Rightarrow> 'r \<Rightarrow> int" where
  "count_more n r = n + 1"

definition topDestinations :: "NetworkSocketRow list \<Rightarrow> nat \<Rightarrow> (string \<times> int) list" where
  "topDestinations rows limit =
     take limit (js_sort (\<lambda>a b. snd b - snd a) (group_rows socket_dest count_one count_more rows))"

section \<open>Flows\<close>

datatype FlowDestKind = D_ip | D_domain

record NetworkFlowLink =
  fl_source :: string
  fl_sourceDetail :: "string option"
  fl_sourceExplanation :: "string option"
  fl_isStale :: bool
  fl_target :: string
  fl_targetKind :: FlowDestKind
  fl_count :: int
  fl_bytes :: int

definition isWifiScanResultRow :: "Row \<Rightarrow> bool" where
  "isWifiScanResultRow row \<longleftrightarrow> contains ''wifi_scan_result'' (to_lower (strField row ''data_type''))"

record FlowSourceDisplay =
  fd_primary :: string
  fd_secondary :: "string option"
  fd_explanation :: "string option"
  fd_isStale :: bool
  fd_isUid :: bool

definition flowSourceDisplay :: "NetworkFlowLink \<Rightarrow> FlowSourceDisplay" where
  "flowSourceDisplay link =
     (let stale = (fl_isStale link \<or> fl_source link = ''stale'') in
      \<lparr>fd_primary = (if stale then ''stale'' else networkOwnerLabel (fl_source link)),
       fd_secondary = fl_sourceDetail link, fd_explanation = fl_sourceExplanation link,
       fd_isStale = stale, fd_isUid = starts_with ''uid:'' (fl_source link)\<rparr>)"

definition dotted_re :: regex where
  "dotted_re = Seqs [Bol, Digit, Upto 2 Digit, Times 3 (Seqs [Chr (CHR ''.''), Digit, Upto 2 Digit]), Eol]"

definition isIpLike :: "string \<Rightarrow> bool" where
  "isIpLike v \<longleftrightarrow> v \<noteq> [] \<and> (CHR '':'' \<in> set v \<or> test dotted_re v)"

definition flowSourceLabel :: "string \<Rightarrow> string" where
  "flowSourceLabel source = networkOwnerLabel source"

definition flowTargetDisplay :: "NetworkFlowLink \<Rightarrow> string" where
  "flowTargetDisplay link = (if fl_targetKind link \<noteq> D_ip then fl_target link else formatIpv6ForDisplay (fl_target link))"

definition flowTargetTitle :: "NetworkFlowLink \<Rightarrow> string" where
  "flowTargetTitle link =
     (let target = fl_target link; expanded = formatIpv6ForDisplay target in
      if fl_targetKind link \<noteq> D_ip then target
      else if contains ''::'' target \<and> \<not> starts_with ''::ffff:'' target
      then (if expanded \<noteq> target
            then target @ '' '' @ arrow @ '' '' @ expanded @ '' (compressed form from Android netstat)''
            else target @ '' (as reported in bugreport netstat)'')
      else target)"

definition meaningful_host :: "JsonParse \<Rightarrow> Row \<Rightarrow> string \<Rightarrow> (string \<times> FlowDestKind) option" where
  "meaningful_host parse row host =
     (if host \<noteq> [] \<and> isMeaningfulFlowDestination parse row host
      then Some (host, if isIpLike host then D_ip else D_domain) else None)"

definition message_destination :: "JsonParse \<Rightarrow> Row \<Rightarrow> (string \<times> FlowDestKind) option" where
  "message_destination parse row =
     (case socket_match (strField row ''message'') of
        None \<Rightarrow> None
      | Some (p, l, r) \<Rightarrow>
          let remote = trim r; resolved = hostFromAddress (or_str (fst (splitHostPort remote)) remote)
          in if resolved \<noteq> [] \<and> isMeaningfulFlowDestination parse row resolved \<and> isIpLike resolved
             then Some (resolved, D_ip) else None)"

definition domain_destination :: "JsonParse \<Rightarrow> Row \<Rightarrow> (string \<times> FlowDestKind) option" where
  "domain_destination parse row =
     (let domain = either_field parse row ''destination_domain'' in
      if domain \<noteq> [] \<and> \<not> isIpLike domain \<and> \<not> looksLikeAndroidPackage domain
      then Some (to_lower domain, D_domain) else None)"

definition resolveDestination :: "JsonParse \<Rightarrow> Row \<Rightarrow> (string \<times> FlowDestKind) option" where
  "resolveDestination parse row =
     (let peer = resolvePeerIp parse row; promotedDest = strField row ''dest_ip'';
          ip = resolveEndpointIp parse row Remote; remote = extField parse row ''remote_address'' in
      if isListenerNetworkRow parse row then None
      else if peer \<noteq> [] \<and> isMeaningfulFlowDestination parse row peer then Some (hostFromAddress peer, D_ip)
      else or_else (if promotedDest \<noteq> [] then meaningful_host parse row (hostFromAddress promotedDest) else None)
        (or_else (if ip \<noteq> [] \<and> isMeaningfulFlowDestination parse row ip then Some (ip, D_ip) else None)
          (or_else (if remote \<noteq> [] then meaningful_host parse row (hostFromAddress remote) else None)
            (or_else (domain_destination parse row) (message_destination parse row)))))"

definition rowBytes :: "JsonParse \<Rightarrow> Row \<Rightarrow> int" where
  "rowBytes parse row =
     (let total = get_or 0 (numField parse row ''rx_bytes'') + get_or 0 (numField parse row ''tx_bytes'')
      in if total > 0 then total
         else get_or 0 (numField parse row ''rx'') + get_or 0 (numField parse row ''tx''))"

definition kind_name :: "FlowDestKind \<Rightarrow> string" where
  "kind_name k = (case k of D_ip \<Rightarrow> ''ip'' | D_domain \<Rightarrow> ''domain'')"

text \<open>One row of the aggregation: its key, the link it starts and what it adds to an existing one.\<close>

definition flow_dest :: "JsonParse \<Rightarrow> Row \<Rightarrow> (string \<times> FlowDestKind) option" where
  "flow_dest parse row = (if isWifiScanResultRow row then None else resolveDestination parse row)"

definition flow_key :: "JsonParse \<Rightarrow> string \<Rightarrow> Row \<Rightarrow> string option" where
  "flow_key parse unknownLabel row =
     map_option (\<lambda>(target, kind). flowSourceFromRow parse row unknownLabel @ [CHR 0x00] @ target @ [CHR 0x00] @ kind_name kind)
       (flow_dest parse row)"

definition flow_stale :: "JsonParse \<Rightarrow> string \<Rightarrow> Row \<Rightarrow> bool" where
  "flow_stale parse unknownLabel row \<longleftrightarrow> flowSourceFromRow parse row unknownLabel = ''stale'' \<or> isStaleNetworkRow parse row"

definition new_flow :: "JsonParse \<Rightarrow> string \<Rightarrow> UidHints \<Rightarrow> Row \<Rightarrow> NetworkFlowLink" where
  "new_flow parse unknownLabel uidHints row =
     (let (target, kind) = the (flow_dest parse row);
          source = flowSourceFromRow parse row unknownLabel;
          (secondary, explanation) = (if starts_with ''uid:'' source then uidOwnerPresentation source uidHints else (None, None))
      in \<lparr>fl_source = source, fl_sourceDetail = secondary, fl_sourceExplanation = explanation,
          fl_isStale = flow_stale parse unknownLabel row, fl_target = target, fl_targetKind = kind, fl_count = 1,
          fl_bytes = rowBytes parse row\<rparr>)"

definition merge_flow :: "JsonParse \<Rightarrow> string \<Rightarrow> NetworkFlowLink \<Rightarrow> Row \<Rightarrow> NetworkFlowLink" where
  "merge_flow parse unknownLabel existing row =
     existing\<lparr>fl_count := fl_count existing + 1, fl_bytes := fl_bytes existing + rowBytes parse row,
       fl_isStale := fl_isStale existing \<or> flow_stale parse unknownLabel row\<rparr>"

definition compare_flows :: "compare \<Rightarrow> NetworkFlowLink \<Rightarrow> NetworkFlowLink \<Rightarrow> int" where
  "compare_flows compare a b =
     then_by (compareFlowSources compare (fl_source a) (fl_source b))
       (then_by (compare (fl_target a) (fl_target b)) (fl_count b - fl_count a))"

definition aggregateNetworkFlows ::
  "JsonParse \<Rightarrow> compare \<Rightarrow> Row list \<Rightarrow> string option \<Rightarrow> UidHints option \<Rightarrow> NetworkFlowLink list" where
  "aggregateNetworkFlows parse compare rows unknownBundleLabel hints =
     (let unknownLabel = get_or ''unattributed'' unknownBundleLabel;
          uidHints = get_or (collectUidOwnerHints parse rows) hints
      in js_sort (compare_flows compare)
           (map snd (group_rows (flow_key parse unknownLabel) (new_flow parse unknownLabel uidHints) (merge_flow parse unknownLabel) rows)))"

datatype FlowWeightMode = W_count | W_bytes

definition flowWeight :: "NetworkFlowLink \<Rightarrow> FlowWeightMode \<Rightarrow> int" where
  "flowWeight link mode = (if mode = W_bytes then fl_bytes link else fl_count link)"

section \<open>Wi-Fi networks seen in scans\<close>

record WifiScanSighting =
  wf_ssid :: string
  wf_count :: int
  wf_bssid :: "string option"
  wf_rssi :: "int option"
  wf_frequencyMhz :: "int option"
  wf_security :: "string option"

definition wifi_ssid :: "JsonParse \<Rightarrow> Row \<Rightarrow> string" where
  "wifi_ssid parse row = trim (either_field parse row ''ssid'')"

definition text_number :: "string \<Rightarrow> int option" where
  "text_number v = (if v = [] then None else js_number v)"

definition wifi_rssi :: "JsonParse \<Rightarrow> Row \<Rightarrow> int option" where
  "wifi_rssi parse row = or_else (numField parse row ''rssi'') (text_number (extField parse row ''rssi''))"

definition wifi_key :: "JsonParse \<Rightarrow> Row \<Rightarrow> string option" where
  "wifi_key parse row =
     (if \<not> isWifiScanResultRow row \<or> wifi_ssid parse row = [] then None
      else Some (wifi_ssid parse row @ [CHR 0x00] @ extField parse row ''bssid''))"

definition new_sighting :: "JsonParse \<Rightarrow> Row \<Rightarrow> WifiScanSighting" where
  "new_sighting parse row =
     \<lparr>wf_ssid = wifi_ssid parse row, wf_count = 1, wf_bssid = truthy (Some (extField parse row ''bssid'')),
      wf_rssi = wifi_rssi parse row, wf_frequencyMhz = text_number (extField parse row ''frequency''),
      wf_security = truthy (Some (extField parse row ''security''))\<rparr>"

definition stronger :: "int option \<Rightarrow> int option \<Rightarrow> int option" where
  "stronger old new =
     (case new of None \<Rightarrow> old | Some n \<Rightarrow> (case old of None \<Rightarrow> new | Some v \<Rightarrow> if n > v then new else old))"

text \<open>A number that is 0 counts as missing, as an empty text does.\<close>

definition merge_sighting :: "JsonParse \<Rightarrow> WifiScanSighting \<Rightarrow> Row \<Rightarrow> WifiScanSighting" where
  "merge_sighting parse existing row =
     (let freqRaw = text_number (extField parse row ''frequency'') in
      existing\<lparr>wf_count := wf_count existing + 1,
        wf_rssi := stronger (wf_rssi existing) (wifi_rssi parse row),
        wf_frequencyMhz := (if (wf_frequencyMhz existing = None \<or> wf_frequencyMhz existing = Some 0) \<and> freqRaw \<noteq> None
          then freqRaw else wf_frequencyMhz existing),
        wf_security := (if truthy (wf_security existing) = None \<and> extField parse row ''security'' \<noteq> []
          then Some (extField parse row ''security'') else wf_security existing),
        wf_bssid := (if truthy (wf_bssid existing) = None \<and> extField parse row ''bssid'' \<noteq> []
          then Some (extField parse row ''bssid'') else wf_bssid existing)\<rparr>)"

definition compare_sightings :: "compare \<Rightarrow> WifiScanSighting \<Rightarrow> WifiScanSighting \<Rightarrow> int" where
  "compare_sightings compare a b =
     then_by (get_or (-999) (wf_rssi b) - get_or (-999) (wf_rssi a))
       (then_by (wf_count b - wf_count a) (compare (wf_ssid a) (wf_ssid b)))"

definition aggregateWifiScanSightings :: "JsonParse \<Rightarrow> compare \<Rightarrow> Row list \<Rightarrow> WifiScanSighting list" where
  "aggregateWifiScanSightings parse compare rows =
     js_sort (compare_sightings compare)
       (map snd (group_rows (wifi_key parse) (new_sighting parse) (merge_sighting parse) rows))"

section \<open>Queries\<close>

definition escapeSource :: "string \<Rightarrow> string" where
  "escapeSource source =
     replace_char (CHR 0x22) [CHR 0x5C, CHR 0x22] (replace_char (CHR 0x5C) [CHR 0x5C, CHR 0x5C] source)"

definition fq :: "string \<Rightarrow> string \<Rightarrow> string" where
  "fq k v = k @ ''='' @ quoted (escapeMplString v)"

definition IOS_NETWORK_PARSERS :: string where
  "IOS_NETWORK_PARSERS = ''(parser='' @ quoted ''network_iocs'' @ '' OR parser='' @ quoted ''netusage'' @ '' OR parser='' @ quoted ''networkextension'' @ '')''"

definition wifiScanSearchQuery :: "string \<Rightarrow> WifiScanSighting \<Rightarrow> string" where
  "wifiScanSearchQuery ingestSource sighting =
     join '' '' ([fq ''source'' ingestSource, ''parser='' @ quoted ''Network'', ''data_type=*wifi_scan_result*'',
         fq ''ssid'' (wf_ssid sighting)]
       @ (case truthy (wf_bssid sighting) of Some b \<Rightarrow> [fq ''bssid'' b] | None \<Rightarrow> []))
     @ '' | sort -timestamp | head 80''"

definition owner_part :: "string \<Rightarrow> string" where
  "owner_part source =
     (if starts_with ''uid:'' source then fq ''process_id'' (drop 4 source)
      else if starts_with ''proc:'' source then fq ''process_name'' (drop 5 source)
      else fq ''bundle_id'' source)"

datatype FlowPlatform = F_android | F_ios | F_endpoint

definition networkFlowSearchQuery :: "string \<Rightarrow> NetworkFlowLink \<Rightarrow> FlowPlatform \<Rightarrow> string" where
  "networkFlowSearchQuery ingestSource link platform =
     (let source = fl_source link;
          parser = (case platform of F_endpoint \<Rightarrow> ''parser='' @ quoted ''network'' | F_ios \<Rightarrow> IOS_NETWORK_PARSERS
            | F_android \<Rightarrow> ''parser='' @ quoted ''Network'');
          owner = (if platform \<noteq> F_ios \<and> source = ''stale'' then [''data_type=*network_socket*'']
            else if source \<noteq> [] \<and> source \<noteq> ''unattributed'' \<and> source \<noteq> ''unknown'' \<and> source \<noteq> ''stale''
            then [owner_part source] else []);
          dest = (if fl_targetKind link = D_domain then fq ''destination_domain'' (fl_target link) else fq ''dest_ip'' (fl_target link))
      in join '' '' ([fq ''source'' ingestSource, parser] @ owner @ [dest]) @ '' | sort -timestamp | head 80'')"

end
