(* ===== verification/Alerts.thy ===== *)
theory Alerts
  imports MplFacts ActivityLog
begin

text \<open>
  Alert triage, \<open>alertTriage.ts\<close>, and the durations it shows, from \<open>formatRelative.ts\<close> (under
  \<open>src/mobipwn-web/src/lib\<close>): search links for an alert, the highlights of its event, its titles,
  its status and its resolution time. \<open>JSON.parse\<close> and the date parser of the browser are
  arguments; a time is a number of milliseconds, \<open>None\<close> is NaN.
\<close>

section \<open>Links to the search page\<close>

record AlertContextFields =
  ac_source :: "string option"
  ac_platform :: "string option"
  ac_parser :: "string option"
  ac_bundle_id :: "string option"
  ac_process_name :: "string option"
  ac_device_id :: "string option"
  ac_timestamp :: "string option"

definition escMpl :: "string \<Rightarrow> string" where
  "escMpl v = replace_char (CHR 0x22) [CHR 0x5C, CHR 0x22] (replace_char (CHR 0x5C) [CHR 0x5C, CHR 0x5C] v)"

text \<open>\<open>str(value)\<close>: null and undefined are the empty text.\<close>

definition str :: "Json option \<Rightarrow> string" where
  "str v = (case v of None \<Rightarrow> [] | Some JNull \<Rightarrow> [] | Some j \<Rightarrow> trim (js_text j))"

definition alertStatusNormalized :: "string \<Rightarrow> string" where
  "alertStatusNormalized status = (if status = ''resolved'' then ''verified'' else status)"

definition clause :: "string \<Rightarrow> string \<Rightarrow> string" where
  "clause k v = k @ ''='' @ quoted (escMpl v)"

definition add_clause :: "string \<Rightarrow> string \<Rightarrow> string" where
  "add_clause k v = '' '' @ clause k v"

definition HUNT_TAIL :: string where
  "HUNT_TAIL = '' | fields timestamp, source, platform, parser, process_name, bundle_id, action, message, src_ip, dest_ip | sort -timestamp | head 50''"

definition search_link :: "string \<Rightarrow> string \<Rightarrow> string" where
  "search_link source q = ''/search?'' @ encode_params (set_param ''q'' q [(''source'', source)])"

definition alertHuntHref :: "AlertContextFields option \<Rightarrow> string option" where
  "alertHuntHref ctx =
     (case ctx of None \<Rightarrow> None
      | Some c \<Rightarrow>
         (case truthy (ac_source c) of None \<Rightarrow> None
          | Some source \<Rightarrow>
             let q = clause ''source'' source;
                 q = (case truthy (ac_parser c) of Some p \<Rightarrow> q @ add_clause ''parser'' p | None \<Rightarrow> q);
                 q = (case truthy (ac_process_name c) of
                        Some p \<Rightarrow> q @ add_clause ''process_name'' p
                      | None \<Rightarrow> (case truthy (ac_bundle_id c) of
                            Some b \<Rightarrow> q @ add_clause ''bundle_id'' b | None \<Rightarrow> q));
                 q = q @ HUNT_TAIL
             in Some (search_link source q)))"

type_synonym Row = "(string \<times> Json) list"

definition eventSearchHref :: "Row \<Rightarrow> string option" where
  "eventSearchHref row =
     (let get = (\<lambda>k. str (map_of row k));
          source = get ''source''
      in if source = [] then None
         else
           let q = clause ''source'' source;
               timestamp = get ''timestamp'';
               i = get ''id'';
               process = get ''process_name'';
               bundle = get ''bundle_id'';
               q = (if timestamp \<noteq> [] then q @ add_clause ''timestamp'' timestamp
                    else if i \<noteq> [] then q @ add_clause ''id'' i
                    else if process \<noteq> [] then q @ add_clause ''process_name'' process
                    else if bundle \<noteq> [] then q @ add_clause ''bundle_id'' bundle
                    else q);
               q = q @ '' | head 20''
           in Some (search_link source q))"

section \<open>What a page shows of an alert\<close>

record AlertHighlight =
  ah_key :: string
  ah_label :: string
  ah_value :: string

definition HIGHLIGHT_FIELDS :: "(string \<times> string) list" where
  "HIGHLIGHT_FIELDS =
     [(''timestamp'', ''Time''), (''source'', ''Case''), (''platform'', ''Platform''), (''parser'', ''Parser''),
      (''process_name'', ''Process''), (''bundle_id'', ''Bundle''), (''action'', ''Action''), (''dest_ip'', ''Dest IP''),
      (''src_ip'', ''Src IP''), (''severity'', ''Severity'')]"

definition extField :: "(string \<Rightarrow> Json option) \<Rightarrow> Row \<Rightarrow> string \<Rightarrow> string" where
  "extField parse row k =
     (case map_of row ''ext'' of
        Some (JStr s) \<Rightarrow> (case parse s of Some v \<Rightarrow> str (field v k) | None \<Rightarrow> [])
      | Some (JObj kvs) \<Rightarrow> str (map_of kvs k)
      | _ \<Rightarrow> [])"

definition highlight :: "string \<Rightarrow> string \<Rightarrow> string \<Rightarrow> AlertHighlight list" where
  "highlight k label v = (if v \<noteq> [] then [\<lparr>ah_key = k, ah_label = label, ah_value = v\<rparr>] else [])"

definition alertEventHighlights :: "(string \<Rightarrow> Json option) \<Rightarrow> Row \<Rightarrow> AlertHighlight list" where
  "alertEventHighlights parse row =
     concat (map (\<lambda>(k, label). highlight k label (str (map_of row k))) HIGHLIGHT_FIELDS)
     @ concat (map (\<lambda>k. highlight k (replace_char (CHR ''_'') '' '' k) (extField parse row k))
         [''destination_domain'', ''installer'', ''event_type''])"

definition alertEventMessage :: "Row \<Rightarrow> string" where
  "alertEventMessage row = str (map_of row ''message'')"

definition trimmed_or_empty :: "string option \<Rightarrow> string" where
  "trimmed_or_empty s = trim (get_or [] s)"

definition alertDisplayTitle :: "string option \<Rightarrow> string option \<Rightarrow> string" where
  "alertDisplayTitle rule_name title =
     (if trimmed_or_empty rule_name \<noteq> [] then trimmed_or_empty rule_name
      else if trimmed_or_empty title \<noteq> [] then trimmed_or_empty title else ''Alert'')"

definition alertSampleSummary :: "string option \<Rightarrow> string option \<Rightarrow> string option" where
  "alertSampleSummary rule_name title =
     (let name = trimmed_or_empty rule_name; t = trimmed_or_empty title
      in if t = [] \<or> t = name then None else Some t)"

definition alertStatusBadgeClass :: "string \<Rightarrow> string" where
  "alertStatusBadgeClass status =
     (let normalized = alertStatusNormalized status in
      if normalized = ''verified'' then ''badge-verified''
      else if normalized = ''triaged'' then ''badge-triaged''
      else if normalized = ''false_positive'' then ''badge-false-positive''
      else ''badge-new'')"

definition alertStatusLabel :: "string \<Rightarrow> string" where
  "alertStatusLabel status =
     (let normalized = alertStatusNormalized status in
      if normalized = ''false_positive'' then ''false positive'' else normalized)"

definition alertIsClosed :: "string \<Rightarrow> bool" where
  "alertIsClosed status \<longleftrightarrow>
     alertStatusNormalized status = ''verified'' \<or> alertStatusNormalized status = ''false_positive''"

section \<open>Times and durations\<close>

text \<open>The date parser of the browser: the time of \<open>new Date(text)\<close>.\<close>

type_synonym date_parser = "string \<Rightarrow> int option"

definition digits :: "nat \<Rightarrow> regex" where
  "digits n = Times n Digit"

definition zone_re :: regex where
  "zone_re = Alt (One_of ''zZ'')
     (Seqs [One_of ''+-'', digits 2, Opt (Chr (CHR '':'')), digits 2, Eol])"

definition naive_re :: regex where
  "naive_re = Seqs [Bol,
     Grp 1 (Seqs [digits 4, Chr (CHR ''-''), digits 2, Chr (CHR ''-''), digits 2]),
     One_of '' T'',
     Grp 2 (Seqs [digits 2, Chr (CHR '':''), digits 2, Chr (CHR '':''), digits 2])]"

definition parseApiTimestamp :: "date_parser \<Rightarrow> string \<Rightarrow> int option" where
  "parseApiTimestamp date raw =
     (let s = trim raw in
      if s = [] then None
      else if test zone_re s then date s
      else (case exec naive_re s of
              Some m \<Rightarrow> date (get_or [] (group 1 m) @ ''T'' @ get_or [] (group 2 m) @ ''Z'')
            | None \<Rightarrow> date s))"

text \<open>NaN fails every comparison and prints as \<open>NaN\<close>.\<close>

definition formatDurationMs :: "int option \<Rightarrow> string" where
  "formatDurationMs ms =
     (case ms of None \<Rightarrow> ''NaNd''
      | Some t \<Rightarrow>
          let sec = nat (max 0 (t div 1000)) in
          if sec < 60 then nat_str sec @ ''s''
          else let min = sec div 60 in
            if min < 60 then nat_str min @ ''m''
            else let hr = min div 60; remMin = min mod 60 in
              if hr < 24 then (if remMin > 0 then nat_str hr @ ''h '' @ nat_str remMin @ ''m'' else nat_str hr @ ''h'')
              else let days = hr div 24; remHr = hr mod 24 in
                if remHr > 0 then nat_str days @ ''d '' @ nat_str remHr @ ''h'' else nat_str days @ ''d'')"

definition formatDurationBetween :: "date_parser \<Rightarrow> string \<Rightarrow> string \<Rightarrow> string" where
  "formatDurationBetween date startIso endIso =
     (case (parseApiTimestamp date startIso, parseApiTimestamp date endIso) of
        (Some s, Some e) \<Rightarrow> formatDurationMs (Some (e - s))
      | _ \<Rightarrow> em_dash)"

text \<open>\<open>formatRelativeCompact\<close> of a text; \<open>local_date\<close> prints month and day in the user's locale.\<close>

definition formatRelativeCompact :: "date_parser \<Rightarrow> (int \<Rightarrow> string) \<Rightarrow> string \<Rightarrow> int \<Rightarrow> string" where
  "formatRelativeCompact date local_date d now =
     (case parseApiTimestamp date d of None \<Rightarrow> em_dash
      | Some t \<Rightarrow>
          let sec = (now - t) div 1000 in
          if sec < 45 then ''just now''
          else if sec < 3600 then int_str (sec div 60) @ ''m ago''
          else if sec < 86400 then int_str (sec div 3600) @ ''h ago''
          else if sec < 604800 then int_str (sec div 86400) @ ''d ago''
          else local_date t)"

record AlertResolutionFields =
  ar_status :: string
  ar_opened_at :: "string option"
  ar_first_seen :: "string option"
  ar_resolved_at :: "string option"
  ar_resolution_count :: "nat option"

definition alertResolutionDuration :: "date_parser \<Rightarrow> AlertResolutionFields \<Rightarrow> int \<Rightarrow> string" where
  "alertResolutionDuration date alert now =
     (case truthy (or_else (ar_opened_at alert) (ar_first_seen alert)) of
        None \<Rightarrow> em_dash
      | Some opened \<Rightarrow>
          (case (if alertIsClosed (ar_status alert) then truthy (ar_resolved_at alert) else None) of
             Some resolved \<Rightarrow> formatDurationBetween date opened resolved
           | None \<Rightarrow> formatDurationMs (map_option (\<lambda>t. now - t) (date opened))))"

definition times_sign :: string where
  "times_sign = [CHR 0xC3, CHR 0x97]"

definition alertResolutionLabel :: "date_parser \<Rightarrow> AlertResolutionFields \<Rightarrow> int \<Rightarrow> string" where
  "alertResolutionLabel date alert now =
     (if alertIsClosed (ar_status alert)
      then let duration = alertResolutionDuration date alert now;
               count = get_or 0 (ar_resolution_count alert);
               prefix = (if alertStatusNormalized (ar_status alert) = ''verified'' then ''Verified in'' else ''Closed in'')
           in if count > 1 then prefix @ '' '' @ duration @ '' ('' @ nat_str count @ times_sign @ '')''
              else prefix @ '' '' @ duration
      else ''Open for '' @ alertResolutionDuration date alert now)"

end
