(* ===== verification/AlertsFacts.thy ===== *)
theory AlertsFacts
  imports Alerts
begin

text \<open>
  Facts on alert triage: the search links carry the values of the alert and nothing else, and printed
  durations read back to their unit.
\<close>

section \<open>Search links\<close>

text \<open>
  How the server reads the field filters at the head of a query: words with a quoted value, separated by
  single spaces; the rest is left over. The first argument bounds the number of filters.
\<close>

fun read_clauses :: "nat \<Rightarrow> string \<Rightarrow> (string \<times> string) list \<times> string" where
  "read_clauses 0 s = ([], s)"
| "read_clauses (Suc n) s =
     (let k = takeWhile is_word s; r = drop (length k) s in
      if k = [] \<or> \<not> starts_with [CHR ''='', CHR 0x22] r then ([], s)
      else (case read_literal (drop 2 r) of
              None \<Rightarrow> ([], s)
            | Some (v, t) \<Rightarrow>
                if starts_with '' '' t \<and> at_word (drop 1 t)
                then (let (kvs, u) = read_clauses n (drop 1 t) in ((k, v) # kvs, u))
                else ([(k, v)], t)))"

interpretation hunt: mpl_escaper escMpl
  by unfold_locales (simp add: escMpl_def escapeMplString_map [unfolded escapeMplString_def] read_escaped)

definition is_key :: "string \<Rightarrow> bool" where
  "is_key k \<longleftrightarrow> k \<noteq> [] \<and> list_all is_word k"

definition key_values :: "(string \<times> string) list \<Rightarrow> string" where
  "key_values kvs = join '' '' (map (\<lambda>(k, v). clause k v) kvs)"

lemma take_key: "is_key k \<Longrightarrow> takeWhile is_word (k @ CHR ''='' # s) = k"
  by (subst takeWhile_append2) (auto simp: is_key_def list_all_iff is_word_def is_digit_def is_upper_def is_lower_def code_def)

lemma read_one:
  assumes "is_key k"
  shows "read_clauses (Suc n) (clause k v @ t) =
    (if starts_with '' '' t \<and> at_word (drop 1 t)
     then (let (kvs, u) = read_clauses n (drop 1 t) in ((k, v) # kvs, u)) else ([(k, v)], t))"
proof -
  have c: "clause k v @ t = k @ CHR ''='' # CHR 0x22 # escMpl v @ CHR 0x22 # t"
    by (simp add: clause_def quoted_def)
  then show ?thesis using assms take_key [OF assms]
    by (simp add: hunt.read_esc Let_def starts_with_def) (simp add: is_key_def)
qed

lemma read_key_values:
  assumes "list_all (\<lambda>(k, v). is_key k) kvs" and "kvs \<noteq> []" and "\<not> (starts_with '' '' t \<and> at_word (drop 1 t))"
    and "length kvs \<le> n"
  shows "read_clauses n (key_values kvs @ t) = (kvs, t)"
  using assms
proof (induction kvs arbitrary: n)
  case (Cons kv kvs)
  obtain k v where kv: "kv = (k, v)" by (cases kv)
  obtain m where n: "n = Suc m" using Cons.prems(4) by (cases n) auto
  have k: "is_key k" using Cons.prems(1) kv by simp
  show ?case
  proof (cases kvs)
    case Nil
    then show ?thesis using Cons.prems(3) kv n read_one [OF k, of m v t] by (auto simp: key_values_def)
  next
    case (Cons kv2 kvs2)
    have "key_values (kv # kvs) = clause k v @ '' '' @ key_values kvs"
      using kv Cons by (simp add: key_values_def)
    moreover have "at_word (key_values kvs @ t)"
      using Cons.prems(1) Cons by (cases kv2; cases "fst kv2"; cases kvs2)
        (auto simp: key_values_def clause_def at_word_def is_key_def)
    ultimately show ?thesis using Cons.IH [of m] Cons.prems n kv Cons read_one [OF k, of m v]
      by (simp add: starts_with_def)
  qed
qed simp

definition opt_clause :: "string \<Rightarrow> string option \<Rightarrow> (string \<times> string) list" where
  "opt_clause k v = (case truthy v of Some x \<Rightarrow> [(k, x)] | None \<Rightarrow> [])"

text \<open>The filters an alert and an event stand for.\<close>

definition hunt_filters :: "AlertContextFields \<Rightarrow> (string \<times> string) list" where
  "hunt_filters c = opt_clause ''source'' (ac_source c) @ opt_clause ''parser'' (ac_parser c)
     @ (case opt_clause ''process_name'' (ac_process_name c) of
          [] \<Rightarrow> opt_clause ''bundle_id'' (ac_bundle_id c) | kvs \<Rightarrow> kvs)"

fun first_filter :: "(string \<times> string) list \<Rightarrow> (string \<times> string) list" where
  "first_filter [] = []"
| "first_filter ((k, v) # kvs) = (if v \<noteq> [] then [(k, v)] else first_filter kvs)"

definition event_filters :: "Row \<Rightarrow> (string \<times> string) list" where
  "event_filters row = (''source'', str (map_of row ''source'')) #
     first_filter (map (\<lambda>k. (k, str (map_of row k))) [''timestamp'', ''id'', ''process_name'', ''bundle_id''])"

lemma filter_keys:
  "is_key ''source''" "is_key ''parser''" "is_key ''process_name''" "is_key ''bundle_id''" "is_key ''timestamp''" "is_key ''id''"
  by code_simp+

lemma hunt_tail_plain: "\<not> at_word (drop 1 HUNT_TAIL)" "\<not> at_word (drop 1 '' | head 20'')"
  by code_simp+

lemma hunt_href:
  "alertHuntHref (Some c) = (case truthy (ac_source c) of None \<Rightarrow> None
     | Some s \<Rightarrow> Some (search_link s (key_values (hunt_filters c) @ HUNT_TAIL)))"
  by (auto simp: alertHuntHref_def hunt_filters_def opt_clause_def key_values_def add_clause_def Let_def
      split: option.splits)

lemma event_href:
  "eventSearchHref row = (if str (map_of row ''source'') = [] then None
     else Some (search_link (str (map_of row ''source'')) (key_values (event_filters row) @ '' | head 20'')))"
  by (simp add: eventSearchHref_def event_filters_def key_values_def add_clause_def Let_def)

text \<open>What a link says: the parameters it decodes to, and the filters and the rest of its query.\<close>

definition reads_as :: "string \<Rightarrow> string \<Rightarrow> (string \<times> string) list \<Rightarrow> string \<Rightarrow> bool" where
  "reads_as href source filters pipeline \<longleftrightarrow>
     (\<exists>ps q. href = ''/search?'' @ ps \<and> parse_params ps = [(''source'', source), (''q'', q)]
        \<and> read_clauses 4 q = (filters, pipeline))"

lemma search_link_reads: "read_clauses 4 q = (kvs, t) \<Longrightarrow> reads_as (search_link s q) s kvs t"
  unfolding reads_as_def search_link_def
  by (intro exI [of _ "encode_params (set_param ''q'' q [(''source'', s)])"] exI [of _ q])
    (simp add: parse_encode_params)

lemma hunt_query_reads:
  "truthy (ac_source c) = Some s \<Longrightarrow> read_clauses 4 (key_values (hunt_filters c) @ HUNT_TAIL) = (hunt_filters c, HUNT_TAIL)"
  using filter_keys hunt_tail_plain
  by (intro read_key_values) (auto simp: hunt_filters_def opt_clause_def split: option.splits list.splits)

lemma event_query_reads:
  "read_clauses 4 (key_values (event_filters row) @ '' | head 20'') = (event_filters row, '' | head 20'')"
  using filter_keys hunt_tail_plain by (intro read_key_values) (auto simp: event_filters_def)

text \<open>
  The search links of an alert and of an event exist exactly when their source is known. Decoded, they
  name the source and a query whose filters read back as the values of the alert (the event), whatever
  characters those hold (no value can end its string, add a filter or a pipeline stage), followed
  by the fixed pipeline.
\<close>

theorem search_links_read_back:
  "(case alertHuntHref (Some c) of
      None \<Rightarrow> truthy (ac_source c) = None
    | Some href \<Rightarrow> \<exists>s. ac_source c = Some s \<and> s \<noteq> [] \<and> reads_as href s (hunt_filters c) HUNT_TAIL)
   \<and> (case eventSearchHref row of
      None \<Rightarrow> str (map_of row ''source'') = []
    | Some href \<Rightarrow> reads_as href (str (map_of row ''source'')) (event_filters row) '' | head 20'')"
proof -
  have "ac_source c = Some s \<and> s \<noteq> []" if "truthy (ac_source c) = Some s" for s
    using that by (auto simp: truthy_def split: option.splits list.splits)
  then show ?thesis
    using search_link_reads [OF hunt_query_reads [of c]] search_link_reads [OF event_query_reads [of row]]
    by (cases "truthy (ac_source c)") (auto simp: hunt_href event_href)
qed

section \<open>Durations\<close>

text \<open>Reading a printed duration: words of a number and a unit, in seconds.\<close>

definition unit_seconds :: "char \<Rightarrow> nat" where
  "unit_seconds c = (if c = CHR ''s'' then 1 else if c = CHR ''m'' then 60 else if c = CHR ''h'' then 3600 else 86400)"

definition read_word :: "string \<Rightarrow> nat" where
  "read_word w = digits_val 10 (butlast w) * unit_seconds (last w)"

definition read_duration :: "string \<Rightarrow> nat" where
  "read_duration s = sum_list (map read_word (split_char (CHR '' '') s))"

lemma read_word_num: "read_word (nat_str n @ [c]) = n * unit_seconds c"
  by (simp add: read_word_def nat_str_def digits_val_num_str)

lemma nat_str_no_space: "CHR '' '' \<notin> set (nat_str n)"
  using nat_str_digits [of "CHR '' ''" n] by (auto simp: is_digit_def code_def)

lemma read_duration_one: "c \<noteq> CHR '' '' \<Longrightarrow> read_duration (nat_str n @ [c]) = n * unit_seconds c"
  using nat_str_no_space by (simp add: read_duration_def split_char_no_sep read_word_num)

lemma read_duration_two:
  "c \<noteq> CHR '' '' \<Longrightarrow> d \<noteq> CHR '' '' \<Longrightarrow>
   read_duration (nat_str n @ c # CHR '' '' # nat_str m @ [d]) = n * unit_seconds c + m * unit_seconds d"
  using nat_str_no_space split_char_append [where c = "CHR '' ''" and w = "nat_str n @ [c]" and s = "nat_str m @ [d]"]
  by (simp add: read_duration_def split_char_no_sep read_word_num)

text \<open>
  A printed duration reads back as the elapsed time cut down to the unit shown: seconds up to a
  minute, minutes up to a day, hours beyond (one unit too little at most); a time before the start
  counts as none.
\<close>

theorem duration_reads_back:
  "read_duration (formatDurationMs (Some t)) =
     (let sec = nat (t div 1000); unit = (if sec < 60 then 1 else if sec < 86400 then 60 else 3600)
      in sec div unit * unit)"
proof -
  define sec where "sec = nat (t div 1000)"
  have s: "nat (max 0 (t div 1000)) = sec" by (simp add: sec_def)
  have u: "read_duration (nat_str n @ ''s'') = n" "read_duration (nat_str n @ ''m'') = n * 60"
    "read_duration (nat_str n @ ''h'') = n * 3600" "read_duration (nat_str n @ ''d'') = n * 86400"
    "read_duration (nat_str n @ CHR ''h'' # CHR '' '' # nat_str m @ ''m'') = n * 3600 + m * 60"
    "read_duration (nat_str n @ CHR ''d'' # CHR '' '' # nat_str m @ ''h'') = n * 86400 + m * 3600" for n m
    by (simp_all add: read_duration_one read_duration_two unit_seconds_def)
  consider "sec < 60" | "60 \<le> sec" "sec < 3600" | "3600 \<le> sec" "sec < 86400" | "86400 \<le> sec" by linarith
  then have "read_duration (formatDurationMs (Some t)) = (if sec < 60 then sec else if sec < 86400 then sec div 60 * 60 else sec div 3600 * 3600)"
  proof cases
    case 2
    then show ?thesis by (simp add: formatDurationMs_def s Let_def u div_less_iff_less_mult)
  next
    case 3
    then have "sec div 60 div 60 < 24" "\<not> sec div 60 < 60" by (simp_all add: div_less_iff_less_mult)
    moreover have "sec div 60 div 60 * 60 + sec div 60 mod 60 = sec div 60" by (rule div_mult_mod_eq)
    moreover from this have "sec div 60 div 60 * 3600 + sec div 60 mod 60 * 60 = sec div 60 * 60" by linarith
    ultimately show ?thesis using 3 by (auto simp: formatDurationMs_def s Let_def u)
  next
    case 4
    then have "\<not> sec div 60 div 60 < 24" "\<not> sec div 60 < 60" by (simp_all add: div_less_iff_less_mult)
    moreover have "sec div 60 div 60 div 24 * 24 + sec div 60 div 60 mod 24 = sec div 60 div 60" by (rule div_mult_mod_eq)
    moreover from this have "sec div 60 div 60 div 24 * 86400 + sec div 60 div 60 mod 24 * 3600 = sec div 60 div 60 * 3600"
      by linarith
    moreover have "sec div 60 div 60 = sec div 3600" by (simp add: div_mult2_eq [of sec 60 60, simplified])
    ultimately show ?thesis using 4 by (auto simp: formatDurationMs_def s Let_def u)
  qed (simp add: formatDurationMs_def s Let_def u)
  then show ?thesis by (simp add: sec_def Let_def)
qed

section \<open>Oddities\<close>

text \<open>An alert that is still open: the opening time goes to the browser as it is, so a naive time is read
  as local time there, and an unreadable one shows as NaN; for a closed alert it is UTC, or a dash.\<close>

lemma open_alert_naive_time:
  "alertResolutionDuration date \<lparr>ar_status = ''new'', ar_opened_at = Some ''2024-01-02 03:04:05'', ar_first_seen = None,
     ar_resolved_at = None, ar_resolution_count = None\<rparr> now
   = formatDurationMs (map_option (\<lambda>t. now - t) (date ''2024-01-02 03:04:05''))"
  "parseApiTimestamp date ''2024-01-02 03:04:05'' = date ''2024-01-02T03:04:05Z''"
proof -
  have "\<not> test zone_re ''2024-01-02 03:04:05''" "trim ''2024-01-02 03:04:05'' = ''2024-01-02 03:04:05''"
    "map_option (\<lambda>m. (group 1 m, group 2 m)) (exec naive_re ''2024-01-02 03:04:05'') = Some (Some ''2024-01-02'', Some ''03:04:05'')"
    by code_simp+
  then show "parseApiTimestamp date ''2024-01-02 03:04:05'' = date ''2024-01-02T03:04:05Z''"
    by (auto simp: parseApiTimestamp_def Let_def get_or_def)
qed (simp add: alertResolutionDuration_def alertIsClosed_def alertStatusNormalized_def or_else_def truthy_def)

lemma unreadable_time_shows_nan:
  "alertResolutionLabel (\<lambda>_. None) \<lparr>ar_status = ''new'', ar_opened_at = Some ''x'', ar_first_seen = None,
     ar_resolved_at = None, ar_resolution_count = None\<rparr> now = ''Open for NaNd''"
  by (simp add: alertResolutionLabel_def alertResolutionDuration_def alertIsClosed_def alertStatusNormalized_def
      or_else_def truthy_def formatDurationMs_def)

end
