(* ===== verification/NetworkFacts.thy ===== *)
theory NetworkFacts
  imports NetworkFlow AlertsFacts
begin

text \<open>
  Facts on the network page: the aggregations lose no row and count none twice (interpretations of
  \<open>additive_group\<close>), a sighting keeps its strongest signal, sockets are listed once, Android user
  names give their numeric ids, and the search query of a flow reads back.
\<close>

section \<open>Flows\<close>

interpretation flow_count: additive_group "new_flow parse unknown hints" "merge_flow parse unknown" fl_count count_one
  for parse unknown hints
  by unfold_locales (simp_all add: new_flow_def merge_flow_def count_one_def Let_def split: prod.splits)

interpretation flow_bytes: additive_group "new_flow parse unknown hints" "merge_flow parse unknown" fl_bytes "rowBytes parse"
  for parse unknown hints
  by unfold_locales (simp_all add: new_flow_def merge_flow_def Let_def split: prod.splits)

interpretation wifi_count: additive_group "new_sighting parse" "merge_sighting parse" wf_count count_one for parse
  by unfold_locales (simp_all add: new_sighting_def merge_sighting_def count_one_def Let_def)

interpretation dest_count: additive_group count_one count_more id count_one
  by unfold_locales (simp_all add: count_one_def count_more_def)

definition link_key :: "NetworkFlowLink \<Rightarrow> string" where
  "link_key l = fl_source l @ [CHR 0x00] @ fl_target l @ [CHR 0x00] @ kind_name (fl_targetKind l)"

lemma sum_count_one: "(\<Sum>r\<leftarrow>xs. count_one r) = int (length xs)"
  by (induction xs) (simp_all add: count_one_def)

lemma sum_js_sort: "(\<Sum>x\<leftarrow>js_sort cmp xs. f x) = (\<Sum>x\<leftarrow>xs. (f x :: int))"
  by (metis mset_js_sort mset_map sum_mset_sum_list)

lemma flow_key_link: "flow_key parse u r = Some k \<Longrightarrow> link_key (new_flow parse u hints r) = k"
  by (auto simp: flow_key_def link_key_def new_flow_def Let_def split: prod.splits)

lemma flow_group_key:
  "(k, l) \<in> set (group_rows (flow_key parse u) (new_flow parse u hints) (merge_flow parse u) rows) \<Longrightarrow> link_key l = k"
  unfolding group_rows_member
  by (erule group_of_invariant) (simp_all add: flow_key_link, simp add: link_key_def merge_flow_def)

lemma flow_key_dest: "(flow_key parse u r \<noteq> None) = (flow_dest parse r \<noteq> None)"
  by (simp add: flow_key_def)

definition same_flow :: "JsonParse \<Rightarrow> string \<Rightarrow> Row list \<Rightarrow> NetworkFlowLink \<Rightarrow> Row list" where
  "same_flow parse u rows l = filter (\<lambda>r. flow_key parse u r = Some (link_key l)) rows"

lemma flows_are_groups:
  "list_all (\<lambda>l. fl_count l = int (length (same_flow parse u rows l)) \<and> fl_bytes l = (\<Sum>r\<leftarrow>same_flow parse u rows l. rowBytes parse r))
     (map snd (group_rows (flow_key parse u) (new_flow parse u hints) (merge_flow parse u) rows))"
proof -
  have "fl_count l = int (length (same_flow parse u rows l)) \<and> fl_bytes l = (\<Sum>r\<leftarrow>same_flow parse u rows l. rowBytes parse r)"
    if "(k, l) \<in> set (group_rows (flow_key parse u) (new_flow parse u hints) (merge_flow parse u) rows)" for k l
  proof -
    have g: "group_of (flow_key parse u) (new_flow parse u hints) (merge_flow parse u) rows k = Some l"
      using that by (simp add: group_rows_member)
    show ?thesis
      using flow_group_key [OF that] flow_count.group_weight [OF g] flow_bytes.group_weight [OF g]
      by (simp add: same_flow_def sum_count_one)
  qed
  then show ?thesis by (auto simp: list_all_iff)
qed

lemma flow_keys_distinct:
  "distinct (map link_key (map snd (group_rows (flow_key parse u) (new_flow parse u hints) (merge_flow parse u) rows)))"
proof -
  have "map link_key (map snd (group_rows (flow_key parse u) (new_flow parse u hints) (merge_flow parse u) rows))
      = map fst (group_rows (flow_key parse u) (new_flow parse u hints) (merge_flow parse u) rows)"
    using flow_group_key by (auto intro!: map_cong)
  then show ?thesis using group_rows_distinct by metis
qed

lemma distinct_map_js_sort: "distinct (map f (js_sort cmp xs)) = distinct (map f xs)"
  by (metis mset_eq_imp_distinct_iff mset_js_sort mset_map)

text \<open>
  C19: The flows of a case partition the rows that have a destination (Wi-Fi scan results and listeners
  have none): no two flows have the same owner, target and kind, each flow counts exactly its rows and
  sums their bytes, so the counts add up to the number of those rows and the bytes to their bytes.
\<close>

theorem flows_partition_rows:
  "distinct (map link_key (aggregateNetworkFlows parse compare rows unknown hints))
   \<and> list_all (\<lambda>l. fl_count l = int (length (same_flow parse (get_or ''unattributed'' unknown) rows l))
        \<and> fl_bytes l = (\<Sum>r\<leftarrow>same_flow parse (get_or ''unattributed'' unknown) rows l. rowBytes parse r))
       (aggregateNetworkFlows parse compare rows unknown hints)
   \<and> (\<Sum>l\<leftarrow>aggregateNetworkFlows parse compare rows unknown hints. flowWeight l W_count)
       = int (length (filter (\<lambda>r. flow_dest parse r \<noteq> None) rows))
   \<and> (\<Sum>l\<leftarrow>aggregateNetworkFlows parse compare rows unknown hints. flowWeight l W_bytes)
       = (\<Sum>r\<leftarrow>filter (\<lambda>r. flow_dest parse r \<noteq> None) rows. rowBytes parse r)"
proof -
  define u where "u = get_or ''unattributed'' unknown"
  define g where "g = group_rows (flow_key parse u) (new_flow parse u (get_or (collectUidOwnerHints parse rows) hints)) (merge_flow parse u) rows"
  have a: "aggregateNetworkFlows parse compare rows unknown hints = js_sort (compare_flows compare) (map snd g)"
    by (simp add: aggregateNetworkFlows_def Let_def u_def g_def)
  have k: "filter (\<lambda>r. flow_key parse u r \<noteq> None) rows = filter (\<lambda>r. flow_dest parse r \<noteq> None) rows"
    by (simp only: flow_key_dest)
  have "(\<Sum>l\<leftarrow>map snd g. fl_count l) = int (length (filter (\<lambda>r. flow_dest parse r \<noteq> None) rows))"
    "(\<Sum>l\<leftarrow>map snd g. fl_bytes l) = (\<Sum>r\<leftarrow>filter (\<lambda>r. flow_dest parse r \<noteq> None) rows. rowBytes parse r)"
    unfolding g_def by (simp_all only: map_map o_def flow_count.total flow_bytes.total k sum_count_one)
  moreover have "distinct (map link_key (map snd g))" unfolding g_def by (rule flow_keys_distinct)
  moreover have "list_all (\<lambda>l. fl_count l = int (length (same_flow parse u rows l))
      \<and> fl_bytes l = (\<Sum>r\<leftarrow>same_flow parse u rows l. rowBytes parse r)) (map snd g)"
    unfolding g_def by (rule flows_are_groups)
  ultimately show ?thesis
    unfolding a u_def [symmetric] distinct_map_js_sort sum_js_sort flowWeight_def
    by (simp add: list_all_iff)
qed

section \<open>Wi-Fi sightings\<close>

text \<open>The strongest of some levels, \<open>None\<close> when none is known.\<close>

definition is_strongest :: "int option \<Rightarrow> int option list \<Rightarrow> bool" where
  "is_strongest x xs \<longleftrightarrow> (case x of None \<Rightarrow> list_all (\<lambda>y. y = None) xs
     | Some m \<Rightarrow> Some m \<in> set xs \<and> list_all (\<lambda>y. case y of None \<Rightarrow> True | Some n \<Rightarrow> n \<le> m) xs)"

lemma strongest_snoc: "is_strongest x xs \<Longrightarrow> is_strongest (stronger x y) (xs @ [y])"
  by (fastforce simp: is_strongest_def stronger_def list_all_iff split: option.splits)

lemma strongest_foldl:
  "is_strongest (wf_rssi s) xs
   \<Longrightarrow> is_strongest (wf_rssi (foldl (merge_sighting parse) s rs)) (xs @ map (wifi_rssi parse) rs)"
proof (induction rs arbitrary: s xs)
  case (Cons r rs)
  have "is_strongest (wf_rssi (merge_sighting parse s r)) (xs @ [wifi_rssi parse r])"
    using strongest_snoc [OF Cons.prems] by (simp add: merge_sighting_def Let_def)
  from Cons.IH [OF this] show ?case by simp
qed simp

lemma group_strongest:
  assumes "group_of key (new_sighting parse) (merge_sighting parse) rows k = Some s"
  shows "is_strongest (wf_rssi s) (map (wifi_rssi parse) (filter (\<lambda>r. key r = Some k) rows))"
proof -
  obtain r rs where f: "filter (\<lambda>r. key r = Some k) rows = r # rs"
    and s: "s = foldl (merge_sighting parse) (new_sighting parse r) rs"
    using assms by (auto simp: group_of_def split: list.splits)
  have "is_strongest (wf_rssi (new_sighting parse r)) [wifi_rssi parse r]"
    by (simp add: new_sighting_def is_strongest_def split: option.splits)
  from strongest_foldl [OF this, of parse rs] show ?thesis by (simp add: f s)
qed

text \<open>
  The Wi-Fi sightings partition the scan rows that name a network, by name and access point: each
  counts its rows and shows the strongest level among them, and the counts add up to the number
  of rows.
\<close>

theorem sightings_partition_scans:
  "\<exists>groups. mset (aggregateWifiScanSightings parse compare rows) = mset (map snd groups) \<and> distinct (map fst groups)
     \<and> list_all (\<lambda>(k, s). wf_count s = int (length (filter (\<lambda>r. wifi_key parse r = Some k) rows))
          \<and> is_strongest (wf_rssi s) (map (wifi_rssi parse) (filter (\<lambda>r. wifi_key parse r = Some k) rows))) groups
     \<and> (\<Sum>s\<leftarrow>aggregateWifiScanSightings parse compare rows. wf_count s)
         = int (length (filter (\<lambda>r. wifi_key parse r \<noteq> None) rows))"
proof (intro exI conjI)
  let ?g = "group_rows (wifi_key parse) (new_sighting parse) (merge_sighting parse) rows"
  show "mset (aggregateWifiScanSightings parse compare rows) = mset (map snd ?g)"
    by (simp add: aggregateWifiScanSightings_def)
  show "distinct (map fst ?g)" by (rule group_rows_distinct)
  have "wf_count s = int (length (filter (\<lambda>r. wifi_key parse r = Some k) rows))
      \<and> is_strongest (wf_rssi s) (map (wifi_rssi parse) (filter (\<lambda>r. wifi_key parse r = Some k) rows))"
    if "(k, s) \<in> set ?g" for k s
  proof -
    have g: "group_of (wifi_key parse) (new_sighting parse) (merge_sighting parse) rows k = Some s"
      using that by (simp add: group_rows_member)
    show ?thesis using wifi_count.group_weight [OF g] group_strongest [OF g] by (simp add: sum_count_one)
  qed
  then show "list_all (\<lambda>(k, s). wf_count s = int (length (filter (\<lambda>r. wifi_key parse r = Some k) rows))
          \<and> is_strongest (wf_rssi s) (map (wifi_rssi parse) (filter (\<lambda>r. wifi_key parse r = Some k) rows))) ?g"
    by (auto simp: list_all_iff)
  have "(\<Sum>s\<leftarrow>map snd ?g. wf_count s) = int (length (filter (\<lambda>r. wifi_key parse r \<noteq> None) rows))"
    by (simp only: map_map o_def wifi_count.total sum_count_one)
  then show "(\<Sum>s\<leftarrow>aggregateWifiScanSightings parse compare rows. wf_count s)
         = int (length (filter (\<lambda>r. wifi_key parse r \<noteq> None) rows))"
    by (simp add: aggregateWifiScanSightings_def sum_js_sort)
qed

section \<open>Sockets\<close>

lemma new_sockets_keys:
  "distinct (map socket_key (new_sockets parse relaxed seen rows))
   \<and> socket_key ` set (new_sockets parse relaxed seen rows) \<inter> set seen = {}"
  by (induction parse relaxed seen rows rule: new_sockets.induct) (auto split: option.splits)

lemma enrich_keys: "map socket_key (enrichSocketOwners rows hints) = map socket_key rows"
  by (auto simp: enrichSocketOwners_def socket_key_def split: prod.splits)

text \<open>
  The socket table shows at most as many rows as asked for and no socket twice (protocol, both
  ends, user and staleness), whatever the owner hints; and the destinations counted from it are distinct.
\<close>

theorem sockets_listed_once:
  "length (networkSocketRows parse compare rows limit relaxed hints) \<le> limit
   \<and> distinct (map socket_key (networkSocketRows parse compare rows limit relaxed hints))
   \<and> distinct (map fst (topDestinations sockets n))"
proof -
  let ?s = "take limit (js_sort (compare_sockets compare) (new_sockets parse relaxed [] rows))"
  have "distinct (map socket_key (js_sort (compare_sockets compare) (new_sockets parse relaxed [] rows)))"
    using new_sockets_keys by (simp add: distinct_map_js_sort)
  then have "distinct (map socket_key ?s)" by (simp add: take_map [symmetric])
  moreover have "map socket_key (networkSocketRows parse compare rows limit relaxed hints) = map socket_key ?s"
    by (simp add: networkSocketRows_def Let_def enrich_keys split: option.splits)
  moreover have "length (map socket_key ?s) \<le> limit" by simp
  moreover have "distinct (map fst (js_sort (\<lambda>a b. snd b - snd a) (group_rows socket_dest count_one count_more sockets)))"
    by (simp add: distinct_map_js_sort group_rows_distinct)
  then have "distinct (map fst (topDestinations sockets n))"
    unfolding topDestinations_def by (metis distinct_take take_map)
  ultimately show ?thesis by (metis length_map)
qed

section \<open>User ids\<close>

lemma index_of_sep: "c \<notin> set w \<Longrightarrow> index_of c (w @ c # s) = Some (length w)"
  by (induction w) auto

lemma user_name_uid:
  assumes "suffix \<noteq> []" and "\<not> is_space (last suffix)"
  shows "parseAndroidLinuxUid (''u'' @ nat_str u @ CHR ''_'' # suffix) =
    (if starts_with ''a'' suffix then map_option (\<lambda>offset. int_str (int u * PER_USER_RANGE + AID_APP_START + offset)) (js_number (drop 1 suffix))
     else if starts_with ''i'' suffix then map_option (\<lambda>offset. int_str (int u * PER_USER_RANGE + 99000 + offset)) (js_number (drop 1 suffix))
     else map_option (\<lambda>named. int_str (int u * PER_USER_RANGE + named)) (namedAndroidUid suffix))"
proof -
  have "trimmed (''u'' @ nat_str u @ CHR ''_'' # suffix)"
    using assms by (simp add: trimmed_def is_space_def code_def)
  then have t: "trim (CHR ''u'' # nat_str u @ CHR ''_'' # suffix) = CHR ''u'' # nat_str u @ CHR ''_'' # suffix"
    by (simp add: trim_trimmed)
  have "CHR ''_'' \<notin> set (nat_str u)" using nat_str_digits [of "CHR ''_''" u] by (auto simp: is_digit_def code_def)
  from index_of_sep [OF this] show ?thesis
    by (simp add: parseAndroidLinuxUid_def t Let_def) (simp add: starts_with_def)
qed

lemma last_nat_str: "\<not> is_space (last (nat_str n))"
  using nat_str_digits [of "last (nat_str n)" n] nat_str_not_Nil [of n] by (simp add: is_digit_not_space)

lemma int_str_sum: "int_str (int a * 100000 + b + int n) = nat_str (a * 100000 + nat b + n)" if "0 \<le> b"
  using that by (simp add: int_str_def nat_add_distrib nat_mult_distrib)

text \<open>
  The user names of Android applications and of isolated processes give the ids the kernel uses: user
  \<open>u\<close> and application \<open>n\<close> give \<open>100000 u + 10000 + n\<close>, from which both read back while
  \<open>n\<close> stays below 90000.
\<close>

theorem android_uids:
  "parseAndroidLinuxUid (''u'' @ nat_str u @ ''_a'' @ nat_str n) = Some (nat_str (u * 100000 + 10000 + n))
   \<and> parseAndroidLinuxUid (''u'' @ nat_str u @ ''_i'' @ nat_str n) = Some (nat_str (u * 100000 + 99000 + n))
   \<and> (if n < 90000 then (u * 100000 + 10000 + n) div 100000 = u \<and> (u * 100000 + 10000 + n) mod 100000 = 10000 + n else True)"
proof -
  have "parseAndroidLinuxUid (''u'' @ nat_str u @ ''_a'' @ nat_str n) = Some (nat_str (u * 100000 + 10000 + n))"
    using user_name_uid [of "CHR ''a'' # nat_str n" u] last_nat_str int_str_sum [of 10000 u n]
    by (simp add: starts_with_def PER_USER_RANGE_def AID_APP_START_def)
  moreover have "parseAndroidLinuxUid (''u'' @ nat_str u @ ''_i'' @ nat_str n) = Some (nat_str (u * 100000 + 99000 + n))"
    using user_name_uid [of "CHR ''i'' # nat_str n" u] last_nat_str int_str_sum [of 99000 u n]
    by (simp add: starts_with_def PER_USER_RANGE_def)
  moreover have "(u * 100000 + (10000 + n)) mod 100000 = (10000 + n) mod 100000" by (metis mod_mult_self3)
  then have "n < 90000 \<Longrightarrow> (u * 100000 + 10000 + n) mod 100000 = 10000 + n" by (simp add: add.assoc)
  ultimately show ?thesis by auto
qed

text \<open>Names that begin with the letter of an application or of an isolated process are not looked up for
  a secondary user.\<close>

lemma secondary_audio_unresolved:
  "parseAndroidLinuxUid ''u2_audio'' = None \<and> parseAndroidLinuxUid ''u2_log'' = Some (int_str 201007)
   \<and> namedAndroidUid ''audio'' = Some 1005 \<and> namedAndroidUid ''log'' = Some 1007"
proof -
  have n: "nat_str 2 = ''2''" "js_number ''udio'' = None" by code_simp+
  have "namedAndroidUid ''audio'' = Some 1005" "namedAndroidUid ''log'' = Some 1007"
    by (simp_all add: namedAndroidUid_def named_uids_def)
  moreover from this have "parseAndroidLinuxUid ''u2_audio'' = None" "parseAndroidLinuxUid ''u2_log'' = Some (int_str 201007)"
    using user_name_uid [of "''audio''" 2] user_name_uid [of "''log''" 2]
    by (simp_all add: n starts_with_def is_space_def code_def PER_USER_RANGE_def)
  ultimately show ?thesis by simp
qed

section \<open>Searching a flow\<close>

text \<open>The filters that a flow stands for, outside the iOS pages and for an owner that is not stale.\<close>

definition flow_filters :: "string \<Rightarrow> NetworkFlowLink \<Rightarrow> FlowPlatform \<Rightarrow> (string \<times> string) list" where
  "flow_filters ingestSource link platform =
     (let source = fl_source link in
      [(''source'', ingestSource), (''parser'', if platform = F_endpoint then ''network'' else ''Network'')]
      @ (if source \<in> {[], ''unattributed'', ''unknown''} then []
         else if starts_with ''uid:'' source then [(''process_id'', drop 4 source)]
         else if starts_with ''proc:'' source then [(''process_name'', drop 5 source)]
         else [(''bundle_id'', source)])
      @ [(if fl_targetKind link = D_domain then ''destination_domain'' else ''dest_ip'', fl_target link)])"

lemma fq_clause: "fq k v = clause k v"
  by (simp add: fq_def clause_def escapeMplString_def escMpl_def)

lemma parser_clauses: "''parser='' @ quoted ''network'' = clause ''parser'' ''network''" "''parser='' @ quoted ''Network'' = clause ''parser'' ''Network''"
  by code_simp+

lemma flow_keys:
  "is_key ''process_id''" "is_key ''process_name''" "is_key ''bundle_id''" "is_key ''destination_domain''" "is_key ''dest_ip''"
  by code_simp+

lemma flow_query_clauses:
  "platform \<noteq> F_ios \<Longrightarrow> fl_source link \<noteq> ''stale'' \<Longrightarrow>
   networkFlowSearchQuery s link platform = key_values (flow_filters s link platform) @ '' | sort -timestamp | head 80''"
  using parser_clauses
  by (cases platform) (simp_all add: networkFlowSearchQuery_def flow_filters_def key_values_def owner_part_def fq_clause Let_def)

text \<open>
  The search behind a flow asks for exactly what the flow shows: source, parser, owner (as process id,
  process name or bundle, by the prefix of the owner) and destination read back from the query as
  the flow's values, whatever characters those hold.
\<close>

theorem flow_query_reads_back:
  "if platform \<noteq> F_ios \<and> fl_source link \<noteq> ''stale''
   then read_clauses 4 (networkFlowSearchQuery s link platform) = (flow_filters s link platform, '' | sort -timestamp | head 80'')
   else True"
proof -
  have "\<not> at_word (drop 1 '' | sort -timestamp | head 80'')" by code_simp
  then have "read_clauses 4 (key_values (flow_filters s link platform) @ '' | sort -timestamp | head 80'')
      = (flow_filters s link platform, '' | sort -timestamp | head 80'')"
    using filter_keys flow_keys by (intro read_key_values) (auto simp: flow_filters_def Let_def)
  then show ?thesis by (simp add: flow_query_clauses)
qed

end
