(* ===== verification/CaseComparison.thy ===== *)
theory CaseComparison
  imports ApiClient MplFacts
begin

text \<open>
  Comparing two cases, \<open>src/mobipwn-web/src/lib/caseComparison.ts\<close>: the identifiers of a case, whether
  two cases come from one device and one upload, the sections that differ, and the shareable link
  of a comparison.
\<close>

section \<open>The model\<close>

datatype ComparePlatform = Cmp_android | Cmp_ios

record CompareCaseMeta =
  cm_case_id :: string
  cm_title :: string
  cm_ingest_source :: string
  cm_platform :: string
  cm_event_count :: "int option"
  cm_case_user :: "string option"
  cm_first_ingest_at :: "string option"
  cm_last_ingest_at :: "string option"
  cm_device_model :: "string option"
  cm_device_id :: "string option"
  cm_serial_number :: "string option"
  cm_android_id :: "string option"
  cm_imei :: "string option"
  cm_meid :: "string option"
  cm_unique_device_id :: "string option"
  cm_os_version :: "string option"
  cm_product_name :: "string option"
  cm_build_fingerprint :: "string option"
  cm_build_id :: "string option"
  cm_sdk :: "string option"
  cm_blob_file_name :: "string option"
  cm_blob_file_hash :: "string option"
  cm_blob_created_at :: "string option"

record CompareEntityItem =
  ce_value :: string
  ce_count_a :: int
  ce_count_b :: int

record EntityCompareSection =
  es_entity_type :: string
  es_label :: string
  es_only_a :: "CompareEntityItem list"
  es_only_b :: "CompareEntityItem list"
  es_shared :: "CompareEntityItem list"

record CompareSummary =
  sm_shared_count :: int
  sm_only_a_count :: int
  sm_only_b_count :: int
  sm_sections :: int

record CaseComparisonResult =
  cr_platform :: string
  cr_case_a :: CompareCaseMeta
  cr_case_b :: CompareCaseMeta
  cr_summary :: CompareSummary
  cr_sections :: "EntityCompareSection list"

datatype IdentityFieldKey =
    I_device_model | I_device_id | I_serial_number | I_android_id | I_imei | I_meid
  | I_unique_device_id | I_os_version | I_build_id | I_build_fingerprint | I_blob_file_hash

datatype IdentityStatus = Match | Mismatch | Partial

record IdentityCompareRow =
  ir_key :: IdentityFieldKey
  ir_label :: string
  ir_valueA :: "string option"
  ir_valueB :: "string option"
  ir_status :: IdentityStatus

definition norm :: "string option \<Rightarrow> string option" where
  "norm v = (let t = trim (get_or [] v) in if t \<noteq> [] then Some t else None)"

definition shortHash :: "string option \<Rightarrow> nat \<Rightarrow> string" where
  "shortHash hash chars =
     (case norm hash of None \<Rightarrow> em_dash
      | Some h \<Rightarrow> if length h \<le> chars + 3 then h else take chars h @ ellipsis)"

definition shortCaseId :: "string option \<Rightarrow> nat \<Rightarrow> string" where
  "shortCaseId i chars =
     (let t = trim (replace_char (CHR ''-'') [] (get_or [] i)) in if t = [] then em_dash else take chars t)"

record CaseIdentityBit =
  cb_label :: string
  cb_value :: string
  cb_title :: "string option"

record CaseIdentityInput =
  ci_id :: string
  ci_device_id :: "string option"
  ci_serial_number :: "string option"
  ci_android_id :: "string option"
  ci_unique_device_id :: "string option"
  ci_imei :: "string option"
  ci_blob_file_hash :: "string option"

definition plain_bit :: "string \<Rightarrow> string \<Rightarrow> CaseIdentityBit" where
  "plain_bit label v = \<lparr>cb_label = label, cb_value = v, cb_title = Some v\<rparr>"

definition udid_bit :: "string \<Rightarrow> CaseIdentityBit" where
  "udid_bit udid = \<lparr>cb_label = ''UDID'',
     cb_value = (if length udid > 16 then take 8 udid @ ellipsis @ drop (length udid - 4) udid else udid),
     cb_title = Some udid\<rparr>"

definition primarySpotId :: "CaseIdentityInput \<Rightarrow> CaseIdentityBit option" where
  "primarySpotId c =
     (case norm (ci_imei c) of Some imei \<Rightarrow> Some (plain_bit ''IMEI'' imei)
      | None \<Rightarrow> (case norm (ci_android_id c) of Some androidId \<Rightarrow> Some (plain_bit ''Android ID'' androidId)
        | None \<Rightarrow> (case norm (ci_unique_device_id c) of Some udid \<Rightarrow> Some (udid_bit udid)
          | None \<Rightarrow> map_option (plain_bit ''Serial'') (or_else (norm (ci_serial_number c)) (norm (ci_device_id c))))))"

definition bit_unless :: "bool \<Rightarrow> (string \<Rightarrow> CaseIdentityBit) \<Rightarrow> string option \<Rightarrow> CaseIdentityBit list" where
  "bit_unless skip f v = (case v of Some x \<Rightarrow> if skip then [] else [f x] | None \<Rightarrow> [])"

definition caseIdentityBits :: "CaseIdentityInput \<Rightarrow> CaseIdentityBit list" where
  "caseIdentityBits c =
     (let primary = primarySpotId c;
          androidId = norm (ci_android_id c);
          udid = norm (ci_unique_device_id c);
          serial = or_else (norm (ci_serial_number c)) (norm (ci_device_id c));
          imei = norm (ci_imei c);
          hash = norm (ci_blob_file_hash c);
          primaryLabel = map_option cb_label primary
      in (case primary of Some b \<Rightarrow> [b] | None \<Rightarrow> [])
         @ [\<lparr>cb_label = ''Case'', cb_value = shortCaseId (Some (ci_id c)) 8, cb_title = Some (ci_id c)\<rparr>]
         @ bit_unless (primaryLabel = Some ''IMEI'') (plain_bit ''IMEI'') imei
         @ bit_unless (primaryLabel = Some ''Android ID'') (plain_bit ''Android ID'') androidId
         @ bit_unless (primaryLabel = Some ''UDID'') udid_bit udid
         @ bit_unless (primaryLabel = Some ''Serial'' \<or> serial = androidId \<or> serial = udid) (plain_bit ''Serial'') serial
         @ bit_unless False (\<lambda>h. \<lparr>cb_label = ''SHA'', cb_value = shortHash (Some h) 12, cb_title = Some h\<rparr>) hash)"

definition identity_status :: "string option \<Rightarrow> string option \<Rightarrow> IdentityStatus" where
  "identity_status a b =
     (case (a, b) of (Some x, Some y) \<Rightarrow> if x = y then Match else Mismatch | _ \<Rightarrow> Partial)"

definition identity_row :: "IdentityFieldKey \<Rightarrow> string \<Rightarrow> string option \<Rightarrow> string option \<Rightarrow> IdentityCompareRow" where
  "identity_row key label a b =
     \<lparr>ir_key = key, ir_label = label, ir_valueA = a, ir_valueB = b, ir_status = identity_status a b\<rparr>"

definition serial_of :: "CompareCaseMeta \<Rightarrow> string option" where
  "serial_of c = or_else (norm (cm_serial_number c)) (norm (cm_device_id c))"

definition compareDeviceIdentity :: "CompareCaseMeta \<Rightarrow> CompareCaseMeta \<Rightarrow> ComparePlatform \<Rightarrow> IdentityCompareRow list" where
  "compareDeviceIdentity a b platform =
     (let row = (\<lambda>key label f. identity_row key label (norm (f a)) (norm (f b))) in
      [row I_device_model ''Model'' cm_device_model]
      @ (if platform = Cmp_android
         then [identity_row I_serial_number ''Serial'' (serial_of a) (serial_of b), row I_imei ''IMEI'' cm_imei,
               row I_meid ''MEID'' cm_meid, row I_android_id ''Android ID'' cm_android_id]
         else [row I_device_id ''Device ID'' cm_device_id, row I_unique_device_id ''UDID'' cm_unique_device_id])
      @ [row I_os_version ''OS'' cm_os_version, row I_build_id ''Build'' cm_build_id]
      @ (if platform = Cmp_android then [row I_build_fingerprint ''Fingerprint'' cm_build_fingerprint] else [])
      @ [row I_blob_file_hash ''Archive SHA-256'' cm_blob_file_hash])"

record IdentityVerdict =
  iv_sameDevice :: "bool option"
  iv_differentUpload :: "bool option"
  iv_label :: string

definition status_of :: "IdentityFieldKey \<Rightarrow> IdentityCompareRow list \<Rightarrow> IdentityStatus option" where
  "status_of key rows = map_option ir_status (find (\<lambda>r. ir_key r = key) rows)"

definition STRONG_IDS :: "IdentityFieldKey list" where
  "STRONG_IDS = [I_serial_number, I_imei, I_android_id, I_device_id, I_unique_device_id, I_build_fingerprint]"

definition identityVerdict :: "IdentityCompareRow list \<Rightarrow> IdentityVerdict" where
  "identityVerdict rows =
     (let strong = map (\<lambda>key. status_of key rows) STRONG_IDS;
          model = status_of I_device_model rows;
          hash = status_of I_blob_file_hash rows;
          sameDevice = (if Some Mismatch \<in> set strong then Some False
            else if Some Match \<in> set strong then Some True
            else if model = Some Match then Some True
            else if model = Some Mismatch then Some False else None);
          differentUpload = (if hash = Some Match then Some False else if hash = Some Mismatch then Some True else None);
          label = (if sameDevice = Some True \<and> differentUpload = Some True then ''Same device '' @ middle_dot @ '' different uploads''
            else if sameDevice = Some True \<and> differentUpload = Some False then ''Same device '' @ middle_dot @ '' same archive hash''
            else if sameDevice = Some True then ''Likely same device''
            else if sameDevice = Some False \<and> differentUpload = Some True then ''Different devices '' @ middle_dot @ '' different uploads''
            else if sameDevice = Some False then ''Different devices''
            else if differentUpload = Some True then ''Different uploads (device identity unclear)''
            else ''Device identity incomplete'')
      in \<lparr>iv_sameDevice = sameDevice, iv_differentUpload = differentUpload, iv_label = label\<rparr>)"

definition platform_text :: "ComparePlatform \<Rightarrow> string" where
  "platform_text p = (case p of Cmp_android \<Rightarrow> ''android'' | Cmp_ios \<Rightarrow> ''ios'')"

definition fetchEligibleComparisonCases :: "parser \<Rightarrow> Session \<Rightarrow> ComparePlatform \<Rightarrow> Call" where
  "fetchEligibleComparisonCases parse st platform =
     apiFetch parse st (''/v1/case-comparison/eligible-cases?'' @ encode_params [(''platform'', platform_text platform)])
       ''GET'' NoHeaders None"

definition compareCases :: "parser \<Rightarrow> Session \<Rightarrow> ComparePlatform \<Rightarrow> string \<Rightarrow> string \<Rightarrow> Call" where
  "compareCases parse st platform caseAId caseBId =
     apiPost parse st ''/v1/case-comparison/compare''
       (JObj [(''platform'', JStr (platform_text platform)), (''case_a_id'', JStr caseAId), (''case_b_id'', JStr caseBId)])"

record CompareSelection =
  cs_platform :: ComparePlatform
  cs_caseAId :: string
  cs_caseBId :: string

definition parseCompareSearchParams :: "(string \<times> string) list \<Rightarrow> CompareSelection" where
  "parseCompareSearchParams params =
     \<lparr>cs_platform = (if map_option (\<lambda>p. to_lower (trim p)) (map_of params ''platform'') = Some ''ios'' then Cmp_ios else Cmp_android),
      cs_caseAId = get_or [] (map_option trim (map_of params ''a'')),
      cs_caseBId = get_or [] (map_option trim (map_of params ''b''))\<rparr>"

definition buildCompareSearchParams :: "CompareSelection \<Rightarrow> (string \<times> string) list" where
  "buildCompareSearchParams opts =
     (let params = set_param ''platform'' (platform_text (cs_platform opts)) [];
          params = (if trim (cs_caseAId opts) \<noteq> [] then set_param ''a'' (trim (cs_caseAId opts)) params else params)
      in if trim (cs_caseBId opts) \<noteq> [] then set_param ''b'' (trim (cs_caseBId opts)) params else params)"

definition comparePagePath :: "CompareSelection \<Rightarrow> string" where
  "comparePagePath opts =
     (let qs = encode_params (buildCompareSearchParams opts)
      in if qs \<noteq> [] then ''/case-comparison?'' @ qs else ''/case-comparison'')"

definition comparePageUrl :: "string \<Rightarrow> CompareSelection \<Rightarrow> string" where
  "comparePageUrl origin opts = origin @ comparePagePath opts"

definition COMPARE_SIGNAL_TYPES :: "string list" where
  "COMPARE_SIGNAL_TYPES = [''usb'', ''usb_port'', ''adb'', ''bluetooth'', ''ssid'', ''account'', ''vpn'', ''bundle'']"

definition isCompareSignalType :: "string \<Rightarrow> bool" where
  "isCompareSignalType entityType \<longleftrightarrow> entityType \<in> set COMPARE_SIGNAL_TYPES"

record SectionDelta =
  sd_entityType :: string
  sd_label :: string
  sd_onlyA :: nat
  sd_onlyB :: nat
  sd_shared :: nat
  sd_changed :: nat

definition sectionDeltas :: "CaseComparisonResult \<Rightarrow> SectionDelta list" where
  "sectionDeltas result = map (\<lambda>s.
     \<lparr>sd_entityType = es_entity_type s, sd_label = es_label s, sd_onlyA = length (es_only_a s),
      sd_onlyB = length (es_only_b s), sd_shared = length (es_shared s),
      sd_changed = length (es_only_a s) + length (es_only_b s)\<rparr>) (cr_sections result)"

definition signalSectionDeltas :: "CaseComparisonResult \<Rightarrow> SectionDelta list" where
  "signalSectionDeltas result = filter (\<lambda>d. isCompareSignalType (sd_entityType d)) (sectionDeltas result)"

definition differs :: "EntityCompareSection \<Rightarrow> bool" where
  "differs s \<longleftrightarrow> length (es_only_a s) > 0 \<or> length (es_only_b s) > 0"

definition PREFERRED_ORDER :: "string list" where
  "PREFERRED_ORDER = [''usb'', ''usb_port'', ''adb'', ''bluetooth'', ''ssid'', ''account'', ''vpn'', ''bundle'', ''process'']"

definition section_of :: "CaseComparisonResult \<Rightarrow> string \<Rightarrow> EntityCompareSection option" where
  "section_of result ty = find (\<lambda>s. es_entity_type s = ty) (cr_sections result)"

definition preferredDiffSection :: "CaseComparisonResult \<Rightarrow> string option" where
  "preferredDiffSection result =
     (case find (\<lambda>ty. case section_of result ty of Some s \<Rightarrow> differs s | None \<Rightarrow> False) PREFERRED_ORDER of
        Some ty \<Rightarrow> Some ty
      | None \<Rightarrow> map_option es_entity_type (find differs (cr_sections result)))"

record PackageStatus =
  ps_onlyA :: nat
  ps_onlyB :: nat
  ps_shared :: nat
  ps_identical :: bool

definition packageInventoryStatus :: "CaseComparisonResult \<Rightarrow> PackageStatus" where
  "packageInventoryStatus result =
     (let s = section_of result ''bundle'';
          onlyA = (case s of Some x \<Rightarrow> length (es_only_a x) | None \<Rightarrow> 0);
          onlyB = (case s of Some x \<Rightarrow> length (es_only_b x) | None \<Rightarrow> 0);
          shared = (case s of Some x \<Rightarrow> length (es_shared x) | None \<Rightarrow> 0)
      in \<lparr>ps_onlyA = onlyA, ps_onlyB = onlyB, ps_shared = shared, ps_identical = (onlyA = 0 \<and> onlyB = 0 \<and> shared > 0)\<rparr>)"

definition compareBugreportCases :: "parser \<Rightarrow> Session \<Rightarrow> string \<Rightarrow> string \<Rightarrow> Call" where
  "compareBugreportCases parse st caseAId caseBId = compareCases parse st Cmp_android caseAId caseBId"

section \<open>Verdicts\<close>

lemma identity_status_sym: "identity_status a b = identity_status b a"
  by (auto simp: identity_status_def split: option.splits)

lemma identity_status_refl: "identity_status a a = Match \<or> identity_status a a = Partial"
  by (auto simp: identity_status_def split: option.splits)

lemma identity_row_simps [simp]:
  "ir_key (identity_row k l a b) = k" "ir_status (identity_row k l a b) = identity_status a b"
  by (simp_all add: identity_row_def)

text \<open>The statuses the verdict looks at, for each platform.\<close>

lemma status_of_compare:
  "status_of I_device_model (compareDeviceIdentity a b p) = Some (identity_status (norm (cm_device_model a)) (norm (cm_device_model b)))"
  "status_of I_blob_file_hash (compareDeviceIdentity a b p) = Some (identity_status (norm (cm_blob_file_hash a)) (norm (cm_blob_file_hash b)))"
  "status_of I_serial_number (compareDeviceIdentity a b p)
     = (if p = Cmp_android then Some (identity_status (serial_of a) (serial_of b)) else None)"
  "status_of I_imei (compareDeviceIdentity a b p)
     = (if p = Cmp_android then Some (identity_status (norm (cm_imei a)) (norm (cm_imei b))) else None)"
  "status_of I_android_id (compareDeviceIdentity a b p)
     = (if p = Cmp_android then Some (identity_status (norm (cm_android_id a)) (norm (cm_android_id b))) else None)"
  "status_of I_build_fingerprint (compareDeviceIdentity a b p)
     = (if p = Cmp_android then Some (identity_status (norm (cm_build_fingerprint a)) (norm (cm_build_fingerprint b))) else None)"
  "status_of I_device_id (compareDeviceIdentity a b p)
     = (if p = Cmp_android then None else Some (identity_status (norm (cm_device_id a)) (norm (cm_device_id b))))"
  "status_of I_unique_device_id (compareDeviceIdentity a b p)
     = (if p = Cmp_android then None else Some (identity_status (norm (cm_unique_device_id a)) (norm (cm_unique_device_id b))))"
  by (simp_all add: status_of_def compareDeviceIdentity_def Let_def)

lemma verdict_by_status:
  "(\<And>k. k \<in> insert I_device_model (insert I_blob_file_hash (set STRONG_IDS)) \<Longrightarrow> status_of k r = status_of k s)
   \<Longrightarrow> identityVerdict r = identityVerdict s"
proof -
  assume k: "\<And>k. k \<in> insert I_device_model (insert I_blob_file_hash (set STRONG_IDS)) \<Longrightarrow> status_of k r = status_of k s"
  then have "map (\<lambda>key. status_of key r) STRONG_IDS = map (\<lambda>key. status_of key s) STRONG_IDS"
    "status_of I_device_model r = status_of I_device_model s" "status_of I_blob_file_hash r = status_of I_blob_file_hash s"
    by (auto intro!: map_cong)
  then show ?thesis unfolding identityVerdict_def by (simp only:)
qed

lemma verdict_sym: "identityVerdict (compareDeviceIdentity a b p) = identityVerdict (compareDeviceIdentity b a p)"
  by (rule verdict_by_status) (auto simp: STRONG_IDS_def status_of_compare identity_status_sym [of "_ a"] identity_status_sym [of "norm (_ a)"])

text \<open>
  The verdict on two cases does not depend on their order, and a case is never a different device or
  a different upload than itself; it is one device as soon as one identifier is known.
\<close>

theorem verdict_symmetric:
  "identityVerdict (compareDeviceIdentity a b p) = identityVerdict (compareDeviceIdentity b a p)
   \<and> iv_sameDevice (identityVerdict (compareDeviceIdentity a a p)) =
      (if list_all (\<lambda>s. s = Some Partial \<or> s = None)
            (map (\<lambda>k. status_of k (compareDeviceIdentity a a p)) (I_device_model # STRONG_IDS)) then None else Some True)
   \<and> iv_differentUpload (identityVerdict (compareDeviceIdentity a a p)) = (if norm (cm_blob_file_hash a) = None then None else Some False)"
proof (intro conjI)
  show "identityVerdict (compareDeviceIdentity a b p) = identityVerdict (compareDeviceIdentity b a p)" by (rule verdict_sym)
  have "identity_status x x = (if x = None then Partial else Match)" for x
    by (cases x) (simp_all add: identity_status_def)
  then show "iv_sameDevice (identityVerdict (compareDeviceIdentity a a p)) =
      (if list_all (\<lambda>s. s = Some Partial \<or> s = None)
            (map (\<lambda>k. status_of k (compareDeviceIdentity a a p)) (I_device_model # STRONG_IDS)) then None else Some True)"
    "iv_differentUpload (identityVerdict (compareDeviceIdentity a a p)) = (if norm (cm_blob_file_hash a) = None then None else Some False)"
    by (auto simp: identityVerdict_def Let_def STRONG_IDS_def status_of_compare)
qed

text \<open>The build fingerprint counts as an identifier of the device: after a system update the same device,
  with the same serial number and IMEI, is called a different one.\<close>

lemma update_makes_devices_differ:
  assumes "norm (cm_serial_number a) = Some s" and "norm (cm_serial_number b) = Some s"
    and "norm (cm_imei a) = Some i" and "norm (cm_imei b) = Some i"
    and "norm (cm_build_fingerprint a) = Some f" and "norm (cm_build_fingerprint b) = Some g" and "f \<noteq> g"
  shows "iv_sameDevice (identityVerdict (compareDeviceIdentity a b Cmp_android)) = Some False"
  using assms by (simp add: identityVerdict_def Let_def STRONG_IDS_def status_of_compare identity_status_def)

text \<open>
  A shared link of a comparison leads back to the same selection, platform and cases, with the
  white space around the ids removed; opening and sharing it again changes nothing.
\<close>

theorem compare_link_roundtrip:
  "\<exists>qs. comparePagePath sel = ''/case-comparison?'' @ qs
     \<and> parseCompareSearchParams (parse_params qs)
       = sel\<lparr>cs_caseAId := trim (cs_caseAId sel), cs_caseBId := trim (cs_caseBId sel)\<rparr>"
proof -
  let ?ps = "buildCompareSearchParams sel"
  have ne: "?ps \<noteq> []" by (auto simp: buildCompareSearchParams_def Let_def)
  then have q: "encode_params ?ps \<noteq> []" by (cases ?ps; cases "tl ?ps") (auto simp: encode_params_def)
  have "parseCompareSearchParams ?ps = sel\<lparr>cs_caseAId := trim (cs_caseAId sel), cs_caseBId := trim (cs_caseBId sel)\<rparr>"
  proof -
    have ios: "(to_lower (trim (platform_text p)) = ''ios'') = (p = Cmp_ios)" for p
    proof -
      have "to_lower (trim (platform_text Cmp_ios)) = ''ios''" "to_lower (trim (platform_text Cmp_android)) \<noteq> ''ios''"
        by code_simp+
      then show ?thesis by (cases p) auto
    qed
    obtain p a b where "sel = \<lparr>cs_platform = p, cs_caseAId = a, cs_caseBId = b\<rparr>" by (cases sel)
    then show ?thesis
      by (cases p) (simp_all add: parseCompareSearchParams_def buildCompareSearchParams_def Let_def get_or_def trim_idem ios)
  qed
  with parse_encode_params [OF ne] q show ?thesis by (auto simp: comparePagePath_def Let_def)
qed

section \<open>Sections\<close>

lemma find_first: "find P xs = Some x \<Longrightarrow> P x \<and> x \<in> set xs"
  by (auto simp: find_Some_iff)

text \<open>
  The section opened first is one that differs: it is named exactly when some section differs,
  and the deltas list every section, in order, with a change exactly where the section differs.
\<close>

theorem preferred_section_differs:
  "(case preferredDiffSection result of
      None \<Rightarrow> list_all (\<lambda>s. \<not> differs s) (cr_sections result)
    | Some ty \<Rightarrow> \<exists>s. s \<in> set (cr_sections result) \<and> es_entity_type s = ty \<and> differs s)
   \<and> list_all2 (\<lambda>s d. sd_entityType d = es_entity_type s \<and> (sd_changed d = 0) = (\<not> differs s)) (cr_sections result) (sectionDeltas result)"
proof
  show "case preferredDiffSection result of
      None \<Rightarrow> list_all (\<lambda>s. \<not> differs s) (cr_sections result)
    | Some ty \<Rightarrow> \<exists>s. s \<in> set (cr_sections result) \<and> es_entity_type s = ty \<and> differs s"
  proof (cases "find (\<lambda>ty. case section_of result ty of Some s \<Rightarrow> differs s | None \<Rightarrow> False) PREFERRED_ORDER")
    case (Some ty)
    then obtain s where "section_of result ty = Some s" "differs s"
      by (auto dest!: find_first split: option.splits)
    with Some show ?thesis by (auto simp: preferredDiffSection_def section_of_def dest!: find_first)
  next
    case None
    then show ?thesis
      by (auto simp: preferredDiffSection_def find_None_iff list_all_iff dest!: find_first split: option.splits)
  qed
  show "list_all2 (\<lambda>s d. sd_entityType d = es_entity_type s \<and> (sd_changed d = 0) = (\<not> differs s)) (cr_sections result) (sectionDeltas result)"
    by (auto simp: sectionDeltas_def list_all2_conv_all_nth differs_def)
qed

end
