(* ===== verification/StreamText.thy ===== *)
theory StreamText
  imports Prelude "HOL-Library.Word"
begin

text \<open>
  Reading text from a stream of byte chunks: the streaming UTF-8 decoder of the platform
  (\<open>new TextDecoder()\<close> with \<open>decode(value, {stream: true})\<close>, as the WHATWG encoding standard
  defines it) and the cutting of text into lines. Both are readers that keep a rest between two
  chunks; the locale \<open>incremental\<close> is their contract, and \<open>incremental_pipe\<close> composes two of them.
\<close>

section \<open>Readers that keep a rest\<close>

type_synonym ('s, 'a, 'b) feed = "'s \<Rightarrow> 'a list \<Rightarrow> 's \<times> 'b list"

fun feed_all :: "('s, 'a, 'b) feed \<Rightarrow> 's \<Rightarrow> 'a list list \<Rightarrow> 's \<times> 'b list" where
  "feed_all feed s [] = (s, [])"
| "feed_all feed s (xs # xss) =
     (let (s1, out1) = feed s xs; (s2, out2) = feed_all feed s1 xss in (s2, out1 @ out2))"

definition feed_pipe :: "('s, 'a, 'b) feed \<Rightarrow> ('t, 'b, 'c) feed \<Rightarrow> ('s \<times> 't, 'a, 'c) feed" where
  "feed_pipe feed1 feed2 s xs =
     (let (s1, mid) = feed1 (fst s) xs; (s2, out) = feed2 (snd s) mid in ((s1, s2), out))"

locale incremental =
  fixes feed :: "('s, 'a, 'b) feed"
    and ok :: "'s \<Rightarrow> bool"
  assumes feed_ok: "ok s \<Longrightarrow> ok (fst (feed s xs))"
    and feed_Nil: "ok s \<Longrightarrow> feed s [] = (s, [])"
    and feed_append: "ok s \<Longrightarrow> feed s (xs @ ys) =
      (fst (feed (fst (feed s xs)) ys), snd (feed s xs) @ snd (feed (fst (feed s xs)) ys))"
begin

lemma any_chunks: "ok s \<Longrightarrow> feed_all feed s xss = feed s (concat xss)"
proof (induction xss arbitrary: s)
  case Nil
  then show ?case by (simp add: feed_Nil)
next
  case (Cons xs xss)
  then show ?case by (simp add: feed_append feed_ok case_prod_unfold Let_def)
qed

end

locale incremental_pipe =
  one: incremental feed1 ok1 + two: incremental feed2 ok2
  for feed1 :: "('s, 'a, 'b) feed" and ok1 :: "'s \<Rightarrow> bool"
    and feed2 :: "('t, 'b, 'c) feed" and ok2 :: "'t \<Rightarrow> bool"

sublocale incremental_pipe \<subseteq> pipe: incremental "feed_pipe feed1 feed2" "\<lambda>s. ok1 (fst s) \<and> ok2 (snd s)"
  by unfold_locales
    (auto simp: feed_pipe_def case_prod_unfold Let_def one.feed_ok two.feed_ok one.feed_Nil two.feed_Nil
      one.feed_append two.feed_append)

section \<open>UTF-8\<close>

text \<open>
  The decoder holds the bytes of an unfinished character, how many are missing, and the range of
  the next one; \<open>d_started\<close> is set once a character was produced, before that a byte order mark is
  dropped. Decoded characters are spelled by their UTF-8 bytes, as in the rest of the development.
\<close>

record Decoder =
  d_held :: "8 word list"
  d_needed :: nat
  d_lower :: "8 word"
  d_upper :: "8 word"
  d_started :: bool

definition new_decoder :: Decoder where
  "new_decoder = \<lparr>d_held = [], d_needed = 0, d_lower = 0x80, d_upper = 0xBF, d_started = False\<rparr>"

definition REPLACEMENT :: string where
  "REPLACEMENT = [CHR 0xEF, CHR 0xBF, CHR 0xBD]"

definition BYTE_ORDER_MARK :: string where
  "BYTE_ORDER_MARK = [CHR 0xEF, CHR 0xBB, CHR 0xBF]"

definition byte_char :: "8 word \<Rightarrow> char" where
  "byte_char b = char_of (unat b)"

text \<open>A character leaves the decoder.\<close>

definition put_char :: "string \<Rightarrow> Decoder \<Rightarrow> Decoder \<times> string" where
  "put_char c d = (d\<lparr>d_started := True\<rparr>, if \<not> d_started d \<and> c = BYTE_ORDER_MARK then [] else c)"

definition await :: "8 word \<Rightarrow> nat \<Rightarrow> 8 word \<Rightarrow> 8 word \<Rightarrow> Decoder \<Rightarrow> Decoder" where
  "await b n lo hi d = d\<lparr>d_held := [b], d_needed := n, d_lower := lo, d_upper := hi\<rparr>"

definition clear_held :: "Decoder \<Rightarrow> Decoder" where
  "clear_held d = d\<lparr>d_held := [], d_needed := 0, d_lower := 0x80, d_upper := 0xBF\<rparr>"

definition lead_byte :: "Decoder \<Rightarrow> 8 word \<Rightarrow> Decoder \<times> string" where
  "lead_byte d b =
     (if b \<le> 0x7F then put_char [byte_char b] d
      else if 0xC2 \<le> b \<and> b \<le> 0xDF then (await b 1 0x80 0xBF d, [])
      else if 0xE0 \<le> b \<and> b \<le> 0xEF
      then (await b 2 (if b = 0xE0 then 0xA0 else 0x80) (if b = 0xED then 0x9F else 0xBF) d, [])
      else if 0xF0 \<le> b \<and> b \<le> 0xF4
      then (await b 3 (if b = 0xF0 then 0x90 else 0x80) (if b = 0xF4 then 0x8F else 0xBF) d, [])
      else put_char REPLACEMENT d)"

definition decode_byte :: "Decoder \<Rightarrow> 8 word \<Rightarrow> Decoder \<times> string" where
  "decode_byte d b =
     (if d_needed d = 0 then lead_byte d b
      else if \<not> (d_lower d \<le> b \<and> b \<le> d_upper d)
      then (let (d1, bad) = put_char REPLACEMENT (clear_held d); (d2, out) = lead_byte d1 b in (d2, bad @ out))
      else if d_needed d = 1 then put_char (map byte_char (d_held d @ [b])) (clear_held d)
      else (d\<lparr>d_held := d_held d @ [b], d_needed := d_needed d - 1, d_lower := 0x80, d_upper := 0xBF\<rparr>, []))"

fun decode_stream :: "Decoder \<Rightarrow> 8 word list \<Rightarrow> Decoder \<times> string" where
  "decode_stream d [] = (d, [])"
| "decode_stream d (b # bs) =
     (let (d1, out1) = decode_byte d b; (d2, out2) = decode_stream d1 bs in (d2, out1 @ out2))"

lemma decode_stream_append: "decode_stream d (xs @ ys) =
    (fst (decode_stream (fst (decode_stream d xs)) ys),
     snd (decode_stream d xs) @ snd (decode_stream (fst (decode_stream d xs)) ys))"
  by (induction xs arbitrary: d) (simp_all add: case_prod_unfold Let_def)

text \<open>Characters of one to four bytes that the standard allows.\<close>

definition continuation :: "8 word \<Rightarrow> bool" where
  "continuation b \<longleftrightarrow> 0x80 \<le> b \<and> b \<le> 0xBF"

fun well_formed_char :: "8 word list \<Rightarrow> bool" where
  "well_formed_char [a] \<longleftrightarrow> a \<le> 0x7F"
| "well_formed_char [a, b] \<longleftrightarrow> 0xC2 \<le> a \<and> a \<le> 0xDF \<and> continuation b"
| "well_formed_char [a, b, c] \<longleftrightarrow> 0xE0 \<le> a \<and> a \<le> 0xEF \<and> continuation b \<and> continuation c
     \<and> (a = 0xE0 \<longrightarrow> 0xA0 \<le> b) \<and> (a = 0xED \<longrightarrow> b \<le> 0x9F)"
| "well_formed_char [a, b, c, d] \<longleftrightarrow> 0xF0 \<le> a \<and> a \<le> 0xF4 \<and> continuation b \<and> continuation c \<and> continuation d
     \<and> (a = 0xF0 \<longrightarrow> 0x90 \<le> b) \<and> (a = 0xF4 \<longrightarrow> b \<le> 0x8F)"
| "well_formed_char cs \<longleftrightarrow> False"

definition idle :: "Decoder \<Rightarrow> bool" where
  "idle d \<longleftrightarrow> d_held d = [] \<and> d_needed d = 0 \<and> d_lower d = 0x80 \<and> d_upper d = 0xBF"

lemma idle_new: "idle new_decoder"
  by (simp add: idle_def new_decoder_def)

lemmas decoder_defs = decode_byte_def lead_byte_def put_char_def await_def clear_held_def continuation_def

lemma decode_char:
  assumes "well_formed_char cs" and i: "idle d" and s: "d_started d \<or> map byte_char cs \<noteq> BYTE_ORDER_MARK"
  shows "decode_stream d cs = (d\<lparr>d_started := True\<rparr>, map byte_char cs)"
proof -
  obtain st where d: "d = \<lparr>d_held = [], d_needed = 0, d_lower = 0x80, d_upper = 0xBF, d_started = st\<rparr>"
    using i unfolding idle_def by (cases d) auto
  show ?thesis
    using assms(1) s unfolding d
    by (cases cs rule: well_formed_char.cases)
      (auto simp: decoder_defs Let_def word_le_nat_alt split: if_splits)
qed

text \<open>A text in UTF-8 reads as itself, whatever the chunks; a byte order mark at its start is dropped.\<close>

lemma idle_started: "idle d \<Longrightarrow> idle (d\<lparr>d_started := b\<rparr>)"
  by (simp add: idle_def)

lemma decode_chars:
  assumes "list_all well_formed_char cs" "idle d" "d_started d"
  shows "decode_stream d (concat cs) = (d, map byte_char (concat cs))"
  using assms
proof (induction cs)
  case (Cons c cs)
  then have "decode_stream d c = (d\<lparr>d_started := True\<rparr>, map byte_char c)"
    by (intro decode_char) auto
  moreover have "d\<lparr>d_started := True\<rparr> = d" using Cons.prems by (cases d) auto
  ultimately show ?case using Cons by (simp add: decode_stream_append)
qed simp

lemma decode_text:
  assumes "list_all well_formed_char cs" "cs = [] \<or> map byte_char (hd cs) \<noteq> BYTE_ORDER_MARK"
  shows "snd (decode_stream new_decoder (concat cs)) = map byte_char (concat cs)"
proof (cases cs)
  case (Cons c cs')
  let ?d = "new_decoder\<lparr>d_started := True\<rparr>"
  have c: "decode_stream new_decoder c = (?d, map byte_char c)"
    using assms Cons idle_new by (intro decode_char) auto
  have "decode_stream ?d (concat cs') = (?d, map byte_char (concat cs'))"
    using assms Cons by (intro decode_chars) (auto simp: idle_started idle_new)
  with c Cons show ?thesis by (simp add: decode_stream_append)
qed simp

interpretation utf8: incremental decode_stream "\<lambda>d. True"
  by unfold_locales (auto simp: decode_stream_append)

section \<open>Lines\<close>

text \<open>The text behind the last line end stays in the buffer.\<close>

definition take_lines :: "string \<Rightarrow> string \<Rightarrow> string \<times> string list" where
  "take_lines buffer text =
     (let ls = split_char (CHR 0x0A) (buffer @ text) in (last ls, butlast ls))"

lemma split_char_pieces: "w \<in> set (split_char c s) \<Longrightarrow> c \<notin> set w"
  by (induction s arbitrary: w) (auto split: list.splits if_splits)

lemma split_char_more:
  "split_char c (s @ t) = butlast (split_char c s) @ split_char c (last (split_char c s) @ t)"
proof (induction s)
  case (Cons x s)
  obtain w ws where sp: "split_char c s = w # ws" by (cases "split_char c s") auto
  show ?case
  proof (cases "ws = []")
    case True
    then show ?thesis using Cons sp by (auto split: list.splits)
  next
    case False
    then show ?thesis using Cons sp by (auto split: list.splits)
  qed
qed simp

interpretation line_reader: incremental take_lines "\<lambda>buffer. CHR 0x0A \<notin> set buffer"
proof
  fix s xs :: string
  show "CHR 0x0A \<notin> set (fst (take_lines s xs))"
    using split_char_pieces [OF last_in_set [OF split_char_not_Nil]] by (simp add: take_lines_def Let_def)
next
  fix s :: string
  assume "CHR 0x0A \<notin> set s"
  then show "take_lines s [] = (s, [])" by (simp add: take_lines_def split_char_no_sep)
next
  fix s xs ys :: string
  show "take_lines s (xs @ ys) = (fst (take_lines (fst (take_lines s xs)) ys),
      snd (take_lines s xs) @ snd (take_lines (fst (take_lines s xs)) ys))"
    using split_char_more [of "CHR 0x0A" "s @ xs" ys]
    by (simp add: take_lines_def Let_def butlast_append)
qed

interpretation utf8_lines: incremental_pipe decode_stream "\<lambda>d. True" take_lines "\<lambda>buffer. CHR 0x0A \<notin> set buffer"
  by unfold_locales

end
