(* ===== verification/SyncStream.thy ===== *)
theory SyncStream
  imports ApiClient StreamText
begin

text \<open>
  Synchronising an enrichment provider, \<open>src/mobipwn-web/src/lib/marketplaceSync.ts\<close>: the server
  answers with a stream of JSON lines, events while it works and a summary when it is done. The
  reader of the response body is the list of what \<open>reader.read()\<close> gives, one element for every turn
  of the loop; the end of the list is \<open>done\<close>. \<open>JSON.parse\<close> is the argument \<open>parse\<close>, and the numbers
  of the stream are integers. Kinds and field names are not those of inherited members of objects.
\<close>

section \<open>Lines\<close>

record SyncStats =
  queued :: "int option"
  api_requests :: "int option"
  api_ok :: "int option"
  api_miss :: "int option"
  api_errors :: "int option"
  skipped_already_enriched :: "int option"
  skipped_invalid :: "int option"
  skipped_duplicate :: "int option"
  rows_written :: "int option"
  sync_mode :: "string option"

record SyncProgressEvent =
  ev_kind :: string
  ev_message :: string
  ev_slug :: "string option"
  ev_field :: "string option"
  ev_indicator :: "string option"
  ev_stats :: "SyncStats option"

datatype Parsed = DoneLine Json | ProgressEvent SyncProgressEvent

fun isDoneLine :: "Parsed \<Rightarrow> bool" where
  "isDoneLine (DoneLine summary) \<longleftrightarrow> True"
| "isDoneLine (ProgressEvent ev) \<longleftrightarrow> ev_kind ev = ''done''"

text \<open>\<open>parsed.summary\<close>; a progress event has none.\<close>

fun parsed_summary :: "Parsed \<Rightarrow> Json option" where
  "parsed_summary (DoneLine summary) = Some summary"
| "parsed_summary (ProgressEvent ev) = None"

fun as_number :: "Json option \<Rightarrow> int option" where
  "as_number (Some (JNum n)) = Some n"
| "as_number v = None"

fun as_text :: "Json option \<Rightarrow> string option" where
  "as_text (Some (JStr s)) = Some s"
| "as_text v = None"

text \<open>\<open>v && typeof v === "object"\<close>\<close>

fun is_object :: "Json option \<Rightarrow> bool" where
  "is_object (Some (JObj kvs)) \<longleftrightarrow> True"
| "is_object (Some (JArr xs)) \<longleftrightarrow> True"
| "is_object v \<longleftrightarrow> False"

definition no_stats :: SyncStats where
  "no_stats = \<lparr>queued = None, api_requests = None, api_ok = None, api_miss = None, api_errors = None,
     skipped_already_enriched = None, skipped_invalid = None, skipped_duplicate = None,
     rows_written = None, sync_mode = None\<rparr>"

definition parseStats :: "Json option \<Rightarrow> SyncStats option" where
  "parseStats raw =
     (if \<not> is_object raw then None
      else let num = (\<lambda>k. as_number (field (the raw) k));
               stats = \<lparr>queued = num ''queued'', api_requests = num ''api_requests'', api_ok = num ''api_ok'',
                 api_miss = num ''api_miss'', api_errors = num ''api_errors'',
                 skipped_already_enriched = num ''skipped_already_enriched'',
                 skipped_invalid = num ''skipped_invalid'', skipped_duplicate = num ''skipped_duplicate'',
                 rows_written = num ''rows_written'', sync_mode = as_text (field (the raw) ''mode'')\<rparr>
           in if stats \<noteq> no_stats then Some stats else None)"

text \<open>
  What the call may reject with: the request was cancelled, failed on the way or was refused, there
  is no body or no summary, a line is not JSON or is \<open>null\<close> (which has no members to read).
\<close>

datatype SyncThrow =
    SyncCancelledError
  | FetchFailed string
  | Refused string
  | NoBody
  | ReadFailed string
  | SyntaxError string
  | NullLine
  | NoSummary

definition parseLine :: "parser \<Rightarrow> string \<Rightarrow> SyncThrow + Parsed option" where
  "parseLine parse line =
     (let trimmed = trim line in
      if trimmed = [] then Inr None
      else case parse trimmed of
        None \<Rightarrow> Inl (SyntaxError trimmed)
      | Some JNull \<Rightarrow> Inl NullLine
      | Some obj \<Rightarrow>
          (if field obj ''kind'' = Some (JStr ''done'') \<and> is_object (field obj ''summary'')
           then Inr (Some (DoneLine (the (field obj ''summary''))))
           else case (as_text (field obj ''kind''), as_text (field obj ''message'')) of
             (Some kind, Some message) \<Rightarrow>
               Inr (Some (ProgressEvent \<lparr>ev_kind = kind, ev_message = message,
                 ev_slug = as_text (field obj ''slug''), ev_field = as_text (field obj ''field''),
                 ev_indicator = as_text (field obj ''indicator''), ev_stats = parseStats (field obj ''stats'')\<rparr>))
           | _ \<Rightarrow> Inr None))"

section \<open>The stream\<close>

text \<open>What was found so far: the summary, and the events handed to \<open>onEvent\<close>, in order.\<close>

type_synonym Collected = "Json option \<times> SyncProgressEvent list"

fun take_parsed :: "Parsed option \<Rightarrow> Collected \<Rightarrow> Collected" where
  "take_parsed None (summary, events) = (summary, events)"
| "take_parsed (Some parsed) (summary, events) =
     (if isDoneLine parsed then (parsed_summary parsed, events)
      else case parsed of ProgressEvent ev \<Rightarrow> (summary, events @ [ev]) | DoneLine s \<Rightarrow> (summary, events))"

fun read_lines :: "parser \<Rightarrow> string list \<Rightarrow> Collected \<Rightarrow> SyncThrow option \<times> Collected" where
  "read_lines parse [] acc = (None, acc)"
| "read_lines parse (line # lines) acc =
     (case parseLine parse line of
        Inl e \<Rightarrow> (Some e, acc)
      | Inr parsed \<Rightarrow> read_lines parse lines (take_parsed parsed acc))"

text \<open>One turn of the loop: the signal is found aborted, or \<open>read\<close> rejects because of it, or for
  another reason, or it gives a chunk.\<close>

datatype Turn = Chunk "8 word list" | SignalAborted | ReadAborted | ReadError string

fun read_loop :: "parser \<Rightarrow> Turn list \<Rightarrow> Decoder \<Rightarrow> string \<Rightarrow> Collected \<Rightarrow> (SyncThrow option \<times> Collected)" where
  "read_loop parse [] decoder buffer acc =
     (if trim buffer \<noteq> [] then read_lines parse [buffer] acc else (None, acc))"
| "read_loop parse (Chunk v # turns) decoder buffer acc =
     (let (decoder, text) = decode_stream decoder v;
          (buffer, lines) = take_lines buffer text
      in case read_lines parse lines acc of
           (Some e, acc) \<Rightarrow> (Some e, acc)
         | (None, acc) \<Rightarrow> read_loop parse turns decoder buffer acc)"
| "read_loop parse (SignalAborted # turns) decoder buffer acc = (Some SyncCancelledError, acc)"
| "read_loop parse (ReadAborted # turns) decoder buffer acc = (Some SyncCancelledError, acc)"
| "read_loop parse (ReadError m # turns) decoder buffer acc = (Some (ReadFailed m), acc)"

text \<open>The verdict behind the loop; \<open>aborted\<close> is the signal at that time.\<close>

fun finish_sync :: "bool \<Rightarrow> SyncThrow option \<times> Collected \<Rightarrow> (SyncThrow + Json) \<times> SyncProgressEvent list" where
  "finish_sync aborted (Some e, summary, events) = (Inl e, events)"
| "finish_sync aborted (None, summary, events) =
     (if aborted then Inl SyncCancelledError
      else case summary of None \<Rightarrow> Inl NoSummary | Some s \<Rightarrow> Inr s, events)"

text \<open>What \<open>fetch\<close> gives: it rejects, also when the signal is aborted before the head of the reply is
  there, or it resolves to a response with the turns of its body, if it has one.\<close>

datatype SyncFetch = FetchRejected string | Replied Response "Turn list option"

definition sync_request :: "string \<Rightarrow> bool \<Rightarrow> Request" where
  "sync_request url fullResync =
     (if fullResync then json_request ''POST'' url [CONTENT_JSON] (JObj [(''full_resync'', JBool True)])
      else bare_request ''POST'' url [])"

definition refused_text :: "Response \<Rightarrow> string" where
  "refused_text res = or_text (rs_body res) (http_status res)"

definition streamEnrichmentSync ::
  "parser \<Rightarrow> SyncFetch \<Rightarrow> bool \<Rightarrow> (SyncThrow + Json) \<times> SyncProgressEvent list" where
  "streamEnrichmentSync parse reply aborted =
     (case reply of
        FetchRejected m \<Rightarrow> (Inl (FetchFailed m), [])
      | Replied res body \<Rightarrow>
          (if \<not> res_ok res then (Inl (Refused (refused_text res)), [])
           else case body of
             None \<Rightarrow> (Inl NoBody, [])
           | Some turns \<Rightarrow> finish_sync aborted (read_loop parse turns new_decoder [] (None, []))))"

definition streamMarketplaceSync :: "bool \<Rightarrow> Request" where
  "streamMarketplaceSync fullResync = sync_request ''/api/v1/marketplace/sync/stream'' fullResync"

definition streamProviderSync :: "string \<Rightarrow> bool \<Rightarrow> Request" where
  "streamProviderSync providerId fullResync =
     sync_request (''/api/v1/marketplace/providers/'' @ providerId @ ''/sync/stream'') fullResync"

text \<open>The message of the error a caller sees.\<close>

fun sync_error_message :: "SyncThrow \<Rightarrow> string option" where
  "sync_error_message SyncCancelledError = Some ''sync cancelled''"
| "sync_error_message (FetchFailed m) = Some m"
| "sync_error_message (Refused m) = Some m"
| "sync_error_message NoBody = Some ''No response body from sync stream''"
| "sync_error_message (ReadFailed m) = Some m"
| "sync_error_message NoSummary = Some ''Sync stream ended without a completion summary''"
| "sync_error_message (SyntaxError line) = None"
| "sync_error_message NullLine = None"

section \<open>Removing enrichments\<close>

text \<open>\<open>invalid\<close> is the message of the JSON parser for the body.\<close>

definition clean_reply :: "parser \<Rightarrow> (string \<Rightarrow> string) \<Rightarrow> Response \<Rightarrow> reply" where
  "clean_reply parse invalid res =
     (if \<not> res_ok res then Inl (refused_text res)
      else case parse (rs_body res) of None \<Rightarrow> Inl (invalid (rs_body res)) | Some v \<Rightarrow> Inr (Some v))"

definition cleanMarketplaceEnrichments :: "parser \<Rightarrow> (string \<Rightarrow> string) \<Rightarrow> string option \<Rightarrow> Call" where
  "cleanMarketplaceEnrichments parse invalid slug =
     \<lparr>c_request = (case truthy slug of
          Some s \<Rightarrow> json_request ''POST'' ''/api/v1/marketplace/clean'' [CONTENT_JSON] (JObj [(''slug'', JStr s)])
        | None \<Rightarrow> bare_request ''POST'' ''/api/v1/marketplace/clean'' []),
      c_reply = clean_reply parse invalid\<rparr>"

definition cleanProviderEnrichments :: "parser \<Rightarrow> (string \<Rightarrow> string) \<Rightarrow> string \<Rightarrow> Call" where
  "cleanProviderEnrichments parse invalid providerId =
     \<lparr>c_request = bare_request ''POST'' (''/api/v1/marketplace/providers/'' @ providerId @ ''/clean'') [],
      c_reply = clean_reply parse invalid\<rparr>"

section \<open>How events are shown\<close>

definition VERBOSE_KINDS :: "string list" where
  "VERBOSE_KINDS = [''skip'', ''query_miss'', ''wait'', ''collect'', ''collect_done'']"

definition isVerboseSyncEvent :: "string \<Rightarrow> bool" where
  "isVerboseSyncEvent kind \<longleftrightarrow> kind \<in> set VERBOSE_KINDS"

definition SYNC_LABELS :: "(string \<times> string) list" where
  "SYNC_LABELS =
    [(''mode'', ''mode''), (''start'', ''start''), (''plan'', ''plan''), (''collect'', ''scan''),
     (''collect_done'', ''scan''), (''query'', ''API''), (''query_ok'', ''OK''), (''query_miss'', ''miss''),
     (''query_err'', ''err''), (''write'', ''write''), (''skip'', ''skip''), (''wait'', ''wait''),
     (''stats'', ''stats''), (''provider_start'', ''start''), (''provider_done'', ''done''),
     (''provider_error'', ''err''), (''skipped'', ''skip''), (''dict_reload'', ''dict''),
     (''complete'', ''done''), (''cancelled'', ''stop''), (''error'', ''err'')]"

definition syncEventKindLabel :: "string \<Rightarrow> string" where
  "syncEventKindLabel kind = get_or kind (map_of SYNC_LABELS kind)"

definition syncEventClass :: "string \<Rightarrow> string" where
  "syncEventClass kind =
     (if kind \<in> set [''query_ok'', ''write'', ''provider_done'', ''complete'', ''stats'']
      then ''marketplace-sync-log__line--ok''
      else if kind \<in> set [''query_err'', ''provider_error'', ''error''] then ''marketplace-sync-log__line--err''
      else if kind = ''cancelled'' then ''marketplace-sync-log__line--warn''
      else if kind = ''wait'' then ''marketplace-sync-log__line--wait''
      else if kind \<in> set [''query'', ''collect'', ''provider_start''] then ''marketplace-sync-log__line--active''
      else if kind \<in> set [''query_miss'', ''skip'', ''skipped''] then ''marketplace-sync-log__line--muted''
      else [])"

section \<open>Counting\<close>

record Tally =
  n_requests :: int
  n_ok :: int
  n_miss :: int
  n_errors :: int
  n_already :: int
  n_invalid :: int
  n_duplicate :: int
  n_written :: int

definition no_tally :: Tally where
  "no_tally = \<lparr>n_requests = 0, n_ok = 0, n_miss = 0, n_errors = 0, n_already = 0, n_invalid = 0,
     n_duplicate = 0, n_written = 0\<rparr>"

definition raise_tally :: "SyncStats \<Rightarrow> Tally \<Rightarrow> Tally" where
  "raise_tally stats t =
     \<lparr>n_requests = max (n_requests t) (get_or 0 (api_requests stats)),
      n_ok = max (n_ok t) (get_or 0 (api_ok stats)),
      n_miss = max (n_miss t) (get_or 0 (api_miss stats)),
      n_errors = max (n_errors t) (get_or 0 (api_errors stats)),
      n_already = max (n_already t) (get_or 0 (skipped_already_enriched stats)),
      n_invalid = max (n_invalid t) (get_or 0 (skipped_invalid stats)),
      n_duplicate = max (n_duplicate t) (get_or 0 (skipped_duplicate stats)),
      n_written = max (n_written t) (get_or 0 (rows_written stats))\<rparr>"

definition tally_event :: "SyncProgressEvent \<Rightarrow> Tally \<Rightarrow> Tally" where
  "tally_event ev t =
     (case ev_stats ev of
        Some stats \<Rightarrow> raise_tally stats t
      | None \<Rightarrow>
          (if ev_kind ev = ''query'' then t\<lparr>n_requests := n_requests t + 1\<rparr>
           else if ev_kind ev = ''query_ok'' then t\<lparr>n_ok := n_ok t + 1\<rparr>
           else if ev_kind ev = ''query_miss'' then t\<lparr>n_miss := n_miss t + 1\<rparr>
           else if ev_kind ev = ''query_err'' then t\<lparr>n_errors := n_errors t + 1\<rparr>
           else if ev_kind ev = ''write'' then t\<lparr>n_written := n_written t + 1\<rparr>
           else if ev_kind ev = ''skip'' then
             (if contains ''Already enriched'' (ev_message ev) then t\<lparr>n_already := n_already t + 1\<rparr>
              else if contains ''invalid'' (ev_message ev) then t\<lparr>n_invalid := n_invalid t + 1\<rparr>
              else if contains ''duplicate'' (ev_message ev) then t\<lparr>n_duplicate := n_duplicate t + 1\<rparr>
              else t)
           else t))"

definition tallySyncStats :: "SyncProgressEvent list \<Rightarrow> string option \<Rightarrow> Tally" where
  "tallySyncStats events slug =
     foldl (\<lambda>t ev. case truthy slug of
                Some s \<Rightarrow> (if ev_slug ev \<noteq> Some s then t else tally_event ev t)
              | None \<Rightarrow> tally_event ev t)
       no_tally events"

record SyncStatsLabels =
  modeFull :: string
  modeIncremental :: string
  lb_queued :: string
  lb_apiRequests :: string
  lb_skipped :: string
  lb_rowsWritten :: string
  lb_noActivity :: string

definition shown_number :: "string \<Rightarrow> int option \<Rightarrow> string list" where
  "shown_number label v =
     (case v of Some n \<Rightarrow> (if n > 0 then [replace_text ''{{n}}'' (int_str n) label] else []) | None \<Rightarrow> [])"

definition formatSyncStats :: "SyncStats \<Rightarrow> SyncStatsLabels \<Rightarrow> string" where
  "formatSyncStats stats labels =
     (let skipped = get_or 0 (skipped_already_enriched stats) + get_or 0 (skipped_invalid stats)
            + get_or 0 (skipped_duplicate stats);
          parts =
            (case truthy (sync_mode stats) of
               Some m \<Rightarrow> [if m = ''full'' then modeFull labels else modeIncremental labels]
             | None \<Rightarrow> [])
            @ shown_number (lb_queued labels) (queued stats)
            @ (map (\<lambda>s. replace_text ''{{err}}'' (int_str (get_or 0 (api_errors stats)))
                  (replace_text ''{{miss}}'' (int_str (get_or 0 (api_miss stats)))
                     (replace_text ''{{ok}}'' (int_str (get_or 0 (api_ok stats))) s)))
                (shown_number (lb_apiRequests labels) (api_requests stats)))
            @ shown_number (lb_skipped labels) (Some skipped)
            @ shown_number (lb_rowsWritten labels) (rows_written stats)
      in if parts \<noteq> [] then join ('' '' @ middle_dot @ '' '') parts else lb_noActivity labels)"

end
