(* ===== verification/SyncFacts.thy ===== *)
theory SyncFacts
  imports SyncStream "HOL-Library.Sublist"
begin

text \<open>
  Facts on \<open>marketplaceSync.ts\<close>: the outcome of a synchronisation and the events reported depend on
  the text of the stream and not on how it was cut into chunks; what a cancelled one reports; the
  totals shown while it runs.
\<close>

section \<open>Reading lines\<close>

lemma read_lines_append:
  "read_lines parse (xs @ ys) acc =
     (case read_lines parse xs acc of (Some e, acc') \<Rightarrow> (Some e, acc') | (None, acc') \<Rightarrow> read_lines parse ys acc')"
  by (induction xs arbitrary: acc) (auto split: sum.splits)

text \<open>The lines that are complete, and the rest, after some chunks.\<close>

abbreviation pull :: "Decoder \<times> string \<Rightarrow> 8 word list list \<Rightarrow> (Decoder \<times> string) \<times> string list" where
  "pull \<equiv> feed_all (feed_pipe decode_stream take_lines)"

lemma pull_Cons:
  "pull (d, b) (v # vs) =
     (let (d1, text) = decode_stream d v; (b1, ls1) = take_lines b text; (s2, ls2) = pull (d1, b1) vs
      in (s2, ls1 @ ls2))"
  by (simp add: feed_pipe_def case_prod_unfold Let_def)

lemma read_loop_chunks:
  "read_loop parse (map Chunk vs @ turns) d b acc =
     (case read_lines parse (snd (pull (d, b) vs)) acc of
        (Some e, acc') \<Rightarrow> (Some e, acc')
      | (None, acc') \<Rightarrow> read_loop parse turns (fst (fst (pull (d, b) vs))) (snd (fst (pull (d, b) vs))) acc')"
proof (induction vs arbitrary: d b acc)
  case (Cons v vs)
  then show ?case
    by (simp add: pull_Cons read_lines_append case_prod_unfold Let_def del: feed_all.simps
        split: prod.splits option.splits)
qed simp

definition lines_of :: "string \<Rightarrow> string list" where
  "lines_of text = split_char (CHR 0x0A) text"

lemma pull_start:
  "pull (new_decoder, []) vs =
     ((fst (decode_stream new_decoder (concat vs)), last (lines_of (snd (decode_stream new_decoder (concat vs))))),
      butlast (lines_of (snd (decode_stream new_decoder (concat vs)))))"
  using utf8_lines.pipe.any_chunks [of "(new_decoder, [])" vs]
  by (simp add: feed_pipe_def take_lines_def lines_of_def case_prod_unfold Let_def)

lemma blank_line_skipped: "trim line = [] \<Longrightarrow> parseLine parse line = Inr None"
  by (simp add: parseLine_def)

lemma read_rest: "read_loop parse [] d b acc = read_lines parse [b] acc"
  by (cases acc) (simp add: blank_line_skipped)

lemma read_loop_text:
  "read_loop parse (map Chunk vs) new_decoder [] acc =
     read_lines parse (lines_of (snd (decode_stream new_decoder (concat vs)))) acc"
proof -
  let ?ls = "lines_of (snd (decode_stream new_decoder (concat vs)))"
  have "?ls = butlast ?ls @ [last ?ls]" by (simp add: lines_of_def)
  then have split: "read_lines parse ?ls acc = read_lines parse (butlast ?ls @ [last ?ls]) acc" by simp
  show ?thesis
    using read_loop_chunks [of parse vs "[]" new_decoder "[]" acc]
    unfolding split read_lines_append pull_start read_rest by (simp only: append_Nil2 fst_conv snd_conv)
qed

section \<open>The reference\<close>

text \<open>
  The outcome of a whole text, line by line: the events are those of the lines before the first one
  that cannot be read; the summary is that of the last line of kind done.
\<close>

definition readable :: "(SyncThrow + Parsed option) list \<Rightarrow> Parsed list" where
  "readable rs = List.map_filter (\<lambda>r. case r of Inr p \<Rightarrow> p | Inl e \<Rightarrow> None) (takeWhile (\<lambda>r. \<not> isl r) rs)"

fun event_of :: "Parsed \<Rightarrow> SyncProgressEvent option" where
  "event_of (ProgressEvent ev) = (if ev_kind ev = ''done'' then None else Some ev)"
| "event_of (DoneLine s) = None"

definition last_summary :: "Parsed list \<Rightarrow> Json option" where
  "last_summary ps = (case rev (filter isDoneLine ps) of [] \<Rightarrow> None | p # _ \<Rightarrow> parsed_summary p)"

definition sync_of_text :: "parser \<Rightarrow> string \<Rightarrow> (SyncThrow + Json) \<times> SyncProgressEvent list" where
  "sync_of_text parse text =
     (let rs = map (parseLine parse) (lines_of text) in
      (case find isl rs of
         Some r \<Rightarrow> Inl (projl r)
       | None \<Rightarrow> (case last_summary (readable rs) of Some s \<Rightarrow> Inr s | None \<Rightarrow> Inl NoSummary),
       List.map_filter event_of (readable rs)))"

definition collected :: "Parsed list \<Rightarrow> Collected \<Rightarrow> Collected" where
  "collected ps acc =
     (if filter isDoneLine ps = [] then fst acc else last_summary ps, snd acc @ List.map_filter event_of ps)"

lemma collected_Nil: "collected [] acc = acc"
  by (simp add: collected_def)

lemma last_summary_Cons:
  "filter isDoneLine ps \<noteq> [] \<Longrightarrow> last_summary (p # ps) = last_summary ps"
  by (auto simp: last_summary_def split: list.splits)

lemma collected_Cons: "collected (p # ps) acc = collected ps (take_parsed (Some p) acc)"
proof (cases acc)
  case (Pair s evs)
  show ?thesis
  proof (cases "filter isDoneLine ps = []")
    case True
    with Pair show ?thesis
      by (cases p) (auto simp: collected_def last_summary_def List.map_filter_simps)
  next
    case False
    with Pair show ?thesis
      by (cases p) (auto simp: collected_def last_summary_Cons List.map_filter_simps)
  qed
qed

lemma take_parsed_None: "take_parsed None acc = acc"
  by (cases acc) simp

lemma read_lines_collects:
  "read_lines parse ls acc =
     (map_option projl (find isl (map (parseLine parse) ls)),
      collected (readable (map (parseLine parse) ls)) acc)"
proof (induction ls arbitrary: acc)
  case Nil
  then show ?case by (simp add: readable_def collected_Nil List.map_filter_simps)
next
  case (Cons l ls)
  show ?case
  proof (cases "parseLine parse l")
    case (Inl e)
    then show ?thesis by (simp add: readable_def collected_Nil List.map_filter_simps)
  next
    case (Inr p)
    then show ?thesis
      using Cons by (cases p) (simp_all add: readable_def collected_Cons take_parsed_None List.map_filter_simps)
  qed
qed

lemma finish_collected:
  "finish_sync False (map_option projl (find isl rs), collected (readable rs) (None, [])) =
     (case find isl rs of
        Some r \<Rightarrow> Inl (projl r)
      | None \<Rightarrow> (case last_summary (readable rs) of Some s \<Rightarrow> Inr s | None \<Rightarrow> Inl NoSummary),
      List.map_filter event_of (readable rs))"
proof -
  have "fst (collected (readable rs) (None, [])) = last_summary (readable rs)"
    by (simp add: collected_def last_summary_def split: list.splits)
  moreover have "snd (collected (readable rs) (None, [])) = List.map_filter event_of (readable rs)"
    by (simp add: collected_def)
  ultimately have "collected (readable rs) (None, []) = (last_summary (readable rs), List.map_filter event_of (readable rs))"
    by (metis prod.collapse)
  then show ?thesis by (simp split: option.splits)
qed

text \<open>
  C20: A synchronisation whose stream arrives to its end has the outcome of its text, and reports the
  events of its text, however the bytes were cut into chunks, in the middle of a line or of a
  character too; a refused request reports nothing.
\<close>

lemma sync_any_chunks:
  "streamEnrichmentSync parse (Replied res (Some (map Chunk vs))) False =
     (if res_ok res then sync_of_text parse (snd (decode_stream new_decoder (concat vs)))
      else (Inl (Refused (refused_text res)), []))"
  by (simp add: streamEnrichmentSync_def read_loop_text read_lines_collects finish_collected
      sync_of_text_def Let_def)

text \<open>A progress event of kind done takes the summary of an earlier line away.\<close>

lemma done_event_drops_summary:
  "ev_kind ev = ''done'' \<Longrightarrow> last_summary (ps @ [ProgressEvent ev]) = None"
  by (simp add: last_summary_def)

section \<open>Cancelling\<close>

text \<open>What is known after the turns that were read: an error, or the events so far.\<close>

lemma snd_finish [simp]: "snd (finish_sync aborted (err, acc)) = snd acc"
  by (cases acc; cases err) simp_all

lemma collected_grows: "prefix (snd acc) (snd (collected ps acc))"
  by (simp add: collected_def)

lemma read_lines_grows: "prefix (snd (snd (read_lines parse xs acc))) (snd (snd (read_lines parse (xs @ ys) acc)))"
proof -
  obtain err acc' where "read_lines parse xs acc = (err, acc')" by (metis surj_pair)
  then show ?thesis
    using collected_grows [of acc' "readable (map (parseLine parse) ys)"]
    by (cases err) (simp_all add: read_lines_append read_lines_collects [of parse ys])
qed

definition stop_turn :: "bool \<Rightarrow> Turn" where
  "stop_turn b = (if b then SignalAborted else ReadAborted)"

lemma read_loop_stop: "read_loop parse (stop_turn b # turns) d buf acc = (Some SyncCancelledError, acc)"
  by (simp add: stop_turn_def)

lemma lines_of_more: "\<exists>ys. lines_of (s @ t) = butlast (lines_of s) @ ys"
  unfolding lines_of_def by (metis split_char_more)

lemma cancelled_loop:
  assumes cut: "read_loop parse (map Chunk vs @ stop_turn b # turns) new_decoder [] acc = (err, acc1)"
    and full: "read_loop parse (map Chunk (vs @ ws)) new_decoder [] acc = (err', acc2)"
  shows "prefix (snd acc1) (snd acc2) \<and> (err = Some SyncCancelledError \<or> err \<noteq> None \<and> err = err')"
proof -
  define ls where "ls = butlast (lines_of (snd (decode_stream new_decoder (concat vs))))"
  obtain ys where ys: "lines_of (snd (decode_stream new_decoder (concat (vs @ ws)))) = ls @ ys"
    unfolding ls_def concat_append decode_stream_append snd_conv using lines_of_more by blast
  have c: "(err, acc1) =
      (case read_lines parse ls acc of (Some e, acc') \<Rightarrow> (Some e, acc') | (None, acc') \<Rightarrow> (Some SyncCancelledError, acc'))"
    using cut unfolding read_loop_chunks pull_start read_loop_stop ls_def by (simp only: snd_conv fst_conv)
  have f: "(err', acc2) = read_lines parse (ls @ ys) acc"
    using full unfolding read_loop_text ys by simp
  have "snd acc1 = snd (snd (read_lines parse ls acc))"
    using c by (auto split: prod.splits option.splits)
  moreover have "snd acc2 = snd (snd (read_lines parse (ls @ ys) acc))"
    using f by (metis snd_conv)
  moreover have "err = Some SyncCancelledError \<or> err \<noteq> None \<and> err = err'"
    using c f by (auto simp: read_lines_append split: prod.splits option.splits)
  ultimately show ?thesis using read_lines_grows [of parse ls acc ys] by simp
qed

lemma finish_error: "fst (finish_sync aborted (Some e, acc)) = Inl e"
  by (cases acc) simp

text \<open>
  A synchronisation that is cancelled reports no event that the whole stream would not have
  reported, in the same order, and never gives a summary: it ends with the cancellation, or with the
  error the whole stream would have met before. An abort that comes after the end of the stream
  counts as well.
\<close>

lemma cancelled_sync:
  "let cut = streamEnrichmentSync parse (Replied res (Some (map Chunk vs @ stop_turn b # turns))) aborted;
       full = streamEnrichmentSync parse (Replied res (Some (map Chunk (vs @ ws)))) aborted'
   in prefix (snd cut) (snd full) \<and> isl (fst cut)
      \<and> (fst cut = Inl SyncCancelledError \<or> fst cut = fst full)
      \<and> isl (fst (streamEnrichmentSync parse reply True))"
proof -
  obtain err acc1 where c: "read_loop parse (map Chunk vs @ stop_turn b # turns) new_decoder [] (None, []) = (err, acc1)"
    by (metis surj_pair)
  obtain err' acc2 where f: "read_loop parse (map Chunk (vs @ ws)) new_decoder [] (None, []) = (err', acc2)"
    by (metis surj_pair)
  note stop = cancelled_loop [OF c f]
  obtain e where e: "err = Some e" using stop by (cases err) auto
  have late: "isl (fst (finish_sync True st))" for st
  proof -
    obtain er su evs where "st = (er, su, evs)" by (rule prod_cases3)
    then show ?thesis by (cases er) simp_all
  qed
  have "isl (fst (streamEnrichmentSync parse reply True))"
    using late by (simp add: streamEnrichmentSync_def split: SyncFetch.splits option.splits)
  moreover have "fst (streamEnrichmentSync parse (Replied res (Some (map Chunk vs @ stop_turn b # turns))) aborted) =
      (if res_ok res then Inl e else Inl (Refused (refused_text res)))"
    and "snd (streamEnrichmentSync parse (Replied res (Some (map Chunk vs @ stop_turn b # turns))) aborted) =
      (if res_ok res then snd acc1 else [])"
    by (simp_all add: streamEnrichmentSync_def c e finish_error)
  moreover have "streamEnrichmentSync parse (Replied res (Some (map Chunk (vs @ ws)))) aborted' =
      (if res_ok res then finish_sync aborted' (err', acc2) else (Inl (Refused (refused_text res)), []))"
    unfolding f [symmetric] by (simp add: streamEnrichmentSync_def)
  ultimately show ?thesis
    using stop e by (auto simp: Let_def finish_error)
qed

section \<open>Totals\<close>

text \<open>A figure of the totals, what a statistics event says of it, and the events that raise it by one.\<close>

datatype Figure = Requests | Answers | Misses | Errors | Already | Invalid | Duplicate | Written

fun total :: "Figure \<Rightarrow> Tally \<Rightarrow> int" where
  "total Requests t = n_requests t"
| "total Answers t = n_ok t"
| "total Misses t = n_miss t"
| "total Errors t = n_errors t"
| "total Already t = n_already t"
| "total Invalid t = n_invalid t"
| "total Duplicate t = n_duplicate t"
| "total Written t = n_written t"

fun stated :: "Figure \<Rightarrow> SyncStats \<Rightarrow> int" where
  "stated Requests st = get_or 0 (api_requests st)"
| "stated Answers st = get_or 0 (api_ok st)"
| "stated Misses st = get_or 0 (api_miss st)"
| "stated Errors st = get_or 0 (api_errors st)"
| "stated Already st = get_or 0 (skipped_already_enriched st)"
| "stated Invalid st = get_or 0 (skipped_invalid st)"
| "stated Duplicate st = get_or 0 (skipped_duplicate st)"
| "stated Written st = get_or 0 (rows_written st)"

fun figure_kind :: "Figure \<Rightarrow> string" where
  "figure_kind Requests = ''query''"
| "figure_kind Answers = ''query_ok''"
| "figure_kind Misses = ''query_miss''"
| "figure_kind Errors = ''query_err''"
| "figure_kind Written = ''write''"
| "figure_kind f = ''skip''"

fun skip_reason :: "Figure \<Rightarrow> string \<Rightarrow> bool" where
  "skip_reason Already m \<longleftrightarrow> contains ''Already enriched'' m"
| "skip_reason Invalid m \<longleftrightarrow> contains ''invalid'' m \<and> \<not> contains ''Already enriched'' m"
| "skip_reason Duplicate m \<longleftrightarrow> contains ''duplicate'' m \<and> \<not> contains ''invalid'' m \<and> \<not> contains ''Already enriched'' m"
| "skip_reason f m \<longleftrightarrow> True"

definition counts_for :: "Figure \<Rightarrow> SyncProgressEvent \<Rightarrow> bool" where
  "counts_for f ev \<longleftrightarrow> ev_stats ev = None \<and> ev_kind ev = figure_kind f \<and> skip_reason f (ev_message ev)"

definition stated_in :: "Figure \<Rightarrow> SyncProgressEvent \<Rightarrow> int" where
  "stated_in f ev = (case ev_stats ev of Some st \<Rightarrow> stated f st | None \<Rightarrow> 0)"

lemma total_event:
  "total f (tally_event ev t) = max (total f t) (stated_in f ev) + (if counts_for f ev then 1 else 0)"
  if "0 \<le> total f t"
  using that
  by (cases f; cases "ev_stats ev")
    (auto simp: tally_event_def raise_tally_def counts_for_def stated_in_def)

definition of_slug :: "string option \<Rightarrow> SyncProgressEvent list \<Rightarrow> SyncProgressEvent list" where
  "of_slug slug events = (case truthy slug of Some s \<Rightarrow> filter (\<lambda>ev. ev_slug ev = Some s) events | None \<Rightarrow> events)"

lemma tally_of_slug: "tallySyncStats events slug = foldl (\<lambda>t ev. tally_event ev t) no_tally (of_slug slug events)"
proof (cases "truthy slug")
  case (Some s)
  have "foldl (\<lambda>t ev. if ev_slug ev \<noteq> Some s then t else tally_event ev t) t events =
      foldl (\<lambda>t ev. tally_event ev t) t (filter (\<lambda>ev. ev_slug ev = Some s) events)" for t
    by (induction events arbitrary: t) auto
  with Some show ?thesis by (simp add: tallySyncStats_def of_slug_def)
qed (simp add: tallySyncStats_def of_slug_def)

definition running_total :: "Figure \<Rightarrow> SyncProgressEvent list \<Rightarrow> int" where
  "running_total f evs = foldl (\<lambda>n ev. max n (stated_in f ev) + (if counts_for f ev then 1 else 0)) 0 evs"

lemma running_nonneg: "0 \<le> running_total f evs"
  unfolding running_total_def by (induction evs rule: rev_induct) auto

lemma total_running: "total f (foldl (\<lambda>t ev. tally_event ev t) no_tally evs) = running_total f evs"
proof (induction evs rule: rev_induct)
  case Nil
  then show ?case by (cases f) (simp_all add: no_tally_def running_total_def)
next
  case (snoc ev evs)
  then show ?case using running_nonneg [of f evs] by (simp add: total_event) (simp add: running_total_def)
qed

lemma running_lower:
  "list_all (\<lambda>ev. stated_in f ev \<le> running_total f evs) evs \<and> int (length (filter (counts_for f) evs)) \<le> running_total f evs"
proof (induction evs rule: rev_induct)
  case (snoc ev evs)
  have "running_total f (evs @ [ev]) = max (running_total f evs) (stated_in f ev) + (if counts_for f ev then 1 else 0)"
    by (simp add: running_total_def)
  with snoc show ?case by (auto simp: list_all_iff)
qed (simp add: running_total_def)

lemma running_upper:
  "running_total f evs \<le> foldr max (map (stated_in f) evs) 0 + int (length (filter (counts_for f) evs))"
proof (induction evs rule: rev_induct)
  case (snoc ev evs)
  have "foldr max xs (max n (0::int)) = max n (foldr max xs 0)" for xs n
    by (induction xs) (auto simp: max.left_commute)
  then have "foldr max (map (stated_in f) (evs @ [ev])) 0 = max (stated_in f ev) (foldr max (map (stated_in f) evs) 0)"
    by simp
  moreover have "running_total f (evs @ [ev]) = max (running_total f evs) (stated_in f ev) + (if counts_for f ev then 1 else 0)"
    by (simp add: running_total_def)
  ultimately show ?case using snoc by auto
qed (simp add: running_total_def)

text \<open>
  Every total of a provider is at least each figure its statistics state and at least the number of
  its events that count for it, and at most the largest stated figure and that number together; a
  stream without statistics is counted exactly. Events of other providers do not matter.
\<close>

lemma sync_totals:
  "let evs = of_slug slug events;
       counted = int (length (filter (counts_for f) evs));
       largest = foldr max (map (stated_in f) evs) 0;
       n = total f (tallySyncStats events slug)
   in list_all (\<lambda>ev. stated_in f ev \<le> n) evs \<and> counted \<le> n \<and> n \<le> largest + counted"
  using running_lower [of f "of_slug slug events"] running_upper [of f "of_slug slug events"]
  by (simp add: Let_def tally_of_slug total_running)

end
