(* ===== verification/Webauthn.thy ===== *)
theory Webauthn
  imports ApiClient RowExt "HOL-Library.Word"
begin

text \<open>
  Security keys, \<open>src/mobipwn-web/src/lib/webauthn.ts\<close>: the server speaks JSON with binary fields in
  base64url, the browser's credential interface wants buffers. \<open>atob\<close> and \<open>btoa\<close> are modelled as the
  HTML standard defines them; the browser's \<open>navigator.credentials\<close> is an argument.
\<close>

section \<open>Base64\<close>

type_synonym bytes = "8 word list"

definition B64_ALPHABET :: string where
  "B64_ALPHABET = ''ABCDEFGHIJKLMNOPQRSTUVWXYZabcdefghijklmnopqrstuvwxyz0123456789+/''"

definition b64_char :: "nat \<Rightarrow> char" where
  "b64_char n = B64_ALPHABET ! n"

definition b64_val :: "char \<Rightarrow> nat option" where
  "b64_val c = index_of c B64_ALPHABET"

text \<open>Three bytes are four sextets; one or two bytes left are padded.\<close>

fun btoa_groups :: "nat list \<Rightarrow> string" where
  "btoa_groups [] = []"
| "btoa_groups [a] = [b64_char (a div 4), b64_char (a mod 4 * 16), CHR ''='', CHR ''='']"
| "btoa_groups [a, b] =
     [b64_char (a div 4), b64_char (a mod 4 * 16 + b div 16), b64_char (b mod 16 * 4), CHR ''='']"
| "btoa_groups (a # b # c # bs) =
     b64_char (a div 4) # b64_char (a mod 4 * 16 + b div 16) # b64_char (b mod 16 * 4 + c div 64)
       # b64_char (c mod 64) # btoa_groups bs"

fun atob_groups :: "nat list \<Rightarrow> nat list" where
  "atob_groups [] = []"
| "atob_groups [p] = []"
| "atob_groups [p, q] = [p * 4 + q div 16]"
| "atob_groups [p, q, r] = [p * 4 + q div 16, q mod 16 * 16 + r div 4]"
| "atob_groups (p # q # r # s # ss) =
     (p * 4 + q div 16) # (q mod 16 * 16 + r div 4) # (r mod 4 * 64 + s) # atob_groups ss"

definition btoa :: "string \<Rightarrow> string" where
  "btoa bin = btoa_groups (map code bin)"

text \<open>\<open>atob\<close> skips white space (not the vertical tab) and, on a length divisible by four, up to two
  signs of padding; it throws on a length that leaves one character and on a foreign character.\<close>

definition b64_space :: "char \<Rightarrow> bool" where
  "b64_space c \<longleftrightarrow> is_space c \<and> code c \<noteq> 11"

definition drop_padding :: "string \<Rightarrow> string" where
  "drop_padding s =
     (if ends_with ''=='' s then take (length s - 2) s
      else if ends_with ''='' s then take (length s - 1) s else s)"

definition atob :: "string \<Rightarrow> string option" where
  "atob s =
     (let t = filter (\<lambda>c. \<not> b64_space c) s;
          u = (if length t mod 4 = 0 then drop_padding t else t);
          vs = map b64_val u
      in if length u mod 4 = 1 \<or> None \<in> set vs then None
         else Some (map char_of (atob_groups (map the vs))))"

section \<open>Buffers\<close>

definition byte_of :: "char \<Rightarrow> 8 word" where
  "byte_of c = word_of_nat (code c)"

definition b64urlToBuf :: "string \<Rightarrow> bytes option" where
  "b64urlToBuf v =
     (let pad = replicate ((4 - length v mod 4) mod 4) (CHR ''='');
          b64 = replace_char (CHR ''_'') ''/'' (replace_char (CHR ''-'') ''+'' (v @ pad))
      in map_option (map byte_of) (atob b64))"

definition bufToB64url :: "bytes \<Rightarrow> string" where
  "bufToB64url buf =
     (let bin = map (\<lambda>b. char_of (unat b)) buf
      in rev (dropWhile (\<lambda>c. c = CHR ''='')
           (rev (replace_char (CHR ''/'') ''_'' (replace_char (CHR ''+'') ''-'' (btoa bin))))))"

text \<open>What a binary field may hold: JSON, a buffer, or a view of a part of one.\<close>

datatype BinaryField = FieldJson Json | FieldBuffer bytes | FieldView bytes nat nat

text \<open>\<open>new Uint8Array(array)\<close>: each element as a number, modulo 256; NaN is 0.\<close>

definition uint8 :: "Json \<Rightarrow> 8 word" where
  "uint8 v = word_of_int (get_or 0 (case v of JNull \<Rightarrow> Some 0 | _ \<Rightarrow> numFromValue (Some v)))"

datatype WebauthnError = InvalidField | InvalidCharacter | KeyCancelled string | BrowserError string

fun toBuffer :: "BinaryField option \<Rightarrow> WebauthnError + bytes" where
  "toBuffer (Some (FieldJson (JStr s))) = (case b64urlToBuf s of Some b \<Rightarrow> Inr b | None \<Rightarrow> Inl InvalidCharacter)"
| "toBuffer (Some (FieldJson (JArr xs))) = Inr (map uint8 xs)"
| "toBuffer (Some (FieldBuffer b)) = Inr b"
| "toBuffer (Some (FieldView b offset len)) = Inr (take len (drop offset b))"
| "toBuffer v = Inl InvalidField"

section \<open>The options of a ceremony\<close>

text \<open>The value given to the browser: JSON that was kept, buffers, objects and lists holding them.\<close>

datatype Converted = Kept Json | Binary bytes | Members "(string \<times> Converted) list" | Elements "Converted list"

definition json_buffer :: "Json option \<Rightarrow> WebauthnError + bytes" where
  "json_buffer v = toBuffer (map_option FieldJson v)"

fun object_members :: "Json \<Rightarrow> (string \<times> Json) list" where
  "object_members (JObj kvs) = kvs"
| "object_members v = []"

definition keep_all :: "Json \<Rightarrow> (string \<times> Converted) list" where
  "keep_all v = map (\<lambda>(k, x). (k, Kept x)) (object_members v)"

text \<open>\<open>o[k] = v\<close>: a member keeps its place, a new one comes last.\<close>

fun put_member :: "string \<Rightarrow> 'a \<Rightarrow> (string \<times> 'a) list \<Rightarrow> (string \<times> 'a) list" where
  "put_member k v [] = [(k, v)]"
| "put_member k v ((j, w) # kvs) = (if j = k then (j, v) # kvs else (j, w) # put_member k v kvs)"

text \<open>An object whose \<open>id\<close> is binary.\<close>

definition with_id :: "Json \<Rightarrow> WebauthnError + Converted" where
  "with_id c = (case json_buffer (field c ''id'') of
      Inl e \<Rightarrow> Inl e
    | Inr b \<Rightarrow> Inr (Members (put_member ''id'' (Binary b) (keep_all c))))"

fun all_with_id :: "Json list \<Rightarrow> WebauthnError + Converted list" where
  "all_with_id [] = Inr []"
| "all_with_id (c # cs) = (case with_id c of
      Inl e \<Rightarrow> Inl e
    | Inr x \<Rightarrow> (case all_with_id cs of Inl e \<Rightarrow> Inl e | Inr xs \<Rightarrow> Inr (x # xs)))"

definition convert_user ::
  "Json \<Rightarrow> (string \<times> Converted) list \<Rightarrow> WebauthnError + (string \<times> Converted) list" where
  "convert_user pk converted = (case field pk ''user'' of
      Some user \<Rightarrow>
        (case user of
           JObj kvs \<Rightarrow> (case with_id user of Inl e \<Rightarrow> Inl e | Inr u \<Rightarrow> Inr (put_member ''user'' u converted))
         | JArr xs \<Rightarrow> Inl InvalidField
         | _ \<Rightarrow> Inr converted)
    | None \<Rightarrow> Inr converted)"

definition convert_list ::
  "string \<Rightarrow> Json \<Rightarrow> (string \<times> Converted) list \<Rightarrow> WebauthnError + (string \<times> Converted) list" where
  "convert_list k pk converted = (case field pk k of
      Some (JArr cs) \<Rightarrow> (case all_with_id cs of Inl e \<Rightarrow> Inl e | Inr xs \<Rightarrow> Inr (put_member k (Elements xs) converted))
    | _ \<Rightarrow> Inr converted)"

definition options_object :: "Json \<Rightarrow> Json" where
  "options_object options = get_or options (present (field options ''publicKey''))"

definition publicKeyFromOptions :: "Json \<Rightarrow> WebauthnError + (string \<times> Converted) list" where
  "publicKeyFromOptions options =
     (let pk = options_object options in
      case json_buffer (field pk ''challenge'') of
        Inl e \<Rightarrow> Inl e
      | Inr b \<Rightarrow>
          (case convert_user pk (put_member ''challenge'' (Binary b) (keep_all pk)) of
             Inl e \<Rightarrow> Inl e
           | Inr c1 \<Rightarrow>
               (case convert_list ''excludeCredentials'' pk c1 of
                  Inl e \<Rightarrow> Inl e
                | Inr c2 \<Rightarrow> convert_list ''allowCredentials'' pk c2)))"

section \<open>Credentials\<close>

datatype AuthenticatorResponse =
    AttestationResponse bytes bytes "string list option"
  | AssertionResponse bytes bytes bytes "bytes option"
  | OtherResponse

record PublicKeyCredential =
  cr_toJSON :: "Json option"
  cr_id :: string
  cr_rawId :: bytes
  cr_type :: string
  cr_attachment :: "string option"
  cr_response :: AuthenticatorResponse

definition text_of :: "bytes \<Rightarrow> Json" where
  "text_of b = JStr (bufToB64url b)"

fun response_json :: "AuthenticatorResponse \<Rightarrow> Json option" where
  "response_json (AttestationResponse client attestation transports) =
     Some (JObj [(''clientDataJSON'', text_of client), (''attestationObject'', text_of attestation),
       (''transports'', JArr (map JStr (get_or [] transports)))])"
| "response_json (AssertionResponse client authenticator signature userHandle) =
     Some (JObj [(''clientDataJSON'', text_of client), (''authenticatorData'', text_of authenticator),
       (''signature'', text_of signature),
       (''userHandle'', case userHandle of Some h \<Rightarrow> text_of h | None \<Rightarrow> JNull)])"
| "response_json OtherResponse = None"

text \<open>A member that is undefined is left out of the JSON that is sent.\<close>

definition credentialToJson :: "PublicKeyCredential \<Rightarrow> Json" where
  "credentialToJson cred =
     (case cr_toJSON cred of
        Some v \<Rightarrow> v
      | None \<Rightarrow> members
          [(''id'', Some (JStr (cr_id cred))), (''rawId'', Some (text_of (cr_rawId cred))),
           (''type'', Some (JStr (cr_type cred))),
           (''authenticatorAttachment'', map_option JStr (cr_attachment cred)),
           (''response'', response_json (cr_response cred))])"

text \<open>The browser's answer to the converted options: an error, nothing, or a credential.\<close>

type_synonym browser = "(string \<times> Converted) list \<Rightarrow> string + PublicKeyCredential option"

definition key_ceremony :: "string \<Rightarrow> browser \<Rightarrow> Json \<Rightarrow> WebauthnError + Json" where
  "key_ceremony cancelled browse options =
     (case publicKeyFromOptions options of
        Inl e \<Rightarrow> Inl e
      | Inr pk \<Rightarrow>
          (case browse pk of
             Inl m \<Rightarrow> Inl (BrowserError m)
           | Inr None \<Rightarrow> Inl (KeyCancelled cancelled)
           | Inr (Some cred) \<Rightarrow> Inr (credentialToJson cred)))"

definition createSecurityKey :: "browser \<Rightarrow> Json \<Rightarrow> WebauthnError + Json" where
  "createSecurityKey = key_ceremony ''Security key registration was cancelled''"

definition assertSecurityKey :: "browser \<Rightarrow> Json \<Rightarrow> WebauthnError + Json" where
  "assertSecurityKey = key_ceremony ''Security key verification was cancelled''"

section \<open>The round trip\<close>

text \<open>The sextets of a list of bytes.\<close>

fun sextets :: "nat list \<Rightarrow> nat list" where
  "sextets [] = []"
| "sextets [a] = [a div 4, a mod 4 * 16]"
| "sextets [a, b] = [a div 4, a mod 4 * 16 + b div 16, b mod 16 * 4]"
| "sextets (a # b # c # bs) =
     a div 4 # (a mod 4 * 16 + b div 16) # (b mod 16 * 4 + c div 64) # (c mod 64) # sextets bs"

definition padding :: "nat \<Rightarrow> string" where
  "padding n = replicate ((4 - n mod 4) mod 4) (CHR ''='')"

lemma btoa_shape: "btoa_groups bs = map b64_char (sextets bs) @ padding (length (sextets bs))"
proof (induction bs rule: sextets.induct)
  case (4 a b c bs)
  have "length (sextets (a # b # c # bs)) = length (sextets bs) + 4" by simp
  then have "padding (length (sextets (a # b # c # bs))) = padding (length (sextets bs))"
    by (simp only: padding_def mod_add_self2)
  with 4 show ?case by simp
next
  case (3 a b)
  have "padding (length (sextets [a, b])) = ''=''" by (simp add: padding_def)
  then show ?case by (simp del: sextets.simps) simp
next
  case (2 a)
  have "padding (length (sextets [a])) = ''==''" by (simp add: padding_def numeral_2_eq_2)
  then show ?case by (simp del: sextets.simps) simp
qed (simp add: padding_def)

lemma sextets_length: "length (sextets bs) mod 4 \<noteq> 1"
proof (induction bs rule: sextets.induct)
  case (4 a b c bs)
  have "length (sextets (a # b # c # bs)) = length (sextets bs) + 4" by simp
  with 4 show ?case by (metis mod_add_self2)
qed simp_all

lemma join_bits: "x < k \<Longrightarrow> y < m \<Longrightarrow> x * m + y < k * (m::nat)"
proof -
  assume "x < k" "y < m"
  then have "x * m + y < Suc x * m" "Suc x * m \<le> k * m" by (simp, intro mult_le_mono1) simp
  then show ?thesis by (rule less_le_trans)
qed

lemma sextet_bounds:
  fixes a b c :: nat
  assumes "a < 256" "b < 256" "c < 256"
  shows "a div 4 < 64" "a mod 4 * 16 + b div 16 < 64" "b mod 16 * 4 + c div 64 < 64" "c mod 64 < 64"
proof -
  have "b div 16 < 16" "c div 64 < 4" "a mod 4 < 4" "b mod 16 < 16" using assms by simp_all
  then show "a mod 4 * 16 + b div 16 < 64" "b mod 16 * 4 + c div 64 < 64"
    using join_bits [of "a mod 4" 4 "b div 16" 16] join_bits [of "b mod 16" 16 "c div 64" 4] by simp_all
qed (use assms in simp_all)

lemma sextets_small: "list_all (\<lambda>b. b < 256) bs \<Longrightarrow> list_all (\<lambda>n. n < 64) (sextets bs)"
proof (induction bs rule: sextets.induct)
  case (4 a b c bs)
  then show ?case using sextet_bounds [of a b c] by simp
next
  case (3 a b)
  then show ?case using sextet_bounds [of a b 0] by simp
next
  case (2 a)
  then show ?case using sextet_bounds [of a 0 0] by simp
qed simp

lemma low_bits: "y < k \<Longrightarrow> (x * k + y) mod k = y" "y < k \<Longrightarrow> (x * k + y) div k = (x::nat)"
  by simp_all

lemma three_bytes:
  fixes a b c :: nat
  assumes "b < 256" "c < 256"
  shows "a div 4 * 4 + (a mod 4 * 16 + b div 16) div 16 = a"
    and "(a mod 4 * 16 + b div 16) mod 16 * 16 + (b mod 16 * 4 + c div 64) div 4 = b"
    and "(b mod 16 * 4 + c div 64) mod 4 * 64 + c mod 64 = c"
proof -
  have small: "b div 16 < 16" "c div 64 < 4" using assms by simp_all
  show "a div 4 * 4 + (a mod 4 * 16 + b div 16) div 16 = a"
    unfolding low_bits(2) [OF small(1)] by (rule div_mult_mod_eq)
  show "(a mod 4 * 16 + b div 16) mod 16 * 16 + (b mod 16 * 4 + c div 64) div 4 = b"
    unfolding low_bits(1) [OF small(1)] low_bits(2) [OF small(2)] by (rule div_mult_mod_eq)
  show "(b mod 16 * 4 + c div 64) mod 4 * 64 + c mod 64 = c"
    unfolding low_bits(1) [OF small(2)] by (rule div_mult_mod_eq)
qed

lemma atob_sextets: "list_all (\<lambda>b. b < 256) bs \<Longrightarrow> atob_groups (sextets bs) = bs"
proof (induction bs rule: sextets.induct)
  case (4 a b c bs)
  then have small: "b < 256" "c < 256" and tl: "list_all (\<lambda>b. b < 256) bs" by simp_all
  show ?case unfolding sextets.simps atob_groups.simps three_bytes [OF small] 4(1) [OF tl] by (rule refl)
next
  case (3 a b)
  then show ?case using three_bytes(1,2) [of b 0 a] by simp
next
  case (2 a)
  then show ?case using three_bytes(1) [of 0 0 a] by simp
qed simp

lemma index_of_nth: "distinct s \<Longrightarrow> i < length s \<Longrightarrow> index_of (s ! i) s = Some i"
proof (induction s arbitrary: i)
  case (Cons x s)
  then show ?case by (cases i) auto
qed simp

lemma alphabet: "length B64_ALPHABET = 64" "distinct B64_ALPHABET"
  by (simp_all add: B64_ALPHABET_def)

lemma b64_val_char: "n < 64 \<Longrightarrow> b64_val (b64_char n) = Some n"
  by (simp add: b64_val_def b64_char_def index_of_nth alphabet)

lemma b64_char_member: "n < 64 \<Longrightarrow> b64_char n \<in> set B64_ALPHABET"
  by (simp add: b64_char_def alphabet)

lemma alphabet_plain:
  "c \<in> set B64_ALPHABET \<Longrightarrow> \<not> is_space c \<and> c \<noteq> CHR ''='' \<and> c \<noteq> CHR ''-'' \<and> c \<noteq> CHR ''_''"
proof -
  have "list_all (\<lambda>c. \<not> is_space c \<and> c \<noteq> CHR ''='' \<and> c \<noteq> CHR ''-'' \<and> c \<noteq> CHR ''_'') B64_ALPHABET"
    by (simp add: B64_ALPHABET_def is_space_def code_def)
  then show "c \<in> set B64_ALPHABET \<Longrightarrow> ?thesis" by (simp add: list_all_iff)
qed

text \<open>The text between the two replacements.\<close>

definition to_url :: "string \<Rightarrow> string" where
  "to_url s = replace_char (CHR ''/'') ''_'' (replace_char (CHR ''+'') ''-'' s)"

definition of_url :: "string \<Rightarrow> string" where
  "of_url s = replace_char (CHR ''_'') ''/'' (replace_char (CHR ''-'') ''+'' s)"

definition url_char :: "char \<Rightarrow> char" where
  "url_char c = (if c = CHR ''+'' then CHR ''-'' else if c = CHR ''/'' then CHR ''_'' else c)"

lemma to_url_map: "to_url s = map url_char s"
  by (induction s) (auto simp: to_url_def replace_char_def url_char_def)

lemma of_url_append: "of_url (s @ t) = of_url s @ of_url t"
  by (simp add: of_url_def replace_char_def)

lemma of_to_url: "set s \<subseteq> set B64_ALPHABET \<Longrightarrow> of_url (to_url s) = s"
proof (induction s)
  case (Cons c s)
  then have "of_url [url_char c] = [c]"
    using alphabet_plain [of c] by (auto simp: of_url_def replace_char_def url_char_def)
  with Cons show ?case using of_url_append [of "[url_char c]" "to_url s"] by (simp add: to_url_map)
qed (simp add: of_url_def to_url_def replace_char_def)

lemma of_url_padding: "of_url (padding n) = padding n"
  by (auto simp: of_url_def replace_char_def padding_def concat_replicate_trivial)

lemma to_url_append: "to_url (s @ t) = to_url s @ to_url t"
  by (simp add: to_url_map)

lemma to_url_padding: "to_url (padding n) = padding n"
  by (simp add: to_url_map padding_def url_char_def)

lemma no_padding_sign: "set s \<subseteq> set B64_ALPHABET \<Longrightarrow> c \<in> set (to_url s) \<Longrightarrow> c \<noteq> CHR ''=''"
  using alphabet_plain by (auto simp: to_url_map url_char_def)

lemma strip_padding:
  "CHR ''='' \<notin> set s \<Longrightarrow> rev (dropWhile (\<lambda>c. c = CHR ''='') (rev (s @ padding n))) = s"
  by (cases s rule: rev_cases) (auto simp: padding_def dropWhile_append)

lemma padding_cases:
  "n mod 4 = 0 \<Longrightarrow> padding n = []" "n mod 4 = 2 \<Longrightarrow> padding n = ''==''" "n mod 4 = 3 \<Longrightarrow> padding n = ''=''"
proof -
  have q: "replicate 2 c = [c, c]" "replicate (Suc 0) c = [c]" for c :: char by (simp_all add: numeral_eq_Suc)
  have r: "(4 - 0) mod 4 = (0::nat)" "(4 - 2) mod 4 = (2::nat)" "(4 - 3) mod 4 = Suc 0" by simp_all
  show "n mod 4 = 0 \<Longrightarrow> padding n = []" unfolding padding_def by (simp only: r) simp
  show "n mod 4 = 2 \<Longrightarrow> padding n = ''==''" unfolding padding_def by (simp only: r q)
  show "n mod 4 = 3 \<Longrightarrow> padding n = ''=''" unfolding padding_def by (simp only: r q)
qed

lemma mod_4_cases: "(n::nat) mod 4 \<noteq> 1 \<Longrightarrow> n mod 4 = 0 \<or> n mod 4 = 2 \<or> n mod 4 = 3"
  using mod_less_divisor [of 4 n] by linarith

lemma ends_padding:
  assumes "CHR ''='' \<notin> set s"
  shows "drop_padding s = s" "drop_padding (s @ ''='') = s" "drop_padding (s @ ''=='') = s"
proof -
  have "\<not> starts_with ''='' (rev s)" "\<not> starts_with ''=='' (rev s)"
    using assms by (cases "rev s"; force simp: starts_with_def simp flip: set_rev [of s])+
  moreover have "starts_with ''=='' (CHR ''='' # t) \<longleftrightarrow> starts_with ''='' t" for t
    by (simp add: starts_with_def)
  ultimately show "drop_padding s = s" "drop_padding (s @ ''='') = s" "drop_padding (s @ ''=='') = s"
    by (simp_all add: drop_padding_def ends_with_def) (simp_all add: starts_with_def)
qed

lemma drop_padding_padded:
  assumes "CHR ''='' \<notin> set s" "length s mod 4 \<noteq> 1"
  shows "drop_padding (s @ padding (length s)) = s" and "length (s @ padding (length s)) mod 4 = 0"
proof -
  note pads = padding_cases [of "length s"] ends_padding [OF assms(1)]
  consider "length s mod 4 = 0" | "length s mod 4 = 2" | "length s mod 4 = 3"
    using mod_4_cases [OF assms(2)] by (elim disjE)
  then have "drop_padding (s @ padding (length s)) = s \<and> length (s @ padding (length s)) mod 4 = 0"
  proof cases
    case 2
    have "(length s + 2) mod 4 = (length s mod 4 + 2) mod 4" by (simp only: mod_add_left_eq)
    with 2 show ?thesis by (simp add: pads)
  next
    case 3
    have "(length s + 1) mod 4 = (length s mod 4 + 1) mod 4" by (simp only: mod_add_left_eq)
    with 3 show ?thesis by (simp add: pads)
  qed (simp add: pads)
  then show "drop_padding (s @ padding (length s)) = s" "length (s @ padding (length s)) mod 4 = 0"
    by blast+
qed

lemma atob_padded:
  assumes ns: "list_all (\<lambda>n. n < 64) ns" and len: "length ns mod 4 \<noteq> 1"
  shows "atob (map b64_char ns @ padding (length ns)) = Some (map char_of (atob_groups ns))"
proof -
  let ?s = "map b64_char ns"
  have in_alphabet: "set ?s \<subseteq> set B64_ALPHABET" using ns by (auto simp: list_all_iff b64_char_member)
  then have plain: "CHR ''='' \<notin> set ?s" and "\<forall>c \<in> set ?s. \<not> is_space c"
    using alphabet_plain by blast+
  then have keep: "filter (\<lambda>c. \<not> b64_space c) (?s @ padding (length ns)) = ?s @ padding (length ns)"
    by (auto simp: filter_id_conv b64_space_def padding_def is_space_def code_def)
  have drop: "drop_padding (?s @ padding (length ns)) = ?s" "length (?s @ padding (length ns)) mod 4 = 0"
    using drop_padding_padded [OF plain] len by simp_all
  have vals: "map b64_val ?s = map Some ns"
    using ns by (simp add: list_all_iff b64_val_char)
  then have "None \<notin> set (map b64_val ?s)" "map the (map b64_val ?s) = ns"
    unfolding vals by (auto simp: comp_def)
  then show ?thesis
    unfolding atob_def Let_def keep drop using len by simp
qed

definition URL_ALPHABET :: string where
  "URL_ALPHABET = ''ABCDEFGHIJKLMNOPQRSTUVWXYZabcdefghijklmnopqrstuvwxyz0123456789-_''"

lemma url_alphabet: "c \<in> set B64_ALPHABET \<Longrightarrow> url_char c \<in> set URL_ALPHABET"
proof -
  have "list_all (\<lambda>c. url_char c \<in> set URL_ALPHABET) B64_ALPHABET"
    by (simp add: B64_ALPHABET_def URL_ALPHABET_def url_char_def)
  then show "c \<in> set B64_ALPHABET \<Longrightarrow> ?thesis" by (simp add: list_all_iff)
qed

definition nats_of :: "bytes \<Rightarrow> nat list" where
  "nats_of buf = map unat buf"

lemma nats_small: "list_all (\<lambda>b. b < 256) (nats_of buf)"
  using unsigned_less [where 'b = 8] by (auto simp: nats_of_def list_all_iff)

lemma code_byte: "code (char_of (unat (b :: 8 word))) = unat b"
  using unsigned_less [of b, where 'a = nat] by (simp add: code_char_of)

lemma in_alphabet: "set (map b64_char (sextets (nats_of buf))) \<subseteq> set B64_ALPHABET"
  using sextets_small [OF nats_small] by (auto simp: list_all_iff b64_char_member)

lemma bufToB64url_text: "bufToB64url buf = to_url (map b64_char (sextets (nats_of buf)))"
proof -
  let ?s = "map b64_char (sextets (nats_of buf))"
  have "btoa (map (\<lambda>b. char_of (unat b)) buf) = ?s @ padding (length (sextets (nats_of buf)))"
    by (simp add: btoa_def code_byte btoa_shape nats_of_def comp_def)
  moreover have "CHR ''='' \<notin> set (to_url ?s)"
    using no_padding_sign [OF in_alphabet] by blast
  ultimately show ?thesis
    using strip_padding unfolding bufToB64url_def Let_def
    by (simp add: to_url_append to_url_padding flip: to_url_def del: map_map)
qed

lemma b64url_back: "b64urlToBuf (bufToB64url buf) = Some buf"
proof -
  let ?ns = "sextets (nats_of buf)"
  let ?v = "bufToB64url buf"
  have len: "length ?v = length ?ns" by (simp add: bufToB64url_text to_url_map)
  have "of_url (?v @ padding (length ?v)) = map b64_char ?ns @ padding (length ?ns)"
    unfolding of_url_append of_url_padding len
    by (simp add: bufToB64url_text of_to_url [OF in_alphabet] del: map_map)
  then have "b64urlToBuf ?v = map_option (map byte_of) (atob (map b64_char ?ns @ padding (length ?ns)))"
    unfolding b64urlToBuf_def Let_def by (simp add: padding_def flip: of_url_def)
  also have "\<dots> = Some (map byte_of (map char_of (nats_of buf)))"
    by (simp only: atob_padded [OF sextets_small [OF nats_small] sextets_length] atob_sextets [OF nats_small] option.map)
  also have "map byte_of (map char_of (nats_of buf)) = buf"
    by (simp add: nats_of_def byte_of_def comp_def code_byte)
  finally show ?thesis .
qed

text \<open>
  C21: Every buffer survives the way through base64url: the text that is sent uses only the 64 characters
  of the URL alphabet, has the length of the unpadded encoding, and reads back as the buffer.
\<close>

lemma webauthn_roundtrip:
  "b64urlToBuf (bufToB64url buf) = Some buf \<and> list_all (\<lambda>c. c \<in> set URL_ALPHABET) (bufToB64url buf)
     \<and> toBuffer (Some (FieldJson (text_of buf))) = Inr buf"
proof -
  have "list_all (\<lambda>c. c \<in> set URL_ALPHABET) (bufToB64url buf)"
    using in_alphabet [of buf] url_alphabet by (auto simp: bufToB64url_text to_url_map list_all_iff)
  then show ?thesis by (simp add: b64url_back text_of_def)
qed

section \<open>What the conversion changes\<close>

definition BINARY_MEMBERS :: "string list" where
  "BINARY_MEMBERS = [''challenge'', ''user'', ''excludeCredentials'', ''allowCredentials'']"

definition other_members :: "(string \<times> Converted) list \<Rightarrow> (string \<times> Converted) list" where
  "other_members kvs = filter (\<lambda>kv. fst kv \<notin> set BINARY_MEMBERS) kvs"

lemma put_member_keys: "k \<in> set (map fst kvs) \<Longrightarrow> map fst (put_member k v kvs) = map fst kvs"
proof (induction kvs)
  case (Cons kv kvs)
  then show ?case by (cases kv) (auto simp: rev_image_eqI)
qed simp

lemma put_member_other: "k \<in> set BINARY_MEMBERS \<Longrightarrow> other_members (put_member k v kvs) = other_members kvs"
  by (induction kvs) (auto simp: other_members_def)

lemma put_member_lookup: "map_of (put_member k v kvs) j = (if j = k then Some v else map_of kvs j)"
  by (induction kvs) auto

lemma keep_all_keys: "map fst (keep_all v) = map fst (object_members v)"
  by (simp add: keep_all_def case_prod_unfold comp_def)

lemma field_member: "field v k = Some x \<Longrightarrow> k \<in> set (map fst (object_members v))"
  by (cases v) (force dest: map_of_SomeD)+

text \<open>A step keeps the names, the members that are not binary, and the challenge.\<close>

definition same_members :: "(string \<times> Converted) list \<Rightarrow> (string \<times> Converted) list \<Rightarrow> bool" where
  "same_members a b \<longleftrightarrow> map fst a = map fst b \<and> other_members a = other_members b
     \<and> map_of a ''challenge'' = map_of b ''challenge''"

lemma same_members_refl: "same_members c c"
  by (simp add: same_members_def)

lemma same_members_put:
  assumes "field pk k = Some x" "map fst c = map fst (object_members pk)" "k \<in> set BINARY_MEMBERS" "k \<noteq> ''challenge''"
  shows "same_members (put_member k v c) c"
  using assms field_member [OF assms(1)]
  by (simp add: same_members_def put_member_keys put_member_other put_member_lookup del: set_map)

lemma convert_user_members:
  "convert_user pk c = Inr c' \<Longrightarrow> map fst c = map fst (object_members pk) \<Longrightarrow> same_members c' c"
  by (auto simp: convert_user_def same_members_refl BINARY_MEMBERS_def intro: same_members_put
      split: option.splits Json.splits sum.splits)

lemma convert_list_members:
  "convert_list k pk c = Inr c' \<Longrightarrow> map fst c = map fst (object_members pk) \<Longrightarrow> k \<in> set BINARY_MEMBERS
     \<Longrightarrow> k \<noteq> ''challenge'' \<Longrightarrow> same_members c' c"
  by (auto simp: convert_list_def same_members_refl intro: same_members_put
      split: option.splits Json.splits sum.splits)

text \<open>
  The options given to the browser have the members the server sent, in their order; only the
  challenge, the user and the two lists of credentials are changed, and the challenge is the buffer
  that was sent. Options without a readable challenge are an error.
\<close>

lemma options_converted:
  "let pk = options_object options in
     case publicKeyFromOptions options of
       Inl e \<Rightarrow> True
     | Inr out \<Rightarrow> map fst out = map fst (object_members pk) \<and> other_members out = other_members (keep_all pk)
         \<and> map_of out ''challenge'' = map_option Binary (case json_buffer (field pk ''challenge'') of Inl e \<Rightarrow> None | Inr b \<Rightarrow> Some b)
         \<and> \<not> isl (json_buffer (field pk ''challenge''))"
proof (cases "publicKeyFromOptions options")
  case (Inr out)
  define pk where "pk = options_object options"
  obtain b where b: "json_buffer (field pk ''challenge'') = Inr b"
    using Inr unfolding publicKeyFromOptions_def Let_def pk_def by (auto split: sum.splits)
  let ?c0 = "put_member ''challenge'' (Binary b) (keep_all pk)"
  obtain c1 c2 where c: "convert_user pk ?c0 = Inr c1" "convert_list ''excludeCredentials'' pk c1 = Inr c2"
      "convert_list ''allowCredentials'' pk c2 = Inr out"
    using Inr b unfolding publicKeyFromOptions_def Let_def pk_def by (auto split: sum.splits)
  obtain x where "field pk ''challenge'' = Some x"
    using b by (cases "field pk ''challenge''") (auto simp: json_buffer_def)
  then have k0: "map fst ?c0 = map fst (object_members pk)"
    using field_member by (simp add: put_member_keys keep_all_keys)
  have s1: "same_members c1 ?c0" using convert_user_members [OF c(1) k0] .
  then have k1: "map fst c1 = map fst (object_members pk)" using k0 by (simp add: same_members_def)
  have s2: "same_members c2 c1" using convert_list_members [OF c(2) k1] by (simp add: BINARY_MEMBERS_def)
  then have k2: "map fst c2 = map fst (object_members pk)" using k1 by (simp add: same_members_def)
  have s3: "same_members out c2" using convert_list_members [OF c(3) k2] by (simp add: BINARY_MEMBERS_def)
  have "other_members ?c0 = other_members (keep_all pk)"
    by (rule put_member_other) (simp add: BINARY_MEMBERS_def)
  then show ?thesis
    using s1 s2 s3 k0 b Inr unfolding same_members_def pk_def [symmetric]
    by (simp add: put_member_lookup)
qed simp

end
