(* ===== verification/Ordering.thy ===== *)
theory Ordering
  imports RowExt Complex_Main
begin

text \<open>
  What \<open>sort\<close> promises: with a comparator that is a total preorder, the locale \<open>comparator\<close>, the
  result is in order, and a cut of it holds the first ones of the order.
\<close>

text \<open>\<open>a - b\<close> as the result of a comparison, of which only the sign is used.\<close>

definition num_cmp :: "'a :: linorder \<Rightarrow> 'a \<Rightarrow> int" where
  "num_cmp a b = (if a < b then -1 else if a = b then 0 else 1)"

locale comparator =
  fixes cmp :: "'a \<Rightarrow> 'a \<Rightarrow> int"
  assumes either: "cmp a b \<le> 0 \<or> cmp b a \<le> 0"
    and trans: "cmp a b \<le> 0 \<Longrightarrow> cmp b c \<le> 0 \<Longrightarrow> cmp a c \<le> 0"
begin

abbreviation ordered :: "'a list \<Rightarrow> bool" where
  "ordered \<equiv> sorted_wrt (\<lambda>a b. cmp a b \<le> 0)"

lemma ordered_insert: "ordered ys \<Longrightarrow> ordered (insert_by cmp x ys)"
proof (induction ys)
  case (Cons y ys)
  have members: "set (insert_by cmp x ys) = insert x (set ys)"
    by (metis mset_insert_by set_mset_add_mset_insert set_mset_mset)
  show ?case
  proof (cases "cmp x y \<le> 0")
    case True
    with Cons.prems show ?thesis by (auto intro: trans)
  next
    case False
    then have "cmp y x \<le> 0" using either by blast
    with False Cons members show ?thesis by simp
  qed
qed simp

lemma ordered_sort: "ordered (js_sort cmp xs)"
  unfolding js_sort_def by (induction xs) (simp_all add: ordered_insert)

text \<open>What a cut leaves out comes no earlier than what it keeps.\<close>

lemma cut_first:
  "list_all (\<lambda>a. list_all (\<lambda>b. cmp a b \<le> 0) (drop n (js_sort cmp xs))) (take n (js_sort cmp xs))"
proof -
  have "ordered (take n (js_sort cmp xs) @ drop n (js_sort cmp xs))"
    by (simp only: append_take_drop_id ordered_sort)
  then show ?thesis unfolding sorted_wrt_append list_all_iff by blast
qed

end

lemma num_cmp_le: "num_cmp a b \<le> 0 \<longleftrightarrow> a \<le> b"
  by (auto simp: num_cmp_def)

lemma num_cmp_0: "num_cmp a b = 0 \<longleftrightarrow> a = b"
  by (simp add: num_cmp_def)

lemma then_by_le: "then_by (num_cmp a b) r \<le> 0 \<longleftrightarrow> a < b \<or> a = b \<and> r \<le> 0"
  by (auto simp: then_by_def num_cmp_def)

section \<open>Comparators built from others\<close>

lemma comparator_on: "comparator cmp \<Longrightarrow> comparator (\<lambda>a b. cmp (f a) (f b))"
  unfolding comparator_def by blast

lemma comparator_then:
  assumes "comparator cmp"
  shows "comparator (\<lambda>a b. then_by (num_cmp (f a) (f b)) (cmp a b))"
proof
  fix a b c
  show "then_by (num_cmp (f a) (f b)) (cmp a b) \<le> 0 \<or> then_by (num_cmp (f b) (f a)) (cmp b a) \<le> 0"
    unfolding then_by_le using comparator.either [OF assms, of a b] less_linear [of "f a" "f b"] by metis
  show "then_by (num_cmp (f a) (f b)) (cmp a b) \<le> 0 \<Longrightarrow> then_by (num_cmp (f b) (f c)) (cmp b c) \<le> 0
      \<Longrightarrow> then_by (num_cmp (f a) (f c)) (cmp a c) \<le> 0"
    unfolding then_by_le using comparator.trans [OF assms, of a b c] less_trans [of "f a" "f b" "f c"] by metis
qed

text \<open>Comparators are the same when they agree on which arguments are in order.\<close>

lemma comparator_same: "comparator cmp \<Longrightarrow> (\<And>a b. cmp' a b \<le> 0 \<longleftrightarrow> cmp a b \<le> 0) \<Longrightarrow> comparator cmp'"
  unfolding comparator_def by blast

lemma then_by_diff: "then_by (a - b) r \<le> 0 \<longleftrightarrow> then_by (num_cmp a b) r \<le> 0"
  by (cases a b rule: linorder_cases) (simp_all add: then_by_def num_cmp_def)

text \<open>A comparison whose sign turns when its arguments are swapped, as of \<open>localeCompare\<close>.\<close>

locale collator = comparator +
  assumes opposite: "sgn (cmp b a) = - sgn (cmp a b)"
begin

lemma opposite_signs: "cmp b a < 0 \<longleftrightarrow> cmp a b > 0" "cmp b a = 0 \<longleftrightarrow> cmp a b = 0"
  using opposite [of a b] by (auto simp: sgn_if split: if_splits)

lemma strict_trans: "cmp a b < 0 \<Longrightarrow> cmp b c \<le> 0 \<Longrightarrow> cmp a c < 0"
  using trans [of b c a] trans [of a b c] opposite_signs [of a b] opposite_signs [of a c] by fastforce

lemma trans_strict: "cmp a b \<le> 0 \<Longrightarrow> cmp b c < 0 \<Longrightarrow> cmp a c < 0"
  using trans [of c a b] trans [of a b c] opposite_signs [of b c] opposite_signs [of a c] by fastforce

lemma then_by_neg: "then_by (cmp a b) r \<le> 0 \<longleftrightarrow> cmp a b < 0 \<or> cmp a b = 0 \<and> r \<le> 0"
  by (auto simp: then_by_def)

lemma zero_trans: "cmp a b = 0 \<Longrightarrow> cmp b c = 0 \<Longrightarrow> cmp a c = 0"
  using trans [of a b c] trans [of c b a] opposite_signs [of a b] opposite_signs [of b c] opposite_signs [of a c] by fastforce

end

text \<open>Comparing by a collator, and where it gives 0 by a comparator.\<close>

lemma comparator_lex:
  assumes c: "collator c1" and d: "comparator c2"
  shows "comparator (\<lambda>a b. then_by (c1 a b) (c2 a b))"
proof
  fix a b c
  show "then_by (c1 a b) (c2 a b) \<le> 0 \<or> then_by (c1 b a) (c2 b a) \<le> 0"
    unfolding collator.then_by_neg [OF c]
    using comparator.either [OF d, of a b] collator.opposite_signs [OF c, of a b] by linarith
  show "then_by (c1 a b) (c2 a b) \<le> 0 \<Longrightarrow> then_by (c1 b c) (c2 b c) \<le> 0 \<Longrightarrow> then_by (c1 a c) (c2 a c) \<le> 0"
    unfolding collator.then_by_neg [OF c]
    using comparator.trans [OF d, of a b c] collator.strict_trans [OF c, of a b c] collator.trans_strict [OF c, of a b c]
      collator.zero_trans [OF c, of a b c] by fastforce
qed

lemma collator_on: "collator cmp \<Longrightarrow> collator (\<lambda>a b. cmp (f a) (f b))"
  unfolding collator_def collator_axioms_def by (blast intro: comparator_on)

interpretation collation: collator "\<lambda>a b. num_cmp (collate a) (collate b)"
proof
  fix a b c
  show "num_cmp (collate a) (collate b) \<le> 0 \<or> num_cmp (collate b) (collate a) \<le> 0"
    unfolding num_cmp_le by (rule linear)
  show "num_cmp (collate a) (collate b) \<le> 0 \<Longrightarrow> num_cmp (collate b) (collate c) \<le> 0 \<Longrightarrow> num_cmp (collate a) (collate c) \<le> 0"
    unfolding num_cmp_le by (rule order_trans)
  show "sgn (num_cmp (collate b) (collate a)) = - sgn (num_cmp (collate a) (collate b))"
    by (auto simp: num_cmp_def)
qed

section \<open>What sorting keeps\<close>

lemma distinct_sort_keys: "distinct (map f (js_sort cmp xs)) \<longleftrightarrow> distinct (map f xs)"
  by (metis mset_eq_imp_distinct_iff mset_js_sort mset_map)

lemma length_filter_sort: "length (filter P (js_sort cmp xs)) = length (filter P xs)"
  by (metis mset_filter mset_js_sort size_mset)

lemma sum_sort: "(\<Sum>x\<leftarrow>js_sort cmp xs. f x) = (\<Sum>x\<leftarrow>xs. f x)" for f :: "_ \<Rightarrow> _ :: comm_monoid_add"
proof -
  have "sum_mset (mset (map f (js_sort cmp xs))) = sum_mset (mset (map f xs))" by (simp add: mset_map del: sum_mset_sum_list)
  then show ?thesis by (simp only: sum_mset_sum_list)
qed

lemma int_sum: "int (sum_list ns) = sum_list (map int ns)"
  by (induction ns) simp_all

section \<open>The first of each key\<close>

text \<open>A loop over \<open>xs\<close> that keeps what has a key it has not seen.\<close>

fun first_of_keys :: "('a \<Rightarrow> 'k) \<Rightarrow> 'k list \<Rightarrow> 'a list \<Rightarrow> 'a list" where
  "first_of_keys key seen [] = []"
| "first_of_keys key seen (x # xs) =
     (if key x \<in> set seen then first_of_keys key seen xs else x # first_of_keys key (key x # seen) xs)"

lemma first_of_keys_facts:
  "distinct (map key (first_of_keys key seen xs))
   \<and> set (map key (first_of_keys key seen xs)) = set (map key xs) - set seen
   \<and> set (first_of_keys key seen xs) \<subseteq> set xs"
proof (induction xs arbitrary: seen)
  case (Cons x xs)
  then show ?case using Cons [of seen] Cons [of "key x # seen"] by (cases "key x \<in> set seen") auto
qed simp

lemma first_of_keys_append:
  "first_of_keys key seen (xs @ ys) =
     first_of_keys key seen xs @ first_of_keys key (rev (map key (first_of_keys key seen xs)) @ seen) ys"
  by (induction xs arbitrary: seen) simp_all

section \<open>Sorting by a relation\<close>

text \<open>A comparison that refines a transitive relation sorts by it, whatever it does beyond it.\<close>

lemma sort_by_relation:
  assumes below: "\<And>a b. cmp a b \<le> 0 \<Longrightarrow> R a b" and above: "\<And>a b. 0 < cmp a b \<Longrightarrow> R b a"
    and trans: "\<And>a b c. R a b \<Longrightarrow> R b c \<Longrightarrow> R a c"
  shows "sorted_wrt R (js_sort cmp xs)"
proof (induction xs)
  case (Cons x xs)
  have members: "set (insert_by cmp x ys) = insert x (set ys)" for ys
    by (metis mset_insert_by set_mset_add_mset_insert set_mset_mset)
  have "sorted_wrt R (insert_by cmp x ys)" if "sorted_wrt R ys" for ys
    using that
  proof (induction ys)
    case (Cons y ys)
    show ?case
    proof (cases "cmp x y \<le> 0")
      case True
      then show ?thesis using Cons.prems below [OF True] trans [of x y] by auto
    next
      case False
      then show ?thesis using Cons above [of x y] by (simp add: members)
    qed
  qed simp
  then show ?case using Cons by (simp add: js_sort_def)
qed (simp add: js_sort_def)

lemma sort_map: "js_sort cmp (map f xs) = map f (js_sort (\<lambda>a b. cmp (f a) (f b)) xs)"
proof (induction xs)
  case (Cons x xs)
  have "insert_by cmp (f x) (map f ys) = map f (insert_by (\<lambda>a b. cmp (f a) (f b)) x ys)" for ys
    by (induction ys) simp_all
  then show ?case using Cons by (simp add: js_sort_def)
qed (simp add: js_sort_def)

end
