(* ===== verification/LockTimeline.thy ===== *)
theory LockTimeline
  imports Ordering
begin

text \<open>
  The lock and unlock timeline of a case, \<open>src/mobipwn-web/src/lib/lockUnlockTimeline.ts\<close>: the events
  of a device at their exact times, the line of its lock state, the density strip of the overview,
  and the window that is brushed on it. Times are numbers of milliseconds, here rational (\<open>None\<close> is a
  number that is not finite), and arithmetic is exact. The formatting of times by the platform is the
  argument \<open>fmt\<close>.
\<close>

section \<open>The data\<close>

datatype SeriesKey = K_unlocked | K_locked | K_failed | K_autolock

fun series_name :: "SeriesKey \<Rightarrow> string" where
  "series_name K_unlocked = ''unlocked''"
| "series_name K_locked = ''locked''"
| "series_name K_failed = ''failed''"
| "series_name K_autolock = ''autolock''"

record TimelinePoint =
  pt_t :: "rat option"
  pt_kind :: SeriesKey

record ChartEvent =
  ce_t :: rat
  ce_label :: string
  ce_kind :: SeriesKey
  ce_y :: int
  ce_unlocked :: "int option"
  ce_locked :: "int option"
  ce_failed :: "int option"
  ce_autolock :: "int option"

record StateStep =
  st_t :: rat
  st_label :: string
  st_state :: int
  st_kind :: SeriesKey

record PreciseTimeline =
  tl_events :: "ChartEvent list"
  tl_stateSteps :: "StateStep list"
  tl_series :: "SeriesKey list"
  tl_spanMs :: rat
  tl_minT :: rat
  tl_maxT :: rat

type_synonym formatter = "rat \<Rightarrow> string"

fun SERIES_Y :: "SeriesKey \<Rightarrow> int" where
  "SERIES_Y K_unlocked = 3"
| "SERIES_Y K_locked = 2"
| "SERIES_Y K_autolock = 1"
| "SERIES_Y K_failed = 0"

definition scatter :: "SeriesKey \<Rightarrow> SeriesKey \<Rightarrow> int option" where
  "scatter kind k = (if kind = k then Some (SERIES_Y k) else None)"

section \<open>The precise timeline\<close>

text \<open>A point that is kept: its time and its kind.\<close>

type_synonym point = "rat \<times> SeriesKey"

definition valid_point :: "TimelinePoint \<Rightarrow> point option" where
  "valid_point p = (case pt_t p of Some t \<Rightarrow> (if t > 0 then Some (t, pt_kind p) else None) | None \<Rightarrow> None)"

definition compare_points :: "point \<Rightarrow> point \<Rightarrow> int" where
  "compare_points a b =
     then_by (num_cmp (fst a) (fst b)) (num_cmp (collate (series_name (snd a))) (collate (series_name (snd b))))"

definition cleaned_points :: "TimelinePoint list \<Rightarrow> point list" where
  "cleaned_points points = js_sort compare_points (List.map_filter valid_point points)"

definition chart_event :: "formatter \<Rightarrow> point \<Rightarrow> ChartEvent" where
  "chart_event fmt p =
     \<lparr>ce_t = fst p, ce_label = fmt (fst p), ce_kind = snd p, ce_y = SERIES_Y (snd p),
      ce_unlocked = scatter (snd p) K_unlocked, ce_locked = scatter (snd p) K_locked,
      ce_failed = scatter (snd p) K_failed, ce_autolock = scatter (snd p) K_autolock\<rparr>"

fun next_state :: "SeriesKey \<Rightarrow> int option" where
  "next_state K_unlocked = Some 0"
| "next_state K_locked = Some 1"
| "next_state K_autolock = Some 1"
| "next_state K_failed = None"

text \<open>The loop over the points: the last state, and the steps so far.\<close>

fun take_point :: "formatter \<Rightarrow> (int option \<times> StateStep list) \<Rightarrow> point \<Rightarrow> int option \<times> StateStep list" where
  "take_point fmt (state, steps) p =
     (case next_state (snd p) of
        None \<Rightarrow> (state, steps)
      | Some s \<Rightarrow>
          (let held = (case state of
                 Some old \<Rightarrow> (if steps \<noteq> [] then
                    [\<lparr>st_t = fst p, st_label = fmt (fst p), st_state = old, st_kind = snd p\<rparr>] else [])
               | None \<Rightarrow> [])
           in (Some s, steps @ held @ [\<lparr>st_t = fst p, st_label = fmt (fst p), st_state = s, st_kind = snd p\<rparr>])))"

definition SERIES_ORDER :: "SeriesKey list" where
  "SERIES_ORDER = [K_unlocked, K_locked, K_failed, K_autolock]"

definition buildLockUnlockPreciseTimeline :: "formatter \<Rightarrow> TimelinePoint list \<Rightarrow> PreciseTimeline" where
  "buildLockUnlockPreciseTimeline fmt points =
     (let cleaned = cleaned_points points in
      if cleaned = []
      then \<lparr>tl_events = [], tl_stateSteps = [], tl_series = [], tl_spanMs = 0, tl_minT = 0, tl_maxT = 0\<rparr>
      else let minT = fst (hd cleaned); maxT = fst (last cleaned) in
        \<lparr>tl_events = map (chart_event fmt) cleaned,
         tl_stateSteps = snd (foldl (take_point fmt) (None, []) cleaned),
         tl_series = filter (\<lambda>k. k \<in> set (map snd cleaned)) SERIES_ORDER,
         tl_spanMs = max (maxT - minT) 1000, tl_minT = minT, tl_maxT = maxT\<rparr>)"

definition presentLockUnlockSeriesFromPoints :: "formatter \<Rightarrow> TimelinePoint list \<Rightarrow> SeriesKey list" where
  "presentLockUnlockSeriesFromPoints fmt points = tl_series (buildLockUnlockPreciseTimeline fmt points)"

section \<open>Buckets\<close>

record Bucket =
  bk_t :: rat
  bk_label :: string
  bk_unlocked :: nat
  bk_locked :: nat
  bk_failed :: nat
  bk_autolock :: nat

record DensityBucket = Bucket +
  bk_end :: rat
  bk_count :: nat

fun bk_kind :: "SeriesKey \<Rightarrow> 'a Bucket_scheme \<Rightarrow> nat" where
  "bk_kind K_unlocked b = bk_unlocked b"
| "bk_kind K_locked b = bk_locked b"
| "bk_kind K_failed b = bk_failed b"
| "bk_kind K_autolock b = bk_autolock b"

text \<open>\<open>b[kind] += 1\<close>\<close>

fun bump_kind :: "SeriesKey \<Rightarrow> 'a Bucket_scheme \<Rightarrow> 'a Bucket_scheme" where
  "bump_kind K_unlocked b = b\<lparr>bk_unlocked := bk_unlocked b + 1\<rparr>"
| "bump_kind K_locked b = b\<lparr>bk_locked := bk_locked b + 1\<rparr>"
| "bump_kind K_failed b = b\<lparr>bk_failed := bk_failed b + 1\<rparr>"
| "bump_kind K_autolock b = b\<lparr>bk_autolock := bk_autolock b + 1\<rparr>"

definition empty_bucket :: "rat \<Rightarrow> string \<Rightarrow> Bucket" where
  "empty_bucket t label =
     \<lparr>bk_t = t, bk_label = label, bk_unlocked = 0, bk_locked = 0, bk_failed = 0, bk_autolock = 0\<rparr>"

definition empty_density :: "rat \<Rightarrow> rat \<Rightarrow> string \<Rightarrow> DensityBucket" where
  "empty_density t t' label =
     \<lparr>bk_t = t, bk_label = label, bk_unlocked = 0, bk_locked = 0, bk_failed = 0, bk_autolock = 0,
      bk_end = t', bk_count = 0\<rparr>"

definition density_buckets :: "int option \<Rightarrow> nat" where
  "density_buckets requested =
     nat (case requested of Some r \<Rightarrow> max 4 (min r 128) | None \<Rightarrow> max 12 (min 48 96))"

text \<open>The start, the width and the number of the buckets.\<close>

definition density_index :: "rat \<Rightarrow> rat \<Rightarrow> nat \<Rightarrow> rat \<Rightarrow> nat" where
  "density_index minT width n t =
     (let idx = \<lfloor>(t - minT) / width\<rfloor> in
      if idx < 0 then 0 else if idx \<ge> int n then n - 1 else nat idx)"

definition count_event :: "(rat \<Rightarrow> nat) \<Rightarrow> DensityBucket list \<Rightarrow> ChartEvent \<Rightarrow> DensityBucket list" where
  "count_event index bs e =
     (let i = index (ce_t e); b = bs ! i in bs[i := bump_kind (ce_kind e) (b\<lparr>bk_count := bk_count b + 1\<rparr>)])"

record DensityOptions =
  do_minT :: "rat option"
  do_maxT :: "rat option"
  do_buckets :: "int option"

definition density_start :: "ChartEvent list \<Rightarrow> DensityOptions \<Rightarrow> rat" where
  "density_start events opts = get_or (ce_t (hd events)) (do_minT opts)"

definition density_stop :: "ChartEvent list \<Rightarrow> DensityOptions \<Rightarrow> rat" where
  "density_stop events opts = get_or (ce_t (last events)) (do_maxT opts)"

definition density_width :: "ChartEvent list \<Rightarrow> DensityOptions \<Rightarrow> rat" where
  "density_width events opts =
     max (density_stop events opts - density_start events opts) 1000 / of_nat (density_buckets (do_buckets opts))"

definition buildLockUnlockDensityOverview ::
  "formatter \<Rightarrow> ChartEvent list \<Rightarrow> DensityOptions \<Rightarrow> DensityBucket list" where
  "buildLockUnlockDensityOverview fmt events opts =
     (if events = [] then []
      else let minT = density_start events opts; n = density_buckets (do_buckets opts);
               width = density_width events opts;
               out = map (\<lambda>i. let t = minT + of_nat i * width in empty_density t (t + width) (fmt t)) [0..<n]
           in foldl (count_event (density_index minT width n)) out events)"

text \<open>Buckets of one second, and the kinds that occur in buckets.\<close>

definition second_of :: "rat \<Rightarrow> rat" where
  "second_of t = of_int (\<lfloor>t / 1000\<rfloor> * 1000)"

fun bump_second :: "formatter \<Rightarrow> (rat \<times> Bucket) list \<Rightarrow> point \<Rightarrow> (rat \<times> Bucket) list" where
  "bump_second fmt m (t, k) =
     (let key = second_of t in
      case map_of m key of
        Some b \<Rightarrow> map (\<lambda>(j, b). if j = key then (j, bump_kind k b) else (j, b)) m
      | None \<Rightarrow> m @ [(key, bump_kind k (empty_bucket key (fmt key)))])"

definition lockUnlockTimelineBuckets :: "formatter \<Rightarrow> TimelinePoint list \<Rightarrow> Bucket list" where
  "lockUnlockTimelineBuckets fmt points =
     js_sort (\<lambda>a b. num_cmp (bk_t a) (bk_t b))
       (map snd (foldl (bump_second fmt) [] (List.map_filter valid_point points)))"

definition presentLockUnlockSeries :: "Bucket list \<Rightarrow> SeriesKey list" where
  "presentLockUnlockSeries buckets = filter (\<lambda>k. list_ex (\<lambda>b. bk_kind k b > 0) buckets) SERIES_ORDER"

section \<open>Looking at a part\<close>

definition compare_near :: "rat \<Rightarrow> ChartEvent \<Rightarrow> ChartEvent \<Rightarrow> int" where
  "compare_near t a b =
     then_by (num_cmp \<bar>ce_t a - t\<bar> \<bar>ce_t b - t\<bar>) (num_cmp (ce_t a) (ce_t b))"

definition near_events :: "ChartEvent list \<Rightarrow> rat \<Rightarrow> rat \<Rightarrow> ChartEvent list" where
  "near_events events t windowMs =
     (let half = max (windowMs / 2) 500 in filter (\<lambda>e. \<bar>ce_t e - t\<bar> \<le> half) events)"

definition nearbyLockUnlockEvents :: "ChartEvent list \<Rightarrow> rat \<Rightarrow> rat \<Rightarrow> nat \<Rightarrow> ChartEvent list" where
  "nearbyLockUnlockEvents events t windowMs limit =
     take limit (js_sort (compare_near t) (near_events events t windowMs))"

text \<open>A window that is too short is widened around its middle; then it is moved inside the data.\<close>

definition widen_window :: "rat \<Rightarrow> rat \<Rightarrow> rat \<Rightarrow> rat \<times> rat" where
  "widen_window t0 t1 minSpanMs =
     (let a = min t0 t1; b = max t0 t1 in
      if b - a < minSpanMs then let mid = (a + b) / 2 in (mid - minSpanMs / 2, mid + minSpanMs / 2)
      else (a, b))"

definition clampLockUnlockDomain :: "rat \<Rightarrow> rat \<Rightarrow> rat \<Rightarrow> rat \<Rightarrow> rat \<Rightarrow> rat \<times> rat" where
  "clampLockUnlockDomain t0 t1 minT maxT minSpanMs =
     (let (a, b) = widen_window t0 t1 minSpanMs;
          (a, b) = (if a < minT then (minT, b + (minT - a)) else (a, b));
          (a, b) = (if b > maxT then (a - (b - maxT), maxT) else (a, b));
          a = max a minT; b = min b maxT
      in if b - a < minSpanMs \<and> maxT - minT \<ge> minSpanMs then (minT, min maxT (minT + minSpanMs)) else (a, b))"

end
