(* ===== verification/LockFacts.thy ===== *)
theory LockFacts
  imports LockTimeline
begin

text \<open>
  Facts on \<open>lockUnlockTimeline.ts\<close>: the precise timeline lists the valid points in order and its state
  line is the state of the device; the density strip counts every event in the bucket of its time; the
  events shown near a time are the nearest; the brushed window stays inside the data.
\<close>

section \<open>Order\<close>

interpretation by_time: comparator compare_points
proof
  show "compare_points a b \<le> 0 \<or> compare_points b a \<le> 0" for a b
    by (auto simp: compare_points_def then_by_le num_cmp_le)
  show "compare_points a b \<le> 0 \<Longrightarrow> compare_points b c \<le> 0 \<Longrightarrow> compare_points a c \<le> 0" for a b c
    by (auto simp: compare_points_def then_by_le num_cmp_le)
qed

interpretation by_distance: comparator "compare_near t" for t
proof
  show "compare_near t a b \<le> 0 \<or> compare_near t b a \<le> 0" for a b
    by (auto simp: compare_near_def then_by_le num_cmp_le)
  show "compare_near t a b \<le> 0 \<Longrightarrow> compare_near t b c \<le> 0 \<Longrightarrow> compare_near t a c \<le> 0" for a b c
    by (auto simp: compare_near_def then_by_le num_cmp_le)
qed

interpretation by_bucket: comparator "\<lambda>a b. num_cmp (bk_t a) (bk_t b)"
  by unfold_locales (auto simp: num_cmp_le)

lemma compare_points_time: "compare_points a b \<le> 0 \<Longrightarrow> fst a \<le> fst b"
  by (auto simp: compare_points_def then_by_le)

lemma cleaned_sorted: "sorted (map fst (cleaned_points points))"
  using by_time.ordered_sort unfolding cleaned_points_def sorted_map
  by (rule sorted_wrt_mono_rel [rotated]) (rule compare_points_time)

lemma cleaned_mset: "mset (cleaned_points points) = mset (List.map_filter valid_point points)"
  by (simp add: cleaned_points_def)

section \<open>The state line\<close>

text \<open>What the device does: the kinds that change or confirm its state, with their times.\<close>

definition transitions :: "point list \<Rightarrow> (rat \<times> int) list" where
  "transitions ps = List.map_filter (\<lambda>p. map_option (Pair (fst p)) (next_state (snd p))) ps"

text \<open>The line through these states that holds each until the next: two corners for every later one.\<close>

fun held_line :: "(rat \<times> int) list \<Rightarrow> (rat \<times> int) list" where
  "held_line [] = []"
| "held_line [x] = [x]"
| "held_line (x # y # zs) = x # (fst y, snd x) # held_line (y # zs)"

definition corner :: "StateStep \<Rightarrow> rat \<times> int" where
  "corner st = (st_t st, st_state st)"

lemma corner_step [simp]: "corner \<lparr>st_t = t, st_label = l, st_state = s, st_kind = k\<rparr> = (t, s)"
  by (simp add: corner_def)

lemma held_line_snoc:
  "held_line (xs @ [x, y]) = held_line (xs @ [x]) @ [(fst y, snd x), y]"
proof (induction xs rule: held_line.induct)
  case (2 z)
  then show ?case by simp
qed simp_all

lemma held_line_add:
  "held_line (xs @ [y]) = held_line xs @ (case xs of [] \<Rightarrow> [] | _ \<Rightarrow> [(fst y, snd (last xs))]) @ [y]"
proof (cases xs rule: rev_cases)
  case (snoc us u)
  then show ?thesis using held_line_snoc [of us u y] by (cases us) simp_all
qed simp

lemma held_line_Nil: "held_line xs = [] \<longleftrightarrow> xs = []"
  by (cases xs rule: held_line.cases) simp_all

lemma transitions_snoc:
  "transitions (ps @ [p]) = transitions ps @ (case next_state (snd p) of None \<Rightarrow> [] | Some s \<Rightarrow> [(fst p, s)])"
  by (simp add: transitions_def List.map_filter_def split: option.splits)

lemma state_loop:
  "fst (foldl (take_point fmt) (None, []) ps) = (if transitions ps = [] then None else Some (snd (last (transitions ps))))
   \<and> map corner (snd (foldl (take_point fmt) (None, []) ps)) = held_line (transitions ps)"
proof (induction ps rule: rev_induct)
  case Nil
  then show ?case by (simp add: transitions_def List.map_filter_simps)
next
  case (snoc p ps)
  note IH = snoc
  obtain state steps where st: "foldl (take_point fmt) (None, []) ps = (state, steps)" by fastforce
  have steps: "steps = [] \<longleftrightarrow> transitions ps = []"
    using snoc st by (metis held_line_Nil map_is_Nil_conv snd_conv)
  show ?case
  proof (cases "next_state (snd p)")
    case None
    then have t: "transitions (ps @ [p]) = transitions ps" by (simp add: transitions_snoc)
    have f: "foldl (take_point fmt) (None, []) (ps @ [p]) = foldl (take_point fmt) (None, []) ps"
      using None st by simp
    show ?thesis unfolding t f by (rule snoc)
  next
    case (Some s)
    show ?thesis
    proof (cases "transitions ps" rule: rev_cases)
      case Nil
      with Some snoc st steps show ?thesis by (simp add: transitions_snoc Let_def)
    next
      case (snoc us u)
      then have old: "state = Some (snd u)" "steps \<noteq> []" "map corner steps = held_line (us @ [u])"
        using IH st steps by auto
      show ?thesis
        using Some st old held_line_snoc [of us u "(fst p, s)"]
        by (auto simp: transitions_snoc snoc Let_def split: list.splits)
    qed
  qed
qed

lemma every_series: "set SERIES_ORDER = UNIV"
proof -
  have "k \<in> set SERIES_ORDER" for k by (cases k) (simp_all add: SERIES_ORDER_def)
  then show ?thesis by blast
qed

lemma sorted_ends:
  assumes "sorted (map fst ps)" and mem: "p \<in> set ps"
  shows "fst (hd ps) \<le> fst p \<and> fst p \<le> fst (last ps)"
proof -
  obtain i where i: "i < length ps" "p = ps ! i" using mem unfolding in_set_conv_nth by blast
  have "map fst ps ! 0 \<le> map fst ps ! i" "map fst ps ! i \<le> map fst ps ! (length ps - 1)"
    using i(1) by (intro sorted_nth_mono [OF assms(1)]; simp)+
  moreover have "ps \<noteq> []" using i(1) by auto
  ultimately show ?thesis using i by (simp add: hd_conv_nth last_conv_nth)
qed

text \<open>
  C22: The timeline shows exactly the valid points, in the order of time, and reaches from the first to
  the last; its series are the kinds that occur; its state line passes through the locks and unlocks in
  order, held level from each to the next.
\<close>

lemma timeline_faithful:
  "let tl = buildLockUnlockPreciseTimeline fmt points; ps = cleaned_points points in
     mset (map (\<lambda>e. (ce_t e, ce_kind e)) (tl_events tl)) = mset (List.map_filter valid_point points)
     \<and> sorted (map ce_t (tl_events tl))
     \<and> list_all (\<lambda>e. tl_minT tl \<le> ce_t e \<and> ce_t e \<le> tl_maxT tl) (tl_events tl)
     \<and> set (tl_series tl) = ce_kind ` set (tl_events tl)
     \<and> map corner (tl_stateSteps tl) = held_line (transitions ps)"
proof -
  define ps where "ps = cleaned_points points"
  note ps_sorted = cleaned_sorted [of points, folded ps_def]
  show ?thesis
  proof (cases "ps = []")
    case True
    then show ?thesis
      using cleaned_mset [of points] unfolding ps_def
      by (simp add: buildLockUnlockPreciseTimeline_def transitions_def List.map_filter_simps)
  next
    case False
    let ?tl = "buildLockUnlockPreciseTimeline fmt points"
    have ev: "tl_events ?tl = map (chart_event fmt) ps" and bounds: "tl_minT ?tl = fst (hd ps)" "tl_maxT ?tl = fst (last ps)"
      and ser: "tl_series ?tl = filter (\<lambda>k. k \<in> set (map snd ps)) SERIES_ORDER"
      and steps: "tl_stateSteps ?tl = snd (foldl (take_point fmt) (None, []) ps)"
      using False unfolding ps_def by (simp_all add: buildLockUnlockPreciseTimeline_def Let_def)
    have shown: "(\<lambda>e. (ce_t e, ce_kind e)) \<circ> chart_event fmt = id" "ce_t \<circ> chart_event fmt = fst"
        "ce_kind \<circ> chart_event fmt = snd"
      by (auto simp: chart_event_def fun_eq_iff)
    have m: "mset (map (\<lambda>e. (ce_t e, ce_kind e)) (tl_events ?tl)) = mset (List.map_filter valid_point points)"
      unfolding ev map_map shown cleaned_mset [symmetric] ps_def by (simp only: list.map_id)
    have so: "sorted (map ce_t (tl_events ?tl))"
      unfolding ev map_map shown using ps_sorted .
    have b: "list_all (\<lambda>e. tl_minT ?tl \<le> ce_t e \<and> ce_t e \<le> tl_maxT ?tl) (tl_events ?tl)"
      unfolding ev bounds using sorted_ends [OF ps_sorted] by (simp add: list_all_iff chart_event_def)
    have k: "set (tl_series ?tl) = ce_kind ` set (tl_events ?tl)"
      unfolding ev ser set_map set_filter image_image every_series by (auto simp: chart_event_def)
    have "map corner (tl_stateSteps ?tl) = held_line (transitions ps)"
      unfolding steps using state_loop by blast
    with m so b k show ?thesis unfolding Let_def ps_def by blast
  qed
qed

section \<open>The density strip\<close>

lemma density_buckets_bounds: "4 \<le> density_buckets r" "density_buckets r \<le> 128" "0 < density_buckets r"
  by (auto simp: density_buckets_def split: option.splits)

lemma density_width_pos: "0 < density_width events opts"
proof -
  have "0 < max (density_stop events opts - density_start events opts) 1000" by (simp add: less_max_iff_disj)
  then show ?thesis using density_buckets_bounds(3) by (simp add: density_width_def)
qed

lemma density_index_less: "0 < n \<Longrightarrow> density_index minT w n t < n"
  by (auto simp: density_index_def Let_def nat_less_iff)

text \<open>The bucket of a time between the first and the last covers it.\<close>

lemma density_index_covers:
  assumes w: "0 < w" and n: "0 < n" and t: "minT \<le> t" "t \<le> minT + of_nat n * w"
  shows "minT + of_nat (density_index minT w n t) * w \<le> t \<and> t \<le> minT + of_nat (density_index minT w n t) * w + w"
proof -
  define x where "x = (t - minT) / w"
  have tx: "t = minT + x * w" using w by (simp add: x_def)
  have x: "0 \<le> x" "x \<le> of_nat n" using t w by (simp_all add: x_def divide_le_eq)
  define i where "i = density_index minT w n t"
  have i: "of_nat i \<le> x \<and> x \<le> of_nat i + 1"
  proof (cases "\<lfloor>x\<rfloor> \<ge> int n")
    case True
    then have "of_nat n \<le> x" by (simp add: le_floor_iff)
    moreover have "i = n - 1" using True n x(1) by (auto simp: i_def density_index_def Let_def simp flip: x_def)
    ultimately show ?thesis using x n by (simp add: of_nat_diff)
  next
    case False
    then have "int i = \<lfloor>x\<rfloor>" using x(1) by (simp add: i_def density_index_def flip: x_def)
    then have "of_nat i = (of_int \<lfloor>x\<rfloor> :: rat)" by (metis of_int_of_nat_eq)
    then show ?thesis by linarith
  qed
  then have "of_nat i * w \<le> x * w" "x * w \<le> (of_nat i + 1) * w" using w by simp_all
  then have "minT + of_nat i * w \<le> t \<and> t \<le> minT + of_nat i * w + w"
    unfolding tx by (simp add: algebra_simps)
  then show ?thesis by (simp only: i_def)
qed

lemma bump_kind_other [simp]:
  "bk_t (bump_kind k b) = bk_t b" "bk_end (bump_kind k d) = bk_end d" "bk_count (bump_kind k d) = bk_count d"
  "bk_kind j (bump_kind k b) = bk_kind j b + (if j = k then 1 else 0)"
  by (cases k; cases j; simp)+

lemma bk_kind_count [simp]: "bk_kind k (b\<lparr>bk_count := n\<rparr>) = bk_kind k b"
  by (cases k) simp_all

lemma length_count_events [simp]: "length (foldl (count_event index) bs es) = length bs"
  by (induction es arbitrary: bs) (simp_all add: count_event_def Let_def)

lemma count_one:
  assumes "index (ce_t e) < length bs" "i < length bs"
  shows "bk_t (count_event index bs e ! i) = bk_t (bs ! i)"
    "bk_end (count_event index bs e ! i) = bk_end (bs ! i)"
    "bk_count (count_event index bs e ! i) = bk_count (bs ! i) + (if index (ce_t e) = i then 1 else 0)"
    "bk_kind k (count_event index bs e ! i) =
       bk_kind k (bs ! i) + (if index (ce_t e) = i \<and> ce_kind e = k then 1 else 0)"
  using assms by (cases "index (ce_t e) = i"; simp add: count_event_def Let_def)+

lemma count_events:
  assumes "i < length bs" "\<And>t. index t < length bs"
  shows "bk_t (foldl (count_event index) bs es ! i) = bk_t (bs ! i)
    \<and> bk_end (foldl (count_event index) bs es ! i) = bk_end (bs ! i)
    \<and> bk_count (foldl (count_event index) bs es ! i) = bk_count (bs ! i) + length (filter (\<lambda>e. index (ce_t e) = i) es)
    \<and> bk_kind k (foldl (count_event index) bs es ! i)
        = bk_kind k (bs ! i) + length (filter (\<lambda>e. index (ce_t e) = i \<and> ce_kind e = k) es)"
proof (induction es rule: rev_induct)
  case (snoc e es)
  have "index (ce_t e) < length (foldl (count_event index) bs es)" "i < length (foldl (count_event index) bs es)"
    using assms by simp_all
  note one = count_one [where index = index and e = e and i = i, OF this]
  show ?case unfolding foldl_append foldl.simps one using snoc by simp
qed simp

lemma count_by_index:
  assumes "\<And>e. index e < n"
  shows "(\<Sum>i\<leftarrow>[0..<n]. length (filter (\<lambda>e. index e = i) es)) = length es"
proof (induction es)
  case (Cons e es)
  have "(\<Sum>i\<leftarrow>[0..<n]. length (filter (\<lambda>e. index e = i) (e # es)))
      = (\<Sum>i\<leftarrow>[0..<n]. (if index e = i then 1 else 0) + length (filter (\<lambda>e. index e = i) es))"
    by (rule arg_cong [where f = sum_list], rule map_cong) simp_all
  also have "\<dots> = (\<Sum>i\<leftarrow>[0..<n]. if index e = i then 1 else 0) + length es"
    using Cons by (simp add: sum_list_addf)
  also have "(\<Sum>i\<leftarrow>[0..<n]. if index e = i then 1 else (0::nat)) = 1"
    using assms [of e] by (simp add: sum_list_distinct_conv_sum_set)
  finally show ?case by simp
qed simp

definition strip_index :: "ChartEvent list \<Rightarrow> DensityOptions \<Rightarrow> rat \<Rightarrow> nat" where
  "strip_index events opts =
     density_index (density_start events opts) (density_width events opts) (density_buckets (do_buckets opts))"

text \<open>
  The strip has the number of buckets asked for, between 4 and 128. Bucket \<open>i\<close> counts, in all and by
  kind, the events of index \<open>i\<close>; the counts add up to the number of events. The bucket of an event
  inside the strip covers its time.
\<close>

lemma density_counts:
  "let bs = buildLockUnlockDensityOverview fmt events opts; n = density_buckets (do_buckets opts);
       index = strip_index events opts
   in events = [] \<and> bs = []
      \<or> length bs = n
      \<and> map bk_count bs = map (\<lambda>i. length (filter (\<lambda>e. index (ce_t e) = i) events)) [0..<n]
      \<and> map (bk_kind k) bs = map (\<lambda>i. length (filter (\<lambda>e. index (ce_t e) = i \<and> ce_kind e = k) events)) [0..<n]
      \<and> sum_list (map bk_count bs) = length events
      \<and> list_all (\<lambda>e. if density_start events opts \<le> ce_t e \<and> ce_t e \<le> density_stop events opts
                      then bk_t (bs ! index (ce_t e)) \<le> ce_t e \<and> ce_t e \<le> bk_end (bs ! index (ce_t e)) else True) events"
proof (cases "events = []")
  case True
  then show ?thesis by (simp add: buildLockUnlockDensityOverview_def)
next
  case False
  define n where "n = density_buckets (do_buckets opts)"
  define w where "w = density_width events opts"
  define t0 where "t0 = density_start events opts"
  define out where "out = map (\<lambda>i. let t = t0 + of_nat i * w in empty_density t (t + w) (fmt t)) [0..<n]"
  define bs where "bs = buildLockUnlockDensityOverview fmt events opts"
  have bs: "bs = foldl (count_event (strip_index events opts)) out events"
    using False by (simp add: bs_def buildLockUnlockDensityOverview_def out_def n_def w_def t0_def strip_index_def Let_def)
  have n: "0 < n" using density_buckets_bounds by (simp add: n_def)
  have index: "strip_index events opts t < n" for t
    using density_index_less [OF n] by (simp add: strip_index_def n_def)
  have len: "length bs = n" by (simp add: bs out_def)
  have at: "bk_t (bs ! i) = t0 + of_nat i * w \<and> bk_end (bs ! i) = t0 + of_nat i * w + w
      \<and> bk_count (bs ! i) = length (filter (\<lambda>e. strip_index events opts (ce_t e) = i) events)
      \<and> bk_kind k (bs ! i) = length (filter (\<lambda>e. strip_index events opts (ce_t e) = i \<and> ce_kind e = k) events)"
    if "i < n" for i k
    using that index count_events [of i out "strip_index events opts" events k]
    by (cases k) (simp_all add: bs out_def empty_density_def Let_def)
  have counts: "map bk_count bs = map (\<lambda>i. length (filter (\<lambda>e. strip_index events opts (ce_t e) = i) events)) [0..<n]"
    and kinds: "map (bk_kind k) bs = map (\<lambda>i. length (filter (\<lambda>e. strip_index events opts (ce_t e) = i \<and> ce_kind e = k) events)) [0..<n]"
    using at by (auto simp: len intro!: nth_equalityI)
  have total: "sum_list (map bk_count bs) = length events"
    unfolding counts using count_by_index [of "\<lambda>e. strip_index events opts (ce_t e)" n events] index by simp
  have span: "of_nat n * w = max (density_stop events opts - t0) 1000"
    using n by (simp add: w_def density_width_def n_def t0_def)
  have covers: "bk_t (bs ! strip_index events opts t) \<le> t \<and> t \<le> bk_end (bs ! strip_index events opts t)"
    if "t0 \<le> t" "t \<le> density_stop events opts" for t
  proof -
    have "t \<le> t0 + of_nat n * w" unfolding span using that by (simp add: max_def)
    then show ?thesis
      using density_index_covers [OF density_width_pos n that(1), of events opts] at index
      by (simp add: strip_index_def n_def w_def t0_def)
  qed
  show ?thesis
    using len counts kinds total covers
    unfolding bs_def [symmetric] n_def [symmetric] t0_def [symmetric] Let_def by (simp add: list_all_iff)
qed

section \<open>Near a time\<close>

text \<open>
  The events shown near a time lie in the window around it, at most as many as asked for, and none that
  is left out is nearer than one that is shown.
\<close>

lemma nearby_are_nearest:
  "let shown = nearbyLockUnlockEvents events t windowMs limit;
       left = drop limit (js_sort (compare_near t) (near_events events t windowMs))
   in mset (shown @ left) = mset (near_events events t windowMs)
      \<and> length shown \<le> limit
      \<and> list_all (\<lambda>e. \<bar>ce_t e - t\<bar> \<le> max (windowMs / 2) 500) shown
      \<and> list_all (\<lambda>a. list_all (\<lambda>b. \<bar>ce_t a - t\<bar> \<le> \<bar>ce_t b - t\<bar>) left) shown"
proof -
  have near: "compare_near t a b \<le> 0 \<Longrightarrow> \<bar>ce_t a - t\<bar> \<le> \<bar>ce_t b - t\<bar>" for a b
    by (auto simp: compare_near_def then_by_le)
  have "set (take limit (js_sort (compare_near t) (near_events events t windowMs))) \<subseteq> set (near_events events t windowMs)"
    using set_take_subset by fastforce
  moreover have "mset (take limit s @ drop limit s) = mset s" for s :: "ChartEvent list" by simp
  ultimately show ?thesis
    using by_distance.cut_first [of t limit "near_events events t windowMs"] near
    unfolding Let_def nearbyLockUnlockEvents_def
    by (auto simp: list_all_iff near_events_def Let_def simp del: append_take_drop_id)
qed

section \<open>The window\<close>

lemma widen_span:
  obtains a where "widen_window t0 t1 ms = (a, a + max ms \<bar>t1 - t0\<bar>)"
    and "ms \<le> \<bar>t1 - t0\<bar> \<Longrightarrow> a = min t0 t1"
proof
  let ?a = "fst (widen_window t0 t1 ms)"
  show "widen_window t0 t1 ms = (?a, ?a + max ms \<bar>t1 - t0\<bar>)"
    by (auto simp: widen_window_def Let_def min_def max_def abs_if field_simps)
  show "ms \<le> \<bar>t1 - t0\<bar> \<Longrightarrow> ?a = min t0 t1"
    by (auto simp: widen_window_def Let_def min_def max_def abs_if)
qed

lemma shift_window:
  fixes a len :: rat
  assumes w: "widen_window t0 t1 ms = (a, a + len)" and e: "minT \<le> maxT" and l: "ms \<le> len" "0 \<le> len"
  shows "clampLockUnlockDomain t0 t1 minT maxT ms =
     (if maxT - minT \<le> len then (minT, maxT)
      else let b = min (max a minT) (maxT - len) in (b, b + len))"
  using e l by (auto simp: clampLockUnlockDomain_def w Let_def min_def max_def)

text \<open>
  The brushed window, on data of some extent: it lies inside the data, it is as long as was asked for
  and at least the smallest span, cut to the extent; what fits already is not moved.
\<close>

lemma clamped_window:
  assumes "minT \<le> maxT"
  shows "case clampLockUnlockDomain t0 t1 minT maxT ms of (a, b) \<Rightarrow>
     minT \<le> a \<and> a \<le> b \<and> b \<le> maxT \<and> b - a = min (max ms \<bar>t1 - t0\<bar>) (maxT - minT)
     \<and> (if minT \<le> min t0 t1 \<and> max t0 t1 \<le> maxT \<and> ms \<le> \<bar>t1 - t0\<bar> then a = min t0 t1 \<and> b = max t0 t1 else True)"
proof -
  obtain a where w: "widen_window t0 t1 ms = (a, a + max ms \<bar>t1 - t0\<bar>)" and a: "ms \<le> \<bar>t1 - t0\<bar> \<Longrightarrow> a = min t0 t1"
    using widen_span [of t0 t1 ms] by blast
  define len where "len = max ms \<bar>t1 - t0\<bar>"
  have l: "ms \<le> len" "0 \<le> len" by (auto simp: len_def)
  note shift = shift_window [OF w [folded len_def] assms l]
  show ?thesis
  proof (cases "maxT - minT \<le> len")
    case True
    have "a = minT \<and> max t0 t1 = maxT" if "minT \<le> min t0 t1" "max t0 t1 \<le> maxT" "ms \<le> \<bar>t1 - t0\<bar>"
    proof -
      have "len = max t0 t1 - min t0 t1" using that(3) by (simp add: len_def max_def min_def)
      with True that a [OF that(3)] show ?thesis by linarith
    qed
    with True a assms show ?thesis unfolding len_def [symmetric] shift by (auto simp: min_absorb2)
  next
    case False
    define b where "b = min (max a minT) (maxT - len)"
    have b: "minT \<le> b" "b + len \<le> maxT" using False unfolding b_def by auto
    have "b = min t0 t1 \<and> b + len = max t0 t1" if "minT \<le> min t0 t1" "max t0 t1 \<le> maxT" "ms \<le> \<bar>t1 - t0\<bar>"
    proof -
      have "len = max t0 t1 - min t0 t1" using that(3) by (simp add: len_def max_def min_def)
      with that a [OF that(3)] show ?thesis unfolding b_def by linarith
    qed
    with False b l show ?thesis unfolding len_def [symmetric] shift b_def [symmetric] Let_def by auto
  qed
qed

lemma clamped_window_witness:
  "clampLockUnlockDomain 900 1000 0 60000 5000 = (0, 5000) \<and>
   (case clampLockUnlockDomain 900 1000 0 60000 5000 of (a, b) \<Rightarrow> 0 \<le> a \<and> b \<le> 60000)"
proof -
  have "clampLockUnlockDomain 900 1000 0 60000 5000 = (0, 5000)"
    by (simp add: clampLockUnlockDomain_def widen_window_def Let_def)
  then show ?thesis using clamped_window [of 0 60000 900 1000 5000] by simp
qed

end
