(* ===== verification/IosLockState.thy ===== *)
theory IosLockState
  imports MplQuery Ordering
begin

text \<open>
  Lock and unlock events of an iOS device, \<open>src/mobipwn-web/src/lib/iosLockState.ts\<close>: rows of four log
  parsers are classified as unlocked, locked, auto-locked or failed, sorted and counted. Dates of the
  platform (\<open>Date\<close> and its locale formats) and \<open>formatRowTimestamp\<close> are the argument of type
  \<open>Dates\<close>, \<open>JSON.parse\<close> is \<open>parse\<close>. Numbers in the rows are integers.
\<close>

section \<open>Dates\<close>

text \<open>\<open>new Date(text)\<close> as milliseconds (\<open>None\<close> is an invalid date) and what is read off a date.\<close>

record Dates =
  date_parse :: "string \<Rightarrow> int option"
  full_year :: "int \<Rightarrow> int"
  locale_date :: "int \<Rightarrow> string"
  locale_time :: "int \<Rightarrow> string"
  iso_text :: "int \<Rightarrow> string"
  row_timestamp :: "Row \<Rightarrow> string"

text \<open>\<open>new Date(ms)\<close> is invalid outside a hundred million days around the epoch.\<close>

definition date_of_ms :: "int \<Rightarrow> int option" where
  "date_of_ms ms = (if \<bar>ms\<bar> \<le> 8640000000000000 then Some ms else None)"

definition sensible :: "Dates \<Rightarrow> int option \<Rightarrow> int option" where
  "sensible D d = (case d of Some ms \<Rightarrow> (if full_year D ms > 2000 then Some ms else None) | None \<Rightarrow> None)"

definition offset_re :: regex where
  "offset_re = Seqs [One_of ''+-'', Digit, Digit, Opt (Chr (CHR '':'')), Digit, Digit, Eol]"

definition iso_like :: "string \<Rightarrow> string" where
  "iso_like raw = replace_text '' '' ''T'' raw @ ''Z''"

definition number_ms :: "int \<Rightarrow> int" where
  "number_ms ts = (if ts > 100000000000000 then ts div 1000 else if ts < 1000000000000 then ts * 1000 else ts)"

definition candidate_date :: "Dates \<Rightarrow> string \<Rightarrow> int option" where
  "candidate_date D raw =
     (let normalized = (if CHR ''T'' \<in> set raw \<or> test offset_re raw \<or> ends_with ''Z'' raw then raw else iso_like raw)
      in or_else (sensible D (date_parse D normalized))
          (or_else (sensible D (date_parse D raw))
             (case js_number raw of
                Some ts \<Rightarrow> (if ts > 0 then sensible D (date_of_ms (number_ms ts)) else None)
              | None \<Rightarrow> None)))"

fun first_date :: "Dates \<Rightarrow> string list \<Rightarrow> int option" where
  "first_date D [] = None"
| "first_date D (raw # raws) =
     (if raw = [] then first_date D raws
      else case candidate_date D raw of Some ms \<Rightarrow> Some ms | None \<Rightarrow> first_date D raws)"

section \<open>Fields\<close>

text \<open>The texts of an \<open>ext\<close> object by lower-case name; a later member replaces an earlier one.\<close>

definition lower_texts :: "Row \<Rightarrow> (string \<times> string) list" where
  "lower_texts ext =
     rev (List.map_filter (\<lambda>(k, v). case present (Some v) of
         None \<Rightarrow> None
       | Some w \<Rightarrow> (if trim (js_text w) = [] then None else Some (to_lower k, trim (js_text w)))) ext)"

fun first_hit :: "(string \<times> string) list \<Rightarrow> string list \<Rightarrow> string" where
  "first_hit m [] = []"
| "first_hit m (k # ks) = (case map_of m (to_lower k) of Some s \<Rightarrow> s | None \<Rightarrow> first_hit m ks)"

definition extStr :: "Row \<Rightarrow> string list \<Rightarrow> string" where
  "extStr ext keys = first_hit (lower_texts ext) keys"

definition resolveLockDate :: "JsonParse \<Rightarrow> Dates \<Rightarrow> Row \<Rightarrow> int option" where
  "resolveLockDate parse D row =
     first_date D [strField row ''datetime'', strField row ''timestamp'',
       extStr (parseExt parse row) [''adjusted_timestamp'', ''ADJUSTED_TIMESTAMP'', ''START'', ''start'']]"

record LockEventParts =
  lp_when :: string
  lp_whenDate :: string
  lp_whenTime :: string
  lp_whenRaw :: string
  lp_timestampMs :: "int option"

definition formatLockEventParts :: "JsonParse \<Rightarrow> Dates \<Rightarrow> Row \<Rightarrow> LockEventParts" where
  "formatLockEventParts parse D row =
     (case resolveLockDate parse D row of
        None \<Rightarrow> \<lparr>lp_when = row_timestamp D row, lp_whenDate = row_timestamp D row, lp_whenTime = [],
           lp_whenRaw = or_str (strField row ''datetime'') (strField row ''timestamp''), lp_timestampMs = None\<rparr>
      | Some d \<Rightarrow> \<lparr>lp_when = locale_date D d @ '' '' @ middle_dot @ '' '' @ locale_time D d,
           lp_whenDate = locale_date D d, lp_whenTime = locale_time D d, lp_whenRaw = iso_text D d,
           lp_timestampMs = Some d\<rparr>)"

text \<open>The value behind the first of three spellings of a key in a message, up to the next comma. The
  message keeps its length in lower case.\<close>

definition after_needle :: "string \<Rightarrow> string \<Rightarrow> string" where
  "after_needle message needle =
     (case cut_at needle (to_lower message) of
        None \<Rightarrow> []
      | Some (before, _) \<Rightarrow> trim (takeWhile (\<lambda>c. c \<noteq> CHR '','') (drop (length before + length needle) message)))"

fun first_text :: "string list \<Rightarrow> string" where
  "first_text [] = []"
| "first_text (s # ss) = (if s \<noteq> [] then s else first_text ss)"

definition scrapeMessageValue :: "string \<Rightarrow> string \<Rightarrow> string" where
  "scrapeMessageValue message key =
     first_text (map (after_needle message)
       ['', '' @ to_lower key @ ''='', '': '' @ to_lower key @ ''='', '':'' @ to_lower key @ ''=''])"

definition sortKey :: "JsonParse \<Rightarrow> Dates \<Rightarrow> Row \<Rightarrow> int" where
  "sortKey parse D row = get_or 0 (resolveLockDate parse D row)"

section \<open>Kinds and extras\<close>

datatype IosLockKind = L_unlocked | L_locked | L_autolock | L_failed | L_unknown

definition normalizeLockKind :: "string \<Rightarrow> IosLockKind" where
  "normalizeLockKind raw =
     (let v = replace_char (CHR ''_'') '' '' (to_lower (trim raw)) in
      if v = [] then L_unknown
      else if v \<in> set [''lock state'', ''device lock status'', ''screen unlock state''] then L_unknown
      else if contains ''fail'' v \<or> contains ''denied'' v \<or> contains ''lockout'' v then L_failed
      else if contains ''unlock'' v \<or> v = ''0'' \<or> v = ''device unlocked'' then L_unlocked
      else if contains ''lock'' v \<and> \<not> contains ''unlock'' v \<or> v = ''1'' \<or> v = ''device locked'' then L_locked
      else if contains ''autolock'' v \<or> contains ''auto lock'' v then L_autolock
      else L_unknown)"

definition looksLikeSensibleTimestamp :: "Dates \<Rightarrow> string \<Rightarrow> bool" where
  "looksLikeSensibleTimestamp D val \<longleftrightarrow>
     val \<noteq> [] \<and> \<not> starts_with ''1970-'' val
       \<and> sensible D (date_parse D (if CHR ''T'' \<in> set val then val else iso_like val)) \<noteq> None"

type_synonym IosLockExtra = "string \<times> string"

definition pushExtra :: "string \<Rightarrow> string \<Rightarrow> IosLockExtra list \<Rightarrow> IosLockExtra list" where
  "pushExtra label val extras =
     (let v = trim val in if v = [] \<or> (label, v) \<in> set extras then extras else extras @ [(label, v)])"

definition push_if :: "bool \<Rightarrow> string \<Rightarrow> string \<Rightarrow> IosLockExtra list \<Rightarrow> IosLockExtra list" where
  "push_if b label val extras = (if b then pushExtra label val extras else extras)"

definition collectLockExtras :: "Dates \<Rightarrow> Row \<Rightarrow> Row \<Rightarrow> string \<Rightarrow> IosLockExtra list" where
  "collectLockExtras D row ext message =
     (let scrape = scrapeMessageValue message;
          adjusted = or_str (extStr ext [''adjusted_timestamp'', ''ADJUSTED_TIMESTAMP'']) (scrape ''ADJUSTED_TIMESTAMP'');
          original = or_str (extStr ext [''original_lockstate_timestamp'', ''ORIGINAL_LOCKSTATE_TIMESTAMP''])
            (scrape ''ORIGINAL_LOCKSTATE_TIMESTAMP'');
          endT = or_str (extStr ext [''END'', ''end'']) (scrape ''END'');
          usageSec = or_str (extStr ext [''USAGE IN SECONDS'', ''usage_in_seconds'', ''usage in seconds''])
            (scrape ''USAGE IN SECONDS'');
          day = or_str (extStr ext [''DAY OF WEEK'', ''day_of_week'', ''day of week'']) (scrape ''DAY OF WEEK'');
          deviceId = or_str (extStr ext [''DEVICE ID'', ''device_id'', ''device id'']) (scrape ''DEVICE ID'');
          autoLock = first_text [strField row ''auto_lock_type'',
            extStr ext [''AUTO LOCK TYPE'', ''auto_lock_type'', ''auto lock type''], scrape ''AUTO LOCK TYPE''];
          gmt = or_str (extStr ext [''GMT OFFSET'', ''gmt_offset'', ''gmt offset'']) (scrape ''GMT OFFSET'');
          tableId = extStr ext [''plspringboardagent_eventforward_sblock table id'',
            ''PLSPRINGBOARDAGENT_EVENTFORWARD_SBLOCK TABLE ID'', ''lockstate_id''];
          sourceDb = extStr ext [''source_db'']
      in push_if (sourceDb \<noteq> []) ''DB'' (or_str (last (split_char (CHR ''/'') sourceDb)) sourceDb)
          (push_if (tableId \<noteq> []) ''Event ID'' tableId
            (push_if (gmt \<noteq> []) ''GMT'' gmt
              (push_if (autoLock \<noteq> []) ''Auto-lock'' autoLock
                (push_if (deviceId \<noteq> []) ''Device'' deviceId
                  (push_if (day \<noteq> []) ''Day'' day
                    (push_if (usageSec \<noteq> []) ''Duration'' (usageSec @ ''s'')
                      (push_if (looksLikeSensibleTimestamp D endT) ''End'' endT
                        (push_if (looksLikeSensibleTimestamp D original) ''Original'' original
                          (push_if (looksLikeSensibleTimestamp D adjusted) ''Adjusted'' adjusted []))))))))))"

section \<open>Classifying a row\<close>

record IosLockEvent =
  le_kind :: IosLockKind
  le_parts :: LockEventParts
  le_source :: string
  le_status :: string
  le_detail :: string
  le_message :: string
  le_parser :: string
  le_activity :: string
  le_apolloModule :: string
  le_sourceDb :: string
  le_extras :: "IosLockExtra list"
  le_sortKey :: int

text \<open>\<open>/text/i.test(message)\<close>, and the patterns with white space.\<close>

definition mentions :: "string \<Rightarrow> string \<Rightarrow> bool" where
  "mentions message text \<longleftrightarrow> contains text (to_lower message)"

definition request_re :: "string \<Rightarrow> regex" where
  "request_re answer = Seqs [LitI ''processed authentication request (success'', Star Space, Lit ''='', Star Space,
     LitI answer, Lit '')'']"

definition attempt_re :: "string \<Rightarrow> regex" where
  "attempt_re answer = Seqs [LitI ''unlock attempt succeeded:'', Star Space, LitI answer]"

definition word_re :: "string \<Rightarrow> regex" where
  "word_re w = Seqs [WordB, LitI w, WordB]"

definition auth_noise :: "string \<Rightarrow> bool" where
  "auth_noise message \<longleftrightarrow> mentions message ''before first unlock''
     \<or> mentions message ''companions not supported'' \<or> mentions message ''code=-1000''"

definition auth_success :: "Row \<Rightarrow> Row \<Rightarrow> bool option" where
  "auth_success row ext =
     (let raw = first_text [strField row ''auth_success'', strField row ''success'', extStr ext [''auth_success'', ''success'']]
      in if raw = ''true'' \<or> raw = ''1'' then Some True
         else if raw = ''false'' \<or> raw = ''0'' then Some False else None)"

definition looks_failed :: "Row \<Rightarrow> Row \<Rightarrow> string \<Rightarrow> bool" where
  "looks_failed row ext message \<longleftrightarrow>
     auth_success row ext = Some False
     \<or> test (request_re ''no'') message \<or> test (attempt_re ''no'') message
     \<or> mentions message ''identity match failed'' \<or> mentions message ''processmatchfailreason''
     \<or> mentions message ''passcode authentication failed'' \<or> mentions message ''biometry is locked''
     \<or> mentions message ''needs passcode bio lockout''
     \<or> mentions message ''code=-8'' \<and> mentions message ''biom'' \<and> mentions message ''locked out''
     \<or> mentions message ''device authentication is locked out'' \<or> mentions message ''device authentication is now locked out''"

definition looks_succeeded :: "Row \<Rightarrow> Row \<Rightarrow> string \<Rightarrow> bool" where
  "looks_succeeded row ext message \<longleftrightarrow>
     auth_success row ext = Some True
     \<or> test (request_re ''yes'') message \<or> test (attempt_re ''yes'') message
     \<or> mentions message ''passcode authentication succeeded'' \<or> mentions message ''bio unlocked''"

definition is_auth_event :: "Row \<Rightarrow> Row \<Rightarrow> string \<Rightarrow> string \<Rightarrow> bool" where
  "is_auth_event row ext message desc \<longleftrightarrow>
     or_str (strField row ''event_type'') (extStr ext [''event_type'']) = ''authentication_event''
     \<or> looks_failed row ext message \<or> looks_succeeded row ext message
     \<or> to_lower desc \<in> set [''authentication failed'', ''authentication succeeded'']"

definition lock_titles :: "string list" where
  "lock_titles = [''lock state'', ''device lock status'', ''keybag lock status'', ''screen unlock state'']"

definition apollo_modules :: "string list" where
  "apollo_modules = [''powerlog_device_lock_state'', ''powerlog_device_screen_autolock'', ''knowledge_device_locked'',
     ''knowledge_device_locked_imputed'', ''knowledge_device_keybag_locked'', ''coreduetd_device_lock_state'']"

definition is_lock_activity :: "Row \<Rightarrow> Row \<Rightarrow> string \<Rightarrow> string \<Rightarrow> bool" where
  "is_lock_activity row ext message desc \<longleftrightarrow>
     is_auth_event row ext message desc \<or> to_lower desc \<in> set lock_titles
     \<or> list_ex (\<lambda>t. starts_with (t @ '':'') (to_lower message)) lock_titles
     \<or> mentions message ''device locked'' \<or> mentions message ''device unlocked''
     \<or> strField row ''lock_status'' \<noteq> [] \<or> strField row ''is_locked'' \<noteq> [] \<or> strField row ''auto_lock_type'' \<noteq> []
     \<or> extStr ext [''apollo_module''] \<in> set apollo_modules"

definition failed_event :: "JsonParse \<Rightarrow> Dates \<Rightarrow> Row \<Rightarrow> IosLockEvent" where
  "failed_event parse D row =
     (let ext = parseExt parse row; message = strField row ''message''; parser = to_lower (strField row ''parser'');
          authType = first_text [strField row ''auth_type'', extStr ext [''auth_type''], ''passcode'']
      in \<lparr>le_kind = L_failed, le_parts = formatLockEventParts parse D row,
          le_source = (if parser = ''logarchive'' then ''Unified log''
            else if parser = ''lockdownd'' then ''Lockdown'' else ''Authentication''),
          le_status = ''failed'',
          le_detail = (if authType = ''biometric'' then ''Biometric authentication failed'' else ''Passcode / unlock failed''),
          le_message = message, le_parser = or_str parser ''logarchive'',
          le_activity = or_str (strField row ''timestamp_desc'') ''Authentication Failed'',
          le_apolloModule = extStr ext [''apollo_module''], le_sourceDb = extStr ext [''source_db''],
          le_extras = collectLockExtras D row ext message, le_sortKey = sortKey parse D row\<rparr>)"

definition status_text :: "Row \<Rightarrow> Row \<Rightarrow> string \<Rightarrow> string" where
  "status_text row ext message =
     first_text [strField row ''lock_status'', strField row ''is_locked'',
       extStr ext [''lock status'', ''LOCK STATUS'', ''lock_status'', ''IS LOCKED'', ''is locked'', ''is_locked'',
         ''AUTO LOCK TYPE'', ''auto_lock_type'', ''auto lock type''],
       scrapeMessageValue message ''LOCK STATUS'', scrapeMessageValue message ''lock status'',
       scrapeMessageValue message ''IS LOCKED'', scrapeMessageValue message ''AUTO LOCK TYPE'']"

text \<open>The refinements of a kind that the status does not tell, in order.\<close>

definition screen_unlock :: "string \<Rightarrow> string \<Rightarrow> bool" where
  "screen_unlock desc message \<longleftrightarrow> starts_with ''screen unlock state'' (to_lower (or_str desc message))"

definition row_kind :: "Row \<Rightarrow> Row \<Rightarrow> string \<Rightarrow> string \<Rightarrow> IosLockKind" where
  "row_kind row ext message desc =
     (let kind = normalizeLockKind (status_text row ext message);
          kind = (if kind = L_unknown \<and> looks_succeeded row ext message then L_unlocked else kind);
          kind = (if kind = L_unknown \<and> screen_unlock desc message then L_autolock else kind);
          kind = (if kind = L_unknown
                  then if mentions message ''device unlocked'' \<or> test (word_re ''unlocked'') message then L_unlocked
                       else if mentions message ''device locked'' \<or> test (word_re ''locked'') message then L_locked
                       else kind
                  else kind)
      in if kind = L_unknown \<and> is_auth_event row ext message desc \<and> looks_succeeded row ext message
         then L_unlocked else kind)"

definition kind_detail :: "IosLockKind \<Rightarrow> string \<Rightarrow> string \<Rightarrow> string" where
  "kind_detail kind statusRaw desc =
     (case kind of
        L_unlocked \<Rightarrow> ''Device unlocked''
      | L_locked \<Rightarrow> ''Device locked''
      | L_autolock \<Rightarrow> or_str statusRaw ''Auto-lock''
      | L_failed \<Rightarrow> ''Authentication failed''
      | L_unknown \<Rightarrow> first_text [statusRaw, desc, ''Lock state''])"

definition lock_event :: "JsonParse \<Rightarrow> Dates \<Rightarrow> Row \<Rightarrow> IosLockKind \<Rightarrow> IosLockEvent" where
  "lock_event parse D row kind =
     (let ext = parseExt parse row; message = strField row ''message''; desc = strField row ''timestamp_desc'';
          parser = to_lower (strField row ''parser''); statusRaw = status_text row ext message;
          apollo = extStr ext [''apollo_module'']; detail = kind_detail kind statusRaw desc
      in \<lparr>le_kind = kind, le_parts = formatLockEventParts parse D row,
          le_source = (if parser = ''knowledgec'' then ''KnowledgeC''
            else if parser = ''logarchive'' then ''Unified log''
            else if parser = ''lockdownd'' then ''Lockdown''
            else if contains ''autolock'' apollo \<or> screen_unlock desc message then ''Powerlog auto-lock''
            else ''Powerlog''),
          le_status = or_str statusRaw detail, le_detail = detail, le_message = message,
          le_parser = or_str parser ''powerlogs'',
          le_activity = or_str desc (if CHR '':'' \<in> set message then trim (takeWhile (\<lambda>c. c \<noteq> CHR '':'') message) else []),
          le_apolloModule = apollo, le_sourceDb = extStr ext [''source_db''],
          le_extras = collectLockExtras D row ext message, le_sortKey = sortKey parse D row\<rparr>)"

definition parseIosLockEvent :: "JsonParse \<Rightarrow> Dates \<Rightarrow> Row \<Rightarrow> IosLockEvent option" where
  "parseIosLockEvent parse D row =
     (let ext = parseExt parse row; message = strField row ''message''; desc = strField row ''timestamp_desc'';
          kind = row_kind row ext message desc
      in if auth_noise message then None
         else if \<not> is_lock_activity row ext message desc then None
         else if looks_failed row ext message then Some (failed_event parse D row)
         else if kind = L_unknown \<and> is_auth_event row ext message desc \<and> \<not> looks_succeeded row ext message then None
         else Some (lock_event parse D row kind))"

section \<open>Lists of events\<close>

definition compare_lock_events :: "IosLockEvent \<Rightarrow> IosLockEvent \<Rightarrow> int" where
  "compare_lock_events a b = le_sortKey b - le_sortKey a"

definition iosLockEventsFromRows :: "JsonParse \<Rightarrow> Dates \<Rightarrow> Row list \<Rightarrow> IosLockEvent list" where
  "iosLockEventsFromRows parse D rows =
     js_sort compare_lock_events (List.map_filter (parseIosLockEvent parse D) rows)"

record IosLockStateSummary =
  sm_unlocked :: nat
  sm_locked :: nat
  sm_autolock :: nat
  sm_failed :: nat
  sm_lastUnlocked :: string
  sm_lastLocked :: string
  sm_lastFailed :: string

definition event_when :: "IosLockEvent \<Rightarrow> string" where
  "event_when ev = lp_when (le_parts ev)"

definition count_lock_event :: "IosLockStateSummary \<Rightarrow> IosLockEvent \<Rightarrow> IosLockStateSummary" where
  "count_lock_event s ev =
     (case le_kind ev of
        L_unlocked \<Rightarrow> s\<lparr>sm_unlocked := sm_unlocked s + 1, sm_lastUnlocked := or_str (sm_lastUnlocked s) (event_when ev)\<rparr>
      | L_locked \<Rightarrow> s\<lparr>sm_locked := sm_locked s + 1, sm_lastLocked := or_str (sm_lastLocked s) (event_when ev)\<rparr>
      | L_autolock \<Rightarrow> s\<lparr>sm_autolock := sm_autolock s + 1\<rparr>
      | L_failed \<Rightarrow> s\<lparr>sm_failed := sm_failed s + 1, sm_lastFailed := or_str (sm_lastFailed s) (event_when ev)\<rparr>
      | L_unknown \<Rightarrow> s)"

definition summarizeIosLockEvents :: "IosLockEvent list \<Rightarrow> IosLockStateSummary" where
  "summarizeIosLockEvents events = foldl count_lock_event
     \<lparr>sm_unlocked = 0, sm_locked = 0, sm_autolock = 0, sm_failed = 0, sm_lastUnlocked = [],
      sm_lastLocked = [], sm_lastFailed = []\<rparr> events"

section \<open>Queries\<close>

definition eq :: "string \<Rightarrow> string \<Rightarrow> string" where
  "eq k v = k @ ''='' @ quoted v"

definition any_of :: "string list \<Rightarrow> string" where
  "any_of cs = join '' OR '' cs"

definition both :: "string \<Rightarrow> string list \<Rightarrow> string" where
  "both c cs = ''('' @ c @ '' AND ('' @ any_of cs @ ''))''"

definition LOCK_FIELDS :: "string list" where
  "LOCK_FIELDS = [''lock_status=*'', ''auto_lock_type=*'', ''is_locked=*'', ''auth_success=*'',
     eq ''event_type'' ''authentication_event'']"

definition iosLockStateQuery :: "string \<Rightarrow> nat \<Rightarrow> string" where
  "iosLockStateQuery source n =
     eq ''source'' (escapeMplString source) @ '' (''
     @ any_of (LOCK_FIELDS @
        [both (eq ''parser'' ''powerlogs'')
           [eq ''timestamp_desc'' ''Lock State'', eq ''timestamp_desc'' ''Screen Unlock State'',
            eq ''message'' ''Lock State*'', eq ''message'' ''Screen Unlock State*'', eq ''message'' ''*DEVICE UNLOCKED*'',
            eq ''message'' ''*DEVICE LOCKED*'', eq ''message'' ''*lock status=*''],
         both (eq ''parser'' ''knowledgec'')
           [eq ''timestamp_desc'' ''Device Lock Status'', eq ''timestamp_desc'' ''Keybag Lock Status'',
            eq ''message'' ''Device Lock Status*'', eq ''message'' ''Keybag Lock Status*''],
         both (eq ''parser'' ''logarchive'')
           [eq ''message'' ''*Unlock attempt succeeded*'', eq ''message'' ''*Processed authentication request*'',
            eq ''message'' ''*identity match failed*'', eq ''message'' ''*processMatchFailReason*'',
            eq ''message'' ''*bio unlocked*'', eq ''message'' ''*Passcode authentication*'',
            eq ''message'' ''*Biometry is locked*'', eq ''message'' ''*needs passcode bio lockout*'',
            eq ''timestamp_desc'' ''Authentication Failed'', eq ''timestamp_desc'' ''Authentication Succeeded''],
         ''('' @ eq ''parser'' ''lockdownd'' @ '' AND '' @ eq ''message'' ''*Passcode authentication*'' @ '')''])
     @ '') | fields timestamp, datetime, parser, message, timestamp_desc, lock_status, is_locked, auto_lock_type, auth_success, auth_type, success, event_type, ext | sort -timestamp | head ''
     @ nat_str n"

definition iosLockStateSearchQuery :: "string \<Rightarrow> string" where
  "iosLockStateSearchQuery source =
     eq ''source'' (escapeMplString source) @ '' (''
     @ any_of (LOCK_FIELDS @
        [eq ''message'' ''*Unlock attempt succeeded*'', eq ''message'' ''*Processed authentication request*'',
         eq ''message'' ''*identity match failed*'', eq ''message'' ''*processMatchFailReason*'',
         eq ''message'' ''*Passcode authentication*'', eq ''message'' ''*Biometry is locked*'',
         eq ''message'' ''*needs passcode bio lockout*'', eq ''timestamp_desc'' ''Lock State'',
         eq ''timestamp_desc'' ''Device Lock Status'', eq ''timestamp_desc'' ''Screen Unlock State'',
         eq ''message'' ''*DEVICE UNLOCKED*'', eq ''message'' ''Lock State*'', eq ''message'' ''*lock status=*''])
     @ '') | sort -timestamp | head 500''"

end
