(* ===== verification/IosLockFacts.thy ===== *)
theory IosLockFacts
  imports IosLockState
begin

text \<open>
  Facts on \<open>iosLockState.ts\<close>: which rows are failures, which are auto-locks, and that the list of
  events is complete, newest first, with a summary that counts it and names the latest of each kind.
\<close>

section \<open>Kinds\<close>

lemma contains_iff: "contains p s \<longleftrightarrow> (\<exists>a b. s = a @ p @ b)"
proof (induction s)
  case (Cons c s)
  have "(\<exists>a b. c # s = a @ p @ b) \<longleftrightarrow> starts_with p (c # s) \<or> (\<exists>a b. s = a @ p @ b)"
    by (auto simp: starts_with_iff Cons_eq_append_conv)
  with Cons show ?case by simp
qed simp

lemma contains_part: "contains (a @ p @ b) s \<Longrightarrow> contains p s"
  unfolding contains_iff by (metis append_assoc)

text \<open>The branch for auto-locks of \<open>normalizeLockKind\<close> is never reached: its texts contain \<open>lock\<close>.\<close>

lemma autolock_unreachable: "normalizeLockKind raw \<noteq> L_autolock"
proof -
  have "contains ''lock'' v" if "contains ''autolock'' v \<or> contains ''auto lock'' v" for v
    using that contains_part [of "''auto''" "''lock''" "[]" v] contains_part [of "''auto ''" "''lock''" "[]" v] by auto
  then show ?thesis by (auto simp: normalizeLockKind_def Let_def)
qed

lemma autolock_row_shown_locked: "normalizeLockKind ''Autolock'' = L_locked"
  by (simp add: normalizeLockKind_def Let_def replace_char_def trim_def trim_end_def trim_start_def to_lower_def
      lower_char_def is_upper_def is_space_def code_def char_of_def starts_with_def)

text \<open>The status of a row tells its kind, or nothing.\<close>

definition told_kind :: "JsonParse \<Rightarrow> Row \<Rightarrow> IosLockKind" where
  "told_kind parse row = normalizeLockKind (status_text row (parseExt parse row) (strField row ''message''))"

definition row_failed :: "JsonParse \<Rightarrow> Row \<Rightarrow> bool" where
  "row_failed parse row \<longleftrightarrow> looks_failed row (parseExt parse row) (strField row ''message'')"

definition row_succeeded :: "JsonParse \<Rightarrow> Row \<Rightarrow> bool" where
  "row_succeeded parse row \<longleftrightarrow> looks_succeeded row (parseExt parse row) (strField row ''message'')"

lemma row_kind_failed: "row_kind row ext message desc = L_failed \<longleftrightarrow> normalizeLockKind (status_text row ext message) = L_failed"
  by (auto simp: row_kind_def Let_def)

lemma row_kind_autolock: "row_kind row ext message desc = L_autolock \<longleftrightarrow>
    normalizeLockKind (status_text row ext message) = L_unknown \<and> \<not> looks_succeeded row ext message \<and> screen_unlock desc message"
  using autolock_unreachable by (auto simp: row_kind_def Let_def)

text \<open>
  A row is shown as a failure exactly when it reports a failed authentication or its status says so,
  whatever else it says; as an auto-lock exactly when it does neither, its status tells nothing, no
  success is reported and it is titled as a change of the screen lock. Noise of the boot is never an
  event, and nothing else hides a reported failure.
\<close>

lemma lock_event_kinds:
  "case parseIosLockEvent parse D row of
     None \<Rightarrow> \<not> (row_failed parse row \<and> \<not> auth_noise (strField row ''message''))
   | Some ev \<Rightarrow>
       \<not> auth_noise (strField row ''message'')
       \<and> (le_kind ev = L_failed) = (row_failed parse row \<or> told_kind parse row = L_failed)
       \<and> (le_kind ev = L_autolock) =
           (\<not> row_failed parse row \<and> told_kind parse row = L_unknown \<and> \<not> row_succeeded parse row
            \<and> screen_unlock (strField row ''timestamp_desc'') (strField row ''message''))"
proof -
  have failed: "le_kind (failed_event parse D row) = L_failed" by (simp add: failed_event_def Let_def)
  have other: "le_kind (lock_event parse D row k) = k" for k by (simp add: lock_event_def Let_def)
  show ?thesis
    by (simp add: parseIosLockEvent_def Let_def failed other row_kind_failed row_kind_autolock
        row_failed_def row_succeeded_def told_kind_def is_lock_activity_def is_auth_event_def)
qed

section \<open>Lists\<close>

interpretation newest_first: comparator compare_lock_events
  by unfold_locales (auto simp: compare_lock_events_def)

lemma summary_snoc: "summarizeIosLockEvents (evs @ [ev]) = count_lock_event (summarizeIosLockEvents evs) ev"
  by (simp add: summarizeIosLockEvents_def)

definition count_kind :: "IosLockKind \<Rightarrow> IosLockEvent list \<Rightarrow> nat" where
  "count_kind k evs = length (filter (\<lambda>ev. le_kind ev = k) evs)"

text \<open>The time shown of the first event of a kind that has one.\<close>

definition first_when :: "IosLockKind \<Rightarrow> IosLockEvent list \<Rightarrow> string" where
  "first_when k evs = (case find (\<lambda>ev. le_kind ev = k \<and> event_when ev \<noteq> []) evs of Some ev \<Rightarrow> event_when ev | None \<Rightarrow> [])"

lemma find_snoc: "find P (xs @ [x]) = (case find P xs of Some y \<Rightarrow> Some y | None \<Rightarrow> if P x then Some x else None)"
  by (induction xs) simp_all

lemma first_when_snoc:
  "first_when k (evs @ [ev]) = (if le_kind ev = k then or_str (first_when k evs) (event_when ev) else first_when k evs)"
proof -
  have "event_when e \<noteq> []" if "find (\<lambda>ev. le_kind ev = k \<and> event_when ev \<noteq> []) evs = Some e" for e
    using that by (auto simp: find_Some_iff)
  then show ?thesis by (auto simp: first_when_def find_snoc or_str_def split: option.splits)
qed

lemma summary_of:
  "let s = summarizeIosLockEvents evs in
     sm_unlocked s = count_kind L_unlocked evs \<and> sm_locked s = count_kind L_locked evs
     \<and> sm_autolock s = count_kind L_autolock evs \<and> sm_failed s = count_kind L_failed evs
     \<and> sm_lastUnlocked s = first_when L_unlocked evs \<and> sm_lastLocked s = first_when L_locked evs
     \<and> sm_lastFailed s = first_when L_failed evs"
proof (induction evs rule: rev_induct)
  case Nil
  then show ?case by (simp add: summarizeIosLockEvents_def count_kind_def first_when_def)
next
  case (snoc ev evs)
  then show ?case
    by (cases "le_kind ev")
      (simp_all add: Let_def summary_snoc count_lock_event_def count_kind_def first_when_snoc)
qed

lemma counts_total: "count_kind L_unlocked evs + count_kind L_locked evs + count_kind L_autolock evs
    + count_kind L_failed evs + count_kind L_unknown evs = length evs"
proof (induction evs)
  case (Cons ev evs)
  then show ?case by (cases "le_kind ev") (simp_all add: count_kind_def)
qed (simp add: count_kind_def)

text \<open>
  The list of lock events holds every classified row once, newest first; its summary counts the events
  of each kind, all but the unknown, and gives as the last time of a kind the one of its newest event that
  has a time.
\<close>

lemma lock_events_summarized:
  "let evs = iosLockEventsFromRows parse D rows; s = summarizeIosLockEvents evs in
     mset evs = mset (List.map_filter (parseIosLockEvent parse D) rows)
     \<and> sorted_wrt (\<lambda>a b. le_sortKey b \<le> le_sortKey a) evs
     \<and> sm_unlocked s + sm_locked s + sm_autolock s + sm_failed s + count_kind L_unknown evs = length evs
     \<and> sm_lastUnlocked s = first_when L_unlocked evs \<and> sm_lastLocked s = first_when L_locked evs
     \<and> sm_lastFailed s = first_when L_failed evs"
proof -
  have "sorted_wrt (\<lambda>a b. le_sortKey b \<le> le_sortKey a) (iosLockEventsFromRows parse D rows)"
    using newest_first.ordered_sort [of "List.map_filter (parseIosLockEvent parse D) rows"]
    by (simp add: iosLockEventsFromRows_def compare_lock_events_def)
  then show ?thesis
    using summary_of [of "iosLockEventsFromRows parse D rows"] counts_total [of "iosLockEventsFromRows parse D rows"]
    by (simp add: Let_def iosLockEventsFromRows_def)
qed

end
