(* ===== verification/PowerHistory.thy ===== *)
theory PowerHistory
  imports MplQuery Ordering
begin

text \<open>
  The power panel of a case, \<open>src/mobipwn-web/src/lib/powerHistory.ts\<close>: history events of their own and
  those nested in reset blocks are merged without duplicates, sorted, and shown. Dates of the platform
  are the argument of type \<open>PowerDates\<close>, \<open>JSON.parse\<close> is \<open>parse\<close>, and \<open>localeCompare\<close> is \<open>compare\<close>; numbers
  are integers, and the names of \<open>ext\<close> members are not those of inherited members of objects.
\<close>

section \<open>Times\<close>

text \<open>
  \<open>new Date(year, month, day, hour, minute, second)\<close> in local time (which is never invalid for such small
  numbers), \<open>new Date(text)\<close>, the local year, month and day of a date, and its locale format.
\<close>

record PowerDates =
  local_ms :: "int \<Rightarrow> int \<Rightarrow> int \<Rightarrow> int \<Rightarrow> int \<Rightarrow> int \<Rightarrow> int"
  parse_date :: "string \<Rightarrow> int option"
  local_day :: "int \<Rightarrow> int \<times> int \<times> int"
  format_date :: "int \<Rightarrow> string"

definition two :: regex where
  "two = Seq Digit Digit"

definition entry_re :: regex where
  "entry_re = Seqs [Bol, Grp 1 two, Lit ''/'', Grp 2 two, Lit ''/'', Grp 3 two, Plus Space,
     Grp 4 two, Lit '':'', Grp 5 two, Lit '':'', Grp 6 two, Eol]"

definition group_int :: "nat \<Rightarrow> match \<Rightarrow> int" where
  "group_int n m = int (digits_val 10 (get_or [] (group n m)))"

definition group_text :: "nat \<Rightarrow> match \<Rightarrow> string" where
  "group_text n m = get_or [] (group n m)"

definition parseEntryTimestamp :: "PowerDates \<Rightarrow> string \<Rightarrow> int option" where
  "parseEntryTimestamp D val =
     (case exec entry_re (trim val) of
        None \<Rightarrow> None
      | Some m \<Rightarrow> Some (local_ms D (2000 + group_int 1 m) (group_int 2 m - 1) (group_int 3 m) (group_int 4 m)
          (group_int 5 m) (group_int 6 m)))"

definition formatOffsetForIso :: "string \<Rightarrow> string" where
  "formatOffsetForIso offset = take 3 offset @ '':'' @ drop 3 offset"

definition full_re :: regex where
  "full_re = Seqs [Bol, Grp 1 (Seq two two), Lit ''-'', Grp 2 two, Lit ''-'', Grp 3 two, Plus Space,
     Grp 4 two, Lit '':'', Grp 5 two, Lit '':'', Grp 6 two, Grp 7 (Seqs [One_of ''+-'', two, two]), Eol]"

definition time_re :: regex where
  "time_re = Seqs [Bol, Grp 1 two, Lit '':'', Grp 2 two, Lit '':'', Grp 3 two,
     Grp 4 (Seqs [One_of ''+-'', two, two]), Eol]"

definition tryParseDate :: "PowerDates \<Rightarrow> string \<Rightarrow> int option" where
  "tryParseDate D val =
     (let trimmed = trim val;
          by_number = (case js_number trimmed of
              Some n \<Rightarrow> (if n > 0 then
                  let ms = (if n > 100000000000000 then n div 1000 else n)
                  in if ms \<le> 8640000000000000 then Some ms else None
                else None)
            | None \<Rightarrow> None)
      in if trimmed = [] then None else or_else by_number (parse_date D trimmed))"

definition parsePowerEventTimestamp :: "PowerDates \<Rightarrow> string \<Rightarrow> int option \<Rightarrow> int option" where
  "parsePowerEventTimestamp D val anchor =
     (let trimmed = trim val in
      if trimmed = [] then None
      else case exec full_re trimmed of
        Some m \<Rightarrow> parse_date D (group_text 1 m @ ''-'' @ group_text 2 m @ ''-'' @ group_text 3 m @ ''T'' @ group_text 4 m
            @ '':'' @ group_text 5 m @ '':'' @ group_text 6 m @ formatOffsetForIso (group_text 7 m))
      | None \<Rightarrow>
          (case (exec time_re trimmed, anchor) of
             (Some m, Some a) \<Rightarrow>
               (case local_day D a of (y, mo, day) \<Rightarrow>
                  parse_date D (int_str y @ ''-'' @ pad_zeros 2 (int_str (mo + 1)) @ ''-'' @ pad_zeros 2 (int_str day) @ ''T''
                    @ group_text 1 m @ '':'' @ group_text 2 m @ '':'' @ group_text 3 m @ formatOffsetForIso (group_text 4 m)))
           | _ \<Rightarrow> tryParseDate D trimmed))"

definition formatPowerTimestamp :: "PowerDates \<Rightarrow> string \<Rightarrow> string" where
  "formatPowerTimestamp D val =
     (if trim val = [] then []
      else case or_else (parseEntryTimestamp D val) (or_else (parsePowerEventTimestamp D val None) (tryParseDate D val)) of
        Some d \<Rightarrow> format_date D d
      | None \<Rightarrow> trim val)"

section \<open>Rows\<close>

text \<open>\<open>strField\<close> and \<open>parseExt\<close> are those of \<open>rowExt.ts\<close>; \<open>extField\<close> prints every value with \<open>String\<close>.\<close>

definition power_extField :: "JsonParse \<Rightarrow> Row \<Rightarrow> string \<Rightarrow> string" where
  "power_extField parse row key =
     (case present (map_of (parseExt parse row) key) of None \<Rightarrow> [] | Some v \<Rightarrow> trim (js_text v))"

definition eventTimeBinding :: "JsonParse \<Rightarrow> Row \<Rightarrow> string" where
  "eventTimeBinding parse row =
     or_str (strField row ''event_time_binding'') (power_extField parse row ''event_time_binding'')"

definition text_or_empty :: "Json option \<Rightarrow> string" where
  "text_or_empty v = (case present v of None \<Rightarrow> [] | Some w \<Rightarrow> js_text w)"

fun first_power_date :: "PowerDates \<Rightarrow> int option \<Rightarrow> Json option list \<Rightarrow> int option" where
  "first_power_date D anchor [] = None"
| "first_power_date D anchor (raw # raws) =
     (let s = trim (text_or_empty raw);
          d = or_else (parsePowerEventTimestamp D s anchor) (or_else (parseEntryTimestamp D s) (tryParseDate D s))
      in if s = [] then first_power_date D anchor raws
         else case d of Some ms \<Rightarrow> Some ms | None \<Rightarrow> first_power_date D anchor raws)"

definition parsePowerRowDate :: "JsonParse \<Rightarrow> PowerDates \<Rightarrow> Row \<Rightarrow> int option" where
  "parsePowerRowDate parse D row =
     (let ext = parseExt parse row;
          anchor = parseEntryTimestamp D (text_or_empty (map_of ext ''entry_timestamp''));
          binding = eventTimeBinding parse row; ch = strField row ''timestamp''
      in case first_power_date D anchor
             [map_of ext ''timestamp'', map_of ext ''entry_timestamp'', map_of row ''datetime''] of
           Some d \<Rightarrow> Some d
         | None \<Rightarrow>
             (if binding = ''snapshot_only'' then None
              else if ch \<noteq> [] \<and> binding = ''per_record'' then tryParseDate D ch else None))"

definition powerEventSortMs :: "JsonParse \<Rightarrow> PowerDates \<Rightarrow> Row \<Rightarrow> int" where
  "powerEventSortMs parse D row =
     (case map_of row ''_powerSortMs'' of
        Some (JNum pinned) \<Rightarrow> (if pinned > 0 then pinned else get_or 0 (parsePowerRowDate parse D row))
      | _ \<Rightarrow> get_or 0 (parsePowerRowDate parse D row))"

definition powerRowTimestamp :: "JsonParse \<Rightarrow> PowerDates \<Rightarrow> Row \<Rightarrow> string" where
  "powerRowTimestamp parse D row =
     (case parsePowerRowDate parse D row of
        Some d \<Rightarrow> format_date D d
      | None \<Rightarrow>
          (let raw = or_str (power_extField parse row ''timestamp'')
                (or_str (power_extField parse row ''entry_timestamp'') (strField row ''datetime''))
           in if raw \<noteq> [] then formatPowerTimestamp D raw else []))"

datatype PowerRowKind = P_history | P_reset

definition classifyPowerRow :: "JsonParse \<Rightarrow> Row \<Rightarrow> PowerRowKind" where
  "classifyPowerRow parse row =
     (let dt = to_lower (strField row ''data_type'');
          desc = or_str (power_extField parse row ''event_type'') (strField row ''timestamp_desc'')
      in if contains ''reset'' dt \<or> desc = ''reset_reason'' then P_reset else P_history)"

definition powerEventType :: "JsonParse \<Rightarrow> Row \<Rightarrow> string" where
  "powerEventType parse row =
     or_str (strField row ''action'') (or_str (power_extField parse row ''event_type'') ''event'')"

definition powerFlags :: "JsonParse \<Rightarrow> Row \<Rightarrow> string" where
  "powerFlags parse row = power_extField parse row ''flags''"

definition powerDetails :: "JsonParse \<Rightarrow> Row \<Rightarrow> string" where
  "powerDetails parse row = or_str (power_extField parse row ''details'') (strField row ''message'')"

definition powerResetReason :: "JsonParse \<Rightarrow> Row \<Rightarrow> string" where
  "powerResetReason parse row =
     or_str (strField row ''action'') (or_str (power_extField parse row ''reason'') (strField row ''message''))"

definition powerStringList :: "Json option \<Rightarrow> string list" where
  "powerStringList val =
     (case val of
        Some (JArr xs) \<Rightarrow> nonempty (map (\<lambda>x. trim (js_text x)) xs)
      | Some (JStr s) \<Rightarrow> (if trim s \<noteq> [] then nonempty (map trim (split_char (CHR 0x0A) s)) else [])
      | _ \<Rightarrow> [])"

definition powerStackTrace :: "JsonParse \<Rightarrow> Row \<Rightarrow> string list" where
  "powerStackTrace parse row = powerStringList (map_of (parseExt parse row) ''stack_trace'')"

section \<open>The summary\<close>

record PowerSummary =
  ps_history :: nat
  ps_reset :: nat
  ps_shutdown :: nat
  ps_reboot :: nat

definition count_power_row :: "JsonParse \<Rightarrow> PowerSummary \<Rightarrow> Row \<Rightarrow> PowerSummary" where
  "count_power_row parse s row =
     (case classifyPowerRow parse row of
        P_reset \<Rightarrow> s\<lparr>ps_reset := ps_reset s + 1\<rparr>
      | P_history \<Rightarrow>
          (let et = to_upper (powerEventType parse row) in
           s\<lparr>ps_history := ps_history s + 1,
             ps_shutdown := ps_shutdown s + (if contains ''SHUTDOWN'' et then 1 else 0),
             ps_reboot := ps_reboot s + (if contains ''REBOOT'' et then 1 else 0)\<rparr>))"

definition summarizePowerRows :: "JsonParse \<Rightarrow> Row list \<Rightarrow> PowerSummary" where
  "summarizePowerRows parse rows =
     foldl (count_power_row parse) \<lparr>ps_history = 0, ps_reset = 0, ps_shutdown = 0, ps_reboot = 0\<rparr> rows"

section \<open>Merging\<close>

text \<open>\<open>ev.k ?? ""\<close>\<close>

definition member_or_empty :: "(string \<times> Json) list \<Rightarrow> string \<Rightarrow> Json" where
  "member_or_empty ev k = get_or (JStr []) (present (map_of ev k))"

definition nested_row :: "PowerDates \<Rightarrow> string \<Rightarrow> (string \<times> Json) list \<Rightarrow> Row" where
  "nested_row D anchorStr ev =
     (let anchor = parseEntryTimestamp D anchorStr;
          eventTs = trim (text_or_empty (map_of ev ''timestamp''));
          parsed = (if eventTs \<noteq> [] then parsePowerEventTimestamp D eventTs anchor else anchor)
      in [(''ext'', JObj [(''event_type'', member_or_empty ev ''event_type''), (''flags'', member_or_empty ev ''flags''),
            (''details'', member_or_empty ev ''details''), (''timestamp'', JStr eventTs),
            (''entry_timestamp'', JStr anchorStr)]),
          (''_powerSortMs'', JNum (get_or 0 parsed))])"

definition expandNestedHistoryEvents :: "JsonParse \<Rightarrow> PowerDates \<Rightarrow> Row \<Rightarrow> Row list" where
  "expandNestedHistoryEvents parse D resetRow =
     (let ext = parseExt parse resetRow;
          anchorStr = trim (text_or_empty (map_of ext ''entry_timestamp''))
      in case map_of ext ''history_events'' of
           Some (JArr items) \<Rightarrow>
             List.map_filter (\<lambda>item. case item of JObj ev \<Rightarrow> Some (nested_row D anchorStr ev) | _ \<Rightarrow> None) items
         | _ \<Rightarrow> [])"

definition compare_power :: "JsonParse \<Rightarrow> PowerDates \<Rightarrow> Row \<Rightarrow> Row \<Rightarrow> int" where
  "compare_power parse D a b = powerEventSortMs parse D b - powerEventSortMs parse D a"

definition powerResetEvents :: "JsonParse \<Rightarrow> PowerDates \<Rightarrow> Row list \<Rightarrow> Row list" where
  "powerResetEvents parse D rows =
     js_sort (compare_power parse D) (filter (\<lambda>r. classifyPowerRow parse r = P_reset) rows)"

definition historyEventKey :: "JsonParse \<Rightarrow> Row \<Rightarrow> string" where
  "historyEventKey parse row =
     join ''|'' [powerEventType parse row,
       (case present (map_of (parseExt parse row) ''timestamp'') of
          Some v \<Rightarrow> js_text v
        | None \<Rightarrow> power_extField parse row ''timestamp''),
       powerFlags parse row, power_extField parse row ''details'', power_extField parse row ''entry_timestamp'']"

definition standalone_events :: "JsonParse \<Rightarrow> Row list \<Rightarrow> Row list" where
  "standalone_events parse rows = filter (\<lambda>r. classifyPowerRow parse r = P_history) rows"

definition nested_events :: "JsonParse \<Rightarrow> PowerDates \<Rightarrow> Row list \<Rightarrow> Row list" where
  "nested_events parse D rows =
     concat (map (\<lambda>r. if classifyPowerRow parse r \<noteq> P_reset then [] else expandNestedHistoryEvents parse D r) rows)"

text \<open>Both loops share the set of seen keys, so they are one pass over the two lists.\<close>

definition powerAllHistoryEvents :: "JsonParse \<Rightarrow> PowerDates \<Rightarrow> Row list \<Rightarrow> Row list" where
  "powerAllHistoryEvents parse D rows =
     js_sort (compare_power parse D)
       (first_of_keys (historyEventKey parse) [] (standalone_events parse rows @ nested_events parse D rows))"

definition powerHistoryEvents :: "JsonParse \<Rightarrow> PowerDates \<Rightarrow> Row list \<Rightarrow> Row list" where
  "powerHistoryEvents parse D rows = powerAllHistoryEvents parse D rows"

section \<open>Views\<close>

definition POWER_SKIP_EXT_KEYS :: "string list" where
  "POWER_SKIP_EXT_KEYS = [''event_type'', ''flags'', ''details'', ''timestamp'', ''entry_timestamp'', ''reason'',
     ''stack_trace'', ''history_events'', ''other_lines'', ''event_time_binding'']"

definition humanizePowerKey :: "string \<Rightarrow> string" where
  "humanizePowerKey key =
     get_or (replace_char (CHR ''_'') '' '' key)
       (map_of [(''entry_timestamp'', ''Reset block time''), (''event_time_binding'', ''Time binding''),
          (''timestamp_desc'', ''Timestamp desc'')] key)"

record PowerField =
  pf_key :: string
  pf_label :: string
  pf_value :: string

definition power_field :: "string \<Rightarrow> string \<Rightarrow> PowerField" where
  "power_field key val = \<lparr>pf_key = key, pf_label = humanizePowerKey key, pf_value = val\<rparr>"

definition ext_fields :: "string list \<Rightarrow> Row \<Rightarrow> PowerField list" where
  "ext_fields skip ext =
     List.map_filter (\<lambda>(key, val).
       if key \<in> set skip then None
       else case val of
           JNull \<Rightarrow> None
         | JArr xs \<Rightarrow> None
         | JObj kvs \<Rightarrow> None
         | v \<Rightarrow> (if trim (js_text v) = [] then None else Some (power_field key (trim (js_text v))))) ext"

definition row_fields :: "JsonParse \<Rightarrow> Row \<Rightarrow> string list \<Rightarrow> PowerField list" where
  "row_fields parse row seen =
     List.map_filter (\<lambda>key.
       let s = or_str (strField row key) (power_extField parse row key) in
       if key \<in> set seen \<or> s = [] then None else Some (power_field key s))
       [''data_type'', ''event_time_binding'', ''timestamp_desc'']"

definition extraPowerFields :: "JsonParse \<Rightarrow> (string \<Rightarrow> string \<Rightarrow> int) \<Rightarrow> Row \<Rightarrow> PowerField list" where
  "extraPowerFields parse compare row =
     (let own = ext_fields POWER_SKIP_EXT_KEYS (parseExt parse row)
      in js_sort (\<lambda>a b. compare (pf_label a) (pf_label b)) (own @ row_fields parse row (map pf_key own)))"

record PowerHistoryEventView =
  hv_when :: string
  hv_eventType :: string
  hv_flags :: string
  hv_details :: string
  hv_entryTimestamp :: string
  hv_extraFields :: "PowerField list"

record PowerResetView =
  rv_when :: string
  rv_entryTimestamp :: string
  rv_reason :: string
  rv_stackTrace :: "string list"
  rv_otherLines :: "string list"
  rv_nestedHistory :: "PowerHistoryEventView list"
  rv_extraFields :: "PowerField list"

record PowerPanelView =
  pv_summary :: PowerSummary
  pv_history :: "PowerHistoryEventView list"
  pv_resets :: "PowerResetView list"
  pv_totalRows :: nat

definition powerHistoryEventView ::
  "JsonParse \<Rightarrow> PowerDates \<Rightarrow> (string \<Rightarrow> string \<Rightarrow> int) \<Rightarrow> Row \<Rightarrow> PowerHistoryEventView" where
  "powerHistoryEventView parse D compare row =
     \<lparr>hv_when = powerRowTimestamp parse D row, hv_eventType = powerEventType parse row,
      hv_flags = powerFlags parse row,
      hv_details = or_str (power_extField parse row ''details'') (strField row ''message''),
      hv_entryTimestamp = power_extField parse row ''entry_timestamp'',
      hv_extraFields = extraPowerFields parse compare row\<rparr>"

definition powerResetView ::
  "JsonParse \<Rightarrow> PowerDates \<Rightarrow> (string \<Rightarrow> string \<Rightarrow> int) \<Rightarrow> Row \<Rightarrow> PowerResetView" where
  "powerResetView parse D compare row =
     \<lparr>rv_when = powerRowTimestamp parse D row,
      rv_entryTimestamp = power_extField parse row ''entry_timestamp'',
      rv_reason = powerResetReason parse row, rv_stackTrace = powerStackTrace parse row,
      rv_otherLines = powerStringList (map_of (parseExt parse row) ''other_lines''),
      rv_nestedHistory = map (powerHistoryEventView parse D compare) (expandNestedHistoryEvents parse D row),
      rv_extraFields = extraPowerFields parse compare row\<rparr>"

definition powerPanelViewFromRows ::
  "JsonParse \<Rightarrow> PowerDates \<Rightarrow> (string \<Rightarrow> string \<Rightarrow> int) \<Rightarrow> Row list \<Rightarrow> PowerPanelView option" where
  "powerPanelViewFromRows parse D compare rows =
     (if rows = [] then None
      else Some \<lparr>pv_summary = summarizePowerRows parse rows,
        pv_history = map (powerHistoryEventView parse D compare) (powerAllHistoryEvents parse D rows),
        pv_resets = map (powerResetView parse D compare) (powerResetEvents parse D rows),
        pv_totalRows = length rows\<rparr>)"

definition powerHistoryQuery :: "string \<Rightarrow> string" where
  "powerHistoryQuery source =
     ''source='' @ quoted (escapeMplString source) @ '' parser='' @ quoted ''Power''
     @ '' | fields timestamp, datetime, action, message, data_type, event_time_binding, timestamp_desc, ext | sort -timestamp | head 120''"

section \<open>Facts\<close>

interpretation newest_power: comparator "compare_power parse D" for parse D
  by unfold_locales (auto simp: compare_power_def)

lemma summary_counts:
  "ps_history (summarizePowerRows parse rows) = length (standalone_events parse rows)
   \<and> ps_reset (summarizePowerRows parse rows) = length (filter (\<lambda>r. classifyPowerRow parse r = P_reset) rows)
   \<and> ps_shutdown (summarizePowerRows parse rows)
      = length (filter (\<lambda>r. contains ''SHUTDOWN'' (to_upper (powerEventType parse r))) (standalone_events parse rows))
   \<and> ps_reboot (summarizePowerRows parse rows)
      = length (filter (\<lambda>r. contains ''REBOOT'' (to_upper (powerEventType parse r))) (standalone_events parse rows))"
proof (induction rows rule: rev_induct)
  case (snoc r rows)
  have "summarizePowerRows parse (rows @ [r]) = count_power_row parse (summarizePowerRows parse rows) r"
    by (simp add: summarizePowerRows_def)
  with snoc show ?case
    by (cases "classifyPowerRow parse r") (simp_all add: count_power_row_def standalone_events_def Let_def)
qed (simp add: summarizePowerRows_def standalone_events_def)

lemma kinds_partition:
  "length (standalone_events parse rows) + length (filter (\<lambda>r. classifyPowerRow parse r = P_reset) rows) = length rows"
proof (induction rows)
  case (Cons r rows)
  then show ?case by (cases "classifyPowerRow parse r") (simp_all add: standalone_events_def)
qed (simp add: standalone_events_def)

text \<open>
  The history of the power panel has every history event of its own and of the reset blocks exactly once,
  by its key, and newest first; the resets are all there, newest first; the summary counts every row as
  one of the two.
\<close>

lemma power_panel_complete:
  "let events = powerAllHistoryEvents parse D rows; resets = powerResetEvents parse D rows;
       s = summarizePowerRows parse rows; key = historyEventKey parse
   in distinct (map key events)
      \<and> set (map key events) = set (map key (standalone_events parse rows)) \<union> set (map key (nested_events parse D rows))
      \<and> set events \<subseteq> set (standalone_events parse rows) \<union> set (nested_events parse D rows)
      \<and> sorted_wrt (\<lambda>a b. powerEventSortMs parse D b \<le> powerEventSortMs parse D a) events
      \<and> mset resets = mset (filter (\<lambda>r. classifyPowerRow parse r = P_reset) rows)
      \<and> sorted_wrt (\<lambda>a b. powerEventSortMs parse D b \<le> powerEventSortMs parse D a) resets
      \<and> ps_history s + ps_reset s = length rows"
proof -
  let ?all = "standalone_events parse rows @ nested_events parse D rows"
  let ?kept = "first_of_keys (historyEventKey parse) [] ?all"
  have sorted: "sorted_wrt (\<lambda>a b. powerEventSortMs parse D b \<le> powerEventSortMs parse D a) (js_sort (compare_power parse D) xs)" for xs
    using newest_power.ordered_sort [of parse D xs] by (simp add: compare_power_def)
  have keys: "mset (map (historyEventKey parse) (powerAllHistoryEvents parse D rows)) = mset (map (historyEventKey parse) ?kept)"
    by (simp add: powerAllHistoryEvents_def)
  have "distinct (map (historyEventKey parse) (powerAllHistoryEvents parse D rows))"
    using mset_eq_imp_distinct_iff [OF keys] first_of_keys_facts [of "historyEventKey parse" "[]" ?all] by blast
  moreover have "set (map (historyEventKey parse) (powerAllHistoryEvents parse D rows)) = set (map (historyEventKey parse) ?all)"
    using mset_eq_setD [OF keys] first_of_keys_facts [of "historyEventKey parse" "[]" ?all] by simp
  moreover have "set (powerAllHistoryEvents parse D rows) \<subseteq> set ?all"
    using first_of_keys_facts [of "historyEventKey parse" "[]" ?all] by (simp add: powerAllHistoryEvents_def)
  ultimately show ?thesis
    using summary_counts [of parse rows] kinds_partition [of parse rows] sorted
    by (simp add: Let_def powerResetEvents_def powerAllHistoryEvents_def image_Un)
qed

text \<open>Two different events share a key when a text holds the separator; one of them is not shown.\<close>

lemma separator_merges_events:
  "let a = [(''ext'', JObj [(''flags'', JStr ''x|y''), (''details'', JStr ''z'')])];
       b = [(''ext'', JObj [(''flags'', JStr ''x''), (''details'', JStr ''y|z'')])]
   in length (powerAllHistoryEvents (\<lambda>s. None) D [a, b]) = 1"
proof -
  let ?a = "[(''ext'', JObj [(''flags'', JStr ''x|y''), (''details'', JStr ''z'')])]"
  let ?b = "[(''ext'', JObj [(''flags'', JStr ''x''), (''details'', JStr ''y|z'')])]"
  have "historyEventKey (\<lambda>s. None) ?a = historyEventKey (\<lambda>s. None) ?b" by code_simp
  moreover have "classifyPowerRow (\<lambda>s. None) ?a = P_history" "classifyPowerRow (\<lambda>s. None) ?b = P_history" by code_simp+
  ultimately show ?thesis
    by (simp add: powerAllHistoryEvents_def standalone_events_def nested_events_def)
qed

end
