(* ===== verification/ProcessSnapshot.thy ===== *)
theory ProcessSnapshot
  imports MplQuery Ordering Grouping
begin

text \<open>
  The process list and the process events of a case, \<open>src/mobipwn-web/src/lib/processSnapshot.ts\<close>: rows
  of several parsers are read into processes, those of one process are merged, parents and arguments are
  filled in, and dated events are put on a timeline. \<open>JSON.parse\<close> is \<open>parse\<close>, \<open>localeCompare\<close> is
  \<open>compare\<close>, and dates of the platform are the argument of type \<open>Clock\<close>. Shares of the processor are
  exact: rational numbers, written as integers or as decimals in a text.
\<close>

section \<open>Numbers and times as text\<close>

text \<open>
  \<open>new Date(text).getTime()\<close>, which is \<open>Date.parse(text)\<close>, what is shown of a date, and \<open>Date.now()\<close>.
\<close>

record Clock =
  date_parse :: "string \<Rightarrow> int option"
  utc_year :: "int \<Rightarrow> int"
  iso_text :: "int \<Rightarrow> string"
  short_text :: "int \<Rightarrow> string"
  hour_text :: "int \<Rightarrow> string"
  day_text :: "int \<Rightarrow> string"
  now_ms :: int

text \<open>\<open>Number(text)\<close> on a decimal without an exponent.\<close>

definition unsigned_decimal :: "string \<Rightarrow> rat option" where
  "unsigned_decimal s =
     (case split_char (CHR ''.'') s of
        [a, b] \<Rightarrow> (if list_all is_digit (a @ b) \<and> a @ b \<noteq> []
                    then Some (of_nat (digits_val 10 (a @ b)) / of_nat (10 ^ length b)) else None)
      | _ \<Rightarrow> None)"

definition js_decimal :: "string \<Rightarrow> rat option" where
  "js_decimal text =
     (case js_number text of
        Some n \<Rightarrow> Some (of_int n)
      | None \<Rightarrow>
          (let s = trim text in
           if starts_with ''-'' s then map_option uminus (unsigned_decimal (drop 1 s))
           else if starts_with ''+'' s then unsigned_decimal (drop 1 s)
           else unsigned_decimal s))"

text \<open>\<open>numFromValue\<close> where fractions occur.\<close>

definition ratFromValue :: "Json option \<Rightarrow> rat option" where
  "ratFromValue v =
     (case present v of Some (JStr s) \<Rightarrow> js_decimal s | w \<Rightarrow> map_option of_int (numFromValue w))"

definition fixed_one :: "rat \<Rightarrow> string" where
  "fixed_one x =
     (case quotient_of \<bar>x\<bar> of (n, d) \<Rightarrow> (if x < 0 then ''-'' else []) @ to_fixed 1 (nat n) (nat d))"

definition formatCpuPercent :: "rat option \<Rightarrow> string" where
  "formatCpuPercent n =
     (case n of
        None \<Rightarrow> em_dash
      | Some x \<Rightarrow> (if x < 10 then fixed_one x @ ''%'' else int_str \<lfloor>x + 1 / 2\<rfloor> @ ''%''))"

definition androidPolicyLabel :: "string \<Rightarrow> string" where
  "androidPolicyLabel policy =
     (let c = to_lower (trim policy) in
      if c = [] then []
      else if c = ''fg'' then ''foreground''
      else if c = ''bg'' then ''background''
      else if c = ''ta'' then ''top-app''
      else if c = ''sf'' then ''system''
      else if c = ''ts'' then ''top-sleeping''
      else trim policy)"

definition two_units :: "int \<Rightarrow> string \<Rightarrow> int \<Rightarrow> string \<Rightarrow> string" where
  "two_units a u b v = int_str a @ u @ (if b \<noteq> 0 then '' '' @ int_str b @ v else [])"

definition formatUptimeSeconds :: "int option \<Rightarrow> string" where
  "formatUptimeSeconds seconds =
     (case seconds of
        None \<Rightarrow> []
      | Some s \<Rightarrow>
          if s < 0 then []
          else if s < 60 then int_str s @ ''s''
          else let m = s div 60 in
            if m < 60 then two_units m ''m'' (s mod 60) ''s''
            else let h = m div 60 in
              if h < 48 then two_units h ''h'' (m mod 60) ''m''
              else two_units (h div 24) ''d'' (h mod 24) ''h'')"

definition formatProcessStarted :: "Clock \<Rightarrow> string \<Rightarrow> string" where
  "formatProcessStarted C isoOrRaw =
     (if isoOrRaw = [] then []
      else case date_parse C isoOrRaw of None \<Rightarrow> isoOrRaw | Some d \<Rightarrow> short_text C d)"

definition fork_re :: regex where
  "fork_re = Seqs [Bol, Grp 1 (Seq (Plus Digit) (Opt (Seq (Lit ''.'') (Plus Digit)))), Star Space, Lit ''s'',
     Opt (Seq (Lit ''ec'') (Opt (Lit ''s''))), Eol]"

definition secs_word_re :: regex where
  "secs_word_re = Seqs [Bol, Grp 1 (Plus Digit), Star Space, Lit ''sec'']"

definition leading_re :: regex where
  "leading_re = Seqs [Bol, Grp 1 (Plus Digit), WordB]"

definition sec_re :: regex where
  "sec_re = Alts [Lit ''sec'', Seq (Lit ''s'') WordB]"

text \<open>\<open>Math.floor(Number(text))\<close> of digits and a fraction: the digits before the point.\<close>

definition whole_part :: "string \<Rightarrow> int" where
  "whole_part s = int (digits_val 10 (takeWhile is_digit s))"

definition first_group :: "match \<Rightarrow> string" where
  "first_group m = get_or [] (group 1 m)"

definition parseUptimeSeconds :: "string \<Rightarrow> int option" where
  "parseUptimeSeconds raw =
     (let s = to_lower (trim raw) in
      if s = [] then None
      else case exec fork_re s of
        Some m \<Rightarrow> Some (whole_part (first_group m))
      | None \<Rightarrow>
          (case exec secs_word_re s of
             Some m \<Rightarrow> Some (int (digits_val 10 (first_group m)))
           | None \<Rightarrow>
               (case exec leading_re s of
                  Some m \<Rightarrow> (if test sec_re s then Some (int (digits_val 10 (first_group m))) else None)
                | None \<Rightarrow> None)))"

section \<open>Timing and threads of a row\<close>

definition own_text :: "Row \<Rightarrow> string \<Rightarrow> string" where
  "own_text ext key = (case map_of ext key of Some (JStr s) \<Rightarrow> s | _ \<Rightarrow> [])"

record ProcessTiming =
  ti_startedAt :: string
  ti_uptime :: string
  ti_uptimeSeconds :: "int option"
  ti_startedEstimated :: bool

definition started_at :: "Clock \<Rightarrow> string \<Rightarrow> string \<Rightarrow> string" where
  "started_at C rawStart psStarted =
     (if rawStart = [] then psStarted
      else case date_parse C rawStart of
        Some d \<Rightarrow> (if utc_year C d \<ge> 2008 then iso_text C d else psStarted)
      | None \<Rightarrow> or_str psStarted (trim rawStart))"

definition processTiming :: "JsonParse \<Rightarrow> Clock \<Rightarrow> Row \<Rightarrow> Row \<Rightarrow> ProcessTiming" where
  "processTiming parse C row ext =
     (let runTime = or_str (own_text ext ''run time'') (or_str (own_text ext ''run_time'')
            (or_str (extField parse row ''run time'') (extField parse row ''run_time'')));
          sinceFork = or_str (own_text ext ''time_since_fork'') (extField parse row ''time_since_fork'');
          psStarted = or_str (own_text ext ''started'') (extField parse row ''started'');
          uptimeSeconds = or_else (parseUptimeSeconds runTime) (parseUptimeSeconds sinceFork);
          unread = (uptimeSeconds = None \<or> uptimeSeconds = Some 0);
          uptime = or_str (formatUptimeSeconds uptimeSeconds)
            (or_str (if unread then filter (\<lambda>c. \<not> is_space c) sinceFork else []) (if unread then runTime else []));
          tsDesc = to_lower (strField row ''timestamp_desc'');
          estimated = (contains ''process start'' tsDesc \<or> contains ''spindump'' tsDesc \<or> runTime \<noteq> [] \<or> sinceFork \<noteq> []);
          rawStart = or_str (strField row ''datetime'') (or_str (strField row ''timestamp'') (own_text ext ''datetime''));
          startedAt = started_at C rawStart psStarted
      in \<lparr>ti_startedAt = startedAt, ti_uptime = uptime, ti_uptimeSeconds = uptimeSeconds,
          ti_startedEstimated = (estimated \<and> (startedAt \<noteq> [] \<or> uptime \<noteq> []))\<rparr>)"

text \<open>The objects among the members of \<open>ext.threads\<close>; \<open>None\<close> when that is not an array.\<close>

definition threads_of :: "Row \<Rightarrow> Json list option" where
  "threads_of ext = (case map_of ext ''threads'' of Some (JArr ts) \<Rightarrow> Some ts | _ \<Rightarrow> None)"

fun objects :: "Json list \<Rightarrow> Row list" where
  "objects [] = []"
| "objects (JObj kvs # ts) = kvs # objects ts"
| "objects (t # ts) = objects ts"

definition sumThreadCpu :: "Row \<Rightarrow> rat option" where
  "sumThreadCpu ext =
     (case threads_of ext of
        None \<Rightarrow> None
      | Some ts \<Rightarrow>
          (case List.map_filter (\<lambda>rec. ratFromValue (map_of rec ''cpu_percent'')) (objects ts) of
             [] \<Rightarrow> None | cpus \<Rightarrow> Some (sum_list cpus)))"

definition status_of :: "Row \<Rightarrow> string" where
  "status_of rec = trim (own_text rec ''status'')"

definition mainThreadStatus :: "Row \<Rightarrow> int \<Rightarrow> string" where
  "mainThreadStatus ext pid =
     (case threads_of ext of
        None \<Rightarrow> []
      | Some ts \<Rightarrow>
          (case List.find (\<lambda>rec. pid > 0 \<and> numFromValue (map_of rec ''tid'') = Some pid) (objects ts) of
             Some rec \<Rightarrow> status_of rec
           | None \<Rightarrow> (case ts of JObj rec # _ \<Rightarrow> status_of rec | _ \<Rightarrow> [])))"

section \<open>Names and commands\<close>

definition first_word :: "string \<Rightarrow> string" where
  "first_word s = or_str (takeWhile (\<lambda>c. \<not> is_space c) s) s"

definition name_start :: regex where
  "name_start = Cls (\<lambda>c. is_upper c \<or> is_lower c \<or> c = CHR ''_'')"

definition thread_name_re :: regex where
  "thread_name_re = Seqs [Bol, name_start, Star (Cls (\<lambda>c. is_word c \<or> c \<in> set ''./:@+-'')), Eol]"

definition junk_re :: regex where
  "junk_re = Seqs [Bol, Grp 1 (Seq Digit (Upto 2 Digit)), Plus Space, Grp 2 (Seq (Cls (\<lambda>c. \<not> is_space c)) (Star Dot)), Eol]"

definition stripLeadingSchedulerJunk :: "string \<Rightarrow> string" where
  "stripLeadingSchedulerJunk name =
     (let t = trim name in
      case exec junk_re t of
        None \<Rightarrow> t
      | Some m \<Rightarrow>
          (let rest = trim (get_or [] (group 2 m)); first = first_word rest
           in if starts_with ''['' first \<or> starts_with ''/'' first \<or> test thread_name_re first then rest else t))"

definition bracketed :: "string \<Rightarrow> bool" where
  "bracketed t \<longleftrightarrow> starts_with ''['' t \<and> ends_with '']'' t"

definition bracketKernelThreadName :: "string \<Rightarrow> string \<Rightarrow> string" where
  "bracketKernelThreadName name parent =
     (let t = trim name in
      if t = [] \<or> bracketed t then t
      else if \<not> (test (LitI ''kthreadd'') parent \<or> trim parent = ''2'') then t
      else if test thread_name_re t then ''['' @ t @ '']''
      else t)"

definition strip_quotes :: "string \<Rightarrow> string" where
  "strip_quotes s =
     rev (dropWhile (\<lambda>c. c = CHR 0x22) (rev (dropWhile (\<lambda>c. c = CHR 0x22) s)))"

definition quoted_re :: regex where
  "quoted_re = Seqs [Chr (CHR 0x22), Grp 1 (Plus (None_of [CHR 0x22])), Chr (CHR 0x22)]"

definition ps_time_re :: regex where
  "ps_time_re = Seqs [Bol, Plus Digit, Lit '':'', Digit, Digit, Opt (Seqs [Lit '':'', Digit, Digit]),
     Opt (Seq (Lit ''.'') (Plus Digit)), Plus Space]"

definition name_text :: "JsonParse \<Rightarrow> Row \<Rightarrow> string" where
  "name_text parse row =
     (let nameRaw = or_str (extField parse row ''name'') (or_str (extField parse row ''process'')
            (or_str (strField row ''process_name'') (or_str (extField parse row ''cmd'') (extField parse row ''command''))));
          name = (case (test (LitI ''[unique ID:'') nameRaw, exec quoted_re nameRaw) of
              (True, Some m) \<Rightarrow> first_group m
            | _ \<Rightarrow> or_str (trim (strip_quotes nameRaw)) nameRaw)
      in stripLeadingSchedulerJunk (replace_first ps_time_re [] name))"

text \<open>A name of digits gives way to the first thread with a better one.\<close>

definition thread_name :: "Row \<Rightarrow> string" where
  "thread_name rec = stripLeadingSchedulerJunk (own_text rec ''name'')"

definition better_name :: "Row \<Rightarrow> string \<Rightarrow> string" where
  "better_name ext name =
     (case (digits_only name, threads_of ext) of
        (True, Some ts) \<Rightarrow>
          get_or name (List.find (\<lambda>tn. tn \<noteq> [] \<and> \<not> digits_only (first_word tn)) (map thread_name (objects ts)))
      | _ \<Rightarrow> name)"

definition unparen :: "string \<Rightarrow> string" where
  "unparen s =
     (let t = (if starts_with ''('' s then drop 1 s else s)
      in if ends_with '')'' t then butlast t else t)"

definition base_name :: "string \<Rightarrow> string" where
  "base_name name =
     (let bare = first_word name;
          base = (if starts_with ''/'' bare then or_str (last (split_char (CHR ''/'') bare)) bare else bare)
      in case index_of (CHR '':'') base of
           Some n \<Rightarrow> (if n > 0 \<and> \<not> bracketed base then take n base
                      else if base \<noteq> [] then unparen base else name)
         | None \<Rightarrow> (if base \<noteq> [] then unparen base else name))"

text \<open>\<open>{ exe, args }\<close>\<close>

definition splitProcessCommand :: "string \<Rightarrow> string \<times> string" where
  "splitProcessCommand command =
     (let cmd = trim (replace_first ps_time_re [] command); first = first_word cmd;
          exe = takeWhile (\<lambda>c. \<not> is_space c) cmd
      in if cmd = [] then ([], [])
         else if CHR '':'' \<in> set first \<and> \<not> starts_with ''/'' first then (cmd, [])
         else if exe = cmd then (cmd, [])
         else (exe, trim (drop (Suc (length exe)) cmd)))"

text \<open>\<open>{ uid, user }\<close> of a message; an absent one is empty.\<close>

definition as_re :: regex where
  "as_re = Seqs [WordB, Lit ''as'', Plus Space,
     Grp 1 (Alt (Plus Digit) (Seq name_start (Star (Cls (\<lambda>c. is_word c \<or> c \<in> set ''.-''))))), WordB]"

definition parseProcessAsToken :: "string \<Rightarrow> string \<times> string" where
  "parseProcessAsToken message =
     (case exec as_re message of
        None \<Rightarrow> ([], [])
      | Some m \<Rightarrow> (if digits_only (first_group m) then (first_group m, []) else ([], first_group m)))"

definition parent_re :: regex where
  "parent_re = Seqs [WordB, LitI ''parent='', Grp 1 (Plus (Cls (\<lambda>c. \<not> is_space c)))]"

section \<open>Processes\<close>

record ProcessRow =
  pr_name :: string
  pr_pid :: int
  pr_ppid :: "int option"
  pr_user :: string
  pr_uid :: string
  pr_policy :: string
  pr_policyLabel :: string
  pr_threads :: int
  pr_rss :: string
  pr_virt :: string
  pr_cpuPercent :: "rat option"
  pr_footprint :: string
  pr_path :: string
  pr_args :: string
  pr_commandLine :: string
  pr_parent :: string
  pr_status :: string
  pr_startedAt :: string
  pr_uptime :: string
  pr_uptimeSeconds :: "int option"
  pr_startedEstimated :: bool
  pr_message :: string
  pr_parser :: string
  pr_serviceHint :: string

definition service_re :: regex where
  "service_re = Seqs [Bol, LitI ''com.'', Plus (Cls (\<lambda>c. is_word c \<or> c \<in> set ''.-'')), Eol]"

definition iosServiceHint :: "ProcessRow \<Rightarrow> string" where
  "iosServiceHint p =
     (if pr_pid p > 0 \<or> pr_uid p \<noteq> [] \<or> pr_ppid p \<noteq> None then []
      else if \<not> test service_re (pr_name p) then []
      else pr_name p @ '' has no UID/PPID because it was only found in remotectl_dumpstate (registered service list)'')"

definition isIosRegisteredService :: "ProcessRow \<Rightarrow> bool" where
  "isIosRegisteredService p \<longleftrightarrow> pr_serviceHint p \<noteq> [] \<or> iosServiceHint p \<noteq> []"

definition nonzero :: "int option \<Rightarrow> int option" where
  "nonzero n = (if n = Some 0 then None else n)"

definition uid_text :: "JsonParse \<Rightarrow> Row \<Rightarrow> string" where
  "uid_text parse row =
     (let own = (case present (map_of (parseExt parse row) ''uid'') of
            None \<Rightarrow> [] | Some (JArr _) \<Rightarrow> [] | Some (JObj _) \<Rightarrow> [] | Some v \<Rightarrow> trim (js_text v))
      in or_str own (if digits_only (extField parse row ''uid'') then extField parse row ''uid'' else []))"

definition command_text :: "JsonParse \<Rightarrow> Row \<Rightarrow> string" where
  "command_text parse row =
     or_str (extField parse row ''command_line'') (or_str (extField parse row ''command'')
       (or_str (strField row ''command_line'') (strField row ''command'')))"

definition process_of :: "JsonParse \<Rightarrow> Clock \<Rightarrow> Row \<Rightarrow> string \<Rightarrow> int \<Rightarrow> ProcessRow" where
  "process_of parse C row name0 pid =
     (let ext = parseExt parse row;
          message = strField row ''message'';
          field = extField parse row;
          threadsArr = (case threads_of ext of None \<Rightarrow> 0 | Some ts \<Rightarrow> int (length ts));
          threadsCount = get_or 0 (or_else (nonzero (Some threadsArr))
            (or_else (nonzero (numFromValue (map_of ext ''thread_count''))) (numFromValue (map_of ext ''threads_total''))));
          policy = or_str (field ''pcy'') (field ''policy'');
          rss = or_str (field ''res'') (field ''rss'');
          path = or_str (field ''path'') (own_text ext ''file_path'');
          asToken = parseProcessAsToken message;
          commandLine = command_text parse row;
          split = splitProcessCommand (or_str commandLine
            (if CHR ''/'' \<in> set message \<or> CHR '' '' \<in> set message then message else []));
          args = or_str (field ''args'') (or_str (strField row ''args'') (snd split));
          resolvedPath = or_str path (if starts_with ''/'' (fst split) then fst split else []);
          parent = or_str (field ''parent'') (case exec parent_re message of None \<Rightarrow> [] | Some m \<Rightarrow> first_group m);
          name = bracketKernelThreadName name0 parent;
          timing = processTiming parse C row ext
      in \<lparr>pr_name = or_str name (''pid '' @ int_str pid), pr_pid = pid,
          pr_ppid = or_else (numFromValue (map_of ext ''ppid'')) (or_else (numFromValue (map_of ext ''parent_pid''))
            (or_else (numField parse row ''ppid'') (numField parse row ''parent_pid''))),
          pr_user = or_str (strField row ''user'') (or_str (field ''user'') (or_str (snd asToken) em_dash)),
          pr_uid = or_str (uid_text parse row) (fst asToken),
          pr_policy = policy, pr_policyLabel = androidPolicyLabel policy, pr_threads = threadsCount,
          pr_rss = rss, pr_virt = or_str (field ''virt'') (field ''vsz''), pr_cpuPercent = sumThreadCpu ext,
          pr_footprint = or_str (field ''footprint'') (or_str (field ''memory_limit'') rss),
          pr_path = resolvedPath, pr_args = args,
          pr_commandLine = or_str commandLine (if args \<noteq> [] then trim (resolvedPath @ '' '' @ args) else []),
          pr_parent = parent, pr_status = mainThreadStatus ext pid,
          pr_startedAt = ti_startedAt timing, pr_uptime = ti_uptime timing,
          pr_uptimeSeconds = ti_uptimeSeconds timing, pr_startedEstimated = ti_startedEstimated timing,
          pr_message = message, pr_parser = strField row ''parser'', pr_serviceHint = []\<rparr>)"

definition parseProcessRow :: "JsonParse \<Rightarrow> Clock \<Rightarrow> Row \<Rightarrow> ProcessRow option" where
  "parseProcessRow parse C row =
     (let name = base_name (better_name (parseExt parse row) (name_text parse row));
          pid = get_or 0 (or_else (numField parse row ''process_id'') (or_else (numField parse row ''pid'')
            (numFromValue (map_of (parseExt parse row) ''pid''))))
      in if name = [] \<and> pid = 0 then None
         else let p = process_of parse C row name pid in Some (p\<lparr>pr_serviceHint := iosServiceHint p\<rparr>))"

section \<open>Merging\<close>

definition informative :: "string \<Rightarrow> bool" where
  "informative s \<longleftrightarrow> trim s \<noteq> [] \<and> trim s \<noteq> em_dash"

definition pickStr :: "string \<Rightarrow> string \<Rightarrow> string" where
  "pickStr a b = (if informative a then a else if informative b then b else a)"

definition pickLonger :: "string \<Rightarrow> string \<Rightarrow> string" where
  "pickLonger a b =
     (if trim b = [] then a
      else if trim a = [] then b
      else if length (trim b) > length (trim a) then b else a)"

definition fill_blanks :: "ProcessRow \<Rightarrow> ProcessRow \<Rightarrow> ProcessRow" where
  "fill_blanks p q =
     p\<lparr>pr_name := or_str (pr_name p) (pr_name q),
       pr_ppid := or_else (pr_ppid p) (pr_ppid q),
       pr_user := pickStr (pr_user p) (pr_user q),
       pr_uid := pickStr (pr_uid p) (pr_uid q),
       pr_policy := pickStr (pr_policy p) (pr_policy q),
       pr_policyLabel := pickStr (pr_policyLabel p) (pr_policyLabel q),
       pr_threads := (if pr_threads p > 0 then pr_threads p else pr_threads q),
       pr_rss := pickStr (pr_rss p) (pr_rss q),
       pr_virt := pickStr (pr_virt p) (pr_virt q),
       pr_cpuPercent := or_else (pr_cpuPercent p) (pr_cpuPercent q),
       pr_footprint := pickStr (pr_footprint p) (pr_footprint q),
       pr_path := pickStr (pr_path p) (pr_path q),
       pr_args := pickLonger (pr_args p) (pr_args q),
       pr_commandLine := pickLonger (pr_commandLine p) (pr_commandLine q),
       pr_parent := pickStr (pr_parent p) (pr_parent q),
       pr_status := pickStr (pr_status p) (pr_status q),
       pr_startedAt := pickStr (pr_startedAt p) (pr_startedAt q),
       pr_uptime := pickStr (pr_uptime p) (pr_uptime q),
       pr_uptimeSeconds := or_else (pr_uptimeSeconds p) (pr_uptimeSeconds q),
       pr_startedEstimated := (if pr_startedAt p \<noteq> [] \<or> pr_uptime p \<noteq> [] then pr_startedEstimated p
         else pr_startedEstimated q),
       pr_message := pickLonger (pr_message p) (pr_message q),
       pr_parser := or_str (pr_parser p) (pr_parser q)\<rparr>"

definition mergeProcessRow :: "ProcessRow \<Rightarrow> ProcessRow \<Rightarrow> ProcessRow" where
  "mergeProcessRow p q = (let m = fill_blanks p q in m\<lparr>pr_serviceHint := iosServiceHint m\<rparr>)"

record ProcessSummary =
  su_total :: nat
  su_withCpu :: nat
  su_topCpu :: "rat option"
  su_foreground :: nat
  su_background :: nat

definition summarize_process :: "ProcessSummary \<Rightarrow> ProcessRow \<Rightarrow> ProcessSummary" where
  "summarize_process s p =
     (let pol = to_lower (trim (pr_policy p));
          s1 = (case pr_cpuPercent p of
              None \<Rightarrow> s
            | Some x \<Rightarrow> s\<lparr>su_withCpu := Suc (su_withCpu s),
                su_topCpu := (case su_topCpu s of None \<Rightarrow> Some x | Some y \<Rightarrow> if x > y then Some x else Some y)\<rparr>);
          s2 = (if pol = ''fg'' \<or> pol = ''ta'' then s1\<lparr>su_foreground := Suc (su_foreground s1)\<rparr> else s1)
      in if pol = ''bg'' \<or> pol = ''ts'' then s2\<lparr>su_background := Suc (su_background s2)\<rparr> else s2)"

definition processSummary :: "ProcessRow list \<Rightarrow> ProcessSummary" where
  "processSummary ps =
     foldl summarize_process
       \<lparr>su_total = length ps, su_withCpu = 0, su_topCpu = None, su_foreground = 0, su_background = 0\<rparr> ps"

section \<open>The list\<close>

definition richness :: "ProcessRow \<Rightarrow> int" where
  "richness p =
     (if pr_cpuPercent p \<noteq> None then 4 else 0) + (if pr_startedAt p \<noteq> [] then 3 else 0)
     + (if pr_uptime p \<noteq> [] then 2 else 0) + (if pr_rss p \<noteq> [] then 1 else 0)
     + (if pr_threads p > 0 then 1 else 0) + (if pr_path p \<noteq> [] then 1 else 0)
     + (if pr_args p \<noteq> [] then 3 else 0) + (if pr_parser p = ''taskinfo'' then 2 else 0)
     + (if pr_parser p = ''ps_everywhere'' then 4 else 0)"

definition process_key :: "ProcessRow \<Rightarrow> string" where
  "process_key p =
     (if pr_pid p > 0 then ''pid:'' @ int_str (pr_pid p) else int_str (pr_pid p) @ '':'' @ pr_name p)"

definition totals_re :: regex where
  "totals_re = LitI ''tasks/programs running''"

definition spindump_re :: regex where
  "spindump_re = Seqs [Bol, LitI ''spindump'', WordB]"

definition listed_process :: "JsonParse \<Rightarrow> Clock \<Rightarrow> Row \<Rightarrow> ProcessRow option" where
  "listed_process parse C row =
     (case parseProcessRow parse C row of
        None \<Rightarrow> None
      | Some p \<Rightarrow>
          if test totals_re (pr_message p) then None
          else if test spindump_re (trim (pr_message p)) \<and> pr_pid p = 0 then None
          else Some p)"

definition merge_richer :: "ProcessRow \<Rightarrow> ProcessRow \<Rightarrow> ProcessRow" where
  "merge_richer existing p =
     (if richness p > richness existing then mergeProcessRow p existing else mergeProcessRow existing p)"

definition merged_processes :: "ProcessRow list \<Rightarrow> ProcessRow list" where
  "merged_processes ps = map snd (group_rows (\<lambda>p. Some (process_key p)) (\<lambda>p. p) merge_richer ps)"

datatype ProcessSort = By_cpu | By_pid

definition by_pid :: "(string \<Rightarrow> string \<Rightarrow> int) \<Rightarrow> ProcessRow \<Rightarrow> ProcessRow \<Rightarrow> int" where
  "by_pid compare a b = then_by (pr_pid a - pr_pid b) (compare (pr_name a) (pr_name b))"

definition cpu_or_less :: "ProcessRow \<Rightarrow> rat" where
  "cpu_or_less p = get_or (- 1) (pr_cpuPercent p)"

definition compare_processes :: "(string \<Rightarrow> string \<Rightarrow> int) \<Rightarrow> ProcessSort \<Rightarrow> ProcessRow \<Rightarrow> ProcessRow \<Rightarrow> int" where
  "compare_processes compare sortBy a b =
     (if sortBy = By_pid then by_pid compare a b
      else if (pr_cpuPercent a \<noteq> None \<or> pr_cpuPercent b \<noteq> None) \<and> cpu_or_less a \<noteq> cpu_or_less b
      then num_cmp (cpu_or_less b) (cpu_or_less a)
      else by_pid compare a b)"

text \<open>\<open>pidToName\<close>: a later process replaces an earlier one.\<close>

definition names_by_pid :: "ProcessRow list \<Rightarrow> (int \<times> string) list" where
  "names_by_pid ps = rev (List.map_filter (\<lambda>p. if pr_pid p > 0 \<and> pr_name p \<noteq> [] then Some (pr_pid p, pr_name p) else None) ps)"

definition fill_parent :: "(int \<times> string) list \<Rightarrow> ProcessRow \<Rightarrow> ProcessRow" where
  "fill_parent names p =
     (case pr_ppid p of
        Some pp \<Rightarrow>
          if pr_parent p \<noteq> [] \<or> pp \<le> 0 then p
          else (case map_of names pp of Some n \<Rightarrow> p\<lparr>pr_parent := n\<rparr> | None \<Rightarrow> p)
      | None \<Rightarrow> p)"

definition normalizeProcessPath :: "string \<Rightarrow> string" where
  "normalizeProcessPath path =
     (let t = trim path; u = (if starts_with ''/private/'' t then drop 8 t else t)
      in rev (dropWhile (\<lambda>c. c = CHR ''/'') (rev u)))"

text \<open>\<open>pathArgs\<close>: the longest arguments of every path, the later of two equally long.\<close>

definition note_args :: "(string \<rightharpoonup> string) \<Rightarrow> ProcessRow \<Rightarrow> (string \<rightharpoonup> string)" where
  "note_args m p =
     (let key = normalizeProcessPath (pr_path p); cur = get_or [] (m key)
      in if key = [] \<or> pr_args p = [] then m
         else if length (pr_args p) \<ge> length cur then m(key \<mapsto> pr_args p) else m)"

definition fill_args :: "(string \<rightharpoonup> string) \<Rightarrow> ProcessRow \<Rightarrow> ProcessRow" where
  "fill_args m p =
     (let key = normalizeProcessPath (pr_path p); args = get_or [] (m key); line = pr_path p @ '' '' @ args
      in if key = [] \<or> length args \<le> length (pr_args p) then p
         else p\<lparr>pr_args := args,
                pr_commandLine := (if pr_commandLine p = [] \<or> length (pr_commandLine p) < length line
                  then trim line else pr_commandLine p)\<rparr>)"

definition take_limit :: "int \<Rightarrow> 'a list \<Rightarrow> 'a list" where
  "take_limit limit xs = (if limit \<le> 0 \<or> limit \<ge> int (length xs) then xs else take (nat limit) xs)"

definition completed_processes :: "ProcessRow list \<Rightarrow> ProcessRow list" where
  "completed_processes ps =
     (let named = map (fill_parent (names_by_pid ps)) ps
      in map (fill_args (foldl note_args Map.empty named)) named)"

definition processRows ::
  "JsonParse \<Rightarrow> Clock \<Rightarrow> (string \<Rightarrow> string \<Rightarrow> int) \<Rightarrow> Row list \<Rightarrow> int \<Rightarrow> ProcessSort \<Rightarrow> ProcessRow list" where
  "processRows parse C compare rows limit sortBy =
     take_limit limit (completed_processes (js_sort (compare_processes compare sortBy)
       (merged_processes (List.map_filter (listed_process parse C) rows))))"

section \<open>Events\<close>

datatype EventKind = E_start | E_running | E_snapshot | E_shutdown | E_other

record IosProcessEvent =
  ev_process :: ProcessRow
  ev_when :: string
  ev_whenRaw :: string
  ev_timestampDesc :: string
  ev_kind :: EventKind
  ev_waitSeconds :: "int option"
  ev_uuid :: string
  ev_sourcePath :: string
  ev_executablePath :: string

definition eventKind :: "string \<Rightarrow> string \<Rightarrow> string \<Rightarrow> EventKind" where
  "eventKind parser desc message =
     (let d = to_lower desc; m = to_lower message in
      if parser = ''shutdownlogs'' \<or> contains ''at shutdown'' d \<or> contains ''during shutdown'' m then E_shutdown
      else if contains ''process start'' d \<or> ends_with '' started'' m then E_start
      else if contains ''spindump'' d \<or> parser = ''spindumpnosymbols''
      then (if test spindump_re (trim message) then E_other else E_running)
      else if parser = ''ps'' \<or> parser = ''psthread'' then E_snapshot
      else E_other)"

definition binary_id_re :: regex where
  "binary_id_re = Seqs [Lit ''/'', Times 36 (Cls (\<lambda>c. digit_in 16 c \<or> c = CHR ''-'')), Eol]"

definition executable_path :: "JsonParse \<Rightarrow> Row \<Rightarrow> EventKind \<Rightarrow> ProcessRow \<Rightarrow> string" where
  "executable_path parse row kind p =
     or_str (extField parse row ''executable_path'')
       (if kind = E_shutdown \<and> CHR ''/'' \<in> set (pr_path p) then replace_first binary_id_re [] (pr_path p) else [])"

definition process_event :: "JsonParse \<Rightarrow> Clock \<Rightarrow> Row \<Rightarrow> IosProcessEvent option" where
  "process_event parse C row =
     (let message = strField row ''message'' in
      if test totals_re message \<or> test spindump_re (trim message) then None
      else case parseProcessRow parse C row of
        None \<Rightarrow> None
      | Some p \<Rightarrow>
          (let whenRaw = or_str (strField row ''datetime'') (or_str (strField row ''timestamp'') (pr_startedAt p));
               timestampDesc = strField row ''timestamp_desc'';
               kind = eventKind (pr_parser p) timestampDesc message;
               uuid = extField parse row ''uuid'';
               exe = executable_path parse row kind p
           in if pr_name p = [] \<and> pr_pid p = 0 then None
              else if kind = E_other \<and> pr_pid p = 0 \<and> pr_path p = [] then None
              else Some \<lparr>ev_process = (if exe \<noteq> [] \<and> (pr_path p = [] \<or> ends_with uuid (pr_path p)) then p\<lparr>pr_path := exe\<rparr> else p),
                ev_when = or_str (formatProcessStarted C whenRaw) whenRaw, ev_whenRaw = whenRaw,
                ev_timestampDesc = timestampDesc, ev_kind = kind,
                ev_waitSeconds = or_else (numFromValue (map_of (parseExt parse row) ''time_waiting''))
                  (numFromValue (map_of (parseExt parse row) ''wait_time'')),
                ev_uuid = uuid, ev_sourcePath = extField parse row ''source_path'', ev_executablePath = exe\<rparr>))"

text \<open>The messages of event and process are the same text.\<close>

definition event_key :: "IosProcessEvent \<Rightarrow> string" where
  "event_key e =
     (let p = ev_process e in
      pr_parser p @ '':'' @ int_str (pr_pid p) @ '':'' @ pr_name p @ '':'' @ ev_whenRaw e @ '':'' @ take 80 (pr_message p))"

text \<open>The loop of \<open>iosProcessEventsFromRows\<close>: seen keys, events pushed so far in reverse.\<close>

fun collect_events :: "int option \<Rightarrow> string list \<Rightarrow> IosProcessEvent list \<Rightarrow> IosProcessEvent list \<Rightarrow> IosProcessEvent list" where
  "collect_events limit seen out [] = rev out"
| "collect_events limit seen out (e # es) =
     (if event_key e \<in> set seen then collect_events limit seen out es
      else (case limit of
          Some n \<Rightarrow> if int (length (e # out)) \<ge> n then rev (e # out)
                    else collect_events limit (event_key e # seen) (e # out) es
        | None \<Rightarrow> collect_events limit (event_key e # seen) (e # out) es))"

definition iosProcessEventsFromRows :: "JsonParse \<Rightarrow> Clock \<Rightarrow> Row list \<Rightarrow> int option \<Rightarrow> IosProcessEvent list" where
  "iosProcessEventsFromRows parse C rows limit =
     collect_events limit [] [] (List.map_filter (process_event parse C) rows)"

definition iosProcessEventParserCounts :: "(string \<Rightarrow> string \<Rightarrow> int) \<Rightarrow> IosProcessEvent list \<Rightarrow> (string \<times> nat) list" where
  "iosProcessEventParserCounts compare events =
     js_sort (\<lambda>a b. then_by (int (snd b) - int (snd a)) (compare (fst a) (fst b)))
       (group_rows (\<lambda>e. Some (or_str (pr_parser (ev_process e)) ''unknown'')) (\<lambda>e. 1) (\<lambda>n e. Suc n) events)"

section \<open>Timelines\<close>

definition event_kinds :: "EventKind list" where
  "event_kinds = [E_start, E_running, E_snapshot, E_shutdown, E_other]"

definition kind_lane :: "EventKind \<Rightarrow> int" where
  "kind_lane k = (case k of E_start \<Rightarrow> 4 | E_running \<Rightarrow> 3 | E_snapshot \<Rightarrow> 2 | E_shutdown \<Rightarrow> 1 | E_other \<Rightarrow> 0)"

definition kind_label :: "EventKind \<Rightarrow> string" where
  "kind_label k = (case k of E_start \<Rightarrow> ''Starts'' | E_running \<Rightarrow> ''Spindump'' | E_snapshot \<Rightarrow> ''Snapshots''
     | E_shutdown \<Rightarrow> ''Shutdown'' | E_other \<Rightarrow> ''Other'')"

text \<open>\<open>Date.UTC(2008, 0, 1)\<close> is 1199145600000.\<close>

definition isPlausibleProcessEventMs :: "Clock \<Rightarrow> rat \<Rightarrow> bool" where
  "isPlausibleProcessEventMs C ms \<longleftrightarrow> ms \<ge> 1199145600000 \<and> ms \<le> of_int (now_ms C) + 24 * 60 * 60 * 1000"

definition plausible :: "Clock \<Rightarrow> rat option \<Rightarrow> rat option" where
  "plausible C ms = (case ms of Some t \<Rightarrow> (if isPlausibleProcessEventMs C t then Some t else None) | None \<Rightarrow> None)"

definition day_re :: regex where
  "day_re = Seqs [Times 4 Digit, Lit ''-'', Times 2 Digit, Lit ''-'', Times 2 Digit]"

definition time_re :: regex where
  "time_re = Seqs [Times 2 Digit, Lit '':'', Times 2 Digit, Lit '':'', Times 2 Digit]"

definition space_date_re :: regex where
  "space_date_re = Seqs [Bol, Grp 1 day_re, One_of '' T'', Grp 2 time_re]"

definition number_ms :: "rat \<Rightarrow> rat" where
  "number_ms n = (if n > 100000000000000 then of_int \<lfloor>n / 1000\<rfloor>
     else if n < 1000000000000 then of_int \<lfloor>n * 1000\<rfloor> else n)"

definition parsed_time :: "Clock \<Rightarrow> string \<Rightarrow> rat option" where
  "parsed_time C s = plausible C (map_option of_int (date_parse C s))"

definition text_time :: "Clock \<Rightarrow> string \<Rightarrow> rat option" where
  "text_time C raw =
     (let trimmed = trim raw in
      if trimmed = [] then None
      else case exec space_date_re trimmed of
        Some m \<Rightarrow> parsed_time C (first_group m @ ''T'' @ get_or [] (group 2 m) @ ''Z'')
      | None \<Rightarrow>
          (case js_decimal trimmed of
             Some n \<Rightarrow> (if n > 0 then plausible C (Some (number_ms n)) else parsed_time C trimmed)
           | None \<Rightarrow> parsed_time C trimmed))"

definition iosProcessEventTimeMs :: "Clock \<Rightarrow> IosProcessEvent \<Rightarrow> rat option" where
  "iosProcessEventTimeMs C e = or_else (text_time C (ev_whenRaw e)) (text_time C (pr_startedAt (ev_process e)))"

definition bucket_sizes :: "int list" where
  "bucket_sizes = map (\<lambda>m. m * 60000) [1, 2, 5, 10, 30, 60, 120, 360, 720, 1440]"

definition chooseTimelineBucketMs :: "rat \<Rightarrow> int" where
  "chooseTimelineBucketMs spanMs = get_or (1440 * 60000) (List.find (\<lambda>ms. spanMs / of_int ms \<le> 48) bucket_sizes)"

definition formatTimelineBucketLabel :: "Clock \<Rightarrow> int \<Rightarrow> int \<Rightarrow> string" where
  "formatTimelineBucketLabel C ms bucketMs =
     (if \<bar>ms\<bar> > 8640000000000000 then []
      else if bucketMs < 60 * 60000 then short_text C ms
      else if bucketMs < 24 * 60 * 60000 then hour_text C ms
      else day_text C ms)"

record TimelinePoint =
  tp_t :: rat
  tp_kind :: EventKind
  tp_kindY :: rat
  tp_name :: string
  tp_when :: string
  tp_parser :: string
  tp_pid :: int

text \<open>The jitter of the \<open>i\<close>-th point of a kind.\<close>

definition jitter :: "nat \<Rightarrow> rat" where
  "jitter i = of_int (int (i mod 9) - 4) * 6 / 100"

definition add_point ::
  "Clock \<Rightarrow> (EventKind \<Rightarrow> nat) \<times> TimelinePoint list \<Rightarrow> IosProcessEvent \<Rightarrow> (EventKind \<Rightarrow> nat) \<times> TimelinePoint list" where
  "add_point C s e =
     (case (s, iosProcessEventTimeMs C e) of
        ((index, out), Some t) \<Rightarrow>
          (let k = ev_kind e; p = ev_process e in
           (index(k := Suc (index k)),
            out @ [\<lparr>tp_t = t, tp_kind = k, tp_kindY = of_int (kind_lane k) + jitter (index k), tp_name = pr_name p,
                    tp_when = or_str (ev_when e) (or_str (formatProcessStarted C (ev_whenRaw e)) (ev_whenRaw e)),
                    tp_parser = pr_parser p, tp_pid = pr_pid p\<rparr>]))
      | _ \<Rightarrow> s)"

definition iosProcessEventsTimelinePoints :: "Clock \<Rightarrow> IosProcessEvent list \<Rightarrow> TimelinePoint list" where
  "iosProcessEventsTimelinePoints C events =
     js_sort (\<lambda>a b. num_cmp (tp_t a) (tp_t b)) (snd (foldl (add_point C) (\<lambda>k. 0, []) events))"

record TimelineBucket =
  tb_t :: int
  tb_label :: string
  tb_kind :: "EventKind \<Rightarrow> nat"
  tb_total :: nat

definition new_bucket :: "Clock \<Rightarrow> int \<Rightarrow> int \<Rightarrow> TimelineBucket" where
  "new_bucket C bucketMs key =
     \<lparr>tb_t = key, tb_label = formatTimelineBucketLabel C key bucketMs, tb_kind = (\<lambda>k. 0), tb_total = 0\<rparr>"

definition count_in :: "TimelineBucket \<Rightarrow> EventKind \<Rightarrow> TimelineBucket" where
  "count_in b k = b\<lparr>tb_kind := (tb_kind b)(k := Suc (tb_kind b k)), tb_total := Suc (tb_total b)\<rparr>"

definition timed_events :: "Clock \<Rightarrow> IosProcessEvent list \<Rightarrow> (rat \<times> EventKind) list" where
  "timed_events C events =
     List.map_filter (\<lambda>e. map_option (\<lambda>t. (t, ev_kind e)) (iosProcessEventTimeMs C e)) events"

definition bucket_key :: "int \<Rightarrow> rat \<Rightarrow> int" where
  "bucket_key bucketMs t = \<lfloor>t / of_int bucketMs\<rfloor> * bucketMs"

definition iosProcessEventsTimelineBuckets :: "Clock \<Rightarrow> IosProcessEvent list \<Rightarrow> TimelineBucket list" where
  "iosProcessEventsTimelineBuckets C events =
     (let timed = js_sort (\<lambda>a b. num_cmp (fst a) (fst b)) (timed_events C events)
      in if timed = [] then []
         else let spanMs = max (fst (last timed) - fst (hd timed)) 1;
                  bucketMs = chooseTimelineBucketMs spanMs;
                  key = (\<lambda>e. bucket_key bucketMs (fst e))
              in js_sort (\<lambda>a b. num_cmp (tb_t a) (tb_t b))
                   (map snd (group_rows (\<lambda>e. Some (key e)) (\<lambda>e. count_in (new_bucket C bucketMs (key e)) (snd e))
                     (\<lambda>b e. count_in b (snd e)) timed)))"

section \<open>Queries\<close>

definition processesQuery :: "string \<Rightarrow> bool \<Rightarrow> string" where
  "processesQuery source ios =
     (let src = escapeMplString source in
      if ios
      then ''source='' @ quoted src @ '' (parser='' @ quoted ''ps_everywhere'' @ '' OR parser='' @ quoted ''taskinfo''
        @ '' OR parser='' @ quoted ''spindumpnosymbols'' @ '' OR parser='' @ quoted ''ps'' @ '' OR parser='' @ quoted ''psthread''
        @ '') process_name=* ''
        @ ''| fields timestamp, datetime, process_name, process_id, user, parser, message, timestamp_desc, args, command_line, command, ext ''
        @ ''| sort process_id | head 5000''
      else ''source='' @ quoted src @ '' parser='' @ quoted ''Process''
        @ '' process_name=* | fields process_name, process_id, user, message, ext | sort process_id | head 5000'')"

definition iosProcessEventsQuery :: "string \<Rightarrow> string" where
  "iosProcessEventsQuery source =
     ''source='' @ quoted (escapeMplString source) @ '' (parser='' @ quoted ''taskinfo'' @ '' OR parser='' @ quoted ''spindumpnosymbols''
     @ '' OR parser='' @ quoted ''ps'' @ '' OR parser='' @ quoted ''psthread'' @ '' OR parser='' @ quoted ''shutdownlogs''
     @ '') (process_name=* OR pid=* OR process_id=* OR command=*) ''
     @ ''| fields timestamp, datetime, process_name, process_id, user, parser, message, timestamp_desc, args, command_line, command, path, ext ''
     @ ''| sort -timestamp | head 10000''"

end
