(* ===== verification/ProcessFacts.thy ===== *)
theory ProcessFacts
  imports ProcessSnapshot
begin

text \<open>
  Theorems on the process list and the process events: every process is listed once and merging
  rows loses nothing; parents and arguments are filled in; the timeline counts every dated event.
\<close>

section \<open>Merging\<close>

text \<open>The fields of which merging keeps the first informative value.\<close>

definition picked_fields :: "(ProcessRow \<Rightarrow> string) list" where
  "picked_fields = [pr_user, pr_uid, pr_policy, pr_policyLabel, pr_rss, pr_virt, pr_footprint, pr_path,
     pr_status, pr_startedAt, pr_uptime]"

lemma pickStr_facts: "pickStr a b \<in> {a, b}" "informative (pickStr a b) \<longleftrightarrow> informative a \<or> informative b"
  by (auto simp: pickStr_def)

lemma merge_field: "f \<in> set picked_fields \<Longrightarrow> f (mergeProcessRow p q) = pickStr (f p) (f q)"
  by (auto simp: picked_fields_def mergeProcessRow_def fill_blanks_def Let_def)

lemma merge_pid [simp]: "pr_pid (mergeProcessRow p q) = pr_pid p"
  and merge_name: "pr_name (mergeProcessRow p q) = or_str (pr_name p) (pr_name q)"
  by (simp_all add: mergeProcessRow_def fill_blanks_def Let_def)

lemma richer_cases:
  obtains "merge_richer p q = mergeProcessRow p q" | "merge_richer p q = mergeProcessRow q p"
  unfolding merge_richer_def by (metis (full_types))

text \<open>What a group of rows \<open>G\<close> says of a merged process.\<close>

definition holds_of :: "ProcessRow list \<Rightarrow> ProcessRow \<Rightarrow> (ProcessRow \<Rightarrow> string) \<Rightarrow> bool" where
  "holds_of G p f \<longleftrightarrow> f p \<in> f ` set G \<and> (informative (f p) \<longleftrightarrow> (\<exists>q \<in> set G. informative (f q)))"

lemma holds_merge:
  assumes "f \<in> set picked_fields" and "holds_of G p f"
  shows "holds_of (G @ [q]) (merge_richer p q) f"
proof -
  have "f (merge_richer p q) = pickStr (f p) (f q) \<or> f (merge_richer p q) = pickStr (f q) (f p)"
    using richer_cases [of p q] merge_field [OF assms(1)] by metis
  then show ?thesis
    using assms(2) pickStr_facts [of "f p" "f q"] pickStr_facts [of "f q" "f p"]
    by (auto simp: holds_of_def)
qed

lemma foldl_holds:
  "f \<in> set picked_fields \<Longrightarrow> holds_of G p f \<Longrightarrow> holds_of (G @ qs) (foldl merge_richer p qs) f"
proof (induction qs arbitrary: G p)
  case (Cons q qs)
  then show ?case using Cons.IH [of "G @ [q]" "merge_richer p q"] holds_merge by simp
qed simp

section \<open>Keys\<close>

text \<open>Two processes share a key when they have one positive number, or none and one name.\<close>

lemma process_key_eq:
  "process_key p = process_key q \<longleftrightarrow>
     (if pr_pid p > 0 then pr_pid q = pr_pid p else pr_pid q = pr_pid p \<and> pr_name q = pr_name p)"
proof -
  have no: "int_str a @ '':'' @ s \<noteq> ''pid:'' @ int_str b" for a b s
  proof
    assume "int_str a @ '':'' @ s = ''pid:'' @ int_str b"
    moreover have "int_str a \<noteq> []" by (simp add: int_str_def nat_str_def)
    ultimately have "CHR ''p'' \<in> set (int_str a)" by (cases "int_str a") auto
    then show False using int_str_chars [of "CHR ''p''" a] by (simp add: is_digit_def code_def)
  qed
  consider "pr_pid p > 0" "pr_pid q > 0" | "pr_pid p > 0" "\<not> pr_pid q > 0"
    | "\<not> pr_pid p > 0" "pr_pid q > 0" | "\<not> pr_pid p > 0" "\<not> pr_pid q > 0" by blast
  then show ?thesis
  proof cases
    case 1
    then show ?thesis by (simp add: process_key_def int_str_inj) (rule eq_commute)
  next
    case 2
    then show ?thesis using no [of "pr_pid q" "pr_name q" "pr_pid p", symmetric] by (simp add: process_key_def)
  next
    case 3
    then show ?thesis using no [of "pr_pid p" "pr_name p" "pr_pid q"] by (simp add: process_key_def)
  next
    case 4
    then have "process_key p = process_key q \<longleftrightarrow> int_str (pr_pid p) @ '':'' @ pr_name p = int_str (pr_pid q) @ '':'' @ pr_name q"
      by (simp add: process_key_def)
    also have "\<dots> \<longleftrightarrow> pr_pid q = pr_pid p \<and> pr_name q = pr_name p"
      unfolding int_str_cut int_str_inj by (rule arg_cong2 [of _ _ _ _ "(\<and>)"]; rule eq_commute)
    finally show ?thesis using 4 by (simp only: if_False)
  qed
qed

lemma merge_key:
  assumes "process_key q = process_key p"
  shows "process_key (merge_richer p q) = process_key p"
proof -
  have "pr_pid q = pr_pid p" "\<not> pr_pid p > 0 \<Longrightarrow> pr_name q = pr_name p"
    using assms unfolding process_key_eq [of q p] by (auto split: if_splits)
  then have "pr_pid (merge_richer p q) = pr_pid p"
    "\<not> pr_pid p > 0 \<Longrightarrow> pr_name (merge_richer p q) = pr_name p"
    by (cases rule: richer_cases [of p q]; simp add: merge_name or_str_def)+
  then show ?thesis by (simp add: process_key_def)
qed

section \<open>Groups\<close>

abbreviation key_of :: "ProcessRow \<Rightarrow> string option" where
  "key_of \<equiv> \<lambda>p. Some (process_key p)"

abbreviation same_process :: "ProcessRow list \<Rightarrow> string \<Rightarrow> ProcessRow list" where
  "same_process ps k \<equiv> filter (\<lambda>q. process_key q = k) ps"

lemma group_key: "group_of key_of (\<lambda>p. p) merge_richer ps k = Some b \<Longrightarrow> process_key b = k"
  by (erule group_of_invariant [where P = "\<lambda>b. process_key b = k"]) (auto simp: merge_key)

lemma group_holds:
  assumes "group_of key_of (\<lambda>p. p) merge_richer ps k = Some b" and "f \<in> set picked_fields"
  shows "holds_of (same_process ps k) b f"
proof -
  obtain p qs where G: "same_process ps k = [p] @ qs" and b: "b = foldl merge_richer p qs"
    using assms(1) by (auto simp: group_of_def split: list.splits)
  have "holds_of [p] p f" by (simp add: holds_of_def)
  then show ?thesis unfolding G b by (rule foldl_holds [OF assms(2)])
qed

lemma merged_facts:
  shows merged_distinct: "distinct (map process_key (merged_processes ps))"
    and merged_keys: "set (map process_key (merged_processes ps)) = set (map process_key ps)"
    and merged_holds: "p \<in> set (merged_processes ps) \<Longrightarrow> f \<in> set picked_fields \<Longrightarrow>
          holds_of (same_process ps (process_key p)) p f"
proof -
  let ?g = "group_rows key_of (\<lambda>p. p) merge_richer ps"
  have keys: "map process_key (merged_processes ps) = map fst ?g"
    unfolding merged_processes_def map_map
    by (rule map_cong [OF refl]) (auto simp: group_rows_member intro: group_key)
  show "distinct (map process_key (merged_processes ps))" unfolding keys by (rule group_rows_distinct)
  have "k \<in> set (map fst ?g) \<longleftrightarrow> k \<in> set (map process_key ps)" for k
  proof -
    have "k \<in> set (map fst ?g) \<longleftrightarrow> map_of ?g k \<noteq> None" by (auto simp: map_of_eq_None_iff)
    also have "\<dots> \<longleftrightarrow> same_process ps k \<noteq> []"
      unfolding group_rows_lookup by (auto simp: group_of_def split: list.splits)
    finally show ?thesis by (auto simp: filter_empty_conv)
  qed
  then show "set (map process_key (merged_processes ps)) = set (map process_key ps)" unfolding keys by blast
  show "holds_of (same_process ps (process_key p)) p f"
    if mem: "p \<in> set (merged_processes ps)" and f: "f \<in> set picked_fields"
  proof -
    obtain k where "(k, p) \<in> set ?g" using mem by (auto simp: merged_processes_def)
    then have k: "group_of key_of (\<lambda>p. p) merge_richer ps k = Some p" by (simp only: group_rows_member)
    show ?thesis using group_holds [OF k f] by (simp only: group_key [OF k])
  qed
qed

section \<open>Order and completion\<close>

lemma comparator_processes:
  assumes "comparator compare"
  shows "comparator (compare_processes compare sortBy)"
proof -
  have "comparator (\<lambda>a b. then_by (num_cmp (pr_pid a) (pr_pid b)) (compare (pr_name a) (pr_name b)))"
    by (rule comparator_then [OF comparator_on [OF assms]])
  then have pid: "comparator (by_pid compare)"
    by (rule comparator_same) (simp add: by_pid_def then_by_diff)
  show ?thesis
  proof (cases sortBy)
    case By_pid
    have "compare_processes compare By_pid = by_pid compare" by (simp add: compare_processes_def fun_eq_iff)
    with pid By_pid show ?thesis by simp
  next
    case By_cpu
    have "comparator (\<lambda>a b. then_by (num_cmp (- cpu_or_less a) (- cpu_or_less b)) (by_pid compare a b))"
      by (rule comparator_then [OF pid])
    then show ?thesis
    proof (rule comparator_same)
      fix a b
      show "compare_processes compare sortBy a b \<le> 0
          \<longleftrightarrow> then_by (num_cmp (- cpu_or_less a) (- cpu_or_less b)) (by_pid compare a b) \<le> 0"
        unfolding then_by_le using By_cpu by (auto simp: compare_processes_def num_cmp_def cpu_or_less_def)
    qed
  qed
qed

text \<open>Completion changes parents, arguments and command lines only.\<close>

definition same_but_completed :: "ProcessRow \<Rightarrow> ProcessRow \<Rightarrow> bool" where
  "same_but_completed p q \<longleftrightarrow>
     p\<lparr>pr_parent := [], pr_args := [], pr_commandLine := []\<rparr> = q\<lparr>pr_parent := [], pr_args := [], pr_commandLine := []\<rparr>"

lemma fill_same: "same_but_completed (fill_parent names p) p" "same_but_completed (fill_args m p) p"
  by (auto simp: same_but_completed_def fill_parent_def fill_args_def Let_def split: option.splits)

lemma same_trans: "same_but_completed p q \<Longrightarrow> same_but_completed q r \<Longrightarrow> same_but_completed p r"
  by (simp add: same_but_completed_def)

lemma same_fields:
  assumes "same_but_completed p q"
  shows "pr_pid p = pr_pid q" "pr_name p = pr_name q" "pr_cpuPercent p = pr_cpuPercent q"
    "map (\<lambda>f. f p) picked_fields = map (\<lambda>f. f q) picked_fields"
  using assms by (cases p; cases q; simp add: same_but_completed_def picked_fields_def)+

lemma same_facts:
  assumes "same_but_completed p q"
  shows "process_key p = process_key q"
    and "f \<in> set picked_fields \<Longrightarrow> f p = f q"
    and "same_but_completed p' q' \<Longrightarrow> compare_processes compare s p p' = compare_processes compare s q q'"
  using same_fields [OF assms] same_fields [of p' q']
  by (simp_all add: process_key_def compare_processes_def by_pid_def cpu_or_less_def)

lemma completed_same: "list_all2 same_but_completed (completed_processes ps) ps"
  by (auto simp: completed_processes_def Let_def list_all2_conv_all_nth
      intro: same_trans [OF fill_same(2) fill_same(1)])

lemma completed_nth:
  "length (completed_processes ps) = length ps"
  "i < length ps \<Longrightarrow> same_but_completed (completed_processes ps ! i) (ps ! i)"
  using completed_same [of ps] by (simp_all add: list_all2_conv_all_nth)

lemma completed_key: "map process_key (completed_processes ps) = map process_key ps"
  by (rule nth_equalityI) (simp_all add: completed_nth same_facts(1))

lemma completed_sorted:
  assumes "sorted_wrt (\<lambda>a b. compare_processes compare s a b \<le> 0) ps"
  shows "sorted_wrt (\<lambda>a b. compare_processes compare s a b \<le> 0) (completed_processes ps)"
  unfolding sorted_wrt_iff_nth_less completed_nth(1)
proof (intro allI impI)
  fix i j
  assume "i < j" and "j < length ps"
  then show "compare_processes compare s (completed_processes ps ! i) (completed_processes ps ! j) \<le> 0"
    using assms same_facts(3) [OF completed_nth(2) [of i ps] completed_nth(2) [of j ps]]
    by (simp add: sorted_wrt_iff_nth_less)
qed

text \<open>The listed processes of some rows, in order, before completion.\<close>

abbreviation inventory ::
  "JsonParse \<Rightarrow> Clock \<Rightarrow> (string \<Rightarrow> string \<Rightarrow> int) \<Rightarrow> Row list \<Rightarrow> ProcessSort \<Rightarrow> ProcessRow list" where
  "inventory parse C compare rows sortBy \<equiv>
     js_sort (compare_processes compare sortBy) (merged_processes (List.map_filter (listed_process parse C) rows))"

lemma processRows_all: "processRows parse C compare rows 0 sortBy = completed_processes (inventory parse C compare rows sortBy)"
  by (simp add: processRows_def take_limit_def)


lemma collated: "comparator (\<lambda>a b. num_cmp (collate a) (collate b))"
  by unfold_locales (auto simp: num_cmp_le)

definition sample_clock :: Clock where
  "sample_clock = \<lparr>date_parse = \<lambda>s. None, utc_year = \<lambda>d. 1970, iso_text = int_str, short_text = int_str,
     hour_text = int_str, day_text = int_str, now_ms = 0\<rparr>"

definition sample_rows :: "Row list" where
  "sample_rows =
     [[(''process_name'', JStr ''sshd''), (''process_id'', JNum 7)],
      [(''process_name'', JStr ''sshd''), (''process_id'', JNum 7), (''ext'', JObj [(''uid'', JNum 501), (''ppid'', JNum 1)])],
      [(''process_name'', JStr ''launchd''), (''process_id'', JNum 1)]]"

lemma sample_keys:
  "map process_key (List.map_filter (listed_process (\<lambda>s. None) sample_clock) sample_rows) = [''pid:7'', ''pid:7'', ''pid:1'']"
  by code_simp


section \<open>Parents and arguments\<close>

definition longest_args :: "ProcessRow list \<Rightarrow> string \<Rightarrow> string" where
  "longest_args ps k = get_or [] (foldl note_args Map.empty ps k)"

lemma longest_args_snoc: "longest_args (ps @ [p]) k =
    (if k = normalizeProcessPath (pr_path p) \<and> k \<noteq> [] \<and> pr_args p \<noteq> [] \<and> length (longest_args ps k) \<le> length (pr_args p)
     then pr_args p else longest_args ps k)"
  by (auto simp: longest_args_def note_args_def Let_def get_or_def)

lemma longest_args_most:
  "p \<in> set ps \<Longrightarrow> normalizeProcessPath (pr_path p) \<noteq> [] \<Longrightarrow>
     length (pr_args p) \<le> length (longest_args ps (normalizeProcessPath (pr_path p)))"
  by (induction ps rule: rev_induct) (auto simp: longest_args_snoc)

lemma longest_args_from:
  "longest_args ps k \<noteq> [] \<Longrightarrow> \<exists>q \<in> set ps. normalizeProcessPath (pr_path q) = k \<and> pr_args q = longest_args ps k"
proof (induction ps rule: rev_induct)
  case Nil
  then show ?case by (simp add: longest_args_def get_or_def)
next
  case (snoc p ps)
  then show ?case
    by (cases "k = normalizeProcessPath (pr_path p) \<and> k \<noteq> [] \<and> pr_args p \<noteq> [] \<and> length (longest_args ps k) \<le> length (pr_args p)")
      (simp_all only: longest_args_snoc if_True if_False, auto)
qed

lemma fill_parent_keeps [simp]:
  "pr_path (fill_parent names p) = pr_path p" "pr_args (fill_parent names p) = pr_args p"
  "pr_ppid (fill_parent names p) = pr_ppid p"
  by (simp_all add: fill_parent_def split: option.splits)

lemma fill_args_keeps [simp]:
  "pr_path (fill_args m p) = pr_path p" "pr_parent (fill_args m p) = pr_parent p" "pr_ppid (fill_args m p) = pr_ppid p"
  by (simp_all add: fill_args_def Let_def)

lemma filled_args: "pr_args (fill_args (foldl note_args Map.empty ps) p) =
    (let key = normalizeProcessPath (pr_path p)
     in if key = [] \<or> length (longest_args ps key) \<le> length (pr_args p) then pr_args p else longest_args ps key)"
  by (simp add: fill_args_def longest_args_def Let_def)

lemma filled_length:
  "p \<in> set ps \<Longrightarrow> normalizeProcessPath (pr_path p) \<noteq> [] \<Longrightarrow>
     length (pr_args (fill_args (foldl note_args Map.empty ps) p)) = length (longest_args ps (normalizeProcessPath (pr_path p)))"
  using longest_args_most [of p ps] by (auto simp: filled_args Let_def)

lemma filled_from:
  assumes "p \<in> set ps"
  shows "\<exists>q \<in> set ps. normalizeProcessPath (pr_path q) = normalizeProcessPath (pr_path p)
     \<and> pr_args q = pr_args (fill_args (foldl note_args Map.empty ps) p)"
proof (cases "pr_args (fill_args (foldl note_args Map.empty ps) p) = pr_args p")
  case False
  then have "pr_args (fill_args (foldl note_args Map.empty ps) p) = longest_args ps (normalizeProcessPath (pr_path p))"
      and "longest_args ps (normalizeProcessPath (pr_path p)) \<noteq> []"
    by (auto simp: filled_args Let_def split: if_splits)
  then show ?thesis using longest_args_from by simp
qed (use assms in auto)

lemma names_by_pid_facts:
  "map_of (names_by_pid ps) n = Some s \<Longrightarrow> \<exists>p \<in> set ps. pr_pid p = n \<and> pr_name p = s"
  "map_of (names_by_pid ps) n = None \<Longrightarrow> 0 < n \<Longrightarrow> p \<in> set ps \<Longrightarrow> pr_pid p = n \<Longrightarrow> pr_name p = []"
  "map_of (names_by_pid ps) n = Some s \<Longrightarrow> s \<noteq> []"
proof -
  have mem: "(n, s) \<in> set (names_by_pid ps) \<longleftrightarrow> (\<exists>p \<in> set ps. pr_pid p = n \<and> pr_name p = s \<and> 0 < n \<and> s \<noteq> [])" for n s
    by (auto simp: names_by_pid_def List.map_filter_def)
  show "\<exists>p \<in> set ps. pr_pid p = n \<and> pr_name p = s" "s \<noteq> []" if "map_of (names_by_pid ps) n = Some s"
    using map_of_SomeD [OF that] unfolding mem by blast+
  show "pr_name p = []" if "map_of (names_by_pid ps) n = None" "0 < n" "p \<in> set ps" "pr_pid p = n"
  proof (rule ccontr)
    assume "pr_name p \<noteq> []"
    with that have "(n, pr_name p) \<in> set (names_by_pid ps)" unfolding mem by blast
    with that(1) show False by (force simp: map_of_eq_None_iff)
  qed
qed

text \<open>How the parent \<open>t\<close> of a process relates to that of \<open>q\<close> in an inventory \<open>ps\<close>.\<close>

definition parent_from :: "ProcessRow list \<Rightarrow> ProcessRow \<Rightarrow> string \<Rightarrow> bool" where
  "parent_from ps q t \<longleftrightarrow>
     (case pr_ppid q of
        None \<Rightarrow> t = pr_parent q
      | Some pp \<Rightarrow>
          (if pr_parent q = [] \<and> 0 < pp
           then (if t = [] then (\<nexists>r. r \<in> set ps \<and> pr_pid r = pp \<and> pr_name r \<noteq> [])
                 else (\<exists>r \<in> set ps. pr_pid r = pp \<and> pr_name r = t))
           else t = pr_parent q))"

lemma filled_parent: "parent_from qs q (pr_parent (fill_parent (names_by_pid qs) q))"
proof (cases "pr_ppid q")
  case (Some pp)
  then show ?thesis
    using names_by_pid_facts [of qs pp] unfolding parent_from_def fill_parent_def
    by (cases "map_of (names_by_pid qs) pp") auto
qed (simp add: parent_from_def fill_parent_def)

text \<open>
  An inventory is completed so that all processes of one executable show the same length of
  arguments, which are those of one of them; a process that names no parent shows the name that the
  inventory has for the parent's number, and none only if it has none.
\<close>

lemma inventory_completed:
  "let ps = completed_processes qs; path = (\<lambda>p. normalizeProcessPath (pr_path p)) in
     list_all (\<lambda>p. list_all (\<lambda>q. if path p = path q \<and> path p \<noteq> [] then length (pr_args p) = length (pr_args q) else True) ps) ps
     \<and> list_all (\<lambda>p. \<exists>q \<in> set qs. path q = path p \<and> pr_args p = pr_args q) ps
     \<and> list_all2 (\<lambda>p q. parent_from qs q (pr_parent p)) ps qs"
proof -
  let ?N = "map (fill_parent (names_by_pid qs)) qs"
  let ?fill = "\<lambda>q. fill_args (foldl note_args Map.empty ?N) (fill_parent (names_by_pid qs) q)"
  have ps: "completed_processes qs = map ?fill qs"
    by (simp add: completed_processes_def Let_def)
  have N: "fill_parent (names_by_pid qs) q \<in> set ?N" if "q \<in> set qs" for q using that by simp
  have a: "length (pr_args (?fill q)) = length (longest_args ?N (normalizeProcessPath (pr_path q)))"
    if "q \<in> set qs" "normalizeProcessPath (pr_path q) \<noteq> []" for q
    using filled_length [OF N [OF that(1)]] that(2) by simp
  have b: "\<exists>r \<in> set qs. normalizeProcessPath (pr_path r) = normalizeProcessPath (pr_path (?fill q)) \<and> pr_args (?fill q) = pr_args r"
    if "q \<in> set qs" for q
    using filled_from [OF N [OF that]] by auto
  have "list_all2 (\<lambda>p q. parent_from qs q (pr_parent p)) (map ?fill qs) qs"
    using filled_parent by (simp add: list_all2_conv_all_nth)
  moreover have "list_all (\<lambda>p. \<exists>q \<in> set qs. normalizeProcessPath (pr_path q) = normalizeProcessPath (pr_path p)
      \<and> pr_args p = pr_args q) (map ?fill qs)"
    using b by (simp add: list_all_iff)
  moreover have "list_all (\<lambda>p. list_all (\<lambda>q. if normalizeProcessPath (pr_path p) = normalizeProcessPath (pr_path q)
        \<and> normalizeProcessPath (pr_path p) \<noteq> [] then length (pr_args p) = length (pr_args q) else True) (map ?fill qs)) (map ?fill qs)"
    using a by (auto simp: list_all_iff)
  ultimately show ?thesis unfolding Let_def ps by blast
qed

section \<open>The timeline\<close>

lemma counted:
  "tb_t (foldl (\<lambda>b e. count_in b (snd e)) b es) = tb_t b"
  "tb_total (foldl (\<lambda>b e. count_in b (snd e)) b es) = tb_total b + length es"
  "tb_kind (foldl (\<lambda>b e. count_in b (snd e)) b es) k = tb_kind b k + length (filter (\<lambda>e. snd e = k) es)"
  by (induction es arbitrary: b) (simp_all add: count_in_def)

interpretation bars: additive_group "\<lambda>e. count_in (new_bucket C w (key e)) (snd e)" "\<lambda>b e. count_in b (snd e)"
    "\<lambda>b. int (tb_total b)" "\<lambda>e. 1" for C w key
  by unfold_locales (simp_all add: count_in_def new_bucket_def)

text \<open>The bars of events \<open>es\<close> of width \<open>w\<close>, before they are sorted.\<close>

abbreviation bar_groups :: "Clock \<Rightarrow> int \<Rightarrow> (rat \<times> EventKind) list \<Rightarrow> (int \<times> TimelineBucket) list" where
  "bar_groups C w es \<equiv>
     group_rows (\<lambda>e. Some (bucket_key w (fst e))) (\<lambda>e. count_in (new_bucket C w (bucket_key w (fst e))) (snd e))
       (\<lambda>b e. count_in b (snd e)) es"

lemma bar_facts:
  assumes "(k, b) \<in> set (bar_groups C w es)"
  shows "tb_t b = k" and "\<exists>e \<in> set es. k = bucket_key w (fst e)"
    and "tb_total b = length (filter (\<lambda>e. bucket_key w (fst e) = k) es)"
    and "tb_kind b x = length (filter (\<lambda>e. bucket_key w (fst e) = k \<and> snd e = x) es)"
proof -
  have "group_of (\<lambda>e. Some (bucket_key w (fst e))) (\<lambda>e. count_in (new_bucket C w (bucket_key w (fst e))) (snd e))
      (\<lambda>b e. count_in b (snd e)) es k = Some b"
    using assms by (simp only: group_rows_member)
  then obtain r rs where G: "filter (\<lambda>e. bucket_key w (fst e) = k) es = r # rs"
      and b: "b = foldl (\<lambda>b e. count_in b (snd e)) (count_in (new_bucket C w (bucket_key w (fst r))) (snd r)) rs"
    by (auto simp: group_of_def split: list.splits)
  have r: "r \<in> set es" "bucket_key w (fst r) = k" using arg_cong [OF G, of set] by auto
  have split: "filter (\<lambda>e. bucket_key w (fst e) = k \<and> snd e = x) es = filter (\<lambda>e. snd e = x) (r # rs)"
    unfolding G [symmetric] filter_filter by (rule filter_cong) auto
  show "tb_t b = k" "\<exists>e \<in> set es. k = bucket_key w (fst e)"
    "tb_total b = length (filter (\<lambda>e. bucket_key w (fst e) = k) es)"
    "tb_kind b x = length (filter (\<lambda>e. bucket_key w (fst e) = k \<and> snd e = x) es)"
    using r unfolding split G by (auto simp: b counted) (auto simp: count_in_def new_bucket_def)
qed

lemma bucket_key_covers:
  assumes "0 < w" and "k = bucket_key w t'"
  shows "bucket_key w t = k \<longleftrightarrow> of_int k \<le> t \<and> t < of_int (k + w)"
proof -
  have w: "(0::rat) < of_int w" using assms(1) by simp
  have k: "k = \<lfloor>t' / of_int w\<rfloor> * w" using assms(2) by (simp add: bucket_key_def)
  have "bucket_key w t = k \<longleftrightarrow> \<lfloor>t / of_int w\<rfloor> = \<lfloor>t' / of_int w\<rfloor>"
    using assms(1) by (simp add: bucket_key_def k)
  also have "\<dots> \<longleftrightarrow> of_int \<lfloor>t' / of_int w\<rfloor> \<le> t / of_int w \<and> t / of_int w < of_int \<lfloor>t' / of_int w\<rfloor> + 1"
    by (rule floor_eq_iff)
  also have "\<dots> \<longleftrightarrow> of_int k \<le> t \<and> t < of_int (k + w)"
    using w by (simp add: k field_simps)
  finally show ?thesis .
qed

interpretation by_time: comparator "\<lambda>a b. num_cmp (fst a) (fst b)"
  by unfold_locales (auto simp: num_cmp_le)

interpretation by_bar: comparator "\<lambda>a b. num_cmp (tb_t a) (tb_t b)"
  by unfold_locales (auto simp: num_cmp_le)

text \<open>The events in order, the time they span and the width of the bars.\<close>

definition in_time :: "Clock \<Rightarrow> IosProcessEvent list \<Rightarrow> (rat \<times> EventKind) list" where
  "in_time C events = js_sort (\<lambda>a b. num_cmp (fst a) (fst b)) (timed_events C events)"

definition time_span :: "Clock \<Rightarrow> IosProcessEvent list \<Rightarrow> rat" where
  "time_span C events = (let es = in_time C events in if es = [] then 1 else max (fst (last es) - fst (hd es)) 1)"

definition bar_width :: "Clock \<Rightarrow> IosProcessEvent list \<Rightarrow> int" where
  "bar_width C events = chooseTimelineBucketMs (time_span C events)"

lemma buckets_eq:
  "iosProcessEventsTimelineBuckets C events =
     js_sort (\<lambda>a b. num_cmp (tb_t a) (tb_t b)) (map snd (bar_groups C (bar_width C events) (in_time C events)))"
proof (cases "in_time C events = []")
  case True
  then show ?thesis
    by (simp add: iosProcessEventsTimelineBuckets_def in_time_def [symmetric]) (simp add: group_rows_def js_sort_def)
next
  case False
  then show ?thesis
    by (simp add: iosProcessEventsTimelineBuckets_def in_time_def [symmetric] bar_width_def time_span_def Let_def)
qed

lemma bar_width_pos: "0 < bar_width C events"
  by (simp add: bar_width_def chooseTimelineBucketMs_def bucket_sizes_def get_or_def)

lemma bar_width_enough: "time_span C events / of_int (bar_width C events) \<le> 48 \<or> bar_width C events = 86400000"
  by (simp add: bar_width_def chooseTimelineBucketMs_def bucket_sizes_def get_or_def)

lemma in_time_span:
  assumes "e \<in> set (in_time C events)"
  shows "fst (hd (in_time C events)) \<le> fst e" and "fst e \<le> fst (hd (in_time C events)) + time_span C events"
proof -
  let ?es = "in_time C events"
  have "sorted (map fst ?es)"
    using by_time.ordered_sort [of "timed_events C events"] by (simp add: in_time_def sorted_map num_cmp_le)
  moreover obtain i where i: "i < length ?es" "e = ?es ! i" using assms by (auto simp: in_set_conv_nth)
  ultimately have "map fst ?es ! 0 \<le> map fst ?es ! i" "map fst ?es ! i \<le> map fst ?es ! (length ?es - 1)"
    by (intro sorted_nth_mono; simp)+
  moreover have "?es \<noteq> []" using i(1) by auto
  ultimately have "fst (hd ?es) \<le> fst e" "fst e \<le> fst (last ?es)"
    using i by (simp_all add: hd_conv_nth last_conv_nth)
  then show "fst (hd ?es) \<le> fst e" "fst e \<le> fst (hd ?es) + time_span C events"
    using \<open>?es \<noteq> []\<close> by (auto simp: time_span_def Let_def)
qed

text \<open>Bars are disjoint, so there are no more than fit into the time.\<close>

lemma bar_count:
  assumes "\<And>k. k \<in> set ks \<Longrightarrow> \<exists>t. a \<le> t \<and> t \<le> a + d \<and> k = bucket_key w t" and "distinct ks" and "0 < w" and "0 \<le> d"
  shows "int (length ks) \<le> \<lceil>d / of_int w\<rceil> + 1"
proof -
  let ?m = "\<lfloor>a / of_int w\<rfloor>" and ?M = "\<lfloor>(a + d) / of_int w\<rfloor>"
  have w: "(0::rat) < of_int w" using assms(3) by simp
  have "set ks \<subseteq> (\<lambda>i. i * w) ` {?m..?M}"
  proof
    fix k
    assume "k \<in> set ks"
    then obtain t where t: "a \<le> t" "t \<le> a + d" "k = \<lfloor>t / of_int w\<rfloor> * w"
      using assms(1) by (auto simp: bucket_key_def)
    then have "\<lfloor>t / of_int w\<rfloor> \<in> {?m..?M}" using w by (auto intro!: floor_mono divide_right_mono)
    with t(3) show "k \<in> (\<lambda>i. i * w) ` {?m..?M}" by blast
  qed
  then have "card (set ks) \<le> card {?m..?M}"
    using card_mono card_image_le le_trans by (metis finite_atLeastAtMost_int finite_imageI)
  then have "int (length ks) \<le> max 0 (?M - ?m + 1)" using assms(2) by (simp add: distinct_card)
  moreover have "?M \<le> ?m + \<lceil>d / of_int w\<rceil>" by (simp add: add_divide_distrib) linarith
  moreover have "0 \<le> \<lceil>d / of_int w\<rceil>"
  proof -
    have "0 \<le> d / of_int w" using w assms(4) by simp
    then show ?thesis by linarith
  qed
  ultimately show ?thesis by linarith
qed

lemma bar_limit: "\<lceil>time_span C events / of_int (bar_width C events)\<rceil> + 1 \<le> max 49 (\<lceil>time_span C events / 86400000\<rceil> + 1)"
  using bar_width_enough [of C events] by (auto simp: ceiling_le_iff le_max_iff_disj)

text \<open>The bars in terms of the events.\<close>

abbreviation bars_of :: "Clock \<Rightarrow> IosProcessEvent list \<Rightarrow> TimelineBucket list" where
  "bars_of \<equiv> iosProcessEventsTimelineBuckets"

lemma bars_distinct: "distinct (map tb_t (bars_of C events))"
proof -
  let ?g = "bar_groups C (bar_width C events) (in_time C events)"
  have keys: "map tb_t (map snd ?g) = map fst ?g" using bar_facts(1) by (auto intro: map_cong)
  show ?thesis unfolding buckets_eq distinct_sort_keys keys by (rule group_rows_distinct)
qed

lemma bars_ordered: "sorted_wrt (\<lambda>a b. tb_t a < tb_t b) (bars_of C events)"
proof -
  have "sorted (map tb_t (bars_of C events))"
    unfolding buckets_eq using by_bar.ordered_sort by (simp add: sorted_map num_cmp_le)
  with bars_distinct have "sorted_wrt (<) (map tb_t (bars_of C events))" by (simp only: strict_sorted_iff)
  then show ?thesis by (simp only: sorted_wrt_map)
qed

lemma bar_counts:
  fixes C events b
  defines "covers \<equiv> \<lambda>e. of_int (tb_t b) \<le> fst e \<and> fst e < of_int (tb_t b + bar_width C events)"
  assumes "b \<in> set (bars_of C events)"
  shows "tb_total b = length (filter covers (timed_events C events))" and "0 < tb_total b"
    and "tb_kind b k = length (filter (\<lambda>e. covers e \<and> snd e = k) (timed_events C events))"
    and "\<exists>t. fst (hd (in_time C events)) \<le> t \<and> t \<le> fst (hd (in_time C events)) + time_span C events
           \<and> tb_t b = bucket_key (bar_width C events) t"
proof -
  let ?es = "in_time C events" and ?w = "bar_width C events"
  obtain k' where g: "(k', b) \<in> set (bar_groups C ?w ?es)" using assms(2) unfolding buckets_eq by auto
  obtain e where e: "e \<in> set ?es" "tb_t b = bucket_key ?w (fst e)" using bar_facts(1,2) [OF g] by auto
  have "0 < length (filter (\<lambda>e. bucket_key ?w (fst e) = k') ?es)"
    using e bar_facts(1) [OF g] by (auto simp: filter_empty_conv)
  then show "tb_total b = length (filter covers (timed_events C events))" "0 < tb_total b"
      "tb_kind b k = length (filter (\<lambda>e. covers e \<and> snd e = k) (timed_events C events))"
      "\<exists>t. fst (hd ?es) \<le> t \<and> t \<le> fst (hd ?es) + time_span C events \<and> tb_t b = bucket_key ?w t"
    using bar_facts(3,4) [OF g] in_time_span [OF e(1)] e(2)
    unfolding bar_facts(1) [OF g, symmetric] bucket_key_covers [OF bar_width_pos e(2)] in_time_def length_filter_sort
      covers_def by auto
qed

lemma bars_total: "sum_list (map tb_total (bars_of C events)) = length (timed_events C events)"
proof -
  have "int (sum_list (map tb_total (bars_of C events)))
      = (\<Sum>g\<leftarrow>bar_groups C (bar_width C events) (in_time C events). int (tb_total (snd g)))"
    unfolding int_sum map_map buckets_eq by (simp add: sum_sort o_def)
  also have "\<dots> = int (length (in_time C events))" by (simp add: bars.total sum_list_triv)
  finally show ?thesis by (simp add: in_time_def)
qed

lemma bars_few: "int (length (bars_of C events)) \<le> \<lceil>time_span C events / of_int (bar_width C events)\<rceil> + 1"
proof -
  have "int (length (map tb_t (bars_of C events))) \<le> \<lceil>time_span C events / of_int (bar_width C events)\<rceil> + 1"
  proof (rule bar_count [OF _ bars_distinct bar_width_pos])
    show "\<exists>t. fst (hd (in_time C events)) \<le> t \<and> t \<le> fst (hd (in_time C events)) + time_span C events
        \<and> k = bucket_key (bar_width C events) t" if "k \<in> set (map tb_t (bars_of C events))" for k
      using that bar_counts(4) by auto
    show "0 \<le> time_span C events" by (simp add: time_span_def Let_def le_max_iff_disj)
  qed
  then show ?thesis by simp
qed

text \<open>
  The bars are in order and every dated event is counted in the one that covers its time, under its
  kind; no bar is empty, and there are at most 49 of them unless the events span more than 48 days, when
  there is at most one for every day.
\<close>

lemma process_timeline:
  "let timed = timed_events C events; bs = iosProcessEventsTimelineBuckets C events; w = bar_width C events;
       covers = (\<lambda>b e. of_int (tb_t b) \<le> fst e \<and> fst e < of_int (tb_t b + w))
   in sum_list (map tb_total bs) = length timed
      \<and> sorted_wrt (\<lambda>a b. tb_t a < tb_t b) bs
      \<and> list_all (\<lambda>b. 0 < tb_total b \<and> tb_total b = length (filter (covers b) timed)) bs
      \<and> list_all (\<lambda>b. tb_kind b k = length (filter (\<lambda>e. covers b e \<and> snd e = k) timed)) bs
      \<and> int (length bs) \<le> max 49 (\<lceil>time_span C events / 86400000\<rceil> + 1)"
  using bars_total [of C events] bars_ordered [of C events] bar_counts [of _ C events] bars_few [of C events] bar_limit [of C events]
  unfolding Let_def list_all_iff by auto

end
