(* ===== verification/CrashTraces.thy ===== *)
theory CrashTraces
  imports ApiClient MplQuery Ordering Grouping
begin

text \<open>
  Crash reports of a case, \<open>src/mobipwn-web/src/lib/crashTraces.ts\<close>: rows are classified, the structured
  reports of iOS and Android are read, symbols are counted, and search queries are built. \<open>JSON.parse\<close> is
  \<open>parse\<close>, \<open>JSON.stringify(v, null, 2)\<close> is \<open>stringify\<close>, \<open>localeCompare\<close> is \<open>compare\<close>, and dates of the
  platform are arguments; numbers are integers.
\<close>

section \<open>Values\<close>

definition asRecord :: "Json option \<Rightarrow> Row option" where
  "asRecord v = (case v of Some (JObj kvs) \<Rightarrow> Some kvs | _ \<Rightarrow> None)"

definition asArray :: "Json option \<Rightarrow> Json list" where
  "asArray v = (case v of Some (JArr xs) \<Rightarrow> xs | _ \<Rightarrow> [])"

definition member :: "Row option \<Rightarrow> string \<Rightarrow> Json option" where
  "member obj key = Option.bind obj (\<lambda>kvs. map_of kvs key)"

definition present_member :: "Row option \<Rightarrow> string \<Rightarrow> Json option" where
  "present_member obj key = present (member obj key)"

text \<open>\<open>v != null ? String(v) : ""\<close> and the same with \<open>v === ""\<close> in between.\<close>

definition text_or_none :: "Json option \<Rightarrow> string" where
  "text_or_none v = (case present v of None \<Rightarrow> [] | Some w \<Rightarrow> js_text w)"

fun nestedStr :: "Row option \<Rightarrow> string list \<Rightarrow> string" where
  "nestedStr obj [] = []"
| "nestedStr obj (key # keys) = or_str (trim (text_or_none (member obj key))) (nestedStr obj keys)"

definition numOr :: "Json option \<Rightarrow> int \<Rightarrow> int" where
  "numOr v fallback =
     (case v of
        Some (JNum n) \<Rightarrow> n
      | Some (JStr s) \<Rightarrow> (if trim s \<noteq> [] then get_or fallback (js_number s) else fallback)
      | _ \<Rightarrow> fallback)"

definition is_true :: "Json option \<Rightarrow> bool" where
  "is_true v \<longleftrightarrow> v = Some (JBool True)"

text \<open>A list with the index of every member; an absent limit keeps all, a limit is not negative.\<close>

definition up_to :: "nat option \<Rightarrow> 'a list \<Rightarrow> 'a list" where
  "up_to limit xs = (case limit of None \<Rightarrow> xs | Some n \<Rightarrow> take n xs)"

definition map_indexed :: "('a \<Rightarrow> int \<Rightarrow> 'b) \<Rightarrow> 'a list \<Rightarrow> 'b list" where
  "map_indexed f xs = map (\<lambda>(i, x). f x (int i)) (indexed xs)"

section \<open>Kinds\<close>

datatype CrashKind = K_tombstone | K_anr | K_backtrace | K_crash

definition classifyCrashRow :: "Row \<Rightarrow> CrashKind" where
  "classifyCrashRow row =
     (let dt = to_lower (strField row ''data_type''); parser = to_lower (strField row ''parser'');
          msg = to_lower (strField row ''message''); fn = strField row ''function''
      in if contains ''backtrace'' dt \<or> contains ''backtrace'' msg then K_backtrace
         else if fn \<noteq> [] \<and> (parser = ''crash'' \<or> contains ''tombstone'' dt) then K_backtrace
         else if contains ''tombstone'' dt \<or> contains ''tombstone'' msg then K_tombstone
         else if contains ''anr'' dt \<or> contains ''anr'' msg then K_anr
         else if parser = ''crashlogs'' \<or> dt = ''crashlogs'' \<or> starts_with ''crashlog:'' msg then K_crash
         else if fn \<noteq> [] then K_backtrace
         else K_crash)"

definition crashKindLabel :: "CrashKind \<Rightarrow> string" where
  "crashKindLabel kind = (case kind of K_tombstone \<Rightarrow> ''Native crash'' | K_anr \<Rightarrow> ''ANR''
     | K_backtrace \<Rightarrow> ''Backtrace'' | K_crash \<Rightarrow> ''Crash'')"

definition crashKindBadgeClass :: "CrashKind \<Rightarrow> string" where
  "crashKindBadgeClass kind = ''case-crash-kind--'' @ (case kind of K_tombstone \<Rightarrow> ''tombstone'' | K_anr \<Rightarrow> ''anr''
     | K_backtrace \<Rightarrow> ''backtrace'' | K_crash \<Rightarrow> ''crash'')"

definition shortDataType :: "string \<Rightarrow> string" where
  "shortDataType dataType =
     (let dt = trim dataType in if dt = [] then [] else last (split_char (CHR '':'') dt))"

definition summarizeCrashRows :: "Row list \<Rightarrow> CrashKind \<Rightarrow> nat" where
  "summarizeCrashRows rows =
     foldl (\<lambda>counts row. counts(classifyCrashRow row := Suc (counts (classifyCrashRow row)))) (\<lambda>k. 0) rows"

definition crashIncidents :: "Row list \<Rightarrow> Row list" where
  "crashIncidents rows = filter (\<lambda>row. classifyCrashRow row \<in> {K_tombstone, K_anr, K_crash}) rows"

definition backtraceFrames :: "Row list \<Rightarrow> nat \<Rightarrow> Row list" where
  "backtraceFrames rows limit = take limit (filter (\<lambda>row. classifyCrashRow row = K_backtrace) rows)"

section \<open>Texts of a report\<close>

text \<open>\<open>path.split(/[/\\]/).filter(Boolean)\<close>, the last one.\<close>

definition basenamePath :: "string \<Rightarrow> string" where
  "basenamePath path =
     (let parts = nonempty (split_char (CHR ''/'') (map (\<lambda>c. if c = CHR 0x5C then CHR ''/'' else c) path))
      in if parts = [] then path else last parts)"

definition formatExceptionCodes :: "Row option \<Rightarrow> string" where
  "formatExceptionCodes exception =
     (case member exception ''codes'' of
        Some (JArr cs) \<Rightarrow> join '', '' (nonempty (map js_text cs))
      | codes \<Rightarrow> or_str (trim (text_or_none codes))
          (trim (text_or_none (or_else (present_member exception ''rawCodes'') (member exception ''subtype'')))))"

definition asi_item :: "Json \<Rightarrow> string" where
  "asi_item item =
     (case item of
        JStr s \<Rightarrow> trim s
      | JObj kvs \<Rightarrow> join '': '' (nonempty (map (\<lambda>(k, v). trim (text_or_none (Some v))) kvs))
      | _ \<Rightarrow> [])"

definition asi_member :: "string \<times> Json \<Rightarrow> string" where
  "asi_member = (\<lambda>(k, v).
     (let body = (case v of JArr xs \<Rightarrow> join newline (map js_text xs) | _ \<Rightarrow> text_or_none (Some v))
      in if body \<noteq> [] then k @ '': '' @ body else k))"

definition formatAsi :: "Json option \<Rightarrow> string" where
  "formatAsi val =
     (case present val of
        None \<Rightarrow> []
      | Some (JArr items) \<Rightarrow> join newline (nonempty (map asi_item items))
      | Some (JObj kvs) \<Rightarrow> join newline (nonempty (map asi_member kvs))
      | Some v \<Rightarrow> trim (js_text v))"

section \<open>Fields\<close>

type_synonym CrashField = "string \<times> string"

definition SKIP_SCALAR_KEYS :: "string list" where
  "SKIP_SCALAR_KEYS = [''threads'', ''used_images'', ''usedImages'', ''last_exception_backtrace'',
     ''lastExceptionBacktrace'', ''exception'', ''termination'', ''report'', ''report_raw'', ''crash_structure'',
     ''asi'', ''ASI'', ''frames'']"

fun is_scalar :: "Json \<Rightarrow> bool" where
  "is_scalar JNull \<longleftrightarrow> False"
| "is_scalar (JArr xs) \<longleftrightarrow> False"
| "is_scalar (JObj kvs) \<longleftrightarrow> False"
| "is_scalar v \<longleftrightarrow> True"

text \<open>\<open>flattenScalarFields\<close>, whose result is sorted at every level; the keys of an object differ.\<close>

fun flatten_value :: "(string \<Rightarrow> string \<Rightarrow> int) \<Rightarrow> string list \<Rightarrow> string \<Rightarrow> string \<Rightarrow> Json \<Rightarrow> CrashField list"
  and flatten_members :: "(string \<Rightarrow> string \<Rightarrow> int) \<Rightarrow> string list \<Rightarrow> string \<Rightarrow> Row \<Rightarrow> CrashField list"
where
  "flatten_value compare skip prefix k (JObj kvs) =
     js_sort (\<lambda>a b. compare (fst a) (fst b)) (flatten_members compare skip (prefix @ k @ ''.'') kvs)"
| "flatten_value compare skip prefix k (JArr xs) =
     (let joined = join '', '' (nonempty (map js_text xs))
      in if list_all is_scalar xs \<and> joined \<noteq> [] then [(prefix @ k, joined)] else [])"
| "flatten_value compare skip prefix k JNull = []"
| "flatten_value compare skip prefix k v = (let s = trim (js_text v) in if s = [] then [] else [(prefix @ k, s)])"
| "flatten_members compare skip prefix [] = []"
| "flatten_members compare skip prefix ((k, v) # kvs) =
     (if k \<in> set skip then [] else flatten_value compare skip prefix k v) @ flatten_members compare skip prefix kvs"

definition flattenScalarFields :: "(string \<Rightarrow> string \<Rightarrow> int) \<Rightarrow> string list \<Rightarrow> Row option \<Rightarrow> CrashField list" where
  "flattenScalarFields compare skip obj =
     (case obj of None \<Rightarrow> [] | Some kvs \<Rightarrow> js_sort (\<lambda>a b. compare (fst a) (fst b)) (flatten_members compare skip [] kvs))"

section \<open>Reports of iOS\<close>

record IosCrashFrame =
  if_index :: int
  if_symbol :: string
  if_image :: string
  if_address :: string
  if_imageOffset :: string
  if_imageIndex :: string
  if_symbolLocation :: string

record IosCrashImage =
  ii_index :: int
  ii_name :: string
  ii_uuid :: string
  ii_arch :: string
  ii_base :: string

record IosCrashThread =
  it_id :: string
  it_triggered :: bool
  it_name :: string
  it_queue :: string
  it_frameCount :: int
  it_frames :: "IosCrashFrame list"

record IosCrashStructure =
  is_threadsTotal :: int
  is_threadsTruncated :: bool
  is_framesTruncated :: bool
  is_imagesTotal :: int
  is_imagesTruncated :: bool

definition either_member :: "Row option \<Rightarrow> string \<Rightarrow> string \<Rightarrow> Json option" where
  "either_member obj a b = or_else (present_member obj a) (member obj b)"

definition mapFrame :: "Json \<Rightarrow> int \<Rightarrow> IosCrashFrame" where
  "mapFrame fr fallbackIndex =
     (let f = asRecord (Some fr) in
      \<lparr>if_index = numOr (member f ''index'') fallbackIndex,
       if_symbol = or_str (nestedStr f [''symbol'', ''symbolName'']) em_dash,
       if_image = nestedStr f [''image'', ''image_name'', ''name''],
       if_address = nestedStr f [''address''],
       if_imageOffset = text_or_none (either_member f ''image_offset'' ''imageOffset''),
       if_imageIndex = text_or_none (either_member f ''image_index'' ''imageIndex''),
       if_symbolLocation = text_or_none (either_member f ''symbol_location'' ''symbolLocation'')\<rparr>)"

definition mapFrameList :: "Json list \<Rightarrow> nat option \<Rightarrow> IosCrashFrame list" where
  "mapFrameList frames limit = map_indexed mapFrame (up_to limit frames)"

definition id_text :: "Json option \<Rightarrow> int \<Rightarrow> string" where
  "id_text v fallbackId =
     (case present v of None \<Rightarrow> int_str fallbackId | Some (JStr []) \<Rightarrow> int_str fallbackId | Some w \<Rightarrow> js_text w)"

definition mapThread :: "Json \<Rightarrow> int \<Rightarrow> IosCrashThread" where
  "mapThread th fallbackId =
     (let t = asRecord (Some th); frames = asArray (member t ''frames'') in
      \<lparr>it_id = id_text (member t ''id'') fallbackId,
       it_triggered = is_true (member t ''triggered''), it_name = nestedStr t [''name''],
       it_queue = nestedStr t [''queue'', ''dispatch_queue''],
       it_frameCount = numOr (member t ''frame_count'') (int (length frames)),
       it_frames = mapFrameList frames None\<rparr>)"

definition mapImage :: "Json \<Rightarrow> int \<Rightarrow> IosCrashImage" where
  "mapImage img fallbackIndex =
     (let o' = asRecord (Some img) in
      \<lparr>ii_index = numOr (member o' ''index'') fallbackIndex,
       ii_name = or_str (nestedStr o' [''name'', ''path'']) em_dash,
       ii_uuid = nestedStr o' [''uuid''], ii_arch = nestedStr o' [''arch''], ii_base = nestedStr o' [''base'']\<rparr>)"

definition faulting_number :: "Row \<Rightarrow> int option" where
  "faulting_number ext =
     (case map_of ext ''faulting_thread'' of
        Some (JNum n) \<Rightarrow> Some n
      | Some (JStr s) \<Rightarrow> (if trim s \<noteq> [] then js_number s else None)
      | _ \<Rightarrow> None)"

definition has_number :: "int option \<Rightarrow> Json \<Rightarrow> bool" where
  "has_number n t \<longleftrightarrow> n \<noteq> None \<and> numFromValue (member (asRecord (Some t)) ''id'') = n"

definition faultingThreadRecord :: "Row \<Rightarrow> Row option" where
  "faultingThreadRecord ext =
     (let threads = asArray (map_of ext ''threads'') in
      if threads = [] then None
      else asRecord (Some (get_or (hd threads)
        (or_else (List.find (\<lambda>t. is_true (member (asRecord (Some t)) ''triggered'')) threads)
          (List.find (has_number (faulting_number ext)) threads)))))"

definition iosStackFrames :: "JsonParse \<Rightarrow> Row \<Rightarrow> nat \<Rightarrow> IosCrashFrame list" where
  "iosStackFrames parse row limit =
     (case faultingThreadRecord (parseExt parse row) of
        None \<Rightarrow> []
      | Some thread \<Rightarrow> mapFrameList (asArray (map_of thread ''frames'')) (Some limit))"

definition iosLastExceptionFrames :: "JsonParse \<Rightarrow> Row \<Rightarrow> nat \<Rightarrow> IosCrashFrame list" where
  "iosLastExceptionFrames parse row limit =
     mapFrameList (asArray (map_of (parseExt parse row) ''last_exception_backtrace'')) (Some limit)"

definition iosAllThreads :: "JsonParse \<Rightarrow> Row \<Rightarrow> IosCrashThread list" where
  "iosAllThreads parse row = map_indexed mapThread (asArray (map_of (parseExt parse row) ''threads''))"

definition iosUsedImages :: "JsonParse \<Rightarrow> Row \<Rightarrow> nat option \<Rightarrow> IosCrashImage list" where
  "iosUsedImages parse row limit =
     filter (\<lambda>img. ii_name img \<noteq> [] \<and> ii_name img \<noteq> em_dash)
       (map_indexed mapImage (up_to limit (asArray (map_of (parseExt parse row) ''used_images''))))"

definition iosCrashStructure :: "JsonParse \<Rightarrow> Row \<Rightarrow> IosCrashStructure option" where
  "iosCrashStructure parse row =
     map_option (\<lambda>s. let m = member (Some s) in
       \<lparr>is_threadsTotal = numOr (m ''threads_total'') 0, is_threadsTruncated = is_true (m ''threads_truncated''),
        is_framesTruncated = is_true (m ''frames_truncated''), is_imagesTotal = numOr (m ''images_total'') 0,
        is_imagesTruncated = is_true (m ''images_truncated'')\<rparr>)
       (asRecord (map_of (parseExt parse row) ''crash_structure''))"

record IosCrashDetail =
  id_process :: string
  id_bundle :: string
  id_exceptionType :: string
  id_exceptionCodes :: string
  id_signal :: string
  id_termination :: string
  id_reason :: string
  id_asi :: string
  id_pid :: string
  id_osVersion :: string
  id_appVersion :: string
  id_ipsFormat :: string
  id_crashPath :: string
  id_crashFile :: string
  id_faultingThread :: string
  id_threadName :: string
  id_threadQueue :: string
  id_threadsTotal :: int
  id_frameCount :: int
  id_frames :: "IosCrashFrame list"
  id_lastExceptionFrames :: "IosCrashFrame list"
  id_images :: "IosCrashImage list"

text \<open>\<open>exception\<close> and \<open>termination\<close>: a member of the report when \<open>ext\<close> has none.\<close>

definition own_or_report :: "Row \<Rightarrow> string \<Rightarrow> Row option" where
  "own_or_report ext key =
     or_else (asRecord (map_of ext key)) (asRecord (member (asRecord (map_of ext ''report'')) key))"

definition termination_text :: "Row option \<Rightarrow> string" where
  "termination_text termination =
     or_str (nestedStr termination [''indicator'', ''namespace'', ''code''])
       (join '' / '' (filter (\<lambda>s. trim s \<noteq> [])
         (map (\<lambda>k. text_or_none (member termination k)) [''indicator'', ''namespace'', ''code''])))"

definition iosCrashDetail :: "JsonParse \<Rightarrow> Row \<Rightarrow> IosCrashDetail" where
  "iosCrashDetail parse row =
     (let ext = parseExt parse row; e = Some ext; field = strField row;
          exception = own_or_report ext ''exception''; termination = own_or_report ext ''termination'';
          report = asRecord (map_of ext ''report''); structure = asRecord (map_of ext ''crash_structure'');
          thread = faultingThreadRecord ext;
          crashPath = or_str (nestedStr e [''crash_source'', ''file_path'', ''path'', ''source'']) (field ''file_path'');
          frames = iosStackFrames parse row 24
      in \<lparr>id_process = or_texts [field ''process_name'', nestedStr report [''procName''],
            nestedStr e [''procName'', ''app_name'', ''name''], field ''bundle_id'', em_dash],
          id_bundle = or_texts [field ''bundle_id'', nestedStr e [''bundleIdentifier'', ''bundleID'', ''bundleId''],
            nestedStr report [''bundleID'', ''bundleIdentifier'', ''coalitionName'']],
          id_exceptionType = or_str (nestedStr exception [''type'']) (nestedStr e [''exception'']),
          id_exceptionCodes = formatExceptionCodes exception,
          id_signal = or_texts [field ''action'', nestedStr exception [''signal''], nestedStr e [''signal'']],
          id_termination = termination_text termination,
          id_reason = or_texts [nestedStr report [''reason''], nestedStr e [''reason''], nestedStr termination [''reason'']],
          id_asi = formatAsi (or_else (present_member report ''asi'') (or_else (present_member e ''asi'') (member report ''ASI''))),
          id_pid = or_texts [nestedStr report [''pid'', ''procid''], text_or_none (member report ''pid''), nestedStr e [''pid'']],
          id_osVersion = or_str (nestedStr report [''osVersion'', ''os_version'']) (nestedStr e [''osVersion'', ''os_version'']),
          id_appVersion = or_str (nestedStr report [''appVersion'', ''bundleVersion'', ''CFBundleVersion'', ''version''])
            (nestedStr (asRecord (member report ''storeInfo'')) [''appVersion'', ''applicationVersion'']),
          id_ipsFormat = or_str (nestedStr e [''ips_format'']) (field ''ips_format''),
          id_crashPath = crashPath, id_crashFile = basenamePath crashPath,
          id_faultingThread = or_texts [nestedStr e [''faulting_thread''], text_or_none (map_of ext ''faulting_thread''),
            text_or_none (member thread ''id'')],
          id_threadName = nestedStr thread [''name''], id_threadQueue = nestedStr thread [''queue'', ''dispatch_queue''],
          id_threadsTotal = numOr (member structure ''threads_total'') (int (length (asArray (map_of ext ''threads'')))),
          id_frameCount = int (length frames), id_frames = frames,
          id_lastExceptionFrames = iosLastExceptionFrames parse row 16,
          id_images = iosUsedImages parse row (Some 12)\<rparr>)"

definition iosCrashKey :: "JsonParse \<Rightarrow> Row \<Rightarrow> string" where
  "iosCrashKey parse row =
     (let d = iosCrashDetail parse row in
      or_texts [id_crashPath d, id_crashFile d,
        strField row ''timestamp'' @ ''|'' @ id_process d @ ''|'' @ id_pid d])"

record IosCrashAdvancedDetail = IosCrashDetail +
  ia_timestamp :: string
  ia_message :: string
  ia_key :: string
  ia_threads :: "IosCrashThread list"
  ia_structure :: "IosCrashStructure option"
  ia_reportRaw :: string
  ia_reportFields :: "CrashField list"
  ia_headerFields :: "CrashField list"
  ia_exceptionFields :: "CrashField list"
  ia_terminationFields :: "CrashField list"
  ia_extJson :: string

definition header_skip :: "string list" where
  "header_skip = SKIP_SCALAR_KEYS @ [''crash_source'', ''file_path'', ''path'', ''source'', ''process_name'', ''bundle_id'',
     ''bundleIdentifier'', ''bundleID'', ''bundleId'', ''function'', ''symbol'', ''signal'', ''action'', ''event_type'',
     ''parser'', ''datetime'', ''timestamp'', ''timestamp_desc'', ''message'', ''data_type'', ''severity'', ''platform'']"

definition nonzero_or :: "int \<Rightarrow> int \<Rightarrow> int" where
  "nonzero_or a b = (if a \<noteq> 0 then a else b)"

definition iosCrashAdvancedDetail ::
  "JsonParse \<Rightarrow> (Json \<Rightarrow> string) \<Rightarrow> (string \<Rightarrow> string \<Rightarrow> int) \<Rightarrow> Row \<Rightarrow> IosCrashAdvancedDetail" where
  "iosCrashAdvancedDetail parse stringify compare row =
     (let base = iosCrashDetail parse row; ext = parseExt parse row; threads = iosAllThreads parse row;
          structure = iosCrashStructure parse row; flat = flattenScalarFields compare
      in IosCrashDetail.extend
        (base\<lparr>id_frames := iosStackFrames parse row 24,
          id_lastExceptionFrames := iosLastExceptionFrames parse row 16,
          id_images := iosUsedImages parse row None,
          id_threadsTotal := nonzero_or (case structure of None \<Rightarrow> 0 | Some s \<Rightarrow> is_threadsTotal s)
            (nonzero_or (int (length threads)) (id_threadsTotal base)),
          id_frameCount := (case List.find it_triggered threads of
              Some t \<Rightarrow> int (length (it_frames t)) | None \<Rightarrow> id_frameCount base)\<rparr>)
        (IosCrashAdvancedDetail.fields (strField row ''timestamp'') (strField row ''message'') (iosCrashKey parse row)
          threads structure
          (case present (map_of ext ''report_raw'') of None \<Rightarrow> [] | Some (JStr s) \<Rightarrow> s | Some v \<Rightarrow> stringify v)
          (flat SKIP_SCALAR_KEYS (asRecord (map_of ext ''report''))) (flat header_skip (Some ext))
          (flat [] (own_or_report ext ''exception'')) (flat [] (own_or_report ext ''termination''))
          (stringify (JObj ext))))"

section \<open>Reports of Android\<close>

record AndroidCrashFrame =
  af_index :: int
  af_function :: string
  af_library :: string
  af_pc :: string
  af_offset :: string
  af_buildId :: string
  af_rawLine :: string
  af_frameType :: string
  af_method :: string
  af_fileLoc :: string
  af_lineNumber :: string
  af_address :: string
  af_details :: string

record AndroidCrashThread =
  at_id :: string
  at_name :: string
  at_tid :: string
  at_priority :: string
  at_status :: string
  at_isDaemon :: bool
  at_frameCount :: int
  at_frames :: "AndroidCrashFrame list"

definition native_line :: "Row option \<Rightarrow> string" where
  "native_line f =
     (if trim (text_or_none (member f ''line_number'')) \<noteq> [] then text_or_none (member f ''line_number'')
      else text_or_none (member f ''lineNumber''))"

definition native_frame :: "Row option \<Rightarrow> int \<Rightarrow> AndroidCrashFrame" where
  "native_frame f fallbackIndex =
     (let frameNum = numOr (member f ''frame'') fallbackIndex in
      \<lparr>af_index = (if frameNum \<ge> 0 then frameNum else fallbackIndex),
       af_function = or_str (nestedStr f [''function'']) (nestedStr f [''method'']),
       af_library = nestedStr f [''library''], af_pc = nestedStr f [''pc''], af_offset = nestedStr f [''offset''],
       af_buildId = nestedStr f [''build_id'', ''buildId''], af_rawLine = nestedStr f [''raw_line'', ''rawLine''],
       af_frameType = nestedStr f [''frame_type'', ''frameType''], af_method = nestedStr f [''method''],
       af_fileLoc = nestedStr f [''file_loc'', ''fileLoc''], af_lineNumber = native_line f,
       af_address = nestedStr f [''address''], af_details = nestedStr f [''details'']\<rparr>)"

definition mapAndroidNativeFrame :: "Json \<Rightarrow> int \<Rightarrow> AndroidCrashFrame" where
  "mapAndroidNativeFrame fr fallbackIndex = native_frame (asRecord (Some fr)) fallbackIndex"

definition positive_text :: "Json option \<Rightarrow> string" where
  "positive_text v = (case numFromValue v of Some n \<Rightarrow> (if n > 0 then text_or_none v else []) | None \<Rightarrow> [])"

definition mapAndroidAnrFrame :: "Json \<Rightarrow> int \<Rightarrow> AndroidCrashFrame" where
  "mapAndroidAnrFrame fr fallbackIndex =
     (let f = asRecord (Some fr); method = nestedStr f [''method'']; library = nestedStr f [''library''];
          fileLoc = nestedStr f [''file_loc'', ''fileLoc''];
          line = or_str (positive_text (member f ''line_number'')) (positive_text (member f ''lineNumber''));
          details = nestedStr f [''details''];
          place = (if fileLoc \<noteq> [] \<and> line \<noteq> [] then fileLoc @ '':'' @ line else fileLoc)
      in \<lparr>af_index = fallbackIndex,
          af_function = or_texts [method, details, join '' '' (nonempty [library, place])],
          af_library = library, af_pc = [], af_offset = [], af_buildId = [], af_rawLine = details,
          af_frameType = or_str (nestedStr f [''frame_type'', ''frameType'']) ''managed'', af_method = method,
          af_fileLoc = fileLoc, af_lineNumber = line, af_address = nestedStr f [''address''], af_details = details\<rparr>)"

definition mapAndroidAnrThread :: "Json \<Rightarrow> int \<Rightarrow> AndroidCrashThread" where
  "mapAndroidAnrThread th fallbackId =
     (let t = asRecord (Some th); stack = asArray (either_member t ''stack_trace'' ''stackTrace'');
          tid = text_or_none (member t ''tid'')
      in \<lparr>at_id = or_texts [tid, nestedStr t [''name''], int_str fallbackId],
          at_name = or_str (nestedStr t [''name'']) (''thread '' @ int_str fallbackId), at_tid = tid,
          at_priority = text_or_none (member t ''priority''), at_status = nestedStr t [''status'', ''state''],
          at_isDaemon = (is_true (member t ''is_daemon'') \<or> is_true (member t ''isDaemon'')),
          at_frameCount = int (length stack), at_frames = map_indexed mapAndroidAnrFrame stack\<rparr>)"

definition androidTombstoneFrames :: "JsonParse \<Rightarrow> Row \<Rightarrow> nat option \<Rightarrow> AndroidCrashFrame list" where
  "androidTombstoneFrames parse row limit =
     map_indexed mapAndroidNativeFrame (up_to limit (asArray (map_of (parseExt parse row) ''backtrace'')))"

definition androidAnrThreads :: "JsonParse \<Rightarrow> Row \<Rightarrow> AndroidCrashThread list" where
  "androidAnrThreads parse row = map_indexed mapAndroidAnrThread (asArray (map_of (parseExt parse row) ''threads''))"

definition sibling_frame :: "JsonParse \<Rightarrow> string \<Rightarrow> string \<Rightarrow> Row \<Rightarrow> bool" where
  "sibling_frame parse process ts row \<longleftrightarrow>
     (let ext = Some (parseExt parse row);
          proc = or_str (nestedStr ext [''tombstone_process'']) (strField row ''process_name'')
      in classifyCrashRow row = K_backtrace
         \<and> \<not> (process \<noteq> [] \<and> proc \<noteq> [] \<and> proc \<noteq> process)
         \<and> \<not> (ts \<noteq> [] \<and> strField row ''timestamp'' \<noteq> [] \<and> strField row ''timestamp'' \<noteq> ts))"

text \<open>The loop that pushes until the limit is reached; it looks at the limit after a push.\<close>

fun push_until :: "('a \<Rightarrow> int \<Rightarrow> 'b) \<Rightarrow> int \<Rightarrow> 'b list \<Rightarrow> 'a list \<Rightarrow> 'b list" where
  "push_until f limit out [] = out"
| "push_until f limit out (x # xs) =
     (let out' = out @ [f x (int (length out))] in
      if int (length out') \<ge> limit then out' else push_until f limit out' xs)"

definition androidFramesFromSiblings :: "JsonParse \<Rightarrow> Row \<Rightarrow> Row list \<Rightarrow> nat \<Rightarrow> AndroidCrashFrame list" where
  "androidFramesFromSiblings parse tombstoneRow allRows limit =
     (let nested = androidTombstoneFrames parse tombstoneRow (Some limit);
          process = or_str (strField tombstoneRow ''process_name'')
            (nestedStr (Some (parseExt parse tombstoneRow)) [''process_name'', ''tombstone_process'']);
          ts = strField tombstoneRow ''timestamp''
      in if nested \<noteq> [] then nested
         else push_until (\<lambda>row. native_frame (Some (parseExt parse row))) (int limit) []
                (filter (sibling_frame parse process ts) allRows))"

record AndroidCrashDetail =
  ad_kind :: CrashKind
  ad_process :: string
  ad_signal :: string
  ad_code :: string
  ad_faultAddr :: string
  ad_abortMessage :: string
  ad_pid :: string
  ad_tid :: string
  ad_uid :: string
  ad_threadName :: string
  ad_cmdline :: string
  ad_abi :: string
  ad_buildFingerprint :: string
  ad_filename :: string
  ad_subject :: string
  ad_size :: string
  ad_owner :: string
  ad_group :: string
  ad_permissions :: string
  ad_frameCount :: int
  ad_frames :: "AndroidCrashFrame list"
  ad_threadsTotal :: int

definition process_info :: "Row \<Rightarrow> Row option" where
  "process_info ext = or_else (asRecord (map_of ext ''process_info'')) (asRecord (map_of ext ''processInfo''))"

definition shown_frames :: "JsonParse \<Rightarrow> Row \<Rightarrow> Row list option \<Rightarrow> CrashKind \<Rightarrow> AndroidCrashFrame list" where
  "shown_frames parse row allRows kind =
     (let anrThreads = androidAnrThreads parse row in
      if kind = K_anr \<and> anrThreads \<noteq> [] then at_frames (hd anrThreads)
      else case allRows of
        Some rows \<Rightarrow> androidFramesFromSiblings parse row rows 24
      | None \<Rightarrow> androidTombstoneFrames parse row (Some 24))"

definition androidCrashDetail :: "JsonParse \<Rightarrow> Row \<Rightarrow> Row list option \<Rightarrow> AndroidCrashDetail" where
  "androidCrashDetail parse row allRows =
     (let kind = classifyCrashRow row; ext = parseExt parse row; e = Some ext; info = process_info ext;
          header = asRecord (map_of ext ''header''); frames = shown_frames parse row allRows kind
      in \<lparr>ad_kind = kind,
          ad_process = or_texts [strField row ''process_name'', nestedStr e [''process_name'', ''tombstone_process''],
            nestedStr info [''cmd_line'', ''cmdLine'', ''process_name''], nestedStr e [''filename''],
            nestedStr header [''subject''], em_dash],
          ad_signal = or_str (nestedStr e [''signal'']) (if kind = K_tombstone then strField row ''action'' else []),
          ad_code = nestedStr e [''code''], ad_faultAddr = nestedStr e [''fault_addr'', ''faultAddr''],
          ad_abortMessage = nestedStr e [''abort_message'', ''abortMessage''],
          ad_pid = or_texts [nestedStr e [''pid''], text_or_none (map_of ext ''pid''), strField row ''process_id''],
          ad_tid = or_str (nestedStr e [''tid'']) (text_or_none (map_of ext ''tid'')),
          ad_uid = or_str (nestedStr e [''uid'']) (text_or_none (map_of ext ''uid'')),
          ad_threadName = nestedStr e [''thread_name'', ''threadName''],
          ad_cmdline = or_str (nestedStr e [''cmdline'', ''cmd_line'']) (nestedStr info [''cmd_line'', ''cmdLine'']),
          ad_abi = or_str (nestedStr e [''abi'']) (nestedStr info [''abi'']),
          ad_buildFingerprint = or_str (nestedStr e [''build_fingerprint'', ''buildFingerprint''])
            (nestedStr info [''build_fingerprint'', ''buildFingerprint'']),
          ad_filename = or_str (nestedStr e [''filename'']) (if kind = K_anr then strField row ''action'' else []),
          ad_subject = nestedStr header [''subject''], ad_size = text_or_none (map_of ext ''size''),
          ad_owner = nestedStr e [''owner''], ad_group = nestedStr e [''group''], ad_permissions = nestedStr e [''permissions''],
          ad_frameCount = int (length frames), ad_frames = frames,
          ad_threadsTotal = int (length (androidAnrThreads parse row))\<rparr>)"

definition androidCrashKey :: "JsonParse \<Rightarrow> Row \<Rightarrow> string" where
  "androidCrashKey parse row =
     (let d = androidCrashDetail parse row None; ts = strField row ''timestamp'' in
      if ad_filename d \<noteq> [] then ''anr-file:'' @ ad_filename d
      else if ad_subject d \<noteq> [] then ''anr-trace:'' @ ad_subject d @ ''|'' @ ts
      else strField row ''data_type'' @ ''|'' @ ts @ ''|'' @ ad_process d @ ''|'' @ ad_pid d @ ''|'' @ ad_signal d)"

record AndroidCrashAdvancedDetail = AndroidCrashDetail +
  aa_timestamp :: string
  aa_message :: string
  aa_key :: string
  aa_threads :: "AndroidCrashThread list"
  aa_processInfoFields :: "CrashField list"
  aa_headerFields :: "CrashField list"
  aa_metadataFields :: "CrashField list"
  aa_extJson :: string

text \<open>The frames of the explorer: 64 when the other rows are known, all nested ones otherwise.\<close>

definition explorer_frames :: "JsonParse \<Rightarrow> Row \<Rightarrow> Row list option \<Rightarrow> AndroidCrashFrame list" where
  "explorer_frames parse row allRows =
     (case allRows of
        Some rows \<Rightarrow> androidFramesFromSiblings parse row rows 64
      | None \<Rightarrow> androidTombstoneFrames parse row None)"

definition explorer_threads :: "JsonParse \<Rightarrow> Row \<Rightarrow> Row list option \<Rightarrow> AndroidCrashDetail \<Rightarrow> AndroidCrashThread list" where
  "explorer_threads parse row allRows base =
     (if ad_kind base = K_anr then androidAnrThreads parse row
      else if ad_frames base \<noteq> []
      then [\<lparr>at_id = or_str (ad_tid base) ''0'', at_name = or_str (ad_threadName base) ''crashing thread'',
             at_tid = ad_tid base, at_priority = [], at_status = [], at_isDaemon = False,
             at_frameCount = int (length (ad_frames base)), at_frames = explorer_frames parse row allRows\<rparr>]
      else [])"

definition metadata_skip :: "string list" where
  "metadata_skip = [''backtrace'', ''threads'', ''header'', ''process_info'', ''processInfo'', ''stack_trace'', ''stackTrace'']"

definition androidCrashAdvancedDetail ::
  "JsonParse \<Rightarrow> (Json \<Rightarrow> string) \<Rightarrow> (string \<Rightarrow> string \<Rightarrow> int) \<Rightarrow> Row \<Rightarrow> Row list option \<Rightarrow> AndroidCrashAdvancedDetail" where
  "androidCrashAdvancedDetail parse stringify compare row allRows =
     (let base = androidCrashDetail parse row allRows; ext = parseExt parse row;
          threads = explorer_threads parse row allRows base; flat = flattenScalarFields compare
      in AndroidCrashDetail.extend
        (base\<lparr>ad_frames := (case threads of t # ts \<Rightarrow> at_frames t | [] \<Rightarrow> explorer_frames parse row allRows),
          ad_frameCount := nonzero_or (\<Sum>t\<leftarrow>threads. int (length (at_frames t))) (ad_frameCount base),
          ad_threadsTotal := nonzero_or (int (length threads)) (ad_threadsTotal base)\<rparr>)
        (AndroidCrashAdvancedDetail.fields (strField row ''timestamp'') (strField row ''message'')
          (androidCrashKey parse row) threads (flat [] (process_info ext))
          (flat [] (asRecord (map_of ext ''header''))) (flat metadata_skip (Some ext)) (stringify (JObj ext))))"

section \<open>Lists of frames and symbols\<close>

type_synonym 'f RecentFrame = "Row \<times> 'f \<times> string"

definition standalone_frame :: "JsonParse \<Rightarrow> Row \<Rightarrow> int \<Rightarrow> AndroidCrashFrame RecentFrame" where
  "standalone_frame parse row i =
     (let ext = parseExt parse row; e = Some ext;
          fn = or_str (strField row ''function'') (nestedStr e [''function'']);
          obj = (''function'', JStr fn) # (''library'', JStr (nestedStr e [''library''])) # ext
      in (row, native_frame (Some obj) i,
          or_texts [nestedStr e [''tombstone_process''], strField row ''process_name'', em_dash]))"

definition incident_frames :: "JsonParse \<Rightarrow> Row list \<Rightarrow> AndroidCrashFrame RecentFrame list" where
  "incident_frames parse rows =
     concat (map (\<lambda>row. let d = androidCrashDetail parse row (Some rows) in
       map (\<lambda>f. (row, f, ad_process d)) (take 8 (ad_frames d))) (crashIncidents rows))"

definition androidRecentFrames :: "JsonParse \<Rightarrow> Row list \<Rightarrow> nat \<Rightarrow> AndroidCrashFrame RecentFrame list" where
  "androidRecentFrames parse rows limit =
     (let out = push_until (\<lambda>x i. x) (int limit) [] (incident_frames parse rows)
      in if out \<noteq> [] \<and> length out \<ge> limit then out
         else push_until (standalone_frame parse) (int limit) out (backtraceFrames rows limit))"

definition iosRecentFrames :: "JsonParse \<Rightarrow> Row list \<Rightarrow> nat \<Rightarrow> IosCrashFrame RecentFrame list" where
  "iosRecentFrames parse rows limit =
     push_until (\<lambda>x i. x) (int limit) []
       (concat (map (\<lambda>row. let process = id_process (iosCrashDetail parse row) in
          map (\<lambda>f. (row, f, process)) (iosStackFrames parse row 6)) (crashIncidents rows)))"

record SymbolStat =
  ss_process :: string
  ss_function :: string
  ss_bundle :: string
  ss_count :: nat

text \<open>The calls of \<open>bump\<close> for a row: process, symbol, bundle.\<close>

definition mentions_of :: "JsonParse \<Rightarrow> Row \<Rightarrow> (string \<times> string \<times> string) list" where
  "mentions_of parse row =
     (let process = or_texts [strField row ''process_name'', strField row ''bundle_id'', em_dash];
          bundle = strField row ''bundle_id''; promoted = strField row ''function''
      in map (\<lambda>fn. (process, fn, bundle))
           ((if promoted \<noteq> [] then [promoted] else [])
            @ filter (\<lambda>s. s \<noteq> [] \<and> s \<noteq> em_dash) (map if_symbol (iosStackFrames parse row 12))
            @ nonempty (map (\<lambda>f. or_str (af_function f) (af_method f)) (androidTombstoneFrames parse row (Some 12)))))"

definition symbol_key :: "string \<times> string \<times> string \<Rightarrow> string option" where
  "symbol_key = (\<lambda>(process, fn, bundle). if fn = [] \<or> fn = em_dash then None else Some (process @ [CHR 0x00] @ fn))"

definition new_symbol :: "string \<times> string \<times> string \<Rightarrow> SymbolStat" where
  "new_symbol = (\<lambda>(process, fn, bundle). \<lparr>ss_process = process, ss_function = fn, ss_bundle = bundle, ss_count = 1\<rparr>)"

definition count_symbol :: "SymbolStat \<Rightarrow> string \<times> string \<times> string \<Rightarrow> SymbolStat" where
  "count_symbol s m = s\<lparr>ss_count := Suc (ss_count s)\<rparr>"

definition compare_symbols :: "SymbolStat \<Rightarrow> SymbolStat \<Rightarrow> int" where
  "compare_symbols a b = int (ss_count b) - int (ss_count a)"

definition topCrashSymbols :: "JsonParse \<Rightarrow> Row list \<Rightarrow> nat \<Rightarrow> SymbolStat list" where
  "topCrashSymbols parse rows limit =
     take limit (js_sort compare_symbols
       (map snd (group_rows symbol_key new_symbol count_symbol (concat (map (mentions_of parse) rows)))))"

section \<open>Queries and links\<close>

datatype CrashPlatform = Android_crashes | Ios_crashes | Endpoint_crashes

definition crashTracesQuery :: "string \<Rightarrow> CrashPlatform \<Rightarrow> nat \<Rightarrow> string" where
  "crashTracesQuery source platform head =
     (let src = quoted (escapeMplString source) in
      if platform = Ios_crashes
      then ''source='' @ src @ '' parser='' @ quoted ''crashlogs'' @ '' | fields timestamp, bundle_id, process_name, function, action, message, data_type, severity, ips_format, file_path, ext | sort -timestamp | head '' @ nat_str head
      else ''source='' @ src @ '' parser='' @ quoted ''Crash'' @ '' (function=* OR data_type=*tombstone* OR data_type=*anr* OR data_type=*backtrace* OR process_name=*) | fields timestamp, bundle_id, process_name, function, action, message, data_type, severity, process_id, ext | sort -timestamp | head '' @ nat_str head)"

definition caseCrashAdvancedHref :: "string \<Rightarrow> string \<Rightarrow> string" where
  "caseCrashAdvancedHref caseId crashKey =
     ''/cases/'' @ encodeURIComponent caseId @ ''/crashes''
     @ (if crashKey = [] then [] else ''?crash='' @ encodeURIComponent crashKey)"

definition crashParserFilter :: "CrashPlatform \<Rightarrow> string" where
  "crashParserFilter platform = ''parser='' @ quoted (if platform = Ios_crashes then ''crashlogs'' else ''Crash'')"

definition wildcardFieldQuery :: "string \<Rightarrow> string \<Rightarrow> string" where
  "wildcardFieldQuery key val = key @ ''='' @ quoted (''*'' @ escapeMplString val @ ''*'')"

definition exactFieldQuery :: "string \<Rightarrow> string \<Rightarrow> string" where
  "exactFieldQuery key val = key @ ''='' @ quoted (escapeMplString val)"

definition crash_filter :: "JsonParse \<Rightarrow> Row \<Rightarrow> CrashPlatform \<Rightarrow> string option" where
  "crash_filter parse row platform =
     (let fn = strField row ''function''; process = strField row ''process_name''; bundle = strField row ''bundle_id'';
          dt = strField row ''data_type''; ios = platform = Ios_crashes;
          signal = (if ios then id_signal (iosCrashDetail parse row) else ad_signal (androidCrashDetail parse row None));
          filename = (if ios then [] else ad_filename (androidCrashDetail parse row None));
          p = or_str process (if ios then id_process (iosCrashDetail parse row) else ad_process (androidCrashDetail parse row None))
      in if classifyCrashRow row = K_backtrace \<and> fn \<noteq> [] then Some (wildcardFieldQuery ''function'' fn)
         else if signal \<noteq> [] then Some (exactFieldQuery ''action'' signal)
         else if filename \<noteq> [] then Some (wildcardFieldQuery ''action'' filename)
         else if p \<noteq> [] then (if p \<noteq> em_dash then Some (exactFieldQuery ''process_name'' p) else None)
         else if bundle \<noteq> [] then Some (exactFieldQuery ''bundle_id'' bundle)
         else if dt \<noteq> [] then Some (wildcardFieldQuery ''data_type'' dt)
         else None)"

definition crashSearchQuery :: "JsonParse \<Rightarrow> Row \<Rightarrow> string \<Rightarrow> CrashPlatform \<Rightarrow> string" where
  "crashSearchQuery parse row scope platform =
     scope @ '' '' @ crashParserFilter platform
     @ (case crash_filter parse row platform of None \<Rightarrow> [] | Some f \<Rightarrow> '' '' @ f)"

definition symbolSearchQuery :: "SymbolStat \<Rightarrow> string \<Rightarrow> CrashPlatform \<Rightarrow> string" where
  "symbolSearchQuery stat scope platform =
     scope @ '' '' @ crashParserFilter platform @ '' '' @ wildcardFieldQuery ''function'' (ss_function stat)"

end
