(* ===== verification/CrashFacts.thy ===== *)
theory CrashFacts
  imports CrashTraces MplFacts
begin

text \<open>
  Theorems on crash reports: every row is counted under one kind, symbols are counted once for every
  mention and ranked, flattened fields are the scalars of an object, and what the lists show is bounded.
\<close>

section \<open>Kinds\<close>

lemma kind_count_snoc:
  "summarizeCrashRows (rows @ [row]) k = summarizeCrashRows rows k + (if classifyCrashRow row = k then 1 else 0)"
  by (simp add: summarizeCrashRows_def)

lemma kind_counts: "summarizeCrashRows rows k = length (filter (\<lambda>row. classifyCrashRow row = k) rows)"
proof (induction rows rule: rev_induct)
  case Nil
  then show ?case by (simp add: summarizeCrashRows_def)
next
  case (snoc row rows)
  then show ?case by (simp add: kind_count_snoc)
qed

section \<open>Symbols\<close>

interpretation symbols: additive_group new_symbol count_symbol "\<lambda>s. int (ss_count s)" "\<lambda>m. 1"
  by unfold_locales (auto simp: new_symbol_def count_symbol_def split: prod.splits)

interpretation most_first: comparator compare_symbols
  by unfold_locales (auto simp: compare_symbols_def)

text \<open>The key under which a symbol is counted, and all mentions.\<close>

definition stat_key :: "SymbolStat \<Rightarrow> string option" where
  "stat_key s = symbol_key (ss_process s, ss_function s, ss_bundle s)"

definition all_mentions :: "JsonParse \<Rightarrow> Row list \<Rightarrow> (string \<times> string \<times> string) list" where
  "all_mentions parse rows = concat (map (mentions_of parse) rows)"

lemma symbol_group:
  assumes "group_of symbol_key new_symbol count_symbol ms k = Some s"
  shows "stat_key s = Some k" and "ss_count s = length (filter (\<lambda>m. symbol_key m = Some k) ms)"
proof -
  show "stat_key s = Some k"
    using assms
    by (rule group_of_invariant) (auto simp: stat_key_def new_symbol_def count_symbol_def split: prod.splits)
  have "int (ss_count s) = int (length (filter (\<lambda>m. symbol_key m = Some k) ms))"
    using symbols.group_weight [OF assms] by (simp add: sum_list_triv)
  then show "ss_count s = length (filter (\<lambda>m. symbol_key m = Some k) ms)" by simp
qed

abbreviation symbol_groups :: "(string \<times> string \<times> string) list \<Rightarrow> (string \<times> SymbolStat) list" where
  "symbol_groups \<equiv> group_rows symbol_key new_symbol count_symbol"

lemma symbol_groups_keys: "map stat_key (map snd (symbol_groups ms)) = map Some (map fst (symbol_groups ms))"
  unfolding map_map
  by (rule map_cong [OF refl]) (auto simp: group_rows_member intro: symbol_group(1))

lemma symbol_groups_distinct: "distinct (map stat_key (map snd (symbol_groups ms)))"
  unfolding symbol_groups_keys distinct_map [of Some] using group_rows_distinct by auto

lemma symbol_groups_count:
  "s \<in> set (map snd (symbol_groups ms)) \<Longrightarrow>
     stat_key s \<noteq> None \<and> ss_count s = length (filter (\<lambda>m. symbol_key m = stat_key s) ms)"
proof -
  assume "s \<in> set (map snd (symbol_groups ms))"
  then obtain k where "group_of symbol_key new_symbol count_symbol ms k = Some s"
    by (auto simp: group_rows_member)
  from symbol_group [OF this] show ?thesis by simp
qed

lemma symbol_groups_sum:
  "(\<Sum>s\<leftarrow>map snd (symbol_groups ms). ss_count s) = length (filter (\<lambda>m. symbol_key m \<noteq> None) ms)"
proof -
  have "int (\<Sum>s\<leftarrow>map snd (symbol_groups ms). ss_count s) = int (length (filter (\<lambda>m. symbol_key m \<noteq> None) ms))"
    using symbols.total [of symbol_key ms] by (simp add: int_sum o_def sum_list_triv)
  then show ?thesis by simp
qed

text \<open>
  The table of symbols is in the order of their counts, within its limit, and names none twice; a
  count is the number of mentions of that symbol in that process, and a limit that is large enough leaves
  no mention out.
\<close>

lemma top_symbols:
  "let ms = all_mentions parse rows; top = topCrashSymbols parse rows limit
   in length top \<le> limit
      \<and> distinct (map stat_key top)
      \<and> sorted_wrt (\<lambda>a b. ss_count b \<le> ss_count a) top
      \<and> list_all (\<lambda>s. stat_key s \<noteq> None \<and> ss_count s = length (filter (\<lambda>m. symbol_key m = stat_key s) ms)) top
      \<and> (if length ms \<le> limit
         then (\<Sum>s\<leftarrow>top. ss_count s) = length (filter (\<lambda>m. symbol_key m \<noteq> None) ms) else True)"
proof -
  define ms where "ms = all_mentions parse rows"
  define sorted where "sorted = js_sort compare_symbols (map snd (symbol_groups ms))"
  have top: "topCrashSymbols parse rows limit = take limit sorted"
    by (simp add: topCrashSymbols_def sorted_def ms_def all_mentions_def)
  have "distinct (map stat_key sorted)"
    unfolding sorted_def distinct_sort_keys by (rule symbol_groups_distinct)
  moreover have "sorted_wrt (\<lambda>a b. ss_count b \<le> ss_count a) sorted"
    using most_first.ordered_sort unfolding sorted_def by (simp add: compare_symbols_def)
  moreover have "stat_key s \<noteq> None \<and> ss_count s = length (filter (\<lambda>m. symbol_key m = stat_key s) ms)"
    if "s \<in> set (take limit sorted)" for s
    using symbol_groups_count [of s ms] in_set_takeD [OF that] by (simp add: sorted_def)
  moreover have "(\<Sum>s\<leftarrow>sorted. ss_count s) = length (filter (\<lambda>m. symbol_key m \<noteq> None) ms)"
    unfolding sorted_def sum_sort by (rule symbol_groups_sum)
  moreover have "length ms \<le> limit \<Longrightarrow> take limit sorted = sorted"
    using group_rows_few [of symbol_key new_symbol count_symbol ms] by (simp add: sorted_def)
  ultimately show ?thesis
    unfolding Let_def top ms_def [symmetric] list_all_iff
    by (simp add: take_map [symmetric] distinct_take sorted_wrt_take)
qed

section \<open>Fields\<close>

text \<open>The scalars of an object by their paths, which is what flattening is to give.\<close>

inductive leaf :: "string list \<Rightarrow> string \<Rightarrow> Row \<Rightarrow> CrashField \<Rightarrow> bool" for skip where
  leaf_here: "(k, v) \<in> set kvs \<Longrightarrow> k \<notin> set skip \<Longrightarrow> is_scalar v \<Longrightarrow> trim (js_text v) \<noteq> []
    \<Longrightarrow> leaf skip prefix kvs (prefix @ k, trim (js_text v))"
| leaf_list: "(k, JArr xs) \<in> set kvs \<Longrightarrow> k \<notin> set skip \<Longrightarrow> list_all is_scalar xs
    \<Longrightarrow> join '', '' (nonempty (map js_text xs)) \<noteq> []
    \<Longrightarrow> leaf skip prefix kvs (prefix @ k, join '', '' (nonempty (map js_text xs)))"
| leaf_in: "(k, JObj kvs') \<in> set kvs \<Longrightarrow> k \<notin> set skip \<Longrightarrow> leaf skip (prefix @ k @ ''.'') kvs' f \<Longrightarrow> leaf skip prefix kvs f"

lemma leaf_Nil: "\<not> leaf skip prefix [] f"
  unfolding leaf.simps [of skip prefix "[]" f] by simp

lemma leaf_more: "leaf skip prefix kvs f \<Longrightarrow> set kvs \<subseteq> set kvs' \<Longrightarrow> leaf skip prefix kvs' f"
  by (erule leaf.cases) (simp_all add: leaf.intros subset_iff, metis leaf_in)

lemma leaf_one:
  assumes "leaf skip prefix kvs f"
  shows "\<exists>kv \<in> set kvs. leaf skip prefix [kv] f"
  using assms
proof cases
  case (leaf_here k v)
  then have "leaf skip prefix [(k, v)] f" using leaf.leaf_here [of k v "[(k, v)]"] by simp
  with leaf_here show ?thesis by blast
next
  case (leaf_list k xs)
  then have "leaf skip prefix [(k, JArr xs)] f" using leaf.leaf_list [of k xs "[(k, JArr xs)]"] by simp
  with leaf_list show ?thesis by blast
next
  case (leaf_in k kvs')
  then have "leaf skip prefix [(k, JObj kvs')] f" using leaf.leaf_in [of k kvs' "[(k, JObj kvs')]"] by simp
  with leaf_in show ?thesis by blast
qed

lemma leaf_Cons: "leaf skip prefix (kv # kvs) f \<longleftrightarrow> leaf skip prefix [kv] f \<or> leaf skip prefix kvs f"
proof
  assume "leaf skip prefix (kv # kvs) f"
  from leaf_one [OF this] obtain kv' where "kv' = kv \<or> kv' \<in> set kvs" "leaf skip prefix [kv'] f"
    unfolding list.set(2) by blast
  then show "leaf skip prefix [kv] f \<or> leaf skip prefix kvs f" using leaf_more [of skip prefix "[kv']" f kvs] by auto
qed (auto intro: leaf_more)

lemma leaf_skipped: "k \<in> set skip \<Longrightarrow> \<not> leaf skip prefix [(k, v)] f"
  unfolding leaf.simps [of skip prefix "[(k, v)]" f] by auto

lemma leaf_scalar: "is_scalar v \<Longrightarrow> k \<notin> set skip \<Longrightarrow>
    leaf skip prefix [(k, v)] f \<longleftrightarrow> trim (js_text v) \<noteq> [] \<and> f = (prefix @ k, trim (js_text v))"
  unfolding leaf.simps [of skip prefix "[(k, v)]" f] by auto

lemma leaf_null: "\<not> leaf skip prefix [(k, JNull)] f"
  unfolding leaf.simps [of skip prefix "[(k, JNull)]" f] by auto

lemma leaf_array: "k \<notin> set skip \<Longrightarrow>
    leaf skip prefix [(k, JArr xs)] f \<longleftrightarrow> list_all is_scalar xs \<and> join '', '' (nonempty (map js_text xs)) \<noteq> []
      \<and> f = (prefix @ k, join '', '' (nonempty (map js_text xs)))"
  unfolding leaf.simps [of skip prefix "[(k, JArr xs)]" f] by auto

lemma leaf_object: "k \<notin> set skip \<Longrightarrow> leaf skip prefix [(k, JObj kvs)] f \<longleftrightarrow> leaf skip (prefix @ k @ ''.'') kvs f"
  unfolding leaf.simps [of skip prefix "[(k, JObj kvs)]" f] by auto

lemma flatten_leaves:
  "k \<notin> set skip \<Longrightarrow> f \<in> set (flatten_value compare skip prefix k v) \<longleftrightarrow> leaf skip prefix [(k, v)] f"
  "f \<in> set (flatten_members compare skip prefix kvs) \<longleftrightarrow> leaf skip prefix kvs f"
proof (induction compare skip prefix k v and compare skip prefix kvs rule: flatten_value_flatten_members.induct, goal_cases)
  case (8 compare skip prefix k v kvs)
  then show ?case unfolding leaf_Cons [of _ _ "(k, v)" kvs] by (cases "k \<in> set skip") (auto simp: leaf_skipped)
qed (auto simp: leaf_scalar leaf_null leaf_array leaf_object leaf_Nil Let_def)

text \<open>
  C24: The flattened fields of an object are exactly the scalars (and lists of scalars) that a path of
  members leads to of which none is skipped, under the path, where the text is not blank.
\<close>

lemma flattened_fields:
  "f \<in> set (flattenScalarFields compare skip obj) \<longleftrightarrow> (\<exists>kvs. obj = Some kvs \<and> leaf skip [] kvs f)"
  by (cases obj) (simp_all add: flattenScalarFields_def flatten_leaves(2))

section \<open>Lists\<close>

lemma push_until_few: "length out < nat (max 1 limit) \<Longrightarrow> int (length (push_until f limit out xs)) \<le> max 1 limit"
  by (induction f limit out xs rule: push_until.induct) (auto simp: Let_def)

lemma push_until_members:
  "y \<in> set (push_until f limit out xs) \<Longrightarrow> y \<in> set out \<or> (\<exists>x \<in> set xs. \<exists>i. y = f x i)"
proof (induction f limit out xs rule: push_until.induct)
  case (2 f limit out x xs)
  then show ?case by (cases "limit \<le> int (length (out @ [f x (int (length out))]))") (auto simp: Let_def)
qed simp

lemma frames_kept: "set (push_until f limit out xs) \<subseteq> A" if "set out \<subseteq> A" "\<And>x i. x \<in> set xs \<Longrightarrow> f x i \<in> A"
  using push_until_members [of _ f limit out xs] that by blast

lemma android_recent_facts:
  shows "length (androidRecentFrames parse rows limit) \<le> max 1 limit"
    and "set (androidRecentFrames parse rows limit) \<subseteq> {r. fst r \<in> set rows}"
proof -
  define out where "out = push_until (\<lambda>x i. x) (int limit) [] (incident_frames parse rows)"
  have few: "int (length out) \<le> max 1 (int limit)" unfolding out_def by (rule push_until_few) simp
  have inc: "set out \<subseteq> {r. fst r \<in> set rows}"
    unfolding out_def by (rule frames_kept) (auto simp: incident_frames_def crashIncidents_def Let_def)
  have eq: "androidRecentFrames parse rows limit =
      (if out \<noteq> [] \<and> length out \<ge> limit then out
       else push_until (standalone_frame parse) (int limit) out (backtraceFrames rows limit))"
    by (simp add: androidRecentFrames_def out_def Let_def)
  have "int (length (push_until (standalone_frame parse) (int limit) out (backtraceFrames rows limit))) \<le> max 1 (int limit)"
    if "\<not> (out \<noteq> [] \<and> length out \<ge> limit)"
    using that by (intro push_until_few) auto
  with few show "length (androidRecentFrames parse rows limit) \<le> max 1 limit" unfolding eq by (auto simp: max_def split: if_splits)
  have "set (push_until (standalone_frame parse) (int limit) out (backtraceFrames rows limit)) \<subseteq> {r. fst r \<in> set rows}"
    by (rule frames_kept [OF inc]) (auto simp: standalone_frame_def backtraceFrames_def Let_def dest: in_set_takeD)
  with inc show "set (androidRecentFrames parse rows limit) \<subseteq> {r. fst r \<in> set rows}" unfolding eq by auto
qed

lemma ios_recent_facts:
  shows "length (iosRecentFrames parse rows limit) \<le> max 1 limit"
    and "set (iosRecentFrames parse rows limit) \<subseteq> {r. fst r \<in> set rows}"
proof -
  have "int (length (iosRecentFrames parse rows limit)) \<le> max 1 (int limit)"
    unfolding iosRecentFrames_def by (rule push_until_few) simp
  then show "length (iosRecentFrames parse rows limit) \<le> max 1 limit" by (auto simp: max_def split: if_splits)
  show "set (iosRecentFrames parse rows limit) \<subseteq> {r. fst r \<in> set rows}"
    unfolding iosRecentFrames_def by (rule frames_kept) (auto simp: crashIncidents_def Let_def)
qed

text \<open>
  Every row is counted under one kind and is an incident or a frame, never both; the lists of recent
  frames keep to their limit (one frame at least) and show rows that were given.
\<close>

lemma crash_rows_sorted_out:
  "(\<Sum>k\<leftarrow>[K_tombstone, K_anr, K_backtrace, K_crash]. summarizeCrashRows rows k) = length rows
   \<and> mset (crashIncidents rows) + mset (backtraceFrames rows (length rows)) = mset rows
   \<and> length (androidRecentFrames parse rows limit) \<le> max 1 limit
   \<and> length (iosRecentFrames parse rows limit) \<le> max 1 limit
   \<and> set (androidRecentFrames parse rows limit) \<subseteq> {r. fst r \<in> set rows}
   \<and> set (iosRecentFrames parse rows limit) \<subseteq> {r. fst r \<in> set rows}"
proof -
  have "(\<Sum>k\<leftarrow>[K_tombstone, K_anr, K_backtrace, K_crash]. length (filter (\<lambda>row. classifyCrashRow row = k) rows)) = length rows"
  proof (induction rows)
    case (Cons row rows)
    then show ?case by (cases "classifyCrashRow row") simp_all
  qed simp
  moreover have "classifyCrashRow row = K_backtrace \<longleftrightarrow> \<not> classifyCrashRow row \<in> {K_tombstone, K_anr, K_crash}" for row
    by (cases "classifyCrashRow row") simp_all
  then have "mset (crashIncidents rows) + mset (backtraceFrames rows (length rows)) = mset rows"
    using multiset_partition [of "mset rows" "\<lambda>row. classifyCrashRow row \<in> {K_tombstone, K_anr, K_crash}"]
    by (simp add: crashIncidents_def backtraceFrames_def length_filter_le)
  ultimately show ?thesis
    using android_recent_facts ios_recent_facts by (simp add: kind_counts)
qed

section \<open>What the explorer and the search leave out\<close>

text \<open>The explorer of iOS crashes still cuts the frames of the faulting thread and of the exception.\<close>

lemma up_to_few: "length (mapFrameList frames (Some n)) \<le> n"
  by (simp add: mapFrameList_def map_indexed_def indexed_def up_to_def)

lemma explorer_still_cuts:
  "length (id_frames (iosCrashAdvancedDetail parse stringify compare row)) \<le> 24
   \<and> length (id_lastExceptionFrames (iosCrashAdvancedDetail parse stringify compare row)) \<le> 16"
  using up_to_few
  by (auto simp: iosCrashAdvancedDetail_def IosCrashDetail.extend_def Let_def iosStackFrames_def iosLastExceptionFrames_def
      split: option.splits)

text \<open>A process is always known, if only as a dash, so the search never falls back on bundle or type.\<close>

lemma bundle_not_searched:
  "crash_filter (\<lambda>s. None) [(''bundle_id'', JStr ''com.a''), (''data_type'', JStr ''crash'')] Android_crashes = None"
  by code_simp

end
