(* ===== verification/RowTime.thy ===== *)
theory RowTime
  imports RowExt MplQuery
begin

text \<open>
  The time shown of a row, \<open>formatRowTimestamp\<close> of \<open>src/mobipwn-web/src/lib/rowExt.ts\<close>. The platform's
  \<open>new Date(text)\<close>, \<open>getFullYear\<close> and \<open>toLocaleString\<close> are the argument of type \<open>Dates\<close>; numbers
  are integers.
\<close>

record Dates =
  date_parse :: "string \<Rightarrow> int option"
  full_year :: "int \<Rightarrow> int"
  locale_text :: "int \<Rightarrow> string"
  iso_text :: "int \<Rightarrow> string"
  now_ms :: int

text \<open>\<open>new Date(ms)\<close> is invalid outside a hundred million days around the epoch.\<close>

definition valid_ms :: "int \<Rightarrow> bool" where
  "valid_ms ms \<longleftrightarrow> \<bar>ms\<bar> \<le> 8640000000000000"

definition logcat_re :: regex where
  "logcat_re = Seqs [Bol, Digit, Digit, Lit ''-'', Digit, Digit, Space]"

definition number_time :: "Dates \<Rightarrow> string \<Rightarrow> string" where
  "number_time D ts =
     (case js_number ts of
        Some n \<Rightarrow>
          (let ms = (if n > 100000000000000 then n div 1000 else n)
           in if n > 0 \<and> valid_ms ms then locale_text D ms else [])
      | None \<Rightarrow> [])"

definition formatRowTimestamp :: "JsonParse \<Rightarrow> Dates \<Rightarrow> Row \<Rightarrow> string" where
  "formatRowTimestamp parse D row =
     (let logcat = extField parse row ''timestamp''; datetime = strField row ''datetime'' in
      if logcat \<noteq> [] \<and> test logcat_re logcat \<and> datetime \<noteq> []
      then (case date_parse D datetime of Some d \<Rightarrow> int_str (full_year D d) @ ''-'' @ logcat | None \<Rightarrow> logcat)
      else if logcat \<noteq> [] then logcat
      else if datetime \<noteq> [] then (case date_parse D datetime of Some d \<Rightarrow> locale_text D d | None \<Rightarrow> datetime)
      else number_time D (strField row ''timestamp''))"

end
