(* ===== verification/TccServices.thy ===== *)
theory TccServices
  imports MplQuery
begin

text \<open>
  Labels of the privacy services of iOS, \<open>src/mobipwn-web/src/lib/iosTccServices.ts\<close>: a table by the
  normalized name of a service, and what is shown of a service that is not in it.
\<close>

record IosTccServiceInfo =
  tcc_id :: string
  tcc_label :: string
  tcc_description :: string

text \<open>Key, id, label and description of the known services.\<close>

definition BY_SUFFIX :: "(string \<times> string \<times> string \<times> string) list" where
  "BY_SUFFIX = [
    (''addressbook'', (''kTCCServiceAddressBook'', ''Contacts'',
       ''Access to Contacts (Address Book).'')),
    (''appleevents'', (''kTCCServiceAppleEvents'', ''Automation'',
       ''Control other apps via Apple Events (macOS Automation).'')),
    (''bluetoothalways'', (''kTCCServiceBluetoothAlways'', ''Bluetooth'',
       ''Bluetooth access while the app is in use or in the background.'')),
    (''bluetoothperipheral'', (''kTCCServiceBluetoothPeripheral'', ''Bluetooth peripheral'',
       ''Act as a Bluetooth peripheral / LE accessory.'')),
    (''calendar'', (''kTCCServiceCalendar'', ''Calendars'',
       ''Access to Calendar data.'')),
    (''camera'', (''kTCCServiceCamera'', ''Camera'',
       ''Access to the device camera.'')),
    (''faceid'', (''kTCCServiceFaceID'', ''Face ID'',
       ''Use Face ID / biometrics.'')),
    (''focusstatus'', (''kTCCServiceFocusStatus'', ''Focus'',
       ''Read Focus / Do Not Disturb status.'')),
    (''health'', (''kTCCServiceHealth'', ''Health'',
       ''HealthKit access (generic).'')),
    (''healthshare'', (''kTCCServiceHealthShare'', ''Health (share)'',
       ''Read HealthKit data shared with the app.'')),
    (''healthupdate'', (''kTCCServiceHealthUpdate'', ''Health (write)'',
       ''Write HealthKit data.'')),
    (''homekit'', (''kTCCServiceHomeKit'', ''HomeKit'',
       ''Access to HomeKit home / accessory data.'')),
    (''liverpool'', (''kTCCServiceLiverpool'', ''CloudKit'',
       ''Undocumented TCC service (kTCCServiceLiverpool), widely mapped to CloudKit / iCloud-backed data '' @ em_dash @ '' not Location Services. Not shown as its own Privacy Settings row.'')),
    (''location'', (''kTCCServiceLocation'', ''Location'',
       ''Location Services access (when gated via TCC on this OS).'')),
    (''localnetwork'', (''kTCCServiceLocalNetwork'', ''Local network'',
       ''Discover and connect to devices on the local network.'')),
    (''medialibrary'', (''kTCCServiceMediaLibrary'', ''Media library'',
       ''Access to the Apple Music / media library.'')),
    (''microphone'', (''kTCCServiceMicrophone'', ''Microphone'',
       ''Access to the microphone.'')),
    (''motion'', (''kTCCServiceMotion'', ''Motion & fitness'',
       ''Motion / accelerometer / fitness-related sensors.'')),
    (''photos'', (''kTCCServicePhotos'', ''Photos'',
       ''Read access to the Photo Library.'')),
    (''photosadd'', (''kTCCServicePhotosAdd'', ''Photos (add)'',
       ''Add-only access to the Photo Library.'')),
    (''reminders'', (''kTCCServiceReminders'', ''Reminders'',
       ''Access to Reminders.'')),
    (''screencapture'', (''kTCCServiceScreenCapture'', ''Screen recording'',
       ''Screen capture / recording.'')),
    (''siri'', (''kTCCServiceSiri'', ''Siri'',
       ''Siri / voice assistant integration.'')),
    (''speechrecognition'', (''kTCCServiceSpeechRecognition'', ''Speech recognition'',
       ''On-device or server speech recognition.'')),
    (''systempolicyallfiles'', (''kTCCServiceSystemPolicyAllFiles'', ''Full Disk Access'',
       ''Full Disk Access (macOS System Policy).'')),
    (''systempolicydesktopfolder'', (''kTCCServiceSystemPolicyDesktopFolder'', ''Desktop folder'',
       ''Access to the Desktop folder (macOS).'')),
    (''systempolicydocumentsfolder'', (''kTCCServiceSystemPolicyDocumentsFolder'', ''Documents folder'',
       ''Access to the Documents folder (macOS).'')),
    (''systempolicydownloadsfolder'', (''kTCCServiceSystemPolicyDownloadsFolder'', ''Downloads folder'',
       ''Access to the Downloads folder (macOS).'')),
    (''systempolicynetworkvolumes'', (''kTCCServiceSystemPolicyNetworkVolumes'', ''Network volumes'',
       ''Access to network volumes (macOS).'')),
    (''systempolicyremovablevolumes'', (''kTCCServiceSystemPolicyRemovableVolumes'', ''Removable volumes'',
       ''Access to removable volumes (macOS).'')),
    (''ubiquity'', (''kTCCServiceUbiquity'', ''iCloud Drive'',
       ''Undocumented TCC service (kTCCServiceUbiquity) for iCloud Drive / ubiquity container access.'')),
    (''usertracking'', (''kTCCServiceUserTracking'', ''Tracking'',
       ''App Tracking Transparency '' @ em_dash @ '' track the user across apps/websites.'')),
    (''watchkit'', (''kTCCServiceWatchKit'', ''WatchKit'',
       ''WatchKit / Apple Watch companion access.'')),
    (''willow'', (''kTCCServiceWillow'', ''Home / HomeKit data'',
       ''Undocumented TCC service (kTCCServiceWillow), generally associated with Home / HomeKit-related private data.''))]"

definition prefix_re :: regex where
  "prefix_re = Seq Bol (LitI ''kTCCService'')"

definition normalizeTccServiceKey :: "string \<Rightarrow> string" where
  "normalizeTccServiceKey raw =
     (let t = trim raw in
      if t = [] then []
      else to_lower (filter (\<lambda>c. \<not> (is_space c \<or> c = CHR ''_'' \<or> c = CHR ''-'')) (replace_first prefix_re [] t)))"

text \<open>A space goes between a lower-case and an upper-case letter.\<close>

fun camel_words :: "string \<Rightarrow> string" where
  "camel_words (a # b # s) = (if is_lower a \<and> is_upper b then a # CHR '' '' # camel_words (b # s) else a # camel_words (b # s))"
| "camel_words s = s"

definition fallbackLabel :: "string \<Rightarrow> string" where
  "fallbackLabel raw =
     (let stripped = trim (replace_first prefix_re [] raw) in
      if stripped = [] then (if trim raw \<noteq> [] then trim raw else ''Unknown'')
      else trim (replace_char (CHR ''_'') '' '' (camel_words stripped)))"

text \<open>The keys of the table are none of the names that objects inherit.\<close>

definition iosTccServiceInfo :: "string \<Rightarrow> IosTccServiceInfo" where
  "iosTccServiceInfo raw =
     (let trimmed = trim raw; key = normalizeTccServiceKey trimmed in
      case (if key = [] then None else map_of BY_SUFFIX key) of
        Some (i, l, d) \<Rightarrow> \<lparr>tcc_id = i, tcc_label = l, tcc_description = d\<rparr>
      | None \<Rightarrow>
          (let i = (if test prefix_re trimmed then ''kTCCService'' @ replace_first prefix_re [] trimmed else trimmed);
               label = fallbackLabel trimmed;
               shown = (if i \<noteq> [] then i else label)
           in \<lparr>tcc_id = shown, tcc_label = label,
               tcc_description = ''TCC service '' @ shown @ ''. Apple does not document every kTCCService* name.''\<rparr>))"

definition iosTccServiceLabel :: "string \<Rightarrow> string" where
  "iosTccServiceLabel raw = tcc_label (iosTccServiceInfo raw)"

definition iosTccServiceTooltip :: "string \<Rightarrow> string" where
  "iosTccServiceTooltip raw =
     (let info = iosTccServiceInfo raw in
      if contains (tcc_id info) (tcc_description info) then tcc_description info
      else tcc_description info @ '' ('' @ tcc_id info @ '')'')"

section \<open>Facts\<close>

lemma contains_append: "contains p s \<Longrightarrow> contains p (a @ s)"
  by (induction a) simp_all

lemma starts_contains: "starts_with p s \<Longrightarrow> contains p s"
  by (cases s) (simp_all add: starts_with_def)

lemma contains_within: "contains p (a @ p @ r)"
  by (intro contains_append starts_contains starts_with_append)

text \<open>Every id of the table leads to its own key, and no key comes twice.\<close>

definition service_keys :: "(string \<times> string) list" where
  "service_keys = map (\<lambda>(k, i, l, d). (k, i)) BY_SUFFIX"

lemma matches_LitI:
  "matches (LitI p) (b, a, g) =
     (if to_lower (take (length p) a) = to_lower p then [(rev (take (length p) a) @ b, drop (length p) a, g)] else [])"
  by (induction p arbitrary: a b) (auto simp: ChrI_def to_lower_def split: list.splits)

lemma strip_service_prefix: "replace_first prefix_re [] (''kTCCService'' @ s) = s"
proof -
  have "exec prefix_re (''kTCCService'' @ s) = match_at prefix_re [] (''kTCCService'' @ s)"
    by (rule exec_anchored_eq) (simp add: prefix_re_def)
  then show ?thesis
    by (simp add: replace_first_def prefix_re_def match_at_def behind_def matches_LitI del: LitI.simps)
qed

definition letter :: "char \<Rightarrow> bool" where
  "letter c \<longleftrightarrow> is_lower c \<or> is_upper c"

lemma letter_plain: "letter c \<Longrightarrow> \<not> is_space c \<and> c \<noteq> CHR ''_'' \<and> c \<noteq> CHR ''-''"
  by (auto simp: letter_def is_lower_def is_upper_def is_space_def code_def)

lemma key_of_service:
  assumes "s \<noteq> []" "list_all letter s"
  shows "normalizeTccServiceKey (trim (''kTCCService'' @ s)) = to_lower s"
proof -
  have letters: "letter c" if "c \<in> set s" for c using assms(2) that by (simp add: list_all_iff)
  then have "\<not> is_space (last s)" using assms(1) letter_plain by simp
  then have "trim (''kTCCService'' @ s) = ''kTCCService'' @ s"
    using assms(1) by (intro trim_trimmed) (simp add: trimmed_def is_space_def code_def)
  moreover have "filter (\<lambda>c. \<not> (is_space c \<or> c = CHR ''_'' \<or> c = CHR ''-'')) s = s"
    using letters letter_plain by (intro filter_True) blast
  moreover have "trim (trim (''kTCCService'' @ s)) \<noteq> []" using calculation(1) by simp
  ultimately show ?thesis
    unfolding normalizeTccServiceKey_def Let_def by (simp only: strip_service_prefix if_False)
qed

lemma service_ids:
  "list_all (\<lambda>(k, i). starts_with ''kTCCService'' i \<and> drop 11 i \<noteq> [] \<and> list_all letter (drop 11 i) \<and> to_lower (drop 11 i) = k)
     service_keys"
  unfolding service_keys_def BY_SUFFIX_def list.map prod.case by code_simp

lemma distinct_services: "distinct (map fst BY_SUFFIX)"
  unfolding BY_SUFFIX_def by simp

lemma table_found_by_id:
  "list_all (\<lambda>(k, i, l, d). iosTccServiceInfo i = \<lparr>tcc_id = i, tcc_label = l, tcc_description = d\<rparr>) BY_SUFFIX"
proof -
  have "iosTccServiceInfo i = \<lparr>tcc_id = i, tcc_label = l, tcc_description = d\<rparr>" if mem: "(k, i, l, d) \<in> set BY_SUFFIX" for k i l d
  proof -
    have "(k, i) \<in> set service_keys" using mem by (force simp: service_keys_def)
    then have "starts_with ''kTCCService'' i" "drop 11 i \<noteq> []" "list_all letter (drop 11 i)" "to_lower (drop 11 i) = k"
      using service_ids by (auto simp: list_all_iff)
    note i = this
    have "length ''kTCCService'' = 11" by simp
    then have "''kTCCService'' @ drop 11 i = i" using starts_with_drop [OF i(1)] by (simp only:)
    then have "normalizeTccServiceKey (trim i) = k" using key_of_service [OF i(2,3)] i(4) by (simp only:)
    moreover have "k \<noteq> []" using i(2,4) by (auto simp: to_lower_def)
    moreover have "map_of BY_SUFFIX k = Some (i, l, d)" using mem distinct_services by simp
    ultimately show ?thesis by (simp add: iosTccServiceInfo_def Let_def)
  qed
  then show ?thesis by (auto simp: list_all_iff)
qed

text \<open>
  A known service is found by its id and shown with its label; the tooltip of any service names it by
  its id.
\<close>

lemma services_explained:
  "list_all (\<lambda>(k, i, l, d). iosTccServiceInfo i = \<lparr>tcc_id = i, tcc_label = l, tcc_description = d\<rparr>) BY_SUFFIX
   \<and> contains (tcc_id (iosTccServiceInfo raw)) (iosTccServiceTooltip raw)"
  using table_found_by_id
    contains_within [of "tcc_id (iosTccServiceInfo raw)" "tcc_description (iosTccServiceInfo raw) @ '' (''" "'')''"]
  by (simp add: iosTccServiceTooltip_def Let_def)

end
