(* ===== verification/PackageSnapshot.thy ===== *)
theory PackageSnapshot
  imports RowTime TccServices Alerts Ordering Grouping
begin

text \<open>
  The installed packages of a case, \<open>src/mobipwn-web/src/lib/packageSnapshot.ts\<close>: rows of Android package
  dumps and of several iOS parsers are read into packages, those of one bundle are merged and sorted, and
  processes are resolved to packages. \<open>JSON.parse\<close> is \<open>parse\<close>, \<open>localeCompare\<close> is \<open>compare\<close>, dates of
  the platform are of type \<open>Dates\<close>. An absent list is the empty list, an absent flag is false; numbers
  are integers.
\<close>

datatype CasePlatform = Android_case | Ios_case

record PackagePermission =
  pp_name :: string
  pp_shortName :: string
  pp_granted :: "bool option"
  pp_protection :: "string option"
  pp_permType :: "string option"

type_synonym Extra = "string \<times> string"

record PackageRow =
  pk_bundleId :: string
  pk_label :: string
  pk_version :: string
  pk_installer :: string
  pk_updated :: string
  pk_timestamp :: string
  pk_installedAt :: string
  pk_installedAtMs :: "int option"
  pk_parser :: string
  pk_permissions :: "PackagePermission list"
  pk_versionCode :: string
  pk_uid :: string
  pk_minSdk :: string
  pk_targetSdk :: string
  pk_codePath :: string
  pk_dataDir :: string
  pk_updatedAt :: string
  pk_updatedAtMs :: "int option"
  pk_initiatingPackage :: string
  pk_originatingPackage :: string
  pk_packageSource :: string
  pk_apkSigningVersion :: string
  pk_primaryCpuAbi :: string
  pk_flags :: string
  pk_installReason :: string
  pk_isSystemPath :: bool
  pk_executableName :: string
  pk_buildVersion :: string
  pk_deletedDate :: string
  pk_isDeleted :: bool
  pk_appType :: string
  pk_sources :: "string list"
  pk_extras :: "Extra list"

section \<open>Texts\<close>

definition IOS_INSTALL_PARSERS :: "string list" where
  "IOS_INSTALL_PARSERS = [''mobileinstallation'', ''appinstallation'', ''accessibility_tcc'', ''itunesstore'', ''mobilebackup'']"

definition IOS_POWERLOG_APP_INFO :: string where
  "IOS_POWERLOG_APP_INFO = ''App Info:''"

definition IOS_APP_INFO_SKIP_KEYS :: "string list" where
  "IOS_APP_INFO_SKIP_KEYS = [''apollo_module'', ''event_type'', ''source_db'', ''timestamp_desc'', ''bundle id'', ''bundle_id'',
     ''app name'', ''app_name'', ''app bundle version'', ''app build version'', ''app executable name'',
     ''app deleted date'', ''app type'', ''plapplicationagent_eventnone_allapps table id'']"

definition escapeMplSource :: "string \<Rightarrow> string" where
  "escapeMplSource s = replace_char (CHR 0x22) [CHR 0x5C, CHR 0x22] (replace_char (CHR 0x5C) [CHR 0x5C, CHR 0x5C] s)"

definition iosBundleIdFromRow :: "JsonParse \<Rightarrow> Row \<Rightarrow> string" where
  "iosBundleIdFromRow parse row =
     or_texts [strField row ''bundle_id'', strField row ''bundleid'', extField parse row ''bundle_id'',
       extField parse row ''bundle id'', extField parse row ''client'']"

definition first_group :: "regex \<Rightarrow> string \<Rightarrow> string" where
  "first_group r s = (case exec r s of None \<Rightarrow> [] | Some m \<Rightarrow> get_or [] (group 1 m))"

definition scrapeKv :: "string \<Rightarrow> string \<Rightarrow> string" where
  "scrapeKv message key = trim (first_group (Seqs [LitI key, Lit ''='', Grp 1 (Star (None_of '',''))]) message)"

text \<open>A member that is a text or a number.\<close>

definition own_text :: "Row \<Rightarrow> string \<Rightarrow> string" where
  "own_text ext key = (case map_of ext key of Some (JStr s) \<Rightarrow> s | _ \<Rightarrow> [])"

definition num_text :: "Row \<Rightarrow> string \<Rightarrow> string" where
  "num_text ext key = (case map_of ext key of Some (JNum n) \<Rightarrow> int_str n | _ \<Rightarrow> [])"

definition text_or_num :: "Row \<Rightarrow> string \<Rightarrow> string" where
  "text_or_num ext key = or_str (trim (own_text ext key)) (num_text ext key)"

record AppInfo =
  ai_name :: string
  ai_version :: string
  ai_buildVersion :: string
  ai_executableName :: string
  ai_deletedDate :: string
  ai_appType :: string

definition parsePowerlogAppInfo :: "string \<Rightarrow> Row \<Rightarrow> AppInfo" where
  "parsePowerlogAppInfo message ext =
     (let fromExt = text_or_num ext; scrape = scrapeKv message; both = (\<lambda>key. or_str (fromExt key) (scrape key)) in
      if \<not> contains IOS_POWERLOG_APP_INFO message \<and> fromExt ''app name'' = [] \<and> fromExt ''bundle id'' = []
      then \<lparr>ai_name = [], ai_version = [], ai_buildVersion = [], ai_executableName = [], ai_deletedDate = [], ai_appType = []\<rparr>
      else \<lparr>ai_name = both ''app name'',
        ai_version = or_str (both ''app bundle version'') (both ''app build version''),
        ai_buildVersion = both ''app build version'', ai_executableName = both ''app executable name'',
        ai_deletedDate = both ''app deleted date'', ai_appType = both ''app type''\<rparr>)"

definition strip_marks :: "string \<Rightarrow> string" where
  "strip_marks s = rev (dropWhile (\<lambda>c. c \<in> set '',;)>'') (rev s))"

definition looksLikeAppVersion :: "string \<Rightarrow> bool" where
  "looksLikeAppVersion val \<longleftrightarrow>
     (let v = trim (strip_marks (trim val)) in
      v \<noteq> [] \<and> length v \<le> 64 \<and> list_ex is_digit v
      \<and> \<not> list_ex (\<lambda>c. is_space c \<or> c = CHR ''/'' \<or> c = CHR 0x5C \<or> c = CHR '','') v)"

definition version_value :: regex where
  "version_value = Grp 1 (Plus (Cls (\<lambda>c. c \<notin> set '';>,'' \<and> \<not> is_space c)))"

definition short_re :: regex where
  "short_re = Seqs [LitI ''ShortVersion'', Star Space, Lit ''='', Star Space, version_value]"

definition bundle_short_re :: regex where
  "bundle_short_re = Seqs [LitI ''CFBundleShortVersionString'', Star Space, One_of ''=:'', Star Space, version_value]"

definition version_re :: regex where
  "version_re = Seqs [Alt Bol (Cls (\<lambda>c. c \<in> set '';,'' \<or> is_space c)), LitI ''Version'', Star Space, Lit ''='', Star Space, version_value]"

definition bundle_version_re :: regex where
  "bundle_version_re = Seqs [LitI ''CFBundleVersion'', Star Space, One_of ''=:'', Star Space, version_value]"

definition pick_version :: "string \<Rightarrow> regex \<Rightarrow> string" where
  "pick_version message r =
     (let cleaned = trim (strip_marks (trim (first_group r message))) in if looksLikeAppVersion cleaned then cleaned else [])"

text \<open>\<open>{ version, versionCode }\<close>\<close>

definition parseMobileInstallVersions :: "string \<Rightarrow> string \<times> string" where
  "parseMobileInstallVersions message =
     (let short = or_str (pick_version message short_re) (pick_version message bundle_short_re);
          ver = or_str (pick_version message version_re) (pick_version message bundle_version_re)
      in (or_str short ver, if short \<noteq> [] \<and> ver \<noteq> [] \<and> short \<noteq> ver then ver else []))"

text \<open>\<open>/\b\w/g\<close> in upper case; the flag says whether a word character came before.\<close>

fun words_up :: "bool \<Rightarrow> string \<Rightarrow> string" where
  "words_up w [] = []"
| "words_up w (c # s) = (if is_word c \<and> \<not> w then upper_char c else c) # words_up (is_word c) s"

definition scalar_text :: "Json \<Rightarrow> string" where
  "scalar_text v =
     (case v of JStr s \<Rightarrow> trim s | JNum n \<Rightarrow> int_str n | JBool b \<Rightarrow> (if b then ''true'' else ''false'') | _ \<Rightarrow> [])"

definition extra_of :: "string \<times> Json \<Rightarrow> Extra option" where
  "extra_of = (\<lambda>(key, v).
     (let s = scalar_text v in
      if key \<in> set IOS_APP_INFO_SKIP_KEYS \<or> contains ''table id'' (to_lower key) \<or> s = [] \<or> s = ''NOT DELETED''
         \<or> length s > 240 then None
      else Some (words_up False (replace_char (CHR ''_'') '' '' key), s)))"

definition iosExtrasFromExt :: "(string \<Rightarrow> string \<Rightarrow> int) \<Rightarrow> Row \<Rightarrow> Extra list" where
  "iosExtrasFromExt compare ext = js_sort (\<lambda>a b. compare (fst a) (fst b)) (List.map_filter extra_of ext)"

section \<open>Permissions\<close>

definition parseIosTccPermissions :: "JsonParse \<Rightarrow> Row \<Rightarrow> Row \<Rightarrow> PackagePermission list" where
  "parseIosTccPermissions parse row ext =
     (let service = or_texts [own_text ext ''service'', strField row ''permission'', extField parse row ''service''];
          allowed = or_str (own_text ext ''allowed'') (extField parse row ''allowed'');
          a = to_lower (trim allowed);
          granted = (if contains ''deny'' a \<or> contains ''disallow'' a \<or> contains ''restrict'' a \<or> contains ''limited'' a then Some False
            else if contains ''allow'' a then Some True else None)
      in if trim service = [] then []
         else [\<lparr>pp_name = trim service, pp_shortName = iosTccServiceLabel (trim service), pp_granted = granted,
                pp_protection = truthy (Some (trim allowed)), pp_permType = Some ''tcc''\<rparr>])"

definition merge_permission :: "PackagePermission \<Rightarrow> PackagePermission \<Rightarrow> PackagePermission" where
  "merge_permission existing p =
     existing\<lparr>pp_shortName := or_str (pp_shortName existing) (pp_shortName p),
       pp_granted := or_else (pp_granted existing) (pp_granted p),
       pp_protection := or_else (truthy (pp_protection existing)) (pp_protection p),
       pp_permType := or_else (truthy (pp_permType existing)) (pp_permType p)\<rparr>"

definition compare_permissions :: "(string \<Rightarrow> string \<Rightarrow> int) \<Rightarrow> PackagePermission \<Rightarrow> PackagePermission \<Rightarrow> int" where
  "compare_permissions compare x y =
     then_by (compare (pp_shortName x) (pp_shortName y)) (compare (pp_name x) (pp_name y))"

definition mergePackagePermissions ::
  "(string \<Rightarrow> string \<Rightarrow> int) \<Rightarrow> PackagePermission list \<Rightarrow> PackagePermission list \<Rightarrow> PackagePermission list" where
  "mergePackagePermissions compare a b =
     js_sort (compare_permissions compare) (map snd (group_rows (\<lambda>p. Some (pp_name p)) (\<lambda>p. p) merge_permission (a @ b)))"

definition mergeExtras :: "(string \<Rightarrow> string \<Rightarrow> int) \<Rightarrow> Extra list \<Rightarrow> Extra list \<Rightarrow> Extra list" where
  "mergeExtras compare a b = js_sort (\<lambda>x y. compare (fst x) (fst y)) (first_of_keys fst [] (a @ b))"

text \<open>\<open>[...set].sort()\<close> orders by code units.\<close>

definition mergeSources :: "string list \<Rightarrow> string list \<Rightarrow> string list" where
  "mergeSources a b = sort (remdups (nonempty (map trim (a @ b))))"

definition shortenPermissionName :: "string \<Rightarrow> string" where
  "shortenPermissionName name =
     (let cut = (\<lambda>p s. if starts_with p s then drop (length p) s else s)
      in cut ''com.google.android.apps.maps.permission.'' (cut ''com.android.voicemail.permission.'' (cut ''android.permission.'' name)))"

definition permission_of :: "string \<times> Json \<Rightarrow> PackagePermission option" where
  "permission_of = (\<lambda>(name, v).
     (let obj = (case v of JObj kvs \<Rightarrow> kvs | _ \<Rightarrow> []);
          granted = (case map_of obj ''granted'' of Some (JBool b) \<Rightarrow> Some b
            | Some (JStr s) \<Rightarrow> (if s = ''true'' then Some True else if s = ''false'' then Some False else None) | _ \<Rightarrow> None);
          text = (\<lambda>key. case map_of obj key of Some (JStr s) \<Rightarrow> Some s | _ \<Rightarrow> None)
      in if trim name = [] then None
         else Some \<lparr>pp_name = name, pp_shortName = shortenPermissionName name, pp_granted = granted,
           pp_protection = or_else (text ''protection'') (text ''prot''), pp_permType = text ''type''\<rparr>))"

definition parsePackagePermissions :: "(string \<Rightarrow> string \<Rightarrow> int) \<Rightarrow> Row \<Rightarrow> PackagePermission list" where
  "parsePackagePermissions compare ext =
     (case map_of ext ''permissions'' of
        Some (JObj kvs) \<Rightarrow> js_sort (compare_permissions compare) (List.map_filter permission_of kvs)
      | _ \<Rightarrow> [])"

definition granted_text :: "bool option \<Rightarrow> string list" where
  "granted_text g = (case g of None \<Rightarrow> [] | Some b \<Rightarrow> [if b then ''granted'' else ''denied''])"

definition permissionChipTitle :: "PackagePermission \<Rightarrow> string" where
  "permissionChipTitle p =
     (let protection = get_or [] (pp_protection p); permType = get_or [] (pp_permType p);
          parts = (if permType = ''tcc''
            then iosTccServiceTooltip (pp_name p) #
              (if pp_granted p \<noteq> None then granted_text (pp_granted p)
               else if protection \<noteq> [] then [''status: '' @ protection] else [])
            else pp_name p # (if permType \<noteq> [] then [''type: '' @ permType] else [])
              @ granted_text (pp_granted p) @ (if protection \<noteq> [] then [''protection: '' @ protection] else []))
      in join ('' '' @ middle_dot @ '' '') parts)"

definition packagePermissionSummary :: "PackagePermission list \<Rightarrow> nat \<times> nat \<times> nat" where
  "packagePermissionSummary ps =
     (length ps, length (filter (\<lambda>p. pp_granted p = Some True) ps), length (filter (\<lambda>p. pp_granted p = Some False) ps))"

section \<open>Install times\<close>

text \<open>\<open>Date.UTC(2008, 0, 1)\<close> is 1199145600000.\<close>

definition isPlausibleInstallMs :: "Dates \<Rightarrow> int \<Rightarrow> bool" where
  "isPlausibleInstallMs D ms \<longleftrightarrow> ms \<ge> 1199145600000 \<and> ms \<le> now_ms D + 24 * 60 * 60 * 1000"

definition plausible :: "Dates \<Rightarrow> int option \<Rightarrow> int option" where
  "plausible D ms = (case ms of Some t \<Rightarrow> (if isPlausibleInstallMs D t then Some t else None) | None \<Rightarrow> None)"

definition two_digits :: regex where
  "two_digits = Seq Digit Digit"

definition space_date_re :: regex where
  "space_date_re = Seqs [Bol, Grp 1 (Seqs [two_digits, two_digits, Lit ''-'', two_digits, Lit ''-'', two_digits]), One_of '' T'',
     Grp 2 (Seqs [two_digits, Lit '':'', two_digits, Lit '':'', two_digits])]"

definition parsePackageTimeMs :: "Dates \<Rightarrow> string \<Rightarrow> int option" where
  "parsePackageTimeMs D raw =
     (let trimmed = trim raw;
          by_text = (case exec space_date_re trimmed of
              Some m \<Rightarrow> plausible D (date_parse D (get_or [] (group 1 m) @ ''T'' @ get_or [] (group 2 m) @ ''Z''))
            | None \<Rightarrow> plausible D (date_parse D trimmed))
      in if trimmed = [] then None
         else case js_number trimmed of
           Some n \<Rightarrow>
             (if n > 0
              then plausible D (Some (if n > 100000000000000 then n div 1000 else if n < 1000000000000 then n * 1000 else n))
              else by_text)
         | None \<Rightarrow> by_text)"

definition formatWallTimestamp :: "Dates \<Rightarrow> string \<Rightarrow> string" where
  "formatWallTimestamp D text =
     (case parseApiTimestamp (date_parse D) text of None \<Rightarrow> text | Some d \<Rightarrow> locale_text D d)"

definition formatInstallTime :: "Dates \<Rightarrow> string \<Rightarrow> int option \<Rightarrow> string" where
  "formatInstallTime D raw ms = (case ms of Some t \<Rightarrow> formatWallTimestamp D (iso_text D t) | None \<Rightarrow> trim raw)"

text \<open>The entry of user 0 among \<open>ext.users\<close>, or the first entry, as an object.\<close>

definition is_user_0 :: "Json \<Rightarrow> bool" where
  "is_user_0 u = (case u of
     JObj kvs \<Rightarrow> map_of kvs ''user_id'' = Some (JNum 0) \<or> map_of kvs ''user_id'' = Some (JStr ''0'') | _ \<Rightarrow> False)"

definition preferred_user :: "Row \<Rightarrow> Row" where
  "preferred_user ext =
     (case map_of ext ''users'' of
        Some (JArr (u # us)) \<Rightarrow> (case get_or u (List.find is_user_0 (u # us)) of JObj kvs \<Rightarrow> kvs | _ \<Rightarrow> [])
      | _ \<Rightarrow> [])"

definition androidUserField :: "Row \<Rightarrow> string list \<Rightarrow> string" where
  "androidUserField ext keys = or_texts (map (text_or_num (preferred_user ext)) keys)"

text \<open>\<open>{ minSdk, targetSdk }\<close>\<close>

definition androidSdkFromExt :: "Row \<Rightarrow> string \<times> string" where
  "androidSdkFromExt ext =
     (let either = (\<lambda>key. or_str (own_text ext key) (num_text ext key))
      in (trim (either ''minSdk''), trim (or_str (either ''targetSdk'') (either ''targetSdkVersion''))))"

definition strip_brackets :: "string \<Rightarrow> string" where
  "strip_brackets s =
     (let t = (if starts_with ''['' s then drop 1 s else s) in if ends_with '']'' t then butlast t else t)"

definition androidFlagsString :: "Row \<Rightarrow> string" where
  "androidFlagsString ext =
     (case or_else (present (map_of ext ''flags'')) (map_of ext ''pkgFlags'') of
        Some (JStr s) \<Rightarrow> trim (strip_brackets s)
      | Some (JArr xs) \<Rightarrow> join '' '' (map js_text xs)
      | _ \<Rightarrow> [])"

definition isSystemCodePath :: "string \<Rightarrow> bool" where
  "isSystemCodePath codePath \<longleftrightarrow>
     (let p = to_lower codePath in
      list_ex (\<lambda>d. starts_with d p) [''/system/'', ''/system_ext/'', ''/vendor/'', ''/product/'', ''/apex/'']
      \<or> contains ''/system/priv-app/'' p \<or> contains ''/system/app/'' p)"

definition last_parts :: "nat \<Rightarrow> 'a list \<Rightarrow> 'a list" where
  "last_parts n xs = drop (length xs - n) xs"

definition shortenPackagePath :: "string \<Rightarrow> string" where
  "shortenPackagePath path =
     (let p = trim path; parts = nonempty (split_char (CHR ''/'') p) in
      if length p \<le> 48 \<or> length parts \<le> 3 then p
      else ellipsis @ ''/'' @ join ''/'' (last_parts 3 parts))"

definition androidFirstInstallRaw :: "Row \<Rightarrow> string" where
  "androidFirstInstallRaw ext =
     (let top = or_str (own_text ext ''firstInstallTime'') (own_text ext ''first_install_time'');
          user = preferred_user ext
      in if trim top \<noteq> [] then trim top
         else case present (or_else (present (map_of user ''firstInstallTime'')) (map_of user ''first_install_time'')) of
           Some v \<Rightarrow> trim (js_text v)
         | None \<Rightarrow> [])"

type_synonym InstallTime = "string \<times> int option"

fun first_time :: "Dates \<Rightarrow> string list \<Rightarrow> InstallTime option" where
  "first_time D [] = None"
| "first_time D (raw # raws) =
     (case parsePackageTimeMs D raw of Some ms \<Rightarrow> Some (trim raw, Some ms) | None \<Rightarrow> first_time D raws)"

definition androidInstallTime :: "Dates \<Rightarrow> Row \<Rightarrow> InstallTime" where
  "androidInstallTime D ext =
     (let candidates = [androidFirstInstallRaw ext, own_text ext ''lastUpdateTime'', own_text ext ''timeStamp'']
      in case first_time D candidates of
           Some t \<Rightarrow> t
         | None \<Rightarrow> (or_texts (map trim candidates), None))"

definition rowEventInstallTime :: "JsonParse \<Rightarrow> Dates \<Rightarrow> Row \<Rightarrow> InstallTime" where
  "rowEventInstallTime parse D row =
     (case first_time D [strField row ''datetime'', strField row ''timestamp''] of
        Some t \<Rightarrow> t
      | None \<Rightarrow> (formatRowTimestamp parse D row, parsePackageTimeMs D (formatRowTimestamp parse D row)))"

section \<open>Packages\<close>

definition isAndroidMetadataRow :: "Row \<Rightarrow> bool" where
  "isAndroidMetadataRow row \<longleftrightarrow>
     (let dt = to_lower (strField row ''data_type'') in dt = [] \<or> contains ''package_metadata'' dt)"

definition bundle_tail :: "string \<Rightarrow> string" where
  "bundle_tail bundleId = or_str (last (split_char (CHR ''.'') bundleId)) bundleId"

definition two_segments :: "string \<Rightarrow> string" where
  "two_segments bundleId = join ''.'' (last_parts 2 (split_char (CHR ''.'') bundleId))"

definition not_deleted_re :: regex where
  "not_deleted_re = Seqs [Bol, LitI ''not'', Plus Space, LitI ''deleted'', Eol]"

definition blank_package :: "string \<Rightarrow> PackageRow" where
  "blank_package bundleId =
     \<lparr>pk_bundleId = bundleId, pk_label = [], pk_version = [], pk_installer = [], pk_updated = [], pk_timestamp = [],
      pk_installedAt = [], pk_installedAtMs = None, pk_parser = [], pk_permissions = [], pk_versionCode = [], pk_uid = [],
      pk_minSdk = [], pk_targetSdk = [], pk_codePath = [], pk_dataDir = [], pk_updatedAt = [], pk_updatedAtMs = None,
      pk_initiatingPackage = [], pk_originatingPackage = [], pk_packageSource = [], pk_apkSigningVersion = [],
      pk_primaryCpuAbi = [], pk_flags = [], pk_installReason = [], pk_isSystemPath = False, pk_executableName = [],
      pk_buildVersion = [], pk_deletedDate = [], pk_isDeleted = False, pk_appType = [], pk_sources = [], pk_extras = []\<rparr>"

definition version_or_none :: "string \<Rightarrow> string" where
  "version_or_none v = (if looksLikeAppVersion v then v else [])"

definition ios_package :: "JsonParse \<Rightarrow> Dates \<Rightarrow> (string \<Rightarrow> string \<Rightarrow> int) \<Rightarrow> Row \<Rightarrow> string \<Rightarrow> PackageRow" where
  "ios_package parse D compare row bundleId =
     (let ext = parseExt parse row; message = strField row ''message''; parser = strField row ''parser'';
          field = extField parse row; appInfo = parsePowerlogAppInfo message ext;
          miVersions = parseMobileInstallVersions message;
          stampedShort = or_str (field ''short_version'') (field ''CFBundleShortVersionString'');
          stampedBuild = or_str (field ''version'') (field ''CFBundleVersion'');
          label = or_texts [strField row ''app_name'', ai_name appInfo, field ''label'', field ''CFBundleName'',
            field ''CFBundleDisplayName'', field ''zbundlename'', bundle_tail bundleId];
          version = or_texts [version_or_none stampedShort, version_or_none stampedBuild,
            version_or_none (field ''versionName''), ai_version appInfo, fst miVersions];
          install = rowEventInstallTime parse D row;
          installedAtMs = (if parser = ''accessibility_tcc'' then None else snd install);
          deletedRaw = ai_deletedDate appInfo;
          extras = (if message \<noteq> [] \<and> parser = ''mobileinstallation'' \<and> length message < 220
            then [(''Install event'', message)] else []) @ iosExtrasFromExt compare ext
      in (blank_package bundleId)
        \<lparr>pk_label := (if label = bundleId then two_segments bundleId else label), pk_version := version,
         pk_versionCode := or_str (if looksLikeAppVersion stampedBuild \<and> stampedBuild \<noteq> version then stampedBuild else [])
           (snd miVersions),
         pk_installer := or_str (field ''installer'') (field ''provenance''),
         pk_updated := or_str (field ''lastUpdateTime'') (field ''timeStamp''),
         pk_timestamp := formatRowTimestamp parse D row,
         pk_installedAt := (if installedAtMs \<noteq> None then formatInstallTime D (fst install) installedAtMs else []),
         pk_installedAtMs := installedAtMs, pk_parser := parser, pk_sources := (if parser \<noteq> [] then [parser] else []),
         pk_executableName := ai_executableName appInfo, pk_buildVersion := ai_buildVersion appInfo,
         pk_deletedDate := (if deletedRaw \<noteq> [] \<and> \<not> test not_deleted_re deletedRaw then deletedRaw else []),
         pk_isDeleted := (deletedRaw \<noteq> [] \<and> \<not> test not_deleted_re deletedRaw \<and> to_lower deletedRaw \<noteq> ''0''),
         pk_appType := ai_appType appInfo,
         pk_permissions := (if parser = ''accessibility_tcc'' then parseIosTccPermissions parse row ext else []),
         pk_extras := extras\<rparr>)"

definition or_texts_of :: "Row \<Rightarrow> string \<Rightarrow> string" where
  "or_texts_of ext key = (case present (map_of ext key) of None \<Rightarrow> [] | Some v \<Rightarrow> js_text v)"

definition android_package :: "JsonParse \<Rightarrow> Dates \<Rightarrow> (string \<Rightarrow> string \<Rightarrow> int) \<Rightarrow> Row \<Rightarrow> string \<Rightarrow> PackageRow" where
  "android_package parse D compare row bundleId =
     (let ext = parseExt parse row; field = extField parse row;
          label = or_texts [field ''label'', strField row ''app_name'', bundle_tail bundleId];
          versionCode = trim (or_texts_of ext ''versionCode'');
          version = or_str (field ''versionName'') (if versionCode \<noteq> [] then ''vc'' @ versionCode else []);
          updatedRaw = or_texts [field ''lastUpdateTime'', field ''timeStamp'', androidFirstInstallRaw ext];
          updatedMs = parsePackageTimeMs D updatedRaw;
          install = androidInstallTime D ext; fallback = rowEventInstallTime parse D row;
          installedAtMs = or_else (snd install) (snd fallback);
          installedRaw = (if snd install \<noteq> None then fst install else or_str (fst fallback) (fst install));
          codePath = or_str (field ''codePath'') (field ''resourcePath'')
      in (blank_package bundleId)
        \<lparr>pk_label := (if label = bundleId then two_segments bundleId else label),
         pk_version := (if version \<noteq> label then version else []), pk_versionCode := versionCode,
         pk_installer := or_texts [field ''installer'', field ''installerPackageName'', field ''initiatingPackageName'',
           field ''originatingPackageName''],
         pk_updated := updatedRaw, pk_updatedAt := formatInstallTime D updatedRaw updatedMs, pk_updatedAtMs := updatedMs,
         pk_timestamp := or_str (formatRowTimestamp parse D row) updatedRaw,
         pk_installedAt := formatInstallTime D installedRaw installedAtMs, pk_installedAtMs := installedAtMs,
         pk_permissions := parsePackagePermissions compare ext,
         pk_uid := or_texts [or_texts_of ext ''appId'', or_texts_of ext ''uid'', field ''appId'', field ''uid''],
         pk_minSdk := fst (androidSdkFromExt ext), pk_targetSdk := snd (androidSdkFromExt ext), pk_codePath := codePath,
         pk_dataDir := field ''dataDir'', pk_initiatingPackage := field ''initiatingPackageName'',
         pk_originatingPackage := field ''originatingPackageName'', pk_packageSource := field ''packageSource'',
         pk_apkSigningVersion := field ''apkSigningVersion'', pk_primaryCpuAbi := field ''primaryCpuAbi'',
         pk_flags := androidFlagsString ext, pk_installReason := androidUserField ext [''installReason'', ''install_reason''],
         pk_isSystemPath := (codePath \<noteq> [] \<and> isSystemCodePath codePath)\<rparr>)"

definition parsePackageRow ::
  "JsonParse \<Rightarrow> Dates \<Rightarrow> (string \<Rightarrow> string \<Rightarrow> int) \<Rightarrow> CasePlatform \<Rightarrow> Row \<Rightarrow> PackageRow option" where
  "parsePackageRow parse D compare platform row =
     (case platform of
        Ios_case \<Rightarrow>
          (let bundleId = iosBundleIdFromRow parse row
           in if bundleId = [] then None else Some (ios_package parse D compare row bundleId))
      | Android_case \<Rightarrow>
          (let bundleId = or_str (strField row ''bundle_id'') (extField parse row ''package_name'')
           in if \<not> isAndroidMetadataRow row \<or> bundleId = [] then None
              else Some (android_package parse D compare row bundleId)))"

section \<open>The list\<close>

definition packageRowScore :: "PackageRow \<Rightarrow> Row \<Rightarrow> CasePlatform \<Rightarrow> int" where
  "packageRowScore p row platform =
     (let parser = strField row ''parser''; info = contains IOS_POWERLOG_APP_INFO (strField row ''message'') in
      (if pk_version p \<noteq> [] then 6 else 0) + (if pk_label p \<noteq> pk_bundleId p then 4 else 0)
      + (if pk_parser p \<noteq> [] then 2 else 0) + (if pk_installedAtMs p \<noteq> None then 5 else 0)
      + (if pk_uid p \<noteq> [] then 2 else 0) + (if pk_codePath p \<noteq> [] then 2 else 0)
      + (if pk_targetSdk p \<noteq> [] then 1 else 0) + (if pk_permissions p \<noteq> [] then 4 else 0)
      + (if pk_executableName p \<noteq> [] then 2 else 0) + (if pk_buildVersion p \<noteq> [] then 1 else 0)
      + (if pk_extras p \<noteq> [] then 1 else 0)
      + (if platform = Ios_case
         then (if parser = ''mobileinstallation'' \<or> parser = ''appinstallation'' then 20
               else if parser = ''powerlogs'' \<and> info then 18
               else if parser = ''accessibility_tcc'' then 6
               else if parser \<in> set IOS_INSTALL_PARSERS then 8 else 0)
              - (if parser = ''powerlogs'' \<and> \<not> info then 12 else 0)
         else 0))"

text \<open>Whether \<open>pickInstallTime\<close> takes the time of the base.\<close>

definition keeps_time :: "int option \<Rightarrow> int option \<Rightarrow> CasePlatform \<Rightarrow> bool" where
  "keeps_time base other platform \<longleftrightarrow>
     (case (base, other) of
        (None, None) \<Rightarrow> True | (None, Some b) \<Rightarrow> False | (Some a, None) \<Rightarrow> True
      | (Some a, Some b) \<Rightarrow> platform = Ios_case \<or> a \<le> b)"

definition pick_text :: "string \<Rightarrow> string \<Rightarrow> string" where
  "pick_text a b = (if trim a \<noteq> [] then a else b)"

definition merge_packages ::
  "(string \<Rightarrow> string \<Rightarrow> int) \<Rightarrow> CasePlatform \<Rightarrow> PackageRow \<Rightarrow> PackageRow \<Rightarrow> PackageRow" where
  "merge_packages compare platform base other =
     (let keeps = keeps_time (pk_installedAtMs base) (pk_installedAtMs other) platform in
      base\<lparr>pk_installedAt := (if keeps then pk_installedAt base else pk_installedAt other),
        pk_installedAtMs := (if keeps then pk_installedAtMs base else pk_installedAtMs other),
        pk_permissions := mergePackagePermissions compare (pk_permissions base) (pk_permissions other),
        pk_version := or_str (pk_version base) (pk_version other),
        pk_versionCode := pick_text (pk_versionCode base) (pk_versionCode other),
        pk_installer := or_str (pk_installer base) (pk_installer other),
        pk_parser := or_str (pk_parser base) (pk_parser other),
        pk_uid := pick_text (pk_uid base) (pk_uid other),
        pk_minSdk := pick_text (pk_minSdk base) (pk_minSdk other),
        pk_targetSdk := pick_text (pk_targetSdk base) (pk_targetSdk other),
        pk_codePath := pick_text (pk_codePath base) (pk_codePath other),
        pk_dataDir := pick_text (pk_dataDir base) (pk_dataDir other),
        pk_updatedAt := pick_text (pk_updatedAt base) (pk_updatedAt other),
        pk_updatedAtMs := or_else (pk_updatedAtMs base) (pk_updatedAtMs other),
        pk_initiatingPackage := pick_text (pk_initiatingPackage base) (pk_initiatingPackage other),
        pk_originatingPackage := pick_text (pk_originatingPackage base) (pk_originatingPackage other),
        pk_packageSource := pick_text (pk_packageSource base) (pk_packageSource other),
        pk_apkSigningVersion := pick_text (pk_apkSigningVersion base) (pk_apkSigningVersion other),
        pk_primaryCpuAbi := pick_text (pk_primaryCpuAbi base) (pk_primaryCpuAbi other),
        pk_flags := pick_text (pk_flags base) (pk_flags other),
        pk_installReason := pick_text (pk_installReason base) (pk_installReason other),
        pk_isSystemPath := (pk_isSystemPath base \<or> pk_isSystemPath other),
        pk_executableName := pick_text (pk_executableName base) (pk_executableName other),
        pk_buildVersion := pick_text (pk_buildVersion base) (pk_buildVersion other),
        pk_deletedDate := pick_text (pk_deletedDate base) (pk_deletedDate other),
        pk_isDeleted := (pk_isDeleted base \<or> pk_isDeleted other),
        pk_appType := pick_text (pk_appType base) (pk_appType other),
        pk_sources := mergeSources (pk_sources base) (pk_sources other),
        pk_extras := mergeExtras compare (pk_extras base) (pk_extras other),
        pk_label := (if pk_label base \<noteq> [] \<and> pk_label base \<noteq> pk_bundleId base then pk_label base
          else if pk_label other \<noteq> [] \<and> pk_label other \<noteq> pk_bundleId other then pk_label other
          else pk_label base)\<rparr>)"

type_synonym Scored = "PackageRow \<times> int"

definition merge_scored :: "(string \<Rightarrow> string \<Rightarrow> int) \<Rightarrow> CasePlatform \<Rightarrow> Scored \<Rightarrow> Scored \<Rightarrow> Scored" where
  "merge_scored compare platform existing incoming =
     ((if snd incoming > snd existing then merge_packages compare platform (fst incoming) (fst existing)
       else merge_packages compare platform (fst existing) (fst incoming)),
      max (snd incoming) (snd existing))"

definition scored_package ::
  "JsonParse \<Rightarrow> Dates \<Rightarrow> (string \<Rightarrow> string \<Rightarrow> int) \<Rightarrow> CasePlatform \<Rightarrow> Row \<Rightarrow> Scored option" where
  "scored_package parse D compare platform row =
     map_option (\<lambda>p. (p, packageRowScore p row platform)) (parsePackageRow parse D compare platform row)"

definition bundle_key :: "Scored \<Rightarrow> string option" where
  "bundle_key s = Some (pk_bundleId (fst s))"

definition comparePackageRows :: "(string \<Rightarrow> string \<Rightarrow> int) \<Rightarrow> PackageRow \<Rightarrow> PackageRow \<Rightarrow> int" where
  "comparePackageRows compare a b =
     (let names = then_by (compare (pk_label a) (pk_label b)) (compare (pk_bundleId a) (pk_bundleId b)) in
      case (pk_installedAtMs a, pk_installedAtMs b) of
        (Some x, Some y) \<Rightarrow> (if x \<noteq> y then y - x else names)
      | (Some x, None) \<Rightarrow> - 1
      | (None, Some y) \<Rightarrow> 1
      | (None, None) \<Rightarrow> names)"

definition merged_packages ::
  "(string \<Rightarrow> string \<Rightarrow> int) \<Rightarrow> CasePlatform \<Rightarrow> Scored list \<Rightarrow> PackageRow list" where
  "merged_packages compare platform ps = map (fst \<circ> snd) (group_rows bundle_key (\<lambda>s. s) (merge_scored compare platform) ps)"

definition packageRows ::
  "JsonParse \<Rightarrow> Dates \<Rightarrow> (string \<Rightarrow> string \<Rightarrow> int) \<Rightarrow> Row list \<Rightarrow> int \<Rightarrow> CasePlatform \<Rightarrow> PackageRow list" where
  "packageRows parse D compare rows limit platform =
     (let sorted = js_sort (comparePackageRows compare)
            (merged_packages compare platform (List.map_filter (scored_package parse D compare platform) rows))
      in if limit \<le> 0 then sorted else take (nat limit) sorted)"

section \<open>Names, queries and processes\<close>

definition installerLabel :: "string \<Rightarrow> string" where
  "installerLabel installer =
     (if installer = [] then em_dash
      else if installer = ''com.android.vending'' then ''Play Store''
      else if contains ''packageinstaller'' installer then ''Package installer''
      else installer)"

definition parser_list :: string where
  "parser_list = join '', '' (map quoted IOS_INSTALL_PARSERS)"

definition packagesQuery :: "string \<Rightarrow> CasePlatform \<Rightarrow> string" where
  "packagesQuery source platform =
     ''source='' @ quoted (escapeMplSource source) @
     (if platform = Ios_case
      then '' (parser IN ('' @ parser_list @ '') OR (parser='' @ quoted ''powerlogs'' @ '' AND message=*App Info*) OR (parser=''
        @ quoted ''plists'' @ '' AND message=*itunesmetadata*)) | fields timestamp, datetime, bundle_id, app_name, parser, message, action, permission, ext | head 8000''
      else '' parser='' @ quoted ''Package'' @ '' data_type=*package_metadata* bundle_id=* | fields timestamp, datetime, bundle_id, app_name, ext | sort bundle_id | head 2000'')"

definition packagesListSearchQuery :: "string \<Rightarrow> CasePlatform \<Rightarrow> string" where
  "packagesListSearchQuery scope platform =
     scope @
     (if platform = Ios_case
      then '' (parser IN ('' @ parser_list @ '') OR (parser='' @ quoted ''powerlogs'' @ '' AND message=*App Info*) OR (parser=''
        @ quoted ''plists'' @ '' AND message=*itunesmetadata*) OR bundle_id=*) | stats count by bundle_id | sort bundle_id | head 500''
      else '' parser='' @ quoted ''Package'' @ '' data_type=*package_metadata* | stats count by bundle_id | head 500'')"

definition packageSearchQuery :: "string \<Rightarrow> string \<Rightarrow> CasePlatform \<Rightarrow> string" where
  "packageSearchQuery bundleId scope platform =
     (let pkg = quoted (escapeMplSource (trim bundleId)); base = (if scope \<noteq> [] then scope @ '' '' else []) in
      if platform = Ios_case then base @ ''bundle_id='' @ pkg @ '' | sort -timestamp | head 30''
      else base @ ''parser='' @ quoted ''Package'' @ '' data_type=*package_metadata* bundle_id='' @ pkg @ '' | head 20'')"

definition version_name_re :: regex where
  "version_name_re = Seqs [Bol, Plus Digit, Upto 4 (Seq (Lit ''.'') (Plus Digit)),
     Star (Seq (One_of ''._+-'') (Plus (Cls (\<lambda>c. is_digit c \<or> is_upper c \<or> is_lower c)))), Eol]"

definition looksLikeVersionName :: "string \<Rightarrow> bool" where
  "looksLikeVersionName val \<longleftrightarrow> trim val \<noteq> [] \<and> test version_name_re (trim val)"

definition packageDisplayLabel :: "PackageRow \<Rightarrow> string" where
  "packageDisplayLabel p =
     (let label = trim (pk_label p); parts = nonempty (split_char (CHR ''.'') (pk_bundleId p)) in
      if label \<noteq> [] \<and> label \<noteq> pk_bundleId p \<and> \<not> looksLikeVersionName label then label
      else if length parts \<ge> 2 then join ''.'' (last_parts 2 parts)
      else case parts of s # _ \<Rightarrow> s | [] \<Rightarrow> pk_bundleId p)"

definition owns_process :: "string \<Rightarrow> PackageRow \<Rightarrow> bool" where
  "owns_process name p \<longleftrightarrow>
     length (pk_bundleId p) \<ge> 3 \<and>
     (name = pk_bundleId p \<or> starts_with (pk_bundleId p @ '':'') name \<or> starts_with (pk_bundleId p @ ''/'') name)"

definition longer_match :: "string \<Rightarrow> PackageRow option \<Rightarrow> PackageRow \<Rightarrow> PackageRow option" where
  "longer_match name best p =
     (if owns_process name p
         \<and> (case best of None \<Rightarrow> True | Some b \<Rightarrow> length (pk_bundleId p) > length (pk_bundleId b)) then Some p
      else best)"

text \<open>\<open>byId\<close>: of packages with one id the last one.\<close>

definition by_id :: "PackageRow list \<Rightarrow> string \<Rightarrow> PackageRow option" where
  "by_id packages = map_of (rev (map (\<lambda>p. (pk_bundleId p, p)) packages))"

definition resolveAndroidProcessPackage :: "string \<Rightarrow> PackageRow list \<Rightarrow> PackageRow option" where
  "resolveAndroidProcessPackage processName packages =
     (let name = trim processName;
          before_colon = (case index_of (CHR '':'') name of
              Some n \<Rightarrow> (if n > 0 then by_id packages (take n name) else None) | None \<Rightarrow> None)
      in if name = [] \<or> starts_with ''['' name \<or> packages = [] then None
         else case by_id packages name of
           Some p \<Rightarrow> Some p
         | None \<Rightarrow> (case before_colon of Some p \<Rightarrow> Some p | None \<Rightarrow> foldl (longer_match name) None packages))"

end
