(* ===== verification/PackageFacts.thy ===== *)
theory PackageFacts
  imports PackageSnapshot
begin

text \<open>
  Theorems on packages: one entry for every bundle in the order of installation, with what any row says
  of it and, on Android, the earliest time of installation; and which package a process belongs to.
\<close>

section \<open>Merging\<close>

definition filled_fields :: "(PackageRow \<Rightarrow> string) list" where
  "filled_fields = [pk_versionCode, pk_uid, pk_minSdk, pk_targetSdk, pk_codePath, pk_dataDir, pk_updatedAt,
     pk_initiatingPackage, pk_originatingPackage, pk_packageSource, pk_apkSigningVersion, pk_primaryCpuAbi, pk_flags,
     pk_installReason, pk_executableName, pk_buildVersion, pk_deletedDate, pk_appType]"

lemma merged_field: "f \<in> set filled_fields \<Longrightarrow> f (merge_packages compare pl a b) = pick_text (f a) (f b)"
  by (auto simp: filled_fields_def merge_packages_def Let_def)

lemma pick_text_facts: "pick_text a b \<in> {a, b}" "trim (pick_text a b) = [] \<longleftrightarrow> trim a = [] \<and> trim b = []"
  by (auto simp: pick_text_def)

lemma merge_simps [simp]:
  "pk_bundleId (merge_packages compare pl a b) = pk_bundleId a"
  "pk_permissions (merge_packages compare pl a b) = mergePackagePermissions compare (pk_permissions a) (pk_permissions b)"
  "pk_installedAtMs (merge_packages compare pl a b) =
     (if keeps_time (pk_installedAtMs a) (pk_installedAtMs b) pl then pk_installedAtMs a else pk_installedAtMs b)"
  by (simp_all add: merge_packages_def Let_def)

lemma merge_permission_name [simp]: "pp_name (merge_permission p q) = pp_name p"
  by (simp add: merge_permission_def)

lemma merged_permission_names:
  "pp_name ` set (mergePackagePermissions compare ps qs) = pp_name ` (set ps \<union> set qs)"
proof -
  let ?g = "group_rows (\<lambda>p. Some (pp_name p)) (\<lambda>p. p) merge_permission (ps @ qs)"
  have name: "pp_name b = k" if "(k, b) \<in> set ?g" for k b
    using that unfolding group_rows_member
    by (rule group_of_invariant) auto
  have keys: "fst ` set ?g = pp_name ` (set ps \<union> set qs)"
    unfolding group_rows_keys by auto
  have "pp_name ` snd ` set ?g = fst ` set ?g" using name by force
  with keys show ?thesis by (simp add: mergePackagePermissions_def)
qed

text \<open>The earlier of two times, of which either may be unknown.\<close>

definition earlier :: "int option \<Rightarrow> int option \<Rightarrow> int option" where
  "earlier a b = (case (a, b) of (Some x, Some y) \<Rightarrow> Some (min x y) | (None, y) \<Rightarrow> y | (x, None) \<Rightarrow> x)"

definition earliest :: "int option list \<Rightarrow> int option" where
  "earliest ts = foldl earlier None ts"

lemma earliest_snoc [simp]: "earliest (ts @ [t]) = earlier (earliest ts) t"
  by (simp add: earliest_def)

lemma earlier_commute: "earlier a b = earlier b a"
  by (simp add: earlier_def min.commute split: option.splits)

lemma keeps_time_earlier: "(if keeps_time a b Android_case then a else b) = earlier a b"
  by (simp add: keeps_time_def earlier_def min_def split: option.splits)

lemma keeps_time_facts:
  "(if keeps_time a b pl then a else b) \<in> {a, b}"
  "(if keeps_time a b pl then a else b) = None \<longleftrightarrow> a = None \<and> b = None"
  by (cases a; cases b; simp add: keeps_time_def)+

section \<open>Groups\<close>

text \<open>What a group of packages says of the merged one.\<close>

definition package_of :: "CasePlatform \<Rightarrow> PackageRow list \<Rightarrow> PackageRow \<Rightarrow> bool" where
  "package_of platform G p \<longleftrightarrow>
     list_all (\<lambda>f. f p \<in> f ` set G \<and> (trim (f p) = [] \<longleftrightarrow> list_all (\<lambda>q. trim (f q) = []) G)) filled_fields
     \<and> pp_name ` set (pk_permissions p) = (\<Union>q \<in> set G. pp_name ` set (pk_permissions q))
     \<and> pk_installedAtMs p \<in> pk_installedAtMs ` set G
     \<and> (pk_installedAtMs p = None \<longleftrightarrow> list_all (\<lambda>q. pk_installedAtMs q = None) G)
     \<and> (if platform = Android_case then pk_installedAtMs p = earliest (map pk_installedAtMs G) else True)"

lemma package_of_one: "package_of platform [p] p"
  by (simp add: package_of_def list_all_iff earliest_def earlier_def split: option.splits)

lemma package_of_merge:
  assumes G: "package_of platform G p"
    and m: "m = merge_packages compare platform p q \<or> m = merge_packages compare platform q p"
  shows "package_of platform (G @ [q]) m"
proof -
  have fields: "f m \<in> f ` set (G @ [q])" "trim (f m) = [] \<longleftrightarrow> list_all (\<lambda>q. trim (f q) = []) (G @ [q])"
    if f: "f \<in> set filled_fields" for f
  proof -
    have "f m = pick_text (f p) (f q) \<or> f m = pick_text (f q) (f p)" using m merged_field [OF f] by metis
    moreover have "f p \<in> f ` set G" "trim (f p) = [] \<longleftrightarrow> list_all (\<lambda>q. trim (f q) = []) G"
      using G f by (auto simp: package_of_def list_all_iff)
    ultimately show "f m \<in> f ` set (G @ [q])" "trim (f m) = [] \<longleftrightarrow> list_all (\<lambda>q. trim (f q) = []) (G @ [q])"
      using pick_text_facts [of "f p" "f q"] pick_text_facts [of "f q" "f p"] by auto
  qed
  have "pk_installedAtMs m \<in> {pk_installedAtMs p, pk_installedAtMs q}"
      and "pk_installedAtMs m = None \<longleftrightarrow> pk_installedAtMs p = None \<and> pk_installedAtMs q = None"
    using m keeps_time_facts [of "pk_installedAtMs p" "pk_installedAtMs q" platform]
      keeps_time_facts [of "pk_installedAtMs q" "pk_installedAtMs p" platform] by auto
  moreover have "pk_installedAtMs m = earlier (pk_installedAtMs p) (pk_installedAtMs q)" if "platform = Android_case"
    using m that by (auto simp: keeps_time_earlier earlier_commute)
  moreover have "pp_name ` set (pk_permissions m) = pp_name ` set (pk_permissions p) \<union> pp_name ` set (pk_permissions q)"
    using m merged_permission_names [of compare "pk_permissions p" "pk_permissions q"]
      merged_permission_names [of compare "pk_permissions q" "pk_permissions p"]
    by (metis merge_simps(2) image_Un sup_commute)
  moreover have "pk_installedAtMs p \<in> pk_installedAtMs ` set G"
      and "pk_installedAtMs p = None \<longleftrightarrow> list_all (\<lambda>q. pk_installedAtMs q = None) G"
      and "pp_name ` set (pk_permissions p) = (\<Union>q \<in> set G. pp_name ` set (pk_permissions q))"
      and "platform = Android_case \<Longrightarrow> pk_installedAtMs p = earliest (map pk_installedAtMs G)"
    using G by (simp_all add: package_of_def)
  ultimately have "pk_installedAtMs m \<in> pk_installedAtMs ` set (G @ [q])"
      and "pk_installedAtMs m = None \<longleftrightarrow> list_all (\<lambda>q. pk_installedAtMs q = None) (G @ [q])"
      and "pp_name ` set (pk_permissions m) = (\<Union>q \<in> set (G @ [q]). pp_name ` set (pk_permissions q))"
      and "if platform = Android_case then pk_installedAtMs m = earliest (map pk_installedAtMs (G @ [q])) else True"
    by auto
  then show ?thesis using fields by (simp add: package_of_def list_all_iff)
qed

abbreviation same_bundle :: "PackageRow list \<Rightarrow> string \<Rightarrow> PackageRow list" where
  "same_bundle ps b \<equiv> filter (\<lambda>p. pk_bundleId p = b) ps"

lemma merge_scored_cases:
  "fst (merge_scored compare pl s t) \<in> {merge_packages compare pl (fst s) (fst t), merge_packages compare pl (fst t) (fst s)}"
  by (simp add: merge_scored_def)

lemma group_bundle:
  assumes "group_of bundle_key (\<lambda>s. s) (merge_scored compare pl) ps k = Some s"
  shows "pk_bundleId (fst s) = k"
proof (rule group_of_invariant [OF assms])
  fix r b :: Scored
  assume "bundle_key r = Some k" and "pk_bundleId (fst b) = k"
  then show "pk_bundleId (fst (merge_scored compare pl b r)) = k"
    using merge_scored_cases [of compare pl b r] by (auto simp: bundle_key_def)
qed (simp add: bundle_key_def)

lemma foldl_package_of:
  "package_of pl G (fst s) \<Longrightarrow> package_of pl (G @ map fst ss) (fst (foldl (merge_scored compare pl) s ss))"
proof (induction ss arbitrary: G s)
  case (Cons t ss)
  then have "package_of pl (G @ [fst t]) (fst (merge_scored compare pl s t))"
    using package_of_merge [OF Cons.prems] merge_scored_cases [of compare pl s t] by blast
  from Cons.IH [OF this] show ?case by simp
qed simp

lemma group_package_of:
  assumes "group_of bundle_key (\<lambda>s. s) (merge_scored compare pl) ps k = Some s"
  shows "package_of pl (same_bundle (map fst ps) k) (fst s)"
proof -
  obtain t ts where G: "filter (\<lambda>s. bundle_key s = Some k) ps = t # ts" and s: "s = foldl (merge_scored compare pl) t ts"
    using assms by (auto simp: group_of_def split: list.splits)
  have "same_bundle (map fst ps) k = [fst t] @ map fst ts"
    using arg_cong [OF G, of "map fst"] by (simp add: filter_map o_def bundle_key_def)
  then show ?thesis using foldl_package_of [OF package_of_one] by (simp add: s)
qed

lemma merged_packages_facts:
  shows "distinct (map pk_bundleId (merged_packages compare pl ps))"
    and "set (map pk_bundleId (merged_packages compare pl ps)) = set (map pk_bundleId (map fst ps))"
    and "p \<in> set (merged_packages compare pl ps) \<Longrightarrow> package_of pl (same_bundle (map fst ps) (pk_bundleId p)) p"
proof -
  let ?g = "group_rows bundle_key (\<lambda>s. s) (merge_scored compare pl) ps"
  have keys: "map pk_bundleId (merged_packages compare pl ps) = map fst ?g"
    unfolding merged_packages_def map_map
    using group_bundle [of compare pl ps] by (intro map_cong [OF refl]) (force simp: group_rows_member)
  show "distinct (map pk_bundleId (merged_packages compare pl ps))" unfolding keys by (rule group_rows_distinct)
  show "set (map pk_bundleId (merged_packages compare pl ps)) = set (map pk_bundleId (map fst ps))"
    unfolding keys set_map group_rows_keys by (auto simp: bundle_key_def)
  show "package_of pl (same_bundle (map fst ps) (pk_bundleId p)) p" if mem: "p \<in> set (merged_packages compare pl ps)"
  proof -
    obtain k s where "(k, s) \<in> set ?g" "p = fst s" using mem by (auto simp: merged_packages_def)
    then show ?thesis using group_package_of group_bundle unfolding group_rows_member by blast
  qed
qed

section \<open>The list\<close>

text \<open>Unknown times come last, known ones the latest first.\<close>

definition time_rank :: "PackageRow \<Rightarrow> int" where
  "time_rank p = (if pk_installedAtMs p = None then 1 else 0)"

definition age :: "PackageRow \<Rightarrow> int" where
  "age p = (case pk_installedAtMs p of None \<Rightarrow> 0 | Some t \<Rightarrow> - t)"

lemma comparator_packages:
  assumes "collator compare"
  shows "comparator (comparePackageRows compare)"
proof -
  let ?names = "\<lambda>a b. then_by (compare (pk_label a) (pk_label b)) (compare (pk_bundleId a) (pk_bundleId b))"
  have "comparator compare" using assms by (rule collator.axioms)
  then have "comparator ?names"
    by (rule comparator_lex [OF collator_on [OF assms] comparator_on])
  then have "comparator (\<lambda>a b. then_by (num_cmp (time_rank a) (time_rank b)) (then_by (num_cmp (age a) (age b)) (?names a b)))"
    by (rule comparator_then [OF comparator_then])
  then show ?thesis
  proof (rule comparator_same)
    fix a b
    show "comparePackageRows compare a b \<le> 0 \<longleftrightarrow>
        then_by (num_cmp (time_rank a) (time_rank b)) (then_by (num_cmp (age a) (age b)) (?names a b)) \<le> 0"
      unfolding then_by_le
      by (cases "pk_installedAtMs a"; cases "pk_installedAtMs b")
        (auto simp: comparePackageRows_def time_rank_def age_def Let_def)
  qed
qed


definition sample_dates :: Dates where
  "sample_dates = \<lparr>date_parse = \<lambda>s. None, full_year = \<lambda>d. 2024, locale_text = int_str, iso_text = int_str,
     now_ms = 1800000000000\<rparr>"

definition sample_rows :: "Row list" where
  "sample_rows =
     [[(''bundle_id'', JStr ''com.a.app''), (''ext'', JObj [(''firstInstallTime'', JStr ''1700000002''), (''uid'', JNum 10001)])],
      [(''bundle_id'', JStr ''com.a.app''), (''ext'', JObj [(''firstInstallTime'', JStr ''1700000001'')])],
      [(''bundle_id'', JStr ''com.b.app'')]]"

lemma android_bundle: "pk_bundleId (android_package parse D compare row b) = b"
  by (simp add: android_package_def Let_def blank_package_def)

lemma sample_bundles:
  "map (\<lambda>row. (isAndroidMetadataRow row, or_str (strField row ''bundle_id'') (extField (\<lambda>s. None) row ''package_name''))) sample_rows
     = [(True, ''com.a.app''), (True, ''com.a.app''), (True, ''com.b.app'')]"
  by code_simp


text \<open>
  A row without a name still gets a label, from the end of its bundle id, which merging then takes for a
  name: the name that a lower row knows is not shown.
\<close>

lemma derived_label_kept:
  "let row = [(''bundle_id'', JStr ''com.x.foo'')];
       unnamed = ios_package (\<lambda>s. None) sample_dates (\<lambda>a b. 0) row ''com.x.foo'';
       named = (blank_package ''com.x.foo'')\<lparr>pk_label := ''Foo Mail''\<rparr>
   in pk_label (merge_packages (\<lambda>a b. 0) Ios_case unnamed named) = ''foo''"
  by code_simp

section \<open>Processes\<close>

lemma by_id_facts:
  "by_id ps b = Some p \<Longrightarrow> p \<in> set ps \<and> pk_bundleId p = b"
  "by_id ps b = None \<longleftrightarrow> list_all (\<lambda>p. pk_bundleId p \<noteq> b) ps"
  unfolding by_id_def by (force simp: map_of_eq_None_iff list_all_iff dest: map_of_SomeD)+

lemma longest_match:
  "case foldl (longer_match name) None ps of
     None \<Rightarrow> list_all (\<lambda>q. \<not> owns_process name q) ps
   | Some p \<Rightarrow> p \<in> set ps \<and> owns_process name p"
proof (induction ps rule: rev_induct)
  case (snoc q ps)
  define best where "best = foldl (longer_match name) None ps"
  from snoc show ?case
    unfolding foldl_append foldl.simps best_def [symmetric]
    by (cases best) (auto simp: longer_match_def list_all_iff)
qed simp

lemma index_of_cut: "index_of c s = Some n \<Longrightarrow> s = take n s @ c # drop (Suc n) s"
  by (induction s arbitrary: n) (auto split: if_splits)

text \<open>A name belongs to a bundle when it is its id, alone or in front of a colon or a slash.\<close>

definition belongs :: "string \<Rightarrow> string \<Rightarrow> bool" where
  "belongs name b \<longleftrightarrow> (\<exists>rest. name = b @ rest \<and> (rest = [] \<or> hd rest = CHR '':'' \<or> hd rest = CHR ''/''))"

lemma owns_belongs: "owns_process name p \<longleftrightarrow> 3 \<le> length (pk_bundleId p) \<and> belongs name (pk_bundleId p)"
proof -
  have "(\<exists>rest. name = b @ rest \<and> rest \<noteq> [] \<and> hd rest = c) \<longleftrightarrow> starts_with (b @ [c]) name" for b c
    by (auto simp: starts_with_iff) (metis list.collapse)
  then show ?thesis unfolding owns_process_def belongs_def by (metis append_Nil2)
qed

text \<open>
  A process is resolved to a package that it belongs to, and to the one of its very name if there is
  one; a process that is not resolved has no name, is a kernel thread, or belongs to no package with an id
  of three or more characters.
\<close>

lemma process_resolved:
  "case resolveAndroidProcessPackage processName ps of
     None \<Rightarrow> trim processName = [] \<or> starts_with ''['' (trim processName)
       \<or> list_all (\<lambda>q. if 3 \<le> length (pk_bundleId q) then \<not> belongs (trim processName) (pk_bundleId q) else True) ps
   | Some p \<Rightarrow> p \<in> set ps \<and> belongs (trim processName) (pk_bundleId p)
       \<and> list_all (\<lambda>q. if pk_bundleId q = trim processName then pk_bundleId p = trim processName else True) ps"
proof -
  define name where "name = trim processName"
  have exact: "belongs name (pk_bundleId p)" if "by_id ps name = Some p" for p
    using by_id_facts(1) [OF that] by (simp add: belongs_def)
  have colon: "belongs name (pk_bundleId p)" if "index_of (CHR '':'') name = Some n" "by_id ps (take n name) = Some p" for n p
    using index_of_cut [OF that(1)] by_id_facts(1) [OF that(2)] unfolding belongs_def by (metis list.sel(1))
  show ?thesis
    using by_id_facts exact colon longest_match [of name ps] owns_belongs [of name]
    unfolding resolveAndroidProcessPackage_def name_def [symmetric] Let_def
    by (auto simp: list_all_iff split: option.splits if_splits)
qed

end
