(* ===== verification/EntityGraph.thy ===== *)
theory EntityGraph
  imports MplFacts
begin

text \<open>
  The entities of a case and their graph, \<open>src/mobipwn-web/src/lib/entityFilter.ts\<close> with the response type of
  \<open>cases.ts\<close>, and the texts, colours and search queries of an entity, \<open>entitySearch.ts\<close> and
  \<open>entityColors.ts\<close>. Risk scores, enrichment data and the anchor of a case pass through untouched: they are
  the fields of type \<open>'x\<close>.
\<close>

record 'x Entity =
  en_type :: string
  en_value :: string
  en_occurrences :: nat
  en_primary :: bool
  en_data :: 'x

record 'x EntityGroup =
  eg_type :: string
  eg_count :: nat
  eg_entities :: "'x Entity list"

record EntityNode =
  no_id :: string
  no_type :: string
  no_label :: string
  no_occurrences :: nat
  no_primary :: bool

record EntityEdge =
  ed_source :: string
  ed_target :: string
  ed_weight :: nat
  ed_relationship :: "string option"

record EntityNet =
  nt_nodes :: "EntityNode list"
  nt_edges :: "EntityEdge list"

record 'x CaseEntitiesResponse =
  ce_entities :: "'x EntityGroup list"
  ce_graph :: EntityNet
  ce_anchor :: 'x

section \<open>Filtering\<close>

definition entityNodeId :: "string \<Rightarrow> string \<Rightarrow> string" where
  "entityNodeId entityType val = entityType @ '':'' @ val"

text \<open>The two conditions of the filters; a missing set of types and an empty one let every type pass.\<close>

definition type_active :: "string set option \<Rightarrow> string \<Rightarrow> bool" where
  "type_active activeTypes t \<longleftrightarrow> (case activeTypes of None \<Rightarrow> True | Some ts \<Rightarrow> ts = {} \<or> t \<in> ts)"

definition entity_matches :: "string \<Rightarrow> 'x Entity \<Rightarrow> bool" where
  "entity_matches q e \<longleftrightarrow> \<not> (q \<noteq> [] \<and> \<not> contains q (to_lower (en_value e)))"

definition filter_groups :: "string \<Rightarrow> string set option \<Rightarrow> 'x EntityGroup list \<Rightarrow> 'x EntityGroup list" where
  "filter_groups q activeTypes gs =
     map (\<lambda>g. g\<lparr>eg_count := length (eg_entities g)\<rparr>)
       (filter (\<lambda>g. length (eg_entities g) > 0)
         (map (\<lambda>g. g\<lparr>eg_entities := filter (entity_matches q) (eg_entities g)\<rparr>)
           (filter (\<lambda>g. type_active activeTypes (eg_type g)) gs)))"

definition visible_ids :: "'x EntityGroup list \<Rightarrow> string list" where
  "visible_ids gs = concat (map (\<lambda>g. map (\<lambda>e. entityNodeId (eg_type g) (en_value e)) (eg_entities g)) gs)"

definition filterCaseEntities ::
  "'x CaseEntitiesResponse \<Rightarrow> string \<Rightarrow> string set option \<Rightarrow> 'x CaseEntitiesResponse" where
  "filterCaseEntities data query activeTypes =
     (let entities = filter_groups (to_lower (trim query)) activeTypes (ce_entities data);
          nodes = filter (\<lambda>n. no_id n \<in> set (visible_ids entities)) (nt_nodes (ce_graph data));
          nodeIds = set (map no_id nodes);
          edges = filter (\<lambda>e. ed_source e \<in> nodeIds \<and> ed_target e \<in> nodeIds) (nt_edges (ce_graph data))
      in data\<lparr>ce_entities := entities, ce_graph := \<lparr>nt_nodes = nodes, nt_edges = edges\<rparr>\<rparr>)"

fun neighbours :: "string \<Rightarrow> EntityEdge list \<Rightarrow> string set \<Rightarrow> string set" where
  "neighbours c [] out = out"
| "neighbours c (e # es) out =
     (let out1 = (if ed_source e = c then insert (ed_target e) out else out);
          out2 = (if ed_target e = c then insert (ed_source e) out1 else out1)
      in neighbours c es out2)"

definition connectedNodeIds :: "EntityNet \<Rightarrow> string option \<Rightarrow> string set" where
  "connectedNodeIds graph centerId =
     (case truthy centerId of None \<Rightarrow> {} | Some c \<Rightarrow> neighbours c (nt_edges graph) {c})"

record EntityStats =
  st_types :: nat
  st_entities :: nat
  st_occurrences :: nat
  st_relationships :: nat

definition entityStats :: "'x CaseEntitiesResponse \<Rightarrow> EntityStats" where
  "entityStats data =
     \<lparr>st_types = length (ce_entities data),
      st_entities = foldl (\<lambda>total g. total + length (eg_entities g)) 0 (ce_entities data),
      st_occurrences = foldl (\<lambda>total g. foldl (\<lambda>n e. n + en_occurrences e) total (eg_entities g)) 0 (ce_entities data),
      st_relationships = length (nt_edges (ce_graph data))\<rparr>"

section \<open>Texts\<close>

definition ENTITY_TYPE_LABELS :: "(string \<times> string) list" where
  "ENTITY_TYPE_LABELS = [(''user'', ''Users''), (''host'', ''Hosts''), (''bundle'', ''Installed packages''), (''ip'', ''IPs''),
     (''domain'', ''Domains''), (''hash'', ''Hashes''), (''url'', ''URLs''), (''file'', ''Files''),
     (''process'', ''Running processes''), (''email'', ''Emails''), (''bluetooth'', ''Bluetooth''), (''usb'', ''USB devices''),
     (''usb_port'', ''USB ports''), (''adb'', ''ADB / debugging''), (''ssid'', ''Wi'' @ nb_hyphen @ ''Fi''),
     (''account'', ''Accounts''), (''vpn'', ''VPN'')]"

definition RELATIONSHIP_LABELS :: "(string \<times> string) list" where
  "RELATIONSHIP_LABELS = [(''on_host'', ''On host''), (''network'', ''Network''), (''executed'', ''Executed''),
     (''accessed'', ''Accessed''), (''connected_to'', ''Connected to''), (''resolved_to'', ''Resolved to''),
     (''belongs_to'', ''Belongs to''), (''hash_of'', ''Hash of''), (''installed'', ''Installed''), (''related'', ''Related'')]"

definition ENTITY_TYPE_COLORS :: "(string \<times> string) list" where
  "ENTITY_TYPE_COLORS = [(''user'', ''#a855f7''), (''host'', ''#3b82f6''), (''bundle'', ''#ec4899''), (''ip'', ''#22c55e''),
     (''domain'', ''#f97316''), (''hash'', ''#94a3b8''), (''url'', ''#c084fc''), (''file'', ''#60a5fa''),
     (''process'', ''#4ade80''), (''email'', ''#fb923c'')]"

definition ENTITY_REL_COLORS :: "(string \<times> string) list" where
  "ENTITY_REL_COLORS = [(''on_host'', ''#3b82f6''), (''network'', ''#06b6d4''), (''executed'', ''#a855f7''),
     (''installed'', ''#ec4899''), (''accessed'', ''#60a5fa''), (''connected_to'', ''#22c55e''), (''resolved_to'', ''#f97316''),
     (''belongs_to'', ''#c084fc''), (''hash_of'', ''#94a3b8''), (''related'', ''#64748b'')]"

definition entityTypeColor :: "string \<Rightarrow> string" where
  "entityTypeColor entityType = get_or ''#64748b'' (map_of ENTITY_TYPE_COLORS entityType)"

definition entityRelColor :: "string \<Rightarrow> string" where
  "entityRelColor relationship = get_or ''#64748b'' (map_of ENTITY_REL_COLORS relationship)"

definition truncateLabel :: "string \<Rightarrow> nat \<Rightarrow> string" where
  "truncateLabel val limit =
     (if length val \<le> limit then val else (if limit = 0 then butlast val else take (limit - 1) val) @ ellipsis)"

section \<open>Search queries\<close>

definition escape_value :: "string \<Rightarrow> string" where
  "escape_value v = replace_char (CHR 0x22) [CHR 0x5C, CHR 0x22] (replace_char (CHR 0x5C) [CHR 0x5C, CHR 0x5C] v)"

definition entity_filter :: "string \<Rightarrow> string \<Rightarrow> string" where
  "entity_filter entityType escaped =
     (let eq = (\<lambda>k. k @ ''='' @ quoted escaped); text = ''message=*'' @ quoted escaped @ ''*'';
          by = (\<lambda>p. ''parser='' @ quoted p) in
      if entityType = ''user'' then eq ''user''
      else if entityType = ''host'' then eq ''device_id'' @ '' OR '' @ eq ''device_model''
      else if entityType = ''bundle'' then eq ''bundle_id''
      else if entityType = ''ip'' then eq ''dest_ip'' @ '' OR '' @ eq ''src_ip''
      else if entityType = ''domain'' then eq ''destination_domain''
      else if entityType = ''hash'' then eq ''file_hash''
      else if entityType = ''process'' then eq ''process_name''
      else if entityType = ''email'' then eq ''email''
      else if entityType = ''bluetooth''
        then by ''Bluetooth'' @ '' ('' @ eq ''device_id'' @ '' OR '' @ eq ''app_name'' @ '' OR '' @ text @ '')''
      else if entityType = ''usb''
        then ''('' @ by ''Usb'' @ '' OR '' @ by ''iousb'' @ '' OR '' @ by ''SamsungSfsLogs'' @ '') '' @ text
      else if entityType = ''usb_port''
        then by ''Usb'' @ '' (data_type=*'' @ quoted ''usb_port'' @ ''* OR message=*'' @ quoted ''USB port'' @ ''*) '' @ text
      else if entityType = ''adb'' then ''('' @ by ''Adb'' @ '' OR '' @ by ''SamsungSfsLogs'' @ '') '' @ text
      else if entityType = ''ssid'' then eq ''ssid''
      else if entityType = ''account''
        then by ''Account'' @ '' ('' @ eq ''app_name'' @ '' OR '' @ eq ''user'' @ '' OR '' @ text @ '')''
      else if entityType = ''vpn''
        then by ''Vpn'' @ '' ('' @ eq ''bundle_id'' @ '' OR '' @ eq ''app_name'' @ '' OR '' @ text @ '')''
      else quoted escaped)"

definition entitySearchQuery :: "string \<Rightarrow> string \<Rightarrow> string option \<Rightarrow> string" where
  "entitySearchQuery entityType val scope =
     (let q = entity_filter entityType (escape_value val)
      in case truthy scope of None \<Rightarrow> q | Some s \<Rightarrow> s @ '' | search '' @ q)"

end
