(* ===== verification/EntityFacts.thy ===== *)
theory EntityFacts
  imports EntityGraph
begin

text \<open>
  Theorems on the entities of a case: filtering keeps exactly what matches, with counts that agree and
  edges between shown nodes only, and filtering again changes nothing; the search of an entity asks for
  its value whatever characters it has.
\<close>

section \<open>Filtering\<close>

text \<open>The shown entities with the type of their group, in order.\<close>

definition shown :: "'x EntityGroup list \<Rightarrow> (string \<times> 'x Entity) list" where
  "shown gs = concat (map (\<lambda>g. map (Pair (eg_type g)) (eg_entities g)) gs)"

definition shown_id :: "string \<times> 'x Entity \<Rightarrow> string" where
  "shown_id = (\<lambda>(t, e). entityNodeId t (en_value e))"

lemma visible_shown: "visible_ids gs = map shown_id (shown gs)"
  by (induction gs) (simp_all add: visible_ids_def shown_def shown_id_def)

lemma shown_groups:
  "shown (filter_groups q types gs) = filter (\<lambda>(t, e). type_active types t \<and> entity_matches q e) (shown gs)"
proof (induction gs)
  case (Cons g gs)
  have "filter (\<lambda>(t, e). type_active types t \<and> entity_matches q e) (map (Pair (eg_type g)) (eg_entities g))
      = (if type_active types (eg_type g) then map (Pair (eg_type g)) (filter (entity_matches q) (eg_entities g)) else [])"
    by (simp add: filter_map o_def)
  with Cons show ?case by (simp add: filter_groups_def shown_def)
qed (simp add: filter_groups_def shown_def)

definition group_counted :: "'x EntityGroup \<Rightarrow> bool" where
  "group_counted g \<longleftrightarrow> eg_entities g \<noteq> [] \<and> eg_count g = length (eg_entities g)"

lemma groups_counted: "list_all group_counted (filter_groups q types gs)"
  by (simp add: filter_groups_def list_all_iff group_counted_def)

lemma filter_groups_idem: "filter_groups q types (filter_groups q types gs) = filter_groups q types gs"
proof -
  have "filter_groups q types hs = hs"
    if "list_all (\<lambda>g. type_active types (eg_type g) \<and> list_all (entity_matches q) (eg_entities g) \<and> group_counted g) hs" for hs
    using that by (induction hs) (auto simp: filter_groups_def group_counted_def list_all_iff filter_True)
  moreover have "list_all (\<lambda>g. type_active types (eg_type g) \<and> list_all (entity_matches q) (eg_entities g) \<and> group_counted g)
      (filter_groups q types gs)"
    by (auto simp: filter_groups_def list_all_iff group_counted_def)
  ultimately show ?thesis by blast
qed

definition net_closed :: "'x CaseEntitiesResponse \<Rightarrow> bool" where
  "net_closed d \<longleftrightarrow>
     list_all (\<lambda>n. no_id n \<in> set (map shown_id (shown (ce_entities d)))) (nt_nodes (ce_graph d))
     \<and> list_all (\<lambda>e. ed_source e \<in> set (map no_id (nt_nodes (ce_graph d))) \<and> ed_target e \<in> set (map no_id (nt_nodes (ce_graph d))))
         (nt_edges (ce_graph d))"

lemma filter_closed: "net_closed (filterCaseEntities d query types)"
  by (simp add: net_closed_def filterCaseEntities_def Let_def list_all_iff visible_shown)

lemma filter_idem: "filterCaseEntities (filterCaseEntities d query types) query types = filterCaseEntities d query types"
proof -
  let ?gs = "filter_groups (to_lower (trim query)) types (ce_entities d)"
  let ?nodes = "filter (\<lambda>n. no_id n \<in> set (visible_ids ?gs)) (nt_nodes (ce_graph d))"
  have again: "filter P (filter P xs) = filter P xs" for P and xs :: "'b list" by (simp add: filter_True)
  show ?thesis
    by (simp add: filterCaseEntities_def Let_def filter_groups_idem again del: filter_filter)
qed

lemma stats_of:
  "entityStats d =
     \<lparr>st_types = length (ce_entities d), st_entities = length (shown (ce_entities d)),
      st_occurrences = (\<Sum>(t, e)\<leftarrow>shown (ce_entities d). en_occurrences e), st_relationships = length (nt_edges (ce_graph d))\<rparr>"
proof -
  have inner: "foldl (\<lambda>n e. n + en_occurrences e) k es = k + sum_list (map en_occurrences es)" for k and es :: "'a Entity list"
    by (induction es arbitrary: k) simp_all
  have "foldl (\<lambda>n g. n + length (eg_entities g)) k gs = k + length (shown gs)"
      and "foldl (\<lambda>k g. foldl (\<lambda>n e. n + en_occurrences e) k (eg_entities g)) k gs
        = k + (\<Sum>(t, e)\<leftarrow>shown gs. en_occurrences e)" for k and gs :: "'a EntityGroup list"
    by (induction gs arbitrary: k) (simp_all add: shown_def inner o_def)
  then show ?thesis by (simp add: entityStats_def)
qed

text \<open>
  C26: Filtering shows exactly the entities of an active type that contain the text looked for, in their
  order, under counts that agree with the statistics and without empty groups; every node shown is an
  entity shown, every edge joins two nodes shown; and filtering what was filtered changes nothing.
\<close>

theorem entities_filtered:
  "let q = to_lower (trim query); f = filterCaseEntities data query types in
     shown (ce_entities f)
       = filter (\<lambda>(t, e). type_active types t \<and> (q = [] \<or> contains q (to_lower (en_value e)))) (shown (ce_entities data))
     \<and> list_all group_counted (ce_entities f)
     \<and> st_entities (entityStats f) = sum_list (map eg_count (ce_entities f))
     \<and> net_closed f
     \<and> filterCaseEntities f query types = f"
proof -
  define q where "q = to_lower (trim query)"
  define f where "f = filterCaseEntities data query types"
  have groups: "ce_entities f = filter_groups q types (ce_entities data)"
    by (simp add: f_def q_def filterCaseEntities_def Let_def)
  have counted: "list_all group_counted (ce_entities f)" unfolding groups by (rule groups_counted)
  have "length (shown gs) = sum_list (map eg_count gs)" if "list_all group_counted gs" for gs :: "'a EntityGroup list"
    using that by (induction gs) (simp_all add: shown_def group_counted_def)
  then have "st_entities (entityStats f) = sum_list (map eg_count (ce_entities f))"
    using counted by (simp add: stats_of)
  moreover have "shown (ce_entities f)
      = filter (\<lambda>(t, e). type_active types t \<and> (q = [] \<or> contains q (to_lower (en_value e)))) (shown (ce_entities data))"
    unfolding groups shown_groups entity_matches_def by (rule arg_cong2 [where f = filter]) auto
  ultimately show ?thesis
    using counted filter_closed [of data query types] filter_idem [of data query types]
    by (simp add: Let_def q_def [symmetric] f_def [symmetric])
qed

section \<open>Neighbours\<close>

lemma neighbours_set:
  "neighbours c es out = out \<union> {ed_target e | e. e \<in> set es \<and> ed_source e = c} \<union> {ed_source e | e. e \<in> set es \<and> ed_target e = c}"
  by (induction c es out rule: neighbours.induct) (auto simp: Let_def)

lemma connected_iff:
  "b \<in> connectedNodeIds graph (Some a) \<longleftrightarrow>
     a \<noteq> [] \<and> (b = a \<or> (\<exists>e \<in> set (nt_edges graph). {ed_source e, ed_target e} = {a, b}))"
  by (cases "a = []") (auto simp: connectedNodeIds_def truthy_def neighbours_set doubleton_eq_iff split: list.splits)

lemma connected_sym:
  "a \<noteq> [] \<Longrightarrow> b \<noteq> [] \<Longrightarrow> b \<in> connectedNodeIds graph (Some a) \<longleftrightarrow> a \<in> connectedNodeIds graph (Some b)"
  unfolding connected_iff by (auto simp: insert_commute)

section \<open>Searches\<close>

interpretation entity: mpl_escaper escape_value
  by unfold_locales (simp add: escape_value_def escapeMplString_map [unfolded escapeMplString_def] read_escaped)

text \<open>A query as a reader of mPL takes it: string literals by their values, and what stands around them.\<close>

datatype part = Plain char | Literal string | Unclosed

lemma read_literal_shorter: "read_literal s = Some (v, r) \<Longrightarrow> length r < length s"
  by (induction s arbitrary: v rule: read_literal.induct) (fastforce split: if_splits list.splits)+

function read_parts :: "string \<Rightarrow> part list" where
  "read_parts [] = []"
| "read_parts (c # s) =
     (if c = CHR 0x22 then (case read_literal s of None \<Rightarrow> [Unclosed] | Some (v, r) \<Rightarrow> Literal v # read_parts r)
      else Plain c # read_parts s)"
  by pat_completeness auto
termination
  by (relation "measure length") (auto dest: read_literal_shorter)

lemma read_value_end: "read_literal (escape_value v @ [CHR 0x22]) = Some (v, [])"
  by (rule entity.read_esc)

text \<open>The empty literals of a query filled with a value.\<close>

definition fill :: "string \<Rightarrow> part \<Rightarrow> part" where
  "fill v p = (if p = Literal [] then Literal v else p)"

definition filled_query :: "string \<Rightarrow> string \<Rightarrow> string \<Rightarrow> bool" where
  "filled_query v s t \<longleftrightarrow> read_parts t = map (fill v) (read_parts s) \<and> Literal v \<in> set (read_parts t)"

lemma filled_if: "filled_query v a b \<Longrightarrow> filled_query v a' b' \<Longrightarrow> filled_query v (if c then a else a') (if c then b else b')"
  by simp

lemma filter_filled:
  "filled_query v (entity_filter entityType (escape_value [])) (entity_filter entityType (escape_value v))"
  unfolding entity_filter_def Let_def
  by (intro filled_if; simp add: filled_query_def quoted_def entity.read_esc read_value_end fill_def)

text \<open>
  The search for an entity reads as a text that its type fixes, with literals for the value: whatever
  characters the value has, it is asked for, it cannot end its literal, and nothing else depends on it. A
  scope goes before it as a search stage of its own.
\<close>

theorem entity_query_reads_back:
  "read_parts (entitySearchQuery entityType val None)
     = map (fill val) (read_parts (entitySearchQuery entityType [] None))
   \<and> Literal val \<in> set (read_parts (entitySearchQuery entityType val None))
   \<and> entitySearchQuery entityType val (Some scope)
     = (if scope = [] then [] else scope @ '' | search '') @ entitySearchQuery entityType val None"
  using filter_filled [of val entityType]
  unfolding filled_query_def by (auto simp: entitySearchQuery_def truthy_def simp del: set_map split: list.splits)

end
