(* ===== verification/MobileInstall.thy ===== *)
theory MobileInstall
  imports PackageSnapshot
begin

text \<open>
  What was installed and deleted: \<open>src/mobipwn-web/src/lib/mobileInstallTimeline.ts\<close> for iOS,
  \<open>apkDaily.ts\<close> for Android. \<open>toISOString\<close> throws on a date that is out of range, which ends the whole
  list; events are therefore read into a sum.
\<close>

datatype MobileInstallKind = Mi_installed | Mi_deleted | Mi_other

record MobileInstallEvent =
  mi_key :: string
  mi_kind :: MobileInstallKind
  mi_bundleId :: string
  mi_label :: string
  mi_version :: string
  mi_timestamp :: string
  mi_timestampMs :: int
  mi_message :: string
  mi_parser :: string

section \<open>Rows of iOS\<close>

definition DELETE_RE :: regex where
  "DELETE_RE = Seqs [WordB,
     Alts [Seq (LitI ''uninstall'') (Opt (Alt (LitI ''ed'') (LitI ''ing''))),
           Seq (LitI ''remov'') (Alts [LitI ''e'', LitI ''ed'', LitI ''ing'']),
           Seq (LitI ''destroy'') (Opt (Alt (LitI ''ed'') (LitI ''ing''))),
           Seq (LitI ''delet'') (Alts [LitI ''e'', LitI ''ed'', LitI ''ing'']),
           Seq (LitI ''purge'') (Opt (LitI ''d'')),
           Seq (LitI ''wipe'') (Opt (One_of_I ''sd''))], WordB]"

definition INSTALL_RE :: regex where
  "INSTALL_RE = Seqs [WordB,
     Alts [LitI ''staging'', LitI ''miinstallable'', LitI ''installable'',
           Seq (LitI ''install'') (Opt (Alt (LitI ''ed'') (LitI ''ing''))),
           Seqs [LitI ''create'', Opt (LitI ''d''), Plus Space, LitI ''staging''],
           Seqs [LitI ''successfully'', Plus Space, LitI ''installed'']], WordB]"

text \<open>\<open>ts.replace(" ", "T")\<close>: the first one.\<close>

fun space_to_T :: "string \<Rightarrow> string" where
  "space_to_T [] = []"
| "space_to_T (c # s) = (if c = CHR '' '' then CHR ''T'' # s else c # space_to_T s)"

definition rowTimeMs :: "Dates \<Rightarrow> Row \<Rightarrow> int" where
  "rowTimeMs D row =
     (let datetime = strField row ''datetime''; ts = strField row ''timestamp'';
          by_number = (case js_number ts of
              Some n \<Rightarrow> (if n > 0 then (if n > 100000000000000 then n div 1000 else n) else 0) | None \<Rightarrow> 0);
          by_text = (if ts = [] then 0
            else case date_parse D (if contains ''T'' ts then ts
                else space_to_T ts @ (if ends_with ''Z'' ts then [] else ''Z'')) of
              Some t \<Rightarrow> t | None \<Rightarrow> by_number)
      in case (if datetime \<noteq> [] then date_parse D datetime else None) of Some t \<Rightarrow> t | None \<Rightarrow> by_text)"

definition looksLikeAppVersion_mi :: "string \<Rightarrow> bool" where
  "looksLikeAppVersion_mi val \<longleftrightarrow>
     (let v = trim val in
      v \<noteq> [] \<and> length v \<le> 64 \<and> list_ex is_digit v
      \<and> \<not> list_ex (\<lambda>c. is_space c \<or> c = CHR ''/'' \<or> c = CHR 0x5C) v)"

definition pick_mi :: "string \<Rightarrow> regex \<Rightarrow> string" where
  "pick_mi message r =
     (let cleaned = trim (strip_marks (trim (first_group r message))) in if looksLikeAppVersion_mi cleaned then cleaned else [])"

text \<open>\<open>{ version, versionCode }\<close>\<close>

definition parseMiVersions :: "string \<Rightarrow> string \<times> string" where
  "parseMiVersions message =
     (or_str (pick_mi message short_re) (pick_mi message bundle_short_re),
      or_str (pick_mi message version_re) (pick_mi message bundle_version_re))"

definition classifyMessage :: "string \<Rightarrow> string \<Rightarrow> MobileInstallKind" where
  "classifyMessage message action =
     (let hay = action @ '' '' @ message in
      if test DELETE_RE hay then Mi_deleted else if test INSTALL_RE hay then Mi_installed else Mi_other)"

definition bundleLabel :: "string \<Rightarrow> string" where
  "bundleLabel bundleId =
     (let parts = split_char (CHR ''.'') bundleId in
      if bundleId = [] then ''Unknown app'' else if length parts \<ge> 2 then join ''.'' (last_parts 2 parts) else bundleId)"

definition app_info_re :: regex where
  "app_info_re = Seqs [LitI ''app'', Star Space, LitI ''info'']"

definition deleted_re :: regex where
  "deleted_re = Seqs [WordB, LitI ''deleted'', WordB]"

definition not_deleted_in_re :: regex where
  "not_deleted_in_re = Seqs [LitI ''not'', Plus Space, LitI ''deleted'']"

text \<open>Kind and version of a row; \<open>None\<close> where the loop continues.\<close>

definition install_kind :: "Row \<Rightarrow> (MobileInstallKind \<times> string) option" where
  "install_kind row =
     (let parser = strField row ''parser''; message = strField row ''message'';
          action = or_str (strField row ''action'') (strField row ''event_type'');
          stamped = or_str (strField row ''short_version'') (strField row ''CFBundleShortVersionString'');
          stampedCode = or_str (strField row ''version'') (strField row ''CFBundleVersion'');
          mi = parseMiVersions message;
          kind = classifyMessage message action
      in if parser = ''mobileinstallation''
         then (if kind = Mi_other then None
               else Some (kind, or_texts [if looksLikeAppVersion_mi stamped then stamped else [], fst mi,
                 if looksLikeAppVersion_mi stampedCode then stampedCode else [], snd mi]))
         else if parser = ''powerlogs'' \<and> test app_info_re message
         then (if test deleted_re message \<and> \<not> test not_deleted_in_re message then Some (Mi_deleted, []) else None)
         else None)"

datatype DateError = Invalid_time_value

definition toISOString :: "Dates \<Rightarrow> int \<Rightarrow> DateError + string" where
  "toISOString D ms = (if valid_ms ms then Inr (iso_text D ms) else Inl Invalid_time_value)"

definition kind_text :: "MobileInstallKind \<Rightarrow> string" where
  "kind_text k = (case k of Mi_installed \<Rightarrow> ''installed'' | Mi_deleted \<Rightarrow> ''deleted'' | Mi_other \<Rightarrow> ''other'')"

definition install_event ::
  "Dates \<Rightarrow> Row \<Rightarrow> MobileInstallKind \<Rightarrow> string \<Rightarrow> DateError + MobileInstallEvent" where
  "install_event D row kind version =
     (let bundleId = strField row ''bundle_id''; message = strField row ''message''; timestampMs = rowTimeMs D row;
          event = (\<lambda>shown. \<lparr>mi_key = kind_text kind @ ''|'' @ bundleId @ ''|'' @ int_str timestampMs @ ''|'' @ take 48 message,
            mi_kind = kind, mi_bundleId = bundleId, mi_label = bundleLabel bundleId, mi_version = version,
            mi_timestamp = shown, mi_timestampMs = timestampMs, mi_message = message,
            mi_parser = or_str (strField row ''parser'') ''mobileinstallation''\<rparr>)
      in if timestampMs > 0
         then (case toISOString D timestampMs of Inl err \<Rightarrow> Inl err | Inr text \<Rightarrow> Inr (event (formatWallTimestamp D text)))
         else Inr (event []))"

fun install_events :: "Dates \<Rightarrow> Row list \<Rightarrow> DateError + MobileInstallEvent list" where
  "install_events D [] = Inr []"
| "install_events D (row # rows) =
     (case (if strField row ''bundle_id'' = [] then None else install_kind row) of
        None \<Rightarrow> install_events D rows
      | Some (kind, version) \<Rightarrow>
          (case install_event D row kind version of
             Inl err \<Rightarrow> Inl err
           | Inr ev \<Rightarrow> map_sum id ((#) ev) (install_events D rows)))"

definition compare_install_events ::
  "(string \<Rightarrow> string \<Rightarrow> int) \<Rightarrow> MobileInstallEvent \<Rightarrow> MobileInstallEvent \<Rightarrow> int" where
  "compare_install_events compare a b =
     then_by (mi_timestampMs b - mi_timestampMs a) (compare (mi_bundleId a) (mi_bundleId b))"

definition mobileInstallEvents ::
  "Dates \<Rightarrow> (string \<Rightarrow> string \<Rightarrow> int) \<Rightarrow> Row list \<Rightarrow> nat \<Rightarrow> DateError + MobileInstallEvent list" where
  "mobileInstallEvents D compare rows limit =
     map_sum id (\<lambda>evs. take limit (js_sort (compare_install_events compare) evs)) (install_events D rows)"

definition mobileInstallSearchQuery :: "string \<Rightarrow> string \<Rightarrow> string" where
  "mobileInstallSearchQuery bundleId scope =
     scope @ '' parser='' @ quoted ''mobileinstallation'' @ '' bundle_id=''
       @ quoted (replace_char (CHR 0x22) [CHR 0x5C, CHR 0x22] bundleId) @ '' | sort -timestamp | head 40''"

section \<open>Daily package changes of Android\<close>

datatype ApkDailyAction = Downgrade | Uninstall | Update

record ApkDailyEvent =
  ad_packageName :: string
  ad_action :: ApkDailyAction
  ad_vers :: string
  ad_previousVers :: string
  ad_from :: string
  ad_to :: string
  ad_message :: string
  ad_timestamp :: string

definition str_value :: "Json option \<Rightarrow> string" where
  "str_value v = (case present v of None \<Rightarrow> [] | Some w \<Rightarrow> trim (js_text w))"

definition classifyAction :: "string \<Rightarrow> string \<Rightarrow> string \<Rightarrow> ApkDailyAction" where
  "classifyAction raw dataType message =
     (let a = to_lower raw; dt = to_lower dataType; msg = to_lower message in
      if a = ''downgrade'' \<or> contains ''downgrade'' dt \<or> contains ''apk downgrade'' msg then Downgrade
      else if a = ''uninstall'' \<or> contains ''uninstall'' dt \<or> contains ''vers=0'' msg then Uninstall
      else Update)"

definition parseApkDailyEvent :: "JsonParse \<Rightarrow> Row \<Rightarrow> ApkDailyEvent option" where
  "parseApkDailyEvent parse row =
     (let ext = parseExt parse row;
          of_row = (\<lambda>k. str_value (map_of row k)); of_ext = (\<lambda>k. str_value (map_of ext k));
          dataType = of_row ''data_type''; message = of_row ''message'';
          battery = to_lower (of_row ''parser'') = ''battery'';
          packageName = or_texts [of_row ''bundle_id'', of_ext ''package_name'', of_ext ''pkg''];
          action = classifyAction (or_str (of_row ''action'') (of_ext ''action'')) dataType message;
          vers = or_str (of_ext ''vers'') (of_row ''vers'');
          from = or_str (of_ext ''daily_from'') (of_ext ''from'')
      in if \<not> contains ''battery_daily'' dataType \<and> \<not> battery \<and> \<not> contains ''battery daily'' (to_lower message)
            \<and> \<not> battery then None
         else if packageName = [] \<and> message = [] then None
         else if \<not> contains ''battery_daily'' dataType \<and> action = Update \<and> vers = [] \<and> \<not> contains ''apk '' (to_lower message)
         then None
         else Some \<lparr>ad_packageName = or_str packageName em_dash, ad_action = action, ad_vers = vers,
           ad_previousVers = or_str (of_ext ''previous_vers'') (of_ext ''previousVers''), ad_from = from,
           ad_to = or_str (of_ext ''daily_to'') (of_ext ''to''), ad_message = message,
           ad_timestamp = or_texts [of_row ''timestamp'', of_row ''datetime'', from]\<rparr>)"

definition rank :: "ApkDailyAction \<Rightarrow> int" where
  "rank a = (case a of Downgrade \<Rightarrow> 0 | Uninstall \<Rightarrow> 1 | Update \<Rightarrow> 2)"

definition compare_apk_events :: "(string \<Rightarrow> string \<Rightarrow> int) \<Rightarrow> ApkDailyEvent \<Rightarrow> ApkDailyEvent \<Rightarrow> int" where
  "compare_apk_events compare a b =
     (let r = rank (ad_action a) - rank (ad_action b) in
      if r \<noteq> 0 then r else then_by (compare (ad_from b) (ad_from a)) (compare (ad_timestamp b) (ad_timestamp a)))"

definition apkDailyEvents ::
  "JsonParse \<Rightarrow> (string \<Rightarrow> string \<Rightarrow> int) \<Rightarrow> Row list \<Rightarrow> int \<Rightarrow> ApkDailyAction list option \<Rightarrow> ApkDailyEvent list" where
  "apkDailyEvents parse compare rows limit actions =
     (let allow = set (get_or [Downgrade, Uninstall, Update] actions);
          out = filter (\<lambda>ev. ad_action ev \<in> allow) (List.map_filter (parseApkDailyEvent parse) rows);
          sorted = js_sort (compare_apk_events compare) out
      in if limit > 0 then take (nat limit) sorted else sorted)"

definition apkDailyQuery :: "string \<Rightarrow> string" where
  "apkDailyQuery source =
     ''source='' @ quoted (escapeMplString source) @ '' parser='' @ quoted ''Battery'' @
     '' (data_type=*battery_daily* OR action='' @ quoted ''downgrade'' @ '' OR action='' @ quoted ''uninstall'' @ '' OR message=*APK*) ''
     @ ''| fields timestamp, datetime, bundle_id, action, message, data_type, ext '' @ ''| sort -timestamp | head 200''"

definition apkDailySearchQuery :: "string \<Rightarrow> ApkDailyEvent option \<Rightarrow> string" where
  "apkDailySearchQuery scope ev =
     (let all = scope @ '' parser='' @ quoted ''Battery'' @ '' (data_type=*battery_daily_downgrade* OR action='' @ quoted ''downgrade'' @ '')''
      in case ev of
           None \<Rightarrow> all
         | Some e \<Rightarrow>
             (if ad_packageName e \<noteq> [] \<and> ad_packageName e \<noteq> em_dash
              then scope @ '' parser='' @ quoted ''Battery'' @ '' bundle_id='' @ quoted (escapeMplString (ad_packageName e))
              else all))"

end
