(* ===== verification/InstallFacts.thy ===== *)
theory InstallFacts
  imports MobileInstall
begin

text \<open>
  Theorems on \<open>mobileInstallTimeline.ts\<close> and \<open>apkDaily.ts\<close>: the list of installations fails exactly on
  a time that no date has, and holds every event newest first otherwise; the changes of packages are
  ranked with downgrades first.
\<close>

section \<open>Installations\<close>

text \<open>What a row contributes, and whether its time is no date.\<close>

definition install_row :: "Row \<Rightarrow> (MobileInstallKind \<times> string) option" where
  "install_row row = (if strField row ''bundle_id'' = [] then None else install_kind row)"

definition bad_time :: "Dates \<Rightarrow> Row \<Rightarrow> bool" where
  "bad_time D row \<longleftrightarrow> install_row row \<noteq> None \<and> rowTimeMs D row > 0 \<and> \<not> valid_ms (rowTimeMs D row)"

definition event_of_row :: "Dates \<Rightarrow> Row \<Rightarrow> MobileInstallEvent option" where
  "event_of_row D row =
     (case install_row row of None \<Rightarrow> None
      | Some (kind, version) \<Rightarrow> (case install_event D row kind version of Inl e \<Rightarrow> None | Inr ev \<Rightarrow> Some ev))"

lemma install_event_fails: "(\<exists>e. install_event D row kind version = Inl e) \<longleftrightarrow> rowTimeMs D row > 0 \<and> \<not> valid_ms (rowTimeMs D row)"
  by (auto simp: install_event_def toISOString_def Let_def)

lemma install_events_Cons:
  "install_events D (row # rows) =
     (case install_row row of None \<Rightarrow> install_events D rows
      | Some (kind, version) \<Rightarrow>
          (case install_event D row kind version of
             Inl err \<Rightarrow> Inl err | Inr ev \<Rightarrow> map_sum id ((#) ev) (install_events D rows)))"
  by (simp add: install_row_def)

lemma row_skipped: "install_row row = None \<Longrightarrow> \<not> bad_time D row \<and> event_of_row D row = None"
  by (simp add: bad_time_def event_of_row_def)

lemma row_listed:
  "install_row row = Some (kind, version) \<Longrightarrow>
     (case install_event D row kind version of
        Inl e \<Rightarrow> bad_time D row | Inr ev \<Rightarrow> \<not> bad_time D row \<and> event_of_row D row = Some ev)"
  using install_event_fails [of D row kind version] by (auto simp: bad_time_def event_of_row_def split: sum.splits)

lemma install_events_cases:
  "install_events D rows =
     (if list_ex (bad_time D) rows then Inl Invalid_time_value else Inr (List.map_filter (event_of_row D) rows))"
proof (induction rows)
  case (Cons row rows)
  have err: "e = Invalid_time_value" for e by (cases e)
  show ?case
  proof (cases "install_row row")
    case None
    with Cons row_skipped [OF None, of D] show ?thesis
      by (simp add: install_events_Cons List.map_filter_simps del: install_events.simps)
  next
    case (Some kv)
    obtain kind version where kv: "kv = (kind, version)" by (cases kv)
    show ?thesis
      using Some kv Cons row_listed [of row kind version D] err
      by (cases "install_event D row kind version")
        (auto simp: install_events_Cons List.map_filter_simps simp del: install_events.simps)
  qed
qed (simp add: List.map_filter_simps)

lemma comparator_install:
  assumes "comparator compare"
  shows "comparator (compare_install_events compare)"
proof (rule comparator_same)
  show "comparator (\<lambda>a b. then_by (num_cmp (- mi_timestampMs a) (- mi_timestampMs b)) (compare (mi_bundleId a) (mi_bundleId b)))"
    using comparator_on [OF assms] by (rule comparator_then)
  show "compare_install_events compare a b \<le> 0 \<longleftrightarrow>
      then_by (num_cmp (- mi_timestampMs a) (- mi_timestampMs b)) (compare (mi_bundleId a) (mi_bundleId b)) \<le> 0" for a b
    using then_by_diff [of "- mi_timestampMs a" "- mi_timestampMs b"] by (simp add: compare_install_events_def)
qed

text \<open>
  C27: The timeline fails exactly when a row that it would show has a time beyond the range of dates;
  otherwise it holds the events of all rows that tell of an installation or a deletion, the latest first,
  of which the limit keeps the first.
\<close>

theorem install_timeline:
  assumes "comparator compare"
  shows
    "case mobileInstallEvents D compare rows limit of
       Inl e \<Rightarrow> list_ex (bad_time D) rows
     | Inr evs \<Rightarrow> \<not> list_ex (bad_time D) rows
         \<and> (\<exists>all. mset all = mset (List.map_filter (event_of_row D) rows)
              \<and> sorted_wrt (\<lambda>a b. mi_timestampMs b \<le> mi_timestampMs a) all \<and> evs = take limit all)"
proof -
  let ?all = "js_sort (compare_install_events compare) (List.map_filter (event_of_row D) rows)"
  have "sorted_wrt (\<lambda>a b. compare_install_events compare a b \<le> 0) ?all"
    by (rule comparator.ordered_sort [OF comparator_install [OF assms]])
  then have "sorted_wrt (\<lambda>a b. mi_timestampMs b \<le> mi_timestampMs a) ?all"
    by (rule sorted_wrt_mono_rel [rotated]) (auto simp: compare_install_events_def then_by_def split: if_splits)
  then show ?thesis
    by (auto simp: mobileInstallEvents_def install_events_cases intro!: exI [of _ ?all])
qed

text \<open>A row of a deletion, and one whose time is beyond all dates.\<close>

definition deletion_row :: Row where
  "deletion_row = [(''parser'', JStr ''mobileinstallation''), (''bundle_id'', JStr ''com.a.app''), (''message'', JStr ''wiped'')]"

definition endless_row :: Row where
  "endless_row = deletion_row @ [(''timestamp'', JStr ''99999999999999999999'')]"

lemma wiped_deleted: "classifyMessage ''wiped'' [] = Mi_deleted"
proof -
  have "test DELETE_RE '' wiped''" by code_simp
  then show ?thesis by (simp add: classifyMessage_def)
qed

lemma sample_install_rows: "install_row endless_row \<noteq> None"
proof -
  have "map (strField endless_row) [''parser'', ''message'', ''action'', ''event_type'', ''bundle_id'']
      = [''mobileinstallation'', ''wiped'', [], [], ''com.a.app'']"
    by code_simp
  then show ?thesis by (simp add: install_row_def install_kind_def Let_def or_str_def wiped_deleted)
qed

lemma endless_time:
  assumes "date_parse D = (\<lambda>s. None)"
  shows "rowTimeMs D endless_row = 99999999999999999"
proof -
  have "strField endless_row ''datetime'' = []" "strField endless_row ''timestamp'' = ''99999999999999999999''"
    by code_simp+
  moreover have "js_number ''99999999999999999999'' = Some 99999999999999999999"
    by (simp add: js_number_def trim_def trim_start_def trim_end_def is_space_def digits_only_def is_digit_def code_def
        digits_val_def digit_val_def)
  ultimately show ?thesis using assms by (simp add: rowTimeMs_def)
qed

definition dateless :: Dates where
  "dateless = \<lparr>date_parse = \<lambda>s. None, full_year = \<lambda>d. 2024, locale_text = int_str, iso_text = int_str, now_ms = 0\<rparr>"

theorem install_timeline_witness:
  "\<exists>e. mobileInstallEvents dateless (\<lambda>a b. num_cmp (collate a) (collate b)) [deletion_row, endless_row] 200 = Inl e"
proof -
  have "bad_time dateless endless_row"
    using sample_install_rows by (simp add: bad_time_def endless_time dateless_def valid_ms_def)
  then show ?thesis
    using install_timeline [OF collation.comparator_axioms, of dateless "[deletion_row, endless_row]" 200]
    by (simp split: sum.splits)
qed

text \<open>The search for a bundle escapes quotes only, so one that ends in a backslash is not closed.\<close>

lemma install_search_unclosed:
  "mobileInstallSearchQuery [CHR ''a'', CHR 0x5C] ''s''
     = ''s parser='' @ quoted ''mobileinstallation'' @ '' bundle_id='' @ [CHR 0x22, CHR ''a'', CHR 0x5C, CHR 0x22]
         @ '' | sort -timestamp | head 40''
   \<and> read_literal ([CHR ''a'', CHR 0x5C, CHR 0x22] @ '' | sort -timestamp | head 40'') = None"
  by code_simp

section \<open>Changes of packages\<close>

lemma comparator_apk:
  assumes "collator compare"
  shows "comparator (compare_apk_events compare)"
proof -
  have flip: "collator (\<lambda>a b. compare b a)"
    using assms unfolding collator_def collator_axioms_def comparator_def by (metis add.inverse_inverse)
  have "comparator (\<lambda>a b. then_by (compare (ad_from b) (ad_from a)) (compare (ad_timestamp b) (ad_timestamp a)))"
    using comparator_lex [OF collator_on [OF flip, of ad_from] comparator_on [of "\<lambda>a b. compare b a" ad_timestamp]] flip
    by (simp add: collator.axioms)
  then have "comparator (\<lambda>a b. then_by (num_cmp (rank (ad_action a)) (rank (ad_action b)))
      (then_by (compare (ad_from b) (ad_from a)) (compare (ad_timestamp b) (ad_timestamp a))))"
    by (rule comparator_then)
  then show ?thesis
  proof (rule comparator_same)
    fix a b
    show "compare_apk_events compare a b \<le> 0 \<longleftrightarrow>
        then_by (num_cmp (rank (ad_action a)) (rank (ad_action b)))
          (then_by (compare (ad_from b) (ad_from a)) (compare (ad_timestamp b) (ad_timestamp a))) \<le> 0"
      unfolding then_by_le by (auto simp: compare_apk_events_def Let_def)
  qed
qed

text \<open>
  The changes are those of the allowed kinds that any row tells, the most serious first, of which a
  positive limit keeps the first.
\<close>

theorem apk_changes_ranked:
  assumes "collator compare"
  shows
    "let evs = apkDailyEvents parse compare rows 0 actions in
       mset evs = {#ev \<in># mset (List.map_filter (parseApkDailyEvent parse) rows).
         ad_action ev \<in> set (get_or [Downgrade, Uninstall, Update] actions)#}
       \<and> sorted (map (rank \<circ> ad_action) evs)
       \<and> (limit > 0 \<longrightarrow> apkDailyEvents parse compare rows limit actions = take (nat limit) evs)"
proof -
  let ?out = "filter (\<lambda>ev. ad_action ev \<in> set (get_or [Downgrade, Uninstall, Update] actions))
    (List.map_filter (parseApkDailyEvent parse) rows)"
  have "sorted_wrt (\<lambda>a b. compare_apk_events compare a b \<le> 0) (js_sort (compare_apk_events compare) ?out)"
    by (rule comparator.ordered_sort [OF comparator_apk [OF assms]])
  then have "sorted_wrt (\<lambda>a b. rank (ad_action a) \<le> rank (ad_action b)) (js_sort (compare_apk_events compare) ?out)"
    by (rule sorted_wrt_mono_rel [rotated]) (auto simp: compare_apk_events_def Let_def split: if_splits)
  then show ?thesis by (simp add: apkDailyEvents_def Let_def sorted_map o_def)
qed

end
