(* ===== verification/Tally.thy ===== *)
theory Tally
  imports Grouping Ordering
begin

text \<open>
  Counting values in a \<open>Map\<close>, \<open>m.set(k, (m.get(k) ?? 0) + 1)\<close> in a loop, and the most frequent of them,
  as several summaries of the client do.
\<close>

definition tally :: "'a list \<Rightarrow> ('a \<times> nat) list" where
  "tally xs = group_rows Some (\<lambda>x. 1) (\<lambda>n x. Suc n) xs"

definition by_count :: "'a \<times> nat \<Rightarrow> 'a \<times> nat \<Rightarrow> int" where
  "by_count a b = int (snd b) - int (snd a)"

definition most_frequent :: "nat \<Rightarrow> 'a list \<Rightarrow> ('a \<times> nat) list" where
  "most_frequent n xs = take n (js_sort by_count (tally xs))"

interpretation counts: comparator by_count
  by unfold_locales (auto simp: by_count_def)

lemma tally_member: "(x, n) \<in> set (tally xs) \<longleftrightarrow> n = count_list xs x \<and> n > 0"
proof -
  have "group_of Some (\<lambda>x. 1) (\<lambda>n x. Suc n) xs k = (if count_list xs k = 0 then None else Some (count_list xs k))" for k
  proof -
    have "foldl (\<lambda>n x. Suc n) m ys = m + length ys" for m and ys :: "'a list"
      by (induction ys arbitrary: m) simp_all
    moreover have "length (filter (\<lambda>x. x = k) xs) = count_list xs k" by (induction xs) simp_all
    ultimately show ?thesis by (auto simp: group_of_def split: list.splits)
  qed
  then show ?thesis unfolding tally_def group_rows_member by auto
qed

lemma tally_distinct: "distinct (map fst (tally xs))"
  unfolding tally_def by (rule group_rows_distinct)

lemma tally_keys: "fst ` set (tally xs) = set xs"
  unfolding tally_def group_rows_keys by auto

interpretation tallied: additive_group "\<lambda>x. 1 :: nat" "\<lambda>n x. Suc n" int "\<lambda>x. 1"
  by unfold_locales auto

lemma tally_total: "(\<Sum>p\<leftarrow>tally xs. snd p) = length xs"
proof -
  have "int (\<Sum>p\<leftarrow>tally xs. snd p) = int (length xs)"
    using tallied.total [of Some xs] by (simp add: tally_def int_sum o_def sum_list_triv)
  then show ?thesis by simp
qed

text \<open>What the most frequent values are: different values with their counts, the highest first, and no
  value left out occurs more often than one of them.\<close>

definition top_counts :: "nat \<Rightarrow> 'a list \<Rightarrow> ('a \<times> nat) list \<Rightarrow> bool" where
  "top_counts n xs ts \<longleftrightarrow>
     length ts = min n (card (set xs)) \<and> distinct (map fst ts)
     \<and> sorted_wrt (\<lambda>a b. snd b \<le> snd a) ts
     \<and> list_all (\<lambda>(x, k). k = count_list xs x \<and> list_all (\<lambda>y. y \<in> fst ` set ts \<or> count_list xs y \<le> k) xs) ts"

lemma most_frequent_top: "top_counts n xs (most_frequent n xs)"
proof -
  define s where "s = js_sort by_count (tally xs)"
  have s: "distinct (map fst s)" unfolding s_def distinct_sort_keys by (rule tally_distinct)
  have keys: "fst ` set s = set xs" unfolding s_def set_js_sort by (rule tally_keys)
  have len: "length s = card (set xs)" using distinct_card [OF s] keys by simp
  have counted: "k = count_list xs x" if "(x, k) \<in> set s" for x k
    using that by (simp add: s_def tally_member)
  have rest: "count_list xs y \<le> k" if mem: "(x, k) \<in> set (take n s)" and y: "y \<in> set xs" "y \<notin> fst ` set (take n s)" for x k y
  proof -
    obtain k' where k': "(y, k') \<in> set s" using y(1) keys by force
    have "set s = set (take n s) \<union> set (drop n s)" by (metis append_take_drop_id set_append)
    moreover have "(y, k') \<notin> set (take n s)" using y(2) by force
    ultimately have "(y, k') \<in> set (drop n s)" using k' by blast
    then have "by_count (x, k) (y, k') \<le> 0"
      using counts.cut_first [of n "tally xs"] mem by (simp only: s_def list_all_iff)
    then show ?thesis using counted [OF k'] by (simp add: by_count_def)
  qed
  have ordered: "sorted_wrt (\<lambda>a b. snd b \<le> snd a) s"
    using counts.ordered_sort [of "tally xs"] by (simp add: s_def by_count_def)
  have "length (take n s) = min n (card (set xs))" by (simp add: len min.commute)
  moreover have "distinct (map fst (take n s))" using s by (simp add: take_map [symmetric])
  moreover have "sorted_wrt (\<lambda>a b. snd b \<le> snd a) (take n s)" using ordered by (rule sorted_wrt_take)
  moreover have "k = count_list xs x" if "(x, k) \<in> set (take n s)" for x k using counted in_set_takeD [OF that] by simp
  ultimately show ?thesis
    using rest unfolding top_counts_def most_frequent_def s_def [symmetric] list_all_iff by blast
qed

end
