(* ===== verification/AuthEvents.thy ===== *)
theory AuthEvents
  imports MobileInstall LockTimeline Tally
begin

text \<open>
  Authentication events of a device, \<open>src/mobipwn-web/src/lib/authenticationEvents.ts\<close>. The platform's
  dates are of type \<open>AuthDates\<close>, which adds the two texts of a date in the user's locale.
\<close>

record AuthDates = Dates +
  date_text :: "int \<Rightarrow> string"
  time_text :: "int \<Rightarrow> string"

record AuthEvent =
  au_timestamp :: string
  au_date :: string
  au_time :: string
  au_timestampRaw :: string
  au_timestampMs :: "int option"
  au_user :: string
  au_authType :: string
  au_success :: bool
  au_source :: string
  au_wakeReason :: string
  au_message :: string

definition extBool :: "JsonParse \<Rightarrow> Row \<Rightarrow> string \<Rightarrow> bool option" where
  "extBool parse row key =
     (case map_of (parseExt parse row) key of
        Some (JBool b) \<Rightarrow> Some b
      | Some (JStr s) \<Rightarrow> (if s = ''true'' then Some True else if s = ''false'' then Some False else None)
      | _ \<Rightarrow> None)"

section \<open>Dates\<close>

definition offset_re :: regex where
  "offset_re = Seqs [One_of ''+-'', two_digits, Opt (Lit '':''), two_digits, Eol]"

definition wall_re :: regex where
  "wall_re = Seqs [Bol, two_digits, two_digits, Lit ''-'', two_digits, Lit ''-'', two_digits, One_of '' T'', two_digits, Lit '':'', two_digits]"

definition normalized_date :: "string \<Rightarrow> string" where
  "normalized_date raw =
     (if contains ''T'' raw \<or> test offset_re raw \<or> ends_with ''Z'' raw then raw
      else if test wall_re raw then space_to_T raw @ ''Z'' else raw)"

text \<open>A date after the year 2000.\<close>

definition recent :: "'x Dates_scheme \<Rightarrow> int option \<Rightarrow> int option" where
  "recent D d = (case d of Some t \<Rightarrow> (if full_year D t > 2000 then Some t else None) | None \<Rightarrow> None)"

definition auth_date_number :: "'x Dates_scheme \<Rightarrow> string \<Rightarrow> int option" where
  "auth_date_number D raw =
     (case js_number raw of
        None \<Rightarrow> None
      | Some ts \<Rightarrow>
          (let ms = (if ts > 100000000000000 then ts div 1000 else if ts < 1000000000000 then ts * 1000 else ts)
           in if ts > 0 \<and> valid_ms ms then recent D (Some ms) else None))"

fun auth_date_of :: "'x Dates_scheme \<Rightarrow> string list \<Rightarrow> int option" where
  "auth_date_of D [] = None"
| "auth_date_of D (raw # raws) =
     (if raw = [] then auth_date_of D raws
      else case recent D (date_parse D (normalized_date raw)) of
        Some t \<Rightarrow> Some t
      | None \<Rightarrow> (case recent D (date_parse D raw) of
            Some t \<Rightarrow> Some t
          | None \<Rightarrow> (case auth_date_number D raw of Some t \<Rightarrow> Some t | None \<Rightarrow> auth_date_of D raws)))"

definition resolveAuthDate :: "JsonParse \<Rightarrow> 'x Dates_scheme \<Rightarrow> Row \<Rightarrow> int option" where
  "resolveAuthDate parse D row =
     auth_date_of D [strField row ''datetime'', strField row ''timestamp'', extField parse row ''timestamp'']"

definition date_and_time :: "AuthDates \<Rightarrow> int \<Rightarrow> string" where
  "date_and_time D d = date_text D d @ '' '' @ middle_dot @ '' '' @ time_text D d"

definition formatAuthTimestamp :: "JsonParse \<Rightarrow> AuthDates \<Rightarrow> Row \<Rightarrow> string" where
  "formatAuthTimestamp parse D row =
     (case resolveAuthDate parse D row of
        None \<Rightarrow> formatRowTimestamp parse (Dates.truncate D) row | Some d \<Rightarrow> date_and_time D d)"

definition authRowSortKey :: "JsonParse \<Rightarrow> 'x Dates_scheme \<Rightarrow> Row \<Rightarrow> int" where
  "authRowSortKey parse D row = get_or 0 (resolveAuthDate parse D row)"

section \<open>Events\<close>

definition isGenericAuthAction :: "string \<Rightarrow> bool" where
  "isGenericAuthAction val \<longleftrightarrow>
     to_lower (trim val) \<in> set [[], ''authentication_event'', ''authentication event'', ''success'', ''failed'', ''unknown'']"

definition normalizeAuthType :: "string \<Rightarrow> string" where
  "normalizeAuthType val =
     (let v = to_lower (trim val) in if isGenericAuthAction v then ''unlock'' else replace_char (CHR ''_'') '' '' v)"

definition AUTH_LABELS :: "(string \<times> string) list" where
  "AUTH_LABELS = [(''biometric'', ''Biometric''), (''fingerprint'', ''Fingerprint''), (''face'', ''Face unlock''),
     (''passcode'', ''Passcode''), (''password'', ''Password''), (''pattern'', ''Pattern''), (''pin'', ''PIN''),
     (''power_button'', ''Power button''), (''unlock'', ''Unlock'')]"

definition authTypeLabel :: "string \<Rightarrow> string" where
  "authTypeLabel authType = get_or (words_up False authType) (map_of AUTH_LABELS authType)"

text \<open>The fields of the date of a row: \<open>date\<close>, \<open>time\<close>, \<open>timestamp\<close>, \<open>timestampRaw\<close>, \<open>timestampMs\<close>.\<close>

definition formatAuthDateParts ::
  "JsonParse \<Rightarrow> AuthDates \<Rightarrow> Row \<Rightarrow> string \<times> string \<times> string \<times> string \<times> int option" where
  "formatAuthDateParts parse D row =
     (case resolveAuthDate parse D row of
        None \<Rightarrow> (let fallback = formatRowTimestamp parse (Dates.truncate D) row
                 in (fallback, [], fallback, or_str (strField row ''datetime'') (strField row ''timestamp''), None))
      | Some d \<Rightarrow> (date_text D d, time_text D d, date_and_time D d, iso_text D d, Some d))"

definition auth_success :: "JsonParse \<Rightarrow> Row \<Rightarrow> bool" where
  "auth_success parse row =
     (let status = or_str (extField parse row ''status'') (strField row ''action'');
          message = to_lower (strField row ''message'')
      in case extBool parse row ''success'' of
           Some b \<Rightarrow> b
         | None \<Rightarrow> (if status = ''failed'' then False else if status = ''success'' then True
             else \<not> (contains ''denied'' message \<or> contains ''fail'' message)))"

definition parseAuthEvent :: "JsonParse \<Rightarrow> AuthDates \<Rightarrow> Row \<Rightarrow> AuthEvent" where
  "parseAuthEvent parse D row =
     (let field = extField parse row; action = strField row ''action'';
          authTypeRaw = or_texts [field ''auth_type'', if isGenericAuthAction action then [] else action,
            field ''wake_reason'', ''unknown''];
          (date, time, timestamp, timestampRaw, timestampMs) = formatAuthDateParts parse D row
      in \<lparr>au_timestamp = timestamp, au_date = date, au_time = time, au_timestampRaw = timestampRaw,
          au_timestampMs = timestampMs,
          au_user = or_texts [strField row ''user'', field ''user_id'', field ''user'', ''?''],
          au_authType = normalizeAuthType authTypeRaw, au_success = auth_success parse row,
          au_source = field ''event_source'', au_wakeReason = field ''wake_reason'',
          au_message = or_str (field ''raw_message'') (strField row ''message'')\<rparr>)"

section \<open>Lists\<close>

record AuthSummary =
  as_total :: nat
  as_success :: nat
  as_failed :: nat
  as_users :: nat
  as_topTypes :: "(string \<times> nat) list"

definition summarize_step :: "nat \<times> nat \<times> string set \<Rightarrow> AuthEvent \<Rightarrow> nat \<times> nat \<times> string set" where
  "summarize_step = (\<lambda>(success, failed, users) e.
     (if au_success e then success + 1 else success, if au_success e then failed else failed + 1, insert (au_user e) users))"

definition summarizeAuthRows :: "JsonParse \<Rightarrow> AuthDates \<Rightarrow> Row list \<Rightarrow> AuthSummary" where
  "summarizeAuthRows parse D rows =
     (let events = map (parseAuthEvent parse D) rows; (success, failed, users) = foldl summarize_step (0, 0, {}) events
      in \<lparr>as_total = length events, as_success = success, as_failed = failed, as_users = card users,
          as_topTypes = most_frequent 4 (map au_authType events)\<rparr>)"

definition compare_auth_rows :: "JsonParse \<Rightarrow> 'x Dates_scheme \<Rightarrow> Row \<Rightarrow> Row \<Rightarrow> int" where
  "compare_auth_rows parse D a b = authRowSortKey parse D b - authRowSortKey parse D a"

definition authEventsSorted :: "JsonParse \<Rightarrow> AuthDates \<Rightarrow> Row list \<Rightarrow> nat \<Rightarrow> AuthEvent list" where
  "authEventsSorted parse D rows limit =
     map (parseAuthEvent parse D) (take limit (js_sort (compare_auth_rows parse D) rows))"

definition auth_point :: "AuthEvent \<Rightarrow> TimelinePoint option" where
  "auth_point e =
     (let type = to_lower (au_authType e) in
      case au_timestampMs e of
        None \<Rightarrow> None
      | Some t \<Rightarrow>
          (if t \<le> 0 then None
           else Some \<lparr>pt_t = Some (of_int t),
             pt_kind = (if \<not> au_success e then K_failed
               else if contains ''lock'' type \<and> \<not> contains ''unlock'' type then K_locked else K_unlocked)\<rparr>))"

definition authEventsToTimelinePoints :: "AuthEvent list \<Rightarrow> TimelinePoint list" where
  "authEventsToTimelinePoints events = List.map_filter auth_point events"

definition authSearchQuery :: "AuthEvent \<Rightarrow> string \<Rightarrow> string" where
  "authSearchQuery event scope =
     join '' '' ([scope @ '' parser='' @ quoted ''Authentication''] @
       (if au_user event \<noteq> [] \<and> au_user event \<noteq> ''?''
        then [''user='' @ quoted (replace_char (CHR 0x22) [CHR 0x5C, CHR 0x22] (au_user event))] else []) @
       (if au_authType event \<noteq> [] \<and> au_authType event \<noteq> ''unlock''
        then [''action=*'' @ replace_char (CHR 0x22) [] (au_authType event) @ ''*''] else []))
     @ '' | sort -timestamp | head 30''"

end
