(* ===== verification/AuthFacts.thy ===== *)
theory AuthFacts
  imports AuthEvents
begin

text \<open>
  Theorems on \<open>authenticationEvents.ts\<close>: the summary counts every event once, the list is in the order of
  time, and the points of the timeline are the dated events with their outcomes.
\<close>

lemma summarize_fold:
  "foldl summarize_step (s, f, us) events =
     (s + length (filter au_success events), f + length (filter (\<lambda>e. \<not> au_success e) events), us \<union> set (map au_user events))"
  by (induction events arbitrary: s f us) (simp_all add: summarize_step_def)

lemma auth_time: "get_or 0 (au_timestampMs (parseAuthEvent parse D row)) = authRowSortKey parse D row"
  by (simp add: parseAuthEvent_def formatAuthDateParts_def authRowSortKey_def Let_def split: option.splits)

interpretation latest: comparator "compare_auth_rows parse D"
  by unfold_locales (auto simp: compare_auth_rows_def)

text \<open>The kind of point an event makes.\<close>

definition lock_event :: "AuthEvent \<Rightarrow> bool" where
  "lock_event e \<longleftrightarrow> contains ''lock'' (to_lower (au_authType e)) \<and> \<not> contains ''unlock'' (to_lower (au_authType e))"

definition dated :: "AuthEvent \<Rightarrow> bool" where
  "dated e \<longleftrightarrow> get_or 0 (au_timestampMs e) > 0"

lemma auth_points:
  "authEventsToTimelinePoints events =
     map (\<lambda>e. \<lparr>pt_t = Some (of_int (get_or 0 (au_timestampMs e))),
         pt_kind = (if \<not> au_success e then K_failed else if lock_event e then K_locked else K_unlocked)\<rparr>) (filter dated events)"
proof (induction events)
  case (Cons e events)
  then show ?case
    by (cases "au_timestampMs e")
      (auto simp: authEventsToTimelinePoints_def List.map_filter_simps auth_point_def dated_def lock_event_def Let_def get_or_def)
qed (simp add: authEventsToTimelinePoints_def List.map_filter_simps)

text \<open>
  The summary counts every row once, as a success or a failure, its users without repetition, and shows
  the four most frequent ways to authenticate with their counts. The list holds the rows by time, the
  latest first, and a limit keeps the first of them; the timeline has one point for every event with
  a time, in their order, which is red exactly when the event failed.
\<close>

theorem auth_summary_complete:
  "let events = map (parseAuthEvent parse D) rows; s = summarizeAuthRows parse D rows;
       listed = authEventsSorted parse D rows (length rows); points = authEventsToTimelinePoints events
   in as_total s = length rows \<and> as_success s + as_failed s = length rows
      \<and> as_success s = length (filter au_success events) \<and> as_users s = card (set (map au_user events))
      \<and> top_counts 4 (map au_authType events) (as_topTypes s)
      \<and> mset listed = mset events \<and> sorted_wrt (\<lambda>a b. get_or 0 (au_timestampMs b) \<le> get_or 0 (au_timestampMs a)) listed
      \<and> authEventsSorted parse D rows limit = take limit listed
      \<and> map pt_t points = map (\<lambda>e. Some (of_int (get_or 0 (au_timestampMs e)))) (filter dated events)
      \<and> map (\<lambda>p. pt_kind p = K_failed) points = map (\<lambda>e. \<not> au_success e) (filter dated events)"
proof -
  let ?sorted = "js_sort (compare_auth_rows parse D) rows"
  have all: "authEventsSorted parse D rows (length rows) = map (parseAuthEvent parse D) ?sorted"
    by (simp add: authEventsSorted_def length_js_sort)
  have "sorted_wrt (\<lambda>a b. get_or 0 (au_timestampMs b) \<le> get_or 0 (au_timestampMs a)) (map (parseAuthEvent parse D) ?sorted)"
    using latest.ordered_sort [of parse D rows] by (simp add: sorted_wrt_map auth_time compare_auth_rows_def)
  moreover have "mset (map (parseAuthEvent parse D) ?sorted) = mset (map (parseAuthEvent parse D) rows)"
    by simp
  moreover have "authEventsSorted parse D rows limit = take limit (map (parseAuthEvent parse D) ?sorted)"
    by (simp add: authEventsSorted_def take_map)
  moreover have "length (filter (au_success \<circ> parseAuthEvent parse D) rows)
      + length (filter (\<lambda>r. \<not> (au_success \<circ> parseAuthEvent parse D) r) rows) = length rows"
    by (rule sum_length_filter_compl)
  ultimately show ?thesis
    using most_frequent_top [of 4 "map au_authType (map (parseAuthEvent parse D) rows)"]
    unfolding all Let_def auth_points
    by (simp add: summarizeAuthRows_def summarize_fold Let_def o_def image_image)
qed

text \<open>The label of the power button is never found: types have spaces where its key has an underscore.\<close>

lemma power_button_unlabelled: "authTypeLabel (normalizeAuthType ''power_button'') = ''Power Button''"
  by code_simp

text \<open>Nor does the search for such an event: it asks for two words where the rows have one.\<close>

lemma auth_search_split:
  "authSearchQuery \<lparr>au_timestamp = [], au_date = [], au_time = [], au_timestampRaw = [], au_timestampMs = None, au_user = ''?'',
       au_authType = normalizeAuthType ''power_button'', au_success = True, au_source = [], au_wakeReason = [], au_message = []\<rparr> ''s''
     = ''s parser='' @ quoted ''Authentication'' @ '' action=*power button* | sort -timestamp | head 30''"
  by code_simp

end
