(* ===== verification/Enrichment.thy ===== *)
theory Enrichment
  imports PackageSnapshot
begin

text \<open>
  Enrichment of search results, \<open>src/mobipwn-web/src/lib/enrichment.ts\<close>: the lookup stages that enabled
  providers add to a query, the columns they give, and how result columns are ordered, labelled and hidden.
  Replacement texts are taken literally (a fld name with a dollar sign is outside the model).
\<close>

section \<open>Providers\<close>

record EnrichmentProvider =
  ep_id :: string
  ep_slug :: string
  ep_name :: string
  ep_kind :: string
  ep_enabled :: bool
  ep_covers_fields :: "string list"

record LookupStage =
  ls_field :: string
  ls_command :: string
  ls_columns :: "string list"

definition DEFAULT_SYNC_CRON :: string where
  "DEFAULT_SYNC_CRON = ''0 */5 * * *''"

definition describeSyncCron :: "Json option \<Rightarrow> string" where
  "describeSyncCron raw =
     (case present raw of
        None \<Rightarrow> ''manual only''
      | Some v \<Rightarrow>
          (let s = to_lower (trim (js_text v)) in
           if v = JStr [] then ''manual only''
           else if s \<in> set [''manual'', ''disabled'', ''off''] then ''manual only''
           else if s = DEFAULT_SYNC_CRON \<or> s = ''0 '' @ DEFAULT_SYNC_CRON then ''every 5 minutes''
           else if s = ''0 */15 * * *'' \<or> s = ''0 0/15 * * * *'' then ''every 15 minutes''
           else if s = ''0 * * * *'' \<or> s = ''0 0 * * * *'' then ''every hour''
           else if s = ''0 */6 * * *'' then ''every 6 hours''
           else if s = ''0 0 * * *'' \<or> s = ''0 0 0 * * *'' then ''daily''
           else s))"

definition playLookupColumns :: "string list" where
  "playLookupColumns = [''play_on_play_store'', ''play_store_url'', ''play_app_title'']"

definition VT_STAT_SUFFIXES :: "string list" where
  "VT_STAT_SUFFIXES = [''malicious'', ''harmless'', ''undetected'', ''suspicious'', ''reputation'']"

definition vt_column :: "string \<Rightarrow> string \<Rightarrow> string" where
  "vt_column fld stat = ''vt_'' @ fld @ ''_'' @ stat"

definition vtLookupColumns :: "string \<Rightarrow> string list" where
  "vtLookupColumns fld = map (vt_column fld) VT_STAT_SUFFIXES"

definition VT_FIELDS :: "string list" where
  "VT_FIELDS = [''src_ip'', ''dest_ip'', ''destination_domain'', ''file_hash'']"

definition PLAY_FIELDS :: "string list" where
  "PLAY_FIELDS = [''bundle_id'']"

definition VT_LABEL_FIELDS :: "string list" where
  "VT_LABEL_FIELDS = [''dest_ip'', ''src_ip'', ''destination_domain'', ''file_hash'']"

text \<open>The stages a provider asks for, in the order of the code, and \<open>push\<close>, which takes a command once.\<close>

definition stage :: "string \<Rightarrow> string \<Rightarrow> string list \<Rightarrow> LookupStage" where
  "stage fld command columns = \<lparr>ls_field = fld, ls_command = command, ls_columns = columns\<rparr>"

definition provider_stages :: "EnrichmentProvider \<Rightarrow> LookupStage list" where
  "provider_stages p =
     (let covers = (\<lambda>f. f \<in> set (ep_covers_fields p)) in
      (if ep_slug p = ''geo_lite''
       then (if covers ''src_ip'' then [stage ''src_ip'' ''lookup src_ip'' [''lookup_country'', ''lookup_city'']] else [])
         @ (if covers ''dest_ip'' then [stage ''dest_ip'' ''lookup geo dest_ip'' [''geo_country'', ''geo_city'']] else []) else [])
      @ (if ep_slug p = ''virustotal''
         then map (\<lambda>f. stage f (''lookup vt '' @ f) (vtLookupColumns f)) (filter covers VT_FIELDS) else [])
      @ (if ep_slug p = ''threatfox'' \<and> covers ''file_hash''
         then [stage ''file_hash'' ''lookup file_hash'' [''lookup_malware_family'', ''lookup_score'']] else [])
      @ (if ep_slug p = ''google_play''
         then map (\<lambda>f. stage f (''lookup play '' @ f) playLookupColumns) (filter covers PLAY_FIELDS) else []))"

definition enrichmentLookupStages :: "EnrichmentProvider list \<Rightarrow> LookupStage list" where
  "enrichmentLookupStages providers =
     first_of_keys (\<lambda>s. to_lower (ls_command s)) [] (concat (map provider_stages (filter ep_enabled providers)))"

definition enrichableLookupFields :: "EnrichmentProvider list \<Rightarrow> string list" where
  "enrichableLookupFields providers = first_of_keys (\<lambda>f. f) [] (map ls_field (enrichmentLookupStages providers))"

definition lookupColumnsForStages :: "LookupStage list \<Rightarrow> string \<Rightarrow> string list" where
  "lookupColumnsForStages stages fld = concat (map ls_columns (filter (\<lambda>s. ls_field s = fld) stages))"

section \<open>Labels of VirusTotal\<close>

definition vtNum :: "Json option \<Rightarrow> int" where
  "vtNum v = (if v = Some (JStr []) then 0 else get_or 0 (numFromValue v))"

definition formatVtFieldSummary :: "Row \<Rightarrow> string \<Rightarrow> string" where
  "formatVtFieldSummary row fld =
     (let num = (\<lambda>stat. vtNum (map_of row (vt_column fld stat)));
          mal = num ''malicious''; susp = num ''suspicious''; harm = num ''harmless''; undet = num ''undetected'';
          rep = num ''reputation''; opt = (\<lambda>b s. if b then [s] else [])
      in if mal = 0 \<and> susp = 0 \<and> harm = 0 \<and> undet = 0 \<and> rep = 0
         then (case present (map_of row (vt_column fld ''malware_family'')) of
                 Some legacy \<Rightarrow> (if trim (js_text legacy) \<noteq> [] then js_text legacy else []) | None \<Rightarrow> [])
         else join ('' '' @ middle_dot @ '' '')
           ([int_str mal @ '' malicious''] @ opt (susp > 0) (int_str susp @ '' suspicious'')
            @ opt (harm > 0) (int_str harm @ '' harmless'') @ opt (undet > 0) (int_str undet @ '' undetected'')
            @ opt (rep \<noteq> 0) (''rep '' @ int_str rep)))"

definition pickVtLabel :: "Row \<Rightarrow> string" where
  "pickVtLabel row = or_texts (map (formatVtFieldSummary row) VT_LABEL_FIELDS)"

text \<open>\<open>{ ...row, vt_label: label }\<close>\<close>

definition set_member :: "string \<Rightarrow> Json \<Rightarrow> Row \<Rightarrow> Row" where
  "set_member k v row = (if map_of row k = None then row @ [(k, v)] else map (\<lambda>(k', w). (k', if k' = k then v else w)) row)"

definition enrichRowsWithVtLabel :: "Row list \<Rightarrow> Row list" where
  "enrichRowsWithVtLabel rows =
     map (\<lambda>row. let label = pickVtLabel row in if label = [] then row else set_member ''vt_label'' (JStr label) row) rows"

section \<open>Columns\<close>

definition enrichment_re :: regex where
  "enrichment_re = Seqs [Bol, Alts [LitI ''geo'', LitI ''ioc'', LitI ''lookup'', LitI ''vt'', LitI ''play''], Lit ''_'',
     Plus (Cls is_word), Eol]"

definition isEnrichmentColumn :: "string \<Rightarrow> bool" where
  "isEnrichmentColumn name \<longleftrightarrow>
     (let lower = to_lower name in
      name = ''vt_label'' \<or> test enrichment_re name
      \<or> ends_with ''_country'' lower \<or> ends_with ''_city'' lower \<or> ends_with ''_malware_family'' lower
      \<or> ends_with ''_score'' lower)"

definition priorityEnrich :: "string list" where
  "priorityEnrich = [''vt_label''] @ vtLookupColumns ''dest_ip'' @ vtLookupColumns ''src_ip''
     @ [''lookup_country'', ''lookup_city'', ''geo_country'', ''geo_city'']
     @ vtLookupColumns ''destination_domain'' @ vtLookupColumns ''file_hash''"

definition sorted_enrichment :: "string list \<Rightarrow> string list" where
  "sorted_enrichment colKeys =
     filter (\<lambda>c. c \<in> set colKeys) priorityEnrich
     @ filter (\<lambda>c. c \<notin> set priorityEnrich) (filter isEnrichmentColumn colKeys)"

text \<open>\<open>core.indexOf("dest_ip")\<close> splits the list behind the element; here the list up to it and the rest.\<close>

definition orderSearchResultColumns :: "string list \<Rightarrow> string list" where
  "orderSearchResultColumns colKeys =
     (let core = filter (\<lambda>c. \<not> isEnrichmentColumn c) colKeys; sortedEnrich = sorted_enrichment colKeys;
          beside = (\<lambda>c. c = ''vt_label'' \<or> starts_with ''vt_dest_ip'' c);
          destIdx = length (takeWhile (\<lambda>c. c \<noteq> ''dest_ip'') core)
      in if colKeys = [] then colKeys
         else if ''dest_ip'' \<in> set core
         then take (destIdx + 1) core @ filter beside sortedEnrich @ drop (destIdx + 1) core
           @ filter (\<lambda>c. c \<notin> set (filter beside sortedEnrich)) sortedEnrich
         else take 12 core @ sortedEnrich)"

definition enrichmentColumnsIn :: "string list \<Rightarrow> string list" where
  "enrichmentColumnsIn columns = filter isEnrichmentColumn columns"

definition vt_stat_re :: regex where
  "vt_stat_re = Seqs [Bol, Lit ''vt_'', Grp 1 (Plus Dot), Lit ''_'',
     Grp 2 (Alts [Lit ''malicious'', Lit ''harmless'', Lit ''undetected'', Lit ''suspicious'', Lit ''reputation'']), Eol]"

definition vt_family_re :: regex where
  "vt_family_re = Seqs [Bol, Lit ''vt_'', Grp 1 (Plus Dot), Lit ''_malware_family'', Eol]"

definition vt_score_re :: regex where
  "vt_score_re = Seqs [Bol, Lit ''vt_'', Grp 1 (Plus Dot), Lit ''_score'', Eol]"

definition spaced :: "string \<Rightarrow> string" where
  "spaced s = replace_char (CHR ''_'') '' '' s"

definition enrichmentColumnLabel :: "string \<Rightarrow> string" where
  "enrichmentColumnLabel col =
     (let stat = exec vt_stat_re col; family = exec vt_family_re col; score = exec vt_score_re col in
      if col = ''vt_label'' then ''VT summary''
      else if stat \<noteq> None
      then ''VT '' @ spaced (get_or [] (group 1 (the stat))) @ '' '' @ get_or [] (group 2 (the stat))
      else if family \<noteq> None then ''VT '' @ spaced (get_or [] (group 1 (the family))) @ '' label''
      else if score \<noteq> None then spaced (''VT '' @ get_or [] (group 1 (the score)) @ '' score'')
      else if starts_with ''vt_'' col then ''VT '' @ drop 3 col
      else if starts_with ''geo_'' col then ''Geo '' @ drop 4 col
      else if starts_with ''lookup_'' col then drop 7 col
      else if starts_with ''ioc_'' col then ''IOC '' @ drop 4 col
      else col)"

section \<open>Lookups in a query\<close>

definition BLOCKED_PIPE_RE :: regex where
  "BLOCKED_PIPE_RE = Seqs [WordB, Alts [LitI ''timechart'', LitI ''dedup'', LitI ''join''], WordB]"

definition command_re :: "string \<Rightarrow> regex" where
  "command_re name = Seqs [Bol, LitI name, WordB]"

definition head_sort_re :: regex where
  "head_sort_re = Seqs [Bol, Alt (LitI ''head'') (LitI ''sort''), WordB]"

definition fields_re :: regex where
  "fields_re = Seqs [Bol, LitI ''fields'', Plus Space, Grp 1 (Plus Dot), Eol]"

definition by_re :: regex where
  "by_re = Seqs [WordB, LitI ''by'', Plus Space, Grp 1 (Plus Dot), Eol]"

definition pipelineParts :: "string \<Rightarrow> string list" where
  "pipelineParts pipeline = (if trim pipeline = [] then [] else nonempty (map trim (split_char (CHR ''|'') pipeline)))"

text \<open>Words between separators: \<open>split\<close> at runs of them, without the empty parts.\<close>

fun words_between :: "(char \<Rightarrow> bool) \<Rightarrow> string \<Rightarrow> string list" where
  "words_between sep [] = [[]]"
| "words_between sep (c # s) =
     (if sep c then [] # words_between sep s
      else case words_between sep s of w # ws \<Rightarrow> (c # w) # ws | [] \<Rightarrow> [[c]])"

definition parseFieldsList :: "string \<Rightarrow> string list" where
  "parseFieldsList fieldsPart =
     (case exec fields_re fieldsPart of
        None \<Rightarrow> []
      | Some m \<Rightarrow> nonempty (map trim (words_between (\<lambda>c. is_space c \<or> c = CHR '','') (get_or [] (group 1 m)))))"

text \<open>Columns that are not there yet, compared in lower case.\<close>

definition extra_columns :: "string list \<Rightarrow> string list \<Rightarrow> string list" where
  "extra_columns have cols = first_of_keys to_lower (map to_lower have) cols"

definition augmentFieldsPart :: "string \<Rightarrow> LookupStage list \<Rightarrow> string" where
  "augmentFieldsPart fieldsPart stages =
     (let names = parseFieldsList fieldsPart;
          extra = extra_columns names (concat (map (\<lambda>s. ls_field s # ls_columns s) stages))
      in if names = [] \<or> extra = [] then fieldsPart else ''fields '' @ join '', '' (names @ extra))"

fun find_index :: "('a \<Rightarrow> bool) \<Rightarrow> 'a list \<Rightarrow> nat option" where
  "find_index P [] = None"
| "find_index P (x # xs) = (if P x then Some 0 else map_option Suc (find_index P xs))"

definition insertIndexForLookups :: "string list \<Rightarrow> nat" where
  "insertIndexForLookups parts =
     (case find_index (test (command_re ''fields'')) parts of
        Some i \<Rightarrow> i
      | None \<Rightarrow> (case find_index (test head_sort_re) parts of Some i \<Rightarrow> i | None \<Rightarrow> length parts))"

definition existingLookupCommands :: "string list \<Rightarrow> string list" where
  "existingLookupCommands parts = map to_lower (filter (test (command_re ''lookup'')) parts)"

definition by_fields :: "string \<Rightarrow> string list" where
  "by_fields statsPart =
     (case exec by_re statsPart of
        None \<Rightarrow> [] | Some m \<Rightarrow> nonempty (map trim (split_char (CHR '','') (get_or [] (group 1 m)))))"

definition augmentStatsByClause :: "string \<Rightarrow> LookupStage list \<Rightarrow> string" where
  "augmentStatsByClause statsPart stages =
     (let byFields = by_fields statsPart;
          extra = extra_columns byFields (concat (map (lookupColumnsForStages stages) byFields))
      in if exec by_re statsPart = None \<or> extra = [] then statsPart
         else replace_first by_re (''by '' @ join '', '' (byFields @ extra)) statsPart)"

definition splice :: "nat \<Rightarrow> 'a list \<Rightarrow> 'a list \<Rightarrow> 'a list" where
  "splice i new xs = take i xs @ new @ drop i xs"

text \<open>The stages of the pipeline with the lookups; \<open>None\<close> where the query is returned as it is.\<close>

definition stats_lookups :: "LookupStage list \<Rightarrow> string list \<Rightarrow> nat \<Rightarrow> string list option" where
  "stats_lookups stages parts statsIdx =
     (let statsPart = parts ! statsIdx;
          relevant = filter (\<lambda>s. ls_field s \<in> set (by_fields statsPart)) stages;
          statsLookups = filter (\<lambda>c. to_lower c \<notin> set (existingLookupCommands parts)) (map ls_command relevant);
          augmented = augmentStatsByClause statsPart (if relevant \<noteq> [] then relevant else stages)
      in if statsLookups = [] \<and> augmented = statsPart then None
         else Some ((splice statsIdx statsLookups parts)[statsIdx + length statsLookups := augmented]))"

definition plain_lookups :: "LookupStage list \<Rightarrow> string list \<Rightarrow> string list option" where
  "plain_lookups stages parts =
     (let toAdd = filter (\<lambda>c. to_lower c \<notin> set (existingLookupCommands parts)) (map ls_command stages);
          spliced = splice (insertIndexForLookups parts) toAdd parts;
          added = filter (\<lambda>s. ls_command s \<in> set toAdd) stages
      in if toAdd = [] then None
         else Some (case find_index (test (command_re ''fields'')) spliced of
             Some i \<Rightarrow> (if added \<noteq> [] then spliced[i := augmentFieldsPart (spliced ! i) added] else spliced)
           | None \<Rightarrow> spliced))"

definition with_lookups :: "LookupStage list \<Rightarrow> string list \<Rightarrow> string list option" where
  "with_lookups stages parts =
     (if list_ex (test BLOCKED_PIPE_RE) parts then None
      else case find_index (test (command_re ''stats'')) parts of
             Some i \<Rightarrow> stats_lookups stages parts i | None \<Rightarrow> plain_lookups stages parts)"

definition applyEnrichmentLookups :: "string \<Rightarrow> EnrichmentProvider list \<Rightarrow> string" where
  "applyEnrichmentLookups query providers =
     (let stages = enrichmentLookupStages providers; (search, pipeline) = splitSearchAndPipeline query in
      if stages = [] then query
      else case with_lookups stages (pipelineParts pipeline) of
             None \<Rightarrow> query
           | Some parts \<Rightarrow>
               (let pipe = join '' '' (map (\<lambda>p. ''| '' @ p) parts)
                in if search \<noteq> [] then search @ '' '' @ pipe else trim pipe))"

definition buildEnrichedQuery :: "string \<Rightarrow> EnrichmentProvider list \<Rightarrow> bool \<Rightarrow> string" where
  "buildEnrichedQuery query providers enabled = (if \<not> enabled then query else applyEnrichmentLookups query providers)"

section \<open>Settings\<close>

datatype FieldType = Ft_text | Ft_password | Ft_number

type_synonym ConfigField = "string \<times> string \<times> FieldType \<times> string option"

text \<open>Key, label, type and placeholder.\<close>

definition providerConfigFields :: "string \<Rightarrow> ConfigField list" where
  "providerConfigFields slug =
     (if slug = ''virustotal''
      then [(''api_key'', ''API key'', Ft_password, Some ''VirusTotal API key''),
        (''max_indicators_per_type'', ''Max indicators per type'', Ft_number, None),
        (''lookback_days'', ''Lookback (days)'', Ft_number, Some ''90 (matches event retention)''),
        (''request_delay_ms'', ''Delay between requests (ms)'', Ft_number, Some ''15000 free tier, 0 to disable'')]
      else if slug = ''geo_lite'' then [(''csv_path'', ''GeoIP CSV path'', Ft_text, Some ''/path/to/geoip.csv'')]
      else if slug = ''google_play''
      then [(''max_packages'', ''Max packages per sync'', Ft_number, Some ''50''),
        (''lookback_days'', ''Lookback (days)'', Ft_number, Some ''90''),
        (''request_delay_ms'', ''Delay between requests (ms)'', Ft_number, Some ''500''),
        (''test_package'', ''Test package (optional)'', Ft_text, Some ''com.ubergeek42.WeechatAndroid.dev'')]
      else [])"

definition bullet :: string where
  "bullet = [CHR 0xE2, CHR 0x80, CHR 0xA2]"

definition maskConfigForDisplay :: "string \<Rightarrow> Row \<Rightarrow> Row" where
  "maskConfigForDisplay slug config =
     (case map_of config ''api_key'' of
        Some (JStr key) \<Rightarrow>
          (if slug = ''virustotal'' \<and> length key > 4
           then set_member ''api_key'' (JStr (concat (replicate 8 bullet) @ last_parts 4 key)) config else config)
      | _ \<Rightarrow> config)"

end
