(* ===== verification/SearchColumns.thy ===== *)
theory SearchColumns
  imports Enrichment
begin

text \<open>
  The columns of the search page, \<open>src/mobipwn-web/src/lib/searchColumns.ts\<close>, and the preferences that are
  kept in \<open>localStorage\<close>, also those of \<open>enrichment.ts\<close>. The storage is a map of texts; \<open>JSON.parse\<close> and
  \<open>JSON.stringify\<close> are arguments. A storage that throws is not modelled.
\<close>

type_synonym TextStorage = "string \<rightharpoonup> string"

definition VISIBLE_COLS_KEY :: string where
  "VISIBLE_COLS_KEY = ''mobipwn-search-visible-cols''"

definition ENRICHMENT_COLS_HIDDEN_KEY :: string where
  "ENRICHMENT_COLS_HIDDEN_KEY = ''mobipwn-search-hidden-enrichment-cols''"

definition DEFAULT_SEARCH_VISIBLE_COLUMNS :: "string list" where
  "DEFAULT_SEARCH_VISIBLE_COLUMNS = [''timestamp'', ''platform'', ''parser'', ''severity'', ''process_name'', ''bundle_id'', ''message'']"

definition DEFAULT_SEARCH_HIDDEN_COLUMNS :: "string list" where
  "DEFAULT_SEARCH_HIDDEN_COLUMNS = [''ext'', ''id'', ''ingest_time'', ''source'']"

definition DEFAULT_SEARCH_MAX_CORE :: nat where
  "DEFAULT_SEARCH_MAX_CORE = 7"

section \<open>Preferences\<close>

definition text_items :: "Json list \<Rightarrow> string list" where
  "text_items vs = List.map_filter (\<lambda>v. case v of JStr s \<Rightarrow> (if trim s \<noteq> [] then Some s else None) | _ \<Rightarrow> None) vs"

definition loadPreferredSearchColumns :: "JsonParse \<Rightarrow> TextStorage \<Rightarrow> string list option" where
  "loadPreferredSearchColumns parse ls =
     (case truthy (ls VISIBLE_COLS_KEY) of
        None \<Rightarrow> None
      | Some raw \<Rightarrow>
          (case parse raw of
             Some (JArr vs) \<Rightarrow> (if text_items vs = [] then None else Some (text_items vs))
           | _ \<Rightarrow> None))"

definition savePreferredSearchColumns :: "(Json \<Rightarrow> string) \<Rightarrow> TextStorage \<Rightarrow> string list \<Rightarrow> TextStorage" where
  "savePreferredSearchColumns stringify ls cols =
     (let core = filter (\<lambda>c. \<not> isEnrichmentColumn c) cols in
      if core = [] then ls(VISIBLE_COLS_KEY := None)
      else ls(VISIBLE_COLS_KEY \<mapsto> stringify (JArr (map JStr core))))"

definition clearPreferredSearchColumns :: "TextStorage \<Rightarrow> TextStorage" where
  "clearPreferredSearchColumns ls = ls(VISIBLE_COLS_KEY := None)"

text \<open>\<open>new Set(value)\<close> of an array, of the characters of a text, of nothing; anything else throws.\<close>

definition loadHiddenEnrichmentColumns :: "JsonParse \<Rightarrow> TextStorage \<Rightarrow> Json list" where
  "loadHiddenEnrichmentColumns parse ls =
     (case truthy (ls ENRICHMENT_COLS_HIDDEN_KEY) of
        None \<Rightarrow> []
      | Some raw \<Rightarrow>
          (case parse raw of
             Some (JArr vs) \<Rightarrow> remdups vs | Some (JStr s) \<Rightarrow> remdups (map (\<lambda>c. JStr [c]) s) | _ \<Rightarrow> []))"

definition saveHiddenEnrichmentColumns :: "(Json \<Rightarrow> string) \<Rightarrow> TextStorage \<Rightarrow> string list \<Rightarrow> TextStorage" where
  "saveHiddenEnrichmentColumns stringify ls hidden =
     ls(ENRICHMENT_COLS_HIDDEN_KEY \<mapsto> stringify (JArr (map JStr hidden)))"

section \<open>Which columns are shown\<close>

definition orderedVisibleSearchColumns :: "string list \<Rightarrow> string list \<Rightarrow> string list" where
  "orderedVisibleSearchColumns colKeys chosen =
     (let ordered = filter (\<lambda>c. c \<in> set chosen) (orderSearchResultColumns colKeys) in
      if colKeys = [] \<or> chosen = [] then []
      else if ''message'' \<notin> set ordered then ordered
      else filter (\<lambda>c. c \<noteq> ''message'') ordered @ [''message''])"

definition defaultSearchVisibleColumns :: "string list \<Rightarrow> string list option \<Rightarrow> string list" where
  "defaultSearchVisibleColumns colKeys preferred =
     (let ordered = orderSearchResultColumns colKeys;
          enrichment = filter isEnrichmentColumn ordered;
          coreOrdered = filter (\<lambda>c. \<not> isEnrichmentColumn c) ordered;
          unhidden = filter (\<lambda>c. c \<notin> set DEFAULT_SEARCH_HIDDEN_COLUMNS) coreOrdered;
          fromUser = filter (\<lambda>c. c \<in> set colKeys \<and> \<not> isEnrichmentColumn c) (get_or [] preferred);
          fromDefault = filter (\<lambda>c. c \<in> set colKeys) DEFAULT_SEARCH_VISIBLE_COLUMNS
      in if colKeys = [] then []
         else if length coreOrdered \<le> DEFAULT_SEARCH_MAX_CORE then unhidden @ enrichment
         else if fromUser \<noteq> [] then orderedVisibleSearchColumns colKeys (fromUser @ enrichment)
         else if length fromDefault \<ge> 3 then orderedVisibleSearchColumns colKeys (fromDefault @ enrichment)
         else orderedVisibleSearchColumns colKeys (take DEFAULT_SEARCH_MAX_CORE unhidden @ enrichment))"

end
