(* ===== verification/ColumnFacts.thy ===== *)
theory ColumnFacts
  imports SearchColumns
begin

text \<open>
  Theorems on the columns of search results: what is shown, in which order, and which preferences survive.
\<close>

section \<open>Order\<close>

lemma vt_enrichment:
  assumes "list_all is_word w" and "w \<noteq> []"
  shows "isEnrichmentColumn (''vt_'' @ w)"
proof -
  obtain c t where w: "w = c # t" using assms(2) by (cases w) auto
  with assms(1) have "(rev t @ [c, CHR ''_'', CHR ''t'', CHR ''v''], [], [])
      \<in> set (matches (Star (Cls is_word)) ([c, CHR ''_'', CHR ''t'', CHR ''v''], t, []))"
    by (intro Star_class_all) simp
  then have "matches enrichment_re ([], ''vt_'' @ w, []) \<noteq> []"
    using w assms(1)
    by (auto simp: enrichment_re_def ChrI_def Chr_def Plus_def behind_def ahead_def lower_char_def is_upper_def code_def
        simp del: matches.simps(5) intro!: bexI)
  then have "test enrichment_re (''vt_'' @ w)"
    by (auto simp: test_def exec_anchored_eq enrichment_re_def match_at_def split: list.split)
  then show ?thesis by (simp add: isEnrichmentColumn_def Let_def)
qed

lemma vt_columns_enrichment:
  assumes "list_all is_word fld"
  shows "list_all isEnrichmentColumn (vtLookupColumns fld)"
proof -
  have "isEnrichmentColumn (vt_column fld s)" if "list_all is_word s" for s
    using vt_enrichment [of "fld @ ''_'' @ s"] that assms by (simp add: vt_column_def is_word_def)
  moreover have "list_all (list_all is_word) VT_STAT_SUFFIXES" by code_simp
  ultimately show ?thesis by (simp add: vtLookupColumns_def list_all_iff)
qed

lemma priority_enrichment: "list_all isEnrichmentColumn priorityEnrich"
proof -
  have "list_all isEnrichmentColumn [''vt_label'', ''lookup_country'', ''lookup_city'', ''geo_country'', ''geo_city'']"
    by code_simp
  moreover have "list_all (list_all is_word) [''dest_ip'', ''src_ip'', ''destination_domain'', ''file_hash'']" by code_simp
  ultimately show ?thesis by (simp add: priorityEnrich_def vt_columns_enrichment)
qed

lemma distinct_priority: "distinct priorityEnrich"
  by code_simp

lemma sorted_enrichment_set: "set (sorted_enrichment ks) = {c \<in> set ks. isEnrichmentColumn c}"
  using priority_enrichment by (auto simp: sorted_enrichment_def list_all_iff)

lemma sorted_enrichment_distinct: "distinct ks \<Longrightarrow> distinct (sorted_enrichment ks)"
  using distinct_priority by (auto simp: sorted_enrichment_def)

lemma dest_ip_core: "\<not> isEnrichmentColumn ''dest_ip''" "\<not> isEnrichmentColumn ''message''"
  by code_simp+

lemma order_set:
  "set (orderSearchResultColumns ks)
     = (if ''dest_ip'' \<in> set ks then set ks
        else set (take 12 (filter (\<lambda>c. \<not> isEnrichmentColumn c) ks)) \<union> {c \<in> set ks. isEnrichmentColumn c})"
proof -
  have halves: "set (take n xs) \<union> (A \<union> (set (drop n xs) \<union> B)) = set xs \<union> (A \<union> B)" for n and xs :: "string list" and A B
  proof -
    have "set xs = set (take n xs) \<union> set (drop n xs)" by (metis append_take_drop_id set_append)
    then show ?thesis by blast
  qed
  show ?thesis
    using dest_ip_core
    by (auto simp: orderSearchResultColumns_def Let_def halves sorted_enrichment_set set_append simp del: set_filter)
      (auto simp: sorted_enrichment_set)
qed

lemma order_distinct: "distinct ks \<Longrightarrow> distinct (orderSearchResultColumns ks)"
proof -
  assume d: "distinct ks"
  define core where "core = filter (\<lambda>c. \<not> isEnrichmentColumn c) ks"
  define enr where "enr = sorted_enrichment ks"
  define beside where "beside = filter (\<lambda>c. c = ''vt_label'' \<or> starts_with ''vt_dest_ip'' c) enr"
  have "distinct core" "distinct enr" "set core \<inter> set enr = {}"
    using d by (auto simp: core_def enr_def sorted_enrichment_distinct sorted_enrichment_set)
  moreover have "set (take n core) \<inter> set (drop n core) = {}" for n
    using calculation(1) by (simp add: set_take_disj_set_drop_if_distinct)
  moreover have "set (take n core) \<union> set (drop n core) = set core" for n by (metis append_take_drop_id set_append)
  moreover have "set beside \<subseteq> set enr" "distinct beside" using calculation(2) by (auto simp: beside_def)
  moreover have "orderSearchResultColumns ks = [] \<or> (\<exists>n. orderSearchResultColumns ks
      = take n core @ beside @ drop n core @ filter (\<lambda>c. c \<notin> set beside) enr) \<or> orderSearchResultColumns ks = take 12 core @ enr"
    by (auto simp: orderSearchResultColumns_def Let_def core_def [symmetric] enr_def [symmetric] beside_def [symmetric])
  ultimately show ?thesis by (elim disjE exE) (simp_all, blast+)
qed

section \<open>What is shown\<close>

lemma visible_set:
  "set (orderedVisibleSearchColumns ks chosen) = set (orderSearchResultColumns ks) \<inter> set chosen"
proof -
  have "orderSearchResultColumns [] = []" by (simp add: orderSearchResultColumns_def)
  then show ?thesis by (auto simp: orderedVisibleSearchColumns_def Let_def)
qed

lemma visible_distinct: "distinct ks \<Longrightarrow> distinct (orderedVisibleSearchColumns ks chosen)"
  using order_distinct [of ks] by (auto simp: orderedVisibleSearchColumns_def Let_def)

lemma visible_message:
  "''message'' \<in> set (orderedVisibleSearchColumns ks chosen) \<Longrightarrow> last (orderedVisibleSearchColumns ks chosen) = ''message''"
  by (auto simp: orderedVisibleSearchColumns_def Let_def split: if_splits)

lemma order_enrichment: "{c \<in> set (orderSearchResultColumns ks). isEnrichmentColumn c} = {c \<in> set ks. isEnrichmentColumn c}"
  unfolding order_set by (auto dest: in_set_takeD)

lemma order_subset: "set (orderSearchResultColumns ks) \<subseteq> set ks"
  unfolding order_set by (auto dest: in_set_takeD)

text \<open>The result columns that a preference names.\<close>

definition wanted :: "string list \<Rightarrow> string list option \<Rightarrow> string list" where
  "wanted colKeys preferred = filter (\<lambda>c. c \<in> set colKeys \<and> \<not> isEnrichmentColumn c) (get_or [] preferred)"

lemma default_cases:
  assumes "colKeys \<noteq> []"
  obtains (few) "length (filter (\<lambda>c. \<not> isEnrichmentColumn c) (orderSearchResultColumns colKeys)) \<le> 7"
      "defaultSearchVisibleColumns colKeys preferred =
        filter (\<lambda>c. c \<notin> set DEFAULT_SEARCH_HIDDEN_COLUMNS) (filter (\<lambda>c. \<not> isEnrichmentColumn c) (orderSearchResultColumns colKeys))
        @ filter isEnrichmentColumn (orderSearchResultColumns colKeys)"
    | (chosen) cs where "7 < length (filter (\<lambda>c. \<not> isEnrichmentColumn c) (orderSearchResultColumns colKeys))"
      "defaultSearchVisibleColumns colKeys preferred =
        orderedVisibleSearchColumns colKeys (cs @ filter isEnrichmentColumn (orderSearchResultColumns colKeys))"
      "wanted colKeys preferred \<noteq> [] \<Longrightarrow> cs = wanted colKeys preferred"
      "list_all (\<lambda>c. \<not> isEnrichmentColumn c) cs"
proof -
  have default: "list_all (\<lambda>c. \<not> isEnrichmentColumn c) DEFAULT_SEARCH_VISIBLE_COLUMNS" by code_simp
  let ?enr = "filter isEnrichmentColumn (orderSearchResultColumns colKeys)"
  let ?unhidden = "filter (\<lambda>c. c \<notin> set DEFAULT_SEARCH_HIDDEN_COLUMNS)
    (filter (\<lambda>c. \<not> isEnrichmentColumn c) (orderSearchResultColumns colKeys))"
  let ?default = "filter (\<lambda>c. c \<in> set colKeys) DEFAULT_SEARCH_VISIBLE_COLUMNS"
  define cs where "cs = (if wanted colKeys preferred \<noteq> [] then wanted colKeys preferred
    else if length ?default \<ge> 3 then ?default else take 7 ?unhidden)"
  have core: "list_all (\<lambda>c. \<not> isEnrichmentColumn c) cs"
    using default unfolding cs_def list_all_iff by (auto simp: wanted_def dest: in_set_takeD)
  have cases: "defaultSearchVisibleColumns colKeys preferred =
      (if length (filter (\<lambda>c. \<not> isEnrichmentColumn c) (orderSearchResultColumns colKeys)) \<le> 7 then ?unhidden @ ?enr
       else orderedVisibleSearchColumns colKeys (cs @ ?enr))"
    unfolding defaultSearchVisibleColumns_def Let_def wanted_def [symmetric] DEFAULT_SEARCH_MAX_CORE_def cs_def
    using assms by simp
  have wish: "wanted colKeys preferred \<noteq> [] \<Longrightarrow> cs = wanted colKeys preferred" by (simp add: cs_def)
  show thesis
  proof (cases "length (filter (\<lambda>c. \<not> isEnrichmentColumn c) (orderSearchResultColumns colKeys)) \<le> 7")
    case True
    with cases show thesis by (intro few) simp_all
  next
    case False
    with cases show thesis by (intro chosen [OF _ _ wish core]) simp_all
  qed
qed

text \<open>
  Of different result columns, different ones are shown, every enrichment column among them. Where
  there are many columns and the destination address is one of them, a preference that names some of
  them decides which others are shown, the message last.
\<close>

theorem shown_columns:
  "let cols = defaultSearchVisibleColumns colKeys preferred; w = wanted colKeys preferred in
   if distinct colKeys
   then distinct cols \<and> set cols \<subseteq> set colKeys
      \<and> {c \<in> set cols. isEnrichmentColumn c} = {c \<in> set colKeys. isEnrichmentColumn c}
      \<and> (if ''dest_ip'' \<in> set colKeys \<and> 7 < length (filter (\<lambda>c. \<not> isEnrichmentColumn c) colKeys) \<and> w \<noteq> []
         then {c \<in> set cols. \<not> isEnrichmentColumn c} = set w
            \<and> (if ''message'' \<in> set w then last cols = ''message'' else True)
         else True)
   else True"
proof (cases "colKeys = [] \<or> \<not> distinct colKeys")
  case True
  then show ?thesis by (auto simp: defaultSearchVisibleColumns_def Let_def)
next
  case False
  then have ks: "colKeys \<noteq> []" "distinct colKeys" by auto
  have core_length: "length (filter (\<lambda>c. \<not> isEnrichmentColumn c) (orderSearchResultColumns colKeys))
      = length (filter (\<lambda>c. \<not> isEnrichmentColumn c) colKeys)" if "''dest_ip'' \<in> set colKeys"
  proof -
    have "set (filter (\<lambda>c. \<not> isEnrichmentColumn c) (orderSearchResultColumns colKeys))
        = set (filter (\<lambda>c. \<not> isEnrichmentColumn c) colKeys)"
      using that order_set [of colKeys] by auto
    moreover have "distinct (filter (\<lambda>c. \<not> isEnrichmentColumn c) (orderSearchResultColumns colKeys))"
        "distinct (filter (\<lambda>c. \<not> isEnrichmentColumn c) colKeys)"
      using ks(2) order_distinct by auto
    ultimately show ?thesis by (metis distinct_card)
  qed
  from ks(1) show ?thesis
  proof (cases rule: default_cases [where preferred = preferred])
    case few
    have enr: "{c \<in> set (defaultSearchVisibleColumns colKeys preferred). isEnrichmentColumn c} = {c \<in> set colKeys. isEnrichmentColumn c}"
      using order_enrichment [of colKeys] unfolding few(2) by auto
    have "distinct (defaultSearchVisibleColumns colKeys preferred)" unfolding few(2) using order_distinct [OF ks(2)] by auto
    moreover have "set (defaultSearchVisibleColumns colKeys preferred) \<subseteq> set colKeys" unfolding few(2) using order_subset by auto
    ultimately show ?thesis using enr few(1) core_length ks(2) by (auto simp: Let_def)
  next
    case (chosen cs)
    let ?cols = "defaultSearchVisibleColumns colKeys preferred"
    have set: "set ?cols = set (orderSearchResultColumns colKeys) \<inter> (set cs \<union> {c \<in> set colKeys. isEnrichmentColumn c})"
      unfolding chosen(2) visible_set using order_enrichment [of colKeys] by auto
    have enr: "{c \<in> set ?cols. isEnrichmentColumn c} = {c \<in> set colKeys. isEnrichmentColumn c}"
      unfolding set using order_enrichment [of colKeys] chosen(4) by (auto simp: list_all_iff)
    have wish: "{c \<in> set ?cols. \<not> isEnrichmentColumn c} = set (wanted colKeys preferred)"
      if "''dest_ip'' \<in> set colKeys" "wanted colKeys preferred \<noteq> []"
      using that chosen(3) order_set [of colKeys] unfolding set by (auto simp: wanted_def)
    have last: "last ?cols = ''message''" if "''message'' \<in> set ?cols"
      using that unfolding chosen(2) by (rule visible_message)
    have "distinct ?cols" unfolding chosen(2) using ks(2) by (rule visible_distinct)
    moreover have "set ?cols \<subseteq> set colKeys" unfolding set using order_subset by auto
    ultimately show ?thesis using enr wish last ks(2) by (auto simp: Let_def)
  qed
qed

text \<open>Without that address the thirteenth column cannot be shown, even when it is the one preferred.\<close>

lemma thirteenth_hidden:
  "let cols = map (\<lambda>c. [c]) ''abcdefghijklm'' in defaultSearchVisibleColumns cols (Some [''m'']) = []"
proof -
  define cols :: "string list" where "cols = map (\<lambda>c. [c]) ''abcdefghijklm''"
  have core: "filter isEnrichmentColumn cols = []" "filter (\<lambda>c. \<not> isEnrichmentColumn c) cols = cols"
  proof -
    have "list_all (\<lambda>c. \<not> isEnrichmentColumn [c]) ''abcdefghijklm''" by code_simp
    then show "filter isEnrichmentColumn cols = []" "filter (\<lambda>c. \<not> isEnrichmentColumn c) cols = cols"
      by (simp_all add: cols_def)
  qed
  have "filter (\<lambda>c. c \<in> set cols) priorityEnrich = []"
    by (simp add: cols_def priorityEnrich_def vtLookupColumns_def VT_STAT_SUFFIXES_def vt_column_def)
  then have order: "orderSearchResultColumns cols = take 12 cols"
    using core by (simp add: orderSearchResultColumns_def sorted_enrichment_def) (simp add: cols_def)
  then have "filter (\<lambda>c. \<not> isEnrichmentColumn c) (take 12 cols) = take 12 cols" "filter isEnrichmentColumn (take 12 cols) = []"
    using core by (auto simp: filter_empty_conv filter_id_conv dest: in_set_takeD)
  moreover have "wanted cols (Some [''m'']) = [''m'']"
  proof -
    have "\<not> isEnrichmentColumn ''m''" by code_simp
    then show ?thesis by (simp add: wanted_def get_or_def cols_def)
  qed
  moreover have "orderedVisibleSearchColumns cols [''m''] = []" unfolding orderedVisibleSearchColumns_def order by (simp add: cols_def)
  ultimately show ?thesis
    unfolding Let_def cols_def [symmetric] defaultSearchVisibleColumns_def order wanted_def [symmetric]
    by (simp add: DEFAULT_SEARCH_MAX_CORE_def) (simp add: cols_def)
qed

section \<open>Preferences\<close>

text \<open>
  The columns saved are the ones loaded, without the enrichment columns, if the library reads back what it
  writes; where none remain, the preference is gone.
\<close>

lemma columns_saved:
  assumes "\<And>j. parse (stringify j) = Some j" and "\<And>j. stringify j \<noteq> []"
    and "list_all (\<lambda>c. trim c \<noteq> []) cols"
  shows "loadPreferredSearchColumns parse (savePreferredSearchColumns stringify ls cols)
     = (let core = filter (\<lambda>c. \<not> isEnrichmentColumn c) cols in if core = [] then None else Some core)"
proof -
  have "text_items (map JStr cs) = cs" if "list_all (\<lambda>c. trim c \<noteq> []) cs" for cs
    using that by (induction cs) (simp_all add: text_items_def List.map_filter_simps)
  moreover have "list_all (\<lambda>c. trim c \<noteq> []) (filter (\<lambda>c. \<not> isEnrichmentColumn c) cols)" using assms(3) by (auto simp: list_all_iff)
  moreover have "truthy (Some (stringify j)) = Some (stringify j)" for j
    using assms(2) [of j] by (simp add: truthy_def split: list.splits)
  ultimately show ?thesis
    by (simp add: loadPreferredSearchColumns_def savePreferredSearchColumns_def Let_def assms(1) truthy_def [of None])
qed

end
