(* ===== verification/EnrichmentFacts.thy ===== *)
theory EnrichmentFacts
  imports ColumnFacts
begin

text \<open>
  Theorems on the lookups that \<open>enrichment.ts\<close> adds to a query: each goes in once, in one place, and
  the stages that were there stay in their order.
\<close>

section \<open>Commands\<close>

lemma test_anchored: "anchored r \<Longrightarrow> test r s \<longleftrightarrow> matches r ([], s, []) \<noteq> []"
  by (cases "matches r ([], s, [])") (auto simp: test_def exec_anchored_eq match_at_def)

lemma test_command: "test (command_re name) s \<longleftrightarrow> matches (command_re name) ([], s, []) \<noteq> []"
  by (rule test_anchored) (simp add: command_re_def)

lemma command_first: "test (command_re (c # name)) s \<Longrightarrow> s \<noteq> [] \<and> lower_char (hd s) = lower_char c"
  unfolding test_command unfolding command_re_def
  by (cases s) (auto simp: behind_def ChrI_def split: if_splits)

lemma first_letters: "lower_char (CHR ''f'') = CHR ''f''" "lower_char (CHR ''l'') = CHR ''l''" "lower_char (CHR ''s'') = CHR ''s''"
  by code_simp+

lemma fields_only:
  "test (command_re ''fields'') p \<Longrightarrow> \<not> test (command_re ''lookup'') p"
  "test (command_re ''fields'') p \<Longrightarrow> \<not> test (command_re ''stats'') p"
  using command_first [of "CHR ''f''" "''ields''" p] command_first [of "CHR ''l''" "''ookup''" p]
    command_first [of "CHR ''s''" "''tats''" p] first_letters by auto

definition LOOKUPS :: "string list" where
  "LOOKUPS = [''lookup src_ip'', ''lookup geo dest_ip'', ''lookup vt src_ip'', ''lookup vt dest_ip'',
     ''lookup vt destination_domain'', ''lookup vt file_hash'', ''lookup file_hash'', ''lookup play bundle_id'']"

lemma stage_commands: "set (map ls_command (enrichmentLookupStages providers)) \<subseteq> set LOOKUPS"
proof -
  have opt: "list_all P xs \<Longrightarrow> list_all P (if b then xs else [])" for P b and xs :: "LookupStage list" by simp
  have "list_all (\<lambda>s. ls_command s \<in> set LOOKUPS) (provider_stages p)" for p
    unfolding provider_stages_def Let_def
    by (intro list_all_append [THEN iffD2] conjI opt)
      (simp_all add: stage_def LOOKUPS_def VT_FIELDS_def PLAY_FIELDS_def)
  then have listed: "ls_command s \<in> set LOOKUPS" if "s \<in> set (provider_stages p)" for p s
    using that by (simp add: list_all_iff)
  have "ls_command s \<in> set LOOKUPS" if s: "s \<in> set (enrichmentLookupStages providers)" for s
  proof -
    have "s \<in> set (concat (map provider_stages (filter ep_enabled providers)))"
      using s first_of_keys_facts [of "\<lambda>s. to_lower (ls_command s)" "[]" "concat (map provider_stages (filter ep_enabled providers))"]
      unfolding enrichmentLookupStages_def by (simp only: subset_iff)
    then obtain p where "s \<in> set (provider_stages p)" by auto
    then show ?thesis by (rule listed)
  qed
  then show ?thesis by auto
qed

lemma lookup_commands: "list_all (test (command_re ''lookup'')) LOOKUPS"
  by code_simp

lemma stage_lookup: "s \<in> set (enrichmentLookupStages providers) \<Longrightarrow> test (command_re ''lookup'') (ls_command s)"
  using stage_commands [of providers] lookup_commands by (auto simp: list_all_iff)

lemma lookup_only:
  "test (command_re ''lookup'') p \<Longrightarrow> \<not> test (command_re ''stats'') p"
  "test (command_re ''lookup'') p \<Longrightarrow> \<not> test (command_re ''fields'') p"
  using command_first [of "CHR ''f''" "''ields''" p] command_first [of "CHR ''l''" "''ookup''" p]
    command_first [of "CHR ''s''" "''tats''" p] first_letters by auto

section \<open>The new pipeline\<close>

lemma find_index_None: "find_index P xs = None \<longleftrightarrow> list_all (\<lambda>x. \<not> P x) xs"
  by (induction xs) auto

lemma find_index_Some: "find_index P xs = Some i \<Longrightarrow> i < length xs \<and> P (xs ! i)"
  by (induction xs arbitrary: i) (auto split: if_splits simp: less_Suc_eq_0_disj)

text \<open>What is missing, and the fields stage with the new columns.\<close>

definition missing :: "LookupStage list \<Rightarrow> string list \<Rightarrow> LookupStage list" where
  "missing stages parts = filter (\<lambda>s. to_lower (ls_command s) \<notin> set (existingLookupCommands parts)) stages"

definition widened :: "LookupStage list \<Rightarrow> string \<Rightarrow> string \<Rightarrow> bool" where
  "widened added p q \<longleftrightarrow> q = p \<or> (test (command_re ''fields'') p \<and> q = augmentFieldsPart p added)"

lemma missing_commands: "filter (\<lambda>c. to_lower c \<notin> set (existingLookupCommands parts)) (map ls_command stages) = map ls_command (missing stages parts)"
  by (simp add: missing_def filter_map o_def)

lemma missing_added: "filter (\<lambda>s. ls_command s \<in> set (map ls_command (missing stages parts))) stages = missing stages parts"
  unfolding missing_def by (rule filter_cong) auto

lemma augment_fields: "test (command_re ''fields'') p \<Longrightarrow> test (command_re ''fields'') (augmentFieldsPart p stages)"
proof -
  have "test (command_re ''fields'') (''fields '' @ r)" for r
    unfolding test_command unfolding command_re_def
    by (simp add: behind_def ahead_def ChrI_def lower_char_def is_upper_def code_def at_word_def is_word_def is_digit_def is_lower_def)
  then show "test (command_re ''fields'') p \<Longrightarrow> test (command_re ''fields'') (augmentFieldsPart p stages)"
    by (simp add: augmentFieldsPart_def Let_def)
qed

lemma plain_lookups_shape:
  assumes "plain_lookups stages parts = Some new"
    and "list_all (\<lambda>s. test (command_re ''lookup'') (ls_command s)) stages"
  obtains i old where "new = take i old @ map ls_command (missing stages parts) @ drop i old"
    and "list_all2 (widened (missing stages parts)) parts old" and "i \<le> length parts"
proof -
  let ?cmds = "map ls_command (missing stages parts)"
  let ?i = "insertIndexForLookups parts"
  let ?spliced = "take ?i parts @ ?cmds @ drop ?i parts"
  have i: "?i \<le> length parts"
    using find_index_Some by (fastforce simp: insertIndexForLookups_def split: option.splits)
  have same: "list_all2 (widened (missing stages parts)) xs xs" for xs
    by (simp add: list_all2_same widened_def)
  have some: "missing stages parts \<noteq> []"
    using assms(1) unfolding plain_lookups_def Let_def missing_commands by (auto split: if_splits)
  have new: "new = (case find_index (test (command_re ''fields'')) ?spliced of None \<Rightarrow> ?spliced
      | Some j \<Rightarrow> ?spliced[j := augmentFieldsPart (?spliced ! j) (missing stages parts)])"
    using assms(1) some unfolding plain_lookups_def Let_def missing_commands missing_added splice_def
    by (auto split: if_splits option.splits)
  show thesis
  proof (cases "find_index (test (command_re ''fields'')) ?spliced")
    case None
    then show thesis using that [of ?i parts] new i same by simp
  next
    case (Some j)
    let ?q = "augmentFieldsPart (?spliced ! j) (missing stages parts)"
    have j: "j < length ?spliced" "test (command_re ''fields'') (?spliced ! j)" using find_index_Some [OF Some] by auto
    have not_cmd: "\<not> (length (take ?i parts) \<le> j \<and> j < length (take ?i parts) + length ?cmds)"
    proof
      assume r: "length (take ?i parts) \<le> j \<and> j < length (take ?i parts) + length ?cmds"
      then have r: "?i \<le> j" "j - ?i < length ?cmds" using i by auto
      then have "?spliced ! j = ?cmds ! (j - ?i)" using i by (simp add: nth_append)
      then have "?spliced ! j \<in> set ?cmds" using r(2) by (simp only: nth_mem)
      then show False using j(2) assms(2) lookup_only(2) by (auto simp: missing_def list_all_iff)
    qed
    have upd: "list_all2 (widened (missing stages parts)) xs (xs[k := augmentFieldsPart (xs ! k) (missing stages parts)])"
      if "test (command_re ''fields'') (xs ! k)" for xs k
    proof -
      have "widened (missing stages parts) (xs ! n) (xs[k := augmentFieldsPart (xs ! k) (missing stages parts)] ! n)"
        if "n < length xs" for n
        using that \<open>test (command_re ''fields'') (xs ! k)\<close> by (cases "n = k") (simp_all add: widened_def)
      then show ?thesis by (simp add: list_all2_conv_all_nth)
    qed
    show thesis
    proof (cases "j < ?i")
      case True
      then have "?spliced[j := ?q] = take ?i (parts[j := ?q]) @ ?cmds @ drop ?i (parts[j := ?q])"
        using i by (simp add: list_update_append take_update_swap drop_update_cancel)
      moreover have "?spliced ! j = parts ! j" using True i by (simp add: nth_append)
      ultimately show thesis using that [of ?i "parts[j := ?q]"] new Some j(2) i upd [of parts j] by simp
    next
      case False
      let ?k = "j - length ?cmds"
      have k: "?i + length ?cmds \<le> j" "?i \<le> ?k" using False not_cmd i by auto
      have "(xs @ ys @ zs)[j := q] = xs @ ys @ zs[j - length xs - length ys := q]"
        if "length xs + length ys \<le> j" for xs ys zs :: "string list" and q
        using that by (auto simp: list_update_append)
      from this [of "take ?i parts" ?cmds "drop ?i parts" ?q]
      have "?spliced[j := ?q] = take ?i parts @ ?cmds @ (drop ?i parts)[j - ?i - length ?cmds := ?q]"
        using k i by simp
      moreover have "j - ?i - length ?cmds = ?k - ?i" by simp
      ultimately have "?spliced[j := ?q] = take ?i (parts[?k := ?q]) @ ?cmds @ drop ?i (parts[?k := ?q])"
        using k by (simp only: drop_update_swap take_update_cancel)
      moreover have "?spliced ! j = parts ! ?k" using k i by (auto simp: nth_append)
      ultimately show thesis using that [of ?i "parts[?k := ?q]"] new Some j(2) i upd [of parts ?k] by simp
    qed
  qed
qed


section \<open>What goes wrong\<close>

text \<open>A pipe in quotes takes the query apart: the text searched for is no longer the one typed.\<close>

definition geo_provider :: EnrichmentProvider where
  "geo_provider = \<lparr>ep_id = ''1'', ep_slug = ''geo_lite'', ep_name = ''Geo'', ep_kind = ''geo'', ep_enabled = True,
     ep_covers_fields = [''src_ip'']\<rparr>"

lemma quoted_pipe_split:
  "pipelineParts (''| where m='' @ quoted ''a|b'') = [''where m='' @ [CHR 0x22, CHR ''a''], ''b'' @ [CHR 0x22]]"
  by code_simp

text \<open>Schedules of one shape, every so many hours, are described in minutes or in hours.\<close>

lemma hours_described_as_minutes:
  "describeSyncCron (Some (JStr ''0 */15 * * *'')) = ''every 15 minutes''"
  "describeSyncCron (Some (JStr ''0 */6 * * *'')) = ''every 6 hours''"
  by code_simp+

end
