(* ===== verification/SearchPage.thy ===== *)
theory SearchPage
  imports PackageSnapshot
begin

text \<open>
  Two helpers of the search page: the filter of shown results, \<open>src/mobipwn-web/src/lib/resultFilter.ts\<close>, and
  completion, \<open>mpl-autocomplete.ts\<close> with its word lists. Compiling a user's pattern is the argument
  \<open>compile\<close>: a message of the error, or the function that looks for a match in a text from a position and
  gives its end. A \<open>RegExp\<close> keeps \<open>lastIndex\<close> between two calls of \<open>test\<close>, so the filter is a function of
  that state.
\<close>

section \<open>The filter of results\<close>

datatype ResultFilterMode = Rf_none | Rf_text | Rf_regex

type_synonym pattern = "string \<Rightarrow> nat \<Rightarrow> nat option"
type_synonym RegExpCompiler = "string \<Rightarrow> string \<Rightarrow> string + pattern"

record CompiledResultFilter =
  cf_mode :: ResultFilterMode
  cf_test :: "nat \<Rightarrow> string \<Rightarrow> bool \<times> nat"
  cf_error :: "string option"

definition cellText :: "(Json \<Rightarrow> string) \<Rightarrow> Json option \<Rightarrow> string" where
  "cellText stringify v =
     (case present v of
        None \<Rightarrow> [] | Some (JObj kvs) \<Rightarrow> stringify (JObj kvs) | Some (JArr vs) \<Rightarrow> stringify (JArr vs) | Some w \<Rightarrow> js_text w)"

definition rowHaystack :: "(Json \<Rightarrow> string) \<Rightarrow> Row \<Rightarrow> string list \<Rightarrow> string" where
  "rowHaystack stringify row columns =
     (let cols = (if columns \<noteq> [] then columns else map fst row)
      in join [CHR 0x0A] (map (\<lambda>c. cellText stringify (map_of row c)) cols))"

definition slash_re :: regex where
  "slash_re = Seqs [Bol, Lit ''/'', Grp 1 (Plus Dot), Lit ''/'', Grp 2 (Star (One_of ''gimsuy'')), Eol]"

text \<open>Source and flags of the pattern, if the input is one.\<close>

definition pattern_of :: "string \<Rightarrow> bool \<Rightarrow> (string \<times> string) option" where
  "pattern_of input regexMode =
     (let trimmed = trim input in
      if trimmed = [] then None
      else case exec slash_re trimmed of
             Some m \<Rightarrow>
               (let flags = get_or [] (group 2 m)
                in Some (get_or [] (group 1 m), if contains ''i'' flags then flags else flags @ ''i''))
           | None \<Rightarrow> (if regexMode then Some (trimmed, ''i'') else None))"

text \<open>\<open>re.test(h)\<close> with \<open>lastIndex\<close>: only the flags g and y use and set it.\<close>

definition keeps_index :: "string \<Rightarrow> bool" where
  "keeps_index flags \<longleftrightarrow> CHR ''g'' \<in> set flags \<or> CHR ''y'' \<in> set flags"

definition re_test :: "pattern \<Rightarrow> string \<Rightarrow> nat \<Rightarrow> string \<Rightarrow> bool \<times> nat" where
  "re_test re flags lastIndex h =
     (if \<not> keeps_index flags then (re h 0 \<noteq> None, lastIndex)
      else if lastIndex > length h then (False, 0)
      else case re h lastIndex of None \<Rightarrow> (False, 0) | Some e \<Rightarrow> (True, e))"

definition compileResultFilter :: "RegExpCompiler \<Rightarrow> string \<Rightarrow> bool \<Rightarrow> CompiledResultFilter" where
  "compileResultFilter compile input regexMode =
     (let trimmed = trim input; needle = to_lower trimmed in
      if trimmed = [] then \<lparr>cf_mode = Rf_none, cf_test = (\<lambda>i h. (True, i)), cf_error = None\<rparr>
      else case pattern_of input regexMode of
             Some (source, flags) \<Rightarrow>
               (case compile source flags of
                  Inl msg \<Rightarrow> \<lparr>cf_mode = Rf_regex, cf_test = (\<lambda>i h. (False, i)), cf_error = Some msg\<rparr>
                | Inr re \<Rightarrow> \<lparr>cf_mode = Rf_regex, cf_test = re_test re flags, cf_error = None\<rparr>)
           | None \<Rightarrow> \<lparr>cf_mode = Rf_text, cf_test = (\<lambda>i h. (contains needle (to_lower h), i)), cf_error = None\<rparr>)"

fun filter_loop :: "(nat \<Rightarrow> string \<Rightarrow> bool \<times> nat) \<Rightarrow> (Row \<Rightarrow> string) \<Rightarrow> Row list \<Rightarrow> nat \<Rightarrow> Row list \<times> nat" where
  "filter_loop tst hay [] i = ([], i)"
| "filter_loop tst hay (row # rows) i =
     (let (hit, i1) = tst i (hay row); (out, i2) = filter_loop tst hay rows i1
      in (if hit then row # out else out, i2))"

text \<open>An error is taken as one only if its message is not empty.\<close>

definition filterResultRows ::
  "(Json \<Rightarrow> string) \<Rightarrow> Row list \<Rightarrow> string list \<Rightarrow> CompiledResultFilter \<Rightarrow> nat \<Rightarrow> Row list \<times> nat" where
  "filterResultRows stringify rows columns compiled lastIndex =
     (if cf_mode compiled = Rf_none \<or> truthy (cf_error compiled) \<noteq> None then (rows, lastIndex)
      else filter_loop (cf_test compiled) (\<lambda>row. rowHaystack stringify row columns) rows lastIndex)"

section \<open>Completion\<close>

definition QUERY_KEYWORDS :: "string list" where
  "QUERY_KEYWORDS = [''AND'', ''OR'', ''NOT'', ''IN'', ''LIKE'']"

definition PIPE_COMMANDS :: "string list" where
  "PIPE_COMMANDS = [''where'', ''stats'', ''head'', ''sort'', ''eval'', ''dedup'', ''rex'', ''join'', ''fields'', ''timechart'', ''count'', ''by'']"

definition COMMAND_PARAMS :: "string list" where
  "COMMAND_PARAMS = [''span'', ''limit'', ''as'', ''field'', ''type'', ''inner'', ''left'', ''last'']"

definition EVAL_FUNCTIONS :: "string list" where
  "EVAL_FUNCTIONS = [''if'', ''case'', ''coalesce'', ''now'', ''len'', ''lower'', ''upper'']"

definition MUDM_COLUMNS :: "string list" where
  "MUDM_COLUMNS = [''timestamp'', ''platform'', ''parser'', ''source'', ''ingest_time'', ''source_type'', ''data_type'', ''severity'',
     ''message'', ''bundle_id'', ''device_id'', ''process_name'', ''src_ip'', ''dst_ip'', ''file_hash'', ''host'', ''user'', ''event_type'']"

datatype Context = C_command | C_field | C_keyword

record AutocompleteOption =
  ao_value :: string
  ao_description :: "string option"
  ao_context :: Context

record Autocomplete =
  ac_from :: nat
  ac_options :: "AutocompleteOption list"
  ac_context :: "Context option"

definition option_of :: "Context \<Rightarrow> string \<Rightarrow> AutocompleteOption" where
  "option_of c v = \<lparr>ao_value = v, ao_description = None, ao_context = c\<rparr>"

definition param_option :: "string \<Rightarrow> AutocompleteOption" where
  "param_option v = \<lparr>ao_value = v, ao_description = Some ''parameter'', ao_context = C_field\<rparr>"

text \<open>The text behind the last pipe, if there is one.\<close>

definition after_pipe :: "string \<Rightarrow> string option" where
  "after_pipe before =
     (if CHR ''|'' \<in> set before then Some (rev (takeWhile (\<lambda>c. c \<noteq> CHR ''|'') (rev before))) else None)"

text \<open>\<open>before.match(/[\w.]+$/)\<close>\<close>

definition typed_word :: "string \<Rightarrow> string" where
  "typed_word before = rev (takeWhile (\<lambda>c. is_word c \<or> c = CHR ''.'') (rev before))"

definition completion :: "nat \<Rightarrow> AutocompleteOption list \<Rightarrow> Context \<Rightarrow> Autocomplete option" where
  "completion from options c =
     (if options = [] then None else Some \<lparr>ac_from = from, ac_options = options, ac_context = Some c\<rparr>)"

definition pipe_completion :: "nat \<Rightarrow> nat \<Rightarrow> string \<Rightarrow> string \<Rightarrow> Autocomplete option" where
  "pipe_completion pos from word segment =
     (let trimmed = trim_start segment; cmd = to_lower (takeWhile (\<lambda>c. \<not> is_space c) trimmed);
          opts = map (option_of C_command) (filter (starts_with word) PIPE_COMMANDS);
          params = map param_option (filter (starts_with word) COMMAND_PARAMS)
      in if trimmed = [] then completion pos (map (option_of C_command) PIPE_COMMANDS) C_command
         else case (if cmd = [] \<or> cmd \<in> set PIPE_COMMANDS then completion from opts C_command else None) of
                Some r \<Rightarrow> Some r
              | None \<Rightarrow> (if list_ex is_space trimmed then completion from params C_field else None))"

definition getMplAutocomplete :: "string \<Rightarrow> nat \<Rightarrow> Autocomplete" where
  "getMplAutocomplete doc pos =
     (let before = take pos doc; typed = typed_word before; word = to_lower typed; from = pos - length typed;
          piped = (case after_pipe before of None \<Rightarrow> None | Some segment \<Rightarrow> pipe_completion pos from word segment);
          fields = completion from (map (option_of C_field) (filter (\<lambda>f. starts_with word (to_lower f)) MUDM_COLUMNS)) C_field;
          kws = completion from
            (map (option_of C_keyword) (filter (\<lambda>k. starts_with word (to_lower k)) [''AND'', ''OR'', ''NOT'', ''last''])) C_keyword;
          fns = completion from (map (option_of C_command) (filter (starts_with word) EVAL_FUNCTIONS)) C_command
      in get_or \<lparr>ac_from = from, ac_options = [], ac_context = None\<rparr>
           (or_else piped (or_else fields (or_else kws fns))))"

end
