(* ===== verification/SearchFacts.thy ===== *)
theory SearchFacts
  imports SearchPage
begin

text \<open>
  Theorems on the search page: the filter of results keeps exactly the rows that match unless its pattern
  keeps a position between rows, and a completion extends what was typed.
\<close>

section \<open>The filter\<close>

lemma filter_stateless:
  assumes "\<And>i h. tst i h = (P h, i)"
  shows "filter_loop tst hay rows i = (filter (\<lambda>row. P (hay row)) rows, i)"
  by (induction rows) (simp_all add: assms)

lemma contains_nothing: "contains [] s"
  by (cases s) (simp_all add: starts_with_def)

lemma filter_loop_subset: "set (fst (filter_loop tst hay rows i)) \<subseteq> set rows"
proof (induction rows arbitrary: i)
  case (Cons row rows)
  obtain hit i1 where t: "tst i (hay row) = (hit, i1)" by (cases "tst i (hay row)")
  obtain out i2 where l: "filter_loop tst hay rows i1 = (out, i2)" by (cases "filter_loop tst hay rows i1")
  have "set out \<subseteq> set rows" using Cons [of i1] l by simp
  then show ?case using t l by auto
qed simp

text \<open>
  C29: A text keeps the rows that contain it in any case of letters. A pattern keeps the rows it matches, if
  its flags are without g and y; one that does not compile keeps all rows; no filter adds a row.
\<close>

theorem results_filtered:
  "let out = fst (filterResultRows stringify rows columns (compileResultFilter compile input regexMode) lastIndex);
       hay = (\<lambda>row. rowHaystack stringify row columns)
   in set out \<subseteq> set rows
      \<and> (case pattern_of input regexMode of
           None \<Rightarrow> out = filter (\<lambda>row. contains (to_lower (trim input)) (to_lower (hay row))) rows
         | Some (source, flags) \<Rightarrow>
             (case compile source flags of
                Inl msg \<Rightarrow> out = (if msg = [] then [] else rows)
              | Inr re \<Rightarrow> if keeps_index flags then True else out = filter (\<lambda>row. re (hay row) 0 \<noteq> None) rows))"
proof -
  define hay where "hay = (\<lambda>row. rowHaystack stringify row columns)"
  show ?thesis
  proof (cases "trim input = []")
    case True
    then show ?thesis
      by (simp add: compileResultFilter_def filterResultRows_def pattern_of_def to_lower_def contains_nothing Let_def)
  next
    case False
    show ?thesis
    proof (cases "pattern_of input regexMode")
      case None
      have "filter_loop (\<lambda>i h. (contains (to_lower (trim input)) (to_lower h), i)) hay rows lastIndex
          = (filter (\<lambda>row. contains (to_lower (trim input)) (to_lower (hay row))) rows, lastIndex)"
        by (rule filter_stateless) simp
      with None False show ?thesis
        by (simp add: compileResultFilter_def filterResultRows_def hay_def [symmetric] truthy_def Let_def)
    next
      case (Some sf)
      obtain source flags where sf: "sf = (source, flags)" by (cases sf)
      show ?thesis
      proof (cases "compile source flags")
        case (Inl msg)
        have "filter_loop (\<lambda>i h. (False, i)) hay rows lastIndex = ([], lastIndex)"
          using filter_stateless [of "\<lambda>i h. (False, i)" "\<lambda>h. False" hay rows lastIndex] by simp
        with Some sf False Inl show ?thesis
          by (simp add: compileResultFilter_def filterResultRows_def hay_def [symmetric] truthy_def Let_def split: list.splits)
      next
        case (Inr re)
        have "fst (filter_loop (re_test re flags) hay rows lastIndex) = filter (\<lambda>row. re (hay row) 0 \<noteq> None) rows"
          if "\<not> keeps_index flags"
          using filter_stateless [of "re_test re flags" "\<lambda>h. re h 0 \<noteq> None" hay rows lastIndex] that
          by (simp add: re_test_def)
        with Some sf False Inr show ?thesis
          using filter_loop_subset [of "re_test re flags" hay rows lastIndex]
          by (simp add: compileResultFilter_def filterResultRows_def hay_def [symmetric] truthy_def Let_def)
      qed
    qed
  qed
qed

text \<open>With the flag g every other row that matches is lost: here two rows that are the pattern itself.\<close>

definition letter_a :: RegExpCompiler where
  "letter_a source flags = Inr (\<lambda>h i. if drop i h = ''a'' then Some (length h) else None)"

lemma global_flag_skips:
  "fst (filterResultRows js_text [[(''m'', JStr ''a'')], [(''m'', JStr ''a'')]] [''m''] (compileResultFilter letter_a ''/a/g'' False) 0)
     = [[(''m'', JStr ''a'')]]"
  by code_simp

section \<open>Completion\<close>

lemma lower_words: "list_all (\<lambda>w. to_lower w = w) (PIPE_COMMANDS @ COMMAND_PARAMS @ EVAL_FUNCTIONS)"
  by code_simp

text \<open>What a completion from a position has to be.\<close>

definition completes :: "string \<Rightarrow> nat \<Rightarrow> Autocomplete \<Rightarrow> bool" where
  "completes doc pos r \<longleftrightarrow>
     (let typed = drop (ac_from r) (take pos doc) in
      ac_from r \<le> pos
      \<and> list_all (\<lambda>c. is_word c \<or> c = CHR ''.'') typed
      \<and> list_all (\<lambda>opt. starts_with (to_lower typed) (to_lower (ao_value opt))) (ac_options r)
      \<and> (ac_context r = None) = (ac_options r = []))"

lemma typed_word_end:
  assumes "pos \<le> length doc"
  shows "drop (pos - length (typed_word (take pos doc))) (take pos doc) = typed_word (take pos doc)"
    and "list_all (\<lambda>c. is_word c \<or> c = CHR ''.'') (typed_word (take pos doc))"
    and "length (typed_word (take pos doc)) \<le> pos"
proof -
  define w where "w = takeWhile (\<lambda>c. is_word c \<or> c = CHR ''.'') (rev (take pos doc))"
  have "take pos doc = rev (dropWhile (\<lambda>c. is_word c \<or> c = CHR ''.'') (rev (take pos doc))) @ rev w"
    unfolding w_def by (metis rev_append rev_rev_ident takeWhile_dropWhile_id)
  then obtain a where a: "take pos doc = a @ rev w" by blast
  have len: "length a + length w = pos" using arg_cong [OF a, of length] assms by simp
  then have cut: "pos - length w = length a" by simp
  show "drop (pos - length (typed_word (take pos doc))) (take pos doc) = typed_word (take pos doc)"
    unfolding typed_word_def w_def [symmetric] length_rev cut by (subst a) simp
  show "list_all (\<lambda>c. is_word c \<or> c = CHR ''.'') (typed_word (take pos doc))"
    unfolding typed_word_def list_all_iff set_rev by (auto dest: set_takeWhileD)
  show "length (typed_word (take pos doc)) \<le> pos"
    unfolding typed_word_def w_def [symmetric] using len by simp
qed

lemma completion_extends:
  assumes "completion (pos - length typed) opts c = Some r" and "pos \<le> length doc" and "typed = typed_word (take pos doc)"
    and "list_all (\<lambda>opt. starts_with (to_lower typed) (to_lower (ao_value opt))) opts"
  shows "completes doc pos r"
proof -
  have r: "r = \<lparr>ac_from = pos - length typed, ac_options = opts, ac_context = Some c\<rparr>" "opts \<noteq> []"
    using assms(1) by (simp_all add: completion_def split: if_splits)
  show ?thesis
    using r(2) assms(4) typed_word_end(1,2) [OF assms(2)] unfolding completes_def Let_def r(1) assms(3) by simp
qed

lemma words_extend:
  "list_all (\<lambda>w. to_lower w = w) ws \<Longrightarrow>
     list_all (\<lambda>opt. starts_with v (to_lower (ao_value opt))) (map (option_of c) (filter (starts_with v) ws))
     \<and> list_all (\<lambda>opt. starts_with v (to_lower (ao_value opt))) (map param_option (filter (starts_with v) ws))"
  by (auto simp: list_all_iff option_of_def param_option_def)

text \<open>
  Every option of a completion extends the word in front of the cursor, in any case of letters, and stands
  for that word only; a context is named exactly when there are options.
\<close>

theorem completions_extend:
  "if pos \<le> length doc then completes doc pos (getMplAutocomplete doc pos) else True"
proof -
  have "completes doc pos (getMplAutocomplete doc pos)" if pos: "pos \<le> length doc"
  proof -
    define typed where "typed = typed_word (take pos doc)"
    define start where "start = pos - length typed"
    note rule = completion_extends [OF _ pos typed_def, folded start_def]
    have low: "list_all (\<lambda>w. to_lower w = w) PIPE_COMMANDS" "list_all (\<lambda>w. to_lower w = w) COMMAND_PARAMS"
        "list_all (\<lambda>w. to_lower w = w) EVAL_FUNCTIONS"
      using lower_words by simp_all
    have here: "completes doc pos r" if "completion pos opts c = Some r" for opts c r
      using that pos by (auto simp: completion_def completes_def Let_def starts_with_def to_lower_def list_all_iff split: if_splits)
    have piped: "completes doc pos r" if r: "pipe_completion pos start (to_lower typed) segment = Some r" for segment r
      using r here rule words_extend [OF low(1)] words_extend [OF low(2)]
      unfolding pipe_completion_def Let_def by (auto split: if_splits option.splits)
    have any: "completes doc pos r"
      if "completion start (map (option_of c) (filter (\<lambda>f. starts_with (to_lower typed) (to_lower f)) ws)) c = Some r" for c ws r
      by (rule rule [OF that]) (auto simp: list_all_iff option_of_def)
    have fns: "completes doc pos r"
      if "completion start (map (option_of c) (filter (starts_with (to_lower typed)) EVAL_FUNCTIONS)) c = Some r" for c r
      using that rule words_extend [OF low(3)] by blast
    have none: "completes doc pos \<lparr>ac_from = start, ac_options = [], ac_context = None\<rparr>"
      using typed_word_end [OF pos] by (simp add: completes_def typed_def [symmetric] start_def)
    let ?ok = "pred_option (completes doc pos)"
    have either: "?ok x \<Longrightarrow> ?ok y \<Longrightarrow> ?ok (or_else x y)" for x y by (cases x) (simp_all add: or_else_def)
    have default: "?ok x \<Longrightarrow> completes doc pos d \<Longrightarrow> completes doc pos (get_or d x)" for x d
      by (cases x) (simp_all add: get_or_def)
    have parts: "?ok (case after_pipe (take pos doc) of None \<Rightarrow> None | Some segment \<Rightarrow> pipe_completion pos start (to_lower typed) segment)"
        "?ok (completion start (map (option_of c) (filter (\<lambda>f. starts_with (to_lower typed) (to_lower f)) ws)) c)"
        "?ok (completion start (map (option_of c) (filter (starts_with (to_lower typed)) EVAL_FUNCTIONS)) c)" for c ws
      using piped any fns by (simp_all add: pred_option_def split: option.splits)
    show ?thesis
      unfolding getMplAutocomplete_def Let_def typed_def [symmetric] start_def [symmetric]
      by (intro default either parts none)
  qed
  then show ?thesis by simp
qed

end
