(* ===== verification/PanelData.thy ===== *)
theory PanelData
  imports Enrichment Dashboard
begin

text \<open>
  The data of a dashboard panel: \<open>src/mobipwn-web/src/lib/dashboardPanelData.ts\<close>, the buckets of
  \<open>timelineFormat.ts\<close>, the clause of \<open>timechart\<close> in \<open>mplTimechart.ts\<close> and the colours of
  \<open>timelineChart.ts\<close>. A point of a chart is an object: its time, its label and one member for every series.
  \<open>JSON.stringify\<close>, \<open>localeCompare\<close> and dates are arguments; numbers are whole.
\<close>

section \<open>Values\<close>

definition COUNT_COLS :: "string list" where
  "COUNT_COLS = [''stat'', ''c'', ''count'', ''cnt'', ''value'']"

definition countColumn :: "string list \<Rightarrow> string option" where
  "countColumn columns =
     (case List.find (\<lambda>c. to_lower c \<in> set COUNT_COLS) columns of
        Some c \<Rightarrow> Some c
      | None \<Rightarrow> (case columns of [c] \<Rightarrow> Some c | _ \<Rightarrow> None))"

definition groupColumn :: "string list \<Rightarrow> string option" where
  "groupColumn columns =
     List.find (\<lambda>c. to_lower c \<notin> set COUNT_COLS \<and> c \<noteq> ''bucket'' \<and> c \<noteq> ''series'') columns"

definition numericValue :: "Json option \<Rightarrow> int" where
  "numericValue v = (case v of Some (JNum n) \<Rightarrow> n | Some (JStr s) \<Rightarrow> get_or 0 (js_number s) | _ \<Rightarrow> 0)"

definition formatCell :: "(Json \<Rightarrow> string) \<Rightarrow> Json option \<Rightarrow> string" where
  "formatCell stringify v =
     (case present v of
        None \<Rightarrow> [] | Some (JObj kvs) \<Rightarrow> stringify (JObj kvs) | Some (JArr vs) \<Rightarrow> stringify (JArr vs) | Some w \<Rightarrow> js_text w)"

record BarPoint =
  br_label :: string
  br_value :: int
  br_field :: string

definition toBarData :: "(Json \<Rightarrow> string) \<Rightarrow> Row list \<Rightarrow> string list \<Rightarrow> BarPoint list" where
  "toBarData stringify rows columns =
     (case (truthy (countColumn columns), truthy (groupColumn columns)) of
        (Some countCol, Some groupCol) \<Rightarrow>
          map (\<lambda>r. \<lparr>br_label = formatCell stringify (map_of r groupCol), br_value = numericValue (map_of r countCol),
            br_field = groupCol\<rparr>) rows
      | _ \<Rightarrow> [])"

text \<open>\<open>PiePoint\<close> has the fields of a bar under other names.\<close>

definition toPieData :: "(Json \<Rightarrow> string) \<Rightarrow> Row list \<Rightarrow> string list \<Rightarrow> (string \<times> int \<times> string) list" where
  "toPieData stringify rows columns = map (\<lambda>b. (br_label b, br_value b, br_field b)) (toBarData stringify rows columns)"

section \<open>Time charts\<close>

definition zone_mark_re :: regex where
  "zone_mark_re = Alt (One_of ''zZ'') (Seqs [One_of ''+-'', two_digits, Opt (Lit '':''), two_digits, Eol])"

fun first_space_T :: "string \<Rightarrow> string" where
  "first_space_T [] = []"
| "first_space_T (c # s) = (if c = CHR '' '' then CHR ''T'' # s else c # first_space_T s)"

definition parseBucketTimestamp :: "Dates \<Rightarrow> Json option \<Rightarrow> int option" where
  "parseBucketTimestamp D v =
     (case v of
        Some (JNum n) \<Rightarrow> Some (if n > 0 \<and> n < 1000000000000 then n * 1000 else n)
      | Some (JStr s) \<Rightarrow>
          (let trimmed = trim s; n = int (digits_val 10 trimmed);
               normalized = (if contains ''T'' trimmed then trimmed else first_space_T trimmed);
               withTz = (if test zone_mark_re normalized then normalized else normalized @ ''Z'')
           in if digits_only trimmed then Some (if n < 1000000000000 then n * 1000 else n) else date_parse D withTz)
      | _ \<Rightarrow> None)"

definition timechart_re :: regex where
  "timechart_re = Seqs [Lit ''|'', Star Space, LitI ''timechart'', WordB, Star (None_of ''|'')]"

definition by_series_re :: regex where
  "by_series_re = Seqs [WordB, LitI ''by'', Plus Space,
     Grp 1 (Seq (Cls (\<lambda>c. is_upper c \<or> is_lower c \<or> c = CHR ''_'')) (Star (Cls (\<lambda>c. is_word c \<or> c = CHR ''.''))))]"

text \<open>The member \<open>by\<close> of \<open>parseTimechartHeader\<close>.\<close>

definition timechart_by :: "string \<Rightarrow> string option" where
  "timechart_by query =
     (case exec timechart_re query of
        None \<Rightarrow> None
      | Some m \<Rightarrow> (case exec by_series_re (m_text m) of None \<Rightarrow> None | Some b \<Rightarrow> group 1 b))"

type_synonym TimechartPoint = Row

text \<open>What a row adds: its bucket with the shown text of it, its series and its count.\<close>

definition chart_row :: "(Json \<Rightarrow> string) \<Rightarrow> Dates \<Rightarrow> string \<Rightarrow> Row \<Rightarrow> (int \<times> string \<times> string \<times> int) option" where
  "chart_row stringify D seriesField row =
     (case parseBucketTimestamp D (map_of row ''bucket'') of
        None \<Rightarrow> None
      | Some ts \<Rightarrow>
          Some (ts, formatCell stringify (map_of row ''bucket''),
            formatCell stringify (or_else (present (map_of row ''series''))
              (or_else (present (map_of row seriesField)) (Some (JStr ''all'')))),
            numericValue (or_else (present (map_of row ''c'')) (or_else (present (map_of row ''stat'')) (map_of row ''count'')))))"

definition add_to_bucket :: "TimechartPoint \<Rightarrow> int \<times> string \<times> string \<times> int \<Rightarrow> TimechartPoint" where
  "add_to_bucket p = (\<lambda>(ts, label, series, count). set_member series (JNum count) p)"

definition new_point :: "int \<times> string \<times> string \<times> int \<Rightarrow> TimechartPoint" where
  "new_point r = add_to_bucket [(''timestamp'', JNum (fst r)), (''label'', JStr (fst (snd r)))] r"

definition compare_series :: "(string \<Rightarrow> string \<Rightarrow> int) \<Rightarrow> string \<Rightarrow> string \<Rightarrow> int" where
  "compare_series compare a b = (if a = ''Other'' then 1 else if b = ''Other'' then - 1 else compare a b)"

definition point_time :: "TimechartPoint \<Rightarrow> int" where
  "point_time p = (case map_of p ''timestamp'' of Some (JNum n) \<Rightarrow> n | _ \<Rightarrow> 0)"

text \<open>The loop over the series: a member that is missing or null becomes 0.\<close>

definition zero_missing :: "string list \<Rightarrow> TimechartPoint \<Rightarrow> TimechartPoint" where
  "zero_missing keys p = foldl (\<lambda>p k. if present (map_of p k) = None then set_member k (JNum 0) p else p) p keys"

definition toTimechartData ::
  "(Json \<Rightarrow> string) \<Rightarrow> Dates \<Rightarrow> (string \<Rightarrow> string \<Rightarrow> int) \<Rightarrow> Row list \<Rightarrow> string list \<Rightarrow> string \<Rightarrow> TimechartPoint list \<times> string list" where
  "toTimechartData stringify D compare rows columns query =
     (let seriesField = (if ''series'' \<in> set columns then ''series'' else get_or ''series'' (timechart_by query));
          entries = List.map_filter (chart_row stringify D seriesField) rows;
          buckets = map snd (group_rows (\<lambda>r. Some (fst r)) new_point add_to_bucket entries);
          seriesKeys = js_sort (compare_series compare) (first_of_keys (\<lambda>s. s) [] (map (\<lambda>(ts, label, series, n). series) entries));
          data = js_sort (\<lambda>a b. point_time a - point_time b) buckets
      in (map (zero_missing seriesKeys) data, seriesKeys))"

section \<open>The kind of chart\<close>

datatype SingleValue = Sv_none | Sv_number int | Sv_text string

definition singleValue :: "(Json \<Rightarrow> string) \<Rightarrow> Row list \<Rightarrow> string list \<Rightarrow> SingleValue" where
  "singleValue stringify rows columns =
     (case rows of
        [] \<Rightarrow> Sv_none
      | r # _ \<Rightarrow>
          (case truthy (or_else (countColumn columns) (case columns of c # _ \<Rightarrow> Some c | [] \<Rightarrow> None)) of
             None \<Rightarrow> Sv_none
           | Some col \<Rightarrow> (case map_of r col of Some (JNum n) \<Rightarrow> Sv_number n | Some (JStr s) \<Rightarrow> Sv_text s
               | v \<Rightarrow> Sv_text (formatCell stringify v))))"

definition isTimechartRows :: "Row list \<Rightarrow> string list \<Rightarrow> bool" where
  "isTimechartRows rows columns \<longleftrightarrow>
     length rows > 0 \<and> ''bucket'' \<in> set columns \<and> (''c'' \<in> set columns \<or> ''stat'' \<in> set columns)"

definition head_stage_re :: regex where
  "head_stage_re = Seqs [Lit ''|'', Star Space, LitI ''head'', WordB]"

definition stats_word_re :: regex where
  "stats_word_re = Seqs [WordB, LitI ''stats'', WordB]"

definition effectiveViz :: "PanelViz \<Rightarrow> Row list \<Rightarrow> string list \<Rightarrow> string \<Rightarrow> PanelViz" where
  "effectiveViz requested rows columns query =
     (if requested = V_timechart \<or> isTimechartRows rows columns then V_timechart
      else if requested = V_single_value then V_single_value
      else if requested = V_table then V_table
      else if requested = V_pie then V_pie
      else if length columns \<le> 2 \<and> length rows \<le> 1 \<and> requested = V_bar then V_single_value
      else if test head_stage_re query \<and> \<not> test stats_word_re query then V_table
      else requested)"

definition bucketIntervalMs :: "int list \<Rightarrow> int" where
  "bucketIntervalMs timestamps =
     (let intervals = sort (map (\<lambda>(a, b). b - a) (zip timestamps (tl timestamps)));
          middle = intervals ! (length intervals div 2)
      in if length timestamps < 2 then 60 * 60 * 1000 else if middle = 0 then 60 * 60 * 1000 else middle)"

definition palette :: "string list" where
  "palette = [''#5EE7F0'', ''#FB7185'', ''#FBBF24'', ''#A78BFA'', ''#34D399'', ''#60A5FA'', ''#FB923C'', ''#F472B6'', ''#22D3EE'', ''#C084FC'']"

definition seriesColorMap :: "string list \<Rightarrow> (string \<times> string) list" where
  "seriesColorMap seriesKeys =
     foldl (\<lambda>m (i, k). map_upsert k (\<lambda>v. if k = ''Other'' then ''#71717A'' else palette ! (i mod length palette))
         (if k = ''Other'' then ''#71717A'' else palette ! (i mod length palette)) m)
       [] (indexed seriesKeys)"

end
