(* ===== verification/PanelFacts.thy ===== *)
theory PanelFacts
  imports PanelData
begin

text \<open>
  Theorems on the data of a chart: one point for every bucket in the order of time, with the count of
  every series in it, unless a series is named like a member of the point itself.
\<close>

lemma map_of_set_member [simp]: "map_of (set_member k v row) k' = (if k' = k then Some v else map_of row k')"
proof (cases "map_of row k = None")
  case False
  have "map_of (map (\<lambda>(j, w). (j, if j = k then v else w)) row) k' = (if k' = k \<and> map_of row k \<noteq> None then Some v else map_of row k')"
    by (induction row) auto
  then show ?thesis unfolding set_member_def if_not_P [OF False] using False by simp
qed (auto simp: set_member_def map_add_def split: option.splits)

type_synonym Entry = "int \<times> string \<times> string \<times> int"

abbreviation entry_series :: "Entry \<Rightarrow> string" where
  "entry_series e \<equiv> fst (snd (snd e))"

abbreviation entry_count :: "Entry \<Rightarrow> int" where
  "entry_count e \<equiv> snd (snd (snd e))"

text \<open>The entries of a bucket and a series: the last one counts.\<close>

definition cell :: "Entry list \<Rightarrow> int \<Rightarrow> string \<Rightarrow> int" where
  "cell es0 t k =
     (case filter (\<lambda>e. fst e = t \<and> entry_series e = k) es0 of [] \<Rightarrow> 0 | e # es \<Rightarrow> entry_count (last (e # es)))"

lemma add_member: "map_of (add_to_bucket p e) k = (if k = entry_series e then Some (JNum (entry_count e)) else map_of p k)"
  by (cases e) (simp add: add_to_bucket_def)

lemma bucket_member:
  "map_of (foldl add_to_bucket p es) k =
     (case filter (\<lambda>e. entry_series e = k) es of [] \<Rightarrow> map_of p k | e # rest \<Rightarrow> Some (JNum (entry_count (last (e # rest)))))"
proof (induction es rule: rev_induct)
  case (snoc e es)
  then show ?case by (auto simp: add_member split: list.splits)
qed simp

definition chart_buckets :: "Entry list \<Rightarrow> (int \<times> TimechartPoint) list" where
  "chart_buckets es0 = group_rows (\<lambda>r. Some (fst r)) new_point add_to_bucket es0"

lemma bucket_of:
  assumes "(t, p) \<in> set (chart_buckets es0)"
  shows "map_of p k =
     (case filter (\<lambda>e. fst e = t \<and> entry_series e = k) es0 of
        [] \<Rightarrow> (if k = ''timestamp'' then Some (JNum t) else if k = ''label'' then map_of p ''label'' else None)
      | e # rest \<Rightarrow> Some (JNum (entry_count (last (e # rest)))))"
proof -
  obtain r rs where f: "filter (\<lambda>e. fst e = t) es0 = r # rs" and p: "p = foldl add_to_bucket (new_point r) rs"
    using assms unfolding chart_buckets_def group_rows_member by (auto simp: group_of_def split: list.splits)
  define p0 where "p0 = [(''timestamp'', JNum t), (''label'', JStr (fst (snd r)))]"
  have "r \<in> set (filter (\<lambda>e. fst e = t) es0)" by (simp add: f)
  then have "fst r = t" by simp
  then have "p = foldl add_to_bucket p0 (r # rs)" by (simp add: p p0_def new_point_def)
  moreover have "filter (\<lambda>e. fst e = t \<and> entry_series e = k) es0 = filter (\<lambda>e. entry_series e = k) (r # rs)"
    using arg_cong [OF f, of "filter (\<lambda>e. entry_series e = k)"] by (simp add: conj_commute)
  ultimately show ?thesis
    using bucket_member [of p0 "r # rs" k] bucket_member [of p0 "r # rs" "''label''"]
    by (auto simp: p0_def split: list.splits)
qed

lemma zero_member:
  "map_of (zero_missing keys p) k =
     (if k \<in> set keys \<and> present (map_of p k) = None then Some (JNum 0) else map_of p k)"
proof (induction keys arbitrary: p)
  case (Cons key keys)
  have zero: "present (Some (JNum 0)) = Some (JNum 0)" by (simp add: present_def)
  show ?case
    using Cons [of "if present (map_of p key) = None then set_member key (JNum 0) p else p"] zero
    by (auto simp: zero_missing_def)
qed (simp add: zero_missing_def)

definition free_series :: "Entry list \<Rightarrow> bool" where
  "free_series es0 \<longleftrightarrow> list_all (\<lambda>e. entry_series e \<noteq> ''timestamp'' \<and> entry_series e \<noteq> ''label'') es0"

lemma bucket_time:
  assumes "free_series es0" and "(t, p) \<in> set (chart_buckets es0)"
  shows "point_time p = t"
proof -
  have "filter (\<lambda>e. fst e = t \<and> entry_series e = ''timestamp'') es0 = []"
    using assms(1) by (auto simp: free_series_def list_all_iff filter_empty_conv)
  then show ?thesis using bucket_of [OF assms(2), of "''timestamp''"] by (simp add: point_time_def)
qed

lemma bucket_cell:
  assumes "free_series es0" and "(t, p) \<in> set (chart_buckets es0)" and "k \<in> set keys" and "k \<in> entry_series ` set es0"
  shows "map_of (zero_missing keys p) k = Some (JNum (cell es0 t k))"
proof -
  have "k \<noteq> ''timestamp''" "k \<noteq> ''label''" using assms(1,4) by (auto simp: free_series_def list_all_iff)
  then show ?thesis
    using bucket_of [OF assms(2), of k] assms(3) by (auto simp: zero_member cell_def present_def split: list.splits)
qed

interpretation by_time: comparator "\<lambda>a b. point_time a - point_time b"
  by unfold_locales auto

definition chart_entries :: "(Json \<Rightarrow> string) \<Rightarrow> Dates \<Rightarrow> Row list \<Rightarrow> string list \<Rightarrow> string \<Rightarrow> Entry list" where
  "chart_entries stringify D rows columns query =
     List.map_filter (chart_row stringify D (if ''series'' \<in> set columns then ''series'' else get_or ''series'' (timechart_by query))) rows"


text \<open>A series called timestamp takes the place of the time of its points.\<close>

lemma series_takes_time:
  "toTimechartData js_text \<lparr>date_parse = \<lambda>s. None, full_year = \<lambda>d. 2024, locale_text = int_str, iso_text = int_str, now_ms = 0\<rparr>
     (\<lambda>a b. 0) [[(''bucket'', JNum 0), (''series'', JStr ''timestamp''), (''c'', JNum 5)]] [''bucket'', ''series'', ''c''] []
     = ([[(''timestamp'', JNum 5), (''label'', JStr ''0'')]], [''timestamp''])"
  by code_simp

end
