(* ===== verification/LatestMap.thy ===== *)
theory LatestMap
  imports Grouping
begin

text \<open>
  A \<open>Map\<close> that is filled with \<open>set\<close>: a key keeps its first place and has its last value. The locale
  \<open>upsert_fold\<close> is the contract of a loop that sets at most one key a round.
\<close>

definition map_set :: "'k \<Rightarrow> 'v \<Rightarrow> ('k \<times> 'v) list \<Rightarrow> ('k \<times> 'v) list" where
  "map_set k v m = map_upsert k (\<lambda>_. v) v m"

definition set_if :: "('k \<times> 'v) list \<Rightarrow> ('k \<times> 'v) option \<Rightarrow> ('k \<times> 'v) list" where
  "set_if m e = (case e of None \<Rightarrow> m | Some (k, v) \<Rightarrow> map_set k v m)"

definition latest :: "('k \<times> 'v) list \<Rightarrow> ('k \<times> 'v) list" where
  "latest ps = foldl (\<lambda>m (k, v). map_set k v m) [] ps"

lemma latest_snoc: "latest (ps @ [(k, v)]) = map_set k v (latest ps)"
  by (simp add: latest_def)

lemma map_of_set: "map_of (map_set k v m) k' = (if k' = k then Some v else map_of m k')"
  by (simp add: map_set_def map_of_upsert split: option.splits)

lemma map_of_latest: "map_of (latest ps) k = map_of (rev ps) k"
proof (induction ps rule: rev_induct)
  case Nil
  then show ?case by (simp add: latest_def)
next
  case (snoc p ps)
  then show ?case by (cases p) (simp add: latest_snoc map_of_set)
qed

lemma latest_distinct: "distinct (map fst (latest ps))"
proof (induction ps rule: rev_induct)
  case Nil
  then show ?case by (simp add: latest_def)
next
  case (snoc p ps)
  then show ?case by (cases p) (simp add: latest_snoc map_set_def distinct_upsert)
qed

lemma latest_member: "(k, v) \<in> set (latest ps) \<longleftrightarrow> map_of (rev ps) k = Some v"
  using latest_distinct map_of_latest by (metis map_of_eq_Some_iff)

lemma latest_keys: "fst ` set (latest ps) = fst ` set ps"
  using dom_map_of_conv_image_fst [of "latest ps"] dom_map_of_conv_image_fst [of "rev ps"]
  by (simp add: map_of_latest dom_def)

lemma latest_values: "snd ` set (latest ps) = ran (map_of (rev ps))"
  using latest_member by (force simp: ran_def)

lemma latest_values_own_key:
  assumes "\<And>k v. (k, v) \<in> set ps \<Longrightarrow> k = f v"
  shows "distinct (map f (map snd (latest ps)))"
proof -
  have "k = f v" if "(k, v) \<in> set (latest ps)" for k v
    using that assms map_of_SomeD [of "rev ps" k v] by (simp add: latest_member)
  then have "map f (map snd (latest ps)) = map fst (latest ps)" by force
  then show ?thesis using latest_distinct [of ps] by (simp only:)
qed

text \<open>A group in terms of its rows.\<close>

lemma group_of_rows:
  assumes "group_of key fresh merge rows k = Some b"
  obtains r rs where "filter (\<lambda>r. key r = Some k) rows = r # rs" and "b = foldl merge (fresh r) rs"
  using assms by (cases "filter (\<lambda>r. key r = Some k) rows") (simp_all add: group_of_def)

text \<open>A loop whose state has a \<open>Map\<close>: what a row sets is a function of the row.\<close>

locale upsert_fold =
  fixes step :: "'s \<Rightarrow> 'r \<Rightarrow> 's" and view :: "'s \<Rightarrow> ('k \<times> 'v) list" and entry :: "'r \<Rightarrow> ('k \<times> 'v) option"
  assumes view_step: "view (step st r) = set_if (view st) (entry r)"
begin

lemma view_fold: "view st = [] \<Longrightarrow> view (foldl step st rows) = latest (List.map_filter entry rows)"
proof (induction rows rule: rev_induct)
  case Nil
  then show ?case by (simp add: latest_def map_filter_simps)
next
  case (snoc r rows)
  moreover have "List.map_filter entry (rows @ [r]) = List.map_filter entry rows @ (case entry r of None \<Rightarrow> [] | Some e \<Rightarrow> [e])"
    by (simp add: List.map_filter_def split: option.splits)
  ultimately show ?case by (auto simp: view_step set_if_def latest_snoc split: option.splits)
qed

end

end
