(* ===== verification/Accounts.thy ===== *)
theory Accounts
  imports CrashTraces LatestMap Ordering
begin

text \<open>
  Accounts and users of a device, \<open>src/mobipwn-web/src/lib/accountSnapshot.ts\<close>. The loop over the rows
  is a fold: \<open>rowBranch\<close> is the chain of conditions of its body, each of whose branches ends the round.
  \<open>localeCompare\<close> is the argument \<open>compare\<close>.

  What the snapshot of accounts says of the rows: the four maps are clients of \<open>upsert_fold\<close>, so the last
  row of a key counts; the owner is the last name, or else the first address.
\<close>

record AccountEntry =
  ac_accountName :: string
  ac_accountType :: string
  ac_email :: string
  ac_userId :: string
  ac_userName :: string

record AndroidUserEntry =
  us_userId :: string
  us_userName :: string
  us_userFlags :: string
  us_userType :: string
  us_isPrimary :: bool
  us_lastLoggedIn :: string

record LinkedDeviceEntry =
  ld_serial :: string
  ld_name :: string
  ld_model :: string
  ld_osVersion :: string

record ManagedOrganizationEntry =
  mo_email :: string
  mo_organizationName :: string
  mo_department :: string

record AccountSnapshot =
  sn_ownerName :: string
  sn_currentUser :: string
  sn_accounts :: "AccountEntry list"
  sn_users :: "AndroidUserEntry list"
  sn_linkedDevices :: "LinkedDeviceEntry list"
  sn_managedOrganizations :: "ManagedOrganizationEntry list"
  sn_lockdownMode :: "bool option"
  sn_sectionFound :: bool

section \<open>Reading a row\<close>

definition dataTypeOf :: "JsonParse \<Rightarrow> Row \<Rightarrow> string" where
  "dataTypeOf parse row = to_lower (or_str (extField parse row ''data_type'') (strField row ''data_type''))"

definition eventTypeOf :: "JsonParse \<Rightarrow> Row \<Rightarrow> string" where
  "eventTypeOf parse row = to_lower (or_str (extField parse row ''event_type'') (strField row ''action''))"

definition isIdentityParser :: "string \<Rightarrow> bool" where
  "isIdentityParser parser \<longleftrightarrow> parser = ''account'' \<or> parser = ''accounts''"

definition RECORD_TYPES :: "string list" where
  "RECORD_TYPES = [''account'', ''owner_name'', ''android_user'', ''linked_device'', ''lockdown_mode'']"

definition parseAccount :: "JsonParse \<Rightarrow> Row \<Rightarrow> AccountEntry option" where
  "parseAccount parse row =
     (let ext = extField parse row;
          own = (\<lambda>key. trim (text_or_none (map_of (parseExt parse row) key)));
          accountName = or_texts [ext ''account_name'', ext ''email'', ext ''account_id'', ext ''phone'',
            strField row ''app_name'', own ''account_name''];
          accountType = or_texts [ext ''account_type'', strField row ''action'', own ''account_type''];
          email = or_str (ext ''email'') (if contains ''@'' accountName then accountName else [])
      in if accountName = [] \<and> (accountType = [] \<or> accountType \<in> set RECORD_TYPES) then None
         else Some \<lparr>ac_accountName = or_str accountName em_dash,
           ac_accountType = (if accountType = ''account'' then [] else accountType), ac_email = email,
           ac_userId = or_str (ext ''user_id'') (strField row ''user''), ac_userName = ext ''user_name''\<rparr>)"

definition parseUser :: "JsonParse \<Rightarrow> Row \<Rightarrow> AndroidUserEntry option" where
  "parseUser parse row =
     (let ext = extField parse row; userId = ext ''user_id'';
          userName = or_texts [ext ''user_name'', strField row ''user'', strField row ''app_name''];
          primary = ext ''is_primary''
      in if userId = [] \<and> userName = [] then None
         else Some \<lparr>us_userId = or_str userId ''?'', us_userName = or_str userName ''user'',
           us_userFlags = or_str (ext ''user_flags'') (ext ''flags_detail''), us_userType = ext ''user_type'',
           us_isPrimary = (primary = ''true'' \<or> primary = ''1''), us_lastLoggedIn = ext ''last_logged_in''\<rparr>)"

definition parseLinkedDevice :: "JsonParse \<Rightarrow> Row \<Rightarrow> LinkedDeviceEntry option" where
  "parseLinkedDevice parse row =
     (let ext = extField parse row;
          serial = or_texts [ext ''serial'', ext ''device_id'', strField row ''device_id''];
          name = or_str (ext ''device_name'') (strField row ''app_name'');
          model = or_str (ext ''device_model'') (strField row ''device_model'');
          osVersion = or_str (ext ''os_version'') (strField row ''os_version'')
      in if serial = [] \<and> name = [] \<and> model = [] then None
         else Some \<lparr>ld_serial = serial, ld_name = name, ld_model = model, ld_osVersion = osVersion\<rparr>)"

section \<open>The loop over the rows\<close>

datatype Branch = B_skip | B_lockdown | B_organization | B_owner_email | B_activation | B_owner | B_device | B_user | B_account | B_other

definition rowBranch :: "JsonParse \<Rightarrow> Row \<Rightarrow> Branch" where
  "rowBranch parse row =
     (let parser = to_lower (strField row ''parser''); ext = extField parse row;
          dt = (\<lambda>s. contains s (dataTypeOf parse row)); et = eventTypeOf parse row
      in if parser \<noteq> [] \<and> \<not> isIdentityParser parser then B_skip
         else if et = ''lockdown_mode'' \<or> dt '':lockdown_mode'' then B_lockdown
         else if dt '':organization_email'' \<or> et = ''organization_email'' then B_organization
         else if dt '':owner_email'' \<or> et = ''owner_email'' then B_owner_email
         else if dt '':activation_lock_username'' \<or> et = ''activation_lock_username'' \<or> ext ''account_type'' = ''activation_lock''
         then B_activation
         else if (dt '':owner'' \<and> \<not> dt ''owner_email'') \<or> et = ''owner_name'' then B_owner
         else if dt '':linked_device'' \<or> et = ''linked_device'' then B_device
         else if dt '':user'' \<or> et = ''android_user'' then B_user
         else if dt '':account'' \<or> dt '':transparency_contact'' \<or> et = ''account'' \<or> et = ''apple_account''
           \<or> et = ''transparency_contact'' \<or> ext ''account_name'' \<noteq> [] \<or> ext ''email'' \<noteq> [] then B_account
         else B_other)"

definition row_email :: "JsonParse \<Rightarrow> Row \<Rightarrow> string" where
  "row_email parse row = or_str (extField parse row ''email'') (extField parse row ''account_name'')"

definition owner_of :: "JsonParse \<Rightarrow> Row \<Rightarrow> string" where
  "owner_of parse row = or_texts [extField parse row ''owner_name'', strField row ''app_name'', strField row ''user'']"

definition current_of :: "JsonParse \<Rightarrow> Row \<Rightarrow> string" where
  "current_of parse row = or_str (extField parse row ''current_user'') (extField parse row ''user_id'')"

definition lockdown_of :: "JsonParse \<Rightarrow> Row \<Rightarrow> bool option" where
  "lockdown_of parse row =
     (let raw = extField parse row ''lockdown_mode''
      in if raw = ''true'' \<or> raw = ''1'' then Some True else if raw = ''false'' \<or> raw = ''0'' then Some False else None)"

text \<open>What a row sets in the four maps, with its key.\<close>

definition account_set :: "JsonParse \<Rightarrow> Row \<Rightarrow> (string \<times> AccountEntry) option" where
  "account_set parse row =
     (let key = (\<lambda>a b. a @ '':'' @ b) in
      case rowBranch parse row of
        B_owner_email \<Rightarrow>
          (if row_email parse row = [] then None
           else map_option (\<lambda>a. (key (or_str (ac_accountType a) ''owner'') (ac_accountName a), a)) (parseAccount parse row))
      | B_activation \<Rightarrow>
          (if row_email parse row = [] then None
           else map_option (\<lambda>a. (key ''activation_lock'' (ac_accountName a), a\<lparr>ac_accountType := ''activation_lock''\<rparr>))
             (parseAccount parse row))
      | B_account \<Rightarrow>
          map_option (\<lambda>a. (key (ac_userId a) (key (ac_accountType a) (ac_accountName a)), a)) (parseAccount parse row)
      | _ \<Rightarrow> None)"

definition user_set :: "JsonParse \<Rightarrow> Row \<Rightarrow> (string \<times> AndroidUserEntry) option" where
  "user_set parse row =
     (if rowBranch parse row = B_user then map_option (\<lambda>u. (us_userId u, u)) (parseUser parse row) else None)"

definition device_set :: "JsonParse \<Rightarrow> Row \<Rightarrow> (string \<times> LinkedDeviceEntry) option" where
  "device_set parse row =
     (if rowBranch parse row = B_device
      then map_option (\<lambda>d. (or_texts [ld_serial d, ld_name d, ld_model d], d)) (parseLinkedDevice parse row) else None)"

definition managed_set :: "JsonParse \<Rightarrow> Row \<Rightarrow> (string \<times> ManagedOrganizationEntry) option" where
  "managed_set parse row =
     (let email = row_email parse row; organizationName = extField parse row ''organization_name''
      in if rowBranch parse row = B_organization \<and> (email \<noteq> [] \<or> organizationName \<noteq> [])
         then Some (organizationName @ '':'' @ email,
           \<lparr>mo_email = email, mo_organizationName = organizationName, mo_department = extField parse row ''organization_department''\<rparr>)
         else None)"

record AccountState =
  st_owner :: string
  st_current :: string
  st_accounts :: "(string \<times> AccountEntry) list"
  st_users :: "(string \<times> AndroidUserEntry) list"
  st_devices :: "(string \<times> LinkedDeviceEntry) list"
  st_managed :: "(string \<times> ManagedOrganizationEntry) list"
  st_lockdown :: "bool option"
  st_found :: bool

definition no_accounts :: AccountState where
  "no_accounts = \<lparr>st_owner = [], st_current = [], st_accounts = [], st_users = [], st_devices = [], st_managed = [],
     st_lockdown = None, st_found = False\<rparr>"

definition account_step :: "JsonParse \<Rightarrow> AccountState \<Rightarrow> Row \<Rightarrow> AccountState" where
  "account_step parse st row =
     (let b = rowBranch parse row; email = row_email parse row in
      st\<lparr>st_owner :=
           (if b = B_owner then or_str (owner_of parse row) (st_owner st)
            else if b = B_owner_email \<or> b = B_activation then or_str (st_owner st) email
            else st_owner st),
         st_current := (if b = B_owner then or_str (current_of parse row) (st_current st) else st_current st),
         st_accounts := set_if (st_accounts st) (account_set parse row),
         st_users := set_if (st_users st) (user_set parse row),
         st_devices := set_if (st_devices st) (device_set parse row),
         st_managed := set_if (st_managed st) (managed_set parse row),
         st_lockdown := (if b = B_lockdown then or_else (lockdown_of parse row) (st_lockdown st) else st_lockdown st),
         st_found := (st_found st \<or> b \<noteq> B_skip)\<rparr>)"

section \<open>The snapshot\<close>

text \<open>\<open>Number(a) - Number(b)\<close>: a difference that is not a number counts as 0.\<close>

definition compare_users :: "AndroidUserEntry \<Rightarrow> AndroidUserEntry \<Rightarrow> int" where
  "compare_users a b =
     (case (js_number (us_userId a), js_number (us_userId b)) of (Some m, Some n) \<Rightarrow> m - n | _ \<Rightarrow> 0)"

definition compare_accounts :: "(string \<Rightarrow> string \<Rightarrow> int) \<Rightarrow> AccountEntry \<Rightarrow> AccountEntry \<Rightarrow> int" where
  "compare_accounts compare a b =
     then_by (compare (ac_accountType a) (ac_accountType b)) (compare (ac_accountName a) (ac_accountName b))"

definition accountSnapshotFromRows :: "JsonParse \<Rightarrow> (string \<Rightarrow> string \<Rightarrow> int) \<Rightarrow> Row list \<Rightarrow> AccountSnapshot" where
  "accountSnapshotFromRows parse compare rows =
     (let st = foldl (account_step parse) no_accounts rows in
       \<lparr>sn_ownerName = st_owner st, sn_currentUser = st_current st,
          sn_accounts = js_sort (compare_accounts compare) (map snd (st_accounts st)),
          sn_users = js_sort compare_users (map snd (st_users st)),
          sn_linkedDevices = js_sort (\<lambda>a b. compare (or_str (ld_name a) (ld_serial a)) (or_str (ld_name b) (ld_serial b))) (map snd (st_devices st)),
          sn_managedOrganizations =
            js_sort (\<lambda>a b. compare (or_str (mo_organizationName a) (mo_email a)) (or_str (mo_organizationName b) (mo_email b)))
              (map snd (st_managed st)),
          sn_lockdownMode = st_lockdown st, sn_sectionFound = st_found st\<rparr>)"

definition accountSearchQuery :: "string \<Rightarrow> bool \<Rightarrow> string" where
  "accountSearchQuery scope ios =
     scope @ '' parser='' @ [CHR 0x22] @ (if ios then ''accounts'' else ''Account'') @ [CHR 0x22] @ '' | head 50''"

section \<open>The four maps\<close>

interpretation accounts: upsert_fold "account_step parse" st_accounts "account_set parse"
  by unfold_locales (simp add: account_step_def Let_def)

interpretation users: upsert_fold "account_step parse" st_users "user_set parse"
  by unfold_locales (simp add: account_step_def Let_def)

interpretation devices: upsert_fold "account_step parse" st_devices "device_set parse"
  by unfold_locales (simp add: account_step_def Let_def)

interpretation managed: upsert_fold "account_step parse" st_managed "managed_set parse"
  by unfold_locales (simp add: account_step_def Let_def)

definition said :: "('r \<Rightarrow> ('k \<times> 'v) option) \<Rightarrow> 'r list \<Rightarrow> 'v set" where
  "said entry rows = ran (map_of (rev (List.map_filter entry rows)))"

lemma no_accounts_simps [simp]:
  "st_accounts no_accounts = []" "st_users no_accounts = []" "st_devices no_accounts = []" "st_managed no_accounts = []"
  "st_owner no_accounts = []" "st_current no_accounts = []" "st_lockdown no_accounts = None" "st_found no_accounts = False"
  by (simp_all add: no_accounts_def)

section \<open>Owner, lockdown, section\<close>

definition names_said :: "JsonParse \<Rightarrow> Row list \<Rightarrow> string list" where
  "names_said parse rows = nonempty (map (owner_of parse) (filter (\<lambda>r. rowBranch parse r = B_owner) rows))"

definition addresses_said :: "JsonParse \<Rightarrow> Row list \<Rightarrow> string list" where
  "addresses_said parse rows =
     nonempty (map (row_email parse) (filter (\<lambda>r. rowBranch parse r \<in> {B_owner_email, B_activation}) rows))"

definition modes_said :: "JsonParse \<Rightarrow> Row list \<Rightarrow> bool list" where
  "modes_said parse rows = List.map_filter (lockdown_of parse) (filter (\<lambda>r. rowBranch parse r = B_lockdown) rows)"

lemma owner_fold:
  "st_owner (foldl (account_step parse) no_accounts rows) =
     (if names_said parse rows \<noteq> [] then last (names_said parse rows)
      else if addresses_said parse rows \<noteq> [] then hd (addresses_said parse rows) else [])"
proof (induction rows rule: rev_induct)
  case (snoc r rows)
  have "[] \<notin> set (names_said parse rows)" "[] \<notin> set (addresses_said parse rows)"
    by (auto simp: names_said_def addresses_said_def nonempty_def)
  then have "names_said parse rows \<noteq> [] \<Longrightarrow> last (names_said parse rows) \<noteq> []"
      "addresses_said parse rows \<noteq> [] \<Longrightarrow> hd (addresses_said parse rows) \<noteq> []"
    by (metis last_in_set, metis hd_in_set)
  then show ?case
    using snoc by (auto simp: account_step_def Let_def names_said_def addresses_said_def nonempty_def or_str_def)
qed (simp add: names_said_def addresses_said_def nonempty_def)

lemma lockdown_fold:
  "st_lockdown (foldl (account_step parse) no_accounts rows) =
     (if modes_said parse rows \<noteq> [] then Some (last (modes_said parse rows)) else None)"
proof (induction rows rule: rev_induct)
  case (snoc r rows)
  then show ?case
    by (auto simp: account_step_def Let_def modes_said_def List.map_filter_def or_else_def split: option.splits)
qed (simp add: modes_said_def List.map_filter_def)

lemma found_fold:
  "st_found (foldl (account_step parse) no_accounts rows) \<longleftrightarrow> list_ex (\<lambda>r. rowBranch parse r \<noteq> B_skip) rows"
  by (induction rows rule: rev_induct) (auto simp: account_step_def Let_def)

section \<open>Order\<close>

lemma comparator_accounts: "collator compare \<Longrightarrow> comparator (compare_accounts compare)"
  unfolding compare_accounts_def
  by (rule comparator_lex [OF collator_on collator.axioms(1) [OF collator_on]])

definition numbered :: "AndroidUserEntry \<Rightarrow> bool" where
  "numbered u \<longleftrightarrow> js_number (us_userId u) \<noteq> None"

lemma users_in_order:
  assumes "list_all numbered us"
  shows "sorted_wrt (\<lambda>a b. compare_users a b \<le> 0) (js_sort compare_users us)"
proof -
  define num where "num = (\<lambda>u :: AndroidUserEntry. the (js_number (us_userId u)))"
  have cmp: "compare_users a b = num a - num b" if "numbered a" "numbered b" for a b
    using that by (auto simp: compare_users_def num_def numbered_def)
  have "list_all numbered us \<Longrightarrow> js_sort compare_users us = js_sort (\<lambda>a b. num a - num b) us"
  proof (induction us)
    case (Cons u us)
    have "insert_by compare_users u vs = insert_by (\<lambda>a b. num a - num b) u vs" if "list_all numbered vs" for vs
      using that Cons.prems by (induction vs) (auto simp: cmp)
    moreover have "list_all numbered (js_sort compare_users us)" using Cons.prems by (simp add: list_all_iff)
    ultimately show ?case using Cons by (simp add: js_sort_def)
  qed (simp add: js_sort_def)
  moreover have "comparator (\<lambda>a b. num a - num b)" by unfold_locales auto
  ultimately have "sorted_wrt (\<lambda>a b. num a - num b \<le> 0) (js_sort compare_users us)"
    using assms comparator.ordered_sort by fastforce
  then show ?thesis by (rule sorted_wrt_mono_rel [rotated]) (use assms cmp in \<open>auto simp: list_all_iff\<close>)
qed

text \<open>
  C31: The snapshot has every account, user, linked device and organization of the rows as the last row of
  its key says it, each user once; the owner is the last name given, or else the first address; the lockdown
  mode is the last one stated. Accounts come in the order of the collation, and users in the order of their
  numbers, if every one has a number.
\<close>

theorem accounts_complete:
  "let sn = accountSnapshotFromRows parse compare rows in
   set (sn_accounts sn) = said (account_set parse) rows
   \<and> set (sn_users sn) = said (user_set parse) rows \<and> distinct (map us_userId (sn_users sn))
   \<and> set (sn_linkedDevices sn) = said (device_set parse) rows
   \<and> set (sn_managedOrganizations sn) = said (managed_set parse) rows
   \<and> sn_ownerName sn =
       (if names_said parse rows \<noteq> [] then last (names_said parse rows)
        else if addresses_said parse rows \<noteq> [] then hd (addresses_said parse rows) else [])
   \<and> sn_lockdownMode sn = (if modes_said parse rows \<noteq> [] then Some (last (modes_said parse rows)) else None)
   \<and> (sn_sectionFound sn \<longleftrightarrow> list_ex (\<lambda>r. rowBranch parse r \<noteq> B_skip) rows)
   \<and> (if collator compare then sorted_wrt (\<lambda>a b. compare_accounts compare a b \<le> 0) (sn_accounts sn) else True)
   \<and> (if list_all numbered (sn_users sn) then sorted_wrt (\<lambda>a b. compare_users a b \<le> 0) (sn_users sn) else True)"
proof -
  define st where "st = foldl (account_step parse) no_accounts rows"
  have maps: "st_accounts st = latest (List.map_filter (account_set parse) rows)"
      "st_users st = latest (List.map_filter (user_set parse) rows)"
      "st_devices st = latest (List.map_filter (device_set parse) rows)"
      "st_managed st = latest (List.map_filter (managed_set parse) rows)"
    by (simp_all add: st_def accounts.view_fold users.view_fold devices.view_fold managed.view_fold)
  have own: "k = us_userId u" if "(k, u) \<in> set (List.map_filter (user_set parse) rows)" for k u
    using that by (auto simp: List.map_filter_def user_set_def split: if_splits)
  have users: "distinct (map us_userId (js_sort compare_users (map snd (st_users st))))"
    unfolding distinct_sort_keys maps by (rule latest_values_own_key [OF own])
  have vals: "set (js_sort cmp (map snd (latest ps))) = ran (map_of (rev ps))" for cmp :: "'v \<Rightarrow> 'v \<Rightarrow> int" and ps :: "('k \<times> 'v) list"
    by (simp add: latest_values)
  have sorted: "collator compare \<Longrightarrow> sorted_wrt (\<lambda>a b. compare_accounts compare a b \<le> 0)
      (js_sort (compare_accounts compare) (map snd (st_accounts st)))"
    by (rule comparator.ordered_sort [OF comparator_accounts])
  have ordered: "list_all numbered (js_sort compare_users (map snd (st_users st))) \<Longrightarrow>
      sorted_wrt (\<lambda>a b. compare_users a b \<le> 0) (js_sort compare_users (map snd (st_users st)))"
    by (rule users_in_order) (simp add: list_all_iff)
  show ?thesis
    unfolding accountSnapshotFromRows_def Let_def st_def [symmetric] AccountSnapshot.simps said_def
    using users sorted ordered owner_fold [of parse rows, folded st_def] lockdown_fold [of parse rows, folded st_def]
      found_fold [of parse rows, folded st_def]
    by (simp add: maps vals del: set_js_sort set_map)
qed

text \<open>A user without an id counts as equal to every other one, so their order is not one.\<close>

lemma unknown_user_breaks_order:
  "compare_users (u\<lparr>us_userId := ''10''\<rparr>) (u\<lparr>us_userId := ''?''\<rparr>) = 0
   \<and> compare_users (u\<lparr>us_userId := ''?''\<rparr>) (u\<lparr>us_userId := ''2''\<rparr>) = 0
   \<and> compare_users (u\<lparr>us_userId := ''10''\<rparr>) (u\<lparr>us_userId := ''2''\<rparr>) > 0"
proof -
  have "js_number ''10'' = Some 10" "js_number ''?'' = None" "js_number ''2'' = Some 2" by code_simp+
  then show ?thesis by (simp add: compare_users_def)
qed

end
