(* ===== verification/DeletedPackages.thy ===== *)
theory DeletedPackages
  imports CrashTraces MobileInstall Grouping LatestMap Ordering
begin

text \<open>
  Packages deleted from a device, \<open>src/mobipwn-web/src/lib/deletedPackages.ts\<close>: one entry for every bundle,
  the most recent first. The platform's dates are an argument.

  What the list of deleted packages says: every deletion is counted in the entry of its bundle, the time is
  that of the latest one, and a cut of the list keeps the bundles deleted last.
\<close>

record DeletedPackageEntry =
  dp_bundleId :: string
  dp_label :: string
  dp_lastDeleted :: string
  dp_deleteCount :: nat
  dp_caller :: string
  dp_user :: string
  dp_flags :: string
  dp_observer :: string

definition deleted_sort_key :: "Dates \<Rightarrow> Row \<Rightarrow> int" where
  "deleted_sort_key D row =
     (let datetime = strField row ''datetime''; ts = strField row ''timestamp'' in
      case (if datetime \<noteq> [] then date_parse D datetime else None) of
        Some t \<Rightarrow> t
      | None \<Rightarrow> (case date_parse D (space_to_T ts @ ''Z'') of
          Some t \<Rightarrow> t
        | None \<Rightarrow> (case js_number ts of
            Some n \<Rightarrow> (if n > 0 then if n > 100000000000000 then n div 1000 else n else 0)
          | None \<Rightarrow> 0)))"

definition isDeleteRow :: "JsonParse \<Rightarrow> Row \<Rightarrow> bool" where
  "isDeleteRow parse row =
     (let parser = strField row ''parser''; dataType = to_lower (strField row ''data_type'');
          eventType = to_upper (extField parse row ''event_type'')
      in if parser \<noteq> [] \<and> parser \<noteq> ''Package'' then False
         else if dataType \<noteq> [] \<and> \<not> contains ''package_install'' dataType then False
         else if eventType = ''START_DELETE'' \<or> eventType = ''DELETE_RESULT'' then True
         else contains ''DELETE'' (to_upper (strField row ''message'')))"

definition packageId :: "JsonParse \<Rightarrow> Row \<Rightarrow> string" where
  "packageId parse row =
     or_texts [strField row ''bundle_id'', extField parse row ''pkg'', extField parse row ''package_name'']"

definition packageLabel :: "string \<Rightarrow> string" where
  "packageLabel bundleId =
     (let parts = split_char (CHR ''.'') bundleId in
      if bundleId = [] then ''Unknown package''
      else if length parts \<ge> 2 then join ''.'' (drop (length parts - 2) parts) else bundleId)"

definition formatUid :: "string \<Rightarrow> string" where
  "formatUid val =
     (let trimmed = trim val in
      if trimmed = [] then [] else if digits_only trimmed then ''UID '' @ trimmed else trimmed)"

text \<open>An absent \<open>caller\<close> of the extension leaves \<open>extField(row, "caller")\<close>, which is then empty.\<close>

definition parseDeleteRow :: "JsonParse \<Rightarrow> Dates \<Rightarrow> Row \<Rightarrow> DeletedPackageEntry option" where
  "parseDeleteRow parse D row =
     (let bundleId = packageId parse row; ext = map_of (parseExt parse row) in
      if \<not> isDeleteRow parse row \<or> bundleId = [] then None
      else Some \<lparr>dp_bundleId = bundleId, dp_label = packageLabel bundleId,
        dp_lastDeleted = formatRowTimestamp parse D row, dp_deleteCount = 1,
        dp_caller = formatUid (case present (ext ''caller'') of Some v \<Rightarrow> js_text v | None \<Rightarrow> extField parse row ''caller''),
        dp_user = (case present (ext ''user'') of Some v \<Rightarrow> formatUid (js_text v) | None \<Rightarrow> []),
        dp_flags = text_or_none (ext ''flags''), dp_observer = extField parse row ''observer''\<rparr>)"

section \<open>One entry for every bundle\<close>

text \<open>An entry with the sort key of its latest row; \<open>newer\<close> is \<open>sortKey >= prev.sortKey \&\& b ? b : a\<close>.\<close>

type_synonym DeletedItem = "DeletedPackageEntry \<times> int"

definition deleted_item :: "JsonParse \<Rightarrow> Dates \<Rightarrow> Row \<Rightarrow> DeletedItem option" where
  "deleted_item parse D row = map_option (\<lambda>e. (e, deleted_sort_key D row)) (parseDeleteRow parse D row)"

definition newer :: "bool \<Rightarrow> string \<Rightarrow> string \<Rightarrow> string" where
  "newer later a b = (if later \<and> b \<noteq> [] then b else a)"

definition merge_deleted :: "DeletedItem \<Rightarrow> DeletedItem \<Rightarrow> DeletedItem" where
  "merge_deleted = (\<lambda>(a, k) (b, k').
     (let pick = newer (k' \<ge> k) in
      (a\<lparr>dp_deleteCount := dp_deleteCount a + 1,
         dp_lastDeleted := pick (dp_lastDeleted a) (dp_lastDeleted b),
         dp_caller := pick (dp_caller a) (dp_caller b), dp_user := pick (dp_user a) (dp_user b),
         dp_flags := pick (dp_flags a) (dp_flags b), dp_observer := pick (dp_observer a) (dp_observer b)\<rparr>,
       max k k')))"

definition deleted_items :: "JsonParse \<Rightarrow> Dates \<Rightarrow> Row list \<Rightarrow> DeletedItem list" where
  "deleted_items parse D rows =
     map snd (group_rows (\<lambda>i. Some (dp_bundleId (fst i))) (\<lambda>i. i) merge_deleted (List.map_filter (deleted_item parse D) rows))"

definition deletedPackageEntries :: "JsonParse \<Rightarrow> Dates \<Rightarrow> Row list \<Rightarrow> nat \<Rightarrow> DeletedPackageEntry list" where
  "deletedPackageEntries parse D rows limit =
     take limit (map fst (js_sort (\<lambda>a b. snd b - snd a) (deleted_items parse D rows)))"

definition escape_bundle :: "string \<Rightarrow> string" where
  "escape_bundle s = replace_char (CHR 0x22) [CHR 0x5C, CHR 0x22] (replace_char (CHR 0x5C) [CHR 0x5C, CHR 0x5C] s)"

definition deletedPackagesSearchQuery :: "string \<Rightarrow> string option \<Rightarrow> string" where
  "deletedPackagesSearchQuery bundleId scope =
     (let q = [CHR 0x22] in
      (case truthy scope of Some s \<Rightarrow> s @ '' '' | None \<Rightarrow> [])
      @ ''parser='' @ q @ ''Package'' @ q @ '' data_type=*package_install* bundle_id='' @ q @ escape_bundle (trim bundleId) @ q
      @ '' message=*DELETE* | sort -timestamp | head 20'')"

lemma fst_merge: "fst (merge_deleted a b) = (fst a)\<lparr>dp_deleteCount := dp_deleteCount (fst a) + 1,
     dp_lastDeleted := newer (snd a \<le> snd b) (dp_lastDeleted (fst a)) (dp_lastDeleted (fst b)),
     dp_caller := newer (snd a \<le> snd b) (dp_caller (fst a)) (dp_caller (fst b)),
     dp_user := newer (snd a \<le> snd b) (dp_user (fst a)) (dp_user (fst b)),
     dp_flags := newer (snd a \<le> snd b) (dp_flags (fst a)) (dp_flags (fst b)),
     dp_observer := newer (snd a \<le> snd b) (dp_observer (fst a)) (dp_observer (fst b))\<rparr>"
  by (simp add: merge_deleted_def case_prod_unfold Let_def)

lemma snd_merge: "snd (merge_deleted a b) = max (snd a) (snd b)"
  by (simp add: merge_deleted_def case_prod_unfold Let_def)

text \<open>The items of a bundle, merged: what the result says of them.\<close>

definition dated_item :: "DeletedItem \<Rightarrow> bool" where
  "dated_item i \<longleftrightarrow> dp_lastDeleted (fst i) \<noteq> []"

definition sums_up :: "DeletedItem list \<Rightarrow> DeletedItem \<Rightarrow> bool" where
  "sums_up xs r \<longleftrightarrow>
     dp_deleteCount (fst r) = length xs \<and> list_all (\<lambda>i. snd i \<le> snd r) xs
     \<and> list_ex (\<lambda>i. snd i = snd r \<and> (if list_all dated_item xs then dp_lastDeleted (fst r) = dp_lastDeleted (fst i) else True)) xs"

lemma merged_item:
  assumes "dp_deleteCount (fst x) = 1"
  shows "dp_bundleId (fst (foldl merge_deleted x xs)) = dp_bundleId (fst x) \<and> sums_up (x # xs) (foldl merge_deleted x xs)"
proof (induction xs rule: rev_induct)
  case Nil
  then show ?case using assms by (simp add: sums_up_def)
next
  case (snoc y xs)
  define r where "r = foldl merge_deleted x xs"
  have r: "sums_up (x # xs) r" "dp_bundleId (fst r) = dp_bundleId (fst x)" using snoc by (simp_all add: r_def)
  have "sums_up (x # xs @ [y]) (merge_deleted r y)"
  proof (cases "snd r \<le> snd y")
    case True
    then show ?thesis using r(1) by (auto simp: sums_up_def fst_merge snd_merge newer_def dated_item_def list_all_iff)
  next
    case False
    then show ?thesis using r(1)
      by (auto simp: sums_up_def fst_merge snd_merge newer_def list_all_iff list_ex_iff max_def split: if_splits)
  qed
  then show ?case using r(2) by (simp add: r_def fst_merge)
qed

lemma item_counted: "i \<in> set (List.map_filter (deleted_item parse D) rows) \<Longrightarrow> dp_deleteCount (fst i) = 1"
  by (auto simp: List.map_filter_def deleted_item_def parseDeleteRow_def Let_def split: if_splits)

definition of_bundle :: "string \<Rightarrow> DeletedItem list \<Rightarrow> DeletedItem list" where
  "of_bundle b = filter (\<lambda>i. dp_bundleId (fst i) = b)"

lemma deleted_item_of:
  assumes "r \<in> set (deleted_items parse D rows)"
  defines "xs \<equiv> of_bundle (dp_bundleId (fst r)) (List.map_filter (deleted_item parse D) rows)"
  shows "xs \<noteq> [] \<and> sums_up xs r"
proof -
  define items where "items = List.map_filter (deleted_item parse D) rows"
  obtain b where "group_of (\<lambda>i. Some (dp_bundleId (fst i))) (\<lambda>i. i) merge_deleted items b = Some r"
    using assms(1) by (auto simp: deleted_items_def items_def [symmetric] group_rows_member)
  then obtain x ys where f: "of_bundle b items = x # ys" and r: "r = foldl merge_deleted x ys"
    by (elim group_of_rows) (simp add: of_bundle_def)
  have "x \<in> set items \<and> dp_bundleId (fst x) = b"
    using arg_cong [OF f, of set] by (auto simp: of_bundle_def)
  then have "dp_bundleId (fst r) = b \<and> sums_up (x # ys) r"
    using merged_item [OF item_counted [of x parse D rows], of ys] by (simp add: r items_def)
  then show ?thesis using f by (simp add: xs_def items_def)
qed

lemma deleted_bundles:
  "map (\<lambda>r. dp_bundleId (fst r)) (deleted_items parse D rows) =
     map fst (group_rows (\<lambda>i. Some (dp_bundleId (fst i))) (\<lambda>i. i) merge_deleted (List.map_filter (deleted_item parse D) rows))"
proof -
  define items where "items = List.map_filter (deleted_item parse D) rows"
  have "dp_bundleId (fst r) = b" if mem: "(b, r) \<in> set (group_rows (\<lambda>i. Some (dp_bundleId (fst i))) (\<lambda>i. i) merge_deleted items)" for b r
  proof -
    obtain x ys where f: "filter (\<lambda>i. dp_bundleId (fst i) = b) items = x # ys" and r: "r = foldl merge_deleted x ys"
      using mem unfolding group_rows_member by (elim group_of_rows) simp
    have "x \<in> set items \<and> dp_bundleId (fst x) = b" using arg_cong [OF f, of set] by auto
    then show ?thesis using merged_item [OF item_counted [of x parse D rows], of ys] by (simp add: r items_def)
  qed
  then show ?thesis by (auto simp: deleted_items_def items_def)
qed

interpretation by_time: comparator "\<lambda>a b :: DeletedItem. snd b - snd a"
  by unfold_locales auto

text \<open>
  C32: Every bundle is listed once, with the number of its deletions and, if they all have a time to show,
  the time of the latest one. As many are listed as the limit allows, those deleted last: of a bundle that is
  left out, no deletion is later than the last one of a listed bundle.
\<close>

theorem deletions_counted:
  "let items = List.map_filter (deleted_item parse D) rows; es = deletedPackageEntries parse D rows limit in
   distinct (map dp_bundleId es) \<and> length es = min limit (card ((\<lambda>i. dp_bundleId (fst i)) ` set items))
   \<and> list_all (\<lambda>e.
        let own = of_bundle (dp_bundleId e) items in
        dp_deleteCount e = length own
        \<and> list_ex (\<lambda>i. list_all (\<lambda>j. snd j \<le> snd i) own
             \<and> (if list_all dated_item own then dp_lastDeleted e = dp_lastDeleted (fst i) else True)
             \<and> list_all (\<lambda>j. dp_bundleId (fst j) \<in> dp_bundleId ` set es \<or> snd j \<le> snd i) items) own) es"
proof -
  define items where "items = List.map_filter (deleted_item parse D) rows"
  define merged where "merged = deleted_items parse D rows"
  define s where "s = js_sort (\<lambda>a b. snd b - snd a) merged"
  define es where "es = map fst (take limit s)"
  define id_of where "id_of = (\<lambda>i :: DeletedItem. dp_bundleId (fst i))"
  have es: "deletedPackageEntries parse D rows limit = es"
    by (simp add: deletedPackageEntries_def es_def s_def merged_def take_map)
  have keys: "distinct (map id_of merged)" "set (map id_of merged) = id_of ` set items"
    unfolding id_of_def merged_def deleted_bundles items_def [symmetric]
    by (rule group_rows_distinct) (auto simp: group_rows_keys)
  have dist: "distinct (map id_of s)" using keys(1) by (simp add: s_def distinct_sort_keys)
  have len: "length s = card (id_of ` set items)" using distinct_card [OF keys(1)] keys(2) by (simp add: s_def)
  have ids: "dp_bundleId ` set es = id_of ` set (take limit s)" by (simp add: es_def id_of_def image_image)
  have one: "dp_deleteCount (fst r) = length own
        \<and> list_ex (\<lambda>i. list_all (\<lambda>j. snd j \<le> snd i) own
             \<and> (if list_all dated_item own then dp_lastDeleted (fst r) = dp_lastDeleted (fst i) else True)
             \<and> list_all (\<lambda>j. id_of j \<in> id_of ` set (take limit s) \<or> snd j \<le> snd i) items) own"
    if mem: "r \<in> set (take limit s)" and own: "own = of_bundle (id_of r) items" for r own
  proof -
    have r: "sums_up own r"
      using deleted_item_of [of r parse D rows] in_set_takeD [OF mem] by (simp add: s_def merged_def own items_def id_of_def)
    have rest: "snd j \<le> snd r" if j: "j \<in> set items" "id_of j \<notin> id_of ` set (take limit s)" for j
    proof -
      obtain m where m: "m \<in> set merged" "id_of m = id_of j" using keys(2) j(1) by force
      then have "m \<in> set s" by (simp add: s_def)
      then have "m \<in> set (take limit s) \<union> set (drop limit s)" by (metis append_take_drop_id set_append)
      then have "m \<in> set (drop limit s)" using j(2) m(2) imageI [of m "set (take limit s)" id_of] by auto
      then have "snd m \<le> snd r" using by_time.cut_first [of limit merged] mem by (auto simp: s_def list_all_iff)
      moreover have "snd j \<le> snd m"
        using deleted_item_of [of m parse D rows] m j(1)
        by (simp add: merged_def sums_up_def list_all_iff of_bundle_def items_def id_of_def del: split_paired_All)
      ultimately show ?thesis by simp
    qed
    obtain i where i: "i \<in> set own" "snd i = snd r"
        "if list_all dated_item own then dp_lastDeleted (fst r) = dp_lastDeleted (fst i) else True"
      using r by (auto simp: sums_up_def list_ex_iff)
    have "list_all (\<lambda>j. snd j \<le> snd i) own" using r i(2) by (simp add: sums_up_def)
    moreover have "list_all (\<lambda>j. id_of j \<in> id_of ` set (take limit s) \<or> snd j \<le> snd i) items"
      using rest i(2) by (auto simp: list_all_iff)
    ultimately show ?thesis using i r unfolding list_ex_iff sums_up_def by (intro conjI bexI [of _ i]) simp_all
  qed
  have "distinct (map dp_bundleId es)"
    using distinct_take [OF dist] by (simp add: es_def id_of_def take_map [symmetric] o_def)
  moreover have "length es = min limit (card (id_of ` set items))" using len by (simp add: es_def min.commute)
  moreover have "list_all (\<lambda>e. let own = of_bundle (dp_bundleId e) items in
        dp_deleteCount e = length own
        \<and> list_ex (\<lambda>i. list_all (\<lambda>j. snd j \<le> snd i) own
             \<and> (if list_all dated_item own then dp_lastDeleted e = dp_lastDeleted (fst i) else True)
             \<and> list_all (\<lambda>j. dp_bundleId (fst j) \<in> dp_bundleId ` set es \<or> snd j \<le> snd i) items) own) es"
    unfolding list_all_iff [of _ es] ids
  proof
    fix e
    assume "e \<in> set es"
    then obtain r where "r \<in> set (take limit s)" "e = fst r" by (auto simp: es_def)
    then show "let own = of_bundle (dp_bundleId e) items in
        dp_deleteCount e = length own
        \<and> list_ex (\<lambda>i. list_all (\<lambda>j. snd j \<le> snd i) own
             \<and> (if list_all dated_item own then dp_lastDeleted e = dp_lastDeleted (fst i) else True)
             \<and> list_all (\<lambda>j. dp_bundleId (fst j) \<in> id_of ` set (take limit s) \<or> snd j \<le> snd i) items) own"
      using one [OF _ refl, of r] by (simp only: Let_def id_of_def)
  qed
  ultimately show ?thesis unfolding Let_def es items_def [symmetric] id_of_def by simp
qed

end
