(* ===== verification/AdbStatus.thy ===== *)
theory AdbStatus
  imports CrashTraces LatestMap Ordering
begin

text \<open>
  State of the Android debug bridge, \<open>src/mobipwn-web/src/lib/adbStatus.ts\<close>: every row gives a patch, a
  partial snapshot, and the patches are applied in the order of the rows. An absent member of a patch is
  \<open>None\<close>, or empty where the code treats both alike.

  Applying the patches one after the other is reading them at once: the last value stated of a single member,
  and the keys and hosts of all of them, each once.
\<close>

record AdbAuthorizedKey =
  ak_identifier :: string
  ak_keyPreview :: string

record AdbKeystore =
  ks_hasKey :: bool
  ks_hasLastConnection :: bool
  ks_hasVersion :: bool
  ks_keyIdentifier :: string
  ks_rawLength :: "int option"

record AdbSnapshot =
  ad_connected :: "bool option"
  ad_lastKeyReceived :: string
  ad_servicePid :: "int option"
  ad_threadsInUse :: string
  ad_clientPids :: "int list"
  ad_authorizedKeys :: "AdbAuthorizedKey list"
  ad_keystore :: "AdbKeystore option"
  ad_wirelessHosts :: "string list"

definition DM_KNOWN_KEYS :: "string list" where
  "DM_KNOWN_KEYS = [''connected_to_adb'', ''last_key_received'', ''user_keys'', ''user_keys_parsed'', ''keystore'', ''keystore_parsed'']"

section \<open>Values\<close>

text \<open>\<open>replace(/[^\x20-\x7E]/g, "")\<close>.\<close>

definition cleanLabel :: "string \<Rightarrow> string" where
  "cleanLabel val = trim (filter (\<lambda>c. 0x20 \<le> code c \<and> code c \<le> 0x7E) val)"

definition keyPreview :: "string \<Rightarrow> string" where
  "keyPreview key =
     (let trimmed = trim key in if length trimmed \<le> 36 then trimmed else take 36 trimmed @ ellipsis)"

definition boolValue :: "Json option \<Rightarrow> bool option" where
  "boolValue v =
     (case v of
        Some (JBool b) \<Rightarrow> Some b
      | Some (JStr s) \<Rightarrow> (if s = ''true'' then Some True else if s = ''false'' then Some False else None)
      | _ \<Rightarrow> None)"

text \<open>\<open>String(v ?? fallback)\<close>.\<close>

definition text_or :: "string \<Rightarrow> Json option \<Rightarrow> string" where
  "text_or fallback v = (case present v of None \<Rightarrow> fallback | Some w \<Rightarrow> js_text w)"

definition keystore_of :: "Row \<Rightarrow> AdbKeystore" where
  "keystore_of ks =
     (let flag = (\<lambda>k. get_or False (boolValue (map_of ks k)))
      in \<lparr>ks_hasKey = flag ''has_adb_key'', ks_hasLastConnection = flag ''has_last_connection'',
          ks_hasVersion = flag ''has_version'', ks_keyIdentifier = cleanLabel (text_or [] (map_of ks ''key_identifier'')),
          ks_rawLength = numFromValue (map_of ks ''raw_length'')\<rparr>)"

definition parseKeystore :: "Json option \<Rightarrow> AdbKeystore option" where
  "parseKeystore raw = map_option keystore_of (asRecord raw)"

definition UNNAMED :: string where
  "UNNAMED = ''authorized key''"

definition authorized_key :: "Json \<Rightarrow> AdbAuthorizedKey option" where
  "authorized_key item =
     (case asRecord (Some item) of
        None \<Rightarrow> None
      | Some row \<Rightarrow>
          (let identifier = cleanLabel (text_or UNNAMED (map_of row ''identifier''));
               key = trim (text_or [] (map_of row ''key''))
           in if identifier = [] \<and> key = [] then None
              else Some \<lparr>ak_identifier = or_str identifier UNNAMED,
                ak_keyPreview = (if key \<noteq> [] then keyPreview key else em_dash)\<rparr>))"

definition parseAuthorizedKeys :: "Json option \<Rightarrow> AdbAuthorizedKey list" where
  "parseAuthorizedKeys raw = List.map_filter authorized_key (asArray raw)"

definition wireless_host :: "string \<times> Json \<Rightarrow> string option" where
  "wireless_host = (\<lambda>(key, val).
     (case val of
        JStr s \<Rightarrow> (if key \<notin> set DM_KNOWN_KEYS \<and> contains ''@'' (cleanLabel s) then Some (cleanLabel s) else None)
      | _ \<Rightarrow> None))"

definition wirelessHostsFromDm :: "Row \<Rightarrow> string list" where
  "wirelessHostsFromDm dm = first_of_keys (\<lambda>h. h) [] (List.map_filter wireless_host dm)"

text \<open>The existing keys are put into a \<open>Map\<close>, then those of the incoming ones that are not in it.\<close>

definition mergeKeys :: "AdbAuthorizedKey list \<Rightarrow> AdbAuthorizedKey list \<Rightarrow> AdbAuthorizedKey list" where
  "mergeKeys existing incoming =
     (let byId = map snd (latest (map (\<lambda>k. (ak_identifier k, k)) existing))
      in byId @ first_of_keys ak_identifier (map ak_identifier byId) incoming)"

section \<open>Patches\<close>

definition emptyAdbSnapshot :: AdbSnapshot where
  "emptyAdbSnapshot = \<lparr>ad_connected = None, ad_lastKeyReceived = [], ad_servicePid = None, ad_threadsInUse = [],
     ad_clientPids = [], ad_authorizedKeys = [], ad_keystore = None, ad_wirelessHosts = []\<rparr>"

definition parseDebuggingManager :: "Row \<Rightarrow> AdbSnapshot" where
  "parseDebuggingManager dm = emptyAdbSnapshot
     \<lparr>ad_connected := boolValue (map_of dm ''connected_to_adb''),
      ad_lastKeyReceived := cleanLabel (text_or [] (map_of dm ''last_key_received'')),
      ad_authorizedKeys := parseAuthorizedKeys (map_of dm ''user_keys_parsed''),
      ad_keystore := parseKeystore (map_of dm ''keystore_parsed''), ad_wirelessHosts := wirelessHostsFromDm dm\<rparr>"

definition adb_event_type :: "Row \<Rightarrow> Row \<Rightarrow> string" where
  "adb_event_type ext row =
     (let suffix = last (split_char (CHR '':'') (strField row ''data_type''))
      in if strField ext ''event_type'' \<noteq> [] then strField ext ''event_type''
         else if suffix \<in> {''adb_key'', ''adb_keystore'', ''adb_status''} then suffix else [])"

text \<open>\<open>Object.assign(patch, dmPatch)\<close>: the members that the second one has replace those of the first.\<close>

definition assign_patch :: "AdbSnapshot \<Rightarrow> AdbSnapshot \<Rightarrow> AdbSnapshot" where
  "assign_patch p q =
     \<lparr>ad_connected = or_else (ad_connected q) (ad_connected p),
       ad_lastKeyReceived = or_str (ad_lastKeyReceived q) (ad_lastKeyReceived p),
       ad_servicePid = or_else (ad_servicePid q) (ad_servicePid p),
       ad_threadsInUse = or_str (ad_threadsInUse q) (ad_threadsInUse p),
       ad_clientPids = (if ad_clientPids q = [] then ad_clientPids p else ad_clientPids q),
       ad_authorizedKeys = (if ad_authorizedKeys q = [] then ad_authorizedKeys p else ad_authorizedKeys q),
       ad_keystore = or_else (ad_keystore q) (ad_keystore p),
       ad_wirelessHosts = (if ad_wirelessHosts q = [] then ad_wirelessHosts p else ad_wirelessHosts q)\<rparr>"

definition client_pids :: "Row \<Rightarrow> int list" where
  "client_pids ext = List.map_filter (\<lambda>pid. numFromValue (Some pid)) (asArray (map_of ext ''client_pids''))"

definition dm_patch :: "Row \<Rightarrow> AdbSnapshot" where
  "dm_patch ext =
     (case asRecord (map_of ext ''debugging_manager'') of
        None \<Rightarrow> emptyAdbSnapshot
      | Some dm \<Rightarrow> (parseDebuggingManager dm)
          \<lparr>ad_authorizedKeys := mergeKeys [] (ad_authorizedKeys (parseDebuggingManager dm))\<rparr>)"

definition adb_row_patch :: "JsonParse \<Rightarrow> Row \<Rightarrow> AdbSnapshot" where
  "adb_row_patch parse row =
     (let ext = parseExt parse row;
          base = assign_patch (emptyAdbSnapshot
            \<lparr>ad_connected := boolValue (map_of ext ''connected_to_adb''),
             ad_servicePid := numFromValue (map_of ext ''service_pid''),
             ad_threadsInUse := cleanLabel (text_or [] (map_of ext ''threads_in_use'')),
             ad_clientPids := client_pids ext\<rparr>) (dm_patch ext);
          kind = adb_event_type ext row; key = trim (text_or [] (map_of ext ''key''))
      in if kind = ''adb_key''
         then base\<lparr>ad_authorizedKeys := [\<lparr>ak_identifier = cleanLabel (text_or UNNAMED (map_of ext ''identifier'')),
           ak_keyPreview = (if key \<noteq> [] then keyPreview key else em_dash)\<rparr>]\<rparr>
         else if kind = ''adb_keystore'' then base\<lparr>ad_keystore := Some (keystore_of ext)\<rparr>
         else base)"

definition applyPatch :: "AdbSnapshot \<Rightarrow> AdbSnapshot \<Rightarrow> AdbSnapshot" where
  "applyPatch target patch =
     \<lparr>ad_connected = or_else (ad_connected patch) (ad_connected target),
      ad_lastKeyReceived = or_str (ad_lastKeyReceived patch) (ad_lastKeyReceived target),
      ad_servicePid = or_else (ad_servicePid patch) (ad_servicePid target),
      ad_threadsInUse = or_str (ad_threadsInUse patch) (ad_threadsInUse target),
      ad_clientPids = (if ad_clientPids patch \<noteq> [] then ad_clientPids patch else ad_clientPids target),
      ad_authorizedKeys =
        (if ad_authorizedKeys patch \<noteq> [] then mergeKeys (ad_authorizedKeys target) (ad_authorizedKeys patch)
         else ad_authorizedKeys target),
      ad_keystore = or_else (ad_keystore patch) (ad_keystore target),
      ad_wirelessHosts =
        (if ad_wirelessHosts patch \<noteq> [] then first_of_keys (\<lambda>h. h) [] (ad_wirelessHosts target @ ad_wirelessHosts patch)
         else ad_wirelessHosts target)\<rparr>"

section \<open>The snapshot\<close>

definition of_adb :: "Row \<Rightarrow> bool" where
  "of_adb row \<longleftrightarrow> strField row ''parser'' = [] \<or> strField row ''parser'' = ''Adb''"

definition adb_patches :: "JsonParse \<Rightarrow> Row list \<Rightarrow> AdbSnapshot list" where
  "adb_patches parse rows = map (adb_row_patch parse) (filter of_adb rows)"

text \<open>The test of \<open>hasData\<close> asks for every member of the patch.\<close>

definition adbSnapshotFromRows :: "JsonParse \<Rightarrow> Row list \<Rightarrow> AdbSnapshot option" where
  "adbSnapshotFromRows parse rows =
     (let patches = adb_patches parse rows
      in if list_ex (\<lambda>p. p \<noteq> emptyAdbSnapshot) patches then Some (foldl applyPatch emptyAdbSnapshot patches) else None)"

definition adbConnectedLabel :: "bool option \<Rightarrow> string" where
  "adbConnectedLabel state =
     (case state of Some True \<Rightarrow> ''Connected'' | Some False \<Rightarrow> ''Not connected'' | None \<Rightarrow> ''Unknown'')"

section \<open>Lists without repetition\<close>

lemma first_of_keys_seen: "set s = set t \<Longrightarrow> first_of_keys key s xs = first_of_keys key t xs"
proof (induction xs arbitrary: s t)
  case (Cons x xs)
  have "first_of_keys key s xs = first_of_keys key t xs" "first_of_keys key (key x # s) xs = first_of_keys key (key x # t) xs"
    by (rule Cons.IH, simp add: Cons.prems)+
  then show ?case using Cons.prems by simp
qed simp

lemma first_of_keys_twice: "first_of_keys key [] (first_of_keys key [] xs @ ys) = first_of_keys key [] (xs @ ys)"
proof -
  have idem: "first_of_keys key seen (first_of_keys key seen xs) = first_of_keys key seen xs" for seen xs
    by (induction xs arbitrary: seen) simp_all
  show ?thesis by (simp add: first_of_keys_append idem)
qed

lemma latest_of_distinct: "distinct (map fst ps) \<Longrightarrow> latest ps = ps"
proof (induction ps rule: rev_induct)
  case Nil
  then show ?case by (simp add: latest_def)
next
  case (snoc p ps)
  have append: "k \<notin> fst ` set m \<Longrightarrow> map_set k v m = m @ [(k, v)]" for k and v and m :: "('a \<times> 'b) list"
    by (induction m) (auto simp: map_set_def)
  have "latest ps = ps" "fst p \<notin> fst ` set ps" using snoc by auto
  then show ?case using append [of "fst p" ps "snd p"] by (cases p) (simp add: latest_snoc)
qed

lemma mergeKeys_first:
  "mergeKeys (first_of_keys ak_identifier [] xs) ys = first_of_keys ak_identifier [] (xs @ ys)"
proof -
  define ks where "ks = first_of_keys ak_identifier [] xs"
  have "distinct (map fst (map (\<lambda>k. (ak_identifier k, k)) ks))"
    using first_of_keys_facts [of ak_identifier "[]" xs] by (simp add: ks_def o_def)
  then have "map snd (latest (map (\<lambda>k. (ak_identifier k, k)) ks)) = ks" by (simp add: latest_of_distinct o_def)
  moreover have "first_of_keys ak_identifier (map ak_identifier ks) ys = first_of_keys ak_identifier (rev (map ak_identifier ks)) ys"
    by (rule first_of_keys_seen) simp
  ultimately show ?thesis unfolding ks_def [symmetric] by (simp add: mergeKeys_def Let_def first_of_keys_append ks_def)
qed

section \<open>The last value stated\<close>

definition last_some :: "'a option list \<Rightarrow> 'a option" where
  "last_some xs = (let ys = filter (\<lambda>x. x \<noteq> None) xs in if ys = [] then None else last ys)"

lemma last_some_snoc: "last_some (xs @ [x]) = or_else x (last_some xs)"
  by (cases x) (simp_all add: last_some_def or_else_def Let_def)

lemma last_some_Nil [simp]: "last_some [] = None"
  by (simp add: last_some_def)

definition last_text :: "string list \<Rightarrow> string" where
  "last_text xs = (if nonempty xs = [] then [] else last (nonempty xs))"

lemma last_text_snoc: "last_text (xs @ [x]) = or_str x (last_text xs)"
  by (cases x) (simp_all add: last_text_def nonempty_def or_str_def)

section \<open>The snapshot\<close>

definition all_keys :: "AdbSnapshot list \<Rightarrow> AdbAuthorizedKey list" where
  "all_keys ps = first_of_keys ak_identifier [] (concat (map ad_authorizedKeys ps))"

definition all_hosts :: "AdbSnapshot list \<Rightarrow> string list" where
  "all_hosts ps = first_of_keys (\<lambda>h. h) [] (concat (map ad_wirelessHosts ps))"

definition read_at_once :: "AdbSnapshot list \<Rightarrow> AdbSnapshot" where
  "read_at_once ps =
     \<lparr>ad_connected = last_some (map ad_connected ps), ad_lastKeyReceived = last_text (map ad_lastKeyReceived ps),
      ad_servicePid = last_some (map ad_servicePid ps), ad_threadsInUse = last_text (map ad_threadsInUse ps),
      ad_clientPids = (let pids = filter (\<lambda>x. x \<noteq> []) (map ad_clientPids ps) in if pids = [] then [] else last pids),
      ad_authorizedKeys = all_keys ps, ad_keystore = last_some (map ad_keystore ps), ad_wirelessHosts = all_hosts ps\<rparr>"

lemma patches_applied: "foldl applyPatch emptyAdbSnapshot ps = read_at_once ps"
proof (induction ps rule: rev_induct)
  case Nil
  then show ?case by (simp add: read_at_once_def emptyAdbSnapshot_def last_text_def nonempty_def all_keys_def all_hosts_def)
next
  case (snoc p ps)
  have "all_keys (ps @ [p]) = (if ad_authorizedKeys p \<noteq> [] then mergeKeys (all_keys ps) (ad_authorizedKeys p) else all_keys ps)"
    by (simp add: all_keys_def mergeKeys_first)
  moreover have "all_hosts (ps @ [p]) =
      (if ad_wirelessHosts p \<noteq> [] then first_of_keys (\<lambda>h. h) [] (all_hosts ps @ ad_wirelessHosts p) else all_hosts ps)"
    by (simp add: all_hosts_def first_of_keys_twice)
  ultimately show ?case using snoc
    by (simp add: applyPatch_def read_at_once_def last_some_snoc last_text_snoc Let_def)
qed

lemma nothing_read: "list_all (\<lambda>p. p = emptyAdbSnapshot) ps \<Longrightarrow> read_at_once ps = emptyAdbSnapshot"
  by (induction ps rule: rev_induct)
    (simp_all add: patches_applied [symmetric], simp add: applyPatch_def emptyAdbSnapshot_def or_else_def or_str_def)

text \<open>
  C33: The state of the bridge is what its rows say when read at once: of every single member the last value
  stated, every authorized key and every host once, in the order they were first said, and no state if the
  rows say nothing.
\<close>

theorem adb_state_read:
  "let ps = adb_patches parse rows; keys = all_keys ps; hosts = all_hosts ps in
   get_or emptyAdbSnapshot (adbSnapshotFromRows parse rows) = read_at_once ps
   \<and> (adbSnapshotFromRows parse rows = None \<longleftrightarrow> list_all (\<lambda>p. p = emptyAdbSnapshot) ps)
   \<and> distinct (map ak_identifier keys) \<and> ak_identifier ` set keys = (\<Union>p\<in>set ps. ak_identifier ` set (ad_authorizedKeys p))
   \<and> distinct hosts \<and> set hosts = (\<Union>p\<in>set ps. set (ad_wirelessHosts p))"
proof -
  define ps where "ps = adb_patches parse rows"
  have "get_or emptyAdbSnapshot (adbSnapshotFromRows parse rows) = read_at_once ps"
  proof (cases "list_all (\<lambda>p. p = emptyAdbSnapshot) ps")
    case True
    then have "\<not> list_ex (\<lambda>p. p \<noteq> emptyAdbSnapshot) ps" by (simp add: list_all_iff list_ex_iff)
    then show ?thesis using nothing_read [OF True]
      by (simp only: adbSnapshotFromRows_def Let_def ps_def [symmetric] if_False get_or_def option.case)
  next
    case False
    then have "list_ex (\<lambda>p. p \<noteq> emptyAdbSnapshot) ps" by (simp add: list_all_iff list_ex_iff)
    then show ?thesis
      by (simp only: adbSnapshotFromRows_def Let_def ps_def [symmetric] if_True get_or_def option.case patches_applied)
  qed
  moreover have "adbSnapshotFromRows parse rows = None \<longleftrightarrow> list_all (\<lambda>p. p = emptyAdbSnapshot) ps"
    by (simp add: adbSnapshotFromRows_def Let_def ps_def [symmetric] list_all_iff list_ex_iff)
  ultimately show ?thesis
    using first_of_keys_facts [of ak_identifier "[]" "concat (map ad_authorizedKeys ps)"]
      first_of_keys_facts [of "\<lambda>h. h" "[]" "concat (map ad_wirelessHosts ps)"]
    unfolding Let_def ps_def [symmetric] by (simp add: all_keys_def all_hosts_def image_UN)
qed

text \<open>Keys without an identifier all get the same one, so that only the first of them is shown.\<close>

lemma unnamed_keys_merged:
  "mergeKeys [] (parseAuthorizedKeys (Some (JArr [JObj [(''key'', JStr ''AAAA'')], JObj [(''key'', JStr ''BBBB'')]])))
     = [\<lparr>ak_identifier = UNNAMED, ak_keyPreview = ''AAAA''\<rparr>]"
proof -
  have "authorized_key (JObj [(''key'', JStr s)]) = Some \<lparr>ak_identifier = UNNAMED, ak_keyPreview = s\<rparr>"
    if "s = ''AAAA'' \<or> s = ''BBBB''" for s
    using that by (elim disjE; hypsubst; code_simp)
  then show ?thesis
    by (simp add: parseAuthorizedKeys_def asArray_def List.map_filter_def mergeKeys_def latest_def)
qed

end
