(* ===== verification/DevicePolicy.thy ===== *)
theory DevicePolicy
  imports AdbStatus
begin

text \<open>
  Device administrators and profile owners, \<open>src/mobipwn-web/src/lib/devicePolicy.ts\<close>: administrators are
  merged by package and receiver. \<open>localeCompare\<close> is the argument \<open>compare\<close>.

  What the snapshot of the device policies says: the rows' administrators collected by their id, with the last
  values stated of each, and the profile owners once each.
\<close>

type_synonym DevicePolicyField = "string \<times> string"

record DevicePolicyProfileOwner =
  po_package :: string
  po_receiver :: string
  po_orgOwned :: "bool option"

record DevicePolicyAdmin =
  da_id :: string
  da_package :: string
  da_receiver :: string
  da_component :: string
  da_enabled :: "bool option"
  da_uid :: "int option"
  da_policies :: "string list"
  da_password :: "DevicePolicyField list"
  da_security :: "DevicePolicyField list"
  da_restrictions :: "DevicePolicyField list"
  da_other :: "DevicePolicyField list"

record DevicePolicySnapshot =
  dv_profileOwners :: "DevicePolicyProfileOwner list"
  dv_admins :: "DevicePolicyAdmin list"

section \<open>The members of an administrator\<close>

definition SKIP_EXT_KEYS :: "string list" where
  "SKIP_EXT_KEYS = [''event_type'', ''function'', ''file_path'', ''destination_domain'', ''remote_ip'', ''email'', ''installer'',
     ''eas_it_policies'', ''accountTypesWithManagementDisabled'', ''defaultEnabledRestrictionsAlreadySet'',
     ''crossProfileWidgetProviders'', ''mCrossProfileCalendarPackages'', ''mCrossProfilePackages'', ''excludedUids'',
     ''includedUids'', ''disabledKeyguardFeatures'', ''credentialManagerPolicy'', ''managedProfileCallerIdPolicy'',
     ''managedProfileContactsPolicy'', ''userRestrictions'', ''mPreferentialNetworkServiceConfigs'']"

definition PASSWORD_KEYS :: "string list" where
  "PASSWORD_KEYS = [''passwordQuality'', ''minimumPasswordLength'', ''minimumPasswordLetters'', ''minimumPasswordLowerCase'',
     ''minimumPasswordUpperCase'', ''minimumPasswordNumeric'', ''minimumPasswordSymbols'', ''minimumPasswordNonLetter'',
     ''maximumFailedPasswordsForWipe'', ''maximumTimeToUnlock'', ''passwordExpirationTimeout'', ''passwordHistoryLength'',
     ''mPasswordComplexity'', ''strongAuthUnlockTimeout'']"

definition SECURITY_KEYS :: "string list" where
  "SECURITY_KEYS = [''encryptionRequested'', ''isNetworkLoggingEnabled'', ''testOnlyAdmin'', ''mCommonCriteriaMode'',
     ''mAlwaysOnVpnPackage'', ''mAlwaysOnVpnLockdown'', ''specifiesGlobalProxy'', ''mtePolicy'', ''mWifiMinimumSecurityLevel'',
     ''requireAutoTime'', ''isParent'', ''mAdminCanGrantSensorsPermissions'']"

definition RESTRICTION_KEYS :: "string list" where
  "RESTRICTION_KEYS = [''disableCamera'', ''disableScreenCapture'', ''disableCallerId'', ''disableContactsSearch'',
     ''disableBluetoothContactSharing'', ''mSuspendPersonalApps'', ''forceEphemeralUsers'', ''blockNonMatchingNetworks'',
     ''allowFallbackToDefaultConnection'', ''mUsbDataSignaling'']"

definition OWN_KEYS :: "string list" where
  "OWN_KEYS = PASSWORD_KEYS @ SECURITY_KEYS @ RESTRICTION_KEYS
     @ [''event_type'', ''package'', ''receiver'', ''component'', ''policies'', ''isEnabled'', ''uid'']"

definition packageFromComponent :: "string \<Rightarrow> string" where
  "packageFromComponent component =
     (let t = trim component; trimmed = (if ends_with '':'' t then butlast t else t)
      in case index_of (CHR ''/'') trimmed of Some (Suc n) \<Rightarrow> take (Suc n) trimmed | _ \<Rightarrow> [])"

fun formatFieldValue :: "Json \<Rightarrow> string" where
  "formatFieldValue JNull = []"
| "formatFieldValue (JBool b) = (if b then ''yes'' else ''no'')"
| "formatFieldValue (JNum n) = int_str n"
| "formatFieldValue (JStr s) =
     (let trimmed = cleanLabel s in if trimmed = ''None'' \<or> trimmed = ''null'' then [] else trimmed)"
| "formatFieldValue (JArr xs) = join '', '' (nonempty (map formatFieldValue xs))"
| "formatFieldValue (JObj kvs) =
     join ''; '' (nonempty (map (\<lambda>kv. let formatted = formatFieldValue (snd kv)
       in if formatted \<noteq> [] then fst kv @ ''='' @ formatted else []) kvs))"

text \<open>\<open>replace(/^m/, "")\<close>, then a space between a small and a capital letter.\<close>

fun split_camel :: "string \<Rightarrow> string" where
  "split_camel (c # d # s) =
     (if is_lower c \<and> is_upper d then c # CHR '' '' # split_camel (d # s) else c # split_camel (d # s))"
| "split_camel s = s"

definition fieldLabel :: "string \<Rightarrow> string" where
  "fieldLabel key =
     trim (replace_char (CHR ''_'') '' '' (split_camel (if starts_with ''m'' key then drop 1 key else key)))"

definition pick_field :: "Row \<Rightarrow> bool \<Rightarrow> string \<Rightarrow> DevicePolicyField option" where
  "pick_field ext onlyTruthy key =
     (case map_of ext key of
        None \<Rightarrow> None
      | Some raw \<Rightarrow>
          (let val = formatFieldValue raw in
           if val = [] \<or> (onlyTruthy \<and> (boolValue (Some raw) = Some False \<or> val = ''0'' \<or> val = ''no'')) then None
           else Some (fieldLabel key, val)))"

definition pickFields :: "Row \<Rightarrow> string list \<Rightarrow> bool \<Rightarrow> DevicePolicyField list" where
  "pickFields ext keys onlyTruthy = List.map_filter (pick_field ext onlyTruthy) keys"

definition parsePolicies :: "Json option \<Rightarrow> string list" where
  "parsePolicies raw = nonempty (map (\<lambda>item. cleanLabel (js_text item)) (asArray raw))"

definition profile_owner :: "Row \<Rightarrow> DevicePolicyProfileOwner option" where
  "profile_owner obj =
     (let pkg = cleanLabel (text_or [] (map_of obj ''package'')); receiver = cleanLabel (text_or [] (map_of obj ''receiver''))
      in if pkg = [] \<and> receiver = [] then None
         else Some \<lparr>po_package = pkg, po_receiver = receiver, po_orgOwned = boolValue (map_of obj ''isOrganizationOwnedDevice'')\<rparr>)"

definition parseProfileOwner :: "Json option \<Rightarrow> DevicePolicyProfileOwner option" where
  "parseProfileOwner raw = Option.bind (asRecord raw) profile_owner"

definition other_field :: "string \<times> Json \<Rightarrow> DevicePolicyField option" where
  "other_field = (\<lambda>(key, val).
     (let formatted = formatFieldValue val in
      if key \<in> set SKIP_EXT_KEYS \<or> key \<in> set OWN_KEYS \<or> formatted = [] then None else Some (fieldLabel key, formatted)))"

definition adminId :: "string \<Rightarrow> string \<Rightarrow> string" where
  "adminId pkg receiver = pkg @ ''|'' @ receiver"

definition parseAdmin :: "Row \<Rightarrow> DevicePolicyAdmin option" where
  "parseAdmin raw =
     (let component = cleanLabel (text_or [] (map_of raw ''component''));
          pkg = or_str (cleanLabel (text_or [] (map_of raw ''package''))) (packageFromComponent component);
          receiver = cleanLabel (text_or [] (map_of raw ''receiver''))
      in if pkg = [] \<and> component = [] then None
         else Some \<lparr>da_id = adminId (or_str pkg component) receiver, da_package = pkg, da_receiver = receiver,
           da_component = component, da_enabled = boolValue (map_of raw ''isEnabled''),
           da_uid = numFromValue (map_of raw ''uid''), da_policies = parsePolicies (map_of raw ''policies''),
           da_password = pickFields raw PASSWORD_KEYS False, da_security = pickFields raw SECURITY_KEYS False,
           da_restrictions = pickFields raw RESTRICTION_KEYS True,
           da_other = take 8 (List.map_filter other_field raw)\<rparr>)"

section \<open>Merging\<close>

definition owner_key :: "DevicePolicyProfileOwner \<Rightarrow> string" where
  "owner_key p = po_package p @ ''|'' @ po_receiver p"

definition mergeProfileOwners :: "DevicePolicyProfileOwner list \<Rightarrow> DevicePolicyProfileOwner list \<Rightarrow> DevicePolicyProfileOwner list" where
  "mergeProfileOwners existing incoming =
     (let byKey = map snd (latest (map (\<lambda>p. (owner_key p, p)) existing))
      in byKey @ first_of_keys owner_key (map owner_key byKey) incoming)"

text \<open>A list of the later entry, if it has one.\<close>

definition or_list :: "'a list \<Rightarrow> 'a list \<Rightarrow> 'a list" where
  "or_list xs ys = (if xs \<noteq> [] then xs else ys)"

definition merge_admin :: "DevicePolicyAdmin \<Rightarrow> DevicePolicyAdmin \<Rightarrow> DevicePolicyAdmin" where
  "merge_admin prev admin =
     prev\<lparr>da_enabled := or_else (da_enabled admin) (da_enabled prev), da_uid := or_else (da_uid admin) (da_uid prev),
       da_policies := or_list (da_policies admin) (da_policies prev),
       da_password := or_list (da_password admin) (da_password prev),
       da_security := or_list (da_security admin) (da_security prev),
       da_restrictions := latest (da_restrictions prev @ da_restrictions admin),
       da_other := or_list (da_other admin) (da_other prev)\<rparr>"

definition mergeAdmins :: "DevicePolicyAdmin list \<Rightarrow> DevicePolicyAdmin list \<Rightarrow> DevicePolicyAdmin list" where
  "mergeAdmins existing incoming =
     map snd (foldl (\<lambda>m a. map_upsert (da_id a) (\<lambda>prev. merge_admin prev a) a m)
       (latest (map (\<lambda>a. (da_id a, a)) existing)) incoming)"

section \<open>Rows\<close>

definition policy_event_type :: "Row \<Rightarrow> Row \<Rightarrow> string" where
  "policy_event_type ext row =
     or_str (strField ext ''event_type'') (last (split_char (CHR '':'') (strField row ''data_type'')))"

definition listed_admins :: "Row \<Rightarrow> DevicePolicyAdmin list" where
  "listed_admins ext =
     concat (map (\<lambda>(key, val).
       if starts_with ''device_admins_'' key
       then List.map_filter (\<lambda>item. Option.bind (asRecord (Some item)) parseAdmin) (asArray (Some val)) else []) ext)"

definition of_list :: "'a option \<Rightarrow> 'a list" where
  "of_list x = (case x of None \<Rightarrow> [] | Some a \<Rightarrow> [a])"

definition parse_policy_row :: "JsonParse \<Rightarrow> Row \<Rightarrow> DevicePolicyProfileOwner list \<times> DevicePolicyAdmin list" where
  "parse_policy_row parse row =
     (let ext = parseExt parse row; eventType = policy_event_type ext row in
      if eventType = ''profile_owner'' then (of_list (profile_owner ext), [])
      else if eventType = ''device_admin'' then ([], of_list (parseAdmin ext))
      else (of_list (parseProfileOwner (map_of ext ''profile_owner'')), listed_admins ext))"

definition of_device_policy :: "Row \<Rightarrow> bool" where
  "of_device_policy row \<longleftrightarrow> strField row ''parser'' = [] \<or> strField row ''parser'' = ''DevicePolicy''"

definition policy_step :: "JsonParse \<Rightarrow> DevicePolicyProfileOwner list \<times> DevicePolicyAdmin list \<Rightarrow> Row
    \<Rightarrow> DevicePolicyProfileOwner list \<times> DevicePolicyAdmin list" where
  "policy_step parse st row =
     (let parsed = parse_policy_row parse row in
      if of_device_policy row then (mergeProfileOwners (fst st) (fst parsed), mergeAdmins (snd st) (snd parsed)) else st)"

definition devicePolicySnapshotFromRows ::
  "JsonParse \<Rightarrow> (string \<Rightarrow> string \<Rightarrow> int) \<Rightarrow> Row list \<Rightarrow> DevicePolicySnapshot option" where
  "devicePolicySnapshotFromRows parse compare rows =
     (let (profileOwners, admins) = foldl (policy_step parse) ([], []) rows in
      if profileOwners = [] \<and> admins = [] then None
      else Some \<lparr>dv_profileOwners = profileOwners,
        dv_admins = js_sort (\<lambda>a b. compare (da_package a) (da_package b)) admins\<rparr>)"

definition devicePolicySearchQuery :: "string \<Rightarrow> string option \<Rightarrow> string" where
  "devicePolicySearchQuery packageName scope =
     (let q = [CHR 0x22];
          pkg = replace_char (CHR 0x22) [CHR 0x5C, CHR 0x22] (replace_char (CHR 0x5C) [CHR 0x5C, CHR 0x5C] (trim packageName))
      in (case truthy scope of Some s \<Rightarrow> s @ '' '' | None \<Rightarrow> [])
        @ ''parser='' @ q @ ''DevicePolicy'' @ q @ '' bundle_id='' @ q @ pkg @ q @ '' | head 20'')"

section \<open>All rows at once\<close>

definition owners_said :: "JsonParse \<Rightarrow> Row list \<Rightarrow> DevicePolicyProfileOwner list" where
  "owners_said parse rows = concat (map (\<lambda>r. fst (parse_policy_row parse r)) (filter of_device_policy rows))"

definition admins_said :: "JsonParse \<Rightarrow> Row list \<Rightarrow> DevicePolicyAdmin list" where
  "admins_said parse rows = concat (map (\<lambda>r. snd (parse_policy_row parse r)) (filter of_device_policy rows))"

definition admin_groups :: "DevicePolicyAdmin list \<Rightarrow> (string \<times> DevicePolicyAdmin) list" where
  "admin_groups as = group_rows (\<lambda>a. Some (da_id a)) (\<lambda>a. a) merge_admin as"

lemma merge_owners_first:
  "mergeProfileOwners (first_of_keys owner_key [] xs) ys = first_of_keys owner_key [] (xs @ ys)"
proof -
  define ps where "ps = first_of_keys owner_key [] xs"
  have "distinct (map fst (map (\<lambda>p. (owner_key p, p)) ps))"
    using first_of_keys_facts [of owner_key "[]" xs] by (simp add: ps_def o_def)
  then have "map snd (latest (map (\<lambda>p. (owner_key p, p)) ps)) = ps" by (simp add: latest_of_distinct o_def)
  moreover have "first_of_keys owner_key (map owner_key ps) ys = first_of_keys owner_key (rev (map owner_key ps)) ys"
    by (rule first_of_keys_seen) simp
  ultimately show ?thesis unfolding ps_def [symmetric] by (simp add: mergeProfileOwners_def Let_def first_of_keys_append ps_def)
qed

lemma merge_admin_id [simp]: "da_id (merge_admin a b) = da_id a"
  by (simp add: merge_admin_def)

lemma group_admin_id: "(i, a) \<in> set (admin_groups as) \<Longrightarrow> da_id a = i"
  unfolding admin_groups_def group_rows_member by (erule group_of_invariant) simp_all

lemma merge_admins_group: "mergeAdmins (map snd (admin_groups as)) bs = map snd (admin_groups (as @ bs))"
proof -
  have "map (\<lambda>a. (da_id a, a)) (map snd (admin_groups as)) = admin_groups as"
    using group_admin_id by (auto intro!: map_idI simp: o_def)
  moreover have "latest (admin_groups as) = admin_groups as"
    by (rule latest_of_distinct) (simp add: admin_groups_def group_rows_distinct)
  moreover have "(\<lambda>m a. map_upsert (da_id a) (\<lambda>prev. merge_admin prev a) a m) = group_step (\<lambda>a. Some (da_id a)) (\<lambda>a. a) merge_admin"
    by (intro ext) (simp add: group_step_def)
  ultimately show ?thesis
    by (simp only: mergeAdmins_def) (simp add: admin_groups_def group_rows_def)
qed

lemma policies_at_once:
  "foldl (policy_step parse) ([], []) rows =
     (first_of_keys owner_key [] (owners_said parse rows), map snd (admin_groups (admins_said parse rows)))"
proof (induction rows rule: rev_induct)
  case Nil
  then show ?case by (simp add: owners_said_def admins_said_def admin_groups_def group_rows_def)
next
  case (snoc r rows)
  then show ?case
    by (simp add: policy_step_def Let_def owners_said_def admins_said_def merge_owners_first merge_admins_group)
qed

section \<open>One administrator\<close>

definition last_list :: "'a list list \<Rightarrow> 'a list" where
  "last_list xs = (let ys = filter (\<lambda>x. x \<noteq> []) xs in if ys = [] then [] else last ys)"

lemma last_list_snoc: "last_list (xs @ [x]) = or_list x (last_list xs)"
  by (simp add: last_list_def or_list_def Let_def)

definition states :: "DevicePolicyAdmin list \<Rightarrow> DevicePolicyAdmin \<Rightarrow> bool" where
  "states own a \<longleftrightarrow>
     da_package a = da_package (hd own) \<and> da_enabled a = last_some (map da_enabled own) \<and> da_uid a = last_some (map da_uid own)
     \<and> da_policies a = last_list (map da_policies own) \<and> da_password a = last_list (map da_password own)
     \<and> da_security a = last_list (map da_security own) \<and> da_other a = last_list (map da_other own)
     \<and> map_of (da_restrictions a) = map_of (rev (concat (map da_restrictions own)))"

lemma restriction_labels: "distinct (map fieldLabel RESTRICTION_KEYS)"
  by code_simp

lemma pick_fields_distinct:
  assumes "distinct (map fieldLabel keys)"
  shows "distinct (map fst (pickFields ext keys b))"
proof -
  have labels: "set (map fst (pickFields ext ks b)) \<subseteq> set (map fieldLabel ks)" for ks
    by (induction ks) (auto simp: pickFields_def pick_field_def List.map_filter_def Let_def split: option.splits if_splits)
  show ?thesis using assms
  proof (induction keys)
    case (Cons k ks)
    have "pickFields ext (k # ks) b = (case pick_field ext b k of None \<Rightarrow> [] | Some f \<Rightarrow> [f]) @ pickFields ext ks b"
      by (simp add: pickFields_def List.map_filter_def split: option.splits)
    moreover have "pick_field ext b k = Some f \<Longrightarrow> fst f = fieldLabel k" for f
      by (auto simp: pick_field_def Let_def split: option.splits if_splits)
    moreover have "fieldLabel k \<notin> set (map fst (pickFields ext ks b))" using labels [of ks] Cons.prems by auto
    ultimately show ?case using Cons.prems Cons.IH by (auto split: option.splits simp del: set_map)
  qed (simp add: pickFields_def List.map_filter_def)
qed

lemma parsed_restrictions: "parseAdmin raw = Some a \<Longrightarrow> distinct (map fst (da_restrictions a))"
  using pick_fields_distinct [OF restriction_labels]
  by (auto simp: parseAdmin_def Let_def split: if_splits)

lemma said_restrictions: "a \<in> set (admins_said parse rows) \<Longrightarrow> distinct (map fst (da_restrictions a))"
  using parsed_restrictions
  by (force simp: admins_said_def parse_policy_row_def of_list_def listed_admins_def List.map_filter_def Let_def
      Option.bind_eq_Some_conv split: if_splits option.splits)

lemma map_of_rev_distinct: "distinct (map fst ps) \<Longrightarrow> map_of (rev ps) = map_of ps"
  by (rule map_of_eqI) (auto simp: map_of_eq_Some_iff distinct_map)

lemma states_merged:
  assumes "distinct (map fst (da_restrictions x))"
  shows "states (x # xs) (foldl merge_admin x xs) \<and> distinct (map fst (da_restrictions (foldl merge_admin x xs)))"
proof (induction xs rule: rev_induct)
  case Nil
  then show ?case using assms
    by (simp add: states_def last_some_def last_list_def Let_def map_of_rev_distinct)
next
  case (snoc y xs)
  define a where "a = foldl merge_admin x xs"
  have a: "states (x # xs) a" "distinct (map fst (da_restrictions a))" using snoc by (simp_all add: a_def)
  have "map_of (latest (da_restrictions a @ da_restrictions y)) =
      map_of (rev (concat (map da_restrictions ((x # xs) @ [y]))))"
    using a by (auto simp: map_of_latest states_def map_of_rev_distinct map_add_def fun_eq_iff split: option.splits)
  then have "states ((x # xs) @ [y]) (merge_admin a y)"
    using a(1) unfolding states_def map_append list.map(2) last_some_snoc last_list_snoc
    by (simp add: merge_admin_def last_some_snoc [of "_ # _", simplified] last_list_snoc [of "_ # _", simplified])
  moreover have "distinct (map fst (da_restrictions (merge_admin a y)))" by (simp add: merge_admin_def latest_distinct)
  ultimately show ?case by (simp add: a_def)
qed

text \<open>
  C34: The snapshot has every administrator of the rows once, with the last values stated of it and, of every
  restriction, the last one, and every profile owner once, as it was first said; there is no snapshot
  exactly when the rows name neither.
\<close>

theorem policies_merged:
  "let as = admins_said parse rows; ws = owners_said parse rows in
   case devicePolicySnapshotFromRows parse compare rows of
     None \<Rightarrow> as = [] \<and> ws = []
   | Some s \<Rightarrow>
       0 < length as + length ws \<and> distinct (map da_id (dv_admins s)) \<and> da_id ` set (dv_admins s) = da_id ` set as
       \<and> list_all (\<lambda>a. states (filter (\<lambda>b. da_id b = da_id a) as) a) (dv_admins s)
       \<and> dv_profileOwners s = first_of_keys owner_key [] ws
       \<and> (if collator compare then sorted_wrt (\<lambda>a b. compare (da_package a) (da_package b) \<le> 0) (dv_admins s) else True)"
proof -
  define as where "as = admins_said parse rows"
  define ws where "ws = owners_said parse rows"
  define sorted where "sorted = js_sort (\<lambda>a b. compare (da_package a) (da_package b)) (map snd (admin_groups as))"
  have keys: "map da_id (map snd (admin_groups as)) = map fst (admin_groups as)" using group_admin_id by auto
  have ids: "da_id ` set sorted = da_id ` set as"
    using arg_cong [OF keys, of set] by (auto simp: sorted_def admin_groups_def group_rows_keys image_image)
  have "distinct (map da_id sorted)"
    unfolding sorted_def distinct_sort_keys keys by (simp add: admin_groups_def group_rows_distinct)
  moreover have "list_all (\<lambda>a. states (filter (\<lambda>b. da_id b = da_id a) as) a) sorted"
    unfolding list_all_iff
  proof
    fix a
    assume "a \<in> set sorted"
    then have g: "group_of (\<lambda>a. Some (da_id a)) (\<lambda>a. a) merge_admin as (da_id a) = Some a"
      using group_admin_id by (force simp: sorted_def admin_groups_def group_rows_member)
    then obtain x xs where f: "filter (\<lambda>b. da_id b = da_id a) as = x # xs" and m: "a = foldl merge_admin x xs"
      by (elim group_of_rows) simp
    have "x \<in> set as" using arg_cong [OF f, of set] by auto
    then have "distinct (map fst (da_restrictions x))" unfolding as_def by (rule said_restrictions)
    then show "states (filter (\<lambda>b. da_id b = da_id a) as) a" using states_merged [of x xs] f m by simp
  qed
  moreover have "if collator compare then sorted_wrt (\<lambda>a b. compare (da_package a) (da_package b) \<le> 0) sorted else True"
    unfolding sorted_def using comparator.ordered_sort [OF collator.axioms(1) [OF collator_on]] by auto
  moreover have empty: "map snd (admin_groups as) = [] \<longleftrightarrow> as = []" "first_of_keys owner_key [] ws = [] \<longleftrightarrow> ws = []"
    using ids first_of_keys_facts [of owner_key "[]" ws] by (auto simp: sorted_def)
  moreover have "devicePolicySnapshotFromRows parse compare rows =
      (if as = [] \<and> ws = [] then None
       else Some \<lparr>dv_profileOwners = first_of_keys owner_key [] ws, dv_admins = sorted\<rparr>)"
    unfolding devicePolicySnapshotFromRows_def policies_at_once as_def [symmetric] ws_def [symmetric] sorted_def
    using empty by auto
  ultimately show ?thesis using ids unfolding Let_def as_def [symmetric] ws_def [symmetric] by simp
qed

text \<open>The letter that marks the fields of Android's classes is taken off every key that starts with it.\<close>

lemma label_without_m: "fieldLabel ''minimumPasswordLength'' = ''inimum Password Length''"
  by code_simp

end
