(* ===== verification/VpnStatus.thy ===== *)
theory VpnStatus
  imports AdbStatus
begin

text \<open>
  VPN sessions of a device, \<open>src/mobipwn-web/src/lib/vpnSnapshot.ts\<close>: a row is one session, or holds the
  output of the parser as members of its extension or as JSON in its message. \<open>JSON.parse\<close> and
  \<open>localeCompare\<close> are arguments.
\<close>

record VpnSession =
  vs_userId :: string
  vs_packageName :: string
  vs_interfaceName :: string
  vs_addresses :: string
  vs_routes :: string
  vs_dnsServers :: string
  vs_searchDomains :: string
  vs_rawData :: string

record VpnNetworkProperty =
  vp_key :: string
  vp_value :: string

record VpnSnapshot =
  vn_sessions :: "VpnSession list"
  vn_networkProperties :: "VpnNetworkProperty list"
  vn_sectionFound :: bool

section \<open>Entries\<close>

definition uid_package_re :: regex where
  "uid_package_re = Seqs [Bol, Plus Digit, Lit ''='', Grp 1 (Plus Dot), Eol]"

definition packageFromRaw :: "string \<Rightarrow> string \<Rightarrow> string" where
  "packageFromRaw raw fallbackKey =
     (let trimmed = trim raw in
      if trimmed = [] then fallbackKey
      else case exec uid_package_re trimmed of
             Some m \<Rightarrow> trim (get_or [] (group 1 m))
           | None \<Rightarrow> (if list_all (\<lambda>c. is_word c \<or> c = CHR ''.'') trimmed then trimmed else fallbackKey))"

definition vpn_session :: "string \<Rightarrow> Row \<Rightarrow> VpnSession" where
  "vpn_session key obj =
     (let txt = (\<lambda>k. trim (text_or [] (map_of obj k)));
          rawData = txt ''raw_data'';
          userId = or_str (trim (text_or key (map_of obj ''user_id''))) key
      in \<lparr>vs_userId = userId,
          vs_packageName = or_texts [txt ''package_name'', packageFromRaw rawData (if key = userId then [] else key), ''unknown''],
          vs_interfaceName = txt ''interface'', vs_addresses = txt ''addresses'', vs_routes = txt ''routes'',
          vs_dnsServers = txt ''dns_servers'', vs_searchDomains = txt ''search_domains'', vs_rawData = rawData\<rparr>)"

definition parseVpnEntry :: "string \<Rightarrow> Json \<Rightarrow> VpnSession option" where
  "parseVpnEntry key val = map_option (vpn_session key) (asRecord (Some val))"

definition parseNetworkProperty :: "string \<Rightarrow> Json \<Rightarrow> VpnNetworkProperty option" where
  "parseNetworkProperty key val =
     (if trim key = [] then None
      else Some \<lparr>vp_key = key, vp_value =
        (case asRecord (Some val) of
           None \<Rightarrow> trim (text_or [] (Some val))
         | Some obj \<Rightarrow> or_texts [trim (text_or_none (map_of obj ''value'')), trim (text_or [] (map_of obj ''raw_data'')), em_dash])\<rparr>)"

definition objectRecord :: "Json option \<Rightarrow> Row" where
  "objectRecord val = get_or [] (asRecord val)"

definition payload_of :: "Row \<Rightarrow> Row \<times> Row" where
  "payload_of obj = (objectRecord (map_of obj ''current_vpns''), objectRecord (map_of obj ''network_properties''))"

definition parserPayloadFromExt :: "Row \<Rightarrow> (Row \<times> Row) option" where
  "parserPayloadFromExt ext =
     (if map_of ext ''current_vpns'' = None \<and> map_of ext ''network_properties'' = None then None else Some (payload_of ext))"

definition PAYLOAD_PREFIX :: string where
  "PAYLOAD_PREFIX = ''vpn parser output:''"

definition parserPayloadFromMessage :: "JsonParse \<Rightarrow> string \<Rightarrow> (Row \<times> Row) option" where
  "parserPayloadFromMessage parse message =
     (case cut_at PAYLOAD_PREFIX (to_lower message) of
        None \<Rightarrow> None
      | Some (before, _) \<Rightarrow>
          (let jsonPart = trim (drop (length before + length PAYLOAD_PREFIX) message)
           in if \<not> starts_with ''{'' jsonPart then None else map_option payload_of (asRecord (parse jsonPart))))"

section \<open>The snapshot\<close>

definition session_entry :: "VpnSession \<Rightarrow> string \<times> VpnSession" where
  "session_entry s = (vs_userId s @ '':'' @ vs_packageName s, s)"

text \<open>The sessions and properties of a row, or nothing if it is not one of the section.\<close>

definition vpn_row :: "JsonParse \<Rightarrow> Row \<Rightarrow> ((string \<times> VpnSession) list \<times> (string \<times> VpnNetworkProperty) list) option" where
  "vpn_row parse row =
     (let parser = to_lower (strField row ''parser''); ext = parseExt parse row in
      if parser \<noteq> [] \<and> parser \<noteq> ''vpn'' then None
      else if extField parse row ''event_type'' = ''vpn_session''
      then Some ([session_entry (vpn_session (or_str (extField parse row ''user_id'') ''0'') ext)], [])
      else case (case parserPayloadFromExt ext of Some p \<Rightarrow> Some p
            | None \<Rightarrow> parserPayloadFromMessage parse (strField row ''message'')) of
          None \<Rightarrow> None
        | Some (vpns, props) \<Rightarrow>
            Some (map session_entry (List.map_filter (\<lambda>(k, v). parseVpnEntry k v) vpns),
              map (\<lambda>p. (vp_key p, p)) (List.map_filter (\<lambda>(k, v). parseNetworkProperty k v) props)))"

definition set_all :: "('k \<times> 'v) list \<Rightarrow> ('k \<times> 'v) list \<Rightarrow> ('k \<times> 'v) list" where
  "set_all m ps = foldl (\<lambda>m (k, v). map_set k v m) m ps"

type_synonym VpnState = "(string \<times> VpnSession) list \<times> (string \<times> VpnNetworkProperty) list \<times> bool"

definition vpn_step :: "JsonParse \<Rightarrow> VpnState \<Rightarrow> Row \<Rightarrow> VpnState" where
  "vpn_step parse = (\<lambda>(sessions, props, found) row.
     (case vpn_row parse row of
        None \<Rightarrow> (sessions, props, found)
      | Some (ss, ps) \<Rightarrow> (set_all sessions ss, set_all props ps, True)))"

definition vpnSnapshotFromRows :: "JsonParse \<Rightarrow> (string \<Rightarrow> string \<Rightarrow> int) \<Rightarrow> Row list \<Rightarrow> VpnSnapshot" where
  "vpnSnapshotFromRows parse compare rows =
     (let (sessions, props, found) = foldl (vpn_step parse) ([], [], False) rows
      in \<lparr>vn_sessions = js_sort (\<lambda>a b. then_by (compare (vs_packageName a) (vs_packageName b))
              (compare (vs_userId a) (vs_userId b))) (map snd sessions),
          vn_networkProperties = js_sort (\<lambda>a b. compare (vp_key a) (vp_key b)) (map snd props),
          vn_sectionFound = found\<rparr>)"

definition vpnSearchQuery :: "string \<Rightarrow> string" where
  "vpnSearchQuery scope = scope @ '' parser='' @ [CHR 0x22] @ ''Vpn'' @ [CHR 0x22] @ '' | head 20''"

section \<open>Facts\<close>

definition vpn_entries :: "JsonParse \<Rightarrow> Row list \<Rightarrow> (string \<times> VpnSession) list \<times> (string \<times> VpnNetworkProperty) list" where
  "vpn_entries parse rows =
     (let es = List.map_filter (vpn_row parse) rows in (concat (map fst es), concat (map snd es)))"

lemma set_all_latest: "set_all (latest ps) qs = latest (ps @ qs)"
  by (simp add: set_all_def latest_def)

lemma vpn_fold:
  "foldl (vpn_step parse) ([], [], False) rows =
     (latest (fst (vpn_entries parse rows)), latest (snd (vpn_entries parse rows)), list_ex (\<lambda>r. vpn_row parse r \<noteq> None) rows)"
proof (induction rows rule: rev_induct)
  case Nil
  then show ?case by (simp add: vpn_entries_def latest_def List.map_filter_def)
next
  case (snoc r rows)
  then show ?case
    by (cases "vpn_row parse r")
      (auto simp: vpn_step_def vpn_entries_def Let_def List.map_filter_def set_all_latest)
qed

text \<open>
  The sessions are those of the rows, the last one of a user and a package, in the order of package and user;
  the properties likewise, each once.
\<close>

theorem vpn_read:
  "let sn = vpnSnapshotFromRows parse compare rows in
   set (vn_sessions sn) = ran (map_of (rev (fst (vpn_entries parse rows))))
   \<and> set (vn_networkProperties sn) = ran (map_of (rev (snd (vpn_entries parse rows))))
   \<and> distinct (map vp_key (vn_networkProperties sn))
   \<and> (vn_sectionFound sn \<longleftrightarrow> list_ex (\<lambda>r. vpn_row parse r \<noteq> None) rows)"
proof -
  have own: "k = vp_key p" if "(k, p) \<in> set (snd (vpn_entries parse rows))" for k p
    using that by (force simp: vpn_entries_def vpn_row_def Let_def List.map_filter_def split: if_splits option.splits)
  have "distinct (map vp_key (js_sort (\<lambda>a b. compare (vp_key a) (vp_key b)) (map snd (latest (snd (vpn_entries parse rows))))))"
    unfolding distinct_sort_keys by (rule latest_values_own_key [OF own])
  then show ?thesis
    by (simp add: vpnSnapshotFromRows_def vpn_fold Let_def latest_values del: map_map)
qed

end
