(* ===== verification/NetworkUsage.thy ===== *)
theory NetworkUsage
  imports AdbStatus NetworkFlow Ordering LatestMap
begin

text \<open>
  Traffic by interface and by wireless network, \<open>src/mobipwn-web/src/lib/networkUsage.ts\<close>, with
  \<open>formatBytes\<close> of \<open>rowExt.ts\<close>. Numbers are whole; \<open>localeCompare\<close> with base sensitivity is the
  argument \<open>base\<close>.

  No traffic is lost or counted twice when rows are merged by interface or by access point: the four sums are
  clients of the locale \<open>additive_group\<close>.
\<close>

datatype UsageKind = U_interface | U_stats

record NetworkUsageRow =
  nu_kind :: UsageKind
  nu_interfaceLabel :: string
  nu_networkType :: string
  nu_rxBytes :: int
  nu_txBytes :: int
  nu_dataType :: string
  nu_detail :: string

record WifiAccessPoint =
  wa_ssid :: string
  wa_bssid :: string
  wa_rssi :: "int option"
  wa_frequencyMhz :: "int option"
  wa_security :: string
  wa_rxBytes :: int
  wa_txBytes :: int
  wa_rxPackets :: int
  wa_txPackets :: int
  wa_scanSection :: string
  wa_detail :: string

section \<open>Labels\<close>

definition kind_text_usage :: "UsageKind \<Rightarrow> string" where
  "kind_text_usage k = (case k of U_interface \<Rightarrow> ''interface'' | U_stats \<Rightarrow> ''stats'')"

text \<open>\<open>Math.round(n / 5)\<close> of a whole number.\<close>

definition round_fifth :: "int \<Rightarrow> int" where
  "round_fifth n = (2 * n + 5) div 10"

definition frequencyToChannel :: "int \<Rightarrow> string" where
  "frequencyToChannel mhz =
     (if mhz \<ge> 2412 \<and> mhz \<le> 2484 then ''ch '' @ int_str (round_fifth (mhz - 2407))
      else if mhz \<ge> 5170 \<and> mhz \<le> 5825 then ''ch '' @ int_str (round_fifth (mhz - 5000))
      else int_str mhz @ '' MHz'')"

definition wifiApFrequencyLabel :: "int option \<Rightarrow> string" where
  "wifiApFrequencyLabel mhz = (case mhz of None \<Rightarrow> [] | Some n \<Rightarrow> (if n \<le> 0 then [] else frequencyToChannel n))"

datatype WifiRssiTone = Tone_strong | Tone_fair | Tone_weak | Tone_unknown

definition wifiRssiTone :: "int option \<Rightarrow> WifiRssiTone" where
  "wifiRssiTone rssi =
     (case rssi of None \<Rightarrow> Tone_unknown
      | Some n \<Rightarrow> (if n \<ge> - 55 then Tone_strong else if n \<ge> - 70 then Tone_fair else Tone_weak))"

definition row_formatBytes :: "int option \<Rightarrow> string" where
  "row_formatBytes bytes =
     (case bytes of
        None \<Rightarrow> ''0 B''
      | Some n \<Rightarrow>
          (if n \<le> 0 then ''0 B'' else if n < 1024 then int_str n @ '' B''
           else if n < 1024 * 1024 then to_fixed 1 (nat n) 1024 @ '' KB''
           else if n < 1024 * 1024 * 1024 then to_fixed 1 (nat n) (1024 * 1024) @ '' MB''
           else to_fixed 2 (nat n) (1024 * 1024 * 1024) @ '' GB''))"

definition down_arrow :: string where
  "down_arrow = [CHR 0xE2, CHR 0x86, CHR 0x93]"

definition up_arrow :: string where
  "up_arrow = [CHR 0xE2, CHR 0x86, CHR 0x91]"

definition wifiApMeta :: "WifiAccessPoint \<Rightarrow> string" where
  "wifiApMeta ap =
     join ('' '' @ middle_dot @ '' '') (nonempty
       [wa_bssid ap, (case wa_rssi ap of None \<Rightarrow> [] | Some n \<Rightarrow> int_str n @ '' dBm''),
        wifiApFrequencyLabel (wa_frequencyMhz ap), wa_security ap,
        (if wa_rxPackets ap > 0 \<or> wa_txPackets ap > 0
         then down_arrow @ int_str (wa_rxPackets ap) @ '' pkt '' @ middle_dot @ '' '' @ up_arrow @ int_str (wa_txPackets ap) @ '' pkt''
         else []),
        wa_scanSection ap, wa_detail ap])"

section \<open>Reading rows\<close>

definition usage_type :: "Row \<Rightarrow> string" where
  "usage_type row = to_lower (strField row ''data_type'')"

definition isNetworkUsageRow :: "Row \<Rightarrow> bool" where
  "isNetworkUsageRow row \<longleftrightarrow>
     contains ''network_interface'' (usage_type row) \<or> contains ''network_stats'' (usage_type row)"

definition isWifiStatsRow :: "JsonParse \<Rightarrow> Row \<Rightarrow> bool" where
  "isWifiStatsRow parse row \<longleftrightarrow>
     contains ''network_stats'' (usage_type row)
     \<and> (contains ''WIFI'' (to_upper (or_str (strField row ''action'') (extField parse row ''network_type'')))
        \<or> or_str (strField row ''ssid'') (extField parse row ''wifi_network_name'') \<noteq> [])"

definition securityLabel :: "Row \<Rightarrow> string" where
  "securityLabel ext =
     (case map_of ext ''security'' of
        Some (JArr xs) \<Rightarrow> join '', '' (nonempty (map js_text xs))
      | Some (JStr s) \<Rightarrow> trim s
      | _ \<Rightarrow> [])"

definition numFromExt :: "Row \<Rightarrow> string \<Rightarrow> int option" where
  "numFromExt ext key = numFromValue (map_of ext key)"

definition statsDetail :: "JsonParse \<Rightarrow> Row \<Rightarrow> string" where
  "statsDetail parse row =
     (let ext = map_of (parseExt parse row); default = ext ''default_network'' in
      join ('' '' @ middle_dot @ '' '') (nonempty
        [(if ext ''metered'' = Some (JBool True) then ''metered'' else []),
         (if ext ''metered'' = Some (JBool False) then ''unmetered'' else []),
         (if default = Some (JBool True) \<or> default = Some (JStr ''true'') then ''default'' else []),
         extField parse row ''rat_type'']))"

definition bytes_of_field :: "JsonParse \<Rightarrow> Row \<Rightarrow> string \<Rightarrow> int" where
  "bytes_of_field parse row key = get_or 0 (numField parse row key)"

definition usage_ssid :: "JsonParse \<Rightarrow> Row \<Rightarrow> string" where
  "usage_ssid parse row =
     or_texts [strField row ''ssid'', extField parse row ''wifi_network_name'', extField parse row ''ssid'']"

definition HIDDEN_SSID :: string where
  "HIDDEN_SSID = ''(hidden)''"

definition scanned_row :: "Row \<Rightarrow> bool" where
  "scanned_row row \<longleftrightarrow> contains ''wifi_scan_result'' (usage_type row) \<or> contains ''wifi_saved'' (usage_type row)"

definition scanned_ap :: "JsonParse \<Rightarrow> Row \<Rightarrow> WifiAccessPoint" where
  "scanned_ap parse row =
     (let ext = parseExt parse row in
      \<lparr>wa_ssid = or_texts [strField row ''ssid'', extField parse row ''ssid'', HIDDEN_SSID],
       wa_bssid = extField parse row ''bssid'', wa_rssi = or_else (numField parse row ''rssi'') (numFromExt ext ''rssi''),
       wa_frequencyMhz = numFromExt ext ''frequency'', wa_security = securityLabel ext,
       wa_rxBytes = 0, wa_txBytes = 0, wa_rxPackets = 0, wa_txPackets = 0, wa_scanSection = extField parse row ''scan_section'',
       wa_detail = (if contains ''wifi_saved'' (usage_type row) then ''saved network'' else [])\<rparr>)"

definition stats_ap :: "JsonParse \<Rightarrow> Row \<Rightarrow> WifiAccessPoint" where
  "stats_ap parse row =
     \<lparr>wa_ssid = usage_ssid parse row, wa_bssid = extField parse row ''bssid'', wa_rssi = None, wa_frequencyMhz = None,
      wa_security = [], wa_rxBytes = bytes_of_field parse row ''rx_bytes'', wa_txBytes = bytes_of_field parse row ''tx_bytes'',
      wa_rxPackets = bytes_of_field parse row ''rx_packets'', wa_txPackets = bytes_of_field parse row ''tx_packets'',
      wa_scanSection = [], wa_detail = statsDetail parse row\<rparr>"

definition row_ap :: "JsonParse \<Rightarrow> Row \<Rightarrow> WifiAccessPoint option" where
  "row_ap parse row =
     (if scanned_row row then Some (scanned_ap parse row)
      else if isWifiStatsRow parse row \<and> usage_ssid parse row \<noteq> [] then Some (stats_ap parse row) else None)"

section \<open>Access points\<close>

definition apKey :: "WifiAccessPoint \<Rightarrow> string" where
  "apKey ap = or_str (trim (wa_ssid ap)) HIDDEN_SSID @ CHR 0x00 # to_lower (trim (wa_bssid ap))"

definition filled_number :: "int option \<Rightarrow> int option \<Rightarrow> int option" where
  "filled_number a b = (if (a = None \<or> a = Some 0) \<and> b \<noteq> None \<and> b \<noteq> Some 0 then b else a)"

definition stronger :: "int option \<Rightarrow> int option \<Rightarrow> int option" where
  "stronger a b =
     (case (a, b) of (_, None) \<Rightarrow> a | (None, Some n) \<Rightarrow> b | (Some m, Some n) \<Rightarrow> (if n > m then b else a))"

definition merge_ap :: "WifiAccessPoint \<Rightarrow> WifiAccessPoint \<Rightarrow> WifiAccessPoint" where
  "merge_ap existing ap =
     existing\<lparr>wa_rxBytes := wa_rxBytes existing + wa_rxBytes ap, wa_txBytes := wa_txBytes existing + wa_txBytes ap,
       wa_rxPackets := wa_rxPackets existing + wa_rxPackets ap, wa_txPackets := wa_txPackets existing + wa_txPackets ap,
       wa_rssi := stronger (wa_rssi existing) (wa_rssi ap),
       wa_frequencyMhz := filled_number (wa_frequencyMhz existing) (wa_frequencyMhz ap),
       wa_security := or_str (wa_security existing) (wa_security ap),
       wa_scanSection := or_str (wa_scanSection existing) (wa_scanSection ap),
       wa_detail := or_str (wa_detail existing) (wa_detail ap), wa_bssid := or_str (wa_bssid existing) (wa_bssid ap)\<rparr>"

definition compare_aps :: "(string \<Rightarrow> string \<Rightarrow> int) \<Rightarrow> WifiAccessPoint \<Rightarrow> WifiAccessPoint \<Rightarrow> int" where
  "compare_aps base a b =
     (let trafficDelta = wa_rxBytes b + wa_txBytes b - (wa_rxBytes a + wa_txBytes a);
          ar = get_or (- 999) (wa_rssi a); br = get_or (- 999) (wa_rssi b)
      in if trafficDelta \<noteq> 0 then trafficDelta else if ar \<noteq> br then br - ar else base (wa_ssid a) (wa_ssid b))"

definition wifi_groups :: "JsonParse \<Rightarrow> Row list \<Rightarrow> (string \<times> WifiAccessPoint) list" where
  "wifi_groups parse rows =
     group_rows (\<lambda>a. Some (apKey a)) (\<lambda>a. a) merge_ap (List.map_filter (row_ap parse) rows)"

definition wifiAccessPointsFromRows :: "JsonParse \<Rightarrow> (string \<Rightarrow> string \<Rightarrow> int) \<Rightarrow> Row list \<Rightarrow> WifiAccessPoint list" where
  "wifiAccessPointsFromRows parse base rows = js_sort (compare_aps base) (map snd (wifi_groups parse rows))"

definition wifiApTotals :: "WifiAccessPoint list \<Rightarrow> int \<times> int" where
  "wifiApTotals aps = foldl (\<lambda>(rx, tx) ap. (rx + wa_rxBytes ap, tx + wa_txBytes ap)) (0, 0) aps"

section \<open>Interfaces and statistics\<close>

definition parseNetworkUsageRow :: "JsonParse \<Rightarrow> Row \<Rightarrow> NetworkUsageRow option" where
  "parseNetworkUsageRow parse row =
     (let dataType = strField row ''data_type'';
          rx = bytes_of_field parse row ''rx_bytes''; tx = bytes_of_field parse row ''tx_bytes'';
          networkType = or_texts [strField row ''action'', extField parse row ''network_type'', ''mobile/wifi'']
      in if \<not> isNetworkUsageRow row then None
         else if contains ''network_interface'' (to_lower dataType)
         then Some \<lparr>nu_kind = U_interface,
           nu_interfaceLabel = or_texts [extField parse row ''name'', strField row ''action'', ''interface''],
           nu_networkType = ''iface'', nu_rxBytes = rx, nu_txBytes = tx, nu_dataType = dataType, nu_detail = []\<rparr>
         else Some \<lparr>nu_kind = U_stats,
           nu_interfaceLabel = or_texts [usage_ssid parse row, extField parse row ''subscriber_id'', networkType],
           nu_networkType = networkType, nu_rxBytes = rx, nu_txBytes = tx, nu_dataType = dataType,
           nu_detail = statsDetail parse row\<rparr>)"

definition usage_key :: "NetworkUsageRow \<Rightarrow> string" where
  "usage_key r = kind_text_usage (nu_kind r) @ '':'' @ nu_interfaceLabel r @ '':'' @ nu_networkType r"

definition merge_usage :: "NetworkUsageRow \<Rightarrow> NetworkUsageRow \<Rightarrow> NetworkUsageRow" where
  "merge_usage existing row =
     existing\<lparr>nu_rxBytes := nu_rxBytes existing + nu_rxBytes row, nu_txBytes := nu_txBytes existing + nu_txBytes row,
       nu_detail := or_str (nu_detail existing) (nu_detail row)\<rparr>"

definition usage_groups :: "JsonParse \<Rightarrow> Row list \<Rightarrow> (string \<times> NetworkUsageRow) list" where
  "usage_groups parse rows =
     group_rows (\<lambda>r. Some (usage_key r)) (\<lambda>r. r) merge_usage (List.map_filter (parseNetworkUsageRow parse) rows)"

definition networkUsageRows :: "JsonParse \<Rightarrow> (string \<Rightarrow> string \<Rightarrow> int) \<Rightarrow> Row list \<Rightarrow> NetworkUsageRow list" where
  "networkUsageRows parse base rows =
     js_sort (\<lambda>a b. then_by (base (nu_interfaceLabel a) (nu_interfaceLabel b)) (base (nu_networkType a) (nu_networkType b)))
       (map snd (usage_groups parse rows))"

definition networkUsageTotals :: "NetworkUsageRow list \<Rightarrow> int \<times> int" where
  "networkUsageTotals rows = foldl (\<lambda>(rx, tx) r. (rx + nu_rxBytes r, tx + nu_txBytes r)) (0, 0) rows"

definition interfaceUsageRows :: "NetworkUsageRow list \<Rightarrow> WifiAccessPoint list \<Rightarrow> NetworkUsageRow list" where
  "interfaceUsageRows usage wifiAps =
     (if wifiAps = [] then usage
      else filter (\<lambda>r. nu_kind r = U_interface
          \<or> to_lower (nu_interfaceLabel r) \<notin> set (map (\<lambda>ap. to_lower (wa_ssid ap)) wifiAps)
          \<or> \<not> test (LitI ''wifi'') (nu_networkType r)) usage)"

definition networkUsageQueryFields :: "string \<Rightarrow> string" where
  "networkUsageQueryFields source =
     (let q = [CHR 0x22];
          src = replace_char (CHR 0x22) [CHR 0x5C, CHR 0x22] (replace_char (CHR 0x5C) [CHR 0x5C, CHR 0x5C] source)
      in ''source='' @ q @ src @ q @ '' parser='' @ q @ ''Network'' @ q
        @ '' (data_type=*network_interface* OR data_type=*network_stats* OR data_type=*wifi_scan_result* OR data_type=*wifi_saved*)''
        @ '' | fields timestamp, action, message, data_type, ssid, ext, rx_bytes, tx_bytes, rx_packets, tx_packets, rssi | head 120'')"

interpretation usage_rx: additive_group "\<lambda>r. r" merge_usage nu_rxBytes nu_rxBytes
  by unfold_locales (simp_all add: merge_usage_def)

interpretation usage_tx: additive_group "\<lambda>r. r" merge_usage nu_txBytes nu_txBytes
  by unfold_locales (simp_all add: merge_usage_def)

interpretation wifi_rx: additive_group "\<lambda>a. a" merge_ap wa_rxBytes wa_rxBytes
  by unfold_locales (simp_all add: merge_ap_def)

interpretation wifi_tx: additive_group "\<lambda>a. a" merge_ap wa_txBytes wa_txBytes
  by unfold_locales (simp_all add: merge_ap_def)

lemma totals_sum: "foldl (\<lambda>(rx, tx) r. (rx + f r, tx + g r)) (a, b) rs = (a + (\<Sum>r\<leftarrow>rs. f r), b + (\<Sum>r\<leftarrow>rs. g r))"
  for a b :: int
  by (induction rs arbitrary: a b) simp_all

section \<open>Usage rows\<close>

lemma usage_group_key: "(k, r) \<in> set (usage_groups parse rows) \<Longrightarrow> usage_key r = k"
  unfolding usage_groups_def group_rows_member
  by (erule group_of_invariant) (simp_all add: usage_key_def merge_usage_def)

section \<open>Access points\<close>

definition strongest :: "int option list \<Rightarrow> int option" where
  "strongest xs = foldl stronger None xs"

lemma stronger_bound: "strongest xs = Some m \<Longrightarrow> Some m \<in> set xs \<and> list_all (\<lambda>x. get_or m x \<le> m) xs"
proof (induction xs arbitrary: m rule: rev_induct)
  case (snoc x xs)
  show ?case
  proof (cases "strongest xs")
    case None
    moreover have "strongest ys = None \<Longrightarrow> list_all (\<lambda>y. y = None) ys" for ys
      by (induction ys rule: rev_induct) (auto simp: strongest_def stronger_def split: option.splits if_splits)
    ultimately have "list_all (\<lambda>y. y = None) xs" by blast
    with None snoc.prems show ?thesis
      by (auto simp: strongest_def stronger_def get_or_def list_all_iff split: option.splits)
  next
    case (Some n)
    have bound: "Some n \<in> set xs" "list_all (\<lambda>x. get_or n x \<le> n) xs" using snoc.IH [OF Some] by simp_all
    have "get_or m y \<le> m" if "n \<le> m" "y \<in> set xs" for y
      using bound(2) that by (cases y) (auto simp: list_all_iff get_or_def)
    with Some snoc.prems bound show ?thesis
      by (cases x) (auto simp: strongest_def stronger_def get_or_def list_all_iff split: if_splits)
  qed
qed (simp add: strongest_def)

definition with_key :: "string \<Rightarrow> WifiAccessPoint list \<Rightarrow> WifiAccessPoint list" where
  "with_key k = filter (\<lambda>a. apKey a = k)"

lemma merged_rssi: "wa_rssi (foldl merge_ap a as) = foldl stronger (wa_rssi a) (map wa_rssi as)"
  by (induction as arbitrary: a) (simp_all add: merge_ap_def)

lemma wifi_group:
  assumes "(k, a) \<in> set (wifi_groups parse rows)"
  shows "wa_rssi a = strongest (map wa_rssi (with_key k (List.map_filter (row_ap parse) rows)))
     \<and> wa_ssid a = wa_ssid (hd (with_key k (List.map_filter (row_ap parse) rows)))"
proof -
  obtain x xs where f: "with_key k (List.map_filter (row_ap parse) rows) = x # xs" and a: "a = foldl merge_ap x xs"
    using assms unfolding wifi_groups_def group_rows_member with_key_def by (elim group_of_rows) simp
  have "wa_ssid (foldl merge_ap x ys) = wa_ssid x" for ys
    by (induction ys arbitrary: x) (simp_all add: merge_ap_def)
  moreover have "stronger None (wa_rssi x) = wa_rssi x" by (cases "wa_rssi x") (simp_all add: stronger_def)
  ultimately show ?thesis by (simp add: f a merged_rssi strongest_def)
qed

lemma busiest_first:
  "sorted_wrt (\<lambda>a b. wa_rxBytes b + wa_txBytes b \<le> wa_rxBytes a + wa_txBytes a) (js_sort (compare_aps base) as)"
  by (rule sort_by_relation) (auto simp: compare_aps_def Let_def split: if_splits)


text \<open>Statistics without a bssid never meet the access point of a scan, whose bssid they would take over.\<close>

lemma stats_apart:
  assumes "wa_bssid a = []" and "trim (wa_bssid b) \<noteq> []" and "CHR 0x00 \<notin> set (wa_bssid b)"
  shows "apKey a \<noteq> apKey b"
proof
  assume "apKey a = apKey b"
  then have "last (apKey a) = last (apKey b)" by simp
  then have "CHR 0x00 = last (to_lower (trim (wa_bssid b)))"
    using assms(1,2) by (simp add: apKey_def last_ConsR to_lower_def trim_Nil)
  then have "CHR 0x00 \<in> set (to_lower (trim (wa_bssid b)))" using assms(2) last_in_set by (metis list.map_disc_iff to_lower_def)
  then obtain c where "c \<in> set (wa_bssid b)" "lower_char c = CHR 0x00" using set_trim [of "wa_bssid b"] by (auto simp: to_lower_def)
  moreover have "lower_char c = CHR 0x00 \<Longrightarrow> c = CHR 0x00" for c
  proof (cases "is_upper c")
    case True
    then have "code (lower_char c) = code c + 32" by (simp add: lower_char_def is_upper_def code_char_of)
    moreover have "code (CHR 0x00) = 0" by (simp add: code_def)
    ultimately show "lower_char c = CHR 0x00 \<Longrightarrow> c = CHR 0x00" by auto
  qed (simp add: lower_char_def)
  ultimately show False using assms(3) by auto
qed

end
