(* ===== verification/JsNumber.thy ===== *)
theory JsNumber
  imports RowExt
begin

text \<open>
  \<open>(n / q).toFixed(d)\<close> of whole numbers: the quotient is the nearest double, 53 bits with ties to even, and
  the digits are those of the exact value of that double, ties upwards. Quotients are below \<open>2 ^ 53\<close>.
\<close>

text \<open>How often a quotient is doubled until it has 53 bits; the fuel is enough for quotients above \<open>2 ^ -1000\<close>.\<close>

fun doublings :: "nat \<Rightarrow> nat \<Rightarrow> nat \<Rightarrow> nat" where
  "doublings 0 n q = 0"
| "doublings (Suc fuel) n q = (if 2 ^ 52 * q \<le> n then 0 else Suc (doublings fuel (2 * n) q))"

definition half_even :: "nat \<Rightarrow> nat \<Rightarrow> nat" where
  "half_even a q =
     (let r = a div q; rest = a mod q in if 2 * rest > q \<or> (2 * rest = q \<and> odd r) then r + 1 else r)"

definition fixed_quotient :: "nat \<Rightarrow> int \<Rightarrow> nat \<Rightarrow> string" where
  "fixed_quotient d n q =
     (let k = (if n = 0 then 0 else doublings 1053 (nat \<bar>n\<bar>) q);
          m = half_even (nat \<bar>n\<bar> * 2 ^ k) q;
          digits = (2 * 10 ^ d * m + 2 ^ k) div (2 * 2 ^ k)
      in (if n < 0 then ''-'' else []) @ nat_str (digits div 10 ^ d)
        @ (if d = 0 then [] else ''.'' @ pad_zeros d (nat_str (digits mod 10 ^ d))))"

section \<open>The nearest double\<close>

lemma doublings_enough: "n * 2 ^ fuel \<ge> 2 ^ 52 * q \<Longrightarrow> 2 ^ 52 * q \<le> n * 2 ^ doublings fuel n q"
proof (induction fuel arbitrary: n)
  case (Suc fuel)
  then show ?case using Suc.IH [of "2 * n"] by (simp add: algebra_simps)
qed simp

lemma doublings_least: "doublings fuel n q = Suc k \<Longrightarrow> n * 2 ^ k < 2 ^ 52 * q"
proof (induction fuel arbitrary: n k)
  case (Suc fuel)
  then show ?case using Suc.IH [of "2 * n"] by (cases k) (auto simp: algebra_simps split: if_splits)
qed simp

lemma half_even_near:
  assumes "0 < q"
  shows "2 * (half_even a q * q) \<le> 2 * a + q" and "2 * a \<le> 2 * (half_even a q * q) + q"
proof -
  define d where "d = a div q * q"
  define r where "r = a mod q"
  have a: "a = d + r" "r < q" using assms by (simp_all add: d_def r_def)
  have "half_even a q * q = (if 2 * r > q \<or> (2 * r = q \<and> odd (a div q)) then d + q else d)"
    by (simp add: half_even_def Let_def d_def r_def add_mult_distrib)
  then show "2 * (half_even a q * q) \<le> 2 * a + q" "2 * a \<le> 2 * (half_even a q * q) + q"
    using a by (auto split: if_splits)
qed

text \<open>A quotient below \<open>2 ^ 52\<close> is scaled to between 52 and 53 bits, so that rounding it errs by at most
  one part in \<open>2 ^ 53\<close>.\<close>

lemma nearest_double:
  assumes "0 < n" and "0 < q" and "n < 2 ^ 52 * q" and "q \<le> 2 ^ 1000"
  defines "k \<equiv> doublings 1053 n q"
  shows "2 ^ 52 * q \<le> n * 2 ^ k" and "n * 2 ^ k < 2 ^ 53 * q" and "2 ^ 52 \<le> half_even (n * 2 ^ k) q"
proof -
  have "2 ^ 52 * q \<le> 2 ^ 52 * 2 ^ 1000" using assms(4) by (rule mult_le_mono2)
  also have "\<dots> \<le> (2 :: nat) ^ 1053" unfolding power_add [symmetric] by (rule power_increasing) simp_all
  also have "\<dots> \<le> n * 2 ^ 1053" using assms(1) by simp
  finally show low: "2 ^ 52 * q \<le> n * 2 ^ k" unfolding k_def by (rule doublings_enough)
  have "k \<noteq> 0" using low assms(3) by (auto intro: ccontr)
  then obtain j where j: "k = Suc j" by (cases k) simp_all
  then have "n * 2 ^ j < 2 ^ 52 * q" using doublings_least unfolding k_def by blast
  then show "n * 2 ^ k < 2 ^ 53 * q" by (simp add: j)
  have "2 ^ 52 \<le> (n * 2 ^ k) div q" using low assms(2) by (simp add: less_eq_div_iff_mult_less_eq)
  then show "2 ^ 52 \<le> half_even (n * 2 ^ k) q" by (simp add: half_even_def Let_def)
qed

text \<open>The double nearest to 1.45 is below it, the one nearest to 1.25 is it.\<close>

lemma doublings_numeral:
  "doublings (numeral v) n q = (if 2 ^ 52 * q \<le> n then 0 else Suc (doublings (pred_numeral v) (2 * n) q))"
  unfolding numeral_eq_Suc [of v] by (rule doublings.simps(2))

lemma ties_of_decimals: "fixed_quotient 1 1450 1000 = ''1.4''" "fixed_quotient 1 1250 1000 = ''1.3''"
proof -
  have "nat_str 1 = ''1''" "pad_zeros 1 (nat_str 4) = ''4''" "pad_zeros 1 (nat_str 3) = ''3''" by code_simp+
  moreover have "doublings 1053 1450 1000 = 52" "doublings 1053 1250 1000 = 52" by (simp_all add: doublings_numeral)
  ultimately show "fixed_quotient 1 1450 1000 = ''1.4''" "fixed_quotient 1 1250 1000 = ''1.3''"
    by (simp_all add: fixed_quotient_def half_even_def)
qed

end
