(* ===== verification/IosRows.thy ===== *)
theory IosRows
  imports JsNumber PackageSnapshot Ordering
begin

text \<open>
  Rows of iOS parsers, \<open>src/mobipwn-web/src/lib/iosDeviceSnapshot.ts\<close>: the extension of a row as a flat map of
  texts, and what is read of the device from the rows of one parser.
\<close>

definition parseRowExtObject :: "JsonParse \<Rightarrow> Row \<Rightarrow> Row" where
  "parseRowExtObject parse row =
     (case map_of row ''ext'' of
        Some (JStr raw) \<Rightarrow>
          (if trim raw \<noteq> [] then (case parse raw of Some (JObj kvs) \<Rightarrow> kvs | _ \<Rightarrow> []) else [])
      | Some (JObj kvs) \<Rightarrow> kvs
      | _ \<Rightarrow> [])"

definition flat_text :: "Json \<Rightarrow> string option" where
  "flat_text v =
     (case v of
        JStr s \<Rightarrow> truthy (Some (trim s))
      | JNum n \<Rightarrow> Some (int_str n)
      | JBool b \<Rightarrow> Some (js_text v)
      | _ \<Rightarrow> None)"

type_synonym TextRow = "(string \<times> string) list"

definition parseRowExt :: "JsonParse \<Rightarrow> Row \<Rightarrow> TextRow" where
  "parseRowExt parse row =
     List.map_filter (\<lambda>(key, v). map_option (Pair key) (flat_text v)) (parseRowExtObject parse row)"

definition text_of :: "TextRow \<Rightarrow> string \<Rightarrow> string" where
  "text_of ext key = get_or [] (map_of ext key)"

section \<open>Battery\<close>

record IosBatterySnapshot =
  ib_stateOfCharge :: string
  ib_currentCapacity :: string
  ib_designCapacity :: string
  ib_isCharging :: bool
  ib_externalConnected :: bool
  ib_temperature :: string
  ib_voltage :: string
  ib_amperage :: string

definition typed_ext :: "JsonParse \<Rightarrow> Row \<Rightarrow> TextRow" where
  "typed_ext parse row =
     (let ext = parseRowExt parse row; desc = strField row ''timestamp_desc''
      in if text_of ext ''type'' = [] \<and> desc \<noteq> [] then ext @ [(''type'', desc)] else ext)"

definition family_re :: regex where
  "family_re = Seqs [Bol, Grp 1 (Seq (Lit ''BDC_'') (Alts [Lit ''SBC'', Lit ''Once'', Lit ''OBC'']))]"

definition family_of :: "TextRow \<Rightarrow> string" where
  "family_of ext =
     (let type = text_of ext ''type''
      in case exec family_re type of Some m \<Rightarrow> get_or [] (group 1 m) | None \<Rightarrow> type)"

definition has_text :: "TextRow \<Rightarrow> string \<Rightarrow> bool" where
  "has_text ext key \<longleftrightarrow> text_of ext key \<noteq> []"

definition is_sbc :: "TextRow \<Rightarrow> bool" where
  "is_sbc ext \<longleftrightarrow> family_of ext = ''BDC_SBC'' \<or> has_text ext ''StateOfCharge'' \<or> has_text ext ''Temperature''"

definition is_once :: "TextRow \<Rightarrow> bool" where
  "is_once ext \<longleftrightarrow> family_of ext = ''BDC_Once'' \<or> has_text ext ''DesignCapacity'' \<or> has_text ext ''CycleCount''"

definition is_obc :: "TextRow \<Rightarrow> bool" where
  "is_obc ext \<longleftrightarrow> family_of ext = ''BDC_OBC'' \<or> has_text ext ''ExternalConnected''"

definition signed_digits :: "string \<Rightarrow> bool" where
  "signed_digits s \<longleftrightarrow> digits_only s \<or> (starts_with ''-'' s \<and> digits_only (drop 1 s))"

definition degrees_C :: string where
  "degrees_C = '' '' @ [CHR 0xC2, CHR 0xB0] @ ''C''"

text \<open>\<open>(Number(s) / q).toFixed(d)\<close>; a text that is not a number gives NaN.\<close>

definition text_quotient :: "nat \<Rightarrow> string \<Rightarrow> nat \<Rightarrow> string" where
  "text_quotient d s q = (case js_number s of Some n \<Rightarrow> fixed_quotient d n q | None \<Rightarrow> ''NaN'')"

definition capacity_text :: "string \<Rightarrow> string" where
  "capacity_text s =
     (if s = [] then em_dash
      else case js_number s of
             Some n \<Rightarrow> (if n \<le> 100 then s @ ''%'' else s @ '' mAh'')
           | None \<Rightarrow> s @ '' mAh'')"

definition temperature_text :: "TextRow \<Rightarrow> string" where
  "temperature_text sbc =
     (let raw = get_or [] (or_else (map_of sbc ''Temperature'') (map_of sbc ''VirtualTemperature''))
      in or_str (if signed_digits raw then text_quotient 1 raw 100 @ degrees_C else raw) em_dash)"

definition batterySnapshotFromRows :: "JsonParse \<Rightarrow> Row list \<Rightarrow> IosBatterySnapshot option" where
  "batterySnapshotFromRows parse rows =
     (let exts = map (typed_ext parse) rows;
          sbc = List.find is_sbc exts; once = List.find is_once exts; obc = List.find is_obc exts;
          sb = get_or [] sbc; on = get_or [] once; ob = get_or [] obc
      in if sbc = None \<and> once = None \<and> obc = None then None
         else Some
          \<lparr>ib_stateOfCharge = (if has_text sb ''StateOfCharge'' then text_of sb ''StateOfCharge'' @ ''%'' else em_dash),
           ib_currentCapacity = capacity_text (text_of sb ''CurrentCapacity''),
           ib_designCapacity = (if has_text on ''DesignCapacity'' then text_of on ''DesignCapacity'' @ '' mAh'' else em_dash),
           ib_isCharging = (map_of sb ''IsCharging'' = Some ''1''),
           ib_externalConnected =
             (map_of ob ''ExternalConnected'' = Some ''1'' \<or> map_of ob ''AppleRawExternalConnected'' = Some ''1''),
           ib_temperature = temperature_text sb,
           ib_voltage = (if has_text sb ''Voltage'' then text_quotient 2 (text_of sb ''Voltage'') 1000 @ '' V'' else em_dash),
           ib_amperage = or_texts [text_of sb ''InstantAmperage'', text_of sb ''Amperage'', em_dash]\<rparr>)"

section \<open>Storage\<close>

record IosStorageSnapshot =
  ig_mount :: string
  ig_size :: string
  ig_used :: string
  ig_avail :: string
  ig_capacity :: string

definition storage_of :: "JsonParse \<Rightarrow> Row \<Rightarrow> IosStorageSnapshot option" where
  "storage_of parse row =
     (let ext = parseRowExt parse row; txt = (\<lambda>k. or_str (text_of ext k) em_dash)
      in if \<not> has_text ext ''mounted_on'' \<or> (\<not> has_text ext ''size'' \<and> \<not> has_text ext ''used'') then None
         else Some \<lparr>ig_mount = text_of ext ''mounted_on'', ig_size = txt ''size'', ig_used = txt ''used'', ig_avail = txt ''avail'',
           ig_capacity = or_str (text_of ext ''capacity'')
             (if has_text ext ''capacity_percent'' then text_of ext ''capacity_percent'' @ ''%'' else em_dash)\<rparr>)"

definition storageSnapshotsFromRows :: "JsonParse \<Rightarrow> Row list \<Rightarrow> IosStorageSnapshot list" where
  "storageSnapshotsFromRows parse rows =
     (let out = first_of_keys ig_mount [] (List.map_filter (storage_of parse) rows)
      in case List.find (\<lambda>s. ig_mount s = ''/'') out of
           Some top_mount \<Rightarrow> top_mount # take 3 (filter (\<lambda>s. ig_mount s \<noteq> ''/'') out)
         | None \<Rightarrow> take 4 out)"

section \<open>Activation and pairing\<close>

record IosActivationSnapshot =
  ia_hardwareModel :: string
  ia_productType :: string
  ia_deviceClass :: string
  ia_buildVersion :: string
  ia_socGeneration :: string
  ia_hasBaseband :: string
  ia_internalBuild :: string
  ia_activationState :: string

definition raw_message :: "Row \<Rightarrow> string" where
  "raw_message row = (case map_of row ''message'' of Some (JStr s) \<Rightarrow> s | _ \<Rightarrow> [])"

definition activation_re :: regex where
  "activation_re = LitI ''activation state:''"

definition before_state_re :: regex where
  "before_state_re = Seqs [Star Dot, LitI ''activation state:'', Star Space]"

definition activation_state :: "string \<Rightarrow> string" where
  "activation_state message =
     (if test activation_re message then trim (replace_first before_state_re [] message) else [])"

definition startup_of :: "JsonParse \<Rightarrow> Row list \<Rightarrow> TextRow option" where
  "startup_of parse rows = List.find (\<lambda>ext. has_text ext ''hardware_model'') (map (parseRowExt parse) rows)"

definition state_of :: "Row list \<Rightarrow> string" where
  "state_of rows = or_texts (map (\<lambda>row. activation_state (raw_message row)) rows)"

definition yes_no :: "string option \<Rightarrow> string" where
  "yes_no v = (if v = Some ''true'' then ''Yes'' else if v = Some ''false'' then ''No'' else em_dash)"

definition activationSnapshotFromRows :: "JsonParse \<Rightarrow> Row list \<Rightarrow> IosActivationSnapshot option" where
  "activationSnapshotFromRows parse rows =
     (let startup = startup_of parse rows; ext = map_of (get_or [] startup);
          txt = (\<lambda>k. get_or em_dash (ext k))
      in if startup = None \<and> state_of rows = [] then None
         else Some \<lparr>ia_hardwareModel = txt ''hardware_model'', ia_productType = txt ''product_type'',
           ia_deviceClass = txt ''device_class'', ia_buildVersion = txt ''build_version'',
           ia_socGeneration = txt ''soc_generation'', ia_hasBaseband = yes_no (ext ''has_baseband''),
           ia_internalBuild = yes_no (ext ''internal_build''), ia_activationState = or_str (state_of rows) em_dash\<rparr>)"

definition build_re :: regex where
  "build_re = Seqs [LitI ''build version:'', Star Space, Grp 1 (Plus Dot)]"

fun lockdownBuildFromRows :: "Row list \<Rightarrow> string" where
  "lockdownBuildFromRows [] = []"
| "lockdownBuildFromRows (row # rows) =
     (case exec build_re (raw_message row) of
        Some m \<Rightarrow> trim (get_or [] (group 1 m))
      | None \<Rightarrow> lockdownBuildFromRows rows)"

definition paired_name :: "JsonParse \<Rightarrow> Row \<Rightarrow> string option" where
  "paired_name parse row =
     (case map_of (parseRowExtObject parse row) ''attributes'' of
        Some (JObj attrs) \<Rightarrow>
          (case map_of attrs ''labl'' of Some (JStr s) \<Rightarrow> truthy (Some (trim s)) | _ \<Rightarrow> None)
      | _ \<Rightarrow> None)"

definition pairedDevicesFromSecurityRows :: "JsonParse \<Rightarrow> (string \<Rightarrow> string \<Rightarrow> int) \<Rightarrow> Row list \<Rightarrow> string list" where
  "pairedDevicesFromSecurityRows parse compare rows =
     js_sort compare (first_of_keys (\<lambda>n. n) [] (List.map_filter (paired_name parse) rows))"

definition iosDeviceSnapshotQuery :: "string \<Rightarrow> string \<Rightarrow> string \<Rightarrow> string" where
  "iosDeviceSnapshotQuery source parser pipeline =
     (let q = [CHR 0x22] in trim (''source='' @ q @ source @ q @ '' parser='' @ q @ parser @ q @ '' '' @ pipeline))"

end
