(* ===== verification/IosNetwork.thy ===== *)
theory IosNetwork
  imports IosRows Grouping
begin

text \<open>
  Network traces of iOS, \<open>src/mobipwn-web/src/lib/iosNetworkData.ts\<close>. Every reader is one loop: a row that does
  not qualify is skipped, so is one whose key was seen, and the rest are listed: \<open>listed_once key read rows\<close>.
  The hostname of \<open>new URL(text)\<close> is the argument \<open>url_host\<close>, \<open>None\<close> where it throws; \<open>localeCompare\<close> is
  \<open>compare\<close>.

  The readers list every qualifying row once by its key; the roll-up of domains counts every mention once.
\<close>

definition listed_once :: "('b \<Rightarrow> string) \<Rightarrow> ('a \<Rightarrow> 'b option) \<Rightarrow> 'a list \<Rightarrow> 'b list" where
  "listed_once key read rows = first_of_keys key [] (List.map_filter read rows)"

definition colons :: "string list \<Rightarrow> string" where
  "colons ss = join '':'' ss"

section \<open>Fields\<close>

definition normKey :: "string \<Rightarrow> string" where
  "normKey key = replace_all (Plus Space) ''_'' (to_lower key)"

definition loose_text :: "Json \<Rightarrow> string" where
  "loose_text v = (case v of JStr s \<Rightarrow> trim s | JNum n \<Rightarrow> int_str n | _ \<Rightarrow> [])"

definition read_loose :: "string list \<Rightarrow> Row \<Rightarrow> string" where
  "read_loose candidates obj =
     or_texts (map (\<lambda>kv. if normKey (fst kv) \<in> set (map normKey candidates) then loose_text (snd kv) else []) obj)"

definition rowLooseField :: "JsonParse \<Rightarrow> Row \<Rightarrow> string list \<Rightarrow> string" where
  "rowLooseField parse row candidates =
     or_texts [read_loose candidates row, read_loose candidates (parseRowExtObject parse row),
       read_loose candidates (map (\<lambda>(k, s). (k, JStr s)) (parseRowExt parse row))]"

definition ipv4_re :: regex where
  "ipv4_re = (let part = Seq Digit (Seq (Opt Digit) (Opt Digit))
     in Seqs [WordB, Times 3 (Seq part (Lit ''.'')), part, WordB])"

definition host_re :: regex where
  "host_re = Seqs [Bol,
     Opt (Seqs [Cls (\<lambda>c. is_lower (lower_char c)), Star (Cls (\<lambda>c. is_lower (lower_char c) \<or> is_digit c \<or> c \<in> set ''+.-'')), Lit ''://'']),
     Opt (Seq (Plus (Cls (\<lambda>c. c \<noteq> CHR ''/'' \<and> c \<noteq> CHR ''@'' \<and> \<not> is_space c))) (Lit ''@'')),
     Grp 1 (Plus (Cls (\<lambda>c. c \<notin> set ''/:?#'' \<and> \<not> is_space c)))]"

definition without_brackets :: "string \<Rightarrow> string" where
  "without_brackets s =
     (let t = (if starts_with ''['' s then drop 1 s else s) in if ends_with '']'' t then butlast t else t)"

type_synonym UrlHost = "string \<Rightarrow> string option"

definition http_re :: regex where
  "http_re = Seqs [Bol, LitI ''http'', Opt (LitI ''s''), Lit ''://'']"

definition bare_host :: "string \<Rightarrow> string" where
  "bare_host s =
     (let matched = (case exec host_re s of Some m \<Rightarrow> get_or [] (group 1 m) | None \<Rightarrow> []);
          raw = or_str matched s;
          host = to_lower (if ends_with ''.'' raw then butlast raw else raw)
      in if host = [] \<or> contains '' '' host \<or> \<not> contains ''.'' host \<or> test ipv4_re host then [] else host)"

definition hostFromUrlOrDomain :: "UrlHost \<Rightarrow> string \<Rightarrow> string" where
  "hostFromUrlOrDomain url_host raw =
     (let s = trim raw in
      if s = [] then []
      else if test http_re s \<or> contains ''://'' s
      then (case url_host (if contains ''://'' s then s else ''https://'' @ s) of
              Some hostname \<Rightarrow> to_lower (without_brackets hostname)
            | None \<Rightarrow> bare_host s)
      else bare_host s)"

text \<open>\<open>Number.parseInt(raw, 10)\<close>, and sizes as the panels write them.\<close>

definition net_formatBytes :: "string \<Rightarrow> string" where
  "net_formatBytes raw =
     (case parse_int 10 raw of
        None \<Rightarrow> or_str raw em_dash
      | Some n \<Rightarrow>
          (if n \<le> 0 then or_str raw em_dash
           else if n < 1024 then int_str n @ '' B''
           else if n < 1024 * 1024 then fixed_quotient 1 n 1024 @ '' KB''
           else fixed_quotient 1 n (1024 * 1024) @ '' MB''))"

section \<open>Readers\<close>

record IosSwcutilDomain =
  sw_domain :: string
  sw_status :: string

record IosPowerlogPush =
  pp_bundleId :: string
  pp_hostname :: string
  pp_serverIp :: string
  pp_topic :: string
  pp_connectionType :: string
  pp_timestamp :: string

record IosPowerlogUsage =
  pu_bundleId :: string
  pu_processName :: string
  pu_wifiIn :: string
  pu_wifiOut :: string
  pu_cellIn :: string
  pu_cellOut :: string
  pu_timestamp :: string

record IosNetworkExtensionHint =
  nx_path :: string
  nx_key :: string
  nx_value :: string

record IosPlistUrlHit =
  pl_path :: string
  pl_key :: string
  pl_url :: string

record IosNetworkIoc =
  ic_kind :: string
  ic_value :: string
  ic_sourceParser :: string
  ic_jsonPath :: string

record IosSafariVisit =
  sv_url :: string
  sv_domain :: string
  sv_title :: string
  sv_visitCount :: string
  sv_timestamp :: string

record IosKnowledgeWebUsage =
  kw_appName :: string
  kw_bundleId :: string
  kw_domain :: string
  kw_url :: string
  kw_seconds :: string
  kw_timestamp :: string
  kw_module :: string

record IosQuarantineUrl =
  qu_originUrl :: string
  qu_dataUrl :: string
  qu_agentBundleId :: string
  qu_agentName :: string
  qu_timestamp :: string

record IosInteractionUrl =
  iu_contentUrl :: string
  iu_domainId :: string
  iu_contextText :: string
  iu_timestamp :: string

datatype ContactKind = Ck_mailto | Ck_tel | Ck_other

record IosTransparencyContact =
  tc_uri :: string
  tc_kind :: ContactKind
  tc_label :: string

record IosNetusageRoute =
  nr_networkType :: string
  nr_identifier :: string
  nr_displayName :: string
  nr_bssid :: string
  nr_bytesIn :: string
  nr_bytesOut :: string
  nr_packetsIn :: string
  nr_packetsOut :: string
  nr_connAttempts :: string
  nr_connSuccesses :: string
  nr_timestamp :: string
  nr_isWifi :: bool

record IosScreentimeDomain =
  sd_domain :: string
  sd_bundleId :: string
  sd_category :: string
  sd_timestamp :: string
  sd_hits :: nat

record IosConnectedDomain =
  cd_domain :: string
  cd_sources :: "string list"
  cd_sampleUrl :: string
  cd_hits :: nat

definition row_time :: "Row \<Rightarrow> string" where
  "row_time row = or_str (strField row ''timestamp'') (strField row ''datetime'')"

definition bundle_field :: "JsonParse \<Rightarrow> Row \<Rightarrow> string" where
  "bundle_field parse row =
     or_str (rowLooseField parse row [''bundle id'', ''bundleid'', ''bundle_id'']) (strField row ''bundle_id'')"

text \<open>A row of an Apollo module, or one whose message says so.\<close>

definition of_module :: "JsonParse \<Rightarrow> Row \<Rightarrow> string list \<Rightarrow> string \<Rightarrow> bool" where
  "of_module parse row modules phrase \<longleftrightarrow>
     rowLooseField parse row [''apollo_module''] \<in> set modules \<or> test (LitI phrase) (strField row ''message'')"

definition network_re :: regex where
  "network_re = Seqs [Bol, LitI ''Network:'']"

definition network_domain_re :: regex where
  "network_domain_re = Seqs [Bol, LitI ''Network:'', Star Space, Grp 1 (Plus (Cls (\<lambda>c. \<not> is_space c)))]"

definition up_to_comma :: "string \<Rightarrow> string" where
  "up_to_comma s = replace_first (Seqs [Lit '','', Star Dot, Eol]) [] s"

definition swcutil_of :: "JsonParse \<Rightarrow> Row \<Rightarrow> IosSwcutilDomain option" where
  "swcutil_of parse row =
     (let message = strField row ''message'';
          isNetwork = rowLooseField parse row [''section''] = ''network'' \<or> test network_re message
            \<or> starts_with ''Network: '' message;
          domain = or_str (rowLooseField parse row [''domain''])
            (case exec network_domain_re message of Some m \<Rightarrow> up_to_comma (get_or [] (group 1 m)) | None \<Rightarrow> []);
          status = (if contains ''approved'' message then ''approved'' else if contains ''pending'' message then ''pending''
            else if contains ''rejected'' message then ''rejected'' else [])
      in if \<not> isNetwork \<or> domain = [] then None else Some \<lparr>sw_domain = domain, sw_status = status\<rparr>)"

definition swcutilDomainsFromRows :: "JsonParse \<Rightarrow> (string \<Rightarrow> string \<Rightarrow> int) \<Rightarrow> Row list \<Rightarrow> IosSwcutilDomain list" where
  "swcutilDomainsFromRows parse compare rows =
     js_sort (\<lambda>a b. compare (sw_domain a) (sw_domain b))
       (listed_once (\<lambda>d. colons [sw_domain d, sw_status d]) (swcutil_of parse) rows)"

definition push_of :: "JsonParse \<Rightarrow> Row \<Rightarrow> IosPowerlogPush option" where
  "push_of parse row =
     (let f = rowLooseField parse row;
          serverIp = f [''server ip'', ''serverip'', ''dest_ip''];
          hostname = f [''serverhostname'', ''server_hostname'', ''destination_domain'']; topic = f [''topic'']
      in if \<not> of_module parse row [''powerlog_push_message_received''] ''push message received''
            \<or> (serverIp = [] \<and> hostname = [] \<and> topic = []) then None
         else Some \<lparr>pp_bundleId = bundle_field parse row, pp_hostname = hostname, pp_serverIp = serverIp, pp_topic = topic,
           pp_connectionType = f [''connection type'', ''connectiontype''], pp_timestamp = row_time row\<rparr>)"

definition powerlogPushFromRows :: "JsonParse \<Rightarrow> Row list \<Rightarrow> IosPowerlogPush list" where
  "powerlogPushFromRows parse rows =
     listed_once (\<lambda>p. colons [pp_bundleId p, pp_hostname p, pp_serverIp p, pp_topic p]) (push_of parse) rows"

definition usage_of :: "JsonParse \<Rightarrow> Row \<Rightarrow> IosPowerlogUsage option" where
  "usage_of parse row =
     (let bytes = (\<lambda>c. net_formatBytes (rowLooseField parse row c));
          wifiIn = bytes [''wifi in'', ''wifiin'']; wifiOut = bytes [''wifi out'', ''wifiout''];
          cellIn = bytes [''cell in'', ''cellin'']; cellOut = bytes [''cell out'', ''cellout'']
      in if \<not> of_module parse row [''powerlog_process_data_usage''] ''process data usage''
            \<or> (wifiIn = em_dash \<and> wifiOut = em_dash \<and> cellIn = em_dash \<and> cellOut = em_dash) then None
         else Some \<lparr>pu_bundleId = bundle_field parse row,
           pu_processName = rowLooseField parse row [''process name'', ''processname'', ''process_name''],
           pu_wifiIn = wifiIn, pu_wifiOut = wifiOut, pu_cellIn = cellIn, pu_cellOut = cellOut, pu_timestamp = row_time row\<rparr>)"

definition usage_row_key :: "IosPowerlogUsage \<Rightarrow> string" where
  "usage_row_key u = colons [pu_bundleId u, pu_processName u, pu_wifiIn u, pu_cellIn u]"

definition powerlogUsageFromRows :: "JsonParse \<Rightarrow> (string \<Rightarrow> string \<Rightarrow> int) \<Rightarrow> Row list \<Rightarrow> IosPowerlogUsage list" where
  "powerlogUsageFromRows parse compare rows =
     js_sort (\<lambda>a b. compare (pu_bundleId a) (pu_bundleId b)) (listed_once usage_row_key (usage_of parse) rows)"

text \<open>The keys of the next two readers have the fields as they were read, before blanks are replaced.\<close>

definition plist_fields :: "JsonParse \<Rightarrow> Row \<Rightarrow> string \<times> string" where
  "plist_fields parse row = (rowLooseField parse row [''plist_path''], rowLooseField parse row [''plist_key''])"

definition hint_of :: "JsonParse \<Rightarrow> Row \<Rightarrow> (string \<times> IosNetworkExtensionHint) option" where
  "hint_of parse row =
     (let (path, key) = plist_fields parse row;
          val = rowLooseField parse row [''network_hint'', ''destination_domain'', ''dest_ip'']
      in if path = [] \<and> val = [] then None
         else Some (colons [path, key, val], \<lparr>nx_path = or_str path em_dash, nx_key = or_str key em_dash,
           nx_value = or_str val (strField row ''message'')\<rparr>))"

definition networkExtensionHintsFromRows :: "JsonParse \<Rightarrow> Row list \<Rightarrow> IosNetworkExtensionHint list" where
  "networkExtensionHintsFromRows parse rows = map snd (listed_once fst (hint_of parse) rows)"

definition plist_of :: "JsonParse \<Rightarrow> Row \<Rightarrow> (string \<times> IosPlistUrlHit) option" where
  "plist_of parse row =
     (let (path, key) = plist_fields parse row;
          url = or_str (rowLooseField parse row [''url'', ''destination_domain'']) (strField row ''message'')
      in if url = [] \<or> (\<not> contains ''://'' url \<and> \<not> contains ''.'' url) then None
         else Some (colons [path, key, url], \<lparr>pl_path = or_str path em_dash, pl_key = or_str key em_dash, pl_url = url\<rparr>))"

definition plistUrlHitsFromRows :: "JsonParse \<Rightarrow> Row list \<Rightarrow> IosPlistUrlHit list" where
  "plistUrlHitsFromRows parse rows = map snd (listed_once fst (plist_of parse) rows)"

definition contact_re :: regex where
  "contact_re = Seqs [Lit ''im://'', Alt (Lit ''mailto'') (Lit ''tel''), Lit '':'', Plus (Cls (\<lambda>c. \<not> is_space c))]"

definition contact_prefix_re :: regex where
  "contact_prefix_re = Seqs [Bol, Lit ''im://'', Alt (Lit ''mailto'') (Lit ''tel''), Lit '':'']"

definition contact_of :: "JsonParse \<Rightarrow> Row \<Rightarrow> IosTransparencyContact option" where
  "contact_of parse row =
     (let uri = or_str (rowLooseField parse row [''contact_uri''])
            (case exec contact_re (strField row ''message'') of Some m \<Rightarrow> m_text m | None \<Rightarrow> [])
      in if \<not> starts_with ''im://'' uri then None
         else Some \<lparr>tc_uri = uri,
           tc_kind = (if contains ''mailto:'' uri then Ck_mailto else if contains ''tel:'' uri then Ck_tel else Ck_other),
           tc_label = replace_first contact_prefix_re [] uri\<rparr>)"

definition transparencyContactsFromRows :: "JsonParse \<Rightarrow> (string \<Rightarrow> string \<Rightarrow> int) \<Rightarrow> Row list \<Rightarrow> IosTransparencyContact list" where
  "transparencyContactsFromRows parse compare rows =
     js_sort (\<lambda>a b. compare (tc_label a) (tc_label b)) (listed_once tc_uri (contact_of parse) rows)"

definition ioc_of :: "JsonParse \<Rightarrow> Row \<Rightarrow> IosNetworkIoc option" where
  "ioc_of parse row =
     (let f = rowLooseField parse row;
          val = or_str (f [''ioc_value'', ''value'']) (f [''dest_ip'', ''destination_domain'', ''url''])
      in if val = [] then None
         else Some \<lparr>ic_kind = or_str (f [''ioc_kind'', ''kind'']) ''unknown'', ic_value = val,
           ic_sourceParser = f [''source_parser''], ic_jsonPath = f [''json_path'']\<rparr>)"

definition networkIocsFromRows :: "JsonParse \<Rightarrow> (string \<Rightarrow> string \<Rightarrow> int) \<Rightarrow> Row list \<Rightarrow> IosNetworkIoc list" where
  "networkIocsFromRows parse compare rows =
     js_sort (\<lambda>a b. then_by (compare (ic_kind a) (ic_kind b)) (compare (ic_value a) (ic_value b)))
       (listed_once (\<lambda>i. colons [ic_kind i, ic_value i, ic_sourceParser i]) (ioc_of parse) rows)"

definition mac_like :: "string \<Rightarrow> bool" where
  "mac_like s \<longleftrightarrow> length s \<ge> 11 \<and> list_all (\<lambda>c. digit_in 16 c \<or> c = CHR '':'' \<or> c = CHR ''-'') s"

definition route_of :: "JsonParse \<Rightarrow> Row \<Rightarrow> IosNetusageRoute option" where
  "route_of parse row =
     (let f = rowLooseField parse row;
          networkType = f [''network type'', ''network_type'']; identifier = f [''network identifier'', ''network_identifier''];
          ssid = f [''ssid'', ''network name'', ''network_name'', ''wifi network name'', ''wifi_network_name'']
      in if \<not> of_module parse row [''netusage_zliverouteperf'', ''netusage_zliveusage''] ''network usage'' then None
         else Some \<lparr>nr_networkType = networkType, nr_identifier = identifier,
           nr_displayName = or_texts [ssid, if identifier \<noteq> [] \<and> \<not> mac_like identifier then identifier else [],
             identifier, networkType, ''route''],
           nr_bssid = f [''bssid'', ''wifi bssid'', ''wifi_bssid''],
           nr_bytesIn = net_formatBytes (f [''bytes in'', ''bytesin'']), nr_bytesOut = net_formatBytes (f [''bytes out'', ''bytesout'']),
           nr_packetsIn = or_str (f [''packets in'', ''packetsin'']) em_dash,
           nr_packetsOut = or_str (f [''packets out'', ''packetsout'']) em_dash,
           nr_connAttempts = f [''connection attempts'', ''connection_attempts''],
           nr_connSuccesses = f [''connection successes'', ''connection_successes''],
           nr_timestamp = or_str (f [''liveroutepref timestamp'', ''timestamp'']) (strField row ''datetime''),
           nr_isWifi = (test (LitI ''wifi'') networkType \<or> ssid \<noteq> [])\<rparr>)"

definition compare_routes :: "(string \<Rightarrow> string \<Rightarrow> int) \<Rightarrow> IosNetusageRoute \<Rightarrow> IosNetusageRoute \<Rightarrow> int" where
  "compare_routes base a b =
     (if nr_isWifi a \<noteq> nr_isWifi b then (if nr_isWifi a then - 1 else 1) else base (nr_displayName a) (nr_displayName b))"

definition netusageRoutesFromRows :: "JsonParse \<Rightarrow> (string \<Rightarrow> string \<Rightarrow> int) \<Rightarrow> Row list \<Rightarrow> IosNetusageRoute list" where
  "netusageRoutesFromRows parse base rows =
     js_sort (compare_routes base)
       (listed_once (\<lambda>r. colons [nr_networkType r, nr_identifier r, nr_displayName r, nr_bytesIn r, nr_timestamp r]) (route_of parse) rows)"

definition visit_of :: "JsonParse \<Rightarrow> UrlHost \<Rightarrow> Row \<Rightarrow> IosSafariVisit option" where
  "visit_of parse url_host row =
     (let f = rowLooseField parse row; url = f [''url'']
      in if \<not> of_module parse row [''safari_history''] ''safari browsing'' \<or> url = [] then None
         else Some \<lparr>sv_url = url, sv_domain = or_str (f [''destination_domain'']) (hostFromUrlOrDomain url_host url),
           sv_title = f [''title''], sv_visitCount = f [''visit count'', ''visit_count''],
           sv_timestamp = or_str (f [''visit time'', ''visit_time'']) (strField row ''datetime'')\<rparr>)"

definition safariHistoryFromRows :: "JsonParse \<Rightarrow> UrlHost \<Rightarrow> Row list \<Rightarrow> IosSafariVisit list" where
  "safariHistoryFromRows parse url_host rows =
     listed_once (\<lambda>v. colons [sv_url v, sv_timestamp v]) (visit_of parse url_host) rows"

text \<open>The module of a row, for the key as it is and for the entry with a name where it is blank.\<close>

definition web_usage_of :: "JsonParse \<Rightarrow> UrlHost \<Rightarrow> Row \<Rightarrow> (string \<times> IosKnowledgeWebUsage) option" where
  "web_usage_of parse url_host row =
     (let f = rowLooseField parse row; module = f [''apollo_module''];
          isWebUsage = of_module parse row [''knowledge_app_webusage''] ''application web usage'';
          isSafariBrowse = of_module parse row [''knowledge_safari_browsing''] ''safari browsing'';
          isSafariActivity = of_module parse row [''knowledge_app_activity_safari''] ''safari activity'';
          appName = f [''app name'', ''app_name''];
          bundleId = or_str (f [''bundle id'', ''bundle_id'']) (strField row ''bundle_id'');
          url = f [''digital health url'', ''content url'', ''url'', ''webpageurl''];
          domain = or_str (f [''digital health domain'', ''domain'', ''destination_domain'', ''webdomain''])
            (hostFromUrlOrDomain url_host url);
          timestamp = or_str (f [''start'', ''timestamp'']) (strField row ''datetime'')
      in if \<not> isWebUsage \<and> \<not> isSafariBrowse \<and> \<not> isSafariActivity then None
         else if appName = [] \<and> domain = [] \<and> url = [] \<and> bundleId = [] then None
         else Some (colons [module, appName, bundleId, domain, url, timestamp],
           \<lparr>kw_appName = appName, kw_bundleId = bundleId, kw_domain = domain, kw_url = url,
            kw_seconds = f [''usage in seconds'', ''usage_in_seconds''], kw_timestamp = timestamp,
            kw_module = or_str module (if isWebUsage then ''webusage'' else if isSafariBrowse then ''safari_browsing''
              else ''safari_activity'')\<rparr>))"

definition knowledgeWebUsageFromRows :: "JsonParse \<Rightarrow> UrlHost \<Rightarrow> Row list \<Rightarrow> IosKnowledgeWebUsage list" where
  "knowledgeWebUsageFromRows parse url_host rows = map snd (listed_once fst (web_usage_of parse url_host) rows)"

definition quarantine_of :: "JsonParse \<Rightarrow> Row \<Rightarrow> IosQuarantineUrl option" where
  "quarantine_of parse row =
     (let f = rowLooseField parse row;
          originUrl = f [''origin url string'', ''origin_url_string'', ''origin_url''];
          dataUrl = f [''data url string'', ''data_url_string'', ''data_url'']
      in if originUrl = [] \<and> dataUrl = [] then None
         else Some \<lparr>qu_originUrl = originUrl, qu_dataUrl = dataUrl,
           qu_agentBundleId = f [''agent bundle id'', ''agent_bundle_id'', ''bundle_id''],
           qu_agentName = f [''agent name'', ''agent_name''],
           qu_timestamp = or_str (f [''timestamp'', ''time stamp'', ''quarantine timestamp'']) (strField row ''datetime'')\<rparr>)"

definition quarantineUrlsFromRows :: "JsonParse \<Rightarrow> Row list \<Rightarrow> IosQuarantineUrl list" where
  "quarantineUrlsFromRows parse rows =
     listed_once (\<lambda>q. colons [qu_originUrl q, qu_dataUrl q, qu_timestamp q]) (quarantine_of parse) rows"

definition interaction_of :: "JsonParse \<Rightarrow> Row \<Rightarrow> IosInteractionUrl option" where
  "interaction_of parse row =
     (let f = rowLooseField parse row; contentUrl = f [''content url'', ''content_url'', ''url''];
          domainId = f [''domain identifier'', ''domain_identifier'', ''domain'']
      in if domainId = [] \<and> (contentUrl = [] \<or> (\<not> contains ''://'' contentUrl \<and> \<not> contains ''.'' contentUrl)) then None
         else Some \<lparr>iu_contentUrl = contentUrl, iu_domainId = domainId,
           iu_contextText = f [''context text'', ''context_text'', ''content text''],
           iu_timestamp = or_str (f [''timestamp'', ''start'']) (strField row ''datetime'')\<rparr>)"

definition interactionUrlsFromRows :: "JsonParse \<Rightarrow> Row list \<Rightarrow> IosInteractionUrl list" where
  "interactionUrlsFromRows parse rows =
     listed_once (\<lambda>i. colons [iu_contentUrl i, iu_domainId i, iu_timestamp i]) (interaction_of parse) rows"

section \<open>Domains\<close>

definition screentime_of :: "JsonParse \<Rightarrow> Row \<Rightarrow> IosScreentimeDomain option" where
  "screentime_of parse row =
     (let f = rowLooseField parse row; domain = f [''domain'', ''destination_domain'']
      in if domain = [] \<or> \<not> contains ''.'' domain then None
         else Some \<lparr>sd_domain = to_lower domain,
           sd_bundleId = or_str (f [''bundle id'', ''bundle_id'']) (strField row ''bundle_id''),
           sd_category = f [''category id'', ''category_id'', ''category''],
           sd_timestamp = or_str (f [''start'', ''timestamp'', ''block start'']) (strField row ''datetime''), sd_hits = 1\<rparr>)"

definition merge_screentime :: "IosScreentimeDomain \<Rightarrow> IosScreentimeDomain \<Rightarrow> IosScreentimeDomain" where
  "merge_screentime prev d =
     prev\<lparr>sd_hits := sd_hits prev + 1, sd_bundleId := or_str (sd_bundleId prev) (sd_bundleId d),
       sd_category := or_str (sd_category prev) (sd_category d)\<rparr>"

definition screentimeDomainsFromRows :: "JsonParse \<Rightarrow> (string \<Rightarrow> string \<Rightarrow> int) \<Rightarrow> Row list \<Rightarrow> IosScreentimeDomain list" where
  "screentimeDomainsFromRows parse compare rows =
     js_sort (\<lambda>a b. then_by (int (sd_hits b) - int (sd_hits a)) (compare (sd_domain a) (sd_domain b)))
       (map snd (group_rows (\<lambda>d. Some (sd_domain d)) (\<lambda>d. d) merge_screentime (List.map_filter (screentime_of parse) rows)))"

text \<open>One call of \<open>bump\<close>: a domain, the source that names it, a URL to show.\<close>

type_synonym Mention = "string \<times> string \<times> string"

record DomainSources =
  ds_iocs :: "IosNetworkIoc list"
  ds_safari :: "IosSafariVisit list"
  ds_knowledge :: "IosKnowledgeWebUsage list"
  ds_screentime :: "IosScreentimeDomain list"
  ds_quarantine :: "IosQuarantineUrl list"
  ds_interaction :: "IosInteractionUrl list"
  ds_swcutil :: "IosSwcutilDomain list"
  ds_plists :: "IosPlistUrlHit list"

definition ioc_mentions :: "UrlHost \<Rightarrow> IosNetworkIoc \<Rightarrow> Mention list" where
  "ioc_mentions url_host ioc =
     (let source = or_str (ic_sourceParser ioc) ''network_iocs'' in
      if ic_kind ioc = ''domain'' then [(ic_value ioc, source, [])]
      else if ic_kind ioc = ''url'' then [(hostFromUrlOrDomain url_host (ic_value ioc), source, ic_value ioc)] else [])"

definition domain_mentions :: "UrlHost \<Rightarrow> DomainSources \<Rightarrow> Mention list" where
  "domain_mentions url_host input =
     (let host = hostFromUrlOrDomain url_host in
      concat (map (ioc_mentions url_host) (ds_iocs input))
      @ map (\<lambda>v. (or_str (sv_domain v) (host (sv_url v)), ''safari_history'', sv_url v)) (ds_safari input)
      @ map (\<lambda>k. (or_str (kw_domain k) (host (kw_url k)), ''knowledgec'', kw_url k)) (ds_knowledge input)
      @ map (\<lambda>s. (sd_domain s, ''screentime'', [])) (ds_screentime input)
      @ concat (map (\<lambda>q. [(host (qu_originUrl q), ''quarantine_events'', qu_originUrl q),
          (host (qu_dataUrl q), ''quarantine_events'', qu_dataUrl q)]) (ds_quarantine input))
      @ map (\<lambda>i. (or_str (host (iu_contentUrl i)) (iu_domainId i), ''interactionc'', iu_contentUrl i)) (ds_interaction input)
      @ map (\<lambda>d. (sw_domain d, ''swcutil'', [])) (ds_swcutil input)
      @ map (\<lambda>p. (host (pl_url p), ''plists'', pl_url p)) (ds_plists input))"

definition mention_key :: "Mention \<Rightarrow> string option" where
  "mention_key m = (let d = to_lower (trim (fst m)) in if d = [] \<or> \<not> contains ''.'' d then None else Some d)"

definition first_mention :: "Mention \<Rightarrow> IosConnectedDomain" where
  "first_mention = (\<lambda>(domain, source, url).
     \<lparr>cd_domain = to_lower (trim domain), cd_sources = [source], cd_sampleUrl = url, cd_hits = 1\<rparr>)"

definition bump :: "IosConnectedDomain \<Rightarrow> Mention \<Rightarrow> IosConnectedDomain" where
  "bump cur = (\<lambda>(domain, source, url).
     cur\<lparr>cd_hits := cd_hits cur + 1,
       cd_sources := (if source \<in> set (cd_sources cur) then cd_sources cur else cd_sources cur @ [source]),
       cd_sampleUrl := or_str (cd_sampleUrl cur) url\<rparr>)"

definition compare_domains :: "(string \<Rightarrow> string \<Rightarrow> int) \<Rightarrow> IosConnectedDomain \<Rightarrow> IosConnectedDomain \<Rightarrow> int" where
  "compare_domains compare a b = then_by (int (cd_hits b) - int (cd_hits a)) (compare (cd_domain a) (cd_domain b))"

definition connectedDomainsFromSources ::
  "UrlHost \<Rightarrow> (string \<Rightarrow> string \<Rightarrow> int) \<Rightarrow> DomainSources \<Rightarrow> IosConnectedDomain list" where
  "connectedDomainsFromSources url_host compare input =
     js_sort (compare_domains compare)
       (map snd (group_rows mention_key first_mention bump (domain_mentions url_host input)))"

section \<open>Addresses in messages\<close>

text \<open>\<open>s.match(r)\<close> with the flag g, for a pattern that never matches the empty text.\<close>

function all_matches :: "regex \<Rightarrow> string \<Rightarrow> string \<Rightarrow> string list" where
  "all_matches r b a =
     (case a of
        [] \<Rightarrow> []
      | c # a' \<Rightarrow>
          (case match_at r b a of
             Some m \<Rightarrow>
               if length (m_after m) < length a
               then m_text m # all_matches r (rev (m_text m) @ b) (m_after m)
               else all_matches r (c # b) a'
           | None \<Rightarrow> all_matches r (c # b) a'))"
  by pat_completeness auto
termination
  by (relation "measure (\<lambda>(r, b, a). length a)") auto

declare all_matches.simps [simp del]

definition shown_ip :: "string \<Rightarrow> bool" where
  "shown_ip ip \<longleftrightarrow> \<not> starts_with ''0.'' ip \<and> ip \<noteq> ''127.0.0.1'' \<and> \<not> starts_with ''255.'' ip"

definition message_ips :: "Row \<Rightarrow> (string \<times> string \<times> string) list" where
  "message_ips row =
     (let message = strField row ''message''
      in map (\<lambda>ip. (ip, strField row ''parser'', message)) (filter shown_ip (all_matches ipv4_re [] message)))"

definition logMessageIpsFromRows :: "Row list \<Rightarrow> (string \<times> string \<times> string) list" where
  "logMessageIpsFromRows rows =
     map (\<lambda>(ip, parser, message). (ip, parser, if length message > 120 then take 117 message @ ellipsis else message))
       (first_of_keys (\<lambda>(ip, parser, message). colons [parser, ip, take 40 message]) [] (concat (map message_ips rows)))"

section \<open>Lists\<close>

lemma listed_once_facts:
  "distinct (map key (listed_once key read rows))
   \<and> key ` set (listed_once key read rows) = key ` set (List.map_filter read rows)
   \<and> set (listed_once key read rows) \<subseteq> set (List.map_filter read rows)"
  using first_of_keys_facts [of key "[]" "List.map_filter read rows"] by (simp add: listed_once_def)

text \<open>The key of a process's usage leaves out what was sent and when: rows that differ there are dropped.\<close>

lemma sent_bytes_dropped:
  assumes "\<And>r. r \<in> set rows \<Longrightarrow> \<exists>out cell time. read r = Some (u\<lparr>pu_wifiOut := out, pu_cellOut := cell, pu_timestamp := time\<rparr>)"
  shows "length (listed_once usage_row_key read rows) \<le> 1"
proof -
  define us where "us = List.map_filter read rows"
  have same: "usage_row_key v = usage_row_key u" if mem: "v \<in> set us" for v
  proof -
    obtain r where r: "r \<in> set rows" "read r = Some v" using mem by (auto simp: us_def List.map_filter_def)
    obtain out cell time where "read r = Some (u\<lparr>pu_wifiOut := out, pu_cellOut := cell, pu_timestamp := time\<rparr>)"
      using assms [OF r(1)] by blast
    with r(2) show ?thesis by (auto simp: usage_row_key_def)
  qed
  have "distinct (map usage_row_key (listed_once usage_row_key read rows))" using listed_once_facts by blast
  then have "length (listed_once usage_row_key read rows) = card (usage_row_key ` set (listed_once usage_row_key read rows))"
    by (metis distinct_card length_map set_map)
  also have "usage_row_key ` set (listed_once usage_row_key read rows) \<subseteq> {usage_row_key u}"
    using same listed_once_facts [of usage_row_key read rows] by (auto simp: us_def)
  then have "card (usage_row_key ` set (listed_once usage_row_key read rows)) \<le> 1"
    using card_mono [of "{usage_row_key u}"] by simp
  finally show ?thesis .
qed

section \<open>The domains of a device\<close>

definition mentions_of_domain :: "string \<Rightarrow> Mention list \<Rightarrow> Mention list" where
  "mentions_of_domain d = filter (\<lambda>m. mention_key m = Some d)"

definition sums_mentions :: "Mention list \<Rightarrow> IosConnectedDomain \<Rightarrow> bool" where
  "sums_mentions own d \<longleftrightarrow>
     cd_hits d = length own \<and> cd_sources d = first_of_keys (\<lambda>s. s) [] (map (\<lambda>m. fst (snd m)) own)
     \<and> cd_sampleUrl d = or_texts (map (\<lambda>m. snd (snd m)) own)"

lemma or_texts_snoc: "or_texts (ss @ [s]) = or_str (or_texts ss) s"
  by (induction ss) (simp_all add: or_str_def)

lemma first_of_keys_snoc:
  "first_of_keys (\<lambda>s. s) [] (ss @ [s]) =
     (if s \<in> set (first_of_keys (\<lambda>s. s) [] ss) then first_of_keys (\<lambda>s. s) [] ss else first_of_keys (\<lambda>s. s) [] ss @ [s])"
  by (simp add: first_of_keys_append)

lemma bump_sums: "sums_mentions own d \<Longrightarrow> sums_mentions (own @ [m]) (bump d m)"
  unfolding sums_mentions_def map_append list.map or_texts_snoc first_of_keys_snoc
  by (cases m) (simp add: bump_def)

lemma bump_domain [simp]: "cd_domain (bump d m) = cd_domain d"
  by (cases m) (simp add: bump_def)

lemma mentions_summed:
  "cd_domain (foldl bump (first_mention m) ms) = to_lower (trim (fst m))
   \<and> sums_mentions (m # ms) (foldl bump (first_mention m) ms)"
proof (induction ms rule: rev_induct)
  case Nil
  then show ?case by (cases m) (simp add: first_mention_def sums_mentions_def or_str_def)
next
  case (snoc n ms)
  then show ?case using bump_sums [of "m # ms" "foldl bump (first_mention m) ms" n] by simp
qed

lemma mention_key_domain: "mention_key m = Some d \<Longrightarrow> to_lower (trim (fst m)) = d"
  by (auto simp: mention_key_def Let_def split: if_splits)

lemma domain_group:
  assumes "(k, d) \<in> set (group_rows mention_key first_mention bump ms)"
  shows "cd_domain d = k \<and> sums_mentions (mentions_of_domain k ms) d"
proof (cases "mentions_of_domain k ms")
  case Nil
  then show ?thesis using assms by (simp add: group_rows_member group_of_def mentions_of_domain_def)
next
  case (Cons m ns)
  then have d: "d = foldl bump (first_mention m) ns"
    using assms by (simp add: group_rows_member group_of_def mentions_of_domain_def)
  have "mention_key m = Some k" using arg_cong [OF Cons, of set] by (auto simp: mentions_of_domain_def)
  then show ?thesis using mentions_summed [of m ns] mention_key_domain by (simp add: d Cons)
qed

interpretation hits: additive_group first_mention bump "\<lambda>d. int (cd_hits d)" "\<lambda>m. 1"
  by unfold_locales (auto simp: first_mention_def bump_def split: prod.splits)

lemma comparator_domains: "collator compare \<Longrightarrow> comparator (compare_domains compare)"
proof (rule comparator_same)
  assume "collator compare"
  then have "comparator (\<lambda>a b. compare (cd_domain a) (cd_domain b))" by (rule collator.axioms(1) [OF collator_on])
  then show "comparator (\<lambda>a b. then_by (num_cmp (- int (cd_hits a)) (- int (cd_hits b))) (compare (cd_domain a) (cd_domain b)))"
    by (rule comparator_then)
  fix a b
  show "compare_domains compare a b \<le> 0 \<longleftrightarrow>
      then_by (num_cmp (- int (cd_hits a)) (- int (cd_hits b))) (compare (cd_domain a) (cd_domain b)) \<le> 0"
    unfolding compare_domains_def using then_by_diff [of "- int (cd_hits a)" "- int (cd_hits b)"] by simp
qed

text \<open>
  C36: The roll-up lists every mentioned domain once, with the number of its mentions, its sources without
  repetition in the order they first name it, and the first URL known; no mention of a domain is lost.
\<close>

theorem domains_rolled_up:
  "let ms = domain_mentions url_host input; ds = connectedDomainsFromSources url_host compare input in
   distinct (map cd_domain ds) \<and> cd_domain ` set ds = {d. Some d \<in> mention_key ` set ms}
   \<and> list_all (\<lambda>d. sums_mentions (mentions_of_domain (cd_domain d) ms) d) ds
   \<and> (\<Sum>d\<leftarrow>ds. cd_hits d) = length (filter (\<lambda>m. mention_key m \<noteq> None) ms)
   \<and> (if collator compare then sorted_wrt (\<lambda>a b. compare_domains compare a b \<le> 0) ds else True)"
proof -
  define ms where "ms = domain_mentions url_host input"
  define groups where "groups = group_rows mention_key first_mention bump ms"
  define ds where "ds = connectedDomainsFromSources url_host compare input"
  have ds: "ds = js_sort (compare_domains compare) (map snd groups)"
    by (simp add: ds_def connectedDomainsFromSources_def groups_def ms_def)
  have keys: "map cd_domain (map snd groups) = map fst groups"
    using domain_group by (force simp: groups_def)
  have "distinct (map cd_domain ds)"
    unfolding ds distinct_sort_keys keys by (simp add: groups_def group_rows_distinct)
  moreover have "cd_domain ` set ds = {d. Some d \<in> mention_key ` set ms}"
    using arg_cong [OF keys, of set] by (simp add: ds groups_def group_rows_keys image_image)
  moreover have "list_all (\<lambda>d. sums_mentions (mentions_of_domain (cd_domain d) ms) d) ds"
    using domain_group unfolding ds list_all_iff by (fastforce simp: groups_def)
  moreover have "(\<Sum>d\<leftarrow>ds. cd_hits d) = length (filter (\<lambda>m. mention_key m \<noteq> None) ms)"
    using hits.total [of mention_key ms] sum_sort [of cd_hits "compare_domains compare" "map snd groups"]
    by (simp add: ds groups_def [symmetric] int_sum o_def sum_list_triv flip: of_nat_eq_iff [where 'a = int])
  moreover have "if collator compare then sorted_wrt (\<lambda>a b. compare_domains compare a b \<le> 0) ds else True"
    unfolding ds using comparator.ordered_sort [OF comparator_domains] by auto
  ultimately show ?thesis unfolding Let_def ms_def [symmetric] ds_def [symmetric] by blast
qed

text \<open>An address is no domain as a bare text, but one behind a scheme.\<close>

lemma address_behind_scheme:
  assumes "url_host ''http://10.0.0.1/'' = Some ''10.0.0.1''"
  shows "hostFromUrlOrDomain url_host ''http://10.0.0.1/'' = ''10.0.0.1'' \<and> hostFromUrlOrDomain url_host ''10.0.0.1'' = []"
proof -
  have "trim ''http://10.0.0.1/'' = ''http://10.0.0.1/''" "contains ''://'' ''http://10.0.0.1/''"
      "to_lower (without_brackets ''10.0.0.1'') = ''10.0.0.1''"
    by code_simp+
  moreover have "trim ''10.0.0.1'' = ''10.0.0.1''" "\<not> contains ''://'' ''10.0.0.1''" by code_simp+
  moreover have "\<not> test http_re ''10.0.0.1''" "bare_host ''10.0.0.1'' = []" by code_simp+
  ultimately show ?thesis using assms by (simp add: hostFromUrlOrDomain_def)
qed

end
