(* ===== verification/IosParserData.thy ===== *)
theory IosParserData
  imports IosNetwork Tally CrashTraces
begin

text \<open>
  Keychain entries, privacy permissions and wireless networks of iOS, \<open>src/mobipwn-web/src/lib/iosParserData.ts\<close>.
  \<open>localeCompare\<close> is the argument \<open>compare\<close>, numbers of rows are whole.

  What the panels of iOS parsers show: every scanned network once, the strongest first, with counts that agree
  with the list; permissions whose status is read from a word.
\<close>

record IosSecurityDevice =
  se_name :: string
  se_section :: string
  se_service :: string
  se_added :: string

record IosTccPermission =
  tp_client :: string
  tp_service :: string
  tp_serviceRaw :: string
  tp_allowed :: string
  tp_modified :: string
  tp_granted :: "bool option"

datatype IosWifiSecurityKind = Wk_open | Wk_wep | Wk_wpa | Wk_enterprise | Wk_unknown

record IosWifiNetwork =
  wn_ssid :: string
  wn_label :: string
  wn_bssid :: string
  wn_ssidHex :: string
  wn_security :: string
  wn_securityKind :: IosWifiSecurityKind
  wn_channel :: string
  wn_band :: string
  wn_rssiDbm :: "int option"
  wn_rssi :: string
  wn_country :: string
  wn_phy :: string
  wn_age :: string
  wn_connectedInSleep :: bool
  wn_hidden :: bool

record IosWifiScanSummary =
  su_total :: nat
  su_open :: nat
  su_hidden :: nat
  su_sleep :: nat
  su_strong :: nat

record IosWifiSavedNetwork =
  ws_ssid :: string
  ws_file :: string
  ws_networkKey :: string
  ws_addedAt :: string
  ws_bssid :: string
  ws_channel :: string

record IosWifiKnownLocation =
  wl_ssid :: string
  wl_bssid :: string
  wl_latitude :: string
  wl_longitude :: string
  wl_accuracy :: string
  wl_channel :: string
  wl_addedAt :: string

record IosWifiSecurityEntry =
  wy_label :: string
  wy_account :: string
  wy_description :: string
  wy_created :: string
  wy_modified :: string

section \<open>Fields\<close>

definition rowSsid :: "JsonParse \<Rightarrow> Row \<Rightarrow> string" where
  "rowSsid parse row = or_str (strField row ''ssid'') (text_of (parseRowExt parse row) ''ssid'')"

text \<open>\<open>typeof v === "string" ? v : ""\<close>.\<close>

definition string_or_none :: "Json option \<Rightarrow> string option" where
  "string_or_none v = (case v of Some (JStr s) \<Rightarrow> Some s | _ \<Rightarrow> None)"

definition string_of :: "Json option \<Rightarrow> string" where
  "string_of v = get_or [] (string_or_none v)"

definition extCoord :: "Json option \<Rightarrow> string" where
  "extCoord v = (case v of Some (JNum n) \<Rightarrow> fixed_quotient 5 n 1 | Some (JStr s) \<Rightarrow> trim s | _ \<Rightarrow> [])"

definition object_of :: "Json option \<Rightarrow> Row option" where
  "object_of v = (case v of Some (JObj kvs) \<Rightarrow> Some kvs | _ \<Rightarrow> None)"

section \<open>Keychain\<close>

definition security_device_of :: "JsonParse \<Rightarrow> Row \<Rightarrow> (string \<times> IosSecurityDevice) option" where
  "security_device_of parse row =
     (let ext = parseRowExtObject parse row; sec = string_of (map_of ext ''section'') in
      case object_of (map_of ext ''attributes'') of
        None \<Rightarrow> None
      | Some a \<Rightarrow>
          (let name = trim (string_of (map_of a ''labl''));
               service = get_or (string_of (map_of a ''agrp'')) (string_or_none (map_of a ''svce''))
           in if name = [] then None
              else Some (colons [sec, name, service],
                \<lparr>se_name = name, se_section = or_str sec ''keychain'', se_service = or_str service em_dash,
                 se_added = string_of (map_of a ''cdat'')\<rparr>)))"

definition securityDevicesFromRows :: "JsonParse \<Rightarrow> (string \<Rightarrow> string \<Rightarrow> int) \<Rightarrow> Row list \<Rightarrow> IosSecurityDevice list" where
  "securityDevicesFromRows parse compare rows =
     js_sort (\<lambda>a b. compare (se_name a) (se_name b)) (map snd (listed_once fst (security_device_of parse) rows))"

definition securitySectionCounts :: "IosSecurityDevice list \<Rightarrow> (string \<times> nat) list" where
  "securitySectionCounts devices = js_sort by_count (tally (map se_section devices))"

section \<open>Permissions\<close>

definition tccAllowedStatus :: "string \<Rightarrow> bool option" where
  "tccAllowedStatus allowed =
     (let a = to_lower (trim allowed) in
      if a = [] \<or> a = em_dash then None
      else if list_ex (\<lambda>w. contains w a) [''deny'', ''disallow'', ''restrict'', ''limited''] then Some False
      else if contains ''allow'' a then Some True else None)"

definition tccPermissionTitle :: "IosTccPermission \<Rightarrow> string" where
  "tccPermissionTitle perm =
     join ('' '' @ middle_dot @ '' '')
       ([iosTccServiceTooltip (or_str (tp_serviceRaw perm) (tp_service perm)), ''status: '' @ tp_allowed perm]
        @ (if tp_modified perm \<noteq> [] then [''modified: '' @ tp_modified perm] else []))"

definition permission_of :: "JsonParse \<Rightarrow> Row \<Rightarrow> (string \<times> IosTccPermission) option" where
  "permission_of parse row =
     (let ext = parseRowExt parse row; client = text_of ext ''client''; serviceRaw = text_of ext ''service'';
          allowed = get_or em_dash (map_of ext ''allowed'')
      in if client = [] \<or> serviceRaw = [] then None
         else Some (colons [client, serviceRaw, text_of ext ''allowed''],
           \<lparr>tp_client = client, tp_service = iosTccServiceLabel serviceRaw, tp_serviceRaw = serviceRaw, tp_allowed = allowed,
            tp_modified = get_or [] (or_else (map_of ext ''last modified'') (map_of ext ''last_modified'')),
            tp_granted = tccAllowedStatus allowed\<rparr>))"

definition tccPermissionsFromRows :: "JsonParse \<Rightarrow> (string \<Rightarrow> string \<Rightarrow> int) \<Rightarrow> Row list \<Rightarrow> IosTccPermission list" where
  "tccPermissionsFromRows parse compare rows =
     js_sort (\<lambda>a b. then_by (compare (tp_client a) (tp_client b)) (compare (tp_service a) (tp_service b)))
       (map snd (listed_once fst (permission_of parse) rows))"

definition tccTopServices :: "IosTccPermission list \<Rightarrow> nat \<Rightarrow> (string \<times> nat) list" where
  "tccTopServices permissions limit = most_frequent limit (map tp_service permissions)"

section \<open>Wireless scans\<close>

definition number_re :: regex where
  "number_re = Seq (Opt (Lit ''-'')) (Plus Digit)"

definition parseRssiDbm :: "string \<Rightarrow> int option" where
  "parseRssiDbm raw =
     (case exec number_re raw of
        None \<Rightarrow> None
      | Some m \<Rightarrow>
          (case js_number (m_text m) of
             Some n \<Rightarrow> (if n \<le> 0 \<and> n \<ge> - 120 then Some n else None)
           | None \<Rightarrow> None))"

definition word_re :: "regex list \<Rightarrow> regex" where
  "word_re rs = Seqs [WordB, Alts rs, WordB]"

definition wifiSecurityKind :: "string \<Rightarrow> IosWifiSecurityKind" where
  "wifiSecurityKind security =
     (let s = to_lower (trim security) in
      if s = [] \<or> s = em_dash \<or> s = ''-'' then Wk_unknown
      else if test (word_re [Lit ''none'', Lit ''open'', Lit ''os'']) s \<or> s = ''0'' then Wk_open
      else if test (word_re [Lit ''wep'']) s then Wk_wep
      else if test (word_re [Lit ''eap'', Lit ''enterprise'', Lit ''802.1x'', Seqs [Lit ''wpa3'', Opt Dot, Lit ''enterprise''],
          Seqs [Lit ''wpa2'', Opt Dot, Lit ''enterprise'']]) s then Wk_enterprise
      else if test (word_re [Lit ''wpa'', Lit ''rsn'', Lit ''sae'', Lit ''owe'', Lit ''psk'']) s then Wk_wpa
      else Wk_unknown)"

definition six_ghz_re :: regex where
  "six_ghz_re = Seqs [WordB, Lit ''6'', Star Space, Lit ''ghz'', WordB]"

definition wifiScanBand :: "string \<Rightarrow> string" where
  "wifiScanBand channel =
     (let ch = to_lower (trim channel); plain = (if starts_with ''+'' ch then drop 1 ch else ch);
          primary = parse_int 10 (takeWhile (\<lambda>c. \<not> (c = CHR '','' \<or> c = CHR ''+'' \<or> is_space c)) plain)
      in if ch = [] \<or> ch = em_dash then []
         else if starts_with ''6g'' ch \<or> test six_ghz_re ch then ''6 GHz''
         else case primary of
                None \<Rightarrow> []
              | Some n \<Rightarrow> (if 1 \<le> n \<and> n \<le> 14 then ''2.4 GHz'' else if 32 \<le> n \<and> n \<le> 177 then ''5 GHz'' else []))"

datatype RssiTone = Rt_strong | Rt_fair | Rt_weak | Rt_unknown

definition wifiScanRssiTone :: "int option \<Rightarrow> RssiTone" where
  "wifiScanRssiTone rssiDbm =
     (case rssiDbm of None \<Rightarrow> Rt_unknown
      | Some n \<Rightarrow> (if n \<ge> - 55 then Rt_strong else if n \<ge> - 70 then Rt_fair else Rt_weak))"

definition summary_step :: "IosWifiScanSummary \<Rightarrow> IosWifiNetwork \<Rightarrow> IosWifiScanSummary" where
  "summary_step s n =
     s\<lparr>su_open := (if wn_securityKind n = Wk_open then su_open s + 1 else su_open s),
       su_hidden := (if wn_hidden n then su_hidden s + 1 else su_hidden s),
       su_sleep := (if wn_connectedInSleep n then su_sleep s + 1 else su_sleep s),
       su_strong := (if wifiScanRssiTone (wn_rssiDbm n) = Rt_strong then su_strong s + 1 else su_strong s)\<rparr>"

definition wifiScanSummary :: "IosWifiNetwork list \<Rightarrow> IosWifiScanSummary" where
  "wifiScanSummary networks =
     foldl summary_step \<lparr>su_total = length networks, su_open = 0, su_hidden = 0, su_sleep = 0, su_strong = 0\<rparr> networks"

definition scan_total_re :: regex where
  "scan_total_re = Seqs [Bol, LitI ''Wifi scan:'', Star Space, LitI ''total='']"

definition first_word :: "string \<Rightarrow> string" where
  "first_word s = takeWhile (\<lambda>c. \<not> is_space c) s"

definition UNKNOWN_SSID :: string where
  "UNKNOWN_SSID = ''<unknown>''"

definition is_yes :: "string option \<Rightarrow> bool" where
  "is_yes v = (case v of None \<Rightarrow> False | Some s \<Rightarrow> s = ''1'' \<or> to_lower s = ''true'' \<or> to_lower s = ''yes'')"

definition scan_of :: "JsonParse \<Rightarrow> Row \<Rightarrow> (string \<times> IosWifiNetwork) option" where
  "scan_of parse row =
     (let ext = parseRowExt parse row; txt = text_of ext; message = trim (raw_message row);
          ssid = or_texts [strField row ''ssid'', txt ''ssid'', first_word message];
          channel = or_texts [txt ''channel'', txt ''ch'', em_dash];
          rssiDbm = parseRssiDbm (or_str (txt ''rssi'') (txt ''RSSI''));
          security = or_str (txt ''security'') em_dash; bssid = or_str (txt ''bssid'') (txt ''BSSID'');
          displaySsid = or_str ssid UNKNOWN_SSID
      in if txt ''ssid'' = [] \<and> (map_of ext ''total'' \<noteq> None \<or> test scan_total_re message \<or> starts_with ''total='' message)
         then None
         else if (ssid = [] \<or> ssid = UNKNOWN_SSID) \<and> txt ''channel'' = [] \<and> txt ''rssi'' = [] \<and> txt ''security'' = [] then None
         else Some (colons [displaySsid, bssid, channel, case rssiDbm of Some n \<Rightarrow> int_str n | None \<Rightarrow> txt ''rssi''],
           \<lparr>wn_ssid = displaySsid, wn_label = or_str message displaySsid, wn_bssid = bssid, wn_ssidHex = txt ''ssid_hex'',
            wn_security = security, wn_securityKind = wifiSecurityKind security, wn_channel = channel,
            wn_band = wifiScanBand channel, wn_rssiDbm = rssiDbm,
            wn_rssi = (case rssiDbm of Some n \<Rightarrow> int_str n @ '' dBm''
              | None \<Rightarrow> (if txt ''rssi'' \<noteq> [] then txt ''rssi'' @ '' dBm'' else em_dash)),
            wn_country = or_texts [txt ''cc'', txt ''country'', em_dash], wn_phy = or_texts [txt ''phy'', txt ''PHYMode'', em_dash],
            wn_age = txt ''age'', wn_connectedInSleep = is_yes (map_of ext ''wasConnectedDuringSleep''),
            wn_hidden = test (LitI ''hidden'') displaySsid\<rparr>))"

definition compare_scans :: "(string \<Rightarrow> string \<Rightarrow> int) \<Rightarrow> IosWifiNetwork \<Rightarrow> IosWifiNetwork \<Rightarrow> int" where
  "compare_scans compare a b =
     (case (wn_rssiDbm a, wn_rssiDbm b) of
        (Some m, Some n) \<Rightarrow> (if m \<noteq> n then n - m else compare (wn_ssid a) (wn_ssid b))
      | (Some m, None) \<Rightarrow> - 1
      | (None, Some n) \<Rightarrow> 1
      | (None, None) \<Rightarrow> compare (wn_ssid a) (wn_ssid b))"

definition wifiNetworksFromRows :: "JsonParse \<Rightarrow> (string \<Rightarrow> string \<Rightarrow> int) \<Rightarrow> Row list \<Rightarrow> IosWifiNetwork list" where
  "wifiNetworksFromRows parse compare rows =
     js_sort (compare_scans compare) (map snd (listed_once fst (scan_of parse) rows))"

section \<open>Saved networks and places\<close>

definition saved_of :: "JsonParse \<Rightarrow> Row \<Rightarrow> IosWifiSavedNetwork option" where
  "saved_of parse row =
     (let ext = parseRowExtObject parse row; m = map_of ext; ssid = rowSsid parse row;
          network = get_or [] (object_of (m ''network''));
          oss = get_or [] (object_of (map_of network ''__OSSpecific__''))
      in if test (LitI ''BSS location'') (strField row ''message'') \<or> present (m ''latitude'') \<noteq> None
            \<or> present (m ''longitude'') \<noteq> None \<or> ssid = [] then None
         else Some \<lparr>ws_ssid = ssid, ws_file = string_of (m ''file''), ws_networkKey = string_of (m ''network_key''),
           ws_addedAt = or_texts [string_of (m ''timestamp_raw''), string_of (map_of network ''AddedAt''),
             string_of (map_of network ''JoinedByUserAt'')],
           ws_bssid = get_or (string_of (map_of oss ''BSSID'')) (string_or_none (m ''bssid'')),
           ws_channel = get_or (text_or_none (map_of oss ''CHANNEL'')) (string_or_none (m ''channel''))\<rparr>)"

definition wifiSavedNetworksFromRows :: "JsonParse \<Rightarrow> (string \<Rightarrow> string \<Rightarrow> int) \<Rightarrow> Row list \<Rightarrow> IosWifiSavedNetwork list" where
  "wifiSavedNetworksFromRows parse compare rows =
     js_sort (\<lambda>a b. compare (ws_ssid a) (ws_ssid b))
       (listed_once (\<lambda>n. colons [ws_ssid n, ws_file n, ws_networkKey n]) (saved_of parse) rows)"

definition location_of :: "JsonParse \<Rightarrow> Row \<Rightarrow> IosWifiKnownLocation option" where
  "location_of parse row =
     (let m = map_of (parseRowExtObject parse row);
          coord = (\<lambda>k. extCoord (or_else (present (m k)) (map_of row k)));
          bss = get_or [] (object_of (m ''bss''))
      in if coord ''latitude'' = [] \<or> coord ''longitude'' = [] then None
         else Some \<lparr>wl_ssid = or_str (rowSsid parse row) em_dash, wl_bssid = string_of (m ''bssid''),
           wl_latitude = coord ''latitude'', wl_longitude = coord ''longitude'',
           wl_accuracy = text_or_none (map_of bss ''LocationAccuracy''), wl_channel = string_of (m ''channel''),
           wl_addedAt = string_of (m ''timestamp_raw'')\<rparr>)"

definition wifiKnownLocationsFromRows :: "JsonParse \<Rightarrow> (string \<Rightarrow> string \<Rightarrow> int) \<Rightarrow> Row list \<Rightarrow> IosWifiKnownLocation list" where
  "wifiKnownLocationsFromRows parse compare rows =
     js_sort (\<lambda>a b. compare (wl_ssid a) (wl_ssid b))
       (listed_once (\<lambda>l. colons [wl_ssid l, wl_bssid l, wl_latitude l, wl_longitude l]) (location_of parse) rows)"

definition security_entry_of :: "JsonParse \<Rightarrow> Row \<Rightarrow> (string \<times> IosWifiSecurityEntry) option" where
  "security_entry_of parse row =
     (let m = map_of (parseRowExt parse row); either = (\<lambda>a b. get_or [] (or_else (m a) (m b)));
          label = either ''labl'' ''label''; account = either ''acct'' ''account''; created = get_or [] (m ''cdat'')
      in if label = [] \<and> account = [] then None
         else Some (colons [label, account, created],
           \<lparr>wy_label = or_str label account, wy_account = account, wy_description = either ''desc'' ''description'',
            wy_created = created, wy_modified = either ''mdat'' ''cdat''\<rparr>))"

definition wifiSecurityEntriesFromRows :: "JsonParse \<Rightarrow> (string \<Rightarrow> string \<Rightarrow> int) \<Rightarrow> Row list \<Rightarrow> IosWifiSecurityEntry list" where
  "wifiSecurityEntriesFromRows parse compare rows =
     js_sort (\<lambda>a b. compare (wy_label a) (wy_label b)) (map snd (listed_once fst (security_entry_of parse) rows))"

section \<open>Activation\<close>

text \<open>State, generation of the chip, baseband, build.\<close>

definition activationSummaryFromRows :: "JsonParse \<Rightarrow> Row list \<Rightarrow> (string \<times> string \<times> string \<times> string) option" where
  "activationSummaryFromRows parse rows =
     (let startup = startup_of parse rows; ext = map_of (get_or [] startup)
      in if startup = None \<and> state_of rows = [] then None
         else Some (or_str (state_of rows) em_dash, get_or em_dash (ext ''soc_generation''), yes_no (ext ''has_baseband''),
           get_or em_dash (ext ''build_version'')))"

definition iosParserQuery :: "string \<Rightarrow> string \<Rightarrow> string \<Rightarrow> string" where
  "iosParserQuery source parser pipeline =
     (let q = [CHR 0x22] in trim (''source='' @ q @ source @ q @ '' parser='' @ q @ parser @ q @ '' '' @ pipeline))"

section \<open>Scans\<close>

definition no_weaker :: "IosWifiNetwork \<Rightarrow> IosWifiNetwork \<Rightarrow> bool" where
  "no_weaker a b \<longleftrightarrow>
     (case wn_rssiDbm b of None \<Rightarrow> True | Some n \<Rightarrow> (case wn_rssiDbm a of None \<Rightarrow> False | Some m \<Rightarrow> n \<le> m))"

lemma strongest_first: "sorted_wrt no_weaker (js_sort (compare_scans compare) ns)"
  by (rule sort_by_relation) (auto simp: compare_scans_def no_weaker_def split: option.splits if_splits)

lemma scan_summary_counts:
  "foldl summary_step s ns =
     \<lparr>su_total = su_total s, su_open = su_open s + length (filter (\<lambda>n. wn_securityKind n = Wk_open) ns),
      su_hidden = su_hidden s + length (filter wn_hidden ns), su_sleep = su_sleep s + length (filter wn_connectedInSleep ns),
      su_strong = su_strong s + length (filter (\<lambda>n. wifiScanRssiTone (wn_rssiDbm n) = Rt_strong) ns)\<rparr>"
  by (induction ns arbitrary: s) (simp_all add: summary_step_def)

lemma parsed_rssi: "parseRssiDbm raw = Some n \<Longrightarrow> - 120 \<le> n \<and> n \<le> 0"
  by (auto simp: parseRssiDbm_def split: option.splits if_splits)

lemma scan_fields:
  assumes "scan_of parse row = Some (k, n)"
  shows "wn_securityKind n = wifiSecurityKind (wn_security n) \<and> wn_band n = wifiScanBand (wn_channel n)
     \<and> wn_ssid n \<noteq> [] \<and> (case wn_rssiDbm n of None \<Rightarrow> True | Some m \<Rightarrow> - 120 \<le> m \<and> m \<le> 0)"
proof -
  have none: "(if P then None else x) = Some y \<longleftrightarrow> \<not> P \<and> x = Some y" for P and x :: "(string \<times> IosWifiNetwork) option" and y
    by simp
  have filled: "t \<noteq> [] \<Longrightarrow> or_str s t \<noteq> []" for s t by (simp add: or_str_def)
  have rssi: "case parseRssiDbm raw of None \<Rightarrow> True | Some m \<Rightarrow> - 120 \<le> m \<and> m \<le> 0" for raw
    using parsed_rssi [of raw] by (cases "parseRssiDbm raw") simp_all
  show ?thesis
    using assms unfolding scan_of_def Let_def none option.inject prod.inject
    by (elim conjE; hypsubst) (simp add: rssi filled UNKNOWN_SSID_def)
qed

text \<open>
  C37: Every scanned network is shown, once for each name, address, channel and signal, the strongest first
  and those without a signal last; signals are between -120 and 0 dBm, kind and band are those of the
  texts shown, and the summary counts the list.
\<close>

theorem scans_listed:
  "let ns = wifiNetworksFromRows parse compare rows; said = List.map_filter (scan_of parse) rows; s = wifiScanSummary ns in
   (\<exists>ks. length ks = length ns \<and> distinct ks \<and> set ks = fst ` set said \<and> set (zip ks ns) \<subseteq> set said)
   \<and> sorted_wrt no_weaker ns
   \<and> list_all (\<lambda>n. wn_securityKind n = wifiSecurityKind (wn_security n) \<and> wn_band n = wifiScanBand (wn_channel n)
        \<and> wn_ssid n \<noteq> [] \<and> (case wn_rssiDbm n of None \<Rightarrow> True | Some m \<Rightarrow> - 120 \<le> m \<and> m \<le> 0)) ns
   \<and> su_total s = length ns \<and> su_open s = length (filter (\<lambda>n. wn_securityKind n = Wk_open) ns)
   \<and> su_hidden s = length (filter wn_hidden ns) \<and> su_sleep s = length (filter wn_connectedInSleep ns)
   \<and> su_strong s = length (filter (\<lambda>n. wifiScanRssiTone (wn_rssiDbm n) = Rt_strong) ns)"
proof -
  define said where "said = List.map_filter (scan_of parse) rows"
  define kept where "kept = listed_once fst (scan_of parse) rows"
  define ns where "ns = wifiNetworksFromRows parse compare rows"
  have kept: "distinct (map fst kept)" "fst ` set kept = fst ` set said" "set kept \<subseteq> set said"
    using listed_once_facts [of fst "scan_of parse" rows] by (simp_all add: kept_def said_def)
  have ns: "ns = js_sort (compare_scans compare) (map snd kept)" by (simp add: ns_def wifiNetworksFromRows_def kept_def)
  define ps where "ps = js_sort (\<lambda>a b. compare_scans compare (snd a) (snd b)) kept"
  have ps: "mset ps = mset kept" "map snd ps = ns" unfolding ps_def ns by (simp_all add: sort_map)
  have "distinct (map fst ps)" using kept(1) ps(1) by (metis mset_map mset_eq_imp_distinct_iff)
  moreover have "set ps = set kept" using ps(1) by (rule mset_eq_setD)
  moreover have "zip (map fst ps) ns = ps" using ps(2) zip_map_fst_snd [of ps] by simp
  ultimately have keys: "\<exists>ks. length ks = length ns \<and> distinct ks \<and> set ks = fst ` set said \<and> set (zip ks ns) \<subseteq> set said"
    using kept(2,3) ps(2) by (intro exI [of _ "map fst ps"]) auto
  have "list_all (\<lambda>n. wn_securityKind n = wifiSecurityKind (wn_security n) \<and> wn_band n = wifiScanBand (wn_channel n)
        \<and> wn_ssid n \<noteq> [] \<and> (case wn_rssiDbm n of None \<Rightarrow> True | Some m \<Rightarrow> - 120 \<le> m \<and> m \<le> 0)) ns"
    unfolding list_all_iff
  proof
    fix n
    assume "n \<in> set ns"
    then obtain k where "(k, n) \<in> set said" using kept(3) by (auto simp: ns)
    then obtain row where "scan_of parse row = Some (k, n)" by (auto simp: said_def List.map_filter_def)
    then show "wn_securityKind n = wifiSecurityKind (wn_security n) \<and> wn_band n = wifiScanBand (wn_channel n)
        \<and> wn_ssid n \<noteq> [] \<and> (case wn_rssiDbm n of None \<Rightarrow> True | Some m \<Rightarrow> - 120 \<le> m \<and> m \<le> 0)"
      by (rule scan_fields)
  qed
  moreover have "sorted_wrt no_weaker ns" unfolding ns by (rule strongest_first)
  ultimately show ?thesis
    using keys unfolding Let_def said_def [symmetric] ns_def [symmetric] wifiScanSummary_def scan_summary_counts by simp
qed

section \<open>Permissions\<close>

lemma top_services: "top_counts limit (map tp_service ps) (tccTopServices ps limit)"
  unfolding tccTopServices_def by (rule most_frequent_top)

lemma section_counts: "(\<Sum>c\<leftarrow>securitySectionCounts ds. snd c) = length ds"
  by (simp add: securitySectionCounts_def sum_sort tally_total)

text \<open>The status denied has none of the words that are looked for, and not allowed has allow.\<close>

lemma denied_not_recognised: "tccAllowedStatus ''denied'' = None" "tccAllowedStatus ''not allowed'' = Some True"
  by code_simp+

end
