(* ===== verification/BatterySeries.thy ===== *)
theory BatterySeries
  imports ProcessSnapshot IosRows PowerHistory "HOL-Library.Sublist"
begin

text \<open>
  The level of the battery over time, from \<open>src/mobipwn-web/src/lib/batteryPanel.ts\<close>: the series of the charts
  from the rows of three parsers, its thinning, and the stretches of charging. Times are whole milliseconds,
  levels are rational numbers; arithmetic is exact. Times lie in the range of dates (beyond it \<open>toISOString\<close>
  throws).

  A series has one point for every time, the times increase; thinning it takes points of it in their order, with
  both ends; the charging stretches cover exactly the points that charge, but for the last one.
\<close>

section \<open>Times\<close>

record BatteryLevelPoint =
  bl_t :: int
  bl_when :: string
  bl_level :: rat
  bl_charging :: "bool option"

definition four :: regex where
  "four = Seq two two"

definition day_time_re :: regex where
  "day_time_re = Seqs [Bol, four, Lit ''-'', two, Lit ''-'', two, One_of '' T'', two, Lit '':'', two]"

definition zone_end_re :: regex where
  "zone_end_re = Alt (Seq (Lit ''Z'') Eol) (Seqs [One_of ''+-'', two, Opt (Lit '':''), two, Eol])"

definition epoch_ms :: "int \<Rightarrow> int" where
  "epoch_ms n = (if n > 100000000000000 then n div 1000 else if n < 1000000000000 then n * 1000 else n)"

text \<open>\<open>Date.parse\<close>, which is tried again with a zone on a time that it refuses.\<close>

definition zoned_parse :: "Dates \<Rightarrow> string \<Rightarrow> int option" where
  "zoned_parse D s =
     (case date_parse D s of
        Some t \<Rightarrow> Some t
      | None \<Rightarrow>
          (if test day_time_re s
           then let iso = (if contains ''T'' s then s else replace_first (Lit '' '') ''T'' s)
                in date_parse D (if test zone_end_re iso then iso else iso @ ''Z'')
           else None))"

definition series_time :: "Dates \<Rightarrow> Json option \<Rightarrow> int option" where
  "series_time D raw =
     (case present raw of
        None \<Rightarrow> None
      | Some (JNum n) \<Rightarrow> (if epoch_ms n > 0 then Some (epoch_ms n) else None)
      | Some v \<Rightarrow>
          (let s = trim (js_text v) in
           if s = [] then None
           else case zoned_parse D s of
                  Some t \<Rightarrow> Some t
                | None \<Rightarrow>
                    (case js_number s of
                       Some n \<Rightarrow> (if n > 0 then Some (epoch_ms n) else None)
                     | None \<Rightarrow> None)))"

definition parseBatterySeriesTimestamp :: "JsonParse \<Rightarrow> Dates \<Rightarrow> Row \<Rightarrow> int option" where
  "parseBatterySeriesTimestamp parse D row =
     or_else (series_time D (map_of row ''datetime''))
       (or_else (series_time D (map_of row ''timestamp'')) (series_time D (map_of (parseExt parse row) ''timestamp'')))"

definition when_shown :: "JsonParse \<Rightarrow> Dates \<Rightarrow> (int \<Rightarrow> string) \<Rightarrow> Row \<Rightarrow> int \<Rightarrow> string" where
  "when_shown parse D text row t = or_str (formatRowTimestamp parse D row) (text t)"

section \<open>Levels\<close>

definition rounded :: "rat \<Rightarrow> int" where
  "rounded x = \<lfloor>x + 1 / 2\<rfloor>"

definition normalizeBatteryLevel :: "rat option \<Rightarrow> rat option" where
  "normalizeBatteryLevel level =
     (case level of
        None \<Rightarrow> None
      | Some l \<Rightarrow>
          (if l > 0 \<and> l \<le> 1 then Some (of_int (rounded (l * 1000)) / 10)
           else if l < 0 \<or> l > 100 then None else Some l))"

definition scrape_re :: "string \<Rightarrow> regex" where
  "scrape_re key = Seqs [Alt Bol (One_of '',:''), Star Space, LitI key, Lit ''='', Grp 1 (Plus (Cls (\<lambda>c. is_digit c \<or> c = CHR ''.'')))]"

definition scrapeMessageNum :: "string \<Rightarrow> string \<Rightarrow> rat option" where
  "scrapeMessageNum message key =
     (case exec (scrape_re key) message of Some m \<Rightarrow> js_decimal (get_or [] (group 1 m)) | None \<Rightarrow> None)"

definition battery_level_re :: "regex \<Rightarrow> regex" where
  "battery_level_re close = Seqs [Bol, LitI ''battery'', Star Space, LitI ''level'', close]"

definition isBatteryLevelRow :: "string \<Rightarrow> string \<Rightarrow> bool" where
  "isBatteryLevelRow message desc \<longleftrightarrow> test (battery_level_re Eol) desc \<or> test (battery_level_re WordB) message"

definition dedup_step :: "BatteryLevelPoint list \<Rightarrow> BatteryLevelPoint \<Rightarrow> BatteryLevelPoint list" where
  "dedup_step dedup p = (if dedup \<noteq> [] \<and> bl_t (last dedup) = bl_t p then butlast dedup @ [p] else dedup @ [p])"

definition dedupBatterySeries :: "BatteryLevelPoint list \<Rightarrow> BatteryLevelPoint list" where
  "dedupBatterySeries points = foldl dedup_step [] (js_sort (\<lambda>a b. bl_t a - bl_t b) points)"

section \<open>Series of iOS\<close>

text \<open>\<open>/^true|yes|charg/i\<close>: only the first of the three is anchored.\<close>

definition charging_re :: regex where
  "charging_re = Alts [Seq Bol (LitI ''true''), LitI ''yes'', LitI ''charg'']"

definition rat_field :: "JsonParse \<Rightarrow> Row \<Rightarrow> string \<Rightarrow> rat option" where
  "rat_field parse row key = ratFromValue (or_else (present (map_of row key)) (map_of (parseExt parse row) key))"

fun first_known :: "'a option list \<Rightarrow> 'a option" where
  "first_known [] = None"
| "first_known (v # vs) = or_else v (first_known vs)"

text \<open>A scraped number stands for its text, which has no letters and is \<open>1\<close> for one alone.\<close>

definition level_charging :: "JsonParse \<Rightarrow> Row \<Rightarrow> bool option" where
  "level_charging parse row =
     (let raw = or_str (extField parse row ''is_charging'') (extField parse row ''IS CHARGING'') in
      if raw \<noteq> [] then Some (raw = ''1'' \<or> test charging_re raw)
      else map_option (\<lambda>n. n = 1) (scrapeMessageNum (strField row ''message'') ''IS CHARGING''))"

definition level_of :: "JsonParse \<Rightarrow> Row \<Rightarrow> rat option" where
  "level_of parse row =
     (let ext = parseExt parse row; message = strField row ''message''
      in normalizeBatteryLevel (first_known [ratFromValue (map_of ext ''raw_level''), ratFromValue (map_of ext ''level''),
           rat_field parse row ''raw_level'', rat_field parse row ''level'', scrapeMessageNum message ''RAW LEVEL'',
           scrapeMessageNum message ''LEVEL'']))"

definition point_at ::
  "JsonParse \<Rightarrow> Dates \<Rightarrow> (int \<Rightarrow> string) \<Rightarrow> Row \<Rightarrow> int option \<Rightarrow> rat option \<Rightarrow> bool option \<Rightarrow> BatteryLevelPoint option" where
  "point_at parse D text row time level charging =
     (case (level, time) of
        (Some l, Some t) \<Rightarrow> Some \<lparr>bl_t = t, bl_when = when_shown parse D text row t, bl_level = l, bl_charging = charging\<rparr>
      | _ \<Rightarrow> None)"

definition level_point :: "JsonParse \<Rightarrow> Dates \<Rightarrow> Row \<Rightarrow> BatteryLevelPoint option" where
  "level_point parse D row =
     (if isBatteryLevelRow (strField row ''message'') (strField row ''timestamp_desc'')
      then point_at parse D (iso_text D) row (parseBatterySeriesTimestamp parse D row) (level_of parse row) (level_charging parse row)
      else None)"

definition iosBatteryLevelSeriesFromRows :: "JsonParse \<Rightarrow> Dates \<Rightarrow> Row list \<Rightarrow> BatteryLevelPoint list" where
  "iosBatteryLevelSeriesFromRows parse D rows = dedupBatterySeries (List.map_filter (level_point parse D) rows)"

section \<open>Thinning and charging\<close>

text \<open>The index \<open>Math.round(i * (points.length - 1) / (maxPoints - 1))\<close>, and the last one for the last point.\<close>

definition sample_index :: "nat \<Rightarrow> nat \<Rightarrow> nat \<Rightarrow> nat" where
  "sample_index n maxPoints i =
     (if i = maxPoints - 1 then n - 1 else (2 * i * (n - 1) + (maxPoints - 1)) div (2 * (maxPoints - 1)))"

definition downsampleBatterySeries :: "nat \<Rightarrow> BatteryLevelPoint list \<Rightarrow> BatteryLevelPoint list" where
  "downsampleBatterySeries maxPoints points =
     (if length points \<le> maxPoints then points
      else map (\<lambda>i. points ! sample_index (length points) maxPoints i) [0..<maxPoints])"

definition range_step :: "(int \<times> int) list \<times> int option \<Rightarrow> BatteryLevelPoint \<Rightarrow> (int \<times> int) list \<times> int option" where
  "range_step = (\<lambda>(ranges, start) point.
     if bl_charging point = Some True then (ranges, Some (get_or (bl_t point) start))
     else case start of Some s \<Rightarrow> (ranges @ [(s, bl_t point)], None) | None \<Rightarrow> (ranges, None))"

definition batteryChargingRanges :: "BatteryLevelPoint list \<Rightarrow> (int \<times> int) list" where
  "batteryChargingRanges series =
     (case foldl range_step ([], None) series of
        (ranges, start) \<Rightarrow>
          filter (\<lambda>(x1, x2). x2 > x1)
            (ranges @ (case start of Some s \<Rightarrow> if series \<noteq> [] then [(s, bl_t (last series))] else [] | None \<Rightarrow> [])))"

section \<open>One point a time\<close>

definition later :: "BatteryLevelPoint \<Rightarrow> BatteryLevelPoint \<Rightarrow> bool" where
  "later p q \<longleftrightarrow> bl_t p < bl_t q"

definition at_time :: "int \<Rightarrow> BatteryLevelPoint list \<Rightarrow> BatteryLevelPoint list" where
  "at_time t = filter (\<lambda>p. bl_t p = t)"

lemma insert_at_time: "at_time t (insert_by (\<lambda>a b. bl_t a - bl_t b) p ps) = (if bl_t p = t then p # at_time t ps else at_time t ps)"
  by (induction ps) (auto simp: at_time_def)

lemma sort_at_time: "at_time t (js_sort (\<lambda>a b. bl_t a - bl_t b) ps) = at_time t ps"
proof (induction ps)
  case (Cons p ps)
  then show ?case unfolding js_sort_def foldr.simps o_apply insert_at_time by (simp add: at_time_def)
qed (simp add: js_sort_def)

lemma sorted_times: "sorted_wrt (\<lambda>p q. bl_t p \<le> bl_t q) (js_sort (\<lambda>a b. bl_t a - bl_t b) ps)"
  by (rule sort_by_relation) auto

lemma dedup_sorted:
  "sorted_wrt (\<lambda>p q. bl_t p \<le> bl_t q) ps \<Longrightarrow>
     sorted_wrt later (foldl dedup_step [] ps) \<and> bl_t ` set (foldl dedup_step [] ps) = bl_t ` set ps
     \<and> (\<forall>p \<in> set (foldl dedup_step [] ps). p = last (at_time (bl_t p) ps))
     \<and> (ps \<noteq> [] \<longrightarrow> foldl dedup_step [] ps \<noteq> [] \<and> last (foldl dedup_step [] ps) = last ps)"
proof (induction ps rule: rev_induct)
  case (snoc p ps)
  define ds where "ds = foldl dedup_step [] ps"
  have IH: "sorted_wrt later ds" "bl_t ` set ds = bl_t ` set ps" "\<And>q. q \<in> set ds \<Longrightarrow> q = last (at_time (bl_t q) ps)"
      "ps \<noteq> [] \<Longrightarrow> ds \<noteq> [] \<and> last ds = last ps"
    and below: "\<And>q. q \<in> set ps \<Longrightarrow> bl_t q \<le> bl_t p"
    using snoc by (auto simp: ds_def sorted_wrt_append)
  show ?case
  proof (cases "ds = []")
    case True
    then have "ps = []" using IH(4) by auto
    then show ?thesis by (simp add: dedup_step_def at_time_def)
  next
    case False
    then obtain es e where ds: "ds = es @ [e]" by (metis append_butlast_last_id)
    have e_max: "bl_t q < bl_t e" if mem: "q \<in> set es" for q using IH(1) mem by (simp add: ds sorted_wrt_append later_def)
    have "bl_t e \<in> bl_t ` set ps" using IH(2) by (auto simp: ds)
    then have le: "bl_t e \<le> bl_t p" using below by auto
    have keep: "q = last (at_time (bl_t q) (ps @ [p]))" if mem: "q \<in> set ds" and other: "bl_t q \<noteq> bl_t p" for q
      using IH(3) [OF mem] other by (simp add: at_time_def)
    have own: "last (at_time (bl_t p) (ps @ [p])) = p" by (simp add: at_time_def)
    show ?thesis
    proof (cases "bl_t e = bl_t p")
      case True
      then have "foldl dedup_step [] (ps @ [p]) = es @ [p]" by (simp add: ds_def [symmetric] ds dedup_step_def)
      moreover have "sorted_wrt later (es @ [p])" using IH(1) True by (simp add: ds sorted_wrt_append later_def)
      moreover have "bl_t ` set (es @ [p]) = bl_t ` set (ps @ [p])" using IH(2) True by (auto simp: ds)
      moreover have "q = last (at_time (bl_t q) (ps @ [p]))" if mem: "q \<in> set (es @ [p])" for q
        using mem keep e_max True own by (cases "q = p") (force simp: ds)+
      ultimately show ?thesis by simp
    next
      case False
      then have "foldl dedup_step [] (ps @ [p]) = ds @ [p]" by (simp add: ds_def [symmetric] ds dedup_step_def)
      moreover have "sorted_wrt later (ds @ [p])"
        using IH(1) e_max le False by (fastforce simp: ds sorted_wrt_append later_def)
      moreover have "bl_t ` set (ds @ [p]) = bl_t ` set (ps @ [p])" using IH(2) by auto
      moreover have "q = last (at_time (bl_t q) (ps @ [p]))" if mem: "q \<in> set (ds @ [p])" for q
      proof (cases "q = p")
        case False
        then have "q \<in> set ds" using mem by simp
        moreover from this have "bl_t q \<noteq> bl_t p" using e_max le \<open>bl_t e \<noteq> bl_t p\<close> by (force simp: ds)
        ultimately show ?thesis by (rule keep)
      qed (simp add: own)
      ultimately show ?thesis by simp
    qed
  qed
qed simp

lemma dedup_series:
  "sorted_wrt later (dedupBatterySeries ps) \<and> bl_t ` set (dedupBatterySeries ps) = bl_t ` set ps
   \<and> (\<forall>p \<in> set (dedupBatterySeries ps). p = last (at_time (bl_t p) ps))"
  using dedup_sorted [OF sorted_times [of ps]] by (simp add: dedupBatterySeries_def sort_at_time)

lemma point_member: "p \<in> set (dedupBatterySeries ps) \<Longrightarrow> p \<in> set ps"
proof -
  assume mem: "p \<in> set (dedupBatterySeries ps)"
  have "p = last (at_time (bl_t p) ps)" "bl_t p \<in> bl_t ` set ps" using dedup_series mem by blast+
  then have "at_time (bl_t p) ps \<noteq> []" by (auto simp: at_time_def filter_empty_conv)
  then show "p \<in> set ps"
    using \<open>p = last (at_time (bl_t p) ps)\<close> last_in_set [of "at_time (bl_t p) ps"] by (auto simp: at_time_def)
qed

lemma level_bounds:
  assumes "normalizeBatteryLevel v = Some l"
  shows "0 \<le> l \<and> l \<le> 100"
proof -
  obtain x where v: "v = Some x" using assms by (cases v) (simp_all add: normalizeBatteryLevel_def)
  show ?thesis
  proof (cases "0 < x \<and> x \<le> 1")
    case True
    then have "0 \<le> \<lfloor>x * 1000 + 1 / 2\<rfloor>" "\<lfloor>x * 1000 + 1 / 2\<rfloor> \<le> 1000" by (auto simp: floor_le_iff le_floor_iff)
    then have "0 \<le> (of_int (rounded (x * 1000)) :: rat)" "(of_int (rounded (x * 1000)) :: rat) \<le> 1000"
      unfolding rounded_def by (simp_all only: of_int_0_le_iff of_int_le_numeral_iff)
    then show ?thesis using assms True by (auto simp: v normalizeBatteryLevel_def)
  next
    case False
    then show ?thesis using assms by (auto simp: v normalizeBatteryLevel_def split: if_splits)
  qed
qed

section \<open>Thinning\<close>

lemma increasing_subseq:
  assumes "sorted_wrt (<) js" and "\<And>i. i \<in> set js \<Longrightarrow> i < n"
  shows "subseq js [0..<n]"
proof -
  have "filter (\<lambda>i. i \<in> set js) [0..<n] = js"
    using assms by (intro sorted_distinct_set_unique) (auto simp: strict_sorted_iff intro: sorted_wrt_filter)
  then show ?thesis by (metis subseq_filter_left)
qed

lemma sample_index_last: "0 < m \<Longrightarrow> sample_index n m (m - 1) = n - 1"
  by (simp add: sample_index_def)

lemma sample_index_first: "2 \<le> m \<Longrightarrow> sample_index n m 0 = 0"
  by (simp add: sample_index_def)

lemma div_spread:
  fixes b c :: nat
  assumes "0 < c" and "a + c \<le> b"
  shows "a div c < b div c"
  using div_le_mono [OF assms(2), of c] assms(1) by simp

text \<open>The exact index of the last point is the last one, so the special case changes nothing but rounding errors.\<close>

lemma sample_index_exact:
  assumes "2 \<le> m" and "i < m"
  shows "sample_index n m i = (2 * i * (n - 1) + (m - 1)) div (2 * (m - 1))"
proof (cases "i = m - 1")
  case True
  have "2 * i * (n - 1) + (m - 1) = (m - 1) + (n - 1) * (2 * (m - 1))" by (simp add: True algebra_simps)
  then show ?thesis using assms(1) by (simp only: True sample_index_def if_True div_mult_self1) simp
qed (simp add: sample_index_def)

lemma sample_index_increasing:
  assumes "2 \<le> m" and "m < n" and "i < j" and "j < m"
  shows "sample_index n m i < sample_index n m j"
proof -
  have "2 * i * (n - 1) + (m - 1) + 2 * (m - 1) \<le> 2 * j * (n - 1) + (m - 1)"
  proof -
    have "2 * i * (n - 1) + 2 * (m - 1) \<le> 2 * i * (n - 1) + 2 * (n - 1)" using assms(2) by simp
    also have "\<dots> = 2 * (i + 1) * (n - 1)" by (simp add: algebra_simps)
    also have "\<dots> \<le> 2 * j * (n - 1)" using assms(3) by (intro mult_le_mono1 mult_le_mono2) simp
    finally show ?thesis by simp
  qed
  then show ?thesis
    unfolding sample_index_exact [OF assms(1) assms(4)] sample_index_exact [OF assms(1) order.strict_trans [OF assms(3,4)]]
    using assms(1) by (intro div_spread) simp_all
qed

lemma sample_index_bound:
  assumes "m < n" and "i < m"
  shows "sample_index n m i < n"
proof (cases "2 \<le> m")
  case True
  have "sample_index n m i \<le> sample_index n m (m - 1)"
    using sample_index_increasing [OF True assms(1), of i "m - 1"] assms(2) by (cases "i = m - 1") (simp, linarith)
  then show ?thesis using assms sample_index_last [of m n] by simp
next
  case False
  then have "i = m - 1" "0 < m" using assms(2) by simp_all
  then show ?thesis using assms sample_index_last [of m n] by simp
qed

lemma downsample_subseq: "subseq (downsampleBatterySeries m ps) ps"
proof (cases "length ps \<le> m")
  case False
  define js where "js = map (sample_index (length ps) m) [0..<m]"
  have "sorted_wrt (<) js"
  proof (cases "2 \<le> m")
    case True
    then show ?thesis
      using sample_index_increasing [OF True, of "length ps"] False
      by (auto simp: js_def sorted_wrt_map sorted_wrt_iff_nth_less)
  next
    case False
    then have "m = 0 \<or> m = 1" by auto
    then show ?thesis by (auto simp: js_def)
  qed
  then have "subseq js [0..<length ps]"
    using sample_index_bound [of m "length ps"] False by (intro increasing_subseq) (auto simp: js_def)
  then have "subseq (map ((!) ps) js) (map ((!) ps) [0..<length ps])" by (rule subseq_map)
  then show ?thesis using False by (simp add: downsampleBatterySeries_def js_def map_nth o_def)
qed (simp add: downsampleBatterySeries_def)

lemma downsample_ends:
  assumes "2 \<le> m" and "ps \<noteq> []"
  shows "hd (downsampleBatterySeries m ps) = hd ps \<and> last (downsampleBatterySeries m ps) = last ps"
proof (cases "length ps \<le> m")
  case False
  define f where "f i = ps ! sample_index (length ps) m i" for i
  have "downsampleBatterySeries m ps = map f [0..<m]" using False by (simp add: downsampleBatterySeries_def f_def)
  moreover have "hd (map f [0..<m]) = f 0" "last (map f [0..<m]) = f (m - 1)"
    using assms(1) by (simp_all add: hd_map last_map)
  ultimately show ?thesis
    using assms sample_index_last [of m] by (simp add: f_def sample_index_first hd_conv_nth last_conv_nth)
qed (simp add: downsampleBatterySeries_def)

section \<open>Charging\<close>

definition covers :: "(int \<times> int) list \<Rightarrow> int \<Rightarrow> bool" where
  "covers rs t \<longleftrightarrow> list_ex (\<lambda>(x1, x2). x1 \<le> t \<and> t < x2) rs"

definition apart :: "int \<times> int \<Rightarrow> int \<times> int \<Rightarrow> bool" where
  "apart r q \<longleftrightarrow> snd r < fst q"

definition open_at :: "int option \<Rightarrow> int \<Rightarrow> bool" where
  "open_at start t \<longleftrightarrow> (case start of Some s \<Rightarrow> s \<le> t | None \<Rightarrow> False)"

definition charges :: "BatteryLevelPoint \<Rightarrow> bool" where
  "charges p \<longleftrightarrow> bl_charging p = Some True"

definition range_inv :: "BatteryLevelPoint list \<Rightarrow> (int \<times> int) list \<times> int option \<Rightarrow> bool" where
  "range_inv ps st \<longleftrightarrow>
     (case st of (rs, start) \<Rightarrow>
        sorted_wrt apart rs \<and> (\<forall>(a, b) \<in> set rs. a < b)
        \<and> (\<forall>(a, b) \<in> set rs. ps \<noteq> [] \<and> b \<le> bl_t (last ps) \<and> (\<forall>s. start = Some s \<longrightarrow> b < s))
        \<and> (start = None \<longleftrightarrow> ps = [] \<or> \<not> charges (last ps))
        \<and> (\<forall>s. start = Some s \<longrightarrow> s \<le> bl_t (last ps))
        \<and> (\<forall>p \<in> set ps. charges p \<longleftrightarrow> covers rs (bl_t p) \<or> open_at start (bl_t p)))"

lemma covers_snoc: "covers (rs @ [(a, b)]) t \<longleftrightarrow> covers rs t \<or> a \<le> t \<and> t < b"
  by (simp add: covers_def)

lemma covers_below: "\<forall>(a, b) \<in> set rs. b \<le> u \<Longrightarrow> u \<le> t \<Longrightarrow> \<not> covers rs t"
  by (auto simp: covers_def list_ex_iff)

lemma range_step_inv:
  assumes inv: "range_inv ps (rs, start)" and later: "\<And>q. q \<in> set ps \<Longrightarrow> bl_t q < bl_t p"
  shows "range_inv (ps @ [p]) (range_step (rs, start) p)"
proof -
  have sorted: "sorted_wrt apart rs" and pos: "\<forall>(a, b) \<in> set rs. a < b"
    and ends: "\<forall>(a, b) \<in> set rs. ps \<noteq> [] \<and> b \<le> bl_t (last ps) \<and> (\<forall>s. start = Some s \<longrightarrow> b < s)"
    and last: "start = None \<longleftrightarrow> ps = [] \<or> \<not> charges (last ps)" and start: "\<And>s. start = Some s \<Longrightarrow> s \<le> bl_t (last ps)"
    and points: "\<And>q. q \<in> set ps \<Longrightarrow> charges q \<longleftrightarrow> covers rs (bl_t q) \<or> open_at start (bl_t q)"
    using inv by (auto simp: range_inv_def)
  have before: "ps \<noteq> [] \<Longrightarrow> bl_t (last ps) < bl_t p" using later by simp
  then have rs_end: "\<forall>(a, b) \<in> set rs. b < bl_t p" using ends by fastforce
  then have none: "\<not> covers rs (bl_t p)" using covers_below [of rs "bl_t p" "bl_t p"] by fastforce
  show ?thesis
  proof (cases "charges p")
    case True
    show ?thesis
    proof (cases start)
      case None
      have "\<not> bl_t p \<le> bl_t q" if mem: "q \<in> set ps" for q using later [OF mem] by simp
      then show ?thesis
        using True None sorted pos rs_end points none
        by (fastforce simp: range_inv_def range_step_def charges_def [symmetric] get_or_def open_at_def)
    next
      case (Some s)
      then have "ps \<noteq> []" using last by auto
      then have "s < bl_t p" using start [OF Some] before by simp
      then show ?thesis
        using True Some sorted pos rs_end ends points none
        by (fastforce simp: range_inv_def range_step_def charges_def [symmetric] get_or_def open_at_def)
    qed
  next
    case False
    show ?thesis
    proof (cases start)
      case None
      then show ?thesis
        using False sorted pos rs_end points none
        by (fastforce simp: range_inv_def range_step_def charges_def [symmetric] open_at_def)
    next
      case (Some s)
      then have "ps \<noteq> []" using last by auto
      then have s: "s < bl_t p" using start [OF Some] before by simp
      have "sorted_wrt apart (rs @ [(s, bl_t p)])" using sorted ends Some by (fastforce simp: sorted_wrt_append apart_def)
      moreover have "charges q \<longleftrightarrow> covers (rs @ [(s, bl_t p)]) (bl_t q)" if mem: "q \<in> set ps" for q
        using points [OF mem] later [OF mem] by (simp add: covers_snoc Some open_at_def)
      moreover have "\<not> covers (rs @ [(s, bl_t p)]) (bl_t p)" using none by (simp add: covers_snoc)
      ultimately show ?thesis
        using False Some pos rs_end s
        by (fastforce simp: range_inv_def range_step_def charges_def [symmetric] open_at_def)
    qed
  qed
qed

lemma ranges_inv: "sorted_wrt later ps \<Longrightarrow> range_inv ps (foldl range_step ([], None) ps)"
proof (induction ps rule: rev_induct)
  case Nil
  then show ?case by (simp add: range_inv_def)
next
  case (snoc p ps)
  then have "range_inv ps (foldl range_step ([], None) ps)" "\<And>q. q \<in> set ps \<Longrightarrow> bl_t q < bl_t p"
    by (auto simp: sorted_wrt_append later_def)
  then show ?case using range_step_inv by (cases "foldl range_step ([], None) ps") simp
qed

lemma charging_ranges:
  assumes "sorted_wrt later ps"
  shows "sorted_wrt apart (batteryChargingRanges ps) \<and> (\<forall>(a, b) \<in> set (batteryChargingRanges ps). a < b)
     \<and> (\<forall>p \<in> set (butlast ps). charges p \<longleftrightarrow> covers (batteryChargingRanges ps) (bl_t p))"
proof -
  obtain rs start where st: "foldl range_step ([], None) ps = (rs, start)" by fastforce
  have inv: "range_inv ps (rs, start)" using ranges_inv [OF assms] by (simp add: st)
  have kept: "filter (\<lambda>(x1, x2). x2 > x1) rs = rs" using inv by (auto simp: range_inv_def intro!: filter_True)
  have mem: "q \<in> set (butlast ps) \<Longrightarrow> q \<in> set ps \<and> bl_t q < bl_t (last ps)" for q
  proof -
    assume q: "q \<in> set (butlast ps)"
    then have "ps = butlast ps @ [last ps]" by (cases "ps = []") simp_all
    then have "sorted_wrt later (butlast ps @ [last ps])" using assms by metis
    then show ?thesis using q by (auto simp: sorted_wrt_append later_def in_set_butlastD)
  qed
  show ?thesis
  proof (cases start)
    case None
    then have "batteryChargingRanges ps = rs" by (simp add: batteryChargingRanges_def st kept)
    then show ?thesis using inv mem by (auto simp: range_inv_def None open_at_def)
  next
    case (Some s)
    then have ne: "ps \<noteq> []" and s: "s \<le> bl_t (last ps)" using inv by (auto simp: range_inv_def)
    show ?thesis
    proof (cases "s < bl_t (last ps)")
      case True
      have rs: "batteryChargingRanges ps = rs @ [(s, bl_t (last ps))]"
        using True ne by (simp add: batteryChargingRanges_def st kept Some)
      have "sorted_wrt apart (rs @ [(s, bl_t (last ps))])"
        using inv by (fastforce simp: range_inv_def Some sorted_wrt_append apart_def)
      then show ?thesis
        using inv mem True by (fastforce simp: rs range_inv_def covers_snoc Some open_at_def)
    next
      case False
      then have "batteryChargingRanges ps = rs" using ne by (simp add: batteryChargingRanges_def st kept Some)
      then show ?thesis using inv mem False s by (fastforce simp: range_inv_def Some open_at_def)
    qed
  qed
qed

section \<open>The chart\<close>

text \<open>
  C38: A chart has the last read point of every time, in the order of time, with levels between 0 and 100;
  thinned it is a part of that in the same order, with both ends; its charging stretches are apart, not
  empty, and cover exactly the charging points but for the last one.
\<close>

theorem level_chart:
  "let read = List.map_filter (level_point parse D) rows; ps = iosBatteryLevelSeriesFromRows parse D rows;
       few = downsampleBatterySeries m ps; rs = batteryChargingRanges ps in
   sorted_wrt later ps \<and> bl_t ` set ps = bl_t ` set read \<and> list_all (\<lambda>p. p = last (at_time (bl_t p) read)) ps
   \<and> list_all (\<lambda>p. 0 \<le> bl_level p \<and> bl_level p \<le> 100) ps
   \<and> subseq few ps \<and> length few = min m (length ps)
   \<and> (if 2 \<le> m \<and> ps \<noteq> [] then hd few = hd ps \<and> last few = last ps else True)
   \<and> sorted_wrt apart rs \<and> list_all (\<lambda>(a, b). a < b) rs
   \<and> list_all (\<lambda>p. charges p \<longleftrightarrow> covers rs (bl_t p)) (butlast ps)"
proof -
  define read where "read = List.map_filter (level_point parse D) rows"
  define ps where "ps = iosBatteryLevelSeriesFromRows parse D rows"
  have ps: "ps = dedupBatterySeries read" by (simp add: ps_def read_def iosBatteryLevelSeriesFromRows_def)
  have levels: "0 \<le> bl_level p \<and> bl_level p \<le> 100" if mem: "p \<in> set ps" for p
  proof -
    have "p \<in> set read" using mem unfolding ps by (rule point_member)
    then obtain row where "level_point parse D row = Some p" by (auto simp: read_def List.map_filter_def)
    then have "level_of parse row = Some (bl_level p)" by (auto simp: level_point_def point_at_def split: if_splits option.splits)
    then show ?thesis unfolding level_of_def Let_def by (rule level_bounds)
  qed
  have "length (downsampleBatterySeries m ps) = min m (length ps)" by (simp add: downsampleBatterySeries_def)
  moreover have "sorted_wrt later ps \<and> bl_t ` set ps = bl_t ` set read \<and> list_all (\<lambda>p. p = last (at_time (bl_t p) read)) ps"
    using dedup_series [of read] by (simp add: ps list_all_iff)
  ultimately show ?thesis
    using levels downsample_subseq [of m ps] downsample_ends [of m ps] charging_ranges [of ps]
    unfolding Let_def ps_def [symmetric] read_def [symmetric] list_all_iff by simp
qed

text \<open>A status that says it is not charging has the word; one per cent is taken for the fraction of a full battery.\<close>

lemma not_charging_charges: "test charging_re ''Not charging''" "test charging_re ''discharging''"
  by code_simp+

lemma one_percent_full: "normalizeBatteryLevel (Some 1) = Some 100"
proof -
  have "\<lfloor>2001 / 2 :: rat\<rfloor> = 1000" by (simp add: floor_eq_iff)
  then show ?thesis by (simp add: normalizeBatteryLevel_def rounded_def)
qed

end
