(* ===== verification/BatteryIos.thy ===== *)
theory BatteryIos
  imports BatterySeries LatestMap DevicePolicy
begin

text \<open>
  The battery panel of iOS, from \<open>src/mobipwn-web/src/lib/batteryPanel.ts\<close>: the fields of the rows of
  \<open>battery_bdc\<close>, merged by family and shown in sections, and the panel that is made of a series of levels.
  Field names are not those of inherited members of objects, nor numerals (whose order in an object differs);
  \<open>localeCompare\<close> is \<open>compare\<close>.

  The battery panel of iOS shows of every family of rows the first value said of a field, in the highlights or in
  the section of the family.
\<close>

section \<open>The view\<close>

record BatteryField =
  btf_key :: string
  btf_label :: string
  btf_value :: string

record BatteryHeroStats =
  bth_temperature :: string
  bth_voltage :: string
  bth_amperage :: string
  bth_designCapacity :: string
  bth_plug :: string
  bth_health :: string

record BatterySection =
  bts_id :: string
  bts_title :: string
  bts_fields :: "BatteryField list"

record BatterySample =
  btr_when :: string
  btr_type :: string
  btr_summary :: string

record IosBatteryView =
  btv_stateOfCharge :: string
  btv_healthPercent :: "string option"
  btv_isCharging :: bool
  btv_externalConnected :: bool
  btv_statusBadges :: "string list"
  btv_heroStats :: BatteryHeroStats
  btv_highlightFields :: "BatteryField list"
  btv_sections :: "BatterySection list"
  btv_recentSamples :: "BatterySample list"
  btv_typeCount :: nat

section \<open>Names of fields\<close>

definition IOS_FIELD_LABELS :: "(string \<times> string) list" where
  "IOS_FIELD_LABELS =
     [(''StateOfCharge'', ''State of charge''), (''CurrentCapacity'', ''Current capacity''),
      (''DesignCapacity'', ''Design capacity''), (''MaxCapacity'', ''Max capacity''),
      (''NominalChargeCapacity'', ''Nominal charge capacity''), (''AppleRawMaxCapacity'', ''Raw max capacity''),
      (''CycleCount'', ''Cycle count''), (''Serial'', ''Serial''), (''ManufactureDate'', ''Manufacture date''),
      (''TimeInstalled'', ''Time installed''), (''Temperature'', ''Temperature''),
      (''VirtualTemperature'', ''Virtual temperature''), (''Voltage'', ''Voltage''),
      (''InstantAmperage'', ''Instant amperage''), (''Amperage'', ''Amperage''),
      (''AverageAmperage'', ''Average amperage''), (''IsCharging'', ''Charging''), (''FullyCharged'', ''Fully charged''),
      (''ExternalConnected'', ''External power''), (''AppleRawExternalConnected'', ''Raw external power''),
      (''AtWarnLevel'', ''At warn level''), (''AtCriticalLevel'', ''At critical level''),
      (''PerformanceThrottle'', ''Performance throttle''), (''BatteryCellDisconnect'', ''Cell disconnect''),
      (''Qmax'', ''Qmax''), (''BatteryHealthMetric'', ''Health metric'')]"

definition IOS_SECTION_TITLES :: "(string \<times> string) list" where
  "IOS_SECTION_TITLES =
     [(''BDC_SBC'', ''Live status (SBC)''), (''BDC_Once'', ''Health & lifetime''), (''BDC_OBC'', ''External connection'')]"

definition IOS_HIGHLIGHT_KEYS :: "string list" where
  "IOS_HIGHLIGHT_KEYS =
     [''StateOfCharge'', ''CurrentCapacity'', ''DesignCapacity'', ''MaxCapacity'', ''CycleCount'', ''Temperature'',
      ''VirtualTemperature'', ''Voltage'', ''InstantAmperage'', ''Amperage'', ''NominalChargeCapacity'', ''BatteryHealthMetric'']"

definition IOS_MERGE_KEYS :: "string list" where
  "IOS_MERGE_KEYS =
     [''type''] @ IOS_HIGHLIGHT_KEYS @
     [''IsCharging'', ''FullyCharged'', ''ExternalConnected'', ''AppleRawExternalConnected'', ''AtWarnLevel'',
      ''AtCriticalLevel'', ''PerformanceThrottle'', ''BatteryCellDisconnect'', ''AverageAmperage'', ''Qmax'', ''Serial'',
      ''ManufactureDate'', ''TimeInstalled'']"

text \<open>The table that maps a name in small letters to the name.\<close>

definition BATTERY_KEY_CANONICAL :: "(string \<times> string) list" where
  "BATTERY_KEY_CANONICAL = map (\<lambda>k. (to_lower k, k))
     [''Temperature'', ''VirtualTemperature'', ''StateOfCharge'', ''CurrentCapacity'', ''DesignCapacity'', ''MaxCapacity'',
      ''NominalChargeCapacity'', ''InstantAmperage'', ''AverageAmperage'', ''Amperage'', ''Voltage'', ''IsCharging'',
      ''FullyCharged'', ''ExternalConnected'', ''AppleRawExternalConnected'', ''CycleCount'']"

definition canonicalBatteryKey :: "string \<Rightarrow> string" where
  "canonicalBatteryKey key =
     get_or key (map_of BATTERY_KEY_CANONICAL (to_lower (filter (\<lambda>c. \<not> is_space c \<and> c \<noteq> CHR ''_'' \<and> c \<noteq> CHR ''-'') key)))"

definition humanizeKey :: "string \<Rightarrow> string" where
  "humanizeKey key = get_or (replace_char (CHR ''_'') '' '' (split_camel key)) (map_of IOS_FIELD_LABELS key)"

section \<open>Fields of a row\<close>

definition scalarToBatteryString :: "Json option \<Rightarrow> string" where
  "scalarToBatteryString v =
     (case v of
        Some (JStr s) \<Rightarrow> trim s
      | Some (JNum n) \<Rightarrow> int_str n
      | Some (JBool b) \<Rightarrow> (if b then ''1'' else ''0'')
      | _ \<Rightarrow> [])"

definition assign_field :: "TextRow \<Rightarrow> string \<times> Json \<Rightarrow> TextRow" where
  "assign_field out = (\<lambda>(key, v).
     (let s = scalarToBatteryString (Some v); canon = canonicalBatteryKey key in
      if s = [] \<or> text_of out canon \<noteq> [] then out else map_set canon s out))"

definition flattenBatteryExtObject :: "Row \<Rightarrow> TextRow" where
  "flattenBatteryExtObject raw =
     foldl (\<lambda>out (key, v). assign_field (case v of JObj kvs \<Rightarrow> foldl assign_field out kvs | _ \<Rightarrow> out) (key, v)) [] raw"

definition isTruthyFlag :: "string \<Rightarrow> bool" where
  "isTruthyFlag raw \<longleftrightarrow> raw = ''1'' \<or> to_lower raw = ''true'' \<or> to_lower raw = ''yes''"

text \<open>Later entries replace earlier ones in their place, as in \<open>{...a, ...b}\<close>.\<close>

definition spread :: "TextRow \<Rightarrow> TextRow \<Rightarrow> TextRow" where
  "spread a b = foldl (\<lambda>m (k, v). map_set k v m) a b"

definition merge_column :: "Row \<Rightarrow> TextRow \<Rightarrow> string \<Rightarrow> TextRow" where
  "merge_column row out key =
     (let s = scalarToBatteryString (map_of row key) in
      if text_of out key \<noteq> [] \<or> s = [] then out else map_set (canonicalBatteryKey key) s out)"

definition iosBatteryExtFromRow :: "JsonParse \<Rightarrow> Row \<Rightarrow> TextRow" where
  "iosBatteryExtFromRow parse row =
     (let out = foldl (merge_column row) (spread (flattenBatteryExtObject (parseExt parse row)) (parseRowExt parse row)) IOS_MERGE_KEYS;
          desc = strField row ''timestamp_desc''
      in if text_of out ''type'' = [] \<and> desc \<noteq> [] then map_set ''type'' desc out else out)"

definition normalizeIosBatteryFamily :: "string \<Rightarrow> TextRow \<Rightarrow> string" where
  "normalizeIosBatteryFamily type ext =
     (let t = trim type in
      case exec family_re t of
        Some m \<Rightarrow> get_or [] (group 1 m)
      | None \<Rightarrow>
          (if has_text ext ''StateOfCharge'' \<or> has_text ext ''Temperature'' \<or> has_text ext ''Voltage''
              \<or> map_of ext ''IsCharging'' \<noteq> None then ''BDC_SBC''
           else if has_text ext ''DesignCapacity'' \<or> has_text ext ''CycleCount'' \<or> has_text ext ''MaxCapacity'' then ''BDC_Once''
           else if map_of ext ''ExternalConnected'' \<noteq> None \<or> map_of ext ''AppleRawExternalConnected'' \<noteq> None then ''BDC_OBC''
           else if starts_with ''powerlog'' t then t
           else or_str t ''battery_bdc''))"

section \<open>Values as they are shown\<close>

definition decimal_re :: regex where
  "decimal_re = Seqs [Bol, Opt (Lit ''-''), Plus Digit, Opt (Seq (Lit ''.'') (Plus Digit)), Eol]"

definition degree_c :: string where
  "degree_c = [CHR 0xC2, CHR 0xB0] @ ''c''"

definition formatIosTemperature :: "string \<Rightarrow> string" where
  "formatIosTemperature raw =
     (let t = trim raw in
      if t = [] then []
      else if contains degree_c (to_lower t) then t
      else if test decimal_re t
      then (let x = get_or 0 (js_decimal t); n = \<lfloor>x\<rfloor> in
            if x = of_int n \<and> \<bar>n\<bar> \<ge> 100 then fixed_quotient 1 n 100 @ degrees_C
            else if contains ''.'' t then t @ degrees_C
            else int_str n @ degrees_C)
      else t)"

definition is_flag_key :: "string \<Rightarrow> bool" where
  "is_flag_key key \<longleftrightarrow>
     list_ex (\<lambda>p. starts_with p key)
       [''Is'', ''At'', ''Fully'', ''External'', ''AppleRaw'', ''BatteryCell'', ''Performance'', ''Update'']
     \<or> ends_with ''Connected'' key \<or> ends_with ''Charging'' key"

definition whole :: "string \<Rightarrow> int" where
  "whole s = int (digits_val 10 s)"

definition formatIosBatteryValue :: "string \<Rightarrow> string \<Rightarrow> string" where
  "formatIosBatteryValue key raw =
     (let t = trim raw in
      if t = [] then []
      else if is_flag_key key \<and> (t = ''1'' \<or> to_lower t = ''true'') then ''Yes''
      else if is_flag_key key \<and> (t = ''0'' \<or> to_lower t = ''false'') then ''No''
      else if test (LitI ''temperature'') key then formatIosTemperature t
      else if key = ''Voltage'' \<and> digits_only t then fixed_quotient 2 (whole t) 1000 @ '' V''
      else if test (LitI ''amperage'') key \<and> signed_digits t then t @ '' mA''
      else if key \<in> set [''DesignCapacity'', ''MaxCapacity'', ''NominalChargeCapacity'', ''AppleRawMaxCapacity'', ''Qmax'']
              \<and> digits_only t then t @ '' mAh''
      else if key = ''StateOfCharge'' \<and> digits_only t \<and> whole t \<le> 100 then t @ ''%''
      else if key = ''CurrentCapacity'' \<and> digits_only t
      then (if whole t \<le> 100 then int_str (whole t) @ ''%'' else int_str (whole t) @ '' mAh'')
      else if key = ''CycleCount'' \<and> digits_only t then t @ '' cycles''
      else t)"

definition battery_field :: "string \<Rightarrow> string \<Rightarrow> BatteryField" where
  "battery_field key raw = \<lparr>btf_key = key, btf_label = humanizeKey key, btf_value = formatIosBatteryValue key raw\<rparr>"

definition fieldsFromExt ::
  "(string \<Rightarrow> string \<Rightarrow> int) \<Rightarrow> TextRow \<Rightarrow> string list \<Rightarrow> string list \<Rightarrow> BatteryField list" where
  "fieldsFromExt compare ext skipKeys excludeKeys =
     js_sort (\<lambda>a b. compare (btf_label a) (btf_label b))
       (map (\<lambda>(key, raw). battery_field key raw)
         (filter (\<lambda>(key, raw). key \<notin> set skipKeys \<and> key \<notin> set excludeKeys \<and> trim raw \<noteq> []) ext))"

definition iosSectionTitle :: "string \<Rightarrow> string" where
  "iosSectionTitle family =
     (case List.find (\<lambda>(start, title). starts_with start family) IOS_SECTION_TITLES of
        Some (start, title) \<Rightarrow> title
      | None \<Rightarrow>
          (if starts_with ''BDC_'' family then replace_char (CHR ''_'') '' '' family
           else if starts_with ''powerlog'' family then ''Power log '' @ middle_dot @ '' '' @ family
           else or_str family ''Battery sample''))"

definition first_key :: "TextRow \<Rightarrow> string list \<Rightarrow> string" where
  "first_key ext keys = get_or [] (first_known (map (map_of ext) keys))"

definition iosSampleSummary :: "TextRow \<Rightarrow> string" where
  "iosSampleSummary ext =
     (let show_key = (\<lambda>k. if has_text ext k then [formatIosBatteryValue k (text_of ext k)] else []);
          temp = first_key ext [''Temperature'', ''VirtualTemperature''];
          parts = (if has_text ext ''StateOfCharge'' then show_key ''StateOfCharge'' else show_key ''CurrentCapacity'')
            @ (if temp \<noteq> [] then [formatIosBatteryValue ''Temperature'' temp] else [])
            @ show_key ''Voltage'' @ show_key ''InstantAmperage''
            @ (if isTruthyFlag (text_of ext ''IsCharging'') then [''charging''] else [])
      in or_str (join ('' '' @ middle_dot @ '' '') parts) ''sample'')"

section \<open>The panel of the rows\<close>

definition merge_field :: "TextRow \<Rightarrow> string \<times> string \<Rightarrow> TextRow" where
  "merge_field target = (\<lambda>(key, v). if trim v \<noteq> [] \<and> text_of target key = [] then map_set key v target else target)"

definition mergeExtFields :: "TextRow \<Rightarrow> TextRow \<Rightarrow> TextRow" where
  "mergeExtFields target source = foldl merge_field target source"

definition shown_or_dash :: "string \<Rightarrow> string \<Rightarrow> string" where
  "shown_or_dash key raw = (if raw = [] then em_dash else formatIosBatteryValue key raw)"

definition iosHeroStatsFromSources :: "TextRow \<Rightarrow> TextRow \<Rightarrow> BatteryHeroStats" where
  "iosHeroStatsFromSources sbc once =
     (let temp = first_key sbc [''Temperature'', ''VirtualTemperature'']
      in \<lparr>bth_temperature = (if temp = [] then em_dash else formatIosTemperature temp),
          bth_voltage = shown_or_dash ''Voltage'' (text_of sbc ''Voltage''),
          bth_amperage = shown_or_dash ''InstantAmperage'' (first_key sbc [''InstantAmperage'', ''Amperage'', ''AverageAmperage'']),
          bth_designCapacity = shown_or_dash ''DesignCapacity'' (text_of once ''DesignCapacity''),
          bth_plug = em_dash, bth_health = em_dash\<rparr>)"

definition typed_row :: "JsonParse \<Rightarrow> Row \<Rightarrow> string \<times> TextRow" where
  "typed_row parse row =
     (let ext = iosBatteryExtFromRow parse row in (normalizeIosBatteryFamily (text_of ext ''type'') ext, ext))"

definition by_family :: "JsonParse \<Rightarrow> Row list \<Rightarrow> (string \<times> TextRow) list" where
  "by_family parse rows =
     group_rows (\<lambda>r. Some (fst r)) (\<lambda>r. mergeExtFields [] (snd r)) (\<lambda>merged r. mergeExtFields merged (snd r)) (map (typed_row parse) rows)"

definition sample_of :: "JsonParse \<Rightarrow> Dates \<Rightarrow> Row \<Rightarrow> string \<times> BatterySample" where
  "sample_of parse D row =
     (case typed_row parse row of
        (family, ext) \<Rightarrow>
          (let when = formatRowTimestamp parse D row
           in (join ''|'' [family, when, iosSampleSummary ext],
               \<lparr>btr_when = or_str when em_dash, btr_type = iosSectionTitle family, btr_summary = iosSampleSummary ext\<rparr>)))"

definition recent_samples :: "JsonParse \<Rightarrow> Dates \<Rightarrow> Row list \<Rightarrow> BatterySample list" where
  "recent_samples parse D rows = map snd (take 12 (first_of_keys fst [] (map (sample_of parse D) rows)))"

definition number_of_text :: "string option \<Rightarrow> rat option" where
  "number_of_text s = ratFromValue (map_option JStr s)"

definition health_percent :: "TextRow \<Rightarrow> string option" where
  "health_percent once =
     (case (number_of_text (map_of once ''DesignCapacity''),
            number_of_text (first_known (map (map_of once) [''MaxCapacity'', ''NominalChargeCapacity'', ''AppleRawMaxCapacity'']))) of
        (Some design, Some maxCap) \<Rightarrow>
          (if design > 0 \<and> maxCap \<noteq> 0 then Some (int_str (rounded (maxCap / design * 100)) @ ''%'')
           else if has_text once ''BatteryHealthMetric''
           then Some (formatIosBatteryValue ''BatteryHealthMetric'' (text_of once ''BatteryHealthMetric'')) else None)
      | _ \<Rightarrow>
          (if has_text once ''BatteryHealthMetric''
           then Some (formatIosBatteryValue ''BatteryHealthMetric'' (text_of once ''BatteryHealthMetric'')) else None))"

definition flag_set :: "TextRow \<Rightarrow> string \<Rightarrow> bool" where
  "flag_set ext key \<longleftrightarrow> isTruthyFlag (text_of ext key)"

definition external_power :: "TextRow \<Rightarrow> bool" where
  "external_power obc \<longleftrightarrow> flag_set obc ''ExternalConnected'' \<or> flag_set obc ''AppleRawExternalConnected''"

definition status_badges :: "TextRow \<Rightarrow> TextRow \<Rightarrow> string list" where
  "status_badges sbc obc =
     map snd (filter fst
       [(flag_set sbc ''IsCharging'', ''Charging''), (external_power obc, ''External power''),
        (flag_set sbc ''FullyCharged'', ''Fully charged''), (flag_set sbc ''AtCriticalLevel'', ''Critical''),
        (flag_set sbc ''AtWarnLevel'', ''Low''), (flag_set sbc ''PerformanceThrottle'', ''Throttled'')])"

definition highlights :: "TextRow list \<Rightarrow> BatteryField list" where
  "highlights sources =
     first_of_keys btf_key []
       (concat (map (\<lambda>source. List.map_filter (\<lambda>key. if trim (text_of source key) = [] then None
          else Some (battery_field key (text_of source key))) IOS_HIGHLIGHT_KEYS) sources))"

definition SECTION_ORDER :: "string list" where
  "SECTION_ORDER = [''BDC_SBC'', ''BDC_Once'', ''BDC_OBC'']"

definition section_of ::
  "(string \<Rightarrow> string \<Rightarrow> int) \<Rightarrow> string list \<Rightarrow> (string \<times> TextRow) list \<Rightarrow> string \<Rightarrow> BatterySection option" where
  "section_of compare highlighted families family =
     (case map_of families family of
        None \<Rightarrow> None
      | Some ext \<Rightarrow>
          (let fields = fieldsFromExt compare ext [''type''] highlighted
           in if fields = [] then None else Some \<lparr>bts_id = family, bts_title = iosSectionTitle family, bts_fields = fields\<rparr>))"

definition battery_sections ::
  "(string \<Rightarrow> string \<Rightarrow> int) \<Rightarrow> string list \<Rightarrow> (string \<times> TextRow) list \<Rightarrow> BatterySection list" where
  "battery_sections compare highlighted families =
     List.map_filter (section_of compare highlighted families)
       (SECTION_ORDER @ sort (filter (\<lambda>f. f \<notin> set SECTION_ORDER) (map fst families)))"

definition HERO_METRIC_KEYS :: "string list" where
  "HERO_METRIC_KEYS =
     [''Temperature'', ''VirtualTemperature'', ''Voltage'', ''InstantAmperage'', ''Amperage'', ''AverageAmperage'', ''DesignCapacity'']"

definition state_of_charge :: "TextRow \<Rightarrow> string" where
  "state_of_charge sbc =
     (if has_text sbc ''StateOfCharge'' then formatIosBatteryValue ''StateOfCharge'' (text_of sbc ''StateOfCharge'')
      else shown_or_dash ''CurrentCapacity'' (text_of sbc ''CurrentCapacity''))"

definition iosBatteryViewFromRows ::
  "JsonParse \<Rightarrow> Dates \<Rightarrow> (string \<Rightarrow> string \<Rightarrow> int) \<Rightarrow> Row list \<Rightarrow> IosBatteryView option" where
  "iosBatteryViewFromRows parse D compare rows =
     (let families = by_family parse rows; fam = (\<lambda>f. get_or [] (map_of families f));
          sbc = fam ''BDC_SBC''; once = fam ''BDC_Once''; obc = fam ''BDC_OBC'';
          merged = highlights [sbc, once, obc]
      in if families = [] then None
         else Some
          \<lparr>btv_stateOfCharge = state_of_charge sbc, btv_healthPercent = health_percent once,
           btv_isCharging = flag_set sbc ''IsCharging'', btv_externalConnected = external_power obc,
           btv_statusBadges = status_badges sbc obc, btv_heroStats = iosHeroStatsFromSources sbc once,
           btv_highlightFields = filter (\<lambda>f. btf_key f \<notin> set HERO_METRIC_KEYS) merged,
           btv_sections = battery_sections compare (map btf_key merged) families,
           btv_recentSamples = recent_samples parse D rows, btv_typeCount = length families\<rparr>)"

section \<open>The panel of a series\<close>

definition en_dash :: string where
  "en_dash = [CHR 0xE2, CHR 0x80, CHR 0x93]"

definition percent :: "rat \<Rightarrow> string" where
  "percent x = int_str (rounded x) @ ''%''"

text \<open>\<open>Math.round(x * 10) / 10\<close> as text.\<close>

definition tenths :: "rat \<Rightarrow> string" where
  "tenths x =
     (let n = rounded (x * 10); a = \<bar>n\<bar> in
      (if n < 0 then ''-'' else []) @ int_str (a div 10) @ (if a mod 10 = 0 then [] else ''.'' @ int_str (a mod 10)))"

definition plain_field :: "string \<Rightarrow> string \<Rightarrow> string \<Rightarrow> BatteryField" where
  "plain_field key label val = \<lparr>btf_key = key, btf_label = label, btf_value = val\<rparr>"

definition powerlogs_note :: string where
  "powerlogs_note = ''No BatteryBDC CSV in this sysdiagnose '' @ em_dash @ '' metrics below are from powerlogs Battery Level only.''"

definition powerlogs_sample :: "BatteryLevelPoint \<Rightarrow> BatterySample" where
  "powerlogs_sample p =
     \<lparr>btr_when = or_str (bl_when p) em_dash, btr_type = ''Battery Level'',
      btr_summary = tenths (bl_level p) @ ''%'' @
        (case bl_charging p of
           Some b \<Rightarrow> '' '' @ middle_dot @ '' '' @ (if b then ''charging'' else ''on battery'')
         | None \<Rightarrow> [])\<rparr>"

definition powerlogs_fields :: "BatteryLevelPoint list \<Rightarrow> BatteryField list" where
  "powerlogs_fields pts =
     (let levels = map bl_level pts; low = foldr min levels (hd levels); high = foldr max levels (hd levels);
          charging = length (filter (\<lambda>p. bl_charging p = Some True) pts);
          discharging = length (filter (\<lambda>p. bl_charging p = Some False) pts)
      in [plain_field ''ObservedRange'' ''Observed range'' (int_str (rounded low) @ en_dash @ percent high),
          plain_field ''SampleCount'' ''Samples'' (nat_str (length pts)),
          plain_field ''FirstSample'' ''First sample'' (or_str (bl_when (hd pts)) em_dash),
          plain_field ''LastSample'' ''Last sample'' (or_str (bl_when (last pts)) em_dash)]
         @ (if charging > 0 \<or> discharging > 0
            then [plain_field ''ChargeMix'' ''Charging samples''
              (nat_str charging @ '' charging '' @ middle_dot @ '' '' @ nat_str discharging @ '' on battery'')] else []))"

definition iosBatteryViewFromPowerlogsSeries :: "BatteryLevelPoint list \<Rightarrow> IosBatteryView option" where
  "iosBatteryViewFromPowerlogsSeries series =
     (if series = [] then None
      else let pts = js_sort (\<lambda>a b. bl_t a - bl_t b) series; latest = last pts;
               told = bl_charging (get_or latest (List.find (\<lambda>p. bl_charging p \<noteq> None) (rev pts)));
               isCharging = (told = Some True); onBattery = (told = Some False); fields = powerlogs_fields pts
           in Some
            \<lparr>btv_stateOfCharge = percent (bl_level latest), btv_healthPercent = None,
             btv_isCharging = isCharging, btv_externalConnected = isCharging,
             btv_statusBadges = (if isCharging then [''Charging''] else if onBattery then [''On battery''] else [])
               @ (if bl_level latest \<ge> 199 / 2 then [''Full''] else if bl_level latest \<le> 20 then [''Low''] else [])
               @ [''Powerlogs''],
             btv_heroStats = \<lparr>bth_temperature = em_dash, bth_voltage = em_dash, bth_amperage = em_dash,
               bth_designCapacity = em_dash,
               bth_plug = (if isCharging then ''Charging'' else if onBattery then ''Unplugged'' else em_dash),
               bth_health = em_dash\<rparr>,
             btv_highlightFields = fields,
             btv_sections = [\<lparr>bts_id = ''powerlogs_battery_level'', bts_title = ''Powerlogs Battery Level'',
               bts_fields = plain_field ''note'' ''Source'' powerlogs_note # fields\<rparr>],
             btv_recentSamples = map powerlogs_sample (take 12 (rev pts)), btv_typeCount = 1\<rparr>)"

section \<open>Series of the rows, and queries\<close>

definition soc_point :: "JsonParse \<Rightarrow> Dates \<Rightarrow> Row \<Rightarrow> BatteryLevelPoint option" where
  "soc_point parse D row =
     (let ext = iosBatteryExtFromRow parse row; level = (\<lambda>k. normalizeBatteryLevel (number_of_text (map_of ext k)))
      in point_at parse D (iso_text D) row (parseBatterySeriesTimestamp parse D row)
           (or_else (level ''StateOfCharge'') (level ''CurrentCapacity''))
           (if has_text ext ''IsCharging'' then Some (flag_set ext ''IsCharging'') else None))"

definition iosBatterySocSeriesFromBdcRows :: "JsonParse \<Rightarrow> Dates \<Rightarrow> Row list \<Rightarrow> BatteryLevelPoint list" where
  "iosBatterySocSeriesFromBdcRows parse D rows = dedupBatterySeries (List.map_filter (soc_point parse D) rows)"

definition iosBatteryQuery :: "string \<Rightarrow> string" where
  "iosBatteryQuery source =
     ''source='' @ quoted (escapeMplString source) @ '' parser='' @ quoted ''battery_bdc'' @
     '' | fields timestamp, datetime, message, timestamp_desc, ext | sort -timestamp | head 120''"

definition iosPowerlogsBatteryQuery :: "string \<Rightarrow> string" where
  "iosPowerlogsBatteryQuery source =
     ''source='' @ quoted (escapeMplString source) @ '' parser='' @ quoted ''powerlogs'' @
     '' (timestamp_desc='' @ quoted ''Battery Level'' @ '' OR message='' @ quoted ''Battery Level*'' @ '') '' @
     ''| fields timestamp, datetime, message, timestamp_desc, raw_level, level, ext | sort timestamp | head 4000''"

section \<open>Merged fields\<close>

definition said_field :: "string \<Rightarrow> TextRow \<Rightarrow> string" where
  "said_field key ext = or_texts (map (\<lambda>(k, v). if k = key \<and> trim v \<noteq> [] then v else []) ext)"

text \<open>What is said of a field by the rows of a family.\<close>

definition family_says :: "(string \<times> TextRow) list \<Rightarrow> string \<Rightarrow> string \<Rightarrow> string" where
  "family_says typed family key = or_texts (map (\<lambda>r. said_field key (snd r)) (filter (\<lambda>r. fst r = family) typed))"

lemma trim_nonempty: "trim v \<noteq> [] \<Longrightarrow> v \<noteq> []"
  by (cases v) (simp_all add: trim_def)

lemma or_str_assoc: "or_str (or_str a b) c = or_str a (or_str b c)"
  by (simp add: or_str_def)

lemma text_of_set: "text_of (map_set k v m) key = (if key = k then v else text_of m key)"
  by (simp add: text_of_def map_of_set get_or_def)

lemma merge_text: "text_of (mergeExtFields target source) key = or_str (text_of target key) (said_field key source)"
proof (induction source arbitrary: target)
  case Nil
  then show ?case by (simp add: mergeExtFields_def said_field_def or_str_def)
next
  case (Cons p source)
  obtain k v where p: "p = (k, v)" by fastforce
  have "text_of (merge_field target p) key = or_str (text_of target key) (if k = key \<and> trim v \<noteq> [] then v else [])"
    by (auto simp: p merge_field_def text_of_set or_str_def)
  then show ?case using Cons [of "merge_field target p"] by (simp add: mergeExtFields_def said_field_def p or_str_assoc)
qed

definition well_merged :: "TextRow \<Rightarrow> bool" where
  "well_merged ext \<longleftrightarrow> distinct (map fst ext) \<and> list_all (\<lambda>p. trim (snd p) \<noteq> []) ext"

lemma set_well_merged: "well_merged ext \<Longrightarrow> trim v \<noteq> [] \<Longrightarrow> well_merged (map_set k v ext)"
proof -
  assume ext: "well_merged ext" and v: "trim v \<noteq> []"
  have "trim (snd p) \<noteq> []" if mem: "p \<in> set (map_upsert k (\<lambda>_. v) v m)" and old: "list_all (\<lambda>p. trim (snd p) \<noteq> []) m" for p m
    using mem old v by (induction m) (auto simp: list_all_iff split: if_splits)
  then show ?thesis using ext by (auto simp: well_merged_def map_set_def distinct_upsert list_all_iff)
qed

lemma merge_well_merged: "well_merged ext \<Longrightarrow> well_merged (mergeExtFields ext source)"
  unfolding mergeExtFields_def
  by (induction source arbitrary: ext) (auto simp: merge_field_def set_well_merged)

lemma well_merged_field:
  assumes "well_merged ext"
  shows "if key \<in> fst ` set ext then (key, text_of ext key) \<in> set ext \<and> trim (text_of ext key) \<noteq> [] else text_of ext key = []"
proof (cases "map_of ext key")
  case None
  then have "key \<notin> fst ` set ext" by (simp add: map_of_eq_None_iff)
  with None show ?thesis by (simp add: text_of_def get_or_def)
next
  case (Some v)
  then have "(key, v) \<in> set ext" by (rule map_of_SomeD)
  then show ?thesis using assms Some by (force simp: text_of_def get_or_def well_merged_def list_all_iff)
qed

lemma well_merged_text: "well_merged ext \<Longrightarrow> text_of ext key \<noteq> [] \<longleftrightarrow> key \<in> fst ` set ext"
  using well_merged_field [of ext key] trim_nonempty by (auto split: if_splits)

lemma well_merged_trim: "well_merged ext \<Longrightarrow> trim (text_of ext key) = [] \<longleftrightarrow> text_of ext key = []"
  using well_merged_field [of ext key] trim_nonempty by (auto split: if_splits)

lemma merged_rows:
  "text_of (foldl (\<lambda>m r. mergeExtFields m (snd r)) ext rs) key = or_str (text_of ext key) (or_texts (map (\<lambda>r. said_field key (snd r)) rs))
   \<and> (well_merged ext \<longrightarrow> well_merged (foldl (\<lambda>m r. mergeExtFields m (snd r)) ext rs))"
  by (induction rs arbitrary: ext) (auto simp: merge_text or_str_assoc merge_well_merged simp: or_str_def)

lemma family_merged:
  assumes "map_of (by_family parse rows) family = Some ext"
  shows "text_of ext key = family_says (map (typed_row parse) rows) family key \<and> well_merged ext"
proof -
  define typed where "typed = map (typed_row parse) rows"
  obtain r rs where own: "filter (\<lambda>r. Some (fst r) = Some family) typed = r # rs"
      and ext: "ext = foldl (\<lambda>m r. mergeExtFields m (snd r)) (mergeExtFields [] (snd r)) rs"
    using assms unfolding by_family_def group_rows_lookup typed_def [symmetric] by (rule group_of_rows)
  have "ext = foldl (\<lambda>m r. mergeExtFields m (snd r)) [] (r # rs)" by (simp add: ext)
  moreover have "well_merged []" by (simp add: well_merged_def)
  ultimately show ?thesis
    using merged_rows [of "[]" "r # rs" key] own
    by (simp add: family_says_def typed_def [symmetric] text_of_def get_or_def or_str_def)
qed

section \<open>Sections and highlights\<close>

lemma section_fields:
  fixes H compare
  assumes "well_merged ext"
  defines "fs \<equiv> fieldsFromExt compare ext [''type''] H"
  shows "distinct (map btf_key fs)
     \<and> set fs = {battery_field k (text_of ext k) | k. k \<noteq> ''type'' \<and> k \<notin> set H \<and> text_of ext k \<noteq> []}"
proof
  define kept where "kept = filter (\<lambda>(key, raw). key \<notin> set [''type''] \<and> key \<notin> set H \<and> trim raw \<noteq> []) ext"
  have fs: "fs = js_sort (\<lambda>a b. compare (btf_label a) (btf_label b)) (map (\<lambda>(key, raw). battery_field key raw) kept)"
    by (simp add: fs_def fieldsFromExt_def kept_def)
  have keys: "map btf_key (map (\<lambda>(key, raw). battery_field key raw) kept) = map fst kept"
    by (auto simp: battery_field_def)
  have "distinct (map fst kept)" using assms(1) by (auto simp: kept_def well_merged_def distinct_map_filter)
  then show "distinct (map btf_key fs)" unfolding fs distinct_sort_keys keys .
  have pair: "(k, v) \<in> set ext \<longleftrightarrow> text_of ext k = v \<and> v \<noteq> []" for k v
  proof
    assume mem: "(k, v) \<in> set ext"
    then have "map_of ext k = Some v" using assms(1) by (simp add: well_merged_def)
    moreover have "v \<noteq> []" using mem assms(1) trim_nonempty by (fastforce simp: well_merged_def list_all_iff)
    ultimately show "text_of ext k = v \<and> v \<noteq> []" by (simp add: text_of_def get_or_def)
  next
    assume "text_of ext k = v \<and> v \<noteq> []"
    then show "(k, v) \<in> set ext" using well_merged_field [OF assms(1), of k] by (auto split: if_splits)
  qed
  have "set kept = (\<lambda>k. (k, text_of ext k)) ` {k. k \<noteq> ''type'' \<and> k \<notin> set H \<and> text_of ext k \<noteq> []}"
  proof -
    have "(k, v) \<in> set kept \<longleftrightarrow> v = text_of ext k \<and> k \<noteq> ''type'' \<and> k \<notin> set H \<and> v \<noteq> []" for k v
      using well_merged_trim [OF assms(1), of k] unfolding kept_def set_filter mem_Collect_eq pair prod.case
      by (simp only: set_simps singleton_iff) blast
    then show ?thesis by (auto simp: image_iff)
  qed
  then have "set fs = (\<lambda>k. battery_field k (text_of ext k)) ` {k. k \<noteq> ''type'' \<and> k \<notin> set H \<and> text_of ext k \<noteq> []}"
    by (simp only: fs set_js_sort set_map image_image prod.case)
  then show "set fs = {battery_field k (text_of ext k) | k. k \<noteq> ''type'' \<and> k \<notin> set H \<and> text_of ext k \<noteq> []}"
    by (simp only: image_Collect)
qed

lemma first_of_distinct: "distinct (map key xs) \<Longrightarrow> set (first_of_keys key seen xs) = {x \<in> set xs. key x \<notin> set seen}"
proof (induction xs arbitrary: seen)
  case (Cons x xs)
  then have "key x \<notin> key ` set xs" by simp
  then have "key y \<noteq> key x" if mem: "y \<in> set xs" for y using mem by (metis imageI)
  then show ?case using Cons.prems Cons.IH [of seen] Cons.IH [of "key x # seen"] by auto
qed simp

definition source_fields :: "TextRow \<Rightarrow> BatteryField list" where
  "source_fields source =
     List.map_filter (\<lambda>key. if trim (text_of source key) = [] then None
       else Some (battery_field key (text_of source key))) IOS_HIGHLIGHT_KEYS"

lemma map_filter_keys: "map btf_key (List.map_filter (\<lambda>key. if P key then None else Some (battery_field key (g key))) ks) = filter (\<lambda>k. \<not> P k) ks"
  by (induction ks) (simp_all add: map_filter_simps battery_field_def)

lemma source_fields_facts:
  assumes "well_merged source"
  shows "distinct (map btf_key (source_fields source))
     \<and> set (source_fields source) = {battery_field k (text_of source k) | k. k \<in> set IOS_HIGHLIGHT_KEYS \<and> text_of source k \<noteq> []}"
proof
  have "distinct IOS_HIGHLIGHT_KEYS" by code_simp
  then show "distinct (map btf_key (source_fields source))" unfolding source_fields_def map_filter_keys by (rule distinct_filter)
  show "set (source_fields source) = {battery_field k (text_of source k) | k. k \<in> set IOS_HIGHLIGHT_KEYS \<and> text_of source k \<noteq> []}"
    using well_merged_trim [OF assms] by (force simp: source_fields_def List.map_filter_def split: if_splits)
qed

lemma first_in_sources:
  assumes "\<And>s. s \<in> set sources \<Longrightarrow> well_merged s"
  shows "set (first_of_keys btf_key seen (concat (map source_fields sources)))
     = {battery_field k (or_texts (map (\<lambda>s. text_of s k) sources)) | k.
          k \<in> set IOS_HIGHLIGHT_KEYS \<and> k \<notin> set seen \<and> or_texts (map (\<lambda>s. text_of s k) sources) \<noteq> []}"
  using assms
proof (induction sources arbitrary: seen)
  case (Cons s sources)
  define own where "own = first_of_keys btf_key seen (source_fields s)"
  have facts: "distinct (map btf_key (source_fields s))"
      "set (source_fields s) = {battery_field k (text_of s k) | k. k \<in> set IOS_HIGHLIGHT_KEYS \<and> text_of s k \<noteq> []}"
    using source_fields_facts Cons.prems [of s] by simp_all
  then have own: "set own = {battery_field k (text_of s k) | k. k \<in> set IOS_HIGHLIGHT_KEYS \<and> k \<notin> set seen \<and> text_of s k \<noteq> []}"
    unfolding own_def first_of_distinct [OF facts(1)] by (auto simp: battery_field_def)
  then have keys: "btf_key ` set own = {k \<in> set IOS_HIGHLIGHT_KEYS. k \<notin> set seen \<and> text_of s k \<noteq> []}"
    by (force simp: battery_field_def)
  have "set (first_of_keys btf_key seen (concat (map source_fields (s # sources))))
      = set own \<union> set (first_of_keys btf_key (rev (map btf_key own) @ seen) (concat (map source_fields sources)))"
    by (simp add: first_of_keys_append own_def)
  also have "\<dots> = {battery_field k (or_texts (map (\<lambda>s. text_of s k) (s # sources))) | k.
      k \<in> set IOS_HIGHLIGHT_KEYS \<and> k \<notin> set seen \<and> or_texts (map (\<lambda>s. text_of s k) (s # sources)) \<noteq> []}"
    using Cons.IH [of "rev (map btf_key own) @ seen"] Cons.prems own keys by (auto simp: or_str_def split: if_splits)
  finally show ?case .
qed simp

lemma family_facts:
  assumes "fam = (\<lambda>f. get_or [] (map_of (by_family parse rows) f))"
  shows "text_of (fam f) k = family_says (map (typed_row parse) rows) f k" and "well_merged (fam f)"
proof -
  have "text_of (fam f) k = family_says (map (typed_row parse) rows) f k \<and> well_merged (fam f)"
  proof (cases "map_of (by_family parse rows) f")
    case None
    then have "f \<notin> fst ` set (by_family parse rows)" by (simp add: map_of_eq_None_iff)
    then have "\<forall>r \<in> set (map (typed_row parse) rows). fst r \<noteq> f"
      unfolding by_family_def group_rows_keys by auto
    then have "filter (\<lambda>r. fst r = f) (map (typed_row parse) rows) = []" by (simp only: filter_empty_conv)
    then show ?thesis unfolding family_says_def by (simp add: assms None text_of_def get_or_def well_merged_def)
  next
    case (Some ext)
    then show ?thesis using family_merged [OF Some] by (simp add: assms get_or_def)
  qed
  then show "text_of (fam f) k = family_says (map (typed_row parse) rows) f k" "well_merged (fam f)" by simp_all
qed

definition shown_fields :: "(string \<Rightarrow> string) \<Rightarrow> string set \<Rightarrow> BatteryField set" where
  "shown_fields says keys = {battery_field k (says k) | k. k \<in> keys \<and> says k \<noteq> []}"

lemma sections_of_families:
  fixes H :: "string list"
  assumes fam: "\<And>f ext. map_of families f = Some ext \<Longrightarrow> well_merged ext \<and> (\<forall>k. text_of ext k = says f k)"
    and distinct: "distinct (map fst families)"
  defines "other \<equiv> - (set H \<union> {''type''})"
  shows "distinct (map bts_id (battery_sections compare H families))
     \<and> bts_id ` set (battery_sections compare H families) = {f \<in> fst ` set families. shown_fields (says f) other \<noteq> {}}
     \<and> list_all (\<lambda>s. distinct (map btf_key (bts_fields s)) \<and> set (bts_fields s) = shown_fields (says (bts_id s)) other
          \<and> bts_title s = iosSectionTitle (bts_id s)) (battery_sections compare H families)"
proof -
  define fs where "fs = SECTION_ORDER @ sort (filter (\<lambda>f. f \<notin> set SECTION_ORDER) (map fst families))"
  have "distinct SECTION_ORDER" by code_simp
  then have fs: "distinct fs" "fst ` set families \<subseteq> set fs" using distinct by (auto simp: fs_def)
  have made: "bts_id s = f \<and> distinct (map btf_key (bts_fields s)) \<and> set (bts_fields s) = shown_fields (says f) other
      \<and> bts_title s = iosSectionTitle f \<and> f \<in> fst ` set families \<and> shown_fields (says f) other \<noteq> {}"
    if sec: "section_of compare H families f = Some s" for f s
  proof -
    obtain ext where ext: "map_of families f = Some ext" using sec by (auto simp: section_of_def split: option.splits)
    then have "set (fieldsFromExt compare ext [''type''] H) = shown_fields (says f) other"
        "distinct (map btf_key (fieldsFromExt compare ext [''type''] H))"
      using section_fields [of ext compare H] fam [OF ext] by (auto simp: shown_fields_def other_def)
    then show ?thesis
      using sec ext map_of_SomeD [OF ext] by (force simp: section_of_def Let_def split: if_splits)
  qed
  have absent: "f \<notin> fst ` set families \<or> shown_fields (says f) other = {}" if sec: "section_of compare H families f = None" for f
  proof (cases "map_of families f")
    case None
    then show ?thesis by (simp add: map_of_eq_None_iff)
  next
    case (Some ext)
    then have "set (fieldsFromExt compare ext [''type''] H) = shown_fields (says f) other"
      using section_fields [of ext compare H] fam [OF Some] by (auto simp: shown_fields_def other_def)
    then show ?thesis using sec Some by (auto simp: section_of_def Let_def split: if_splits)
  qed
  have ids: "map bts_id (List.map_filter (section_of compare H families) gs)
      = filter (\<lambda>f. section_of compare H families f \<noteq> None) gs" for gs
    using made by (induction gs) (auto simp: map_filter_simps split: option.splits)
  have id_set: "{f \<in> set fs. section_of compare H families f \<noteq> None} = {f \<in> fst ` set families. shown_fields (says f) other \<noteq> {}}"
    using made absent fs(2) by blast
  have "distinct (map bts_id (battery_sections compare H families))"
    unfolding battery_sections_def fs_def [symmetric] ids using fs(1) by (rule distinct_filter)
  moreover have "bts_id ` set (battery_sections compare H families) = {f \<in> fst ` set families. shown_fields (says f) other \<noteq> {}}"
    unfolding id_set [symmetric] using arg_cong [OF ids [of fs], of set]
    by (simp add: battery_sections_def fs_def [symmetric])
  moreover have "list_all (\<lambda>s. distinct (map btf_key (bts_fields s)) \<and> set (bts_fields s) = shown_fields (says (bts_id s)) other
          \<and> bts_title s = iosSectionTitle (bts_id s)) (battery_sections compare H families)"
    using made unfolding battery_sections_def fs_def [symmetric] list_all_iff List.map_filter_def by auto
  ultimately show ?thesis by blast
qed


text \<open>A second temperature is in no place of the panel: as a highlighted metric of the head it leaves highlights
  and sections, and the head shows the first.\<close>

lemma virtual_temperature_hidden:
  assumes view: "iosBatteryViewFromRows parse D compare rows = Some v"
    and live: "map_of (by_family parse rows) ''BDC_SBC'' = Some sbc"
    and first: "map_of sbc ''Temperature'' = Some t" and second: "trim (text_of sbc ''VirtualTemperature'') \<noteq> []"
  shows "bth_temperature (btv_heroStats v) = (if t = [] then em_dash else formatIosTemperature t)
     \<and> list_all (\<lambda>f. btf_key f \<noteq> ''VirtualTemperature'') (btv_highlightFields v @ concat (map bts_fields (btv_sections v)))"
proof -
  define sources where "sources = map (\<lambda>f. get_or [] (map_of (by_family parse rows) f)) SECTION_ORDER"
  define H where "H = map btf_key (highlights sources)"
  have "battery_field ''VirtualTemperature'' (text_of sbc ''VirtualTemperature'') \<in> set (source_fields sbc)"
    using second by (force simp: source_fields_def List.map_filter_def IOS_HIGHLIGHT_KEYS_def)
  then have "''VirtualTemperature'' \<in> btf_key ` set (source_fields sbc)" by (force simp: battery_field_def)
  moreover have "sbc \<in> set sources" by (simp add: sources_def SECTION_ORDER_def live get_or_def)
  ultimately have "''VirtualTemperature'' \<in> btf_key ` set (concat (map source_fields sources))" by auto
  then have hidden: "''VirtualTemperature'' \<in> set H"
    using first_of_keys_facts [of btf_key "[]" "concat (map source_fields sources)"]
    by (simp add: H_def highlights_def source_fields_def [abs_def])
  have fields: "list_all (\<lambda>f. btf_key f \<notin> set H) (fieldsFromExt compare ext skip H)" for ext skip
    by (auto simp: fieldsFromExt_def list_all_iff battery_field_def)
  have v: "btv_sections v = battery_sections compare H (by_family parse rows)"
      "set (btv_highlightFields v) \<subseteq> {f. btf_key f \<notin> set HERO_METRIC_KEYS}"
      "btv_heroStats v = iosHeroStatsFromSources sbc (get_or [] (map_of (by_family parse rows) ''BDC_Once''))"
    using view live by (auto simp: iosBatteryViewFromRows_def Let_def H_def sources_def SECTION_ORDER_def get_or_def split: if_splits)
  have "btf_key f \<notin> set H" if mem: "s \<in> set (btv_sections v)" "f \<in> set (bts_fields s)" for s f
    using mem fields
    by (fastforce simp: v battery_sections_def List.map_filter_def section_of_def Let_def list_all_iff split: option.splits if_splits)
  then have "btf_key f \<noteq> ''VirtualTemperature''" if mem: "s \<in> set (btv_sections v)" "f \<in> set (bts_fields s)" for s f
    using mem hidden by metis
  then have "list_all (\<lambda>f. btf_key f \<noteq> ''VirtualTemperature'') (btv_highlightFields v @ concat (map bts_fields (btv_sections v)))"
    using v(2) by (auto simp: list_all_iff HERO_METRIC_KEYS_def)
  moreover have "first_key sbc [''Temperature'', ''VirtualTemperature''] = t" by (simp add: first_key_def first or_else_def get_or_def)
  ultimately show ?thesis by (simp add: v(3) iosHeroStatsFromSources_def)
qed

end
