(* ===== verification/BatteryAndroid.thy ===== *)
theory BatteryAndroid
  imports BatteryIos BatterySeries
begin

text \<open>
  The battery panel of Android, from \<open>src/mobipwn-web/src/lib/batteryPanel.ts\<close>: samples of history and
  hardware, the applications by the drain they cause, and the series of levels. Numbers of the rows are whole;
  the drain score is a rational number.

  The battery panel of Android ranks every application once, by the highest numbers its rows state; where the
  status is read, words that contain others mislead.
\<close>

section \<open>The view\<close>

record AndroidBatteryHistorySample =
  ah_when :: string
  ah_status :: string
  ah_charge :: string
  ah_temp :: string
  ah_volt :: string
  ah_current :: string
  ah_plug :: string
  ah_health :: string
  ah_flags :: string

record AndroidBatteryApp =
  ap_package :: string
  ap_wakelock :: string
  ap_network :: string
  ap_cpu :: string
  ap_jobs :: string
  ap_foreground :: string

record AndroidBatteryHardwareSample =
  aw_when :: string
  aw_soc :: string
  aw_voltage :: string
  aw_current :: string
  aw_temperature :: string
  aw_chargerTemp :: string

record AndroidBatteryView =
  av_charge :: string
  av_status :: string
  av_isCharging :: bool
  av_statusBadges :: "string list"
  av_plug :: string
  av_temp :: string
  av_volt :: string
  av_current :: string
  av_health :: string
  av_heroStats :: BatteryHeroStats
  av_history :: "AndroidBatteryHistorySample list"
  av_hardware :: "AndroidBatteryHardwareSample list"
  av_topApps :: "AndroidBatteryApp list"
  av_historyCount :: nat
  av_hardwareCount :: nat
  av_appCount :: nat

section \<open>Rows and fields\<close>

definition row_says :: "string \<Rightarrow> string \<Rightarrow> Row \<Rightarrow> bool" where
  "row_says data_type phrase row \<longleftrightarrow>
     contains data_type (to_lower (strField row ''data_type'')) \<or> contains phrase (to_lower (strField row ''message''))"

definition isBatteryHistoryRow :: "Row \<Rightarrow> bool" where
  "isBatteryHistoryRow = row_says ''battery_history'' ''battery history''"

definition isBatteryAppRow :: "Row \<Rightarrow> bool" where
  "isBatteryAppRow = row_says ''battery_app'' ''battery stats app''"

definition isBatteryHardwareRow :: "Row \<Rightarrow> bool" where
  "isBatteryHardwareRow = row_says ''battery_hardware'' ''battery kernel hardware''"

definition nonblank :: "Json option \<Rightarrow> Json option" where
  "nonblank v = (case present v of Some w \<Rightarrow> (if trim (js_text w) \<noteq> [] then Some w else None) | None \<Rightarrow> None)"

definition androidExtField :: "Row \<Rightarrow> Row \<Rightarrow> string list \<Rightarrow> Json option" where
  "androidExtField row ext keys =
     first_known (concat (map (\<lambda>key. [nonblank (map_of row key), nonblank (map_of ext key)]) keys))"

definition androidField :: "Row \<Rightarrow> Row \<Rightarrow> string \<Rightarrow> string" where
  "androidField row ext key =
     (case nonblank (map_of row key) of
        Some v \<Rightarrow> trim (js_text v)
      | None \<Rightarrow> (case present (map_of ext key) of Some v \<Rightarrow> trim (js_text v) | None \<Rightarrow> []))"

section \<open>Values as they are shown\<close>

definition formatAndroidTemp :: "Json option \<Rightarrow> string" where
  "formatAndroidTemp v = (case numFromValue v of None \<Rightarrow> em_dash | Some n \<Rightarrow> fixed_quotient 1 n 10 @ degrees_C)"

definition pickAndroidTemperature :: "Row \<Rightarrow> Row \<Rightarrow> string" where
  "pickAndroidTemperature ext row =
     formatAndroidTemp (androidExtField row ext
       [''temp'', ''skin_temp'', ''ap_temp'', ''pa_temp'', ''sub_batt_temp'', ''tbat'', ''tsub'', ''tusb'', ''tchg'', ''twpc'',
        ''tblkt'', ''tdchg''])"

definition formatAndroidVolt :: "Json option \<Rightarrow> string" where
  "formatAndroidVolt v =
     (case numFromValue v of
        None \<Rightarrow> em_dash
      | Some n \<Rightarrow> (if n > 100 then fixed_quotient 2 n 1000 @ '' V'' else int_str n @ '' V''))"

definition formatAndroidCurrent :: "Json option \<Rightarrow> string" where
  "formatAndroidCurrent v = (case numFromValue v of None \<Rightarrow> em_dash | Some n \<Rightarrow> int_str n @ '' mA'')"

definition formatAndroidCharge :: "Json option \<Rightarrow> string" where
  "formatAndroidCharge v =
     (case numFromValue v of
        None \<Rightarrow> em_dash
      | Some n \<Rightarrow>
          (if n \<ge> 0 \<and> n \<le> 100 then int_str n @ ''%''
           else if n > 100 \<and> n \<le> 1000
           then (if n mod 10 = 0 then int_str (n div 10) else fixed_quotient 1 n 10) @ ''%''
           else em_dash))"

definition formatDurationMs :: "int \<Rightarrow> string" where
  "formatDurationMs ms =
     (if ms < 60000 then int_str ((2 * ms + 1000) div 2000) @ ''s''
      else if ms < 3600000 then int_str ((2 * ms + 60000) div 120000) @ ''m''
      else fixed_quotient 1 ms 3600000 @ ''h'')"

definition formatAndroidBytes :: "int \<Rightarrow> string" where
  "formatAndroidBytes bytes =
     (if bytes < 1024 then int_str bytes @ '' B''
      else if bytes < 1024 * 1024 then fixed_quotient 1 bytes 1024 @ '' KB''
      else if bytes < 1024 * 1024 * 1024 then fixed_quotient 1 bytes (1024 * 1024) @ '' MB''
      else fixed_quotient 2 bytes (1024 * 1024 * 1024) @ '' GB'')"

section \<open>Samples\<close>

definition historySortKey :: "JsonParse \<Rightarrow> Dates \<Rightarrow> Row \<Rightarrow> int" where
  "historySortKey parse D row =
     get_or 0 (date_parse D
       (or_texts [androidField row (parseExt parse row) ''timestamp'', strField row ''datetime'', strField row ''timestamp'']))"

definition sample_when :: "JsonParse \<Rightarrow> Dates \<Rightarrow> Row \<Rightarrow> string" where
  "sample_when parse D row =
     or_texts [androidField row (parseExt parse row) ''timestamp'', formatRowTimestamp parse D row, em_dash]"

definition parseHistorySample :: "JsonParse \<Rightarrow> Dates \<Rightarrow> Row \<Rightarrow> AndroidBatteryHistorySample" where
  "parseHistorySample parse D row =
     (let ext = parseExt parse row; f = androidExtField row ext
      in \<lparr>ah_when = sample_when parse D row,
          ah_status = or_texts [androidField row ext ''status'', strField row ''action'', em_dash],
          ah_charge = formatAndroidCharge (f [''soc_percent'', ''msoc_percent'', ''ssoc_percent'', ''charge'']),
          ah_temp = pickAndroidTemperature ext row,
          ah_volt = formatAndroidVolt (f [''volt'', ''vm_mv'', ''vavgm_mv'', ''vs_mv'', ''chgin_s_mv'']),
          ah_current = formatAndroidCurrent (f [''current'', ''inow_ma'', ''inow_m_ma'', ''iavg_ma'', ''ichg_ma'', ''ichg_m_ma'']),
          ah_plug = or_str (androidField row ext ''plug'') em_dash, ah_health = or_str (androidField row ext ''health'') em_dash,
          ah_flags = (case map_of ext ''flags'' of
              Some (JArr fs) \<Rightarrow> join '', '' (map js_text fs) | _ \<Rightarrow> androidField row ext ''flags'')\<rparr>)"

definition parseHardwareSample :: "JsonParse \<Rightarrow> Dates \<Rightarrow> Row \<Rightarrow> AndroidBatteryHardwareSample" where
  "parseHardwareSample parse D row =
     (let ext = parseExt parse row; f = androidExtField row ext; socRaw = f [''soc_percent'', ''msoc_percent'', ''ssoc_percent''];
          raw_text = (case socRaw of Some v \<Rightarrow> js_text v | None \<Rightarrow> em_dash)
      in \<lparr>aw_when = sample_when parse D row,
          aw_soc = (case numFromValue socRaw of Some n \<Rightarrow> (if n \<le> 100 then int_str n @ ''%'' else raw_text) | None \<Rightarrow> raw_text),
          aw_voltage = formatAndroidVolt (f [''vm_mv'', ''vavgm_mv'', ''vs_mv'', ''vavgs_mv'', ''chgin_s_mv'', ''volt'']),
          aw_current = formatAndroidCurrent (f [''inow_ma'', ''inow_m_ma'', ''iavg_ma'', ''ichg_ma'', ''ichg_m_ma'', ''isysavg_ma'']),
          aw_temperature = pickAndroidTemperature ext row,
          aw_chargerTemp = formatAndroidTemp (f [''tchg'', ''tusb'', ''twpc''])\<rparr>)"

definition isAndroidChargingStatus :: "string \<Rightarrow> bool" where
  "isAndroidChargingStatus status \<longleftrightarrow> contains ''charg'' (to_lower status) \<and> \<not> contains ''discharg'' (to_lower status)"

definition not_charging_re :: regex where
  "not_charging_re = Seqs [LitI ''not'', Opt (One_of ''- ''), LitI ''charg'']"

definition formatAndroidStatusLabel :: "string \<Rightarrow> string" where
  "formatAndroidStatusLabel status =
     (let s = trim status in
      if s = [] \<or> s = em_dash then em_dash
      else if test (Seq Bol (LitI ''charg'')) s \<and> \<not> test (LitI ''discharg'') s then ''Charging''
      else if test (LitI ''discharg'') s then ''Discharging''
      else if test not_charging_re s then ''Not charging''
      else if test (LitI ''full'') s then ''Full''
      else s)"

definition androidStatusBadges :: "string \<Rightarrow> string \<Rightarrow> string \<Rightarrow> string list" where
  "androidStatusBadges status plug health =
     (let label = formatAndroidStatusLabel status
      in (if label \<noteq> em_dash then [label] else [])
         @ (if plug \<noteq> [] \<and> plug \<noteq> em_dash \<and> to_lower plug \<noteq> ''none'' then [plug] else [])
         @ (if health \<noteq> [] \<and> health \<noteq> em_dash \<and> to_lower health \<noteq> ''unknown'' then [health] else []))"

text \<open>The first text that is neither blank nor a dash, or a dash.\<close>

definition firstNonDash :: "string list \<Rightarrow> string" where
  "firstNonDash texts = get_or em_dash (List.find (\<lambda>s. s \<noteq> [] \<and> s \<noteq> em_dash) texts)"

definition firstHistoryMetric :: "AndroidBatteryHistorySample list \<Rightarrow> (AndroidBatteryHistorySample \<Rightarrow> string) \<Rightarrow> string" where
  "firstHistoryMetric history key = firstNonDash (map key history)"

definition hero_metric ::
  "AndroidBatteryHistorySample list \<Rightarrow> AndroidBatteryHardwareSample list \<Rightarrow> (AndroidBatteryHistorySample \<Rightarrow> string)
     \<Rightarrow> (AndroidBatteryHardwareSample \<Rightarrow> string) \<Rightarrow> string" where
  "hero_metric history hardware key part =
     firstNonDash (map key (take 1 history) @ [firstHistoryMetric history key] @ map part (take 1 hardware) @ map part (take 1 hardware))"

definition androidHeroStatsFromSamples ::
  "AndroidBatteryHistorySample list \<Rightarrow> AndroidBatteryHardwareSample list \<Rightarrow> BatteryHeroStats" where
  "androidHeroStatsFromSamples history hardware =
     \<lparr>bth_temperature = hero_metric history hardware ah_temp aw_temperature,
      bth_voltage = hero_metric history hardware ah_volt aw_voltage,
      bth_amperage = hero_metric history hardware ah_current aw_current, bth_designCapacity = em_dash,
      bth_plug = firstNonDash (map ah_plug (take 1 history)), bth_health = firstNonDash (map ah_health (take 1 history))\<rparr>"

section \<open>Applications\<close>

record AppMetrics =
  am_wakelockMs :: int
  am_cpuMs :: int
  am_jobTimeMs :: int
  am_jobCount :: int
  am_fgServiceMs :: int
  am_networkBytes :: int

text \<open>The application as it is shown, with the numbers it is ranked and merged by. No caller passes a score.\<close>

record AndroidBatteryAppInternal =
  ai_app :: AndroidBatteryApp
  ai_wakelockMs :: int
  ai_cpuMs :: int
  ai_jobTimeMs :: int
  ai_fgServiceMs :: int
  ai_networkBytes :: int
  ai_drainScore :: rat

definition androidBatteryDrainScore :: "AppMetrics \<Rightarrow> rat" where
  "androidBatteryDrainScore m =
     of_int (am_wakelockMs m) + of_int (am_cpuMs m) * (85 / 100) + of_int (am_jobTimeMs m) * (7 / 10)
       + of_int (am_fgServiceMs m) * (1 / 2) + of_int (am_networkBytes m) / 1024"

definition duration_or_dash :: "int \<Rightarrow> string" where
  "duration_or_dash ms = (if ms > 0 then formatDurationMs ms else em_dash)"

definition formatAppFromMetrics :: "string \<Rightarrow> AppMetrics \<Rightarrow> AndroidBatteryAppInternal" where
  "formatAppFromMetrics pkg m =
     \<lparr>ai_app = \<lparr>ap_package = pkg, ap_wakelock = duration_or_dash (am_wakelockMs m),
        ap_network = (if am_networkBytes m > 0 then formatAndroidBytes (am_networkBytes m) else em_dash),
        ap_cpu = duration_or_dash (am_cpuMs m),
        ap_jobs = (if am_jobCount m > 0 then int_str (am_jobCount m) else em_dash),
        ap_foreground = duration_or_dash (am_fgServiceMs m)\<rparr>,
      ai_wakelockMs = am_wakelockMs m, ai_cpuMs = am_cpuMs m, ai_jobTimeMs = am_jobTimeMs m,
      ai_fgServiceMs = am_fgServiceMs m, ai_networkBytes = am_networkBytes m, ai_drainScore = androidBatteryDrainScore m\<rparr>"

definition shown_jobs :: "AndroidBatteryAppInternal \<Rightarrow> int" where
  "shown_jobs a = (if ap_jobs (ai_app a) \<noteq> em_dash then get_or 0 (js_number (ap_jobs (ai_app a))) else 0)"

definition mergeAppMetrics :: "AndroidBatteryAppInternal \<Rightarrow> AndroidBatteryAppInternal \<Rightarrow> AndroidBatteryAppInternal" where
  "mergeAppMetrics existing incoming =
     formatAppFromMetrics (ap_package (ai_app existing))
       \<lparr>am_wakelockMs = max (ai_wakelockMs existing) (ai_wakelockMs incoming),
        am_cpuMs = max (ai_cpuMs existing) (ai_cpuMs incoming),
        am_jobTimeMs = max (ai_jobTimeMs existing) (ai_jobTimeMs incoming),
        am_jobCount = max (shown_jobs existing) (shown_jobs incoming),
        am_fgServiceMs = max (ai_fgServiceMs existing) (ai_fgServiceMs incoming),
        am_networkBytes = max (ai_networkBytes existing) (ai_networkBytes incoming)\<rparr>"

definition without_quotes :: "string \<Rightarrow> string" where
  "without_quotes s =
     (let q = CHR 0x22; t = (if starts_with [q] s then drop 1 s else s) in if ends_with [q] t then butlast t else t)"

definition parseAppRow :: "JsonParse \<Rightarrow> Row \<Rightarrow> AndroidBatteryAppInternal option" where
  "parseAppRow parse row =
     (let ext = parseExt parse row; n = (\<lambda>k. get_or 0 (numFromValue (map_of ext k)));
          pkg = or_str (androidField row ext ''package_name'') (strField row ''bundle_id'')
      in if pkg = [] then None
         else Some (formatAppFromMetrics (without_quotes pkg)
           \<lparr>am_wakelockMs = n ''total_wakelock_time_ms'', am_cpuMs = n ''cpu_user_time_ms'' + n ''cpu_system_time_ms'',
            am_jobTimeMs = n ''total_job_time_ms'', am_jobCount = n ''total_job_count'', am_fgServiceMs = n ''foreground_service_time_ms'',
            am_networkBytes = get_or (n ''network_rx_mobile'' + n ''network_tx_mobile'' + n ''network_rx_wifi'' + n ''network_tx_wifi'')
              (numFromValue (map_of ext ''total_network_bytes''))\<rparr>))"

definition app_groups :: "JsonParse \<Rightarrow> Row list \<Rightarrow> (string \<times> AndroidBatteryAppInternal) list" where
  "app_groups parse rows =
     group_rows (\<lambda>a. Some (ap_package (ai_app a))) (\<lambda>a. a) mergeAppMetrics (List.map_filter (parseAppRow parse) (filter isBatteryAppRow rows))"

definition rat_sign :: "rat \<Rightarrow> int" where
  "rat_sign x = (if x < 0 then - 1 else if x = 0 then 0 else 1)"

definition compare_apps :: "(string \<Rightarrow> string \<Rightarrow> int) \<Rightarrow> AndroidBatteryAppInternal \<Rightarrow> AndroidBatteryAppInternal \<Rightarrow> int" where
  "compare_apps compare a b =
     (if ai_drainScore b \<noteq> ai_drainScore a then rat_sign (ai_drainScore b - ai_drainScore a)
      else if ai_wakelockMs b \<noteq> ai_wakelockMs a then ai_wakelockMs b - ai_wakelockMs a
      else if ai_cpuMs b \<noteq> ai_cpuMs a then ai_cpuMs b - ai_cpuMs a
      else compare (ap_package (ai_app a)) (ap_package (ai_app b)))"

section \<open>The panel\<close>

definition by_age :: "JsonParse \<Rightarrow> Dates \<Rightarrow> Row list \<Rightarrow> Row list" where
  "by_age parse D rows = js_sort (\<lambda>a b. historySortKey parse D b - historySortKey parse D a) rows"

definition androidBatteryViewFromRows ::
  "JsonParse \<Rightarrow> Dates \<Rightarrow> (string \<Rightarrow> string \<Rightarrow> int) \<Rightarrow> Row list \<Rightarrow> AndroidBatteryView option" where
  "androidBatteryViewFromRows parse D compare rows =
     (let historyRows = by_age parse D (filter isBatteryHistoryRow rows);
          hardwareRows = by_age parse D (filter isBatteryHardwareRow rows);
          history = map (parseHistorySample parse D) historyRows; hardware = map (parseHardwareSample parse D) hardwareRows;
          apps = js_sort (compare_apps compare) (map snd (app_groups parse rows));
          hero = androidHeroStatsFromSamples history hardware;
          status = (case history of [] \<Rightarrow> em_dash | h # _ \<Rightarrow> ah_status h)
      in if historyRows = [] \<and> hardwareRows = [] \<and> filter isBatteryAppRow rows = [] then None
         else Some
          \<lparr>av_charge = firstNonDash (map ah_charge (take 1 history) @ map aw_soc (take 1 hardware)),
           av_status = formatAndroidStatusLabel status, av_isCharging = isAndroidChargingStatus status,
           av_statusBadges = androidStatusBadges status (bth_plug hero) (bth_health hero), av_plug = bth_plug hero,
           av_temp = bth_temperature hero, av_volt = bth_voltage hero, av_current = bth_amperage hero,
           av_health = bth_health hero, av_heroStats = hero, av_history = take 12 history, av_hardware = take 8 hardware,
           av_topApps = map ai_app (take 8 apps), av_historyCount = length historyRows,
           av_hardwareCount = length hardwareRows, av_appCount = length (app_groups parse rows)\<rparr>)"

section \<open>The series\<close>

text \<open>Year and month (from 1) of a time in UTC, by the Gregorian calendar from 1 March of the year 0.\<close>

definition utc_month :: "int \<Rightarrow> int \<times> int" where
  "utc_month ms =
     (let z = ms div 86400000 + 719468; era = z div 146097; doe = z mod 146097;
          yoe = (doe - doe div 1460 + doe div 36524 - doe div 146096) div 365;
          doy = doe - (365 * yoe + yoe div 4 - yoe div 100); mp = (5 * doy + 2) div 153;
          month = (if mp < 10 then mp + 3 else mp - 9)
      in (yoe + era * 400 + (if month \<le> 2 then 1 else 0), month))"

definition month_day_re :: regex where
  "month_day_re = Seqs [Bol, Grp 1 two, Lit ''-'', Grp 2 two, One_of '' T'',
     Grp 3 (Seqs [two, Lit '':'', two, Lit '':'', two, Opt (Seq (Lit ''.'') (Plus Digit))])]"

definition bound_time :: "Dates \<Rightarrow> match \<Rightarrow> int \<Rightarrow> int option" where
  "bound_time D m year =
     date_parse D (int_str year @ ''-'' @ group_text 1 m @ ''-'' @ group_text 2 m @ ''T'' @ group_text 3 m @ ''Z'')"

definition parseAndroidBatterySeriesTimestamp :: "JsonParse \<Rightarrow> Dates \<Rightarrow> Row \<Rightarrow> int option" where
  "parseAndroidBatterySeriesTimestamp parse D row =
     (let eventT = parseBatterySeriesTimestamp parse D row; ext = parseExt parse row;
          raw = or_str (case map_of ext ''timestamp'' of Some (JStr s) \<Rightarrow> s | _ \<Rightarrow> []) (androidField row ext ''timestamp'');
          year = fst (utc_month (get_or (now_ms D) eventT));
          eventMonth = (case eventT of Some t \<Rightarrow> snd (utc_month t) | None \<Rightarrow> 0)
      in case exec month_day_re (trim raw) of
           None \<Rightarrow> eventT
         | Some m \<Rightarrow>
             (case bound_time D m year of
                None \<Rightarrow> eventT
              | Some t \<Rightarrow>
                  (let histMonth = group_int 1 m;
                       adjusted = (if eventMonth > 0 \<and> eventMonth \<le> 2 \<and> histMonth \<ge> 11 then bound_time D m (year - 1)
                         else if eventMonth \<ge> 11 \<and> histMonth \<le> 2 then bound_time D m (year + 1) else Some t)
                   in Some (get_or t adjusted))))"

definition android_charging :: "Row \<Rightarrow> Row \<Rightarrow> bool option" where
  "android_charging row ext =
     (let status = or_str (androidField row ext ''status'') (strField row ''action'');
          flags = (case map_of ext ''flags'' of Some (JArr fs) \<Rightarrow> map js_text fs | _ \<Rightarrow> []);
          of_status = (if isAndroidChargingStatus status then Some True
            else if contains ''discharg'' (to_lower status) then Some False else None)
      in or_else of_status
           (if ''+charging'' \<in> set flags \<or> ''+plugged'' \<in> set flags then Some True
            else if ''-charging'' \<in> set flags \<or> ''-plugged'' \<in> set flags then Some False else None))"

text \<open>\<open>text\<close> is \<open>toLocaleString\<close>.\<close>

definition android_point :: "JsonParse \<Rightarrow> Dates \<Rightarrow> (int \<Rightarrow> string) \<Rightarrow> Row \<Rightarrow> BatteryLevelPoint option" where
  "android_point parse D text row =
     (let ext = parseExt parse row;
          keys = (if isBatteryHistoryRow row then [''charge'', ''soc_percent'', ''msoc_percent'']
            else [''soc_percent'', ''msoc_percent'', ''ssoc_percent'', ''charge''])
      in if \<not> isBatteryHistoryRow row \<and> \<not> isBatteryHardwareRow row then None
         else point_at parse D text row (parseAndroidBatterySeriesTimestamp parse D row)
           (normalizeBatteryLevel (ratFromValue (androidExtField row ext keys))) (android_charging row ext))"

definition androidBatteryLevelSeriesFromRows ::
  "JsonParse \<Rightarrow> Dates \<Rightarrow> (int \<Rightarrow> string) \<Rightarrow> Row list \<Rightarrow> BatteryLevelPoint list" where
  "androidBatteryLevelSeriesFromRows parse D text rows = dedupBatterySeries (List.map_filter (android_point parse D text) rows)"

definition androidBatteryQuery :: "string \<Rightarrow> string" where
  "androidBatteryQuery source =
     ''source='' @ quoted (escapeMplString source) @ '' parser='' @ quoted ''Battery'' @
     '' | fields timestamp, datetime, message, data_type, bundle_id, action, ext | sort -timestamp | head 400''"

definition androidBatteryLevelQuery :: "string \<Rightarrow> string" where
  "androidBatteryLevelQuery source =
     ''source='' @ quoted (escapeMplString source) @ '' parser='' @ quoted ''Battery'' @
     '' (data_type='' @ quoted ''*battery_history*'' @ '' OR data_type='' @ quoted ''*battery_hardware*'' @
     '' OR message='' @ quoted ''Battery history*'' @ '' OR message='' @ quoted ''Battery kernel hardware*'' @ '') '' @
     ''| fields timestamp, datetime, message, data_type, action, ext | sort timestamp | head 4000''"

section \<open>Applications\<close>

definition app_name :: "AndroidBatteryAppInternal \<Rightarrow> string" where
  "app_name a = ap_package (ai_app a)"

definition drain_of :: "AndroidBatteryAppInternal \<Rightarrow> rat" where
  "drain_of a =
     of_int (ai_wakelockMs a) + of_int (ai_cpuMs a) * (85 / 100) + of_int (ai_jobTimeMs a) * (7 / 10)
       + of_int (ai_fgServiceMs a) * (1 / 2) + of_int (ai_networkBytes a) / 1024"

text \<open>An application with the highest numbers of those given, and the score they give.\<close>

definition peak_of :: "AndroidBatteryAppInternal list \<Rightarrow> AndroidBatteryAppInternal \<Rightarrow> bool" where
  "peak_of as a \<longleftrightarrow>
     ai_wakelockMs a = Max (ai_wakelockMs ` set as) \<and> ai_cpuMs a = Max (ai_cpuMs ` set as)
     \<and> ai_jobTimeMs a = Max (ai_jobTimeMs ` set as) \<and> ai_fgServiceMs a = Max (ai_fgServiceMs ` set as)
     \<and> ai_networkBytes a = Max (ai_networkBytes ` set as) \<and> ai_drainScore a = drain_of a"

lemma parsed_drain: "parseAppRow parse row = Some a \<Longrightarrow> ai_drainScore a = drain_of a"
  by (auto simp: parseAppRow_def Let_def formatAppFromMetrics_def androidBatteryDrainScore_def drain_of_def split: if_splits)

lemma merge_name [simp]: "app_name (mergeAppMetrics a b) = app_name a"
  by (simp add: app_name_def mergeAppMetrics_def formatAppFromMetrics_def)

lemma merge_numbers:
  "ai_wakelockMs (mergeAppMetrics a b) = max (ai_wakelockMs a) (ai_wakelockMs b)"
  "ai_cpuMs (mergeAppMetrics a b) = max (ai_cpuMs a) (ai_cpuMs b)"
  "ai_jobTimeMs (mergeAppMetrics a b) = max (ai_jobTimeMs a) (ai_jobTimeMs b)"
  "ai_fgServiceMs (mergeAppMetrics a b) = max (ai_fgServiceMs a) (ai_fgServiceMs b)"
  "ai_networkBytes (mergeAppMetrics a b) = max (ai_networkBytes a) (ai_networkBytes b)"
  "ai_drainScore (mergeAppMetrics a b) = drain_of (mergeAppMetrics a b)"
  by (simp_all add: mergeAppMetrics_def formatAppFromMetrics_def androidBatteryDrainScore_def drain_of_def)

lemma merged_peak: "ai_drainScore a = drain_of a \<Longrightarrow> peak_of (a # as) (foldl mergeAppMetrics a as) \<and> app_name (foldl mergeAppMetrics a as) = app_name a"
proof (induction as rule: rev_induct)
  case Nil
  then show ?case by (simp add: peak_of_def)
next
  case (snoc b as)
  have "Max (f ` set (a # as @ [b])) = max (Max (f ` set (a # as))) (f b)" for f :: "AndroidBatteryAppInternal \<Rightarrow> int"
  proof -
    have "f ` set (a # as @ [b]) = insert (f b) (f ` set (a # as))" by auto
    then show ?thesis using Max_insert [of "f ` set (a # as)" "f b"] by (simp only: max.commute) simp
  qed
  then show ?case using snoc by (simp add: peak_of_def merge_numbers)
qed

lemma app_group:
  assumes "(p, a) \<in> set (group_rows (\<lambda>a. Some (app_name a)) (\<lambda>a. a) mergeAppMetrics as)"
    and "\<And>b. b \<in> set as \<Longrightarrow> ai_drainScore b = drain_of b"
  shows "app_name a = p \<and> peak_of (filter (\<lambda>b. app_name b = p) as) a"
proof -
  obtain b bs where own: "filter (\<lambda>r. Some (app_name r) = Some p) as = b # bs" and a: "a = foldl mergeAppMetrics b bs"
    using assms(1) unfolding group_rows_member by (rule group_of_rows)
  have "b \<in> set (filter (\<lambda>r. Some (app_name r) = Some p) as)" by (simp only: own list.set_intros(1))
  then have "app_name b = p" "ai_drainScore b = drain_of b" using assms(2) by simp_all
  then show ?thesis using merged_peak [of b bs] own by (simp add: a)
qed

lemma by_drain: "sorted_wrt (\<lambda>a b. ai_drainScore b \<le> ai_drainScore a) (js_sort (compare_apps compare) as)"
  by (rule sort_by_relation) (auto simp: compare_apps_def rat_sign_def split: if_splits)


section \<open>Words in words\<close>

text \<open>A battery that is not charging is labelled so, and shown as charging.\<close>

lemma not_charging_shown_charging:
  "formatAndroidStatusLabel ''Not charging'' = ''Not charging''" "isAndroidChargingStatus ''Not charging''"
  by code_simp+

text \<open>Of two points of one time the later row is kept, be it of history or of hardware.\<close>

lemma later_row_kept: "bl_t p = bl_t q \<Longrightarrow> dedupBatterySeries [p, q] = [q]"
  by (simp add: dedupBatterySeries_def js_sort_def dedup_step_def)

end
