(* ===== verification/Spec2Isabelle.thy ===== *)
theory Spec2Isabelle
  imports MplFacts MplHighlight DashboardFacts CaseDashboardFacts IngestUploadFacts Reingest
    AccessControl ApiClientFacts TextDiff NetworkFacts CaseComparison
    SyncFacts Webauthn LockFacts IosLockFacts PowerHistory ProcessFacts CrashFacts PackageFacts
    EntityFacts InstallFacts AuthFacts EnrichmentFacts SearchFacts PanelFacts
    Accounts DeletedPackages DevicePolicy VpnStatus NetworkUsage IosParserData
    BatteryIos BatteryAndroid
begin

text \<open>
  \<^bold>\<open>The mobipwn web client.\<close> Mobipwn collects and searches artefacts of mobile devices: Rust services
  ingest archives and answer queries in the query language mPL, a React client (\<open>src/mobipwn-web\<close>)
  shows them. This development models the client's own logic, the modules of
  \<open>src/mobipwn-web/src/lib\<close>, and proves what the pages rely on.

  \<^bold>\<open>Parts and how they interact.\<close> A page holds query texts; \<open>mplQuery.ts\<close> and
  \<open>mplFormat.ts\<close> split, format and extend them, and escape the values that other modules
  put into them: dashboards (\<open>dashboard.ts\<close>), the dashboards of a case (\<open>caseDashboard.ts\<close>,
  kept in local storage), alert triage and the network pages. Requests go through a
  wrapper of \<open>fetch\<close> that adds the session token (\<open>auth.ts\<close>) and one that writes
  the activity log (\<open>activity-log.ts\<close>); replies are read by \<open>response.ts\<close>. An archive is
  uploaded in chunks and its job is polled (\<open>ingestUpload.ts\<close>, \<open>ingestJobClient.ts\<close>,
  \<open>reingestWithProgress.ts\<close>), each of which reports progress and logs.

  \<^bold>\<open>Theories.\<close> Each theory is named after what it models and says at its head which files that is.

  \<^item> \<open>Prelude\<close>: strings, numbers as text, the collation order, and the locale \<open>kv_store\<close> of
    local storage. \<open>Regex\<close>: a backtracking matcher for the patterns of the source, with captures;
    its repetition is bounded by the length of the text, which is enough since a round that consumes
    nothing is dropped (\<open>iterate_fuel\<close>).
  \<^item> \<open>MplQuery\<close>, \<open>MplFacts\<close>: \<open>mplQuery.ts\<close>, \<open>mplFormat.ts\<close>, \<open>ruleSandbox.ts\<close>. Formatting keeps
    the structure and is idempotent; escaped values read back (locale \<open>mpl_escaper\<close>, interpreted on
    every escape function of the client); deep links decode to their parameters.
  \<^item> \<open>MplHighlight\<close>: the tokenizer of \<open>mplQueryHighlight.ts\<close> (locale \<open>lexer\<close>): tokens spell the text.
  \<^item> \<open>Dashboard\<close>, \<open>DashboardFacts\<close>: \<open>dashboard.ts\<close>. The document that every page shares is a state that
    loading takes and returns, since the code assigns to it.
  \<^item> \<open>CaseDashboard\<close>, \<open>CaseDashboardFacts\<close>: \<open>caseDashboard.ts\<close>: the default panels of every platform
    and section, scoping to a case, saved layouts.
  \<^item> \<open>ActivityLog\<close>, \<open>IngestActivity\<close>: \<open>activity-log.ts\<close>, \<open>ingestActivity.ts\<close>: a state of entries,
    listeners and queued microtasks; the log refines the list of the latest 300 entries.
  \<^item> \<open>IngestProgress\<close>, \<open>IngestUpload\<close>, \<open>IngestUploadFacts\<close>: the progress of an ingest (locale \<open>stepper\<close>)
    and the upload. Server, clock and digest are an environment; the loops end because an offset
    grows and because a clock reaches its deadline (measures in \<open>IngestUpload\<close>).
  \<^item> \<open>Reingest\<close>: \<open>reingestWithProgress.ts\<close> with the poll loop of \<open>ingestJobClient.ts\<close>: an inductive step
    relation over the turns of the event loop, its invariant and its runs.
  \<^item> \<open>IpResolve\<close>: \<open>ipResolve.ts\<close>. \<open>RowExt\<close>, \<open>NetworkOwner\<close>, \<open>NetworkFlow\<close>, \<open>NetworkFacts\<close>: the network
    pages (\<open>rowExt.ts\<close>, \<open>networkOwner.ts\<close>, \<open>networkUidHints.ts\<close>, \<open>networkSockets.ts\<close>,
    \<open>networkFlow.ts\<close>). \<open>Grouping\<close> collects rows into a \<open>Map\<close>; its locale \<open>additive_group\<close> is interpreted
    on the aggregations, so that no row is lost or counted twice.
  \<^item> \<open>AccessControl\<close>: \<open>permissions.ts\<close>. \<open>ApiClient\<close>, \<open>ApiClientFacts\<close>: \<open>response.ts\<close>, \<open>api.ts\<close>, \<open>auth.ts\<close>
    and the calls of \<open>apiKeys.ts\<close>, \<open>alerts.ts\<close>, \<open>shortUrl.ts\<close>, \<open>ruleRun.ts\<close>: errors, the session
    (a second client of \<open>kv_store\<close>), and which requests carry the token.
  \<^item> \<open>TextDiff\<close>: \<open>textDiff.ts\<close>. \<open>Alerts\<close>, \<open>AlertsFacts\<close>: \<open>alertTriage.ts\<close>, \<open>formatRelative.ts\<close>.
    \<open>CaseComparison\<close>: \<open>caseComparison.ts\<close>.
  \<^item> \<open>StreamText\<close>: text that comes in pieces, the UTF-8 decoder and the split into lines (locales
    \<open>incremental\<close> and \<open>incremental_pipe\<close>: feeding pieces one by one is feeding their concatenation).
    \<open>SyncStream\<close>, \<open>SyncFacts\<close>: \<open>marketplaceSync.ts\<close>, whose outcome does not depend on the cuts.
    \<open>Webauthn\<close>: \<open>webauthn.ts\<close>, base64url and the conversion of the options.
  \<^item> \<open>Ordering\<close>: what a stable sort with a comparator gives (locale \<open>comparator\<close>) and the first row
    of every key. \<open>LockTimeline\<close>, \<open>LockFacts\<close>: \<open>lockUnlockTimeline.ts\<close> on rational numbers.
    \<open>IosLockState\<close>, \<open>IosLockFacts\<close>: \<open>iosLockState.ts\<close>. \<open>PowerHistory\<close>: \<open>powerHistory.ts\<close>.
  \<^item> \<open>ProcessSnapshot\<close>, \<open>ProcessFacts\<close>: \<open>processSnapshot.ts\<close>: rows are merged into processes whose blanks are
    filled, and drawn on a time line. \<open>CrashTraces\<close>, \<open>CrashFacts\<close>: \<open>crashTraces.ts\<close>: structured reports,
    flattened fields, ranked symbols.
  \<^item> \<open>RowTime\<close>: the time of a row (\<open>rowExt.ts\<close>). \<open>TccServices\<close>: \<open>iosTccServices.ts\<close>. \<open>PackageSnapshot\<close>,
    \<open>PackageFacts\<close>: \<open>packageSnapshot.ts\<close>: installed packages, merged by bundle and sorted with a
    \<open>localeCompare\<close> that obeys the locale \<open>collator\<close> of \<open>Ordering\<close>, and the package of a process.
  \<^item> \<open>EntityGraph\<close>, \<open>EntityFacts\<close>: \<open>entityFilter.ts\<close>, \<open>entitySearch.ts\<close>, \<open>entityColors.ts\<close>: the filter of
    a graph is closed and idempotent; entity searches read back (a further \<open>mpl_escaper\<close>).
  \<^item> \<open>MobileInstall\<close>, \<open>InstallFacts\<close>: \<open>mobileInstallTimeline.ts\<close>, whose list fails on a time that no date
    has, and \<open>apkDaily.ts\<close>. \<open>Tally\<close>: values counted in a \<open>Map\<close> and the most frequent of them.
    \<open>AuthEvents\<close>, \<open>AuthFacts\<close>: \<open>authenticationEvents.ts\<close>, on dates with locale texts.
  \<^item> \<open>Enrichment\<close>, \<open>EnrichmentFacts\<close>: \<open>enrichment.ts\<close>: the lookups of the enrichment providers go into a
    query once. \<open>SearchColumns\<close>, \<open>ColumnFacts\<close>: \<open>searchColumns.ts\<close> and the stored choice of columns.
    \<open>SearchPage\<close>, \<open>SearchFacts\<close>: \<open>resultFilter.ts\<close> over a compiler of patterns, with the
    \<open>lastIndex\<close> of a global one as state, and the completion of queries (\<open>mpl-autocomplete.ts\<close>,
    \<open>mpl-tokens.ts\<close>, \<open>mpl-fields.ts\<close>). \<open>PanelData\<close>, \<open>PanelFacts\<close>: \<open>dashboardPanelData.ts\<close>, the data of
    the charts, with the bucket times of \<open>timelineFormat.ts\<close>.
  \<^item> \<open>LatestMap\<close>: a \<open>Map\<close> filled by \<open>set\<close> (locale \<open>upsert_fold\<close>: a loop over rows leaves the last value
    of every key). Its clients are the state of a device read from its rows: \<open>Accounts\<close> (\<open>accountSnapshot.ts\<close>), \<open>AdbStatus\<close> (\<open>adbStatus.ts\<close>, whose patches
    applied in turn are all rows read at once), \<open>DevicePolicy\<close> (\<open>devicePolicy.ts\<close>) and
    \<open>VpnStatus\<close> (\<open>vpnSnapshot.ts\<close>). \<open>DeletedPackages\<close>: \<open>deletedPackages.ts\<close>.
    \<open>NetworkUsage\<close>: \<open>networkUsage.ts\<close>, where merging loses no traffic (four further
    clients of \<open>additive_group\<close>).
  \<^item> \<open>JsNumber\<close>: \<open>toFixed\<close> of a quotient of whole numbers, through the nearest double (\<open>nearest_double\<close>;
    its 1053 doublings are enough for divisors up to \<open>2 ^ 1000\<close>).
    \<open>IosRows\<close>: \<open>iosDeviceSnapshot.ts\<close>. \<open>IosNetwork\<close>: \<open>iosNetworkData.ts\<close>, whose readers
    are instances of one loop (\<open>listed_once\<close>) and whose roll-up of domains loses no mention.
    \<open>IosParserData\<close>: \<open>iosParserData.ts\<close>: keychain, permissions, wireless scans.
  \<^item> \<open>batteryPanel.ts\<close>: \<open>BatterySeries\<close> (the level over time, its thinning, the
    stretches of charging), \<open>BatteryIos\<close> (fields merged by family and shown once) and
    \<open>BatteryAndroid\<close> (applications ranked by their highest numbers).

  \<^bold>\<open>Conventions.\<close> Definitions keep the names of the source. A JavaScript string is a list of
  characters (ASCII; other literals are spelled by their UTF-8 bytes), an integral number an \<open>int\<close> or
  \<open>nat\<close>, an optional or nullable value an \<open>option\<close>, an exception the left summand of a sum. Module
  variables and storage are states that the operations take and return. What the client does not own is
  an argument: the server's replies, clocks and ids, \<open>JSON.parse\<close>, the date parser,
  \<open>localeCompare\<close> (where no order on ASCII is modelled), SHA-256, and the differs of the package
  \<open>diff\<close>, of which the documented law is a named hypothesis (\<open>differ\<close>).

  \<^bold>\<open>Not modelled.\<close> The Rust services and the collectors (another language); the React pages, components,
  hooks and contexts (\<open>.tsx\<close>: layout and wiring around the modules above); the translations
  (\<open>i18n\<close>), guides and themes (tables of text); the vendored device bridges and what
  drives a device over USB (\<open>idevice.ts\<close>, \<open>webadb.ts\<close>, \<open>androidCollector.ts\<close> and others: I/O); and, of
  the library, the other readers of device snapshots (memory, storage, USB, logs and others), the
  layout of the entity graph (floating point), and the remaining request wrappers.
\<close>

end
